(* ===== verification/Prelude.thy ===== *)
theory Prelude
  imports Main "HOL-Library.Word" "HOL-Library.Multiset" "HOL-Library.List_Lexorder"
    "HOL-Library.Char_ord"
begin

text \<open>
  Shared vocabulary of the dwpk development: the Go standard library's string functions at the
  byte level, Go maps as association lists in iteration order, signed 32-bit counters, the
  error-returning calling convention, and the generic list lemmas the components use.

  A Go string is a sequence of bytes and so is an Isabelle \<open>string\<close>. Whitespace is what
  \<^verbatim>\<open>unicode.IsSpace\<close> accepts, recognised on its UTF-8 encoding.
\<close>

named_theorems gostr \<open>rewrite rules for the string functions\<close>
named_theorems admits \<open>characterisations of the admission predicates\<close>

section \<open>Types shared by every component\<close>

text \<open>A Go map that the code iterates: its entries in the order the iteration visits them.\<close>

type_synonym 'v gomap = "(string \<times> 'v) list"

text \<open>A Go map that is only read and written by key.\<close>

type_synonym strmap = "string \<rightharpoonup> string"

text \<open>\<^verbatim>\<open>time.Time\<close> and \<^verbatim>\<open>time.Duration\<close>, in nanoseconds.\<close>

type_synonym gotime = int
type_synonym duration = int

text \<open>
  Opaque fragments of Kubernetes objects that the code copies without looking inside (a toleration,
  an affinity, a volume source): their JSON.
\<close>

datatype json =
    JNull | JBool bool | JNum int | JStr string | JArr "json list" | JObj "(string \<times> json) list"

text \<open>
  The errors a Kubernetes client call can return, as far as the code tells them apart
  (\<^verbatim>\<open>apierrors.IsNotFound\<close>, \<^verbatim>\<open>IsAlreadyExists\<close>, \<^verbatim>\<open>IsConflict\<close>, the rest with its message).
\<close>

datatype apierr = NotFound | AlreadyExists | Conflict | ApiErr string

fun IsNotFound :: "apierr \<Rightarrow> bool" where
  "IsNotFound NotFound = True"
| "IsNotFound _ = False"

text \<open>
  The idiom \<^verbatim>\<open>if err := f(); err != nil { return err }\<close> on a function that returns only an error:
  \<open>None\<close> is nil, and the first non-nil error wins.
\<close>

definition check :: "'e option \<Rightarrow> 'e option \<Rightarrow> 'e option" where
  "check err rest = (case err of Some e \<Rightarrow> Some e | None \<Rightarrow> rest)"

lemma check_None_iff [admits]: "check a b = None \<longleftrightarrow> a = None \<and> b = None"
  by (simp add: check_def split: option.split)

lemma check_simps [simp]: "check None b = b" "check (Some e) b = Some e"
  by (simp_all add: check_def)

section \<open>The strings package\<close>

definition HasPrefix :: "string \<Rightarrow> string \<Rightarrow> bool" where
  "HasPrefix s p \<longleftrightarrow> take (length p) s = p"

definition HasSuffix :: "string \<Rightarrow> string \<Rightarrow> bool" where
  "HasSuffix s p \<longleftrightarrow> length p \<le> length s \<and> drop (length s - length p) s = p"

definition TrimPrefix :: "string \<Rightarrow> string \<Rightarrow> string" where
  "TrimPrefix s p = (if HasPrefix s p then drop (length p) s else s)"

definition CutPrefix :: "string \<Rightarrow> string \<Rightarrow> string option" where
  "CutPrefix s p = (if HasPrefix s p then Some (drop (length p) s) else None)"

text \<open>\<^verbatim>\<open>strings.Cut\<close> with a one-byte separator; \<open>None\<close> is \<^verbatim>\<open>found == false\<close>.\<close>

fun Cut :: "string \<Rightarrow> char \<Rightarrow> (string \<times> string) option" where
  "Cut [] sep = None"
| "Cut (c # cs) sep =
     (if c = sep then Some ([], cs)
      else case Cut cs sep of None \<Rightarrow> None | Some (a, b) \<Rightarrow> Some (c # a, b))"

definition ContainsAny :: "string \<Rightarrow> string \<Rightarrow> bool" where
  "ContainsAny s cs \<longleftrightarrow> list_ex (\<lambda>c. c \<in> set cs) s"

fun Join :: "string list \<Rightarrow> string \<Rightarrow> string" where
  "Join [] sep = []"
| "Join [x] sep = x"
| "Join (x # y # ys) sep = x @ sep @ Join (y # ys) sep"

text \<open>\<^verbatim>\<open>strings.Trim\<close> with a one-byte cutset.\<close>

definition TrimChar :: "string \<Rightarrow> char \<Rightarrow> string" where
  "TrimChar s c = rev (dropWhile (\<lambda>x. x = c) (rev (dropWhile (\<lambda>x. x = c) s)))"

text \<open>The UTF-8 encodings of the code points \<^verbatim>\<open>unicode.IsSpace\<close> accepts.\<close>

definition space_seqs :: "string list" where
  "space_seqs =
     [[CHR 0x09], [CHR 0x0A], [CHR 0x0B], [CHR 0x0C], [CHR 0x0D], [CHR 0x20],
      [CHR 0xC2, CHR 0x85], [CHR 0xC2, CHR 0xA0], [CHR 0xE1, CHR 0x9A, CHR 0x80],
      [CHR 0xE2, CHR 0x80, CHR 0x80], [CHR 0xE2, CHR 0x80, CHR 0x81],
      [CHR 0xE2, CHR 0x80, CHR 0x82], [CHR 0xE2, CHR 0x80, CHR 0x83],
      [CHR 0xE2, CHR 0x80, CHR 0x84], [CHR 0xE2, CHR 0x80, CHR 0x85],
      [CHR 0xE2, CHR 0x80, CHR 0x86], [CHR 0xE2, CHR 0x80, CHR 0x87],
      [CHR 0xE2, CHR 0x80, CHR 0x88], [CHR 0xE2, CHR 0x80, CHR 0x89],
      [CHR 0xE2, CHR 0x80, CHR 0x8A], [CHR 0xE2, CHR 0x80, CHR 0xA8],
      [CHR 0xE2, CHR 0x80, CHR 0xA9], [CHR 0xE2, CHR 0x80, CHR 0xAF],
      [CHR 0xE2, CHR 0x81, CHR 0x9F], [CHR 0xE3, CHR 0x80, CHR 0x80]]"

text \<open>How many bytes of white space the string starts, or ends, with (one code point's worth).\<close>

definition space_len :: "string \<Rightarrow> nat" where
  "space_len s = (case find (\<lambda>w. HasPrefix s w) space_seqs of None \<Rightarrow> 0 | Some w \<Rightarrow> length w)"

definition space_len_end :: "string \<Rightarrow> nat" where
  "space_len_end s = (case find (\<lambda>w. HasSuffix s w) space_seqs of None \<Rightarrow> 0 | Some w \<Rightarrow> length w)"

lemma space_seqs_nonempty: "w \<in> set space_seqs \<Longrightarrow> w \<noteq> []"
  by (auto simp: space_seqs_def)

lemma find_SomeE: "find P xs = Some x \<Longrightarrow> x \<in> set xs \<and> P x"
  by (auto simp: find_Some_iff)

lemma space_len_le: "space_len s \<le> length s"
  by (auto simp: space_len_def HasPrefix_def split: option.splits dest!: find_SomeE)
    (metis length_take min.cobounded1)

lemma space_len_end_le: "space_len_end s \<le> length s"
  by (auto simp: space_len_end_def HasSuffix_def split: option.splits dest!: find_SomeE)

function TrimLeftSpace :: "string \<Rightarrow> string" where
  "TrimLeftSpace s = (if space_len s = 0 then s else TrimLeftSpace (drop (space_len s) s))"
  by pat_completeness auto
termination
proof (relation "measure length")
  fix s assume "space_len s \<noteq> 0"
  then show "(drop (space_len s) s, s) \<in> measure length"
    using space_len_le [of s] by simp
qed simp

function TrimRightSpace :: "string \<Rightarrow> string" where
  "TrimRightSpace s =
     (if space_len_end s = 0 then s else TrimRightSpace (take (length s - space_len_end s) s))"
  by pat_completeness auto
termination
proof (relation "measure length")
  fix s assume "space_len_end s \<noteq> 0"
  then show "(take (length s - space_len_end s) s, s) \<in> measure length"
    using space_len_end_le [of s] by simp
qed simp

declare TrimLeftSpace.simps [simp del] TrimRightSpace.simps [simp del]

definition TrimSpace :: "string \<Rightarrow> string" where
  "TrimSpace s = TrimRightSpace (TrimLeftSpace s)"

text \<open>\<^verbatim>\<open>strings.Fields\<close>: \<open>cur\<close> is the field being read.\<close>

function fields_from :: "string \<Rightarrow> string \<Rightarrow> string list" where
  "fields_from cur s =
     (if s = [] then (if cur = [] then [] else [cur])
      else if space_len s = 0 then fields_from (cur @ [hd s]) (tl s)
      else (if cur = [] then [] else [cur]) @ fields_from [] (drop (space_len s) s))"
  by pat_completeness auto
termination
proof (relation "measure (\<lambda>(cur, s). length s)")
  fix cur :: string and s :: string
  assume "s \<noteq> []" "space_len s \<noteq> 0"
  then show "(([], drop (space_len s) s), (cur, s)) \<in> measure (\<lambda>(cur, s). length s)"
    by (cases s) auto
qed auto

declare fields_from.simps [simp del]

definition Fields :: "string \<Rightarrow> string list" where
  "Fields s = fields_from [] s"

text \<open>\<^verbatim>\<open>strconv.FormatInt(n, 10)\<close>.\<close>

definition digit_char :: "nat \<Rightarrow> char" where
  "digit_char n = char_of (48 + n)"

fun show_nat :: "nat \<Rightarrow> string" where
  "show_nat n = (if n < 10 then [digit_char n] else show_nat (n div 10) @ [digit_char (n mod 10)])"

declare show_nat.simps [simp del]

definition FormatInt :: "int \<Rightarrow> string" where
  "FormatInt i = (if i < 0 then ''-'' @ show_nat (nat (- i)) else show_nat (nat i))"

definition FormatBool :: "bool \<Rightarrow> string" where
  "FormatBool b = (if b then ''true'' else ''false'')"

text \<open>
  The verb \<^verbatim>\<open>%q\<close>: quotes, with quote, backslash and control characters escaped. Bytes from 0x80 on are
  copied, as in valid UTF-8 of printable characters.
\<close>

definition hex_char :: "nat \<Rightarrow> char" where
  "hex_char n = char_of (if n < 10 then 48 + n else 87 + n)"

definition quoteChar :: "char \<Rightarrow> string" where
  "quoteChar c =
     (let n = of_char c :: nat; bs = CHR 0x5C in
      if c = CHR 0x22 \<or> c = bs then [bs, c]
      else if n = 7 then [bs, CHR ''a''] else if n = 8 then [bs, CHR ''b''] else if n = 9 then [bs, CHR ''t'']
      else if n = 10 then [bs, CHR ''n''] else if n = 11 then [bs, CHR ''v''] else if n = 12 then [bs, CHR ''f'']
      else if n = 13 then [bs, CHR ''r'']
      else if n < 32 \<or> n = 127 then [bs, CHR ''x'', hex_char (n div 16), hex_char (n mod 16)]
      else [c])"

definition goQuote :: "string \<Rightarrow> string" where
  "goQuote s = [CHR 0x22] @ concat (map quoteChar s) @ [CHR 0x22]"

section \<open>Machine integers\<close>

text \<open>A Go \<^verbatim>\<open>int32\<close> result: the mathematical value wrapped into the signed 32-bit range.\<close>

definition wrap32 :: "int \<Rightarrow> int" where
  "wrap32 i = (i + 2 ^ 31) mod 2 ^ 32 - 2 ^ 31"

lemma wrap32_id: "- (2 ^ 31) \<le> i \<Longrightarrow> i < 2 ^ 31 \<Longrightarrow> wrap32 i = i"
  by (simp add: wrap32_def)

lemma wrap32_succ: "wrap32 (wrap32 i + j) = wrap32 (i + j)"
proof -
  have "wrap32 i + j + 2 ^ 31 = (i + 2 ^ 31) mod 2 ^ 32 + j" by (simp add: wrap32_def)
  moreover have "((i + 2 ^ 31) mod 2 ^ 32 + j) mod 2 ^ 32 = (i + 2 ^ 31 + j) mod (2 ^ 32 :: int)"
    by (rule mod_add_left_eq)
  ultimately have "(wrap32 i + j + 2 ^ 31) mod 2 ^ 32 = (i + j + 2 ^ 31) mod 2 ^ 32"
    by (simp only: ac_simps)
  then show ?thesis unfolding wrap32_def [of "wrap32 i + j"] wrap32_def [of "i + j"] by simp
qed

lemma wrap32_range: "- (2 ^ 31) \<le> wrap32 i \<and> wrap32 i < 2 ^ 31"
  using pos_mod_bound [of "2 ^ 32" "i + 2 ^ 31"] pos_mod_sign [of "2 ^ 32" "i + 2 ^ 31"]
  by (simp add: wrap32_def)

section \<open>Lemmas on the string functions\<close>

lemma HasPrefix_append [gostr]: "HasPrefix (p @ s) p"
  by (simp add: HasPrefix_def)

lemma HasPrefix_iff: "HasPrefix s p \<longleftrightarrow> (\<exists>r. s = p @ r)"
  unfolding HasPrefix_def by (metis append_eq_conv_conj append_take_drop_id)

lemma HasSuffix_iff: "HasSuffix s p \<longleftrightarrow> (\<exists>r. s = r @ p)"
proof
  assume "HasSuffix s p"
  then have "s = take (length s - length p) s @ p"
    unfolding HasSuffix_def by (metis append_take_drop_id)
  then show "\<exists>r. s = r @ p" ..
qed (auto simp: HasSuffix_def)

lemma TrimPrefix_append [gostr]: "TrimPrefix (p @ s) p = s"
  by (simp add: TrimPrefix_def gostr)

lemma CutPrefix_Some_iff: "CutPrefix s p = Some r \<longleftrightarrow> s = p @ r"
  by (auto simp: CutPrefix_def HasPrefix_iff)

lemma Cut_Some: "Cut s c = Some (a, b) \<Longrightarrow> s = a @ c # b \<and> c \<notin> set a"
  by (induction s c arbitrary: a b rule: Cut.induct) (auto split: if_splits option.splits)

lemma Cut_append: "c \<notin> set a \<Longrightarrow> Cut (a @ c # b) c = Some (a, b)"
  by (induction a) auto

lemma Cut_None: "Cut s c = None \<longleftrightarrow> c \<notin> set s"
  by (induction s c rule: Cut.induct) (auto split: option.splits)

lemma space_len_0_iff: "space_len s = 0 \<longleftrightarrow> (\<forall>w\<in>set space_seqs. \<not> HasPrefix s w)"
proof (cases "find (\<lambda>w. HasPrefix s w) space_seqs")
  case None
  then have "\<not> (\<exists>w. w \<in> set space_seqs \<and> HasPrefix s w)" by (simp add: find_None_iff)
  with None show ?thesis by (auto simp: space_len_def)
next
  case (Some w)
  with find_SomeE [OF Some] space_seqs_nonempty [of w] show ?thesis
    by (auto simp: space_len_def)
qed

lemma space_len_end_0_iff: "space_len_end s = 0 \<longleftrightarrow> (\<forall>w\<in>set space_seqs. \<not> HasSuffix s w)"
proof (cases "find (\<lambda>w. HasSuffix s w) space_seqs")
  case None
  then have "\<not> (\<exists>w. w \<in> set space_seqs \<and> HasSuffix s w)" by (simp add: find_None_iff)
  with None show ?thesis by (auto simp: space_len_end_def)
next
  case (Some w)
  with find_SomeE [OF Some] space_seqs_nonempty [of w] show ?thesis
    by (auto simp: space_len_end_def)
qed

lemma space_len_TrimLeft: "space_len (TrimLeftSpace s) = 0"
proof (induction s rule: TrimLeftSpace.induct)
  case (1 s)
  then show ?case by (cases "space_len s = 0") (simp_all add: TrimLeftSpace.simps [of s])
qed

lemma space_len_end_TrimRight: "space_len_end (TrimRightSpace s) = 0"
proof (induction s rule: TrimRightSpace.induct)
  case (1 s)
  then show ?case by (cases "space_len_end s = 0") (simp_all add: TrimRightSpace.simps [of s])
qed

lemma TrimRight_prefix: "\<exists>r. s = TrimRightSpace s @ r"
proof (induction s rule: TrimRightSpace.induct)
  case (1 s)
  show ?case
  proof (cases "space_len_end s = 0")
    case False
    let ?t = "take (length s - space_len_end s) s"
    from False "1.IH" obtain r where "?t = TrimRightSpace ?t @ r" by blast
    then have "s = TrimRightSpace ?t @ (r @ drop (length s - space_len_end s) s)"
      by (metis append.assoc append_take_drop_id)
    with False show ?thesis by (auto simp: TrimRightSpace.simps [of s])
  qed (simp add: TrimRightSpace.simps [of s])
qed

lemma space_len_prefix: "space_len (a @ b) = 0 \<Longrightarrow> space_len a = 0"
  unfolding space_len_0_iff HasPrefix_iff by auto

lemma TrimSpace_no_lead: "space_len (TrimSpace s) = 0"
  unfolding TrimSpace_def
  using TrimRight_prefix [of "TrimLeftSpace s"] space_len_TrimLeft [of s]
  by (metis space_len_prefix)

lemma TrimSpace_no_trail: "space_len_end (TrimSpace s) = 0"
  by (simp add: TrimSpace_def space_len_end_TrimRight)

lemma TrimSpace_idem [gostr]: "TrimSpace (TrimSpace s) = TrimSpace s"
proof -
  have "TrimLeftSpace (TrimSpace s) = TrimSpace s"
    using TrimSpace_no_lead [of s] by (subst TrimLeftSpace.simps) simp
  moreover have "TrimRightSpace (TrimSpace s) = TrimSpace s"
    using TrimSpace_no_trail [of s] by (subst TrimRightSpace.simps) simp
  ultimately show ?thesis by (subst TrimSpace_def) simp
qed

section \<open>Lists and association lists\<close>

lemma foldl_skip: "foldl (\<lambda>u x. if P x then u else f u x) u xs = foldl f u (filter (\<lambda>x. \<not> P x) xs)"
  by (induction xs arbitrary: u) auto

lemma map_factor:
  "(\<And>a b. g a = g b \<Longrightarrow> f a = f b) \<Longrightarrow> map g xs = map g ys \<Longrightarrow> map f xs = map f ys"
  by (rule nth_equalityI) (metis length_map, metis length_map nth_map)

lemma concat_map_Nil_iff: "concat (map f xs) = [] \<longleftrightarrow> (\<forall>x\<in>set xs. f x = [])"
  by (induction xs) auto

lemma ball_enumerate: "(\<forall>p\<in>set (enumerate n xs). P (snd p)) \<longleftrightarrow> (\<forall>x\<in>set xs. P x)"
  by (induction xs arbitrary: n) auto

text \<open>An additive reading of an accumulator: what a loop of \<open>step\<close> adds up.\<close>

locale meter =
  fixes read :: "'u \<Rightarrow> 'v :: comm_monoid_add"
    and step :: "'u \<Rightarrow> 'w \<Rightarrow> 'u"
    and cost :: "'w \<Rightarrow> 'v"
  assumes read_step: "read (step u w) = read u + cost w"
begin

lemma read_foldl: "read (foldl step u ws) = read u + sum_list (map cost ws)"
  by (induction ws arbitrary: u) (simp_all add: read_step ac_simps)

end

lemma sum_list_map_filter_split:
  "sum_list (map f (filter P xs)) + sum_list (map f (filter (\<lambda>x. \<not> P x) xs)) =
   (sum_list (map f xs) :: 'a :: comm_monoid_add)"
  by (induction xs) (auto simp: ac_simps)

section \<open>Reachable states\<close>

inductive reach :: "('s \<Rightarrow> bool) \<Rightarrow> ('s \<Rightarrow> 's \<Rightarrow> bool) \<Rightarrow> 's \<Rightarrow> bool"
  for init :: "'s \<Rightarrow> bool" and step :: "'s \<Rightarrow> 's \<Rightarrow> bool" where
  reach_start: "init s \<Longrightarrow> reach init step s"
| reach_next: "reach init step s \<Longrightarrow> step s t \<Longrightarrow> reach init step t"

text \<open>A component's transition system together with a property that every step keeps.\<close>

locale preserved =
  fixes init :: "'s \<Rightarrow> bool"
    and step :: "'s \<Rightarrow> 's \<Rightarrow> bool"
    and inv :: "'s \<Rightarrow> bool"
  assumes inv_start: "init s \<Longrightarrow> inv s"
    and inv_next: "inv s \<Longrightarrow> step s t \<Longrightarrow> inv t"
begin

lemma inv_reach: "reach init step s \<Longrightarrow> inv s"
  by (induction rule: reach.induct) (auto intro: inv_start inv_next)

end

text \<open>
  A transition system that implements another: every start is a start of the specification and every
  step is matched by some number of its steps.
\<close>

locale implements =
  fixes init :: "'s \<Rightarrow> bool"
    and step :: "'s \<Rightarrow> 's \<Rightarrow> bool"
    and ainit :: "'a \<Rightarrow> bool"
    and astep :: "'a \<Rightarrow> 'a \<Rightarrow> bool"
    and absf :: "'s \<Rightarrow> 'a"
  assumes sim_start: "init s \<Longrightarrow> ainit (absf s)"
    and sim_next: "step s t \<Longrightarrow> astep\<^sup>*\<^sup>* (absf s) (absf t)"
begin

lemma reach_steps: "astep\<^sup>*\<^sup>* a b \<Longrightarrow> reach ainit astep a \<Longrightarrow> reach ainit astep b"
  by (induction rule: rtranclp_induct) (auto intro: reach_next)

lemma refines: "reach init step s \<Longrightarrow> reach ainit astep (absf s)"
  by (induction rule: reach.induct) (auto intro: reach_start sim_start reach_steps sim_next)

end

end
