(* ===== verification/ApiTypes.thy ===== *)
theory ApiTypes
  imports Prelude
begin

text \<open>
  The API types of \<^verbatim>\<open>src/api/v1alpha1\<close>: UserSpace, Workspace, WorkspaceImage, ImageRegistry and
  PlatformConfig as records, with the accessor methods the operator, the webhooks, the gateway and
  the UI share.

  \<^verbatim>\<open>resource.Quantity\<close> is not code of this repository: it is the type parameter \<open>'q\<close> of every
  record that holds one. Where the code adds quantities, compares them (\<^verbatim>\<open>Add\<close>, \<^verbatim>\<open>Cmp\<close>) or makes
  one from an integer (\<^verbatim>\<open>NewQuantity\<close>), the definitions ask for the sort \<open>linordered_idom\<close>, the
  exact ordered arithmetic that the Quantity documentation promises; the witnesses use \<open>int\<close>.

  \<^verbatim>\<open>metav1.ObjectMeta\<close> is cut to the fields the code reads. Absent pointers are \<open>None\<close>.
\<close>

section \<open>Object metadata and conditions\<close>

record objectmeta =
  m_name :: string
  m_namespace :: string
  m_labels :: strmap
  m_annotations :: strmap
  m_generation :: int
  m_deletion :: "gotime option"

definition meta0 :: "string \<Rightarrow> string \<Rightarrow> objectmeta" where
  "meta0 ns n = \<lparr>m_name = n, m_namespace = ns, m_labels = Map.empty, m_annotations = Map.empty,
     m_generation = 0, m_deletion = None\<rparr>"

record condition =
  c_type :: string
  c_status :: bool
  c_reason :: string
  c_message :: string
  c_generation :: int

section \<open>UserSpace\<close>

record 'q userspace_quota =
  q_cpu :: 'q
  q_memory :: 'q
  q_storage :: 'q
  q_gpu :: int
  q_workspaces :: int

record 'q userspace_spec =
  us_owner :: string
  us_username :: string
  us_email :: string
  us_namespace :: string
  us_keys :: "string list"
  us_quota :: "'q userspace_quota"
  us_networkPolicy :: string
  us_role :: string
  us_disabled :: bool
  us_onboarding :: "gotime option"

record userspace_status =
  ust_namespace :: string
  ust_state :: string
  ust_observedGeneration :: int
  ust_conditions :: "condition list"

record 'q userspace =
  us_meta :: objectmeta
  us_spec :: "'q userspace_spec"
  us_status :: userspace_status

abbreviation us_name :: "'q userspace \<Rightarrow> string" where
  "us_name u \<equiv> m_name (us_meta u)"

definition UserSpaceRoleUser :: string where
  "UserSpaceRoleUser = ''user''"

definition UserSpaceRoleAdmin :: string where
  "UserSpaceRoleAdmin = ''admin''"

definition UserSpaceStatePending :: string where
  "UserSpaceStatePending = ''Pending''"

definition UserSpaceStateReady :: string where
  "UserSpaceStateReady = ''Ready''"

definition UserSpaceStateFailed :: string where
  "UserSpaceStateFailed = ''Failed''"

definition NamespacePrefix :: string where
  "NamespacePrefix = ''dwpk-''"

definition EffectiveRole :: "'q userspace_spec \<Rightarrow> string" where
  "EffectiveRole s = (if us_role s = '''' then UserSpaceRoleUser else us_role s)"

definition NamespaceName :: "'q userspace \<Rightarrow> string" where
  "NamespaceName u =
     (if us_namespace (us_spec u) \<noteq> '''' then us_namespace (us_spec u)
      else NamespacePrefix @ us_name u)"

definition LoginName :: "'q userspace \<Rightarrow> string" where
  "LoginName u = (if us_username (us_spec u) \<noteq> '''' then us_username (us_spec u) else us_name u)"

definition ContactEmail :: "'q userspace \<Rightarrow> string" where
  "ContactEmail u =
     (if us_email (us_spec u) \<noteq> '''' then us_email (us_spec u) else us_owner (us_spec u))"

section \<open>Workspace\<close>

record 'q resources =
  res_requests :: "'q gomap"
  res_limits :: "'q gomap"

record envvar =
  ev_name :: string
  ev_value :: string
  ev_from :: "json option"

text \<open>
  A volume: its name and the pointer fields of the \<^verbatim>\<open>VolumeSource\<close> union in the struct's order,
  \<open>None\<close> for nil. Keeping the fields as a list leaves open which sources a Kubernetes version has.
\<close>

record volume =
  vol_name :: string
  vol_source :: "(string \<times> json option) list"

record volumemount =
  vm_name :: string
  vm_path :: string
  vm_subPath :: string
  vm_readOnly :: bool

record 'q workspace_spec =
  ws_imageRef :: string
  ws_resources :: "'q resources"
  ws_storage :: "'q option"
  ws_nodeSelector :: "string gomap"
  ws_tolerations :: "json list"
  ws_affinity :: "json option"
  ws_env :: "envvar list"
  ws_envFrom :: "json list"
  ws_volumes :: "volume list"
  ws_volumeMounts :: "volumemount list"
  ws_keys :: "string list"
  ws_running :: bool
  ws_idleTimeout :: duration
  ws_logsEnabled :: bool
  ws_metricsEnabled :: bool

record workspace_status =
  wst_state :: string
  wst_endpoint :: string
  wst_podName :: string
  wst_lastActivity :: "gotime option"
  wst_observedGeneration :: int
  wst_conditions :: "condition list"

record 'q workspace =
  ws_meta :: objectmeta
  ws_spec :: "'q workspace_spec"
  ws_status :: workspace_status

abbreviation ws_name :: "'q workspace \<Rightarrow> string" where
  "ws_name w \<equiv> m_name (ws_meta w)"

abbreviation ws_ns :: "'q workspace \<Rightarrow> string" where
  "ws_ns w \<equiv> m_namespace (ws_meta w)"

definition WorkspaceStatePending :: string where
  "WorkspaceStatePending = ''Pending''"

definition WorkspaceStateStarting :: string where
  "WorkspaceStateStarting = ''Starting''"

definition WorkspaceStateRunning :: string where
  "WorkspaceStateRunning = ''Running''"

definition WorkspaceStateSuspended :: string where
  "WorkspaceStateSuspended = ''Suspended''"

definition WorkspaceStateFailed :: string where
  "WorkspaceStateFailed = ''Failed''"

definition WorkspaceLabel :: string where
  "WorkspaceLabel = ''dwpk.devops-ia.io/workspace''"

definition RequesterAnnotation :: string where
  "RequesterAnnotation = ''dwpk.devops-ia.io/requester''"

section \<open>WorkspaceImage\<close>

record placement =
  pl_nodeSelector :: "string gomap"
  pl_tolerations :: "json list"
  pl_affinity :: "json option"

record workspaceimage_spec =
  img_displayName :: string
  img_description :: string
  img_icon :: string
  img_tags :: "string list"
  img_maintainer :: string
  img_deprecated :: bool
  img_deprecateAt :: "gotime option"
  img_image :: string
  img_pullPolicy :: string
  img_shell :: string
  img_homePath :: string
  img_runAsUser :: int
  img_allowRoot :: bool
  img_command :: "string list"
  img_placement :: "placement option"
  img_pullSecretRef :: "string option"

record workspaceimage =
  img_meta :: objectmeta
  img_spec :: workspaceimage_spec

abbreviation img_name :: "workspaceimage \<Rightarrow> string" where
  "img_name i \<equiv> m_name (img_meta i)"

definition Title :: "workspaceimage \<Rightarrow> string" where
  "Title i = (if img_displayName (img_spec i) \<noteq> '''' then img_displayName (img_spec i) else img_name i)"

definition IsDeprecated :: "workspaceimage \<Rightarrow> gotime \<Rightarrow> bool" where
  "IsDeprecated i now =
     (if img_deprecated (img_spec i) then True
      else case img_deprecateAt (img_spec i) of None \<Rightarrow> False | Some t \<Rightarrow> \<not> now < t)"

section \<open>ImageRegistry\<close>

record awsregistry =
  aws_region :: string
  aws_registryID :: string
  aws_roleARN :: string

record tagselector =
  ts_mode :: string
  ts_patterns :: "string list"
  ts_limit :: int

record registrysync =
  sy_intervalSeconds :: int
  sy_include :: "string list"
  sy_exclude :: "string list"
  sy_tags :: tagselector
  sy_prune :: bool

record imageregistry_spec =
  ir_provider :: string
  ir_aws :: "awsregistry option"
  ir_sync :: registrysync
  ir_pullSecretRef :: "string option"

record imageregistry_status =
  irs_conditions :: "condition list"
  irs_observedGeneration :: int
  irs_lastSyncTime :: "gotime option"
  irs_images :: int

record imageregistry =
  ir_meta :: objectmeta
  ir_spec :: imageregistry_spec
  ir_status :: imageregistry_status

abbreviation ir_name :: "imageregistry \<Rightarrow> string" where
  "ir_name r \<equiv> m_name (ir_meta r)"

definition ImageRegistryProviderAWSECR :: string where
  "ImageRegistryProviderAWSECR = ''aws-ecr''"

definition ImageRegistryLabel :: string where
  "ImageRegistryLabel = ''dwpk.devops-ia.io/image-registry''"

definition DefaultSyncIntervalSeconds :: int where
  "DefaultSyncIntervalSeconds = 900"

definition SyncInterval :: "imageregistry \<Rightarrow> duration" where
  "SyncInterval r =
     (let seconds = sy_intervalSeconds (ir_sync (ir_spec r));
          seconds = (if seconds \<le> 0 then DefaultSyncIntervalSeconds else seconds)
      in seconds * 1000000000)"

section \<open>PlatformConfig\<close>

record platformconfig =
  pc_displayName :: string
  pc_logo :: "(string \<times> string) option"
  pc_defaultTheme :: string
  pc_gpuResourceName :: string
  pc_supportEmail :: string

definition DefaultPlatformName :: string where
  "DefaultPlatformName = ''dwpk''"

definition DefaultGPUResourceName :: string where
  "DefaultGPUResourceName = ''nvidia.com/gpu''"

text \<open>The receiver of the PlatformConfig methods may be nil.\<close>

definition PlatformName :: "platformconfig option \<Rightarrow> string" where
  "PlatformName p = (case p of None \<Rightarrow> DefaultPlatformName
     | Some c \<Rightarrow> if pc_displayName c = '''' then DefaultPlatformName else pc_displayName c)"

definition Theme :: "platformconfig option \<Rightarrow> string" where
  "Theme p = (case p of None \<Rightarrow> ''system''
     | Some c \<Rightarrow> if pc_defaultTheme c = '''' then ''system'' else pc_defaultTheme c)"

definition Support :: "platformconfig option \<Rightarrow> string" where
  "Support p = (case p of None \<Rightarrow> '''' | Some c \<Rightarrow> pc_supportEmail c)"

definition GPUResource :: "platformconfig option \<Rightarrow> string" where
  "GPUResource p = (case p of None \<Rightarrow> DefaultGPUResourceName
     | Some c \<Rightarrow> if pc_gpuResourceName c = '''' then DefaultGPUResourceName else pc_gpuResourceName c)"

definition HasLogo :: "platformconfig option \<Rightarrow> bool" where
  "HasLogo p = (case p of None \<Rightarrow> False
     | Some c \<Rightarrow> (case pc_logo c of None \<Rightarrow> False | Some l \<Rightarrow> length (snd l) > 0))"

section \<open>Lemmas\<close>

lemma EffectiveRole_admin_iff:
  "EffectiveRole s = UserSpaceRoleAdmin \<longleftrightarrow> us_role s = UserSpaceRoleAdmin"
  by (simp add: EffectiveRole_def UserSpaceRoleUser_def UserSpaceRoleAdmin_def)

lemma EffectiveRole_nonempty: "EffectiveRole s \<noteq> ''''"
  by (simp add: EffectiveRole_def UserSpaceRoleUser_def)

lemma LoginName_nonempty: "us_name u \<noteq> '''' \<Longrightarrow> LoginName u \<noteq> ''''"
  by (simp add: LoginName_def)

lemma NamespaceName_inj_default:
  "us_namespace (us_spec u) = '''' \<Longrightarrow> us_namespace (us_spec v) = '''' \<Longrightarrow>
   NamespaceName u = NamespaceName v \<longleftrightarrow> us_name u = us_name v"
  by (simp add: NamespaceName_def)

lemma IsDeprecated_mono: "IsDeprecated i t \<Longrightarrow> t \<le> t' \<Longrightarrow> IsDeprecated i t'"
  by (auto simp: IsDeprecated_def split: if_splits option.splits)

lemma SyncInterval_pos: "0 < SyncInterval r"
  by (simp add: SyncInterval_def DefaultSyncIntervalSeconds_def Let_def)

lemma GPUResource_nonempty: "GPUResource p \<noteq> ''''"
  by (simp add: GPUResource_def DefaultGPUResourceName_def split: option.split)

end
