(* ===== verification/WebhookWorkspace.thy ===== *)
theory WebhookWorkspace
  imports ApiTypes
begin

text \<open>
  The admission webhooks of a Workspace (\<^verbatim>\<open>src/internal/webhook\<close>: \<^verbatim>\<open>workspace_mutator.go\<close>,
  \<^verbatim>\<open>workspace_validator.go\<close>, \<^verbatim>\<open>quota_usage.go\<close>, \<^verbatim>\<open>sshkeys.go\<close>).

  The webhooks only read the cluster. What the client returns during one admission is the record
  \<open>reader\<close>; \<^verbatim>\<open>ssh.ParseAuthorizedKey\<close> is the parameter \<open>parseKey\<close> (the error text, or \<open>None\<close> when
  the line parses); the clock is \<open>now\<close>. A returned error is \<open>Some\<close> of a value of \<open>weberror\<close>, with
  one constructor per message of the source.
\<close>

section \<open>Errors and the reads of an admission\<close>

datatype 'q field_error =
    KeyBlank nat string
  | KeyNotValid nat string string
  | VolumeReserved nat string
  | VolumeNotSupported nat string
  | MountReserved nat
  | RequestOverLimit string 'q 'q
  | ImageRefNotFound string

datatype 'q forbid =
    TooManyRunning string int int
  | TooMuchCPU string 'q 'q
  | TooMuchMemory string 'q 'q
  | TooMuchGPU string int 'q
  | TooMuchStorage string 'q 'q
  | EntryDeprecated string
  | NamespaceImmutable string
  | OnlySelfFields
  | UsernameTaken string string
  | OnlyAdminGrants string

datatype 'q weberror =
    Forbidden string "'q forbid"
  | Invalid string "'q field_error list"
  | Wrapped string apierr
  | NoRequest

record userinfo =
  ui_username :: string
  ui_groups :: "string list"
  ui_uid :: string

record 'q reader =
  r_userspaces :: "apierr + 'q userspace list"
  r_workspaces :: "string \<Rightarrow> apierr + 'q workspace list"
  r_image :: "string \<Rightarrow> apierr + workspaceimage"
  r_platform :: "apierr + platformconfig"
  r_accessReview :: "userinfo \<Rightarrow> apierr + bool"

section \<open>SSH keys (sshkeys.go)\<close>

definition summarizeKey :: "string \<Rightarrow> string" where
  "summarizeKey key =
     (let fields = Fields key in
      case fields of
        [] \<Rightarrow> ''''
      | [a] \<Rightarrow> a
      | [a, b] \<Rightarrow> a
      | a # b # rest \<Rightarrow> a @ '' ... '' @ Join rest '' '')"

definition validateAuthorizedKeys :: "(string \<Rightarrow> string option) \<Rightarrow> string list \<Rightarrow> 'q field_error list" where
  "validateAuthorizedKeys parseKey keys =
     concat (map (\<lambda>(i, key).
       let trimmed = TrimSpace key in
       if trimmed = '''' then [KeyBlank i key]
       else case parseKey trimmed of
              None \<Rightarrow> []
            | Some err \<Rightarrow> [KeyNotValid i (summarizeKey trimmed) err]) (enumerate 0 keys))"

section \<open>Quota usage (quota\_usage.go)\<close>

record 'q quotaUsage =
  qu_running :: int
  qu_cpu :: 'q
  qu_memory :: 'q
  qu_gpu :: 'q
  qu_storage :: 'q

definition newQuotaUsage :: "('q :: linordered_idom) quotaUsage" where
  "newQuotaUsage = \<lparr>qu_running = 0, qu_cpu = 0, qu_memory = 0, qu_gpu = 0, qu_storage = 0\<rparr>"

definition quotaUsage_add ::
    "('q :: linordered_idom) quotaUsage \<Rightarrow> 'q workspace \<Rightarrow> string \<Rightarrow> 'q quotaUsage" where
  "quotaUsage_add u ws gpuResource =
     (let u = (case ws_storage (ws_spec ws) of None \<Rightarrow> u
                 | Some s \<Rightarrow> u\<lparr>qu_storage := qu_storage u + s\<rparr>)
      in if \<not> ws_running (ws_spec ws) then u
         else
           let u = u\<lparr>qu_running := wrap32 (qu_running u + 1)\<rparr>;
               requests = res_requests (ws_resources (ws_spec ws));
               u = (case map_of requests ''cpu'' of None \<Rightarrow> u
                      | Some cpu \<Rightarrow> u\<lparr>qu_cpu := qu_cpu u + cpu\<rparr>);
               u = (case map_of requests ''memory'' of None \<Rightarrow> u
                      | Some memory \<Rightarrow> u\<lparr>qu_memory := qu_memory u + memory\<rparr>)
           in (case map_of (res_limits (ws_resources (ws_spec ws))) gpuResource of None \<Rightarrow> u
                 | Some gpu \<Rightarrow> u\<lparr>qu_gpu := qu_gpu u + gpu\<rparr>))"

definition quotaUsage_within ::
    "('q :: linordered_idom) quotaUsage \<Rightarrow> 'q userspace \<Rightarrow> 'q workspace \<Rightarrow> 'q weberror option" where
  "quotaUsage_within u us ws =
     (let quota = us_quota (us_spec us); refuse = (\<lambda>f. Some (Forbidden (ws_name ws) f)) in
      if qu_running u > q_workspaces quota then
        refuse (TooManyRunning (us_name us) (q_workspaces quota) (qu_running u))
      else if qu_cpu u > q_cpu quota then
        refuse (TooMuchCPU (us_name us) (q_cpu quota) (qu_cpu u))
      else if qu_memory u > q_memory quota then
        refuse (TooMuchMemory (us_name us) (q_memory quota) (qu_memory u))
      else if qu_gpu u > of_int (q_gpu quota) then
        refuse (TooMuchGPU (us_name us) (q_gpu quota) (qu_gpu u))
      else if qu_storage u > q_storage quota then
        refuse (TooMuchStorage (us_name us) (q_storage quota) (qu_storage u))
      else None)"

definition gpuResource :: "'q reader \<Rightarrow> string" where
  "gpuResource rd =
     (case r_platform rd of Inl _ \<Rightarrow> DefaultGPUResourceName | Inr config \<Rightarrow> GPUResource (Some config))"

definition validateResources :: "('q :: linordered_idom) workspace \<Rightarrow> 'q weberror option" where
  "validateResources ws =
     (let requests = res_requests (ws_resources (ws_spec ws));
          limits = res_limits (ws_resources (ws_spec ws));
          errs = concat (map (\<lambda>(name, request).
            case map_of limits name of
              None \<Rightarrow> []
            | Some limit \<Rightarrow> if request > limit then [RequestOverLimit name request limit] else [])
            requests)
      in if errs = [] then None else Some (Invalid (ws_name ws) errs))"

section \<open>The validator (workspace\_validator.go)\<close>

definition validateWorkspaceKeys ::
    "(string \<Rightarrow> string option) \<Rightarrow> 'q workspace \<Rightarrow> 'q weberror option" where
  "validateWorkspaceKeys parseKey ws =
     (let errs = validateAuthorizedKeys parseKey (ws_keys (ws_spec ws))
      in if errs = [] then None else Some (Invalid (ws_name ws) errs))"

definition catalogEntry ::
    "'q reader \<Rightarrow> gotime \<Rightarrow> 'q workspace \<Rightarrow> bool \<Rightarrow> 'q weberror option" where
  "catalogEntry rd now ws isCreate =
     (let ref = ws_imageRef (ws_spec ws) in
      case r_image rd ref of
        Inl err \<Rightarrow>
          (if IsNotFound err then Some (Invalid (ws_name ws) [ImageRefNotFound ref])
           else Some (Wrapped ''get WorkspaceImage'' err))
      | Inr img \<Rightarrow>
          (if \<not> isCreate then None
           else if IsDeprecated img now then
             Some (Forbidden (ws_name ws) (EntryDeprecated (img_name img)))
           else None))"

definition reservedVolumeName :: string where
  "reservedVolumeName = ''home''"

definition allowedVolumeTypes :: "string list" where
  "allowedVolumeTypes =
     [''configMap'', ''secret'', ''persistentVolumeClaim'', ''emptyDir'', ''projected'', ''downwardAPI'']"

definition lowerFirst :: "char \<Rightarrow> char" where
  "lowerFirst c = (if CHR ''A'' \<le> c \<and> c \<le> CHR ''Z'' then char_of (of_char c + 32 :: nat) else c)"

text \<open>The Go name of a union member, with its first letter in lower case.\<close>

fun memberName :: "string \<Rightarrow> string" where
  "memberName [] = []"
| "memberName (c # cs) = lowerFirst c # cs"

fun firstSet :: "(string \<times> json option) list \<Rightarrow> string" where
  "firstSet [] = ''none''"
| "firstSet ((name, field) # rest) =
     (case field of None \<Rightarrow> firstSet rest | Some _ \<Rightarrow> memberName name)"

definition volumeKind :: "volume \<Rightarrow> string" where
  "volumeKind v = firstSet (vol_source v)"

definition validateStorageMounts :: "'q workspace \<Rightarrow> 'q weberror option" where
  "validateStorageMounts ws =
     (let volErrs = concat (map (\<lambda>(i, volume).
            if vol_name volume = reservedVolumeName then [VolumeReserved i (vol_name volume)]
            else if volumeKind volume \<notin> set allowedVolumeTypes then [VolumeNotSupported i (volumeKind volume)]
            else []) (enumerate 0 (ws_volumes (ws_spec ws))));
          mountErrs = concat (map (\<lambda>(i, mount).
            if vm_name mount = reservedVolumeName then [MountReserved i] else [])
            (enumerate 0 (ws_volumeMounts (ws_spec ws))));
          errs = volErrs @ mountErrs
      in if errs = [] then None else Some (Invalid (ws_name ws) errs))"

definition userSpaceFor :: "'q reader \<Rightarrow> string \<Rightarrow> 'q weberror + 'q userspace option" where
  "userSpaceFor rd namespace =
     (case r_userspaces rd of
        Inl err \<Rightarrow> Inl (Wrapped ''list UserSpaces'' err)
      | Inr items \<Rightarrow> Inr (find (\<lambda>u. ust_namespace (us_status u) = namespace) items))"

definition validateQuota ::
    "('q :: linordered_idom) reader \<Rightarrow> 'q workspace \<Rightarrow> 'q weberror option" where
  "validateQuota rd ws =
     (case userSpaceFor rd (ws_ns ws) of
        Inl err \<Rightarrow> Some err
      | Inr None \<Rightarrow> None
      | Inr (Some us) \<Rightarrow>
          (case r_workspaces rd (ws_ns ws) of
             Inl err \<Rightarrow> Some (Wrapped ''list Workspaces'' err)
           | Inr existing \<Rightarrow>
               let usage = foldl (\<lambda>usage other.
                     if ws_name other = ws_name ws then usage
                     else quotaUsage_add usage other (gpuResource rd)) newQuotaUsage existing;
                   usage = quotaUsage_add usage ws (gpuResource rd)
               in quotaUsage_within usage us ws))"

definition ws_ValidateCreate ::
    "('q :: linordered_idom) reader \<Rightarrow> (string \<Rightarrow> string option) \<Rightarrow> gotime \<Rightarrow> 'q workspace \<Rightarrow>
     'q weberror option" where
  "ws_ValidateCreate rd parseKey now ws =
     check (catalogEntry rd now ws True)
     (check (validateWorkspaceKeys parseKey ws)
     (check (validateStorageMounts ws)
     (check (validateResources ws)
     (validateQuota rd ws))))"

definition ws_ValidateUpdate ::
    "('q :: linordered_idom) reader \<Rightarrow> (string \<Rightarrow> string option) \<Rightarrow> gotime \<Rightarrow> 'q workspace \<Rightarrow>
     'q workspace \<Rightarrow> 'q weberror option" where
  "ws_ValidateUpdate rd parseKey now old ws =
     check (catalogEntry rd now ws False)
     (check (validateWorkspaceKeys parseKey ws)
     (check (validateStorageMounts ws)
     (check (validateResources ws)
     (validateQuota rd ws))))"

definition ws_ValidateDelete :: "'q workspace \<Rightarrow> 'q weberror option" where
  "ws_ValidateDelete ws = None"

section \<open>The mutator (workspace\_mutator.go)\<close>

definition stampRequester :: "'q workspace \<Rightarrow> userinfo \<Rightarrow> 'q workspace" where
  "stampRequester ws user =
     (if ui_username user = '''' then ws
      else ws\<lparr>ws_meta := (ws_meta ws)\<lparr>m_annotations :=
        (m_annotations (ws_meta ws))(RequesterAnnotation \<mapsto> ui_username user)\<rparr>\<rparr>)"

definition applyKeyDefault :: "'q workspace \<Rightarrow> 'q userspace \<Rightarrow> 'q workspace" where
  "applyKeyDefault ws owner =
     (if length (ws_keys (ws_spec ws)) > 0 then ws
      else ws\<lparr>ws_spec := (ws_spec ws)\<lparr>ws_keys := us_keys (us_spec owner)\<rparr>\<rparr>)"

fun firstOwner :: "string \<Rightarrow> 'q userspace list \<Rightarrow> 'q userspace option" where
  "firstOwner namespace [] = None"
| "firstOwner namespace (owner # rest) =
     (if ust_namespace (us_status owner) \<noteq> namespace then firstOwner namespace rest else Some owner)"

definition applyOwnerDefaults :: "'q reader \<Rightarrow> 'q workspace \<Rightarrow> 'q weberror + 'q workspace" where
  "applyOwnerDefaults rd ws =
     (if length (ws_keys (ws_spec ws)) > 0 then Inr ws
      else case r_userspaces rd of
        Inl err \<Rightarrow> Inl (Wrapped ''list UserSpaces'' err)
      | Inr items \<Rightarrow>
          (case firstOwner (ws_ns ws) items of
             None \<Rightarrow> Inr ws
           | Some owner \<Rightarrow> Inr (applyKeyDefault ws owner)))"

definition ws_Default ::
    "'q reader \<Rightarrow> userinfo option \<Rightarrow> 'q workspace \<Rightarrow> 'q weberror + 'q workspace" where
  "ws_Default rd req ws =
     (case req of None \<Rightarrow> Inl NoRequest
      | Some user \<Rightarrow> applyOwnerDefaults rd (stampRequester ws user))"

text \<open>
  Both webhooks as \<^verbatim>\<open>SetupWorkspaceWebhookWithManager\<close> registers them: on create the API server
  calls the mutator and then the validator on the mutated object; on update only the validator.
\<close>

definition admitCreate ::
    "('q :: linordered_idom) reader \<Rightarrow> (string \<Rightarrow> string option) \<Rightarrow> gotime \<Rightarrow> userinfo option \<Rightarrow>
     'q workspace \<Rightarrow> 'q weberror + 'q workspace" where
  "admitCreate rd parseKey now req ws =
     (case ws_Default rd req ws of Inl err \<Rightarrow> Inl err
      | Inr ws' \<Rightarrow>
          (case ws_ValidateCreate rd parseKey now ws' of Some err \<Rightarrow> Inl err | None \<Rightarrow> Inr ws'))"

section \<open>The stored Workspaces as a transition system\<close>

text \<open>
  What a sequence of admitted writes does to the Workspaces of the cluster. \<open>base\<close> holds the
  reads that stay fixed (UserSpaces, catalog, settings), \<open>schema\<close> is what the CRD schema lets
  through before the validating webhook runs. Each admission reads its list of Workspaces from the manager's
  cache: \<open>sees items seen\<close> says which lists the cache may show when \<open>items\<close> are stored. The etcd
  store holds fewer than \<open>2 ^ 31\<close> of them.
\<close>

definition with_items :: "'q reader \<Rightarrow> 'q workspace list \<Rightarrow> 'q reader" where
  "with_items base items = base\<lparr>r_workspaces := (\<lambda>ns. Inr (filter (\<lambda>w. ws_ns w = ns) items))\<rparr>"

definition same_key :: "'q workspace \<Rightarrow> 'q workspace \<Rightarrow> bool" where
  "same_key a b \<longleftrightarrow> ws_ns a = ws_ns b \<and> ws_name a = ws_name b"

definition replace_ws :: "'q workspace \<Rightarrow> 'q workspace list \<Rightarrow> 'q workspace list" where
  "replace_ws ws items = map (\<lambda>x. if same_key x ws then ws else x) items"

inductive ws_step ::
    "('q :: linordered_idom) reader \<Rightarrow> (string \<Rightarrow> string option) \<Rightarrow> ('q workspace list \<Rightarrow> 'q workspace list \<Rightarrow> bool) \<Rightarrow>
     ('q workspace \<Rightarrow> bool) \<Rightarrow> 'q workspace list \<Rightarrow> 'q workspace list \<Rightarrow> bool"
  for base parseKey sees schema where
  ws_create: "\<lbrakk>\<forall>x\<in>set items. \<not> same_key x ws; int (length items) < 2 ^ 31 - 1; sees items seen;
      admitCreate (with_items base seen) parseKey now req ws = Inr ws'; schema ws'\<rbrakk>
    \<Longrightarrow> ws_step base parseKey sees schema items (items @ [ws'])"
| ws_update: "\<lbrakk>old \<in> set items; same_key old ws; int (length items) < 2 ^ 31; schema ws; sees items seen;
      ws_ValidateUpdate (with_items base seen) parseKey now old ws = None\<rbrakk>
    \<Longrightarrow> ws_step base parseKey sees schema items (replace_ws ws items)"
| ws_status: "\<lbrakk>old \<in> set items; same_key old ws; ws_spec ws = ws_spec old\<rbrakk>
    \<Longrightarrow> ws_step base parseKey sees schema items (replace_ws ws items)"
| ws_delete: "ws_step base parseKey sees schema items (filter (\<lambda>x. \<not> same_key x ws) items)"

abbreviation ws_reach ::
    "('q :: linordered_idom) reader \<Rightarrow> (string \<Rightarrow> string option) \<Rightarrow> ('q workspace list \<Rightarrow> 'q workspace list \<Rightarrow> bool) \<Rightarrow>
     ('q workspace \<Rightarrow> bool) \<Rightarrow> 'q workspace list \<Rightarrow> bool" where
  "ws_reach base parseKey sees schema \<equiv> reach (\<lambda>items. items = []) (ws_step base parseKey sees schema)"

section \<open>What the quota promises\<close>

definition cpu_cost :: "('q :: linordered_idom) workspace \<Rightarrow> 'q" where
  "cpu_cost w = (if ws_running (ws_spec w)
     then case map_of (res_requests (ws_resources (ws_spec w))) ''cpu'' of None \<Rightarrow> 0 | Some q \<Rightarrow> q
     else 0)"

definition memory_cost :: "('q :: linordered_idom) workspace \<Rightarrow> 'q" where
  "memory_cost w = (if ws_running (ws_spec w)
     then case map_of (res_requests (ws_resources (ws_spec w))) ''memory'' of None \<Rightarrow> 0 | Some q \<Rightarrow> q
     else 0)"

definition gpu_cost :: "string \<Rightarrow> ('q :: linordered_idom) workspace \<Rightarrow> 'q" where
  "gpu_cost g w = (if ws_running (ws_spec w)
     then case map_of (res_limits (ws_resources (ws_spec w))) g of None \<Rightarrow> 0 | Some q \<Rightarrow> q
     else 0)"

definition storage_cost :: "('q :: linordered_idom) workspace \<Rightarrow> 'q" where
  "storage_cost w = (case ws_storage (ws_spec w) of None \<Rightarrow> 0 | Some q \<Rightarrow> q)"

definition running_cost :: "'q workspace \<Rightarrow> int" where
  "running_cost w = (if ws_running (ws_spec w) then 1 else 0)"

text \<open>The abstract contract: a collection of workspaces fits an allowance.\<close>

definition fits :: "('q :: linordered_idom) userspace_quota \<Rightarrow> string \<Rightarrow> 'q workspace list \<Rightarrow> bool" where
  "fits q g ws \<longleftrightarrow>
     sum_list (map running_cost ws) \<le> q_workspaces q \<and>
     sum_list (map cpu_cost ws) \<le> q_cpu q \<and>
     sum_list (map memory_cost ws) \<le> q_memory q \<and>
     sum_list (map (gpu_cost g) ws) \<le> of_int (q_gpu q) \<and>
     sum_list (map storage_cost ws) \<le> q_storage q"

text \<open>What is counted when \<open>ws\<close> is written: the other objects, and the new one in place of the old.\<close>

definition counted :: "'q workspace list \<Rightarrow> 'q workspace \<Rightarrow> 'q workspace list" where
  "counted items ws = filter (\<lambda>x. ws_name x \<noteq> ws_name ws) items @ [ws]"

definition nonneg_ws :: "('q :: linordered_idom) workspace \<Rightarrow> bool" where
  "nonneg_ws w \<longleftrightarrow> (\<forall>(n, q)\<in>set (res_requests (ws_resources (ws_spec w))). 0 \<le> q) \<and>
     (\<forall>(n, q)\<in>set (res_limits (ws_resources (ws_spec w))). 0 \<le> q) \<and>
     (\<forall>q. ws_storage (ws_spec w) = Some q \<longrightarrow> 0 \<le> q)"

definition quota_ok :: "('q :: linordered_idom) reader \<Rightarrow> 'q workspace list \<Rightarrow> bool" where
  "quota_ok base items \<longleftrightarrow> (\<forall>ns us. userSpaceFor base ns = Inr (Some us) \<longrightarrow>
     filter (\<lambda>w. ws_ns w = ns) items \<noteq> [] \<longrightarrow>
     fits (us_quota (us_spec us)) (gpuResource base) (filter (\<lambda>w. ws_ns w = ns) items))"

definition keys_distinct :: "'q workspace list \<Rightarrow> bool" where
  "keys_distinct items \<longleftrightarrow> distinct (map (\<lambda>w. (ws_ns w, ws_name w)) items)"

section \<open>Lemmas: metering\<close>

lemma quotaUsage_add_reads:
  "qu_cpu (quotaUsage_add u w g) = qu_cpu u + cpu_cost w"
  "qu_memory (quotaUsage_add u w g) = qu_memory u + memory_cost w"
  "qu_gpu (quotaUsage_add u w g) = qu_gpu u + gpu_cost g w"
  "qu_storage (quotaUsage_add u w g) = qu_storage u + storage_cost w"
  by (auto simp: quotaUsage_add_def Let_def cpu_cost_def memory_cost_def gpu_cost_def
      storage_cost_def split: option.splits)

lemma quotaUsage_add_running:
  "qu_running (quotaUsage_add u w g) =
     (if ws_running (ws_spec w) then wrap32 (qu_running u + 1) else qu_running u)"
  by (auto simp: quotaUsage_add_def Let_def split: option.splits)

interpretation cpu_meter: meter qu_cpu "\<lambda>u w. quotaUsage_add u w g" cpu_cost for g
  by unfold_locales (rule quotaUsage_add_reads)

interpretation memory_meter: meter qu_memory "\<lambda>u w. quotaUsage_add u w g" memory_cost for g
  by unfold_locales (rule quotaUsage_add_reads)

interpretation gpu_meter: meter qu_gpu "\<lambda>u w. quotaUsage_add u w g" "gpu_cost g" for g
  by unfold_locales (rule quotaUsage_add_reads)

interpretation storage_meter: meter qu_storage "\<lambda>u w. quotaUsage_add u w g" storage_cost for g
  by unfold_locales (rule quotaUsage_add_reads)

lemmas meter_reads =
  cpu_meter.read_foldl memory_meter.read_foldl gpu_meter.read_foldl storage_meter.read_foldl

lemma running_foldl:
  "qu_running u = wrap32 r \<Longrightarrow>
   qu_running (foldl (\<lambda>u w. quotaUsage_add u w g) u ws) = wrap32 (r + sum_list (map running_cost ws))"
proof (induction ws arbitrary: u r)
  case (Cons w ws)
  have "qu_running (quotaUsage_add u w g) = wrap32 (r + running_cost w)"
    using Cons.prems by (simp add: quotaUsage_add_running running_cost_def wrap32_succ)
  from Cons.IH [OF this] show ?case by (simp add: ac_simps)
qed simp

lemma running_sum_bounds:
  "0 \<le> sum_list (map running_cost ws) \<and> sum_list (map running_cost ws) \<le> int (length ws)"
  by (induction ws) (auto simp: running_cost_def)

definition usage_of :: "string \<Rightarrow> ('q :: linordered_idom) workspace list \<Rightarrow> 'q quotaUsage" where
  "usage_of g ws = foldl (\<lambda>u w. quotaUsage_add u w g) newQuotaUsage ws"

lemma usage_of_reads:
  "qu_cpu (usage_of g ws) = sum_list (map cpu_cost ws)"
  "qu_memory (usage_of g ws) = sum_list (map memory_cost ws)"
  "qu_gpu (usage_of g ws) = sum_list (map (gpu_cost g) ws)"
  "qu_storage (usage_of g ws) = sum_list (map storage_cost ws)"
  by (simp_all add: usage_of_def meter_reads newQuotaUsage_def)

lemma usage_of_running:
  "int (length ws) < 2 ^ 31 \<Longrightarrow> qu_running (usage_of g ws) = sum_list (map running_cost ws)"
  using running_foldl [of newQuotaUsage 0 g ws] running_sum_bounds [of ws]
  by (simp add: usage_of_def newQuotaUsage_def wrap32_id)

lemma within_fits:
  assumes "int (length ws) < 2 ^ 31"
  shows "quotaUsage_within (usage_of g ws) us w = None \<longleftrightarrow> fits (us_quota (us_spec us)) g ws"
  using usage_of_running [OF assms]
  by (auto simp: quotaUsage_within_def Let_def fits_def usage_of_reads not_less)

lemma fits_mset: "mset xs = mset ys \<Longrightarrow> fits q g xs = fits q g ys"
proof -
  assume eq: "mset xs = mset ys"
  have *: "sum_list (map f xs) = sum_list (map f ys)" for f :: "'a workspace \<Rightarrow> 'c :: comm_monoid_add"
    using eq by (metis mset_map sum_mset_sum_list)
  show ?thesis unfolding fits_def by (simp only: *)
qed

lemma costs_nonneg:
  assumes "nonneg_ws w"
  shows "0 \<le> running_cost w" "0 \<le> cpu_cost w" "0 \<le> memory_cost w" "0 \<le> gpu_cost g w"
    "0 \<le> storage_cost w"
  using assms
  by (auto simp: nonneg_ws_def running_cost_def cpu_cost_def memory_cost_def gpu_cost_def
      storage_cost_def split: option.splits dest!: map_of_SomeD)

lemma sum_list_filter_le:
  "(\<And>w. w \<in> set ws \<Longrightarrow> (0 :: 'a :: linordered_idom) \<le> f w) \<Longrightarrow>
   sum_list (map f (filter P ws)) \<le> sum_list (map f ws)"
  by (induction ws) (auto simp: add_increasing)

lemma fits_filter:
  assumes "\<forall>w\<in>set ws. nonneg_ws w" and "fits q g ws"
  shows "fits q g (filter P ws)"
proof -
  have "sum_list (map f (filter P ws)) \<le> sum_list (map f ws)"
    if "\<And>w. nonneg_ws w \<Longrightarrow> 0 \<le> f w" for f :: "'a workspace \<Rightarrow> 'c :: linordered_idom"
    using assms(1) that by (intro sum_list_filter_le) auto
  from this [of running_cost] this [of storage_cost] this [of cpu_cost] this [of memory_cost]
    this [of "gpu_cost g"] assms(2) costs_nonneg
  show ?thesis unfolding fits_def by (meson order_trans)
qed

section \<open>Lemmas: when each check passes\<close>

definition key_ok :: "(string \<Rightarrow> string option) \<Rightarrow> string \<Rightarrow> bool" where
  "key_ok parseKey k \<longleftrightarrow> TrimSpace k \<noteq> '''' \<and> parseKey (TrimSpace k) = None"

definition mounts_ok :: "'q workspace \<Rightarrow> bool" where
  "mounts_ok ws \<longleftrightarrow>
     (\<forall>v\<in>set (ws_volumes (ws_spec ws)). vol_name v \<noteq> ''home'' \<and> volumeKind v \<in> set allowedVolumeTypes) \<and>
     (\<forall>m\<in>set (ws_volumeMounts (ws_spec ws)). vm_name m \<noteq> ''home'')"

definition requests_ok :: "('q :: linordered_idom) workspace \<Rightarrow> bool" where
  "requests_ok ws \<longleftrightarrow> (\<forall>(n, r)\<in>set (res_requests (ws_resources (ws_spec ws))).
     \<forall>l. map_of (res_limits (ws_resources (ws_spec ws))) n = Some l \<longrightarrow> r \<le> l)"

lemma enumerate_errors_Nil_iff:
  assumes "\<And>i x. f (i, x) = [] \<longleftrightarrow> P x"
  shows "concat (map f (enumerate n xs)) = [] \<longleftrightarrow> (\<forall>x\<in>set xs. P x)"
proof -
  have "concat (map f (enumerate n xs)) = [] \<longleftrightarrow> (\<forall>p\<in>set (enumerate n xs). P (snd p))"
    unfolding concat_map_Nil_iff by (intro ball_cong refl) (metis assms prod.collapse)
  then show ?thesis by (simp only: ball_enumerate)
qed

lemma validateAuthorizedKeys_Nil_iff:
  "validateAuthorizedKeys parseKey keys = [] \<longleftrightarrow> (\<forall>k\<in>set keys. key_ok parseKey k)"
  unfolding validateAuthorizedKeys_def
  by (rule enumerate_errors_Nil_iff) (simp add: key_ok_def Let_def split: option.split)

lemma validateWorkspaceKeys_iff [admits]:
  "validateWorkspaceKeys parseKey ws = None \<longleftrightarrow> (\<forall>k\<in>set (ws_keys (ws_spec ws)). key_ok parseKey k)"
  by (simp add: validateWorkspaceKeys_def Let_def validateAuthorizedKeys_Nil_iff)

lemma validateStorageMounts_iff [admits]: "validateStorageMounts ws = None \<longleftrightarrow> mounts_ok ws"
proof -
  have vols: "concat (map (\<lambda>(i, volume).
          if vol_name volume = reservedVolumeName then [VolumeReserved i (vol_name volume)]
          else if volumeKind volume \<notin> set allowedVolumeTypes then [VolumeNotSupported i (volumeKind volume)]
          else []) (enumerate 0 vs)) = ([] :: 'a field_error list) \<longleftrightarrow>
        (\<forall>v\<in>set vs. vol_name v \<noteq> ''home'' \<and> volumeKind v \<in> set allowedVolumeTypes)" for vs
    by (rule enumerate_errors_Nil_iff) (simp add: reservedVolumeName_def)
  have mounts: "concat (map (\<lambda>(i, mount). if vm_name mount = reservedVolumeName then [MountReserved i]
          else []) (enumerate 0 ms)) = ([] :: 'a field_error list) \<longleftrightarrow>
        (\<forall>m\<in>set ms. vm_name m \<noteq> ''home'')" for ms
    by (rule enumerate_errors_Nil_iff) (simp add: reservedVolumeName_def)
  show ?thesis
    unfolding validateStorageMounts_def Let_def mounts_ok_def append_is_Nil_conv vols mounts by simp
qed

lemma validateResources_iff [admits]: "validateResources ws = None \<longleftrightarrow> requests_ok ws"
proof -
  have "(case p of (name, request) \<Rightarrow> case map_of l name of None \<Rightarrow> []
          | Some limit \<Rightarrow> if request > limit then [RequestOverLimit name request limit] else []) =
        ([] :: 'a field_error list) \<longleftrightarrow> (case p of (n, r) \<Rightarrow> \<forall>k. map_of l n = Some k \<longrightarrow> r \<le> k)" for p l
    by (auto simp: not_less split: prod.splits option.splits if_splits)
  then show ?thesis
    unfolding validateResources_def requests_ok_def Let_def by (simp add: concat_map_Nil_iff)
qed

lemma catalogEntry_create_iff [admits]:
  "catalogEntry rd now ws True = None \<longleftrightarrow>
     (\<exists>img. r_image rd (ws_imageRef (ws_spec ws)) = Inr img \<and> \<not> IsDeprecated img now)"
  by (auto simp: catalogEntry_def Let_def split: sum.splits if_splits)

lemma catalogEntry_update_iff [admits]:
  "catalogEntry rd now ws False = None \<longleftrightarrow> (\<exists>img. r_image rd (ws_imageRef (ws_spec ws)) = Inr img)"
  by (auto simp: catalogEntry_def Let_def split: sum.splits if_splits)

lemma validateQuota_usage:
  assumes "userSpaceFor rd (ws_ns ws) = Inr (Some us)" and "r_workspaces rd (ws_ns ws) = Inr existing"
  shows "validateQuota rd ws = quotaUsage_within (usage_of (gpuResource rd) (counted existing ws)) us ws"
  using assms by (simp add: validateQuota_def usage_of_def counted_def foldl_skip)

lemma validateQuota_fits:
  assumes "userSpaceFor rd (ws_ns ws) = Inr (Some us)" and "r_workspaces rd (ws_ns ws) = Inr existing"
    and "int (length (counted existing ws)) < 2 ^ 31"
  shows "validateQuota rd ws = None \<longleftrightarrow>
    fits (us_quota (us_spec us)) (gpuResource rd) (counted existing ws)"
  by (simp add: validateQuota_usage [OF assms(1,2)] within_fits [OF assms(3)])

lemma firstOwner_find: "firstOwner ns us = find (\<lambda>u. ust_namespace (us_status u) = ns) us"
  by (induction us) auto

section \<open>Lemmas: the transition system\<close>

lemma with_items_reads [simp]:
  "userSpaceFor (with_items base items) ns = userSpaceFor base ns"
  "gpuResource (with_items base items) = gpuResource base"
  "r_workspaces (with_items base items) ns = Inr (filter (\<lambda>w. ws_ns w = ns) items)"
  "r_userspaces (with_items base items) = r_userspaces base"
  "r_image (with_items base items) = r_image base"
  by (simp_all add: with_items_def userSpaceFor_def gpuResource_def)

lemma stampRequester_keeps [simp]:
  "ws_spec (stampRequester ws u) = ws_spec ws" "ws_name (stampRequester ws u) = ws_name ws"
  "ws_ns (stampRequester ws u) = ws_ns ws"
  by (simp_all add: stampRequester_def)

lemma ws_Default_meta:
  "ws_Default rd req ws = Inr ws' \<Longrightarrow> \<exists>user. req = Some user \<and> ws_meta ws' = ws_meta (stampRequester ws user)"
  by (auto simp: ws_Default_def applyOwnerDefaults_def applyKeyDefault_def
      split: option.splits sum.splits if_splits)

lemma ws_Default_key: "ws_Default rd req ws = Inr ws' \<Longrightarrow> same_key ws ws'"
  by (drule ws_Default_meta) (auto simp: same_key_def)

lemma admitCreate_iff:
  "admitCreate rd parseKey now req ws = Inr ws' \<longleftrightarrow>
     ws_Default rd req ws = Inr ws' \<and> ws_ValidateCreate rd parseKey now ws' = None"
  by (auto simp: admitCreate_def split: sum.splits option.splits)

lemma replace_ws_key: "map (\<lambda>w. (ws_ns w, ws_name w)) (replace_ws ws items) =
  map (\<lambda>w. (ws_ns w, ws_name w)) items"
  by (induction items) (auto simp: replace_ws_def same_key_def)

lemma keys_distinct_step:
  "ws_step base parseKey sees schema items items' \<Longrightarrow> keys_distinct items \<Longrightarrow> keys_distinct items'"
proof (induction rule: ws_step.induct)
  case (ws_create items ws seen now req ws')
  then have "same_key ws ws'" by (auto simp: admitCreate_iff dest: ws_Default_key)
  with ws_create show ?case by (auto simp: keys_distinct_def same_key_def)
qed (auto simp: keys_distinct_def replace_ws_key intro: distinct_map_filter)

lemma replace_mset:
  assumes "distinct (map ws_name xs)" and "old \<in> set xs" and "ws_name old = ws_name ws"
  shows "mset (map (\<lambda>x. if ws_name x = ws_name ws then ws else x) xs) = mset (counted xs ws)"
  using assms
proof (induction xs)
  case (Cons x xs)
  show ?case
  proof (cases "ws_name x = ws_name ws")
    case True
    with Cons.prems(1) have "\<forall>y\<in>set xs. ws_name y \<noteq> ws_name ws"
      by (auto simp: rev_image_eqI)
    then have "map (\<lambda>x. if ws_name x = ws_name ws then ws else x) xs = xs"
      and "filter (\<lambda>y. ws_name y \<noteq> ws_name ws) xs = xs" by (auto intro: map_idI)
    with True show ?thesis by (simp add: counted_def)
  qed (use Cons in \<open>auto simp: counted_def\<close>)
qed simp

lemma filter_replace_ns:
  "filter (\<lambda>w. ws_ns w = ns) (replace_ws ws items) =
     (if ws_ns ws = ns
      then map (\<lambda>x. if ws_name x = ws_name ws then ws else x) (filter (\<lambda>w. ws_ns w = ns) items)
      else filter (\<lambda>w. ws_ns w = ns) items)"
  by (induction items) (auto simp: replace_ws_def same_key_def)

lemma keys_distinct_ns:
  "keys_distinct items \<Longrightarrow> distinct (map ws_name (filter (\<lambda>w. ws_ns w = ns) items))"
  by (induction items) (auto simp: keys_distinct_def rev_image_eqI)

lemma replace_ns_mset:
  assumes "keys_distinct items" and "old \<in> set items" and "same_key old ws"
  shows "mset (filter (\<lambda>w. ws_ns w = ns) (replace_ws ws items)) =
    (if ws_ns ws = ns then mset (counted (filter (\<lambda>w. ws_ns w = ns) items) ws)
     else mset (filter (\<lambda>w. ws_ns w = ns) items))"
  using replace_mset [of "filter (\<lambda>w. ws_ns w = ns) items" old ws] assms keys_distinct_ns [of items ns]
  by (auto simp: filter_replace_ns same_key_def)

lemma length_counted_update:
  "old \<in> set items \<Longrightarrow> same_key old ws \<Longrightarrow>
   length (counted (filter (\<lambda>w. ws_ns w = ws_ns ws) items) ws) \<le> length items"
proof (induction items)
  case (Cons x items)
  have "length (filter (\<lambda>y. ws_name y \<noteq> ws_name ws) (filter (\<lambda>w. ws_ns w = ws_ns ws) items))
    \<le> length items" by (meson length_filter_le order_trans)
  with Cons show ?case by (auto simp: counted_def same_key_def)
qed simp

lemma cost_spec_cong:
  assumes "ws_spec a = ws_spec b"
  shows "running_cost a = running_cost b" "cpu_cost a = cpu_cost b" "memory_cost a = memory_cost b"
    "gpu_cost g a = gpu_cost g b" "storage_cost a = storage_cost b"
  using assms
  by (simp_all add: running_cost_def cpu_cost_def memory_cost_def gpu_cost_def storage_cost_def)

lemma fits_spec_cong:
  assumes "map ws_spec xs = map ws_spec ys"
  shows "fits q g xs = fits q g ys"
proof -
  have "map running_cost xs = map running_cost ys" "map cpu_cost xs = map cpu_cost ys"
    "map memory_cost xs = map memory_cost ys" "map (gpu_cost g) xs = map (gpu_cost g) ys"
    "map storage_cost xs = map storage_cost ys"
    by (rule map_factor [OF _ assms], erule cost_spec_cong)+
  then show ?thesis unfolding fits_def by (simp only:)
qed

lemma keys_distinct_eq:
  "keys_distinct items \<Longrightarrow> x \<in> set items \<Longrightarrow> y \<in> set items \<Longrightarrow> same_key x y \<Longrightarrow> x = y"
  by (auto simp: keys_distinct_def same_key_def distinct_map inj_on_def)

lemma replace_status_spec:
  assumes "keys_distinct items" and "old \<in> set items" and "same_key old ws" and "ws_spec ws = ws_spec old"
  shows "map ws_spec (filter (\<lambda>w. ws_ns w = ns) (replace_ws ws items)) =
    map ws_spec (filter (\<lambda>w. ws_ns w = ns) items)"
proof -
  have "ws_spec (if same_key x ws then ws else x) = ws_spec x" if "x \<in> set items" for x
    using keys_distinct_eq [OF assms(1) that assms(2)] assms(3,4) by (auto simp: same_key_def)
  then show ?thesis
  proof (induction items)
    case (Cons x items)
    from Cons.prems [of x] have "same_key x ws \<Longrightarrow> ws_spec ws = ws_spec x" by simp
    moreover from Cons have "map ws_spec (filter (\<lambda>w. ws_ns w = ns) (replace_ws ws items)) =
      map ws_spec (filter (\<lambda>w. ws_ns w = ns) items)" by simp
    ultimately show ?case by (auto simp: replace_ws_def same_key_def)
  qed (simp add: replace_ws_def)
qed

lemma quota_ok_create:
  assumes fresh: "\<forall>x\<in>set items. \<not> same_key x ws" and len: "int (length items) < 2 ^ 31 - 1"
    and adm: "admitCreate (with_items base items) parseKey now req ws = Inr ws'"
    and ok: "quota_ok base items"
  shows "quota_ok base (items @ [ws'])"
  unfolding quota_ok_def
proof (intro allI impI)
  fix ns us assume us: "userSpaceFor base ns = Inr (Some us)"
    and ne: "filter (\<lambda>w. ws_ns w = ns) (items @ [ws']) \<noteq> []"
  let ?L = "filter (\<lambda>w. ws_ns w = ns) items"
  show "fits (us_quota (us_spec us)) (gpuResource base) (filter (\<lambda>w. ws_ns w = ns) (items @ [ws']))"
  proof (cases "ws_ns ws' = ns")
    case True
    from adm have key: "same_key ws ws'" and q: "validateQuota (with_items base items) ws' = None"
      by (auto simp: admitCreate_iff ws_ValidateCreate_def admits dest: ws_Default_key)
    have "counted ?L ws' = ?L @ [ws']"
      using fresh key True by (auto simp: counted_def same_key_def intro!: filter_cong)
    moreover have "int (length (?L @ [ws'])) < 2 ^ 31"
      using len length_filter_le [of "\<lambda>w. ws_ns w = ns" items] by (simp del: length_filter_le)
    ultimately show ?thesis
      using validateQuota_fits [of "with_items base items" ws' us ?L] us q True by simp
  next
    case False
    with us ne ok show ?thesis by (auto simp: quota_ok_def)
  qed
qed

lemma quota_ok_update:
  assumes old: "old \<in> set items" "same_key old ws" and len: "int (length items) < 2 ^ 31"
    and adm: "ws_ValidateUpdate (with_items base items) parseKey now old ws = None"
    and ok: "quota_ok base items" and dist: "keys_distinct items"
  shows "quota_ok base (replace_ws ws items)"
  unfolding quota_ok_def
proof (intro allI impI)
  fix ns us assume us: "userSpaceFor base ns = Inr (Some us)"
    and ne: "filter (\<lambda>w. ws_ns w = ns) (replace_ws ws items) \<noteq> []"
  let ?L = "filter (\<lambda>w. ws_ns w = ns) items" and ?R = "filter (\<lambda>w. ws_ns w = ns) (replace_ws ws items)"
  show "fits (us_quota (us_spec us)) (gpuResource base) ?R"
  proof (cases "ws_ns ws = ns")
    case True
    from adm have "validateQuota (with_items base items) ws = None"
      by (simp add: ws_ValidateUpdate_def admits)
    then have "fits (us_quota (us_spec us)) (gpuResource base) (counted ?L ws)"
      using validateQuota_fits [of "with_items base items" ws us ?L] us True len
        length_counted_update [OF old] by simp
    moreover have "mset ?R = mset (counted ?L ws)"
      using replace_ns_mset [OF dist old] True by simp
    ultimately show ?thesis using fits_mset by metis
  next
    case False
    then have "?R = ?L" by (simp add: filter_replace_ns)
    with us ne ok show ?thesis by (auto simp: quota_ok_def)
  qed
qed

lemma quota_ok_step:
  assumes "ws_step base parseKey (=) schema items items'" and "quota_ok base items"
    and "keys_distinct items" and "\<forall>w\<in>set items. nonneg_ws w"
  shows "quota_ok base items'"
  using assms
proof (induction rule: ws_step.induct)
  case (ws_create items ws seen now req ws')
  then show ?case by (blast intro: quota_ok_create)
next
  case (ws_update old items ws seen now)
  then show ?case by (blast intro: quota_ok_update)
next
  case (ws_status old items ws)
  have "map ws_spec (filter (\<lambda>w. ws_ns w = ns) (replace_ws ws items)) =
        map ws_spec (filter (\<lambda>w. ws_ns w = ns) items)" for ns
    using ws_status by (intro replace_status_spec) auto
  then have "fits q g (filter (\<lambda>w. ws_ns w = ns) (replace_ws ws items)) =
             fits q g (filter (\<lambda>w. ws_ns w = ns) items)"
    and "filter (\<lambda>w. ws_ns w = ns) (replace_ws ws items) = [] \<longleftrightarrow> filter (\<lambda>w. ws_ns w = ns) items = []"
    for q g ns by (rule fits_spec_cong, metis map_is_Nil_conv)
  with ws_status show ?case unfolding quota_ok_def by simp
next
  case (ws_delete items ws)
  have "filter (\<lambda>w. ws_ns w = ns) (filter (\<lambda>x. \<not> same_key x ws) items) =
        filter (\<lambda>x. \<not> same_key x ws) (filter (\<lambda>w. ws_ns w = ns) items)" for ns
    by (simp add: conj_commute)
  moreover have "fits q g (filter (\<lambda>x. \<not> same_key x ws) (filter (\<lambda>w. ws_ns w = ns) items))"
    if "fits q g (filter (\<lambda>w. ws_ns w = ns) items)" for q g ns
    by (rule fits_filter) (use ws_delete that in auto)
  ultimately show ?case using ws_delete(1) unfolding quota_ok_def by (metis filter.simps(1))
qed

definition elements_ok ::
    "(string \<Rightarrow> string option) \<Rightarrow> ('q :: linordered_idom) workspace list \<Rightarrow> bool" where
  "elements_ok parseKey items \<longleftrightarrow> (\<forall>w\<in>set items. mounts_ok w \<and> requests_ok w \<and>
     (\<forall>k\<in>set (ws_keys (ws_spec w)). key_ok parseKey k))"

definition quota_inv :: "('q :: linordered_idom) reader \<Rightarrow> 'q workspace list \<Rightarrow> bool" where
  "quota_inv base items \<longleftrightarrow>
     keys_distinct items \<and> quota_ok base items \<and> (\<forall>w\<in>set items. nonneg_ws w)"

lemma ws_spec_predicates_cong:
  assumes "ws_spec a = ws_spec b"
  shows "nonneg_ws a = nonneg_ws b" "mounts_ok a = mounts_ok b" "requests_ok a = requests_ok b"
  using assms by (simp_all add: nonneg_ws_def mounts_ok_def requests_ok_def)

lemma elements_ok_step:
  "ws_step base parseKey sees schema items items' \<Longrightarrow> elements_ok parseKey items \<Longrightarrow> elements_ok parseKey items'"
proof (induction rule: ws_step.induct)
  case (ws_create items ws seen now req ws')
  then show ?case by (auto simp: elements_ok_def admitCreate_iff ws_ValidateCreate_def admits)
next
  case (ws_update old items ws seen now)
  then show ?case by (auto simp: elements_ok_def ws_ValidateUpdate_def admits replace_ws_def)
next
  case (ws_status old items ws)
  then show ?case using ws_spec_predicates_cong [of ws old]
    by (auto simp: elements_ok_def replace_ws_def)
qed (auto simp: elements_ok_def)

lemma nonneg_step:
  "ws_step base parseKey sees (\<lambda>w. schema w \<and> nonneg_ws w) items items' \<Longrightarrow>
   \<forall>w\<in>set items. nonneg_ws w \<Longrightarrow> \<forall>w\<in>set items'. nonneg_ws w"
proof (induction rule: ws_step.induct)
  case (ws_status old items ws)
  then show ?case using ws_spec_predicates_cong [of ws old] by (auto simp: replace_ws_def)
qed (auto simp: replace_ws_def)

text \<open>
  Two invariants of the store: what every stored object satisfies, and the quota, the latter for
  schemas that let no negative quantity through.
\<close>

interpretation ws_elements: preserved "\<lambda>items. items = []" "ws_step base parseKey sees schema"
    "elements_ok parseKey" for base :: "('q :: linordered_idom) reader" and parseKey sees schema
  by unfold_locales (auto simp: elements_ok_def [of _ "[]"] intro: elements_ok_step)

interpretation ws_quota: preserved "\<lambda>items. items = []"
    "ws_step base parseKey (=) (\<lambda>w. schema w \<and> nonneg_ws w)" "quota_inv base"
  for base :: "('q :: linordered_idom) reader" and parseKey schema
proof unfold_locales
  show "quota_inv base items" if "items = []" for items
    using that by (simp add: quota_inv_def keys_distinct_def quota_ok_def)
  show "quota_inv base t"
    if "quota_inv base s" and "ws_step base parseKey (=) (\<lambda>w. schema w \<and> nonneg_ws w) s t" for s t
    using that quota_ok_step [OF that(2)] keys_distinct_step [OF that(2)] nonneg_step [OF that(2)]
    unfolding quota_inv_def by blast
qed

section \<open>Properties\<close>

definition demo_quota :: "int userspace_quota" where
  "demo_quota = \<lparr>q_cpu = 4000, q_memory = 8192, q_storage = 20, q_gpu = 1, q_workspaces = 2\<rparr>"

definition demo_us :: "int userspace" where
  "demo_us = \<lparr>us_meta = meta0 '''' ''ana'',
     us_spec = \<lparr>us_owner = ''ana@x.io'', us_username = '''', us_email = '''', us_namespace = '''',
       us_keys = [''ssh-ed25519 AAA ana''], us_quota = demo_quota, us_networkPolicy = ''Isolated'',
       us_role = ''user'', us_disabled = False, us_onboarding = None\<rparr>,
     us_status = \<lparr>ust_namespace = ''dwpk-ana'', ust_state = ''Ready'', ust_observedGeneration = 1,
       ust_conditions = []\<rparr>\<rparr>"

definition demo_ws :: "string \<Rightarrow> int \<Rightarrow> int workspace" where
  "demo_ws n cpu = \<lparr>ws_meta = meta0 ''dwpk-ana'' n,
     ws_spec = \<lparr>ws_imageRef = ''go'', ws_resources = \<lparr>res_requests = [(''cpu'', cpu)], res_limits = [(''cpu'', 9000)]\<rparr>,
       ws_storage = Some 10, ws_nodeSelector = [], ws_tolerations = [], ws_affinity = None, ws_env = [],
       ws_envFrom = [], ws_volumes = [], ws_volumeMounts = [], ws_keys = [], ws_running = True,
       ws_idleTimeout = 0, ws_logsEnabled = True, ws_metricsEnabled = True\<rparr>,
     ws_status = \<lparr>wst_state = '''', wst_endpoint = '''', wst_podName = '''', wst_lastActivity = None,
       wst_observedGeneration = 0, wst_conditions = []\<rparr>\<rparr>"

definition demo_img :: "string \<Rightarrow> workspaceimage" where
  "demo_img n = \<lparr>img_meta = meta0 '''' n,
     img_spec = \<lparr>img_displayName = '''', img_description = '''', img_icon = '''', img_tags = [],
       img_maintainer = '''', img_deprecated = False, img_deprecateAt = Some 100, img_image = ''golang:1'',
       img_pullPolicy = ''IfNotPresent'', img_shell = ''/bin/bash'', img_homePath = ''/home/dev'',
       img_runAsUser = 1000, img_allowRoot = False, img_command = [''sleep'', ''infinity''],
       img_placement = None, img_pullSecretRef = None\<rparr>\<rparr>"

definition demo_reader :: "int workspace list \<Rightarrow> int reader" where
  "demo_reader items = \<lparr>r_userspaces = Inr [demo_us], r_workspaces = (\<lambda>ns. Inr (filter (\<lambda>w. ws_ns w = ns) items)),
     r_image = (\<lambda>n. if n = ''go'' then Inr (demo_img ''go'') else Inl NotFound),
     r_platform = Inl NotFound, r_accessReview = (\<lambda>u. Inr (ui_username u = ''root''))\<rparr>"

lemmas demo_defs = demo_quota_def demo_us_def demo_ws_def demo_img_def demo_reader_def meta0_def

text \<open>
  (C5) The quota check is exact: when a UserSpace owns the namespace and the Workspaces there can be
  listed (fewer than \<open>2 ^ 31\<close> of them), the admission accepts the write if and only if the
  workspaces that would then exist fit the allowance. The running count, CPU, memory and GPU are
  summed over running workspaces only, storage over all of them, and the object being written
  counts once, with its new values.
\<close>

theorem validateQuota_exact:
  assumes "userSpaceFor rd (ws_ns ws) = Inr (Some us)"
    and "r_workspaces rd (ws_ns ws) = Inr existing"
    and "int (length existing) < 2 ^ 31 - 1"
  shows "validateQuota rd ws = None \<longleftrightarrow>
    fits (us_quota (us_spec us)) (gpuResource rd) (counted existing ws)"
proof (rule validateQuota_fits [OF assms(1,2)])
  show "int (length (counted existing ws)) < 2 ^ 31"
    using assms(3) length_filter_le [of "\<lambda>x. ws_name x \<noteq> ws_name ws" existing]
    by (simp add: counted_def del: length_filter_le)
qed

theorem validateQuota_exact_witness:
  "validateQuota (demo_reader [demo_ws ''a'' 3000]) (demo_ws ''b'' 1000) = None \<and>
   validateQuota (demo_reader [demo_ws ''a'' 3000]) (demo_ws ''a'' 4000) = None \<and>
   validateQuota (demo_reader [demo_ws ''a'' 3000]) (demo_ws ''b'' 1001) \<noteq> None"
  using validateQuota_exact [of "demo_reader [demo_ws ''a'' 3000]" "demo_ws ''b'' 1000" demo_us "[demo_ws ''a'' 3000]"]
    validateQuota_exact [of "demo_reader [demo_ws ''a'' 3000]" "demo_ws ''a'' 4000" demo_us "[demo_ws ''a'' 3000]"]
    validateQuota_exact [of "demo_reader [demo_ws ''a'' 3000]" "demo_ws ''b'' 1001" demo_us "[demo_ws ''a'' 3000]"]
  by (simp add: demo_defs userSpaceFor_def fits_def counted_def running_cost_def cpu_cost_def
      memory_cost_def gpu_cost_def storage_cost_def gpuResource_def DefaultGPUResourceName_def)

definition demo_user :: userinfo where
  "demo_user = \<lparr>ui_username = ''ana'', ui_groups = [], ui_uid = ''''\<rparr>"

definition demo_admitted :: "string \<Rightarrow> int \<Rightarrow> int workspace" where
  "demo_admitted n cpu = applyKeyDefault (stampRequester (demo_ws n cpu) demo_user) demo_us"

lemma demo_key_trim: "TrimSpace ''ssh-ed25519 AAA ana'' = ''ssh-ed25519 AAA ana''"
  by code_simp

lemma demo_admit:
  assumes "validateQuota (with_items (demo_reader []) items) (demo_admitted n cpu) = None" "cpu \<le> 9000"
  shows "admitCreate (with_items (demo_reader []) items) (\<lambda>k. None) 0 (Some demo_user) (demo_ws n cpu) =
    Inr (demo_admitted n cpu)"
proof -
  have "ws_Default (with_items (demo_reader []) items) (Some demo_user) (demo_ws n cpu) =
      Inr (demo_admitted n cpu)"
    by (simp add: ws_Default_def applyOwnerDefaults_def demo_admitted_def demo_defs stampRequester_def)
  moreover have "ws_ValidateCreate (with_items (demo_reader []) items) (\<lambda>k. None) 0 (demo_admitted n cpu) = None"
    using assms
    by (simp add: ws_ValidateCreate_def admits)
      (simp add: demo_admitted_def demo_defs applyKeyDefault_def mounts_ok_def requests_ok_def key_ok_def
        demo_key_trim IsDeprecated_def)
  ultimately show ?thesis by (simp add: admitCreate_iff)
qed

lemma demo_admitted_reads:
  "ws_ns (demo_admitted n cpu) = ''dwpk-ana''" "ws_name (demo_admitted n cpu) = n"
  "running_cost (demo_admitted n cpu) = 1" "cpu_cost (demo_admitted n cpu) = cpu"
  "memory_cost (demo_admitted n cpu) = 0" "gpu_cost ''nvidia.com/gpu'' (demo_admitted n cpu) = 0"
  "storage_cost (demo_admitted n cpu) = 10" "0 \<le> cpu \<Longrightarrow> nonneg_ws (demo_admitted n cpu)"
  by (simp_all add: demo_admitted_def demo_defs applyKeyDefault_def stampRequester_def running_cost_def
      cpu_cost_def memory_cost_def gpu_cost_def storage_cost_def nonneg_ws_def)

lemma demo_owner: "userSpaceFor (demo_reader items) ''dwpk-ana'' = Inr (Some demo_us)"
  "gpuResource (demo_reader items) = ''nvidia.com/gpu''" "us_quota (us_spec demo_us) = demo_quota"
  by (simp_all add: demo_defs userSpaceFor_def gpuResource_def DefaultGPUResourceName_def)

lemma demo_quota_pass:
  assumes "fits demo_quota ''nvidia.com/gpu'' (counted (filter (\<lambda>w. ws_ns w = ''dwpk-ana'') items) (demo_admitted n cpu))"
    and "length items < 10"
  shows "validateQuota (with_items (demo_reader []) items) (demo_admitted n cpu) = None"
proof -
  have "length (counted (filter (\<lambda>w. ws_ns w = ''dwpk-ana'') items) (demo_admitted n cpu)) \<le> Suc (length items)"
    unfolding counted_def by (simp add: le_trans [OF length_filter_le length_filter_le])
  with assms(2) have "int (length (counted (filter (\<lambda>w. ws_ns w = ''dwpk-ana'') items) (demo_admitted n cpu))) < 2 ^ 31"
    by simp
  then show ?thesis
    using validateQuota_fits [of "with_items (demo_reader []) items" "demo_admitted n cpu" demo_us
        "filter (\<lambda>w. ws_ns w = ''dwpk-ana'') items"] assms(1)
    by (simp add: demo_admitted_reads demo_owner)
qed

lemma demo_reach:
  "ws_reach (demo_reader []) (\<lambda>k. None) (=) (\<lambda>w. True \<and> nonneg_ws w)
     [demo_admitted ''a'' 3000, demo_admitted ''b'' 1000]"
proof -
  let ?step = "ws_step (demo_reader []) (\<lambda>k. None) (=) (\<lambda>w. True \<and> nonneg_ws w)"
  have "admitCreate (with_items (demo_reader []) []) (\<lambda>k. None) 0 (Some demo_user) (demo_ws ''a'' 3000) =
      Inr (demo_admitted ''a'' 3000)"
    by (intro demo_admit demo_quota_pass)
      (simp_all add: counted_def fits_def demo_admitted_reads demo_quota_def)
  then have s1: "?step [] ([] @ [demo_admitted ''a'' 3000])"
    by (intro ws_create) (simp_all add: demo_admitted_reads)
  have "admitCreate (with_items (demo_reader []) [demo_admitted ''a'' 3000]) (\<lambda>k. None) 0
      (Some demo_user) (demo_ws ''b'' 1000) = Inr (demo_admitted ''b'' 1000)"
    by (intro demo_admit demo_quota_pass)
      (simp_all add: counted_def fits_def demo_admitted_reads demo_quota_def)
  then have s2: "?step [demo_admitted ''a'' 3000] ([demo_admitted ''a'' 3000] @ [demo_admitted ''b'' 1000])"
    by (intro ws_create) (auto simp: demo_admitted_reads same_key_def demo_ws_def meta0_def)
  have "reach (\<lambda>items. items = []) ?step []" by (rule reach_start) simp
  then have "reach (\<lambda>items. items = []) ?step ([] @ [demo_admitted ''a'' 3000])"
    using s1 by (rule reach_next)
  then have "reach (\<lambda>items. items = []) ?step [demo_admitted ''a'' 3000]" by simp
  then have "reach (\<lambda>items. items = []) ?step ([demo_admitted ''a'' 3000] @ [demo_admitted ''b'' 1000])"
    using s2 by (rule reach_next)
  then show ?thesis by simp
qed

text \<open>
  (C1) One admission after the other keeps the quota: starting from an empty cluster and taking any sequence of
  admitted creates and updates, status writes and deletes, the workspaces in a namespace always fit the allowance of the UserSpace
  that owns it, provided that each admission reads the list that its write lands on, which \<open>(=)\<close> says, and that no written quantity is
  negative. The code ensures neither: the list is read from a cache, and the schema admits a minus sign. The next theorem
  says what two admissions on one list can do.
\<close>

theorem quota_never_exceeded:
  assumes "ws_reach base parseKey (=) (\<lambda>w. schema w \<and> nonneg_ws w) items"
    and "userSpaceFor base ns = Inr (Some us)"
    and "w \<in> set items" and "ws_ns w = ns"
  shows "fits (us_quota (us_spec us)) (gpuResource base) (filter (\<lambda>w. ws_ns w = ns) items)"
proof -
  from ws_quota.inv_reach [OF assms(1)] have "quota_ok base items" by (simp add: quota_inv_def)
  with assms(2-4) show ?thesis by (auto simp: quota_ok_def filter_empty_conv)
qed

theorem quota_never_exceeded_witness:
  "fits demo_quota ''nvidia.com/gpu'' [demo_admitted ''a'' 3000, demo_admitted ''b'' 1000] \<and>
   sum_list (map cpu_cost [demo_admitted ''a'' 3000, demo_admitted ''b'' 1000]) = q_cpu demo_quota"
  using quota_never_exceeded [OF demo_reach, of "''dwpk-ana''" demo_us "demo_admitted ''a'' 3000"]
  by (simp add: demo_owner demo_admitted_reads demo_quota_def)

text \<open>
  Two creates that overlap, so that both are admitted against one list: each alone fits the allowance, and together they exceed it
  exactly when the second would have been refused had it come after the first.
\<close>

theorem overlapping_admissions:
  assumes "admitCreate (with_items base items) parseKey now req ws = Inr a" and "admitCreate (with_items base items) parseKey now' req' ws' = Inr b"
    and "userSpaceFor base ns = Inr (Some us)" and "ws_ns a = ns" and "ws_ns b = ns" and "ws_name a \<noteq> ws_name b"
    and "\<forall>x\<in>set items. \<not> same_key x a \<and> \<not> same_key x b" and "int (length items) < 2 ^ 31 - 2"
    and "here = filter (\<lambda>w. ws_ns w = ns) items"
  shows "fits (us_quota (us_spec us)) (gpuResource base) (here @ [a]) \<and> fits (us_quota (us_spec us)) (gpuResource base) (here @ [b]) \<and>
    (\<not> fits (us_quota (us_spec us)) (gpuResource base) (here @ [a, b]) \<longleftrightarrow> validateQuota (with_items base (items @ [a])) b \<noteq> None)"
proof -
  have len: "int (length here) < 2 ^ 31 - 2" using assms(8) length_filter_le [of "\<lambda>w. ws_ns w = ns" items] unfolding assms(9) by (meson le_less_trans of_nat_mono)
  have ca: "counted here a = here @ [a]" and cb: "counted here b = here @ [b]" and cab: "counted (here @ [a]) b = here @ [a, b]"
    using assms(4-7,9) by (auto simp: counted_def same_key_def intro!: filter_cong)
  have fa: "validateQuota (with_items base items) w = None \<longleftrightarrow> fits (us_quota (us_spec us)) (gpuResource base) (counted here w)"
    if "ws_ns w = ns" "counted here w = here @ [w]" for w
    using validateQuota_fits [of "with_items base items" w us here] assms(3,9) that len by simp
  have "validateQuota (with_items base items) a = None" "validateQuota (with_items base items) b = None"
    using assms(1,2) by (simp_all add: admitCreate_iff ws_ValidateCreate_def admits)
  moreover have "validateQuota (with_items base (items @ [a])) b = None \<longleftrightarrow> fits (us_quota (us_spec us)) (gpuResource base) (here @ [a, b])"
    using validateQuota_fits [of "with_items base (items @ [a])" b us "here @ [a]"] assms(3-5,9) cab len by simp
  ultimately show ?thesis using fa [OF assms(4) ca] fa [OF assms(5) cb] ca cb by simp
qed

theorem overlapping_admissions_witness:
  "admitCreate (with_items (demo_reader []) []) (\<lambda>k. None) 0 (Some demo_user) (demo_ws ''a'' 3000) = Inr (demo_admitted ''a'' 3000) \<and>
   admitCreate (with_items (demo_reader []) []) (\<lambda>k. None) 0 (Some demo_user) (demo_ws ''b'' 3000) = Inr (demo_admitted ''b'' 3000) \<and>
   \<not> fits demo_quota ''nvidia.com/gpu'' [demo_admitted ''a'' 3000, demo_admitted ''b'' 3000] \<and>
   validateQuota (with_items (demo_reader []) [demo_admitted ''a'' 3000]) (demo_admitted ''b'' 3000) \<noteq> None"
proof -
  have adm: "admitCreate (with_items (demo_reader []) []) (\<lambda>k. None) 0 (Some demo_user) (demo_ws n 3000) = Inr (demo_admitted n 3000)" for n
    by (intro demo_admit demo_quota_pass) (simp_all add: counted_def fits_def demo_admitted_reads demo_quota_def)
  have two: "\<not> fits demo_quota ''nvidia.com/gpu'' [demo_admitted ''a'' 3000, demo_admitted ''b'' 3000]"
    by (simp add: fits_def demo_admitted_reads demo_quota_def)
  have n: "ws_ns (demo_admitted n 3000) = ''dwpk-ana''" "ws_name (demo_admitted n 3000) = n" for n
    by (simp_all add: demo_admitted_reads)
  from overlapping_admissions [OF adm adm, of "''dwpk-ana''" demo_us "''a''" "''b''"] two adm show ?thesis
    by (simp add: n demo_owner)
qed

text \<open>
  (C13) What every stored Workspace satisfies, whatever the sequence of admitted writes: no volume or
  mount takes the name of the home volume, every volume is of a kind that stays inside the
  namespace (in particular none is a hostPath), every authorized key parses after trimming, and no
  request exceeds its own limit.
\<close>

theorem stored_workspaces_safe:
  assumes "ws_reach base parseKey sees schema items" and "w \<in> set items"
  shows "(\<forall>v\<in>set (ws_volumes (ws_spec w)). vol_name v \<noteq> ''home'' \<and>
        volumeKind v \<in> set allowedVolumeTypes \<and> volumeKind v \<noteq> ''hostPath'') \<and>
    (\<forall>m\<in>set (ws_volumeMounts (ws_spec w)). vm_name m \<noteq> ''home'') \<and>
    (\<forall>k\<in>set (ws_keys (ws_spec w)). TrimSpace k \<noteq> '''' \<and> parseKey (TrimSpace k) = None) \<and>
    (\<forall>(n, r)\<in>set (res_requests (ws_resources (ws_spec w))).
        \<forall>l. map_of (res_limits (ws_resources (ws_spec w))) n = Some l \<longrightarrow> r \<le> l)"
proof -
  from ws_elements.inv_reach [OF assms(1)] assms(2)
  have "mounts_ok w" "requests_ok w" "\<forall>k\<in>set (ws_keys (ws_spec w)). key_ok parseKey k"
    by (auto simp: elements_ok_def)
  then show ?thesis
    by (auto simp: mounts_ok_def requests_ok_def key_ok_def allowedVolumeTypes_def)
qed

theorem stored_workspaces_safe_witness:
  "ws_keys (ws_spec (demo_admitted ''a'' 3000)) = [''ssh-ed25519 AAA ana''] \<and>
   TrimSpace ''ssh-ed25519 AAA ana'' \<noteq> ''''"
proof -
  have keys: "ws_keys (ws_spec (demo_admitted ''a'' 3000)) = [''ssh-ed25519 AAA ana'']"
    by (simp add: demo_admitted_def demo_defs applyKeyDefault_def)
  from stored_workspaces_safe [OF demo_reach, of "demo_admitted ''a'' 3000"]
  have "TrimSpace k \<noteq> ''''" if "k \<in> set (ws_keys (ws_spec (demo_admitted ''a'' 3000)))" for k
    using that by simp
  with keys show ?thesis by simp
qed

text \<open>
  Creation is accepted exactly when the catalog entry exists and is not deprecated at the
  time of the request, every key parses, the volumes and mounts are permitted, no request exceeds
  its limit and the quota check passes; an update passes the same checks but for the
  deprecation, so withdrawing a catalog entry never blocks a workspace that already uses it.
\<close>

theorem ws_validate_exact:
  "(ws_ValidateCreate rd parseKey now ws = None \<longleftrightarrow>
     (\<exists>img. r_image rd (ws_imageRef (ws_spec ws)) = Inr img \<and> \<not> IsDeprecated img now) \<and>
     (\<forall>k\<in>set (ws_keys (ws_spec ws)). key_ok parseKey k) \<and> mounts_ok ws \<and> requests_ok ws \<and>
     validateQuota rd ws = None) \<and>
   (ws_ValidateUpdate rd parseKey now old ws = None \<longleftrightarrow>
     (\<exists>img. r_image rd (ws_imageRef (ws_spec ws)) = Inr img) \<and>
     (\<forall>k\<in>set (ws_keys (ws_spec ws)). key_ok parseKey k) \<and> mounts_ok ws \<and> requests_ok ws \<and>
     validateQuota rd ws = None)"
  by (auto simp: ws_ValidateCreate_def ws_ValidateUpdate_def admits)

theorem ws_validate_exact_witness:
  "ws_ValidateCreate (demo_reader []) (\<lambda>k. None) 200 (demo_ws ''a'' 1000) \<noteq> None \<and>
   ws_ValidateUpdate (demo_reader []) (\<lambda>k. None) 200 (demo_ws ''a'' 500) (demo_ws ''a'' 1000) = None"
proof -
  have "validateQuota (demo_reader []) (demo_ws ''a'' 1000) = None"
    using validateQuota_fits [of "demo_reader []" "demo_ws ''a'' 1000" demo_us "[]"]
    by (simp add: demo_defs userSpaceFor_def fits_def counted_def running_cost_def cpu_cost_def
      memory_cost_def gpu_cost_def storage_cost_def gpuResource_def DefaultGPUResourceName_def)
  then show ?thesis
    using ws_validate_exact [of "demo_reader []" "\<lambda>k. None" 200 "demo_ws ''a'' 1000" "demo_ws ''a'' 500"]
    by (simp add: demo_defs mounts_ok_def requests_ok_def IsDeprecated_def)
qed

text \<open>
  What the mutator does to an accepted create: the requester annotation is the authenticated
  username whatever the object declared, and the keys are the object's own or, when it has none,
  a copy of the default keys of the first UserSpace that owns the namespace; nothing else of the
  object changes.
\<close>

theorem admitted_requester_and_keys:
  assumes "admitCreate rd parseKey now (Some user) ws = Inr ws'" and "ui_username user \<noteq> ''''"
  shows "m_annotations (ws_meta ws') = (m_annotations (ws_meta ws))(RequesterAnnotation \<mapsto> ui_username user) \<and>
    ws_spec ws' = (ws_spec ws)\<lparr>ws_keys :=
      (if ws_keys (ws_spec ws) \<noteq> [] then ws_keys (ws_spec ws)
       else case userSpaceFor rd (ws_ns ws) of Inr (Some us) \<Rightarrow> us_keys (us_spec us) | _ \<Rightarrow> [])\<rparr>"
proof -
  from assms(1) have d: "ws_Default rd (Some user) ws = Inr ws'" by (simp add: admitCreate_iff)
  from ws_Default_meta [OF d] assms(2)
  have "m_annotations (ws_meta ws') = (m_annotations (ws_meta ws))(RequesterAnnotation \<mapsto> ui_username user)"
    by (simp add: stampRequester_def)
  with d show ?thesis
    by (auto simp: ws_Default_def applyOwnerDefaults_def applyKeyDefault_def userSpaceFor_def
        firstOwner_find split: sum.splits option.splits if_splits)
qed

theorem admitted_requester_and_keys_witness:
  "m_annotations (ws_meta (demo_admitted ''a'' 3000)) RequesterAnnotation = Some ''ana'' \<and>
   ws_keys (ws_spec (demo_admitted ''a'' 3000)) = [''ssh-ed25519 AAA ana'']"
proof -
  have adm: "admitCreate (with_items (demo_reader []) []) (\<lambda>k. None) 0 (Some demo_user) (demo_ws ''a'' 3000) =
      Inr (demo_admitted ''a'' 3000)"
    by (intro demo_admit demo_quota_pass)
      (simp_all add: counted_def fits_def demo_admitted_reads demo_quota_def)
  have u: "ui_username demo_user \<noteq> ''''" "ui_username demo_user = ''ana''" by (simp_all add: demo_user_def)
  show ?thesis
    using admitted_requester_and_keys [OF adm u(1)] u(2) by (simp add: demo_defs userSpaceFor_def)
qed

text \<open>
  The annotation is only guarded on create: the update check does not read annotations, so an
  update that rewrites the requester is judged exactly as the same update without the rewrite.
\<close>

theorem update_ignores_annotations:
  "ws_ValidateUpdate rd parseKey now old (ws\<lparr>ws_meta := (ws_meta ws)\<lparr>m_annotations := anns\<rparr>\<rparr>) =
   ws_ValidateUpdate rd parseKey now old ws"
proof -
  let ?ws = "ws\<lparr>ws_meta := (ws_meta ws)\<lparr>m_annotations := anns\<rparr>\<rparr>"
  have sp: "ws_spec ?ws = ws_spec ws" "ws_name ?ws = ws_name ws" "ws_ns ?ws = ws_ns ws" by simp_all
  have add: "quotaUsage_add u ?ws g = quotaUsage_add u ws g" for u g
    by (simp only: quotaUsage_add_def sp)
  have within: "quotaUsage_within u us ?ws = quotaUsage_within u us ws" for u us
    by (simp only: quotaUsage_within_def sp)
  have "validateQuota rd ?ws = validateQuota rd ws"
    by (simp only: validateQuota_def sp add within)
  moreover have "catalogEntry rd now ?ws False = catalogEntry rd now ws False"
    by (simp only: catalogEntry_def sp)
  moreover have "validateWorkspaceKeys parseKey ?ws = validateWorkspaceKeys parseKey ws"
    by (simp only: validateWorkspaceKeys_def sp)
  moreover have "validateStorageMounts ?ws = validateStorageMounts ws"
    by (simp only: validateStorageMounts_def sp)
  moreover have "validateResources ?ws = validateResources ws"
    by (simp only: validateResources_def sp)
  ultimately show ?thesis by (simp add: ws_ValidateUpdate_def)
qed

text \<open>
  Negative requests count as credit: a workspace asking for a negative amount of CPU is admitted,
  and afterwards a second one asking for more than the whole allowance passes the quota check.
\<close>

theorem negative_request_is_credit:
  "admitCreate (with_items (demo_reader []) []) (\<lambda>k. None) 0 (Some demo_user) (demo_ws ''a'' (- 3000)) =
     Inr (demo_admitted ''a'' (- 3000)) \<and>
   validateQuota (with_items (demo_reader []) [demo_admitted ''a'' (- 3000)]) (demo_admitted ''b'' 7000) = None \<and>
   q_cpu (us_quota (us_spec demo_us)) < 7000"
proof (intro conjI)
  show "admitCreate (with_items (demo_reader []) []) (\<lambda>k. None) 0 (Some demo_user) (demo_ws ''a'' (- 3000)) =
     Inr (demo_admitted ''a'' (- 3000))"
    by (intro demo_admit demo_quota_pass)
      (simp_all add: counted_def fits_def demo_admitted_reads demo_quota_def)
  show "validateQuota (with_items (demo_reader []) [demo_admitted ''a'' (- 3000)]) (demo_admitted ''b'' 7000) = None"
    by (rule demo_quota_pass) (simp_all add: counted_def fits_def demo_admitted_reads demo_quota_def)
  show "q_cpu (us_quota (us_spec demo_us)) < 7000" by (simp add: demo_owner demo_quota_def)
qed

end
