(* ===== verification/WebhookUserSpace.thy ===== *)
theory WebhookUserSpace
  imports WebhookWorkspace
begin

text \<open>
  The admission webhook of a UserSpace (\<^verbatim>\<open>src/internal/webhook/userspace_validator.go\<close>): who may
  grant the administrator role, what a person may edit on their own UserSpace, when the namespace
  is fixed, and that no two UserSpaces answer to one login.

  The SubjectAccessReview the code posts is the field \<open>r_accessReview\<close> of the \<open>reader\<close>; the
  admission request is \<open>Some\<close> of its user, or \<open>None\<close> when the context carries no request.
\<close>

section \<open>Operations\<close>

definition validateUserSpaceKeys ::
    "(string \<Rightarrow> string option) \<Rightarrow> 'q userspace \<Rightarrow> 'q weberror option" where
  "validateUserSpaceKeys parseKey us =
     (let errs = validateAuthorizedKeys parseKey (us_keys (us_spec us))
      in if errs = [] then None else Some (Invalid (us_name us) errs))"

definition validateNamespaceImmutable ::
    "'q userspace option \<Rightarrow> 'q userspace \<Rightarrow> 'q weberror option" where
  "validateNamespaceImmutable old us =
     (case old of
        None \<Rightarrow> None
      | Some o' \<Rightarrow>
          (if ust_namespace (us_status o') = '''' then None
           else if us_namespace (us_spec us) = us_namespace (us_spec o') then None
           else Some (Forbidden (us_name us) (NamespaceImmutable (ust_namespace (us_status o'))))))"

definition requesterIsAdministrator :: "'q reader \<Rightarrow> userinfo \<Rightarrow> 'q weberror + bool" where
  "requesterIsAdministrator rd user =
     (case r_accessReview rd user of
        Inl err \<Rightarrow> Inl (Wrapped ''check requester privileges'' err)
      | Inr allowed \<Rightarrow> Inr allowed)"

definition validateSelfEdit ::
    "'q reader \<Rightarrow> userinfo option \<Rightarrow> 'q userspace option \<Rightarrow> 'q userspace \<Rightarrow> 'q weberror option" where
  "validateSelfEdit rd req old updated =
     (case old of
        None \<Rightarrow> None
      | Some o' \<Rightarrow>
          (case req of
             None \<Rightarrow> Some NoRequest
           | Some user \<Rightarrow>
               (case requesterIsAdministrator rd user of
                  Inl err \<Rightarrow> Some err
                | Inr admin \<Rightarrow>
                    (if admin then None
                     else
                       let oldSpec = (us_spec o')\<lparr>us_keys := [], us_onboarding := None\<rparr>;
                           newSpec = (us_spec updated)\<lparr>us_keys := [], us_onboarding := None\<rparr>
                       in if oldSpec \<noteq> newSpec then Some (Forbidden (us_name updated) OnlySelfFields)
                          else None))))"

definition validateUniqueLogin :: "'q reader \<Rightarrow> 'q userspace \<Rightarrow> 'q weberror option" where
  "validateUniqueLogin rd us =
     (let login = LoginName us in
      case r_userspaces rd of
        Inl err \<Rightarrow> Some (Wrapped ''list UserSpaces to check the login is free'' err)
      | Inr all \<Rightarrow>
          (case find (\<lambda>other. us_name other \<noteq> us_name us \<and> LoginName other = login) all of
             None \<Rightarrow> None
           | Some other \<Rightarrow> Some (Forbidden (us_name us) (UsernameTaken login (us_name other)))))"

definition validateRoleGrant ::
    "'q reader \<Rightarrow> userinfo option \<Rightarrow> 'q userspace \<Rightarrow> string \<Rightarrow> 'q weberror option" where
  "validateRoleGrant rd req us previousRole =
     (if EffectiveRole (us_spec us) \<noteq> UserSpaceRoleAdmin then None
      else if previousRole = UserSpaceRoleAdmin then None
      else case req of
        None \<Rightarrow> Some NoRequest
      | Some user \<Rightarrow>
          (case requesterIsAdministrator rd user of
             Inl err \<Rightarrow> Some err
           | Inr allowed \<Rightarrow>
               (if \<not> allowed then Some (Forbidden (us_name us) (OnlyAdminGrants UserSpaceRoleAdmin))
                else None)))"

definition us_ValidateCreate ::
    "'q reader \<Rightarrow> (string \<Rightarrow> string option) \<Rightarrow> userinfo option \<Rightarrow> 'q userspace \<Rightarrow> 'q weberror option" where
  "us_ValidateCreate rd parseKey req us =
     check (validateRoleGrant rd req us '''')
     (check (validateUserSpaceKeys parseKey us)
     (validateUniqueLogin rd us))"

definition us_ValidateUpdate ::
    "'q reader \<Rightarrow> (string \<Rightarrow> string option) \<Rightarrow> userinfo option \<Rightarrow> 'q userspace option \<Rightarrow>
     'q userspace \<Rightarrow> 'q weberror option" where
  "us_ValidateUpdate rd parseKey req old us =
     (let previous = (case old of None \<Rightarrow> '''' | Some o' \<Rightarrow> EffectiveRole (us_spec o')) in
      check (validateRoleGrant rd req us previous)
      (check (validateNamespaceImmutable old us)
      (check (validateSelfEdit rd req old us)
      (check (validateUserSpaceKeys parseKey us)
      (validateUniqueLogin rd us)))))"

definition us_ValidateDelete :: "'q userspace \<Rightarrow> 'q weberror option" where
  "us_ValidateDelete us = None"

section \<open>The stored UserSpaces as a transition system\<close>

text \<open>
  Creates and updates pass the webhook, which reads the UserSpaces that its cache shows: \<open>sees uss seen\<close> says
  which lists that may be. The status subresource is
  written by the controller without it and never changes metadata or spec; deletes are free.
\<close>

definition with_uss :: "'q reader \<Rightarrow> 'q userspace list \<Rightarrow> 'q reader" where
  "with_uss base uss = base\<lparr>r_userspaces := Inr uss\<rparr>"

definition replace_us :: "'q userspace \<Rightarrow> 'q userspace list \<Rightarrow> 'q userspace list" where
  "replace_us us uss = map (\<lambda>x. if us_name x = us_name us then us else x) uss"



section \<open>Lemmas: when each check passes\<close>

lemma validateUserSpaceKeys_iff [admits]:
  "validateUserSpaceKeys parseKey us = None \<longleftrightarrow> (\<forall>k\<in>set (us_keys (us_spec us)). key_ok parseKey k)"
  by (simp add: validateUserSpaceKeys_def Let_def validateAuthorizedKeys_Nil_iff)

lemma validateUniqueLogin_iff [admits]:
  "validateUniqueLogin rd us = None \<longleftrightarrow> (\<exists>uss. r_userspaces rd = Inr uss \<and>
     (\<forall>x\<in>set uss. us_name x \<noteq> us_name us \<longrightarrow> LoginName x \<noteq> LoginName us))"
  by (auto simp: validateUniqueLogin_def Let_def find_None_iff split: sum.splits option.splits
      dest: find_SomeE)

lemma validateRoleGrant_iff [admits]:
  "validateRoleGrant rd req us prev = None \<longleftrightarrow>
     us_role (us_spec us) \<noteq> UserSpaceRoleAdmin \<or> prev = UserSpaceRoleAdmin \<or>
     (\<exists>user. req = Some user \<and> r_accessReview rd user = Inr True)"
  by (auto simp: validateRoleGrant_def requesterIsAdministrator_def EffectiveRole_admin_iff
      split: option.splits sum.splits if_splits)

lemma validateNamespaceImmutable_iff [admits]:
  "validateNamespaceImmutable (Some old) us = None \<longleftrightarrow>
     ust_namespace (us_status old) = '''' \<or> us_namespace (us_spec us) = us_namespace (us_spec old)"
  by (simp add: validateNamespaceImmutable_def)

lemma self_fields_eq_iff:
  "s\<lparr>us_keys := [], us_onboarding := None\<rparr> = t\<lparr>us_keys := [], us_onboarding := None\<rparr> \<longleftrightarrow>
   t = s\<lparr>us_keys := us_keys t, us_onboarding := us_onboarding t\<rparr>"
  by (cases s, cases t) auto

lemma validateSelfEdit_iff [admits]:
  "validateSelfEdit rd req (Some old) us = None \<longleftrightarrow>
     (\<exists>user admin. req = Some user \<and> r_accessReview rd user = Inr admin \<and>
        (admin \<or> us_spec us = (us_spec old)\<lparr>us_keys := us_keys (us_spec us),
                                          us_onboarding := us_onboarding (us_spec us)\<rparr>))"
  unfolding validateSelfEdit_def
  by (auto simp: requesterIsAdministrator_def Let_def self_fields_eq_iff
      split: option.splits sum.splits if_splits)

section \<open>Lemmas: the transition system\<close>

lemma with_uss_reads [simp]:
  "r_userspaces (with_uss base uss) = Inr uss" "r_accessReview (with_uss base uss) = r_accessReview base"
  by (simp_all add: with_uss_def)

lemma replace_us_name: "map us_name (replace_us us uss) = map us_name uss"
  by (induction uss) (auto simp: replace_us_def)





text \<open>What an update by somebody the access review refuses can change.\<close>

lemma non_admin_update:
  assumes "us_ValidateUpdate rd parseKey req (Some old) us = None"
    and "\<And>user. req = Some user \<Longrightarrow> r_accessReview rd user \<noteq> Inr True"
  shows "us_spec us = (us_spec old)\<lparr>us_keys := us_keys (us_spec us),
                                   us_onboarding := us_onboarding (us_spec us)\<rparr>"
  using assms by (auto simp: us_ValidateUpdate_def admits)

lemma replace_us_member:
  "distinct (map us_name uss) \<Longrightarrow> old \<in> set uss \<Longrightarrow> us_name old = us_name us \<Longrightarrow>
   x \<in> set (replace_us us uss) \<longleftrightarrow> x = us \<or> x \<in> set uss \<and> us_name x \<noteq> us_name us"
  by (auto simp: replace_us_def)

text \<open>Who holds the administrator role in a set of UserSpaces.\<close>

definition admins :: "'q userspace list \<Rightarrow> string set" where
  "admins uss = us_name ` {u \<in> set uss. EffectiveRole (us_spec u) = UserSpaceRoleAdmin}"

text \<open>The steps taken while every request comes from somebody the access review refuses.\<close>

inductive us_user_step ::
    "'q reader \<Rightarrow> (string \<Rightarrow> string option) \<Rightarrow> 'q userspace list \<Rightarrow> 'q userspace list \<Rightarrow> bool"
  for base parseKey where
  user_create: "\<lbrakk>us_name us \<notin> us_name ` set uss; \<forall>user. req = Some user \<longrightarrow> r_accessReview base user \<noteq> Inr True;
      us_ValidateCreate (with_uss base uss) parseKey req us = None\<rbrakk>
    \<Longrightarrow> us_user_step base parseKey uss (uss @ [us])"
| user_update: "\<lbrakk>old \<in> set uss; us_name old = us_name us; us_status us = us_status old;
      \<forall>user. req = Some user \<longrightarrow> r_accessReview base user \<noteq> Inr True;
      us_ValidateUpdate (with_uss base uss) parseKey req (Some old) us = None\<rbrakk>
    \<Longrightarrow> us_user_step base parseKey uss (replace_us us uss)"
| user_delete: "us_user_step base parseKey uss (filter (\<lambda>x. us_name x \<noteq> n) uss)"

lemma user_step_admins:
  "us_user_step base parseKey uss uss' \<Longrightarrow> distinct (map us_name uss) \<Longrightarrow>
   admins uss' \<subseteq> admins uss \<and> distinct (map us_name uss')"
proof (induction rule: us_user_step.induct)
  case (user_create us uss req)
  then have "us_role (us_spec us) \<noteq> UserSpaceRoleAdmin"
    by (auto simp: us_ValidateCreate_def admits UserSpaceRoleAdmin_def)
  with user_create show ?case by (auto simp: admins_def EffectiveRole_admin_iff)
next
  case (user_update old uss us req)
  have "us_spec us = (us_spec old)\<lparr>us_keys := us_keys (us_spec us), us_onboarding := us_onboarding (us_spec us)\<rparr>"
    by (rule non_admin_update [OF user_update(5)]) (use user_update in simp)
  then have "us_role (us_spec us) = us_role (us_spec old)"
    by (metis userspace_spec.select_convs(8) userspace_spec.surjective
        userspace_spec.update_convs(5,10))
  with user_update show ?case
    by (auto simp: admins_def EffectiveRole_admin_iff replace_us_name replace_us_member image_iff)
      metis
qed (auto simp: admins_def intro: distinct_map_filter)

lemma user_run_admins:
  "(us_user_step base parseKey)\<^sup>*\<^sup>* uss uss' \<Longrightarrow> distinct (map us_name uss) \<Longrightarrow>
   admins uss' \<subseteq> admins uss \<and> distinct (map us_name uss')"
proof (induction rule: rtranclp_induct)
  case (step t u)
  from step.IH [OF step.prems] have t: "admins t \<subseteq> admins uss" "distinct (map us_name t)" by auto
  from user_step_admins [OF step.hyps(2) t(2)] t(1) show ?case by blast
qed simp

section \<open>Properties\<close>

definition demo_us_named :: "string \<Rightarrow> string \<Rightarrow> string \<Rightarrow> int userspace" where
  "demo_us_named n login role = demo_us\<lparr>us_meta := meta0 '''' n,
     us_spec := (us_spec demo_us)\<lparr>us_username := login, us_role := role\<rparr>\<rparr>"

lemmas demo_us_simps = demo_us_named_def demo_us_def demo_reader_def demo_user_def meta0_def demo_quota_def
  us_ValidateCreate_def us_ValidateUpdate_def key_ok_def demo_key_trim LoginName_def UserSpaceRoleAdmin_def

text \<open>
  (C2) No privilege escalation: however long a sequence of creates, updates and deletes runs, as long
  as every request comes from somebody the access review refuses, the set of UserSpaces whose
  effective role is administrator never grows.
\<close>

theorem no_role_escalation:
  assumes "(us_user_step base parseKey)\<^sup>*\<^sup>* uss uss'" and "distinct (map us_name uss)"
  shows "admins uss' \<subseteq> admins uss"
  using user_run_admins [OF assms] by simp

theorem no_role_escalation_witness:
  "admins [demo_us_named ''bob'' '''' ''user''] \<subseteq> admins ([] :: int userspace list)"
proof -
  have "us_user_step (demo_reader []) (\<lambda>k. None) [] ([] @ [demo_us_named ''bob'' '''' ''user''])"
    by (rule user_create [where req = "Some demo_user"]) (simp_all add: admits demo_us_simps)
  then have "(us_user_step (demo_reader []) (\<lambda>k. None))\<^sup>*\<^sup>* [] [demo_us_named ''bob'' '''' ''user'']"
    by simp
  from no_role_escalation [OF this] show ?thesis by simp
qed

text \<open>
  (C12) Self edits are narrow: an accepted update by somebody the access review refuses leaves every
  field of the spec but the SSH keys and the onboarding mark as it was, so quota, role, owner,
  namespace, username, network policy and the disabled flag are out of reach.
\<close>

theorem self_edit_only_keys_and_onboarding:
  assumes "us_ValidateUpdate rd parseKey (Some user) (Some old) us = None"
    and "r_accessReview rd user \<noteq> Inr True"
  shows "us_spec us = (us_spec old)\<lparr>us_keys := us_keys (us_spec us),
                                   us_onboarding := us_onboarding (us_spec us)\<rparr>"
  using assms by (intro non_admin_update [of rd parseKey "Some user"]) auto

theorem self_edit_only_keys_and_onboarding_witness:
  "us_quota (us_spec (demo_us\<lparr>us_spec := (us_spec demo_us)\<lparr>us_onboarding := Some 7\<rparr>\<rparr>)) = us_quota (us_spec demo_us)"
proof -
  let ?us = "demo_us\<lparr>us_spec := (us_spec demo_us)\<lparr>us_onboarding := Some 7\<rparr>\<rparr>"
  have "us_ValidateUpdate (demo_reader []) (\<lambda>k. None) (Some demo_user) (Some demo_us) ?us = None"
    "r_accessReview (demo_reader []) demo_user \<noteq> Inr True"
    by (simp_all add: admits demo_us_simps)
  from self_edit_only_keys_and_onboarding [OF this] show ?thesis by simp
qed



text \<open>
  The namespace is fixed once provisioned, for administrators too: an accepted update of a
  UserSpace whose status already names a namespace keeps the namespace the object asks for.
\<close>

theorem namespace_fixed_once_provisioned:
  assumes "us_ValidateUpdate rd parseKey req (Some old) us = None"
    and "ust_namespace (us_status old) \<noteq> ''''" and "us_name us = us_name old"
  shows "NamespaceName us = NamespaceName old"
  using assms by (auto simp: us_ValidateUpdate_def admits NamespaceName_def)

theorem namespace_fixed_once_provisioned_witness:
  "NamespaceName (demo_us\<lparr>us_spec := (us_spec demo_us)\<lparr>us_role := ''admin''\<rparr>\<rparr>) = ''dwpk-ana''"
proof -
  let ?us = "demo_us\<lparr>us_spec := (us_spec demo_us)\<lparr>us_role := ''admin''\<rparr>\<rparr>"
  have "us_ValidateUpdate (demo_reader []) (\<lambda>k. None) (Some (demo_user\<lparr>ui_username := ''root''\<rparr>))
      (Some demo_us) ?us = None" "ust_namespace (us_status demo_us) \<noteq> ''''" "us_name ?us = us_name demo_us"
    by (simp_all add: admits demo_us_simps)
  from namespace_fixed_once_provisioned [OF this] show ?thesis
    by (simp add: NamespaceName_def NamespacePrefix_def demo_us_def meta0_def)
qed

end
