(* ===== verification/KubeClient.thy ===== *)
theory KubeClient
  imports ApiTypes
begin

text \<open>
  What the reconcilers share: server-side apply of an owned object (\<^verbatim>\<open>src/internal/controller/apply.go\<close>),
  applying a list of them in order, and stamping status conditions.

  The cluster is not code of this repository. Its state is a type parameter \<open>'s\<close>, and the calls a
  reconciler makes are the fields of a record that every definition takes: an \<open>applier\<close> here, one
  client record per reconciler. What a theorem needs of those calls is a named predicate over the
  record, stated with an observation of the state. \<^verbatim>\<open>apimeta.SetStatusCondition\<close> is the parameter
  \<open>setCond\<close>.
\<close>

section \<open>Applying owned objects\<close>

record ('own, 'obj, 's) applier =
  ap_setControllerReference :: "'own \<Rightarrow> 'obj \<Rightarrow> string + 'obj"
  ap_toUnstructured :: "'obj \<Rightarrow> string + 'obj"
  ap_apply :: "'obj \<Rightarrow> 's \<Rightarrow> apierr option \<times> 's"

datatype applyerr = SetOwnerErr string | ConvertErr string | ApplyErr apierr

definition applyOwned ::
    "('own, 'obj, 's) applier \<Rightarrow> 'own \<Rightarrow> 'obj \<Rightarrow> 's \<Rightarrow> applyerr option \<times> 's" where
  "applyOwned c owner desired s =
     (case ap_setControllerReference c owner desired of
        Inl err \<Rightarrow> (Some (SetOwnerErr err), s)
      | Inr owned \<Rightarrow>
          (case ap_toUnstructured c owned of
             Inl err \<Rightarrow> (Some (ConvertErr err), s)
           | Inr raw \<Rightarrow>
               (case ap_apply c raw s of
                  (Some err, s') \<Rightarrow> (Some (ApplyErr err), s')
                | (None, s') \<Rightarrow> (None, s'))))"

text \<open>The loops that apply one child after the other and stop at the first error.\<close>

fun applyAll ::
    "('own, 'obj, 's) applier \<Rightarrow> 'own \<Rightarrow> 'obj list \<Rightarrow> 's \<Rightarrow> applyerr option \<times> 's" where
  "applyAll c owner [] s = (None, s)"
| "applyAll c owner (child # rest) s =
     (case applyOwned c owner child s of
        (Some err, s') \<Rightarrow> (Some err, s')
      | (None, s') \<Rightarrow> applyAll c owner rest s')"

section \<open>Conditions\<close>

text \<open>The loop of every \<^verbatim>\<open>patchStatus\<close>: stamp the generation, then set the condition by type.\<close>

definition setConditions ::
    "(condition list \<Rightarrow> condition \<Rightarrow> condition list) \<Rightarrow> int \<Rightarrow> condition list \<Rightarrow> condition list \<Rightarrow>
     condition list" where
  "setConditions setCond gen old conds =
     foldl (\<lambda>cs c. setCond cs (c\<lparr>c_generation := gen\<rparr>)) old conds"

definition mkCond :: "string \<Rightarrow> bool \<Rightarrow> string \<Rightarrow> string \<Rightarrow> condition" where
  "mkCond t st reason msg =
     \<lparr>c_type = t, c_status = st, c_reason = reason, c_message = msg, c_generation = 0\<rparr>"

section \<open>Laws\<close>

text \<open>
  A keyed view of the objects an applier writes. An accepted apply replaces the entry of the
  object's key by one that satisfies \<open>rel\<close> (what the merge keeps of the applied object), a refused
  one changes nothing, and taking ownership or converting keeps the key and what \<open>rel\<close> sees.
\<close>

locale applier_laws =
  fixes c :: "('own, 'obj, 's) applier"
    and view :: "'s \<Rightarrow> 'k \<rightharpoonup> 'obj"
    and key :: "'obj \<Rightarrow> 'k"
    and rel :: "'obj \<Rightarrow> 'obj \<Rightarrow> bool"
  assumes own_keeps: "ap_setControllerReference c own d = Inr d' \<Longrightarrow> key d' = key d \<and> (\<forall>x. rel d' x \<longrightarrow> rel d x)"
    and convert_keeps: "ap_toUnstructured c d = Inr d' \<Longrightarrow> key d' = key d \<and> (\<forall>x. rel d' x \<longrightarrow> rel d x)"
    and apply_refused: "ap_apply c d s = (Some e, s') \<Longrightarrow> view s' = view s"
    and apply_accepted: "ap_apply c d s = (None, s') \<Longrightarrow> \<exists>x. view s' = (view s)(key d \<mapsto> x) \<and> key x = key d \<and> rel d x"
begin

lemma applyOwned_ok:
  assumes "applyOwned c owner d s = (None, s')"
  shows "\<exists>x. view s' = (view s)(key d \<mapsto> x) \<and> key x = key d \<and> rel d x"
proof -
  from assms obtain d1 d2 where d1: "ap_setControllerReference c owner d = Inr d1"
    and d2: "ap_toUnstructured c d1 = Inr d2" and ap: "ap_apply c d2 s = (None, s')"
    by (auto simp: applyOwned_def split: sum.splits prod.splits option.splits)
  from own_keeps [OF d1] convert_keeps [OF d2] apply_accepted [OF ap] show ?thesis by auto
qed

lemma applyOwned_err:
  "applyOwned c owner d s = (Some e, s') \<Longrightarrow> view s' = view s"
  by (auto simp: applyOwned_def dest: apply_refused split: sum.splits prod.splits option.splits)

text \<open>An outcome of a run: only keys of the list change, and on success each holds its object.\<close>

lemma applyAll_frame:
  assumes "applyAll c owner ds s = (r, s')" and "k \<notin> key ` set ds"
  shows "view s' k = view s k"
  using assms
proof (induction ds arbitrary: s)
  case (Cons d ds)
  show ?case
  proof (cases "applyOwned c owner d s")
    case (Pair e t)
    show ?thesis
    proof (cases e)
      case None
      with Pair Cons have "view s' k = view t k" by simp
      with applyOwned_ok [of owner d s t] Pair None Cons.prems(2) show ?thesis by auto
    next
      case (Some err)
      with Pair Cons.prems applyOwned_err [of owner d s err t] show ?thesis by auto
    qed
  qed
qed simp

lemma applyAll_ok:
  assumes "applyAll c owner ds s = (None, s')" and "k \<in> key ` set ds"
  shows "\<exists>d\<in>set ds. \<exists>x. key d = k \<and> view s' k = Some x \<and> key x = k \<and> rel d x"
  using assms
proof (induction ds arbitrary: s)
  case (Cons d ds)
  from Cons.prems obtain t where t: "applyOwned c owner d s = (None, t)" "applyAll c owner ds t = (None, s')"
    by (auto split: prod.splits option.splits)
  show ?case
  proof (cases "k \<in> key ` set ds")
    case True
    from Cons.IH [OF t(2) this] show ?thesis by auto
  next
    case False
    with Cons.prems(2) have "k = key d" by auto
    moreover from applyAll_frame [OF t(2) False] have "view s' k = view t k" .
    ultimately show ?thesis using applyOwned_ok [OF t(1)] by auto
  qed
qed simp

lemma applyAll_dom:
  assumes "applyAll c owner ds s = (r, s')"
  shows "dom (view s) \<subseteq> dom (view s')"
  using assms
proof (induction ds arbitrary: s)
  case (Cons d ds)
  obtain e t where t: "applyOwned c owner d s = (e, t)" by fastforce
  have "dom (view s) \<subseteq> dom (view t)"
    using applyOwned_ok [of owner d s t] applyOwned_err [of owner d s _ t] t
    by (cases e) auto
  moreover have "dom (view t) \<subseteq> dom (view s')"
    using Cons t by (cases e) auto
  ultimately show ?case by blast
qed simp

end

text \<open>Setting a condition makes it the one found under its type and leaves the other types alone.\<close>

definition findCond :: "condition list \<Rightarrow> string \<Rightarrow> condition option" where
  "findCond cs t = find (\<lambda>c. c_type c = t) cs"

definition setCond_law :: "(condition list \<Rightarrow> condition \<Rightarrow> condition list) \<Rightarrow> bool" where
  "setCond_law setCond \<longleftrightarrow> (\<forall>cs c t. findCond (setCond cs c) t = (if t = c_type c then Some c else findCond cs t))"

section \<open>Lemmas\<close>

lemma findCond_setConditions:
  assumes "setCond_law setCond"
  shows "findCond (setConditions setCond g old (cs @ [c])) t =
    (if t = c_type c then Some (c\<lparr>c_generation := g\<rparr>) else findCond (setConditions setCond g old cs) t)"
  using assms by (simp add: setConditions_def setCond_law_def)

lemma findCond_setConditions_Nil: "setConditions setCond g old [] = old"
  by (simp add: setConditions_def)

section \<open>A reference store\<close>

text \<open>
  A cluster that is only a list of objects, found by key: the concrete instance on which the laws
  above are exercised.
\<close>

definition mem_find :: "('obj \<Rightarrow> 'k) \<Rightarrow> 'obj list \<Rightarrow> 'k \<rightharpoonup> 'obj" where
  "mem_find key s k = find (\<lambda>x. key x = k) s"

definition mem_del :: "('obj \<Rightarrow> 'k) \<Rightarrow> 'k \<Rightarrow> 'obj list \<Rightarrow> apierr option \<times> 'obj list" where
  "mem_del key k s = (if mem_find key s k = None then (Some NotFound, s) else (None, filter (\<lambda>x. key x \<noteq> k) s))"

text \<open>The objects a lookup can find, of those that satisfy a condition.\<close>

definition mem_select :: "('obj \<Rightarrow> 'k) \<Rightarrow> ('obj \<Rightarrow> bool) \<Rightarrow> 'obj list \<Rightarrow> 'obj list" where
  "mem_select key P s = filter P (map (\<lambda>k. the (mem_find key s k)) (remdups (map key s)))"

definition mem_applier :: "('obj \<Rightarrow> 'k) \<Rightarrow> ('own, 'obj, 'obj list) applier" where
  "mem_applier key = \<lparr>ap_setControllerReference = (\<lambda>own d. Inr d), ap_toUnstructured = Inr,
     ap_apply = (\<lambda>d s. (None, d # s))\<rparr>"

lemma mem_find_Cons: "mem_find key (d # s) = (mem_find key s)(key d \<mapsto> d)"
  by (auto simp: mem_find_def)

lemma mem_find_filter: "mem_find key (filter (\<lambda>x. key x \<noteq> k) s) = (mem_find key s)(k := None)"
proof
  fix j show "mem_find key (filter (\<lambda>x. key x \<noteq> k) s) j = ((mem_find key s)(k := None)) j"
    by (induction s) (auto simp: mem_find_def)
qed

lemma mem_find_SomeD: "mem_find key s k = Some x \<Longrightarrow> key x = k \<and> x \<in> set s"
  by (auto simp: mem_find_def find_Some_iff)

lemma mem_find_key: "x \<in> set s \<Longrightarrow> \<exists>y. mem_find key s (key x) = Some y"
  by (induction s) (auto simp: mem_find_def)

lemma mem_find_the [simp]: "x \<in> set s \<Longrightarrow> key (the (mem_find key s (key x))) = key x"
  using mem_find_key [of x s key] mem_find_SomeD [of key s "key x"] by auto

lemma mem_select_keys: "key ` set (mem_select key P s) = {k. \<exists>x. mem_find key s k = Some x \<and> P x}"
proof (intro set_eqI iffI)
  fix k assume "k \<in> key ` set (mem_select key P s)"
  then obtain x where x: "x \<in> set s" "P (the (mem_find key s (key x)))" "k = key x"
    by (auto simp: mem_select_def)
  with mem_find_key [OF x(1), of key] show "k \<in> {k. \<exists>x. mem_find key s k = Some x \<and> P x}" by auto
next
  fix k assume "k \<in> {k. \<exists>x. mem_find key s k = Some x \<and> P x}"
  then obtain x where x: "mem_find key s k = Some x" "P x" by auto
  from mem_find_SomeD [OF x(1)] have "x \<in> set (mem_select key P s)" "key x = k"
    using x by (auto simp: mem_select_def intro!: image_eqI [of _ _ "key x"])
  then show "k \<in> key ` set (mem_select key P s)" by auto
qed

lemma mem_applier_laws: "(\<And>d. rel d d) \<Longrightarrow> applier_laws (mem_applier key) (mem_find key) key rel"
  by unfold_locales (auto simp: mem_applier_def mem_find_Cons)

interpretation mem_store: applier_laws "mem_applier key" "mem_find key" key "(=)" for key
  by (rule mem_applier_laws) simp

definition mem_setCond :: "condition list \<Rightarrow> condition \<Rightarrow> condition list" where
  "mem_setCond cs c = c # filter (\<lambda>x. c_type x \<noteq> c_type c) cs"

lemma find_filter_other: "t \<noteq> u \<Longrightarrow> find (\<lambda>c. c_type c = t) (filter (\<lambda>x. c_type x \<noteq> u) cs) =
  find (\<lambda>c. c_type c = t) cs"
  by (induction cs) auto

lemma mem_setCond_law: "setCond_law mem_setCond"
  by (auto simp: setCond_law_def mem_setCond_def findCond_def find_filter_other)

end
