(* ===== verification/Registry.thy ===== *)
theory Registry
  imports Prelude
begin

text \<open>
  Package \<^verbatim>\<open>src/internal/registry\<close>: what an external container registry holds (\<^verbatim>\<open>ecr.go\<close>), which
  of it a sync keeps (\<^verbatim>\<open>selection.go\<close>), and which cloud an image reference points to (\<^verbatim>\<open>origin.go\<close>).

  Parameters: \<open>compile\<close> is \<^verbatim>\<open>regexp.Compile\<close> (the error text, or the matcher of the pattern);
  \<open>sortFunc\<close> is \<^verbatim>\<open>slices.SortFunc\<close> with the comparison of the source, of which only what its
  documentation promises is used (\<open>newest_first\<close>: a permutation in the comparison's order, not
  necessarily stable); a paginated AWS call is the list of its pages.
\<close>

section \<open>Images and providers\<close>

record remoteimage =
  ri_repository :: string
  ri_tag :: string
  ri_reference :: string
  ri_pushedAt :: gotime

record ecr_repository =
  er_name :: "string option"
  er_uri :: "string option"
  er_registryId :: "string option"

record ecr_detail =
  ed_tags :: "string list"
  ed_pushedAt :: "gotime option"

text \<open>\<^verbatim>\<open>aws.ToString\<close>: the empty string for nil.\<close>

definition ToString :: "string option \<Rightarrow> string" where
  "ToString s = (case s of None \<Rightarrow> '''' | Some x \<Rightarrow> x)"

text \<open>The zero \<^verbatim>\<open>time.Time\<close>, which an image without a push time is given.\<close>

definition zeroTime :: gotime where
  "zeroTime = - 62135596800000000000"

definition tagsOf :: "ecr_repository \<Rightarrow> ecr_detail \<Rightarrow> remoteimage list" where
  "tagsOf repository detail =
     (let host = ToString (er_uri repository);
          pushedAt = (case ed_pushedAt detail of None \<Rightarrow> zeroTime | Some t \<Rightarrow> t)
      in map (\<lambda>tag. \<lparr>ri_repository = ToString (er_name repository), ri_tag = tag,
                     ri_reference = host @ '':'' @ tag, ri_pushedAt = pushedAt\<rparr>) (ed_tags detail))"

text \<open>The paginator loop: stop at the first page that fails.\<close>

fun collectPages :: "(string + 'a list) list \<Rightarrow> string + 'a list" where
  "collectPages [] = Inr []"
| "collectPages (Inl err # rest) = Inl err"
| "collectPages (Inr page # rest) =
     (case collectPages rest of Inl err \<Rightarrow> Inl err | Inr pages \<Rightarrow> Inr (page @ pages))"

record ecr_client =
  describeRepositories :: "string option \<Rightarrow> (string + ecr_repository list) list"
  describeImages :: "string option \<Rightarrow> string option \<Rightarrow> (string + ecr_detail list) list"

datatype ecr_error = DescribeRepositories string | DescribeImages string string

definition ecr_repositories :: "ecr_client \<Rightarrow> string \<Rightarrow> ecr_error + ecr_repository list" where
  "ecr_repositories cl registryID =
     (let rid = (if registryID \<noteq> '''' then Some registryID else None) in
      case collectPages (describeRepositories cl rid) of
        Inl err \<Rightarrow> Inl (DescribeRepositories err)
      | Inr repos \<Rightarrow> Inr repos)"

definition imagesIn :: "ecr_client \<Rightarrow> ecr_repository \<Rightarrow> ecr_error + remoteimage list" where
  "imagesIn cl repository =
     (case collectPages (describeImages cl (er_registryId repository) (er_name repository)) of
        Inl err \<Rightarrow> Inl (DescribeImages (ToString (er_name repository)) err)
      | Inr details \<Rightarrow> Inr (concat (map (tagsOf repository) details)))"

fun ecr_list_from :: "ecr_client \<Rightarrow> ecr_repository list \<Rightarrow> ecr_error + remoteimage list" where
  "ecr_list_from cl [] = Inr []"
| "ecr_list_from cl (repository # rest) =
     (case imagesIn cl repository of
        Inl err \<Rightarrow> Inl err
      | Inr tagged \<Rightarrow>
          (case ecr_list_from cl rest of Inl err \<Rightarrow> Inl err | Inr images \<Rightarrow> Inr (tagged @ images)))"

definition ecr_List :: "ecr_client \<Rightarrow> string \<Rightarrow> ecr_error + remoteimage list" where
  "ecr_List cl registryID =
     (case ecr_repositories cl registryID of
        Inl err \<Rightarrow> Inl err
      | Inr repositories \<Rightarrow> ecr_list_from cl repositories)"

section \<open>Selection\<close>

type_synonym matcher = "string \<Rightarrow> bool"

record selection =
  sel_include :: "matcher list"
  sel_exclude :: "matcher list"
  sel_tagPattern :: "matcher list"
  sel_tagIsLatest :: bool
  sel_tagLimit :: int

datatype selection_error = CompileInclude string string | CompileExclude string string | CompileTags string string

fun compileAll :: "(string \<Rightarrow> string + matcher) \<Rightarrow> string list \<Rightarrow> (string \<times> string) + matcher list" where
  "compileAll compile [] = Inr []"
| "compileAll compile (pattern # rest) =
     (case compile pattern of
        Inl err \<Rightarrow> Inl (pattern, err)
      | Inr re \<Rightarrow> (case compileAll compile rest of Inl err \<Rightarrow> Inl err | Inr res \<Rightarrow> Inr (re # res)))"

definition CompileSelection ::
    "(string \<Rightarrow> string + matcher) \<Rightarrow> string list \<Rightarrow> string list \<Rightarrow> string \<Rightarrow> string list \<Rightarrow> int \<Rightarrow>
     selection_error + selection" where
  "CompileSelection compile incl excl tagMode tagPatterns tagLimit =
     (case compileAll compile incl of
        Inl (p, err) \<Rightarrow> Inl (CompileInclude p err)
      | Inr compiledInclude \<Rightarrow>
          (case compileAll compile excl of
             Inl (p, err) \<Rightarrow> Inl (CompileExclude p err)
           | Inr compiledExclude \<Rightarrow>
               (case compileAll compile tagPatterns of
                  Inl (p, err) \<Rightarrow> Inl (CompileTags p err)
                | Inr compiledTags \<Rightarrow>
                    Inr \<lparr>sel_include = compiledInclude, sel_exclude = compiledExclude,
                         sel_tagPattern = compiledTags, sel_tagIsLatest = (tagMode \<noteq> ''pattern''),
                         sel_tagLimit = tagLimit\<rparr>)))"

definition repositoryMatches :: "string \<Rightarrow> selection \<Rightarrow> bool" where
  "repositoryMatches repository sel =
     (if list_ex (\<lambda>pattern. pattern repository) (sel_exclude sel) then False
      else if length (sel_include sel) = 0 then True
      else list_ex (\<lambda>pattern. pattern repository) (sel_include sel))"

definition tagMatches :: "string \<Rightarrow> matcher list \<Rightarrow> bool" where
  "tagMatches tag patterns = list_ex (\<lambda>pattern. pattern tag) patterns"

type_synonym sorter = "remoteimage list \<Rightarrow> remoteimage list"

definition selectTags :: "sorter \<Rightarrow> remoteimage list \<Rightarrow> selection \<Rightarrow> remoteimage list" where
  "selectTags sortFunc images sel =
     (let matching = filter (\<lambda>img. \<not> (\<not> sel_tagIsLatest sel \<and> \<not> tagMatches (ri_tag img) (sel_tagPattern sel))) images;
          matching = sortFunc matching;
          limit = (if sel_tagLimit sel \<le> 0 then 1 else sel_tagLimit sel)
      in if int (length matching) > limit then take (nat limit) matching else matching)"

text \<open>The grouping loop: the images of each repository, and the repositories in order of appearance.\<close>

definition groupStep ::
    "selection \<Rightarrow> (string \<rightharpoonup> remoteimage list) \<times> string list \<Rightarrow> remoteimage \<Rightarrow>
     (string \<rightharpoonup> remoteimage list) \<times> string list" where
  "groupStep sel st img =
     (let (byRepo, order) = st; repo = ri_repository img in
      if \<not> repositoryMatches repo sel then (byRepo, order)
      else
        let order = (if byRepo repo = None then order @ [repo] else order);
            seen = (case byRepo repo of None \<Rightarrow> [] | Some xs \<Rightarrow> xs)
        in (byRepo(repo \<mapsto> seen @ [img]), order))"

definition Select :: "sorter \<Rightarrow> remoteimage list \<Rightarrow> selection \<Rightarrow> remoteimage list" where
  "Select sortFunc images sel =
     (let (byRepo, order) = foldl (groupStep sel) (Map.empty, []) images in
      concat (map (\<lambda>repo. selectTags sortFunc (case byRepo repo of None \<Rightarrow> [] | Some xs \<Rightarrow> xs) sel) order))"

section \<open>Origin\<close>

definition isDigit :: "char \<Rightarrow> bool" where
  "isDigit c \<longleftrightarrow> CHR ''0'' \<le> c \<and> c \<le> CHR ''9''"

definition isLower :: "char \<Rightarrow> bool" where
  "isLower c \<longleftrightarrow> CHR ''a'' \<le> c \<and> c \<le> CHR ''z''"

text \<open>
  The expression \<^verbatim>\<open>^\d+\.dkr\.ecr\.[a-z0-9-]+\.amazonaws\.com$\<close>. Neither repetition can match the dot that
  follows it, so taking each greedily is exact.
\<close>

definition ecrHost :: "string \<Rightarrow> bool" where
  "ecrHost s =
     (let digits = takeWhile isDigit s; rest = dropWhile isDigit s;
          mid = ''.dkr.ecr.''; after = drop (length mid) rest;
          okc = (\<lambda>c. isLower c \<or> isDigit c \<or> c = CHR ''-'');
          region = takeWhile okc after
      in digits \<noteq> [] \<and> HasPrefix rest mid \<and> region \<noteq> [] \<and> dropWhile okc after = ''.amazonaws.com'')"

definition hostOf :: "string \<Rightarrow> string" where
  "hostOf img =
     (case Cut img (CHR ''/'') of
        None \<Rightarrow> ''''
      | Some (first, _) \<Rightarrow>
          (if ContainsAny first ''.:'' \<or> first = ''localhost'' then first else ''''))"

definition OriginOf :: "string \<Rightarrow> string" where
  "OriginOf img =
     (let host = hostOf img in
      if host = '''' then ''Docker Hub''
      else if ecrHost host then ''AWS''
      else if host = ''gcr.io'' \<or> HasSuffix host ''.gcr.io'' \<or> HasSuffix host ''-docker.pkg.dev'' then ''Google''
      else if host = ''ghcr.io'' then ''GitHub''
      else if host = ''quay.io'' then ''Quay''
      else if host = ''docker.io'' \<or> host = ''index.docker.io'' then ''Docker Hub''
      else host)"

section \<open>Lemmas\<close>

text \<open>What \<^verbatim>\<open>slices.SortFunc\<close> promises for the comparison \<^verbatim>\<open>b.PushedAt.Compare(a.PushedAt)\<close>.\<close>

definition newest_first :: "sorter \<Rightarrow> bool" where
  "newest_first sortFunc \<longleftrightarrow> (\<forall>xs. mset (sortFunc xs) = mset xs \<and>
     sorted_wrt (\<lambda>a b. ri_pushedAt b \<le> ri_pushedAt a) (sortFunc xs))"

definition tagKept :: "selection \<Rightarrow> remoteimage \<Rightarrow> bool" where
  "tagKept sel i \<longleftrightarrow> sel_tagIsLatest sel \<or> tagMatches (ri_tag i) (sel_tagPattern sel)"

definition tagBound :: "selection \<Rightarrow> nat" where
  "tagBound sel = (if sel_tagLimit sel \<le> 0 then 1 else nat (sel_tagLimit sel))"

lemma selectTags_eq: "selectTags sortFunc images sel = take (tagBound sel) (sortFunc (filter (tagKept sel) images))"
  by (auto simp: selectTags_def Let_def tagBound_def tagKept_def cong: filter_cong)

lemma set_selectTags: "newest_first srt \<Longrightarrow> set (selectTags srt xs sel) \<subseteq> set (filter (tagKept sel) xs)"
  unfolding selectTags_eq newest_first_def
  by (metis set_mset_mset set_take_subset)

definition grouped :: "selection \<Rightarrow> remoteimage list \<Rightarrow> string \<rightharpoonup> remoteimage list" where
  "grouped sel images r =
     (let xs = filter (\<lambda>i. ri_repository i = r) images in
      if repositoryMatches r sel \<and> xs \<noteq> [] then Some xs else None)"

lemma group_foldl:
  "fst (foldl (groupStep sel) (Map.empty, []) images) = grouped sel images \<and>
   distinct (snd (foldl (groupStep sel) (Map.empty, []) images)) \<and>
   set (snd (foldl (groupStep sel) (Map.empty, []) images)) = dom (grouped sel images)"
proof (induction images rule: rev_induct)
  case Nil
  show ?case by (auto simp: grouped_def fun_eq_iff)
next
  case (snoc i images)
  let ?r = "ri_repository i"
  obtain m ord where st: "foldl (groupStep sel) (Map.empty, []) images = (m, ord)" by fastforce
  with snoc have IH: "m = grouped sel images" "distinct ord" "set ord = dom (grouped sel images)" by auto
  show ?case
  proof (cases "repositoryMatches ?r sel")
    case False
    then have "grouped sel (images @ [i]) = grouped sel images"
      by (auto simp: grouped_def fun_eq_iff Let_def)
    moreover from False have "groupStep sel (m, ord) i = (m, ord)" by (simp add: groupStep_def)
    ultimately show ?thesis using st IH by simp
  next
    case True
    let ?seen = "case m ?r of None \<Rightarrow> [] | Some xs \<Rightarrow> xs"
    have "?seen = filter (\<lambda>j. ri_repository j = ?r) images"
      using True IH(1) by (auto simp: grouped_def Let_def)
    then have "m(?r \<mapsto> ?seen @ [i]) = grouped sel (images @ [i])"
      using True IH(1) by (auto simp: grouped_def fun_eq_iff Let_def)
    moreover have "dom (grouped sel (images @ [i])) = insert ?r (dom (grouped sel images))"
      using True by (auto simp: grouped_def dom_def Let_def split: if_splits)
    moreover have "groupStep sel (m, ord) i =
        (m(?r \<mapsto> ?seen @ [i]), if m ?r = None then ord @ [?r] else ord)"
      using True by (simp add: groupStep_def Let_def)
    ultimately show ?thesis using st IH by (auto simp: domIff)
  qed
qed

lemma filter_concat_key:
  assumes "distinct rs" and "\<And>r x. r \<in> set rs \<Longrightarrow> x \<in> set (f r) \<Longrightarrow> k x = r"
  shows "filter (\<lambda>x. k x = r) (concat (map f rs)) = (if r \<in> set rs then f r else [])"
  using assms
proof (induction rs)
  case (Cons a rs)
  have "filter (\<lambda>x. k x = r) (f a) = (if r = a then f a else [])"
    using Cons.prems(2) [of a] by (auto simp: filter_id_conv filter_empty_conv)
  with Cons show ?case by auto
qed simp

lemma Select_per_repo:
  assumes "newest_first srt"
  shows "filter (\<lambda>i. ri_repository i = r) (Select srt images sel) =
    (if repositoryMatches r sel \<and> (\<exists>i\<in>set images. ri_repository i = r)
     then selectTags srt (filter (\<lambda>i. ri_repository i = r) images) sel else [])"
proof -
  obtain m ord where st: "foldl (groupStep sel) (Map.empty, []) images = (m, ord)" by fastforce
  with group_foldl [of sel images]
  have IH: "m = grouped sel images" "distinct ord" "set ord = dom (grouped sel images)" by auto
  let ?f = "\<lambda>r. selectTags srt (case m r of None \<Rightarrow> [] | Some xs \<Rightarrow> xs) sel"
  have "ri_repository x = r'" if "r' \<in> set ord" "x \<in> set (?f r')" for r' x
    using that set_selectTags [OF assms, of _ sel] IH
    by (fastforce simp: grouped_def Let_def split: if_splits)
  from filter_concat_key [OF IH(2), of ?f ri_repository r, OF this]
  have "filter (\<lambda>i. ri_repository i = r) (Select srt images sel) = (if r \<in> set ord then ?f r else [])"
    by (simp add: Select_def st)
  then show ?thesis
    using IH by (auto simp: grouped_def Let_def dom_def filter_empty_conv)
qed

lemma newest_first_set: "newest_first srt \<Longrightarrow> set (srt xs) = set xs"
  unfolding newest_first_def by (metis set_mset_mset)

lemma newest_first_Nil: "newest_first srt \<Longrightarrow> srt [] = []"
  using newest_first_set [of srt "[]"] by simp

lemma Select_repo_eq:
  assumes "newest_first srt"
  shows "filter (\<lambda>i. ri_repository i = r) (Select srt images sel) =
    (if repositoryMatches r sel
     then take (tagBound sel) (srt (filter (\<lambda>i. ri_repository i = r \<and> tagKept sel i) images)) else [])"
proof (cases "\<exists>i\<in>set images. ri_repository i = r")
  case True
  have "filter (tagKept sel) (filter (\<lambda>i. ri_repository i = r) images) =
    filter (\<lambda>i. ri_repository i = r \<and> tagKept sel i) images" by (simp add: conj_commute)
  with True show ?thesis by (simp add: Select_per_repo [OF assms] selectTags_eq)
next
  case False
  then have "filter (\<lambda>i. ri_repository i = r \<and> tagKept sel i) images = []"
    by (auto simp: filter_empty_conv)
  with False show ?thesis by (simp add: Select_per_repo [OF assms] newest_first_Nil [OF assms])
qed

lemma Select_member:
  assumes "newest_first srt"
  shows "i \<in> set (Select srt images sel) \<longleftrightarrow> repositoryMatches (ri_repository i) sel \<and>
    i \<in> set (take (tagBound sel) (srt (filter (\<lambda>j. ri_repository j = ri_repository i \<and> tagKept sel j) images)))"
proof -
  have "i \<in> set (Select srt images sel) \<longleftrightarrow>
      i \<in> set (filter (\<lambda>j. ri_repository j = ri_repository i) (Select srt images sel))" by simp
  then show ?thesis using Select_repo_eq [OF assms, of "ri_repository i" images sel] by simp
qed

lemma take_sorted_cut:
  assumes "sorted_wrt R xs" and "i \<in> set xs" and "i \<notin> set (take n xs)"
  shows "length (take n xs) = n \<and> (\<forall>j\<in>set (take n xs). R j i)"
proof -
  from assms(2,3) have i: "i \<in> set (drop n xs)" by (metis UnE append_take_drop_id set_append)
  then have "n < length xs" by (metis drop_all empty_iff empty_set not_less)
  moreover have "\<forall>x\<in>set (take n xs). \<forall>y\<in>set (drop n xs). R x y"
    using assms(1) sorted_wrt_append [of R "take n xs" "drop n xs"] by simp
  ultimately show ?thesis using i by auto
qed

lemma takeWhile_stop: "(\<And>x. x \<in> set xs \<Longrightarrow> P x) \<Longrightarrow> \<not> P y \<Longrightarrow> takeWhile P (xs @ y # zs) = xs"
  by (induction xs) auto

lemma dropWhile_stop: "(\<And>x. x \<in> set xs \<Longrightarrow> P x) \<Longrightarrow> \<not> P y \<Longrightarrow> dropWhile P (xs @ y # zs) = y # zs"
  by (induction xs) auto

definition regionChar :: "char \<Rightarrow> bool" where
  "regionChar c \<longleftrightarrow> isLower c \<or> isDigit c \<or> c = CHR ''-''"

lemma dot_classes: "\<not> isDigit (CHR ''.'')" "\<not> regionChar (CHR ''.'')" "\<not> isDigit (CHR ''/'')" "\<not> regionChar (CHR ''/'')"
  by code_simp+

lemma ecrHost_intro:
  assumes "acct \<noteq> []" "list_all isDigit acct" "region \<noteq> []" "list_all regionChar region"
  shows "ecrHost (acct @ ''.dkr.ecr.'' @ region @ ''.amazonaws.com'')"
proof -
  have "takeWhile isDigit (acct @ CHR ''.'' # zs) = acct"
    "dropWhile isDigit (acct @ CHR ''.'' # zs) = CHR ''.'' # zs" for zs
    using assms(2) dot_classes by (auto intro!: takeWhile_stop dropWhile_stop simp: list_all_iff)
  moreover have "takeWhile regionChar (region @ CHR ''.'' # zs) = region"
    "dropWhile regionChar (region @ CHR ''.'' # zs) = CHR ''.'' # zs" for zs
    using assms(4) dot_classes by (auto intro!: takeWhile_stop dropWhile_stop simp: list_all_iff)
  ultimately show ?thesis
    using assms(1,3) by (simp add: ecrHost_def HasPrefix_def flip: regionChar_def)
qed

section \<open>Properties\<close>

text \<open>
  (C34) What a sync selects. Every selected image is in the registry, in a repository that the
  include and exclude patterns let through, with a tag the policy keeps; within a repository the
  images come newest first and are no more than the limit (one when the limit is not positive);
  and an image that qualifies but is left out is missing only because the limit is used up by
  images none of which is older.
\<close>

theorem Select_newest_within_limit:
  assumes "newest_first srt"
  shows "(\<forall>i\<in>set (Select srt images sel).
        i \<in> set images \<and> repositoryMatches (ri_repository i) sel \<and> tagKept sel i) \<and>
    (\<forall>r. length (filter (\<lambda>i. ri_repository i = r) (Select srt images sel)) \<le> tagBound sel \<and>
         sorted_wrt (\<lambda>a b. ri_pushedAt b \<le> ri_pushedAt a)
           (filter (\<lambda>i. ri_repository i = r) (Select srt images sel))) \<and>
    (\<forall>i\<in>set images. repositoryMatches (ri_repository i) sel \<and> tagKept sel i \<and>
         i \<notin> set (Select srt images sel) \<longrightarrow>
       length (filter (\<lambda>j. ri_repository j = ri_repository i) (Select srt images sel)) = tagBound sel \<and>
       (\<forall>j\<in>set (Select srt images sel). ri_repository j = ri_repository i \<longrightarrow> ri_pushedAt i \<le> ri_pushedAt j))"
    (is "?sound \<and> ?order \<and> ?complete")
proof (intro conjI)
  let ?K = "\<lambda>r. filter (\<lambda>i. ri_repository i = r \<and> tagKept sel i) images"
  have sorted: "sorted_wrt (\<lambda>a b. ri_pushedAt b \<le> ri_pushedAt a) (srt xs)" for xs
    using assms by (simp add: newest_first_def)
  show ?sound
  proof
    fix i assume "i \<in> set (Select srt images sel)"
    then have "repositoryMatches (ri_repository i) sel" "i \<in> set (srt (?K (ri_repository i)))"
      using Select_member [OF assms, of i images sel] by (auto dest: in_set_takeD)
    then show "i \<in> set images \<and> repositoryMatches (ri_repository i) sel \<and> tagKept sel i"
      by (simp add: newest_first_set [OF assms])
  qed
  show ?order
    by (simp add: Select_repo_eq [OF assms] sorted_wrt_take sorted)
  show ?complete
  proof (intro ballI impI)
    fix i assume i: "i \<in> set images" and q: "repositoryMatches (ri_repository i) sel \<and> tagKept sel i \<and>
      i \<notin> set (Select srt images sel)"
    let ?L = "srt (?K (ri_repository i))"
    from i q have "i \<in> set ?L" "i \<notin> set (take (tagBound sel) ?L)"
      using Select_member [OF assms, of i images sel] by (auto simp: newest_first_set [OF assms])
    from take_sorted_cut [OF sorted this] q
    show "length (filter (\<lambda>j. ri_repository j = ri_repository i) (Select srt images sel)) = tagBound sel \<and>
       (\<forall>j\<in>set (Select srt images sel). ri_repository j = ri_repository i \<longrightarrow> ri_pushedAt i \<le> ri_pushedAt j)"
      using Select_repo_eq [OF assms, of "ri_repository i" images sel] Select_member [OF assms, of _ images sel]
      by auto
  qed
qed

definition demo_sort :: sorter where
  "demo_sort xs = sort_key (\<lambda>i. - ri_pushedAt i) xs"

definition demo_remote :: "string \<Rightarrow> string \<Rightarrow> int \<Rightarrow> remoteimage" where
  "demo_remote r t p = \<lparr>ri_repository = r, ri_tag = t, ri_reference = r @ '':'' @ t, ri_pushedAt = p\<rparr>"

definition demo_selection :: selection where
  "demo_selection = \<lparr>sel_include = [], sel_exclude = [\<lambda>s. s = ''tmp''], sel_tagPattern = [],
     sel_tagIsLatest = True, sel_tagLimit = 0\<rparr>"

lemma demo_sort_ok: "newest_first demo_sort"
proof -
  have "sorted_wrt (\<lambda>a b. ri_pushedAt b \<le> ri_pushedAt a) (demo_sort xs)" for xs
  proof -
    have "sorted_wrt (\<le>) (map (\<lambda>i. - ri_pushedAt i) (demo_sort xs))"
      unfolding demo_sort_def by (rule sorted_sort_key)
    then show ?thesis by (simp add: sorted_wrt_map)
  qed
  then show ?thesis by (simp add: newest_first_def demo_sort_def)
qed

theorem Select_newest_within_limit_witness:
  "demo_remote ''go'' ''2'' 20 \<in> set (Select demo_sort
     [demo_remote ''go'' ''1'' 10, demo_remote ''tmp'' ''x'' 99, demo_remote ''go'' ''2'' 20] demo_selection) \<and>
   length (filter (\<lambda>i. ri_repository i = ''go'') (Select demo_sort
     [demo_remote ''go'' ''1'' 10, demo_remote ''tmp'' ''x'' 99, demo_remote ''go'' ''2'' 20] demo_selection)) \<le> 1"
proof -
  let ?imgs = "[demo_remote ''go'' ''1'' 10, demo_remote ''tmp'' ''x'' 99, demo_remote ''go'' ''2'' 20]"
  have "demo_remote ''go'' ''2'' 20 \<in> set (Select demo_sort ?imgs demo_selection)"
    by (simp add: Select_member [OF demo_sort_ok] demo_selection_def repositoryMatches_def tagKept_def
        tagBound_def demo_remote_def demo_sort_def insort_key.simps)
  moreover have "tagBound demo_selection = 1" by (simp add: tagBound_def demo_selection_def)
  ultimately show ?thesis
    using Select_newest_within_limit [OF demo_sort_ok, of ?imgs demo_selection] by metis
qed

text \<open>
  Whatever ECR lists is recognised as coming from AWS: for a repository whose URI is an ECR
  host followed by a path, every image reference the provider builds has origin \<open>AWS\<close>.
\<close>

theorem ecr_references_are_aws:
  assumes "acct \<noteq> []" "list_all isDigit acct" "region \<noteq> []" "list_all regionChar region"
    and "er_uri repo = Some (acct @ ''.dkr.ecr.'' @ region @ ''.amazonaws.com'' @ ''/'' @ path)"
    and "img \<in> set (tagsOf repo detail)"
  shows "OriginOf (ri_reference img) = ''AWS''"
proof -
  let ?host = "acct @ ''.dkr.ecr.'' @ region @ ''.amazonaws.com''"
  from assms(5,6) obtain tag where ref: "ri_reference img = ?host @ CHR ''/'' # (path @ '':'' @ tag)"
    by (auto simp: tagsOf_def Let_def ToString_def)
  have "CHR ''/'' \<notin> set ?host"
    using assms(2,4) dot_classes by (auto simp: list_all_iff)
  then have "Cut (ri_reference img) (CHR ''/'') = Some (?host, path @ '':'' @ tag)"
    unfolding ref by (rule Cut_append)
  moreover have "ContainsAny ?host ''.:''" by (simp add: ContainsAny_def)
  ultimately have "hostOf (ri_reference img) = ?host" by (simp add: hostOf_def)
  moreover have "ecrHost ?host" using assms(1-4) by (rule ecrHost_intro)
  ultimately show ?thesis by (simp add: OriginOf_def)
qed

theorem ecr_references_are_aws_witness:
  "OriginOf ''123.dkr.ecr.eu-west-1.amazonaws.com/team/go:1.22'' = ''AWS''"
proof -
  let ?repo = "\<lparr>er_name = Some ''team/go'', er_uri = Some ''123.dkr.ecr.eu-west-1.amazonaws.com/team/go'', er_registryId = None\<rparr>"
  let ?img = "\<lparr>ri_repository = ''team/go'', ri_tag = ''1.22'',
    ri_reference = ''123.dkr.ecr.eu-west-1.amazonaws.com/team/go:1.22'', ri_pushedAt = 5\<rparr>"
  have "list_all isDigit ''123''" "list_all regionChar ''eu-west-1''" by code_simp+
  moreover have "?img \<in> set (tagsOf ?repo \<lparr>ed_tags = [''1.22''], ed_pushedAt = Some 5\<rparr>)"
    by (simp add: tagsOf_def ToString_def)
  ultimately show ?thesis
    using ecr_references_are_aws [of "''123''" "''eu-west-1''" ?repo "''team/go''" ?img
        "\<lparr>ed_tags = [''1.22''], ed_pushedAt = Some 5\<rparr>"] by simp
qed

end
