(* ===== verification/ImageRegistryController.thy ===== *)
theory ImageRegistryController
  imports KubeClient Registry
begin

text \<open>
  The ImageRegistry reconciler (\<^verbatim>\<open>src/internal/controller/imageregistry_controller.go\<close> and
  \<^verbatim>\<open>imageregistry_objects.go\<close>): list a remote registry, select, write one WorkspaceImage per selected
  image, prune what is no longer there, and report.

  A \<^verbatim>\<open>registry.Provider\<close> is what its \<^verbatim>\<open>List\<close> returns. Joined errors are the list of the errors.
\<close>

section \<open>Objects\<close>

text \<open>
  \<^verbatim>\<open>strings.ToLower\<close> as the name builder uses it: every byte left outside \<^verbatim>\<open>[a-z0-9-]\<close> is then replaced,
  so besides A to Z only the two code points whose lower case is an ASCII letter matter, the Kelvin
  sign (k) and the dotted capital I (i).
\<close>

definition lowerChar :: "char \<Rightarrow> char" where
  "lowerChar c = (if CHR ''A'' \<le> c \<and> c \<le> CHR ''Z'' then char_of (of_char c + 32 :: nat) else c)"

function ToLowerASCII :: "string \<Rightarrow> string" where
  "ToLowerASCII s =
     (if s = [] then []
      else if HasPrefix s [CHR 0xE2, CHR 0x84, CHR 0xAA] then CHR ''k'' # ToLowerASCII (drop 3 s)
      else if HasPrefix s [CHR 0xC4, CHR 0xB0] then CHR ''i'' # ToLowerASCII (drop 2 s)
      else lowerChar (hd s) # ToLowerASCII (tl s))"
  by pat_completeness auto
termination by (relation "measure length") auto

declare ToLowerASCII.simps [simp del]

definition dnsChar :: "char \<Rightarrow> bool" where
  "dnsChar c \<longleftrightarrow> isLower c \<or> isDigit c \<or> c = CHR ''-''"

text \<open>\<^verbatim>\<open>nonDNSLabelChars.ReplaceAllString(name, "-")\<close>: each maximal run of other bytes becomes one hyphen.\<close>

fun replaceRuns :: "bool \<Rightarrow> string \<Rightarrow> string" where
  "replaceRuns inRun [] = []"
| "replaceRuns inRun (c # cs) =
     (if dnsChar c then c # replaceRuns False cs
      else if inRun then replaceRuns True cs
      else CHR ''-'' # replaceRuns True cs)"

definition syncedImageName :: "string \<Rightarrow> remoteimage \<Rightarrow> string" where
  "syncedImageName registryName remote =
     (let name = registryName @ ''-'' @ ri_repository remote @ ''-'' @ ri_tag remote;
          name = ToLowerASCII name;
          name = replaceRuns False name;
          name = TrimChar name (CHR ''-'')
      in if length name > 200 then TrimChar (take 200 name) (CHR ''-'') else name)"

definition buildSyncedWorkspaceImage :: "imageregistry \<Rightarrow> remoteimage \<Rightarrow> workspaceimage" where
  "buildSyncedWorkspaceImage reg remote =
     \<lparr>img_meta = (meta0 '''' (syncedImageName (ir_name reg) remote))\<lparr>m_labels := [ImageRegistryLabel \<mapsto> ir_name reg]\<rparr>,
      img_spec = \<lparr>img_displayName = ri_repository remote @ '':'' @ ri_tag remote, img_description = '''',
        img_icon = '''', img_tags = [], img_maintainer = '''', img_deprecated = False, img_deprecateAt = None,
        img_image = ri_reference remote, img_pullPolicy = '''', img_shell = '''', img_homePath = '''',
        img_runAsUser = 0, img_allowRoot = False, img_command = [], img_placement = None,
        img_pullSecretRef = ir_pullSecretRef (ir_spec reg)\<rparr>\<rparr>"

section \<open>The reconciler\<close>

type_synonym provider = "string + remoteimage list"

datatype irerror =
    ProviderRequiresAWS
  | UnsupportedProvider string
  | ProviderErr string
  | ListRegistryErr string
  | SelectionErr selection_error
  | ApplyOwnedErr applyerr
  | PruneListErr apierr
  | PruneDeleteErr string apierr
  | PatchStatusErr apierr
  | GetErr apierr

record 's ir_client =
  irc_get :: "string \<Rightarrow> 's \<Rightarrow> apierr + imageregistry"
  irc_applier :: "(imageregistry, workspaceimage, 's) applier"
  irc_listImages :: "string \<Rightarrow> 's \<Rightarrow> apierr + workspaceimage list"
  irc_deleteImage :: "string \<Rightarrow> 's \<Rightarrow> apierr option \<times> 's"
  irc_patchStatus :: "imageregistry \<Rightarrow> 's \<Rightarrow> apierr option \<times> 's"

text \<open>The reconciler's fields and the library functions it calls.\<close>

record ir_env =
  env_providerFactory :: "(imageregistry \<Rightarrow> string + provider) option"
  env_newECR :: "string \<Rightarrow> string \<Rightarrow> string \<Rightarrow> string + provider"
  env_compile :: "string \<Rightarrow> string + matcher"
  env_sortFunc :: sorter
  env_setCond :: "condition list \<Rightarrow> condition \<Rightarrow> condition list"
  env_now :: gotime
  env_errText :: "irerror \<Rightarrow> string"

definition providerFor :: "ir_env \<Rightarrow> imageregistry \<Rightarrow> irerror + provider" where
  "providerFor env reg =
     (case env_providerFactory env of
        Some factory \<Rightarrow> (case factory reg of Inl err \<Rightarrow> Inl (ProviderErr err) | Inr p \<Rightarrow> Inr p)
      | None \<Rightarrow>
          (if ir_provider (ir_spec reg) = ImageRegistryProviderAWSECR then
             (case ir_aws (ir_spec reg) of
                None \<Rightarrow> Inl ProviderRequiresAWS
              | Some a \<Rightarrow>
                  (case env_newECR env (aws_region a) (aws_registryID a) (aws_roleARN a) of
                     Inl err \<Rightarrow> Inl (ProviderErr err) | Inr p \<Rightarrow> Inr p))
           else Inl (UnsupportedProvider (ir_provider (ir_spec reg)))))"

definition ir_patchStatus ::
    "'s ir_client \<Rightarrow> ir_env \<Rightarrow> imageregistry \<Rightarrow> (imageregistry_status \<Rightarrow> imageregistry_status) \<Rightarrow>
     condition list \<Rightarrow> 's \<Rightarrow> irerror option \<times> 's" where
  "ir_patchStatus cl env reg mutate conditions s =
     (let gen = m_generation (ir_meta reg);
          st = mutate (ir_status reg);
          st = st\<lparr>irs_observedGeneration := gen\<rparr>;
          st = st\<lparr>irs_conditions := setConditions (env_setCond env) gen (irs_conditions st) conditions\<rparr>
      in case irc_patchStatus cl (reg\<lparr>ir_status := st\<rparr>) s of
           (Some err, s') \<Rightarrow> (Some (PatchStatusErr err), s')
         | (None, s') \<Rightarrow> (None, s'))"

definition ir_markReady ::
    "'s ir_client \<Rightarrow> ir_env \<Rightarrow> imageregistry \<Rightarrow> int \<Rightarrow> 's \<Rightarrow> irerror option \<times> 's" where
  "ir_markReady cl env reg images =
     ir_patchStatus cl env reg (\<lambda>st. st\<lparr>irs_images := images, irs_lastSyncTime := Some (env_now env)\<rparr>)
       [mkCond ''Ready'' True ''Synced'' ''registry synced'',
        mkCond ''Degraded'' False ''Synced'' ''no reconcile errors'']"

definition ir_markDegraded ::
    "'s ir_client \<Rightarrow> ir_env \<Rightarrow> imageregistry \<Rightarrow> irerror \<Rightarrow> 's \<Rightarrow> irerror option \<times> 's" where
  "ir_markDegraded cl env reg cause =
     ir_patchStatus cl env reg (\<lambda>st. st)
       [mkCond ''Ready'' False ''SyncFailed'' (env_errText env cause),
        mkCond ''Degraded'' True ''SyncFailed'' (env_errText env cause)]"

fun pruneFrom :: "'s ir_client \<Rightarrow> string list \<Rightarrow> workspaceimage list \<Rightarrow> 's \<Rightarrow> irerror option \<times> 's" where
  "pruneFrom cl desiredNames [] s = (None, s)"
| "pruneFrom cl desiredNames (img # rest) s =
     (if img_name img \<in> set desiredNames then pruneFrom cl desiredNames rest s
      else case irc_deleteImage cl (img_name img) s of
             (Some err, s') \<Rightarrow>
               (if IsNotFound err then pruneFrom cl desiredNames rest s'
                else (Some (PruneDeleteErr (img_name img) err), s'))
           | (None, s') \<Rightarrow> pruneFrom cl desiredNames rest s')"

definition prune ::
    "'s ir_client \<Rightarrow> imageregistry \<Rightarrow> string list \<Rightarrow> 's \<Rightarrow> irerror option \<times> 's" where
  "prune cl reg desiredNames s =
     (case irc_listImages cl (ir_name reg) s of
        Inl err \<Rightarrow> (Some (PruneListErr err), s)
      | Inr owned \<Rightarrow> pruneFrom cl desiredNames owned s)"

text \<open>\<^verbatim>\<open>errors.Join(err, r.markDegraded(ctx, reg, cause))\<close> as the error result of a reconcile.\<close>

definition degraded ::
    "'s ir_client \<Rightarrow> ir_env \<Rightarrow> imageregistry \<Rightarrow> irerror \<Rightarrow> irerror \<Rightarrow> 's \<Rightarrow>
     (irerror list + duration option) \<times> 's" where
  "degraded cl env reg err cause s =
     (case ir_markDegraded cl env reg cause s of
        (None, s') \<Rightarrow> (Inl [err], s')
      | (Some e, s') \<Rightarrow> (Inl [err, e], s'))"

text \<open>\<open>Inr None\<close> is the empty result, \<open>Inr (Some d)\<close> a result that requeues after \<open>d\<close>.\<close>

definition ir_Reconcile ::
    "'s ir_client \<Rightarrow> ir_env \<Rightarrow> string \<Rightarrow> 's \<Rightarrow> (irerror list + duration option) \<times> 's" where
  "ir_Reconcile cl env name s =
     (case irc_get cl name s of
        Inl err \<Rightarrow> (if IsNotFound err then (Inr None, s) else (Inl [GetErr err], s))
      | Inr reg \<Rightarrow>
          if m_deletion (ir_meta reg) \<noteq> None then (Inr None, s)
          else case providerFor env reg of
            Inl err \<Rightarrow> degraded cl env reg err err s
          | Inr (Inl err) \<Rightarrow> degraded cl env reg (ListRegistryErr err) (ProviderErr err) s
          | Inr (Inr remote) \<Rightarrow>
              let sync = ir_sync (ir_spec reg) in
              case CompileSelection (env_compile env) (sy_include sync) (sy_exclude sync)
                     (ts_mode (sy_tags sync)) (ts_patterns (sy_tags sync)) (ts_limit (sy_tags sync)) of
                Inl err \<Rightarrow> degraded cl env reg (SelectionErr err) (SelectionErr err) s
              | Inr sel \<Rightarrow>
                  let selected = Select (env_sortFunc env) remote sel;
                      desired = map (buildSyncedWorkspaceImage reg) selected;
                      desiredNames = map img_name desired
                  in case applyAll (irc_applier cl) reg desired s of
                       (Some err, s1) \<Rightarrow> degraded cl env reg (ApplyOwnedErr err) (ApplyOwnedErr err) s1
                     | (None, s1) \<Rightarrow>
                         case (if sy_prune sync then prune cl reg desiredNames s1 else (None, s1)) of
                           (Some err, s2) \<Rightarrow> degraded cl env reg err err s2
                         | (None, s2) \<Rightarrow>
                             case ir_markReady cl env reg (wrap32 (int (length selected))) s2 of
                               (Some err, s3) \<Rightarrow> (Inl [err], s3)
                             | (None, s3) \<Rightarrow> (Inr (Some (SyncInterval reg)), s3))"

section \<open>What the theorems need of the cluster\<close>

text \<open>
  \<open>imgs\<close> observes the WorkspaceImages of a state by name. Applying keeps the labels, the image and
  the title of the applied object, a delete removes exactly its object or reports an error and removes nothing,
  and status writes to the registry leave images alone. \<open>fresh_list\<close>: a listing by label sees the
  current objects, and a delete that reports NotFound finds none.
\<close>

definition img_label :: "workspaceimage \<Rightarrow> string option" where
  "img_label i = m_labels (img_meta i) ImageRegistryLabel"

definition img_kept :: "workspaceimage \<Rightarrow> workspaceimage \<Rightarrow> bool" where
  "img_kept d x \<longleftrightarrow> m_labels (img_meta d) \<subseteq>\<^sub>m m_labels (img_meta x) \<and>
     img_image (img_spec x) = img_image (img_spec d) \<and> img_displayName (img_spec x) = img_displayName (img_spec d)"

locale image_store = applier_laws "irc_applier cl" imgs img_name img_kept
  for cl :: "'s ir_client" and imgs :: "'s \<Rightarrow> string \<rightharpoonup> workspaceimage" +
  assumes image_deleted: "irc_deleteImage cl n s = (None, s') \<Longrightarrow> imgs s' = (imgs s)(n := None)"
    and image_delete_refused: "irc_deleteImage cl n s = (Some e, s') \<Longrightarrow> imgs s' = imgs s"
    and registry_status_frame: "irc_patchStatus cl r s = (er, s') \<Longrightarrow> imgs s' = imgs s"

definition fresh_list :: "'s ir_client \<Rightarrow> ('s \<Rightarrow> string \<rightharpoonup> workspaceimage) \<Rightarrow> bool" where
  "fresh_list cl imgs \<longleftrightarrow>
     (\<forall>n s xs. irc_listImages cl n s = Inr xs \<longrightarrow>
        img_name ` set xs = {k. \<exists>x. imgs s k = Some x \<and> img_label x = Some n}) \<and>
     (\<forall>n s s'. irc_deleteImage cl n s = (Some NotFound, s') \<longrightarrow> imgs s n = None)"

text \<open>The catalog entries a sync of this registry wants, or \<open>None\<close> when it cannot tell.\<close>

definition ir_desired :: "ir_env \<Rightarrow> imageregistry \<Rightarrow> workspaceimage list option" where
  "ir_desired env reg =
     (case providerFor env reg of
        Inr (Inr remote) \<Rightarrow>
          (let sync = ir_sync (ir_spec reg) in
           case CompileSelection (env_compile env) (sy_include sync) (sy_exclude sync)
                  (ts_mode (sy_tags sync)) (ts_patterns (sy_tags sync)) (ts_limit (sy_tags sync)) of
             Inr sel \<Rightarrow> Some (map (buildSyncedWorkspaceImage reg) (Select (env_sortFunc env) remote sel))
           | Inl _ \<Rightarrow> None)
      | _ \<Rightarrow> None)"

section \<open>Lemmas\<close>

lemma buildSynced_label [simp]: "img_label (buildSyncedWorkspaceImage reg r) = Some (ir_name reg)"
  by (simp add: img_label_def buildSyncedWorkspaceImage_def)

lemma img_kept_label: "img_kept d x \<Longrightarrow> img_label d = Some n \<Longrightarrow> img_label x = Some n"
  by (auto simp: img_kept_def img_label_def map_le_def dom_def)

lemma desired_labels: "ir_desired env reg = Some ds \<Longrightarrow> d \<in> set ds \<Longrightarrow> img_label d = Some (ir_name reg)"
  by (auto simp: ir_desired_def Let_def split: sum.splits)

lemma ir_patchStatus_view:
  "image_store cl imgs \<Longrightarrow> ir_patchStatus cl env reg f cs s = (e, s') \<Longrightarrow> imgs s' = imgs s"
  by (auto simp: ir_patchStatus_def Let_def image_store_def image_store_axioms_def split: prod.splits option.splits)

lemma degraded_view:
  "image_store cl imgs \<Longrightarrow> degraded cl env reg err cause s = (r, s') \<Longrightarrow> imgs s' = imgs s \<and> (\<exists>es. r = Inl es)"
  by (auto simp: degraded_def ir_markDegraded_def split: prod.splits option.splits dest: ir_patchStatus_view)


lemma degraded_fails [simp]: "degraded cl env reg err cause s \<noteq> (Inr x, s')"
  by (auto simp: degraded_def split: prod.splits option.splits)

lemma delete_frame:
  "image_store cl imgs \<Longrightarrow> irc_deleteImage cl m s = (e, t) \<Longrightarrow> n \<noteq> m \<Longrightarrow> imgs t n = imgs s n"
  by (cases e) (auto simp: image_store_def image_store_axioms_def)

lemma pruneFrom_frame:
  assumes "image_store cl imgs" and "pruneFrom cl names xs s = (r, s')"
    and "n \<in> set names \<or> n \<notin> img_name ` set xs"
  shows "imgs s' n = imgs s n"
  using assms(2,3)
proof (induction xs arbitrary: s)
  case (Cons img xs)
  show ?case
  proof (cases "img_name img \<in> set names")
    case False
    obtain e t where t: "irc_deleteImage cl (img_name img) s = (e, t)" by fastforce
    with False Cons.prems(2) have "imgs t n = imgs s n"
      using delete_frame [OF assms(1) t, of n] by auto
    moreover have "imgs s' n = imgs t n"
      using False t Cons by (cases e) (auto split: if_splits)
    ultimately show ?thesis by simp
  qed (use Cons in auto)
qed simp

lemma pruneFrom_removes:
  assumes st: "image_store cl imgs" and fr: "fresh_list cl imgs"
    and "pruneFrom cl names xs s = (None, s')" and "n \<in> img_name ` set xs" and "n \<notin> set names"
  shows "imgs s' n = None"
  using assms(3,4)
proof (induction xs arbitrary: s)
  case (Cons img xs)
  show ?case
  proof (cases "img_name img \<in> set names")
    case True
    with Cons assms(5) show ?thesis by auto
  next
    case False
    obtain e t where t: "irc_deleteImage cl (img_name img) s = (e, t)" by fastforce
    have run: "pruneFrom cl names xs t = (None, s')" and nf: "e = None \<or> e = Some NotFound"
      using False t Cons.prems(1) by (auto split: option.splits if_splits elim: IsNotFound.elims)
    show ?thesis
    proof (cases "n \<in> img_name ` set xs")
      case True
      with Cons.IH [OF run] show ?thesis .
    next
      case notin: False
      with Cons.prems(2) have n: "n = img_name img" by auto
      have "imgs t n = None"
        using nf st fr t unfolding n image_store_def image_store_axioms_def fresh_list_def by auto
      moreover have "imgs s' n = imgs t n" using pruneFrom_frame [OF st run, of n] notin by simp
      ultimately show ?thesis by simp
    qed
  qed
qed simp

lemma pruneFrom_dom:
  assumes "image_store cl imgs" and "pruneFrom cl names xs s = (r, s')"
  shows "imgs s' n = imgs s n \<or> imgs s' n = None"
  using assms(2)
proof (induction xs arbitrary: s)
  case (Cons img xs)
  show ?case
  proof (cases "img_name img \<in> set names")
    case False
    obtain e t where t: "irc_deleteImage cl (img_name img) s = (e, t)" by fastforce
    have "imgs t n = imgs s n \<or> imgs t n = None"
      using assms(1) t by (cases e) (auto simp: image_store_def image_store_axioms_def)
    moreover have "s' = t \<or> pruneFrom cl names xs t = (r, s')"
      using False t Cons.prems by (auto split: option.splits if_splits)
    ultimately show ?thesis using Cons.IH [of t] by metis
  qed (use Cons in auto)
qed simp

text \<open>What a reconcile of an existing registry does to the images, before looking inside.\<close>

lemma ir_Reconcile_early:
  assumes "image_store cl imgs" and "irc_get cl name s = Inr reg"
    and "m_deletion (ir_meta reg) \<noteq> None \<or> ir_desired env reg = None"
    and "ir_Reconcile cl env name s = (res, s')"
  shows "imgs s' = imgs s \<and> (\<forall>d. res \<noteq> Inr (Some d))"
  using assms(2-4) degraded_view [OF assms(1)]
  by (auto simp: ir_Reconcile_def ir_desired_def Let_def split: sum.splits if_splits)

lemma ir_Reconcile_late:
  assumes st: "image_store cl imgs" and "irc_get cl name s = Inr reg" and "m_deletion (ir_meta reg) = None"
    and ds: "ir_desired env reg = Some ds" and run: "ir_Reconcile cl env name s = (res, s')"
  obtains (apply_failed) e s1 where "applyAll (irc_applier cl) reg ds s = (Some e, s1)" "imgs s' = imgs s1"
      "\<And>d. res \<noteq> Inr (Some d)"
  | (prune_failed) e s1 s2 where "applyAll (irc_applier cl) reg ds s = (None, s1)" "sy_prune (ir_sync (ir_spec reg))"
      "prune cl reg (map img_name ds) s1 = (Some e, s2)" "imgs s' = imgs s2" "\<And>d. res \<noteq> Inr (Some d)"
  | (pruned) s1 s2 where "applyAll (irc_applier cl) reg ds s = (None, s1)" "sy_prune (ir_sync (ir_spec reg))"
      "prune cl reg (map img_name ds) s1 = (None, s2)" "imgs s' = imgs s2"
      "\<And>d. res = Inr (Some d) \<Longrightarrow> d = SyncInterval reg"
  | (kept) s1 where "applyAll (irc_applier cl) reg ds s = (None, s1)" "\<not> sy_prune (ir_sync (ir_spec reg))"
      "imgs s' = imgs s1" "\<And>d. res = Inr (Some d) \<Longrightarrow> d = SyncInterval reg"
proof -
  from ds obtain remote sel where
    p: "providerFor env reg = Inr (Inr remote)" and
    c: "CompileSelection (env_compile env) (sy_include (ir_sync (ir_spec reg))) (sy_exclude (ir_sync (ir_spec reg)))
      (ts_mode (sy_tags (ir_sync (ir_spec reg)))) (ts_patterns (sy_tags (ir_sync (ir_spec reg))))
      (ts_limit (sy_tags (ir_sync (ir_spec reg)))) = Inr sel" and
    d: "ds = map (buildSyncedWorkspaceImage reg) (Select (env_sortFunc env) remote sel)"
    by (auto simp: ir_desired_def Let_def split: sum.splits)
  obtain r1 s1 where a: "applyAll (irc_applier cl) reg ds s = (r1, s1)" by fastforce
  obtain r2 s2 where b: "(if sy_prune (ir_sync (ir_spec reg)) then prune cl reg (map img_name ds) s1 else (None, s1)) = (r2, s2)"
    by fastforce
  obtain r3 s3 where m: "ir_markReady cl env reg (wrap32 (int (length ds))) s2 = (r3, s3)" by fastforce
  have m': "imgs s3 = imgs s2" using m by (auto simp: ir_markReady_def dest: ir_patchStatus_view [OF st])
  have R: "(case applyAll (irc_applier cl) reg ds s of
       (Some err, s1) \<Rightarrow> degraded cl env reg (ApplyOwnedErr err) (ApplyOwnedErr err) s1
     | (None, s1) \<Rightarrow>
         case (if sy_prune (ir_sync (ir_spec reg)) then prune cl reg (map img_name ds) s1 else (None, s1)) of
           (Some err, s2) \<Rightarrow> degraded cl env reg err err s2
         | (None, s2) \<Rightarrow>
             case ir_markReady cl env reg (wrap32 (int (length ds))) s2 of
               (Some err, s3) \<Rightarrow> (Inl [err], s3)
             | (None, s3) \<Rightarrow> (Inr (Some (SyncInterval reg)), s3)) = (res, s')"
    using run assms(2,3) p c unfolding d length_map by (simp add: ir_Reconcile_def Let_def)
  show ?thesis
  proof (cases r1)
    case (Some e)
    with R a have "degraded cl env reg (ApplyOwnedErr e) (ApplyOwnedErr e) s1 = (res, s')" by simp
    from degraded_view [OF st this] a Some apply_failed show ?thesis by blast
  next
    case None
    show ?thesis
    proof (cases r2)
      case (Some e)
      with R a b None have "degraded cl env reg e e s2 = (res, s')" by simp
      from degraded_view [OF st this] a b Some None prune_failed show ?thesis by (auto split: if_splits)
    next
      case none2: None
      with R a b m None have "imgs s' = imgs s2" "\<And>d. res = Inr (Some d) \<Longrightarrow> d = SyncInterval reg"
        using m' by (auto split: option.splits)
      with a b None none2 pruned kept show ?thesis by (auto split: if_splits)
    qed
  qed
qed

lemma prune_cases:
  assumes "prune cl reg names s = (r, s')"
  obtains (list_failed) e where "r = Some e" "s' = s"
  | (listed) xs where "irc_listImages cl (ir_name reg) s = Inr xs" "pruneFrom cl names xs s = (r, s')"
  using assms by (auto simp: prune_def split: sum.splits)

lemma prune_frame:
  assumes "image_store cl imgs" "fresh_list cl imgs" and "prune cl reg names s = (r, s')"
    and "n \<in> set names \<or> (\<forall>x. imgs s n = Some x \<longrightarrow> img_label x \<noteq> Some (ir_name reg))"
  shows "imgs s' n = imgs s n"
  using assms(3)
proof (cases rule: prune_cases)
  case (listed xs)
  from assms(2) listed(1) have "img_name ` set xs = {k. \<exists>x. imgs s k = Some x \<and> img_label x = Some (ir_name reg)}"
    by (simp add: fresh_list_def)
  with assms(4) have "n \<in> set names \<or> n \<notin> img_name ` set xs" by auto
  from pruneFrom_frame [OF assms(1) listed(2) this] show ?thesis .
qed simp

lemma prune_dom:
  assumes "image_store cl imgs" and "prune cl reg names s = (r, s')"
  shows "imgs s' n = imgs s n \<or> imgs s' n = None"
  using assms(2) by (cases rule: prune_cases) (auto dest: pruneFrom_dom [OF assms(1)])

lemma prune_ok:
  assumes "image_store cl imgs" "fresh_list cl imgs" and "prune cl reg names s = (None, s')"
    and "imgs s n = Some x" "img_label x = Some (ir_name reg)" "n \<notin> set names"
  shows "imgs s' n = None"
  using assms(3)
proof (cases rule: prune_cases)
  case (listed xs)
  from assms(2,4,5) listed(1) have "n \<in> img_name ` set xs" by (auto simp: fresh_list_def)
  from pruneFrom_removes [OF assms(1,2) listed(2) this assms(6)] show ?thesis .
qed simp

lemma image_store_applier: "image_store cl imgs \<Longrightarrow> applier_laws (irc_applier cl) imgs img_name img_kept"
  by (simp add: image_store_def image_store_axioms_def)

lemma replaceRuns_chars: "c \<in> set (replaceRuns b s) \<Longrightarrow> dnsChar c"
  by (induction b s rule: replaceRuns.induct) (auto simp: dnsChar_def split: if_splits)

lemma TrimChar_subset: "set (TrimChar s c) \<subseteq> set s"
  by (auto simp: TrimChar_def dest!: set_dropWhileD)

lemma TrimChar_length: "length (TrimChar s c) \<le> length s"
  unfolding TrimChar_def by (metis length_dropWhile_le length_rev order_trans)

lemma TrimChar_ends:
  assumes "TrimChar s c \<noteq> []"
  shows "hd (TrimChar s c) \<noteq> c" "last (TrimChar s c) \<noteq> c"
proof -
  let ?t = "dropWhile (\<lambda>x. x = c) s"
  have t: "TrimChar s c = rev (dropWhile (\<lambda>x. x = c) (rev ?t))" by (simp add: TrimChar_def)
  with assms have ne: "dropWhile (\<lambda>x. x = c) (rev ?t) \<noteq> []" by simp
  from hd_dropWhile [OF ne] show "last (TrimChar s c) \<noteq> c" unfolding t by (simp add: last_rev ne)
  obtain r where "rev ?t = r @ dropWhile (\<lambda>x. x = c) (rev ?t)" by (metis takeWhile_dropWhile_id)
  then have "?t = TrimChar s c @ rev r" unfolding t by (metis rev_append rev_rev_ident)
  then have "hd ?t = hd (TrimChar s c)" "?t \<noteq> []" using assms by auto
  with hd_dropWhile [of "\<lambda>x. x = c" s] show "hd (TrimChar s c) \<noteq> c" by auto
qed

lemma syncedImageName_shape:
  "list_all dnsChar (syncedImageName r i) \<and> length (syncedImageName r i) \<le> 200 \<and>
   (syncedImageName r i \<noteq> [] \<longrightarrow> hd (syncedImageName r i) \<noteq> CHR ''-'' \<and> last (syncedImageName r i) \<noteq> CHR ''-'')"
proof -
  let ?n = "replaceRuns False (ToLowerASCII (r @ ''-'' @ ri_repository i @ ''-'' @ ri_tag i))"
  let ?t = "TrimChar ?n (CHR ''-'')"
  have eq: "syncedImageName r i = (if length ?t > 200 then TrimChar (take 200 ?t) (CHR ''-'') else ?t)"
    by (simp add: syncedImageName_def Let_def)
  have "list_all dnsChar ?t"
    using replaceRuns_chars TrimChar_subset by (fastforce simp: list_all_iff)
  then have "list_all dnsChar (syncedImageName r i)"
    using TrimChar_subset [of "take 200 ?t" "CHR ''-''"] set_take_subset [of 200 ?t]
    unfolding eq by (auto simp: list_all_iff)
  moreover have "length (syncedImageName r i) \<le> 200"
    using TrimChar_length [of "take 200 ?t" "CHR ''-''"] unfolding eq by auto
  ultimately show ?thesis unfolding eq using TrimChar_ends by auto
qed

lemma TrimChar_hd:
  assumes "c \<noteq> d"
  shows "TrimChar (c # s) d = c # rev (dropWhile (\<lambda>x. x = d) (rev s))"
  using assms by (auto simp: TrimChar_def dropWhile_append)

lemma syncedImageName_hd:
  assumes "isLower c \<or> isDigit c"
  shows "\<exists>t. syncedImageName (c # r) i = c # t"
proof -
  have c: "lowerChar c = c" "dnsChar c" "c \<noteq> CHR ''-''" "c \<noteq> CHR 0xE2" "c \<noteq> CHR 0xC4"
    using assms by (auto simp: lowerChar_def dnsChar_def isLower_def isDigit_def less_eq_char_def)
  have "\<exists>t. ToLowerASCII (c # u) = c # t" for u
    using c by (subst ToLowerASCII.simps) (auto simp: HasPrefix_iff)
  then obtain t where "ToLowerASCII ((c # r) @ ''-'' @ ri_repository i @ ''-'' @ ri_tag i) = c # t" by auto
  moreover obtain t' where "replaceRuns False (c # t) = c # t'" using c by simp
  ultimately show ?thesis
    using c by (auto simp: syncedImageName_def Let_def TrimChar_hd take_Cons')
qed

section \<open>Properties\<close>

lemma buildSynced_fields: "img_name (buildSyncedWorkspaceImage reg r) = syncedImageName (ir_name reg) r"
  "img_image (img_spec (buildSyncedWorkspaceImage reg r)) = ri_reference r"
  "img_displayName (img_spec (buildSyncedWorkspaceImage reg r)) = ri_repository r @ '':'' @ ri_tag r"
  by (simp_all add: buildSyncedWorkspaceImage_def meta0_def)

lemma sync_outcome:
  assumes st: "image_store cl imgs" and fr: "fresh_list cl imgs"
    and get: "irc_get cl name s = Inr reg" "m_deletion (ir_meta reg) = None"
    and ds: "ir_desired env reg = Some ds" and prune: "sy_prune (ir_sync (ir_spec reg))"
    and run: "ir_Reconcile cl env name s = (Inr (Some d), s')"
  shows "(\<forall>n\<in>img_name ` set ds. \<exists>y\<in>set ds. \<exists>x. img_name y = n \<and> imgs s' n = Some x \<and> img_label x = Some (ir_name reg) \<and> img_kept y x) \<and>
    (\<forall>n x. imgs s' n = Some x \<and> img_label x = Some (ir_name reg) \<longrightarrow> n \<in> img_name ` set ds) \<and> d = SyncInterval reg"
  using st get ds run
proof (cases rule: ir_Reconcile_late)
  case (pruned s1 s2)
  have L: "\<exists>y\<in>set ds. \<exists>x. img_name y = n \<and> imgs s1 n = Some x \<and> img_label x = Some (ir_name reg) \<and> img_kept y x" if "n \<in> img_name ` set ds" for n
    using applier_laws.applyAll_ok [OF image_store_applier [OF st] pruned(1) that] desired_labels [OF ds] img_kept_label
    by blast
  have "imgs s2 n = imgs s1 n" if "n \<in> img_name ` set ds" for n
    using prune_frame [OF st fr pruned(3), of n] that by simp
  moreover have "n \<in> img_name ` set ds" if x: "imgs s2 n = Some x" "img_label x = Some (ir_name reg)" for n x
  proof (rule ccontr)
    assume n: "n \<notin> img_name ` set ds"
    from prune_dom [OF st pruned(3), of n] x(1) have "imgs s1 n = Some x" by auto
    from prune_ok [OF st fr pruned(3) this x(2)] n x(1) show False by simp
  qed
  ultimately show ?thesis using L pruned(4,5) by (metis (no_types, lifting))
qed (use prune in auto)

text \<open>
  (C18) A sync that succeeds with pruning on, and whose listing for the pruning was current, makes the catalog the selection: the
  names of the entries labelled with this registry are those of the selected images, each entry holds the reference and the title
  of a selected image of its name, every selected image has its own entry where no two selected images share a name (the
  code does not exclude that they do), and the result asks to be called again after the sync interval.
\<close>

theorem sync_makes_catalog_exact:
  assumes st: "image_store cl imgs" and fr: "fresh_list cl imgs"
    and get: "irc_get cl name s = Inr reg" "m_deletion (ir_meta reg) = None"
    and remote: "providerFor env reg = Inr (Inr remote)" and sync: "sync = ir_sync (ir_spec reg)" "sy_prune sync"
    and sel: "CompileSelection (env_compile env) (sy_include sync) (sy_exclude sync)
      (ts_mode (sy_tags sync)) (ts_patterns (sy_tags sync)) (ts_limit (sy_tags sync)) = Inr sel"
    and chosen: "chosen = Select (env_sortFunc env) remote sel"
    and run: "ir_Reconcile cl env name s = (Inr (Some d), s')"
  shows "{n. \<exists>x. imgs s' n = Some x \<and> img_label x = Some (ir_name reg)} = syncedImageName (ir_name reg) ` set chosen \<and>
    (\<forall>n x. imgs s' n = Some x \<and> img_label x = Some (ir_name reg) \<longrightarrow>
       (\<exists>r\<in>set chosen. syncedImageName (ir_name reg) r = n \<and> img_image (img_spec x) = ri_reference r \<and>
          img_displayName (img_spec x) = ri_repository r @ '':'' @ ri_tag r)) \<and>
    (inj_on (syncedImageName (ir_name reg)) (set chosen) \<longrightarrow> (\<forall>r\<in>set chosen. \<exists>x. imgs s' (syncedImageName (ir_name reg) r) = Some x \<and>
       img_label x = Some (ir_name reg) \<and> img_image (img_spec x) = ri_reference r)) \<and> d = SyncInterval reg"
proof -
  let ?N = "syncedImageName (ir_name reg)" and ?stored = "\<lambda>n x. imgs s' n = Some x \<and> img_label x = Some (ir_name reg)"
  have ds: "ir_desired env reg = Some (map (buildSyncedWorkspaceImage reg) chosen)"
    using remote sel chosen by (simp add: ir_desired_def sync(1)[symmetric])
  have names: "img_name ` set (map (buildSyncedWorkspaceImage reg) chosen) = ?N ` set chosen"
    by (simp add: image_image buildSynced_fields)
  have main: "(\<forall>n\<in>?N ` set chosen. \<exists>r\<in>set chosen. \<exists>x. ?N r = n \<and> ?stored n x \<and> img_kept (buildSyncedWorkspaceImage reg r) x) \<and>
    (\<forall>n x. ?stored n x \<longrightarrow> n \<in> ?N ` set chosen) \<and> d = SyncInterval reg"
    using sync_outcome [OF st fr get ds _ run] sync unfolding names by (auto simp: buildSynced_fields)
  then have held: "\<exists>r\<in>set chosen. ?N r = n \<and> img_image (img_spec x) = ri_reference r \<and>
      img_displayName (img_spec x) = ri_repository r @ '':'' @ ri_tag r" if "?stored n x" for n x
    using that by (force simp: img_kept_def buildSynced_fields)
  have "\<exists>x. ?stored (?N r) x \<and> img_image (img_spec x) = ri_reference r" if inj: "inj_on ?N (set chosen)" and r: "r \<in> set chosen" for r
  proof -
    obtain x where x: "?stored (?N r) x" using main r by blast
    from held [OF this] inj r show ?thesis using x by (auto dest: inj_onD)
  qed
  with main held show ?thesis by blast
qed

text \<open>
  A sync never touches entries that are not its own: whatever happens, an entry that neither
  carries this registry's label nor has the name of a desired one is as it was; without pruning no
  entry disappears; and when the registry cannot be listed or the patterns do not compile, the
  catalog does not change at all.
\<close>

theorem sync_leaves_others_alone:
  assumes st: "image_store cl imgs" and fr: "fresh_list cl imgs"
    and get: "irc_get cl name s = Inr reg"
    and run: "ir_Reconcile cl env name s = (res, s')"
  shows "(\<forall>n. (\<forall>x. imgs s n = Some x \<longrightarrow> img_label x \<noteq> Some (ir_name reg)) \<and>
           (\<forall>ds. ir_desired env reg = Some ds \<longrightarrow> n \<notin> img_name ` set ds) \<longrightarrow> imgs s' n = imgs s n) \<and>
    (\<not> sy_prune (ir_sync (ir_spec reg)) \<longrightarrow> dom (imgs s) \<subseteq> dom (imgs s')) \<and>
    (ir_desired env reg = None \<longrightarrow> imgs s' = imgs s)"
proof (cases "m_deletion (ir_meta reg) \<noteq> None \<or> ir_desired env reg = None")
  case True
  from ir_Reconcile_early [OF st get True run] show ?thesis by simp
next
  case False
  then obtain ds where del: "m_deletion (ir_meta reg) = None" and ds: "ir_desired env reg = Some ds" by auto
  note ap = image_store_applier [OF st]
  from st get del ds run show ?thesis
  proof (cases rule: ir_Reconcile_late)
    case (apply_failed e s1)
    then show ?thesis using ds applier_laws.applyAll_frame [OF ap apply_failed(1)] applier_laws.applyAll_dom [OF ap apply_failed(1)] by auto
  next
    case (prune_failed e s1 s2)
    then show ?thesis using ds applier_laws.applyAll_frame [OF ap prune_failed(1)] prune_frame [OF st fr prune_failed(3)] by auto
  next
    case (pruned s1 s2)
    then show ?thesis using ds applier_laws.applyAll_frame [OF ap pruned(1)] prune_frame [OF st fr pruned(3)] by auto
  next
    case (kept s1)
    then show ?thesis using ds applier_laws.applyAll_frame [OF ap kept(1)] applier_laws.applyAll_dom [OF ap kept(1)] by auto
  qed
qed

text \<open>
  The name of a synced entry is always a valid object name when the registry's own name starts
  with a letter or digit, as every object name does: not empty, lower-case letters, digits and
  hyphens only, at most 200 of them, never starting or ending with a hyphen.
\<close>

theorem synced_name_valid:
  assumes "ir_name reg = c # rest" and "isLower c \<or> isDigit c"
  shows "list_all dnsChar (img_name (buildSyncedWorkspaceImage reg i)) \<and>
    length (img_name (buildSyncedWorkspaceImage reg i)) \<le> 200 \<and>
    hd (img_name (buildSyncedWorkspaceImage reg i)) = c \<and>
    img_name (buildSyncedWorkspaceImage reg i) \<noteq> [] \<and>
    last (img_name (buildSyncedWorkspaceImage reg i)) \<noteq> CHR ''-''"
  using syncedImageName_shape [of "ir_name reg" i] syncedImageName_hd [OF assms(2), of rest i]
  by (auto simp: buildSyncedWorkspaceImage_def meta0_def assms(1))

text \<open>
  Names are not injective within one registry: a repository with a slash and one with a hyphen
  in its place give one entry, so one sync writes the second image over the first, with no error.
\<close>

theorem synced_names_collide:
  "syncedImageName ''ecr'' (demo_remote ''team/go'' ''1'' 10) = ''ecr-team-go-1'' \<and>
   syncedImageName ''ecr'' (demo_remote ''team-go'' ''1'' 20) = ''ecr-team-go-1'' \<and>
   ri_reference (demo_remote ''team/go'' ''1'' 10) \<noteq> ri_reference (demo_remote ''team-go'' ''1'' 20)"
  by code_simp

section \<open>Witnesses\<close>

text \<open>The catalog as a list of images, with a registry that has one image to offer.\<close>

definition demo_ir_client :: "imageregistry \<Rightarrow> workspaceimage list ir_client" where
  "demo_ir_client reg = \<lparr>irc_get = (\<lambda>n s. Inr reg), irc_applier = mem_applier img_name,
     irc_listImages = (\<lambda>n s. Inr (mem_select img_name (\<lambda>i. img_label i = Some n) s)),
     irc_deleteImage = mem_del img_name, irc_patchStatus = (\<lambda>r s. (None, s))\<rparr>"

definition demo_ir_env :: "remoteimage list \<Rightarrow> ir_env" where
  "demo_ir_env remote = \<lparr>env_providerFactory = Some (\<lambda>r. Inr (Inr remote)), env_newECR = (\<lambda>_ _ _. Inl ''''),
     env_compile = (\<lambda>p. Inr (\<lambda>x. x = p)), env_sortFunc = demo_sort, env_setCond = mem_setCond, env_now = 0,
     env_errText = (\<lambda>_. '''')\<rparr>"

definition demo_ir :: "bool \<Rightarrow> imageregistry" where
  "demo_ir p = \<lparr>ir_meta = meta0 '''' ''ecr'',
     ir_spec = \<lparr>ir_provider = ''aws-ecr'', ir_aws = None,
       ir_sync = \<lparr>sy_intervalSeconds = 60, sy_include = [], sy_exclude = [], sy_tags = \<lparr>ts_mode = ''all'', ts_patterns = [], ts_limit = 0\<rparr>,
         sy_prune = p\<rparr>, ir_pullSecretRef = None\<rparr>,
     ir_status = \<lparr>irs_conditions = [], irs_observedGeneration = 0, irs_lastSyncTime = None, irs_images = 0\<rparr>\<rparr>"

definition demo_catalog :: "workspaceimage list" where
  "demo_catalog = [buildSyncedWorkspaceImage (demo_ir True) (demo_remote ''old'' ''1'' 1)]"

lemma demo_image_store: "image_store (demo_ir_client reg) (mem_find img_name)"
  unfolding image_store_def image_store_axioms_def
  by (auto simp: demo_ir_client_def mem_del_def mem_find_filter img_kept_def intro!: mem_applier_laws split: if_splits)

interpretation mem_images: image_store "demo_ir_client reg" "mem_find img_name" for reg
  by (rule demo_image_store)

lemma demo_fresh_list: "fresh_list (demo_ir_client reg) (mem_find img_name)"
  unfolding fresh_list_def
  by (auto simp: demo_ir_client_def mem_del_def mem_select_keys split: if_splits)

abbreviation demo_ir_run :: "bool \<Rightarrow> (irerror list + duration option) \<times> workspaceimage list" where
  "demo_ir_run p \<equiv> ir_Reconcile (demo_ir_client (demo_ir p)) (demo_ir_env [demo_remote ''team/go'' ''1'' 10]) ''ecr'' demo_catalog"

lemma demo_desired:
  "ir_desired (demo_ir_env [demo_remote ''team/go'' ''1'' 10]) (demo_ir p) =
     Some [buildSyncedWorkspaceImage (demo_ir p) (demo_remote ''team/go'' ''1'' 10)]"
  by (simp add: ir_desired_def demo_ir_env_def demo_ir_def providerFor_def CompileSelection_def Select_def
      selectTags_def groupStep_def repositoryMatches_def tagMatches_def demo_sort_def Let_def demo_remote_def)

lemma demo_ir_simps [simp]: "ir_name (demo_ir p) = ''ecr''" "m_deletion (ir_meta (demo_ir p)) = None"
  "sy_prune (ir_sync (ir_spec (demo_ir p))) = p" "SyncInterval (demo_ir p) = 60000000000"
  "irc_get (demo_ir_client (demo_ir p)) n s = Inr (demo_ir p)"
  by (simp_all add: demo_ir_def meta0_def SyncInterval_def demo_ir_client_def)

lemma demo_name [simp]:
  "img_name (buildSyncedWorkspaceImage (demo_ir p) (demo_remote ''team/go'' ''1'' 10)) = ''ecr-team-go-1''"
  by (cases p) code_simp+

lemma demo_ir_result: "fst (demo_ir_run True) = Inr (Some 60000000000)" "fst (demo_ir_run False) = Inr (Some 60000000000)"
  by code_simp+

theorem sync_makes_catalog_exact_witness:
  "fst (demo_ir_run True) = Inr (Some 60000000000) \<and>
   {n. \<exists>x. mem_find img_name (snd (demo_ir_run True)) n = Some x \<and> img_label x = Some ''ecr''} = {''ecr-team-go-1''} \<and>
   (\<exists>x. mem_find img_name (snd (demo_ir_run True)) ''ecr-team-go-1'' = Some x \<and> img_image (img_spec x) = ri_reference (demo_remote ''team/go'' ''1'' 10))"
proof -
  let ?r = "demo_remote ''team/go'' ''1'' 10" and ?sync = "ir_sync (ir_spec (demo_ir True))" and ?env = "demo_ir_env [demo_remote ''team/go'' ''1'' 10]"
  let ?sel = "\<lparr>sel_include = [], sel_exclude = [], sel_tagPattern = [], sel_tagIsLatest = True, sel_tagLimit = 0\<rparr>"
  have run: "demo_ir_run True = (Inr (Some 60000000000), snd (demo_ir_run True))"
    using demo_ir_result(1) by (metis prod.collapse)
  have remote: "providerFor ?env (demo_ir True) = Inr (Inr [?r])" by (simp add: demo_ir_env_def providerFor_def demo_ir_def)
  have sel: "CompileSelection (env_compile ?env) (sy_include ?sync) (sy_exclude ?sync)
      (ts_mode (sy_tags ?sync)) (ts_patterns (sy_tags ?sync)) (ts_limit (sy_tags ?sync)) = Inr ?sel"
    by (simp add: demo_ir_def CompileSelection_def)
  have chosen: "[?r] = Select (env_sortFunc ?env) [?r] ?sel"
    by (simp add: Select_def selectTags_def groupStep_def repositoryMatches_def tagMatches_def demo_sort_def Let_def demo_remote_def demo_ir_env_def)
  have n: "syncedImageName ''ecr'' ?r = ''ecr-team-go-1''" using demo_name [of True] by (simp add: buildSynced_fields)
  from sync_makes_catalog_exact [OF demo_image_store demo_fresh_list demo_ir_simps(5,2) remote refl demo_ir_simps(3) [THEN iffD2, OF TrueI] sel chosen run]
  show ?thesis using demo_ir_result(1) n by (simp, blast)
qed

theorem sync_leaves_others_alone_witness:
  "''ecr-old-1'' \<in> dom (mem_find img_name (snd (demo_ir_run False)))"
proof -
  have "\<not> Option.is_none (mem_find img_name demo_catalog ''ecr-old-1'')" by code_simp
  then have "''ecr-old-1'' \<in> dom (mem_find img_name demo_catalog)" by (auto simp: Option.is_none_def)
  moreover have "demo_ir_run False = (fst (demo_ir_run False), snd (demo_ir_run False))" by simp
  from sync_leaves_others_alone [OF demo_image_store demo_fresh_list _ this]
  have "dom (mem_find img_name demo_catalog) \<subseteq> dom (mem_find img_name (snd (demo_ir_run False)))" by simp
  ultimately show ?thesis by blast
qed

theorem synced_name_valid_witness:
  "list_all dnsChar (img_name (buildSyncedWorkspaceImage (demo_ir True) (demo_remote ''Team//Go'' ''v1.2'' 10))) \<and>
   hd (img_name (buildSyncedWorkspaceImage (demo_ir True) (demo_remote ''Team//Go'' ''v1.2'' 10))) = CHR ''e''"
  using synced_name_valid [of "demo_ir True" "CHR ''e''" "''cr''" "demo_remote ''Team//Go'' ''v1.2'' 10"]
  by (simp add: isLower_def less_eq_char_def)

end
