(* ===== verification/WorkspaceObjects.thy ===== *)
theory WorkspaceObjects
  imports ApiTypes WebhookWorkspace
begin

text \<open>
  The desired-state builders of \<^verbatim>\<open>src/internal/workspace\<close>: the names a workspace's objects have, the
  Service and the StatefulSet it runs as, the SSH client configuration rendered from its Git keys,
  and the encryption of those keys at rest.

  Kubernetes objects are records with the fields the builders set. A pointer to a boolean is an
  \<open>option\<close>. The AES-GCM construction of Go's standard library is the parameter of the encryption
  functions, a record of its two constructors and of \<^verbatim>\<open>Seal\<close> and \<^verbatim>\<open>Open\<close>.
\<close>

section \<open>Identities (names.go)\<close>

definition ServiceAccountName :: string where
  "ServiceAccountName = ''workspace''"

definition SessionServiceAccountName :: string where
  "SessionServiceAccountName = ''session''"

definition ReadOnlySessionServiceAccountName :: string where
  "ReadOnlySessionServiceAccountName = ''session-readonly''"

definition TokenScopeRead :: string where
  "TokenScopeRead = ''read''"

definition TokenScopeFull :: string where
  "TokenScopeFull = ''full''"

definition ServiceAccountForScope :: "string \<Rightarrow> string" where
  "ServiceAccountForScope scope =
     (if scope = TokenScopeFull then SessionServiceAccountName else ReadOnlySessionServiceAccountName)"

definition TokenScopes :: "string list" where
  "TokenScopes = [TokenScopeRead, TokenScopeFull]"

section \<open>Names and labels (statefulset.go)\<close>

definition ContainerName :: string where
  "ContainerName = ''workspace''"

definition HomeVolumeName :: string where
  "HomeVolumeName = ''home''"

definition LogsEnabledAnnotation :: string where
  "LogsEnabledAnnotation = ''dwpk.devops-ia.io/logs-enabled''"

definition MetricsEnabledLabel :: string where
  "MetricsEnabledLabel = ''dwpk.devops-ia.io/metrics-enabled''"

definition HomeClaimName :: "'q workspace \<Rightarrow> string" where
  "HomeClaimName ws = HomeVolumeName @ ''-'' @ ws_name ws @ ''-0''"

definition PodName :: "'q workspace \<Rightarrow> string" where
  "PodName ws = ws_name ws @ ''-0''"

definition SSHUser :: "'q workspace \<Rightarrow> string" where
  "SSHUser ws = TrimPrefix (ws_ns ws) NamespacePrefix @ ''-'' @ ws_name ws"

definition ServiceName :: "'q workspace \<Rightarrow> string" where
  "ServiceName ws = ws_name ws"

definition Selector :: "'q workspace \<Rightarrow> strmap" where
  "Selector ws = [WorkspaceLabel \<mapsto> ws_name ws]"

text \<open>The annotations and the labels of the pod template.\<close>

definition PodMeta :: "'q workspace \<Rightarrow> strmap \<times> strmap" where
  "PodMeta ws =
     (let annotations = [LogsEnabledAnnotation \<mapsto> FormatBool (ws_logsEnabled (ws_spec ws))];
          labels = [MetricsEnabledLabel \<mapsto> FormatBool (ws_metricsEnabled (ws_spec ws))]
      in (annotations, labels ++ Selector ws))"

section \<open>Workload objects\<close>

record securitycontext =
  sc_runAsUser :: "int option"
  sc_runAsNonRoot :: "bool option"
  sc_allowPrivilegeEscalation :: "bool option"
  sc_privileged :: "bool option"
  sc_drop :: "string list"
  sc_seccomp :: "string option"

record 'q container =
  ct_name :: string
  ct_image :: string
  ct_pullPolicy :: string
  ct_resources :: "'q resources"
  ct_command :: "string list"
  ct_args :: "string list"
  ct_workingDir :: string
  ct_security :: securitycontext
  ct_env :: "envvar list"
  ct_envFrom :: "json list"
  ct_mounts :: "volumemount list"

record 'q podspec =
  ps_serviceAccount :: string
  ps_runAsUser :: "int option"
  ps_fsGroup :: "int option"
  ps_initContainers :: "'q container list"
  ps_containers :: "'q container list"
  ps_volumes :: "volume list"
  ps_nodeSelector :: "string gomap"
  ps_tolerations :: "json list"
  ps_affinity :: "json option"
  ps_pullSecrets :: "string list"

record 'q statefulset =
  ss_meta :: objectmeta
  ss_replicas :: int
  ss_serviceName :: string
  ss_selector :: strmap
  ss_podManagement :: string
  ss_podAnnotations :: strmap
  ss_podLabels :: strmap
  ss_pod :: "'q podspec"
  ss_claimName :: string
  ss_claimLabels :: strmap
  ss_claimModes :: "string list"
  ss_claimStorage :: 'q

record k8s_service =
  svc_meta :: objectmeta
  svc_clusterIP :: string
  svc_selector :: strmap
  svc_publishNotReady :: bool

definition BuildService :: "'q workspace \<Rightarrow> k8s_service" where
  "BuildService ws =
     \<lparr>svc_meta = (meta0 (ws_ns ws) (ServiceName ws))\<lparr>m_labels := Selector ws\<rparr>,
      svc_clusterIP = ''None'', svc_selector = Selector ws, svc_publishNotReady = True\<rparr>"

definition containerSecurityContext :: "workspaceimage \<Rightarrow> securitycontext" where
  "containerSecurityContext img =
     (if img_allowRoot (img_spec img) then
        \<lparr>sc_runAsUser = None, sc_runAsNonRoot = Some False, sc_allowPrivilegeEscalation = Some True,
         sc_privileged = Some False, sc_drop = [''ALL''], sc_seccomp = Some ''RuntimeDefault''\<rparr>
      else
        \<lparr>sc_runAsUser = None, sc_runAsNonRoot = None, sc_allowPrivilegeEscalation = Some False,
         sc_privileged = Some False, sc_drop = [''ALL''], sc_seccomp = Some ''RuntimeDefault''\<rparr>)"

definition workspaceUser :: "workspaceimage \<Rightarrow> int" where
  "workspaceUser img = (if img_allowRoot (img_spec img) then 0 else img_runAsUser (img_spec img))"

section \<open>The passwd fix\<close>

definition passwdFixContainerName :: string where
  "passwdFixContainerName = ''fix-passwd''"

definition passwdFixVolumeName :: string where
  "passwdFixVolumeName = ''passwd-fix''"

definition passwdFixMountPath :: string where
  "passwdFixMountPath = ''/dwpk-etc''"

definition etcPasswdPath :: string where
  "etcPasswdPath = ''/etc/passwd''"

definition etcGroupPath :: string where
  "etcGroupPath = ''/etc/group''"

definition passwdFixScript :: string where
  \<open>passwdFixScript = concat (map (\<lambda>l. l @ [CHR 10]) [
     ''set -e'',
     ''uid="$1"'',
     ''home="$2"'',
     ''cp /etc/passwd '' @ passwdFixMountPath @ ''/passwd'',
     ''grep -qE "^[^:]*:[^:]*:${uid}:" '' @ passwdFixMountPath @ ''/passwd || echo "workspace:x:${uid}:0:workspace:${home}:/bin/sh" >> '' @
       passwdFixMountPath @ ''/passwd'',
     ''if [ -f /etc/group ]; then cp /etc/group '' @ passwdFixMountPath @ ''/group; else : > '' @ passwdFixMountPath @ ''/group; fi'',
     ''grep -qE "^[^:]*:[^:]*:${uid}:" '' @ passwdFixMountPath @ ''/group || echo "workspace:x:${uid}:" >> '' @ passwdFixMountPath @ ''/group'',
     ''chmod 0644 '' @ passwdFixMountPath @ ''/passwd '' @ passwdFixMountPath @ ''/group''])\<close>

text \<open>\<^verbatim>\<open>container := &spec.Containers[0]\<close> followed by changes to it.\<close>

definition onFirst :: "('q container \<Rightarrow> 'q container) \<Rightarrow> 'q podspec \<Rightarrow> 'q podspec" where
  "onFirst f spec = spec\<lparr>ps_containers := (case ps_containers spec of [] \<Rightarrow> [] | c # cs \<Rightarrow> f c # cs)\<rparr>"

definition emptyResources :: "'q resources" where
  "emptyResources = \<lparr>res_requests = [], res_limits = []\<rparr>"

definition applyPasswdFix :: "'q podspec \<Rightarrow> workspaceimage \<Rightarrow> int \<Rightarrow> 'q podspec" where
  "applyPasswdFix spec img uid =
     (if uid = 0 then spec
      else
        let spec = spec\<lparr>ps_initContainers := ps_initContainers spec @
              [\<lparr>ct_name = passwdFixContainerName, ct_image = img_image (img_spec img),
                ct_pullPolicy = img_pullPolicy (img_spec img), ct_resources = emptyResources,
                ct_command = [''/bin/sh'', ''-c'', passwdFixScript],
                ct_args = [''fix-passwd'', FormatInt uid, img_homePath (img_spec img)],
                ct_workingDir = '''',
                ct_security = \<lparr>sc_runAsUser = Some 0, sc_runAsNonRoot = Some False,
                  sc_allowPrivilegeEscalation = Some False, sc_privileged = Some False, sc_drop = [], sc_seccomp = None\<rparr>,
                ct_env = [], ct_envFrom = [],
                ct_mounts = [\<lparr>vm_name = passwdFixVolumeName, vm_path = passwdFixMountPath, vm_subPath = '''', vm_readOnly = False\<rparr>]\<rparr>]\<rparr>;
            spec = spec\<lparr>ps_volumes := ps_volumes spec @
              [\<lparr>vol_name = passwdFixVolumeName, vol_source = [(''EmptyDir'', Some (JObj []))]\<rparr>]\<rparr>
        in onFirst (\<lambda>container. container\<lparr>ct_mounts := ct_mounts container @
             [\<lparr>vm_name = passwdFixVolumeName, vm_path = etcPasswdPath, vm_subPath = ''passwd'', vm_readOnly = True\<rparr>,
              \<lparr>vm_name = passwdFixVolumeName, vm_path = etcGroupPath, vm_subPath = ''group'', vm_readOnly = True\<rparr>]\<rparr>) spec)"

section \<open>Placement and extras\<close>

definition applyPlacement :: "'q podspec \<Rightarrow> 'q workspace \<Rightarrow> workspaceimage \<Rightarrow> 'q podspec" where
  "applyPlacement spec ws img =
     (let spec = (case img_placement (img_spec img) of
            None \<Rightarrow> spec
          | Some p \<Rightarrow> spec\<lparr>ps_nodeSelector := pl_nodeSelector p, ps_tolerations := pl_tolerations p,
              ps_affinity := pl_affinity p\<rparr>);
          spec = (if length (ws_nodeSelector (ws_spec ws)) > 0
                  then spec\<lparr>ps_nodeSelector := ws_nodeSelector (ws_spec ws)\<rparr> else spec);
          spec = (if length (ws_tolerations (ws_spec ws)) > 0
                  then spec\<lparr>ps_tolerations := ws_tolerations (ws_spec ws)\<rparr> else spec)
      in if ws_affinity (ws_spec ws) \<noteq> None then spec\<lparr>ps_affinity := ws_affinity (ws_spec ws)\<rparr> else spec)"

definition GitSSHMountPath :: string where
  "GitSSHMountPath = ''/etc/dwpk/git-ssh''"

definition GitSSHKeyDataPrefix :: string where
  "GitSSHKeyDataPrefix = ''key-''"

definition gitSSHVolumeName :: string where
  "gitSSHVolumeName = ''git-ssh-keys''"

definition gitSSHCommandEnvVar :: string where
  "gitSSHCommandEnvVar = ''GIT_SSH_COMMAND''"

text \<open>\<^verbatim>\<open>0o440\<close> is 288.\<close>

definition applyExtras ::
    "'q podspec \<Rightarrow> 'q workspace \<Rightarrow> workspaceimage \<Rightarrow> string option \<Rightarrow> 'q podspec" where
  "applyExtras spec ws img gitSSHKeysRef =
     (let spec = onFirst (\<lambda>c. c\<lparr>ct_env := ct_env c @ ws_env (ws_spec ws),
            ct_envFrom := ct_envFrom c @ ws_envFrom (ws_spec ws),
            ct_mounts := ct_mounts c @ ws_volumeMounts (ws_spec ws)\<rparr>) spec;
          spec = spec\<lparr>ps_volumes := ps_volumes spec @ ws_volumes (ws_spec ws)\<rparr>;
          spec = (case img_pullSecretRef (img_spec img) of
                    None \<Rightarrow> spec | Some ref \<Rightarrow> spec\<lparr>ps_pullSecrets := [ref]\<rparr>)
      in case gitSSHKeysRef of
           None \<Rightarrow> spec
         | Some ref \<Rightarrow>
             let spec = onFirst (\<lambda>c. c\<lparr>
                   ct_mounts := ct_mounts c @
                     [\<lparr>vm_name = gitSSHVolumeName, vm_path = GitSSHMountPath, vm_subPath = '''', vm_readOnly = True\<rparr>],
                   ct_env := ct_env c @
                     [\<lparr>ev_name = gitSSHCommandEnvVar, ev_value = ''ssh -F '' @ GitSSHMountPath @ ''/config'', ev_from = None\<rparr>]\<rparr>) spec
             in spec\<lparr>ps_volumes := ps_volumes spec @
                  [\<lparr>vol_name = gitSSHVolumeName,
                    vol_source = [(''Secret'', Some (JObj [(''secretName'', JStr ref), (''defaultMode'', JNum 288)]))]\<rparr>]\<rparr>)"

definition podSpec :: "'q workspace \<Rightarrow> workspaceimage \<Rightarrow> string option \<Rightarrow> 'q podspec" where
  "podSpec ws img gitSSHKeysRef =
     (let uid = workspaceUser img;
          spec = \<lparr>ps_serviceAccount = ServiceAccountName, ps_runAsUser = Some uid, ps_fsGroup = Some uid,
            ps_initContainers = [],
            ps_containers = [\<lparr>ct_name = ContainerName, ct_image = img_image (img_spec img),
              ct_pullPolicy = img_pullPolicy (img_spec img), ct_resources = ws_resources (ws_spec ws),
              ct_command = img_command (img_spec img), ct_args = [], ct_workingDir = img_homePath (img_spec img),
              ct_security = containerSecurityContext img, ct_env = [], ct_envFrom = [],
              ct_mounts = [\<lparr>vm_name = HomeVolumeName, vm_path = img_homePath (img_spec img), vm_subPath = '''', vm_readOnly = False\<rparr>]\<rparr>],
            ps_volumes = [], ps_nodeSelector = [], ps_tolerations = [], ps_affinity = None, ps_pullSecrets = []\<rparr>;
          spec = applyPasswdFix spec img uid;
          spec = applyPlacement spec ws img
      in applyExtras spec ws img gitSSHKeysRef)"

text \<open>\<open>None\<close> is the panic on a nil \<^verbatim>\<open>spec.storage\<close>.\<close>

definition BuildStatefulSet ::
    "'q workspace \<Rightarrow> workspaceimage \<Rightarrow> string option \<Rightarrow> 'q statefulset option" where
  "BuildStatefulSet ws img gitSSHKeysRef =
     (let replicas = (if ws_running (ws_spec ws) then 1 else 0) in
      case ws_storage (ws_spec ws) of
        None \<Rightarrow> None
      | Some storage \<Rightarrow> Some
          \<lparr>ss_meta = (meta0 (ws_ns ws) (ws_name ws))\<lparr>m_labels := Selector ws\<rparr>,
           ss_replicas = replicas, ss_serviceName = ServiceName ws, ss_selector = Selector ws,
           ss_podManagement = ''OrderedReady'',
           ss_podAnnotations = fst (PodMeta ws), ss_podLabels = snd (PodMeta ws),
           ss_pod = podSpec ws img gitSSHKeysRef,
           ss_claimName = HomeVolumeName, ss_claimLabels = Selector ws, ss_claimModes = [''ReadWriteOnce''],
           ss_claimStorage = storage\<rparr>)"

section \<open>Git over SSH (gitssh.go)\<close>

text \<open>\<open>data\<close> is the Secret's data in the order the iteration visits it.\<close>

definition GitSSHHostsFromData :: "string gomap \<Rightarrow> string list" where
  "GitSSHHostsFromData data =
     (let hosts = concat (map (\<lambda>(key, v). case CutPrefix key GitSSHKeyDataPrefix of
            Some host \<Rightarrow> [host] | None \<Rightarrow> []) data)
      in sort hosts)"

definition hostBlock :: "string \<Rightarrow> string" where
  "hostBlock host = ''Host '' @ host @ [CHR 10] @ ''  IdentityFile '' @ GitSSHMountPath @ ''/'' @
     GitSSHKeyDataPrefix @ host @ [CHR 10] @ ''  StrictHostKeyChecking accept-new'' @ [CHR 10, CHR 10]"

definition GitSSHConfig :: "string list \<Rightarrow> string" where
  "GitSSHConfig hosts = foldl (\<lambda>b host. b @ hostBlock host) '''' hosts"

section \<open>Keys at rest (gitsshcrypt.go)\<close>

record aead =
  ae_NonceSize :: nat
  ae_Seal :: "string \<Rightarrow> string \<Rightarrow> string"
  ae_Open :: "string \<Rightarrow> string \<Rightarrow> string + string"

record 'b crypto =
  cr_aesNewCipher :: "string \<Rightarrow> string + 'b"
  cr_newGCM :: "'b \<Rightarrow> string + aead"
  cr_randRead :: "nat \<Rightarrow> string + string"

datatype crypterr = BuildAES string | BuildGCM string | GenerateNonce string | ShortCiphertext nat | DecryptErr string

definition newGCM :: "'b crypto \<Rightarrow> string \<Rightarrow> crypterr + aead" where
  "newGCM cr key =
     (case cr_aesNewCipher cr key of
        Inl err \<Rightarrow> Inl (BuildAES err)
      | Inr block \<Rightarrow> (case cr_newGCM cr block of Inl err \<Rightarrow> Inl (BuildGCM err) | Inr gcm \<Rightarrow> Inr gcm))"

definition EncryptGitSSHKey :: "'b crypto \<Rightarrow> string \<Rightarrow> string \<Rightarrow> crypterr + string" where
  "EncryptGitSSHKey cr key plaintext =
     (case newGCM cr key of
        Inl err \<Rightarrow> Inl err
      | Inr gcm \<Rightarrow>
          (case cr_randRead cr (ae_NonceSize gcm) of
             Inl err \<Rightarrow> Inl (GenerateNonce err)
           | Inr nonce \<Rightarrow> Inr (nonce @ ae_Seal gcm nonce plaintext)))"

definition DecryptGitSSHKey :: "'b crypto \<Rightarrow> string \<Rightarrow> string \<Rightarrow> crypterr + string" where
  "DecryptGitSSHKey cr key ciphertext =
     (case newGCM cr key of
        Inl err \<Rightarrow> Inl err
      | Inr gcm \<Rightarrow>
          if length ciphertext < ae_NonceSize gcm then Inl (ShortCiphertext (length ciphertext))
          else
            let nonce = take (ae_NonceSize gcm) ciphertext; sealed = drop (ae_NonceSize gcm) ciphertext in
            case ae_Open gcm nonce sealed of
              Inl err \<Rightarrow> Inl (DecryptErr err)
            | Inr plaintext \<Rightarrow> Inr plaintext)"

text \<open>
  What the standard library documents: a random read fills its buffer, and opening what was sealed
  under the same nonce gives the plaintext back.
\<close>

definition crypto_laws :: "'b crypto \<Rightarrow> bool" where
  "crypto_laws cr \<longleftrightarrow>
     (\<forall>n bs. cr_randRead cr n = Inr bs \<longrightarrow> length bs = n) \<and>
     (\<forall>b g. cr_newGCM cr b = Inr g \<longrightarrow>
        (\<forall>nonce p. length nonce = ae_NonceSize g \<longrightarrow> ae_Open g nonce (ae_Seal g nonce p) = Inr p))"

section \<open>Lemmas on the pod\<close>

named_theorems podsimps \<open>the builders, unfolded\<close>

lemmas pod_constants [podsimps] = ServiceAccountName_def ContainerName_def HomeVolumeName_def
  passwdFixContainerName_def passwdFixVolumeName_def gitSSHVolumeName_def gitSSHCommandEnvVar_def

lemma onFirst_fields [simp]:
  "ps_serviceAccount (onFirst f s) = ps_serviceAccount s" "ps_runAsUser (onFirst f s) = ps_runAsUser s"
  "ps_fsGroup (onFirst f s) = ps_fsGroup s" "ps_initContainers (onFirst f s) = ps_initContainers s"
  "ps_volumes (onFirst f s) = ps_volumes s" "ps_nodeSelector (onFirst f s) = ps_nodeSelector s"
  "ps_tolerations (onFirst f s) = ps_tolerations s" "ps_affinity (onFirst f s) = ps_affinity s"
  "ps_pullSecrets (onFirst f s) = ps_pullSecrets s"
  by (simp_all add: onFirst_def)

lemma onFirst_containers: "ps_containers s = [c] \<Longrightarrow> ps_containers (onFirst f s) = [f c]"
  by (simp add: onFirst_def)

lemma applyPlacement_fields [simp]:
  "ps_serviceAccount (applyPlacement s ws img) = ps_serviceAccount s" "ps_runAsUser (applyPlacement s ws img) = ps_runAsUser s"
  "ps_fsGroup (applyPlacement s ws img) = ps_fsGroup s" "ps_initContainers (applyPlacement s ws img) = ps_initContainers s"
  "ps_containers (applyPlacement s ws img) = ps_containers s" "ps_volumes (applyPlacement s ws img) = ps_volumes s"
  "ps_pullSecrets (applyPlacement s ws img) = ps_pullSecrets s"
  by (simp_all add: applyPlacement_def Let_def split: option.split)

lemma applyPasswdFix_fields [simp]:
  "ps_serviceAccount (applyPasswdFix s img u) = ps_serviceAccount s" "ps_runAsUser (applyPasswdFix s img u) = ps_runAsUser s"
  "ps_fsGroup (applyPasswdFix s img u) = ps_fsGroup s" "ps_nodeSelector (applyPasswdFix s img u) = ps_nodeSelector s"
  "ps_tolerations (applyPasswdFix s img u) = ps_tolerations s" "ps_affinity (applyPasswdFix s img u) = ps_affinity s"
  "ps_pullSecrets (applyPasswdFix s img u) = ps_pullSecrets s"
  by (simp_all add: applyPasswdFix_def Let_def)

lemma applyExtras_fields [simp]:
  "ps_serviceAccount (applyExtras s ws img r) = ps_serviceAccount s" "ps_runAsUser (applyExtras s ws img r) = ps_runAsUser s"
  "ps_fsGroup (applyExtras s ws img r) = ps_fsGroup s" "ps_nodeSelector (applyExtras s ws img r) = ps_nodeSelector s"
  "ps_tolerations (applyExtras s ws img r) = ps_tolerations s" "ps_affinity (applyExtras s ws img r) = ps_affinity s"
  "ps_initContainers (applyExtras s ws img r) = ps_initContainers s"
  by (simp_all add: applyExtras_def Let_def split: option.split)

text \<open>The mounts and volumes each stage adds, and the whole lists.\<close>

definition passwdMounts :: "int \<Rightarrow> volumemount list" where
  "passwdMounts uid = (if uid = 0 then [] else
     [\<lparr>vm_name = passwdFixVolumeName, vm_path = etcPasswdPath, vm_subPath = ''passwd'', vm_readOnly = True\<rparr>,
      \<lparr>vm_name = passwdFixVolumeName, vm_path = etcGroupPath, vm_subPath = ''group'', vm_readOnly = True\<rparr>])"

definition gitMounts :: "string option \<Rightarrow> volumemount list" where
  "gitMounts ref = (if ref = None then [] else
     [\<lparr>vm_name = gitSSHVolumeName, vm_path = GitSSHMountPath, vm_subPath = '''', vm_readOnly = True\<rparr>])"

lemma applyPasswdFix_containers:
  "ps_containers s = [c] \<Longrightarrow>
   ps_containers (applyPasswdFix s img u) = [c\<lparr>ct_mounts := ct_mounts c @ passwdMounts u\<rparr>]"
  by (simp add: applyPasswdFix_def Let_def onFirst_def passwdMounts_def)

definition gitEnv :: "string option \<Rightarrow> envvar list" where
  "gitEnv ref = (if ref = None then [] else
     [\<lparr>ev_name = gitSSHCommandEnvVar, ev_value = ''ssh -F '' @ GitSSHMountPath @ ''/config'', ev_from = None\<rparr>])"

lemma applyExtras_containers:
  assumes "ps_containers s = [c]"
  shows "\<exists>c'. ps_containers (applyExtras s ws img ref) = [c'] \<and> ct_name c' = ct_name c \<and> ct_security c' = ct_security c \<and>
     ct_resources c' = ct_resources c \<and> ct_image c' = ct_image c \<and> ct_env c' = ct_env c @ ws_env (ws_spec ws) @ gitEnv ref \<and>
     ct_mounts c' = ct_mounts c @ ws_volumeMounts (ws_spec ws) @ gitMounts ref"
  using assms by (simp add: applyExtras_def onFirst_def Let_def gitEnv_def gitMounts_def split: option.split)

lemma podSpec_containers:
  "\<exists>c. ps_containers (podSpec ws img ref) = [c] \<and> ct_name c = ContainerName \<and>
     ct_security c = containerSecurityContext img \<and> ct_resources c = ws_resources (ws_spec ws) \<and>
     ct_image c = img_image (img_spec img) \<and> ct_env c = ws_env (ws_spec ws) @ gitEnv ref \<and>
     ct_mounts c = \<lparr>vm_name = HomeVolumeName, vm_path = img_homePath (img_spec img), vm_subPath = '''', vm_readOnly = False\<rparr> #
       passwdMounts (workspaceUser img) @ ws_volumeMounts (ws_spec ws) @ gitMounts ref"
  (is "\<exists>c. ps_containers ?s = [c] \<and> ?P c")
proof -
  let ?c = "\<lparr>ct_name = ContainerName, ct_image = img_image (img_spec img),
              ct_pullPolicy = img_pullPolicy (img_spec img), ct_resources = ws_resources (ws_spec ws),
              ct_command = img_command (img_spec img), ct_args = [], ct_workingDir = img_homePath (img_spec img),
              ct_security = containerSecurityContext img, ct_env = [], ct_envFrom = [],
              ct_mounts = [\<lparr>vm_name = HomeVolumeName, vm_path = img_homePath (img_spec img), vm_subPath = '''', vm_readOnly = False\<rparr>]\<rparr>"
  obtain s where s: "podSpec ws img ref = applyExtras (applyPlacement (applyPasswdFix s img (workspaceUser img)) ws img) ws img ref"
    and c: "ps_containers s = [?c]"
    by (auto simp: podSpec_def Let_def)
  from applyExtras_containers [of "applyPlacement (applyPasswdFix s img (workspaceUser img)) ws img",
      unfolded applyPlacement_fields, OF applyPasswdFix_containers [OF c], of ws img ref]
  show ?thesis unfolding s by auto
qed

lemma podSpec_volumes:
  "map vol_name (ps_volumes (podSpec ws img ref)) =
     (if workspaceUser img = 0 then [] else [passwdFixVolumeName]) @ map vol_name (ws_volumes (ws_spec ws)) @
     (if ref = None then [] else [gitSSHVolumeName])"
  by (simp add: podSpec_def applyExtras_def applyPasswdFix_def Let_def split: option.splits)


lemma BuildStatefulSet_SomeD:
  assumes "BuildStatefulSet ws img ref = Some ss"
  shows "ss_pod ss = podSpec ws img ref" "ss_replicas ss = (if ws_running (ws_spec ws) then 1 else 0)"
    "ss_claimName ss = ''home''" "ss_selector ss = Selector ws" "ss_podLabels ss = snd (PodMeta ws)"
    "ss_serviceName ss = ws_name ws"
  using assms
  by (auto simp: BuildStatefulSet_def Let_def HomeVolumeName_def ServiceName_def split: option.splits)

section \<open>Lemmas on hosts and configuration\<close>

definition keyHosts :: "string \<times> 'v \<Rightarrow> string list" where
  "keyHosts e = (case CutPrefix (fst e) GitSSHKeyDataPrefix of Some host \<Rightarrow> [host] | None \<Rightarrow> [])"

lemma GitSSHHosts_alt: "GitSSHHostsFromData data = sort (concat (map keyHosts data))"
  by (simp add: GitSSHHostsFromData_def keyHosts_def [abs_def] case_prod_unfold)

lemma keyHosts_iff: "h \<in> set (keyHosts e) \<longleftrightarrow> fst e = GitSSHKeyDataPrefix @ h"
  using CutPrefix_Some_iff [of "fst e" GitSSHKeyDataPrefix h]
  by (auto simp: keyHosts_def split: option.splits)

lemma keyHosts_distinct: "distinct (map fst data) \<Longrightarrow> distinct (concat (map keyHosts data))"
proof (induction data)
  case (Cons e data)
  have "distinct (keyHosts e)" by (simp add: keyHosts_def split: option.split)
  moreover have "set (keyHosts e) \<inter> (\<Union>x\<in>set data. set (keyHosts x)) = {}"
    using Cons.prems by (auto simp: keyHosts_iff image_iff)
  ultimately show ?case using Cons by auto
qed simp

text \<open>Reading the hosts back: the arguments of the lines that start with \<open>Host\<close>.\<close>

fun cfgLines :: "string \<Rightarrow> string \<Rightarrow> string list" where
  "cfgLines cur [] = (if cur = [] then [] else [rev cur])"
| "cfgLines cur (c # cs) = (if c = CHR 10 then rev cur # cfgLines [] cs else cfgLines (c # cur) cs)"

definition configHosts :: "string \<Rightarrow> string list" where
  "configHosts cfg = concat (map (\<lambda>l. case CutPrefix l ''Host '' of Some h \<Rightarrow> [h] | None \<Rightarrow> []) (cfgLines [] cfg))"

lemma cfgLines_line: "CHR 10 \<notin> set l \<Longrightarrow> cfgLines cur (l @ CHR 10 # rest) = (rev cur @ l) # cfgLines [] rest"
  by (induction l arbitrary: cur) auto

lemma configHosts_block:
  assumes "CHR 10 \<notin> set h"
  shows "configHosts (hostBlock h @ rest) = h # configHosts rest"
proof -
  let ?l1 = "''Host '' @ h" and ?l2 = "''  IdentityFile '' @ GitSSHMountPath @ ''/'' @ GitSSHKeyDataPrefix @ h"
    and ?l3 = "''  StrictHostKeyChecking accept-new''"
  have "hostBlock h @ rest = ?l1 @ CHR 10 # ?l2 @ CHR 10 # ?l3 @ CHR 10 # [] @ CHR 10 # rest"
    by (simp add: hostBlock_def)
  then have "cfgLines [] (hostBlock h @ rest) = ?l1 # ?l2 # ?l3 # [] # cfgLines [] rest"
    using assms by (simp only: cfgLines_line) (simp add: cfgLines_line GitSSHMountPath_def GitSSHKeyDataPrefix_def)
  then show ?thesis
    by (simp add: configHosts_def CutPrefix_def HasPrefix_def)
qed

lemma GitSSHConfig_alt: "GitSSHConfig hosts = concat (map hostBlock hosts)"
proof -
  have "foldl (\<lambda>b host. b @ hostBlock host) acc hosts = acc @ concat (map hostBlock hosts)" for acc
    by (induction hosts arbitrary: acc) auto
  then show ?thesis by (simp add: GitSSHConfig_def)
qed

lemma configHosts_blocks: "(\<forall>h\<in>set hosts. CHR 10 \<notin> set h) \<Longrightarrow> configHosts (concat (map hostBlock hosts)) = hosts"
  by (induction hosts) (simp_all add: configHosts_block, simp add: configHosts_def)

lemma newGCM_laws:
  "crypto_laws cr \<Longrightarrow> newGCM cr key = Inr g \<Longrightarrow> length nonce = ae_NonceSize g \<Longrightarrow> ae_Open g nonce (ae_Seal g nonce p) = Inr p"
  by (auto simp: crypto_laws_def newGCM_def split: sum.splits)

section \<open>Properties\<close>




definition demo_ss :: "int statefulset" where
  "demo_ss = the (BuildStatefulSet (demo_ws ''w'' 100) (demo_img ''go'') (Some ''keys''))"

lemma demo_ss_built: "BuildStatefulSet (demo_ws ''w'' 100) (demo_img ''go'') (Some ''keys'') = Some demo_ss"
  by (simp add: demo_ss_def BuildStatefulSet_def demo_ws_def)


text \<open>
  The home directory is never shadowed by a workspace that passed admission: its mount comes
  first, at the image's home path and writable, it is the only mount of the claim, and no volume of
  the pod has the claim's name, so the claim template is what the mount resolves to.
\<close>

theorem home_mount_first_and_unique:
  assumes adm: "ws_ValidateCreate rd parseKey now ws = None" and "BuildStatefulSet ws img ref = Some ss"
  shows "\<exists>c rest. ps_containers (ss_pod ss) = [c] \<and>
    ct_mounts c = \<lparr>vm_name = ss_claimName ss, vm_path = img_homePath (img_spec img), vm_subPath = '''', vm_readOnly = False\<rparr> # rest \<and>
    ss_claimName ss \<notin> vm_name ` set rest \<and> ss_claimName ss \<notin> vol_name ` set (ps_volumes (ss_pod ss))"
proof -
  note ss = BuildStatefulSet_SomeD [OF assms(2)]
  from adm have ok: "mounts_ok ws" by (auto simp: ws_ValidateCreate_def admits)
  have "''home'' \<notin> set (map vol_name (ps_volumes (podSpec ws img ref)))"
    unfolding podSpec_volumes using ok
    by (auto simp: mounts_ok_def passwdFixVolumeName_def gitSSHVolumeName_def)
  moreover have "''home'' \<notin> vm_name ` set (passwdMounts (workspaceUser img) @ ws_volumeMounts (ws_spec ws) @ gitMounts ref)"
    using ok by (auto simp: mounts_ok_def passwdMounts_def gitMounts_def passwdFixVolumeName_def gitSSHVolumeName_def)
  ultimately show ?thesis
    using podSpec_containers [of ws img ref] unfolding ss HomeVolumeName_def set_map by blast
qed

text \<open>
  The other volume names are not reserved: the pod's volume names are distinct exactly when
  the workspace's own are and avoid the two the builder adds, and admission accepts a workspace that
  uses one of these, which gives a pod with the name twice.
\<close>

theorem volume_names_collide:
  "(distinct (map vol_name (ps_volumes (podSpec ws img ref))) \<longleftrightarrow>
     distinct (map vol_name (ws_volumes (ws_spec ws))) \<and>
     \<not> (workspaceUser img \<noteq> 0 \<and> ''passwd-fix'' \<in> vol_name ` set (ws_volumes (ws_spec ws))) \<and>
     \<not> (ref \<noteq> None \<and> ''git-ssh-keys'' \<in> vol_name ` set (ws_volumes (ws_spec ws)))) \<and>
   validateStorageMounts (ws\<lparr>ws_spec := (ws_spec ws)\<lparr>ws_volumeMounts := [],
     ws_volumes := [\<lparr>vol_name = ''git-ssh-keys'', vol_source = [(''EmptyDir'', Some (JObj []))]\<rparr>]\<rparr>\<rparr>) = None"
proof -
  have "volumeKind \<lparr>vol_name = ''git-ssh-keys'', vol_source = [(''EmptyDir'', Some (JObj []))]\<rparr> = ''emptyDir''"
    by code_simp
  then have "validateStorageMounts (ws\<lparr>ws_spec := (ws_spec ws)\<lparr>ws_volumeMounts := [],
     ws_volumes := [\<lparr>vol_name = ''git-ssh-keys'', vol_source = [(''EmptyDir'', Some (JObj []))]\<rparr>]\<rparr>\<rparr>) = None"
    by (simp add: admits mounts_ok_def allowedVolumeTypes_def)
  moreover have "distinct (map vol_name (ps_volumes (podSpec ws img ref))) \<longleftrightarrow>
     distinct (map vol_name (ws_volumes (ws_spec ws))) \<and>
     \<not> (workspaceUser img \<noteq> 0 \<and> ''passwd-fix'' \<in> vol_name ` set (ws_volumes (ws_spec ws))) \<and>
     \<not> (ref \<noteq> None \<and> ''git-ssh-keys'' \<in> vol_name ` set (ws_volumes (ws_spec ws)))"
    unfolding podSpec_volumes by (auto simp: passwdFixVolumeName_def gitSSHVolumeName_def)
  ultimately show ?thesis by blast
qed

lemma demo_admitted_valid:
  "ws_ValidateCreate (with_items (demo_reader []) []) (\<lambda>k. None) 0 (demo_admitted ''a'' 3000) = None"
proof -
  have "admitCreate (with_items (demo_reader []) []) (\<lambda>k. None) 0 (Some demo_user) (demo_ws ''a'' 3000) =
      Inr (demo_admitted ''a'' 3000)"
    by (intro demo_admit demo_quota_pass)
      (simp_all add: counted_def fits_def demo_admitted_reads demo_quota_def)
  then show ?thesis by (simp add: admitCreate_iff)
qed

definition demo_ss_admitted :: "int statefulset" where
  "demo_ss_admitted = the (BuildStatefulSet (demo_admitted ''a'' 3000) (demo_img ''go'') (Some ''keys''))"

theorem home_mount_first_and_unique_witness:
  "\<exists>c rest. ps_containers (ss_pod demo_ss_admitted) = [c] \<and>
    ct_mounts c = \<lparr>vm_name = ''home'', vm_path = ''/home/dev'', vm_subPath = '''', vm_readOnly = False\<rparr> # rest \<and>
    ''home'' \<notin> vm_name ` set rest"
proof -
  have b: "BuildStatefulSet (demo_admitted ''a'' 3000) (demo_img ''go'') (Some ''keys'') = Some demo_ss_admitted"
    by (simp add: demo_ss_admitted_def BuildStatefulSet_def demo_admitted_def applyKeyDefault_def stampRequester_def
        demo_defs)
  from BuildStatefulSet_SomeD(3) [OF b] home_mount_first_and_unique [OF demo_admitted_valid b] show ?thesis
    by (auto simp: demo_img_def)
qed

text \<open>
  The pod template always matches the set's own selector, whatever the observability toggles
  say, and the selector, the Service's selector and the claim's labels depend on the name alone, so
  no change of the spec ever changes the immutable selector.
\<close>

theorem selector_matches_template:
  assumes "BuildStatefulSet ws img ref = Some ss"
  shows "ss_selector ss \<subseteq>\<^sub>m ss_podLabels ss \<and> ss_selector ss = svc_selector (BuildService ws) \<and>
    ss_selector ss = [''dwpk.devops-ia.io/workspace'' \<mapsto> ws_name ws] \<and>
    ss_serviceName ss = m_name (svc_meta (BuildService ws)) \<and>
    ss_podLabels ss ''dwpk.devops-ia.io/metrics-enabled'' = Some (FormatBool (ws_metricsEnabled (ws_spec ws)))"
  using BuildStatefulSet_SomeD [OF assms]
  by (auto simp: BuildService_def Let_def PodMeta_def Selector_def WorkspaceLabel_def
      MetricsEnabledLabel_def ServiceName_def meta0_def map_le_def)

theorem selector_matches_template_witness:
  "ss_podLabels demo_ss ''dwpk.devops-ia.io/metrics-enabled'' = Some ''true'' \<and> ss_selector demo_ss \<subseteq>\<^sub>m ss_podLabels demo_ss"
proof -
  have "FormatBool (ws_metricsEnabled (ws_spec (demo_ws ''w'' 100))) = ''true''"
    by (simp add: demo_ws_def FormatBool_def)
  with selector_matches_template [OF demo_ss_built] show ?thesis by metis
qed

text \<open>
  Placement is replaced field by field, never merged: each of node selector, tolerations and
  affinity is the workspace's when it sets one, else the catalog entry's, else empty.
\<close>

theorem placement_replaced:
  "ps_nodeSelector (podSpec ws img ref) =
     (if ws_nodeSelector (ws_spec ws) \<noteq> [] then ws_nodeSelector (ws_spec ws)
      else case_option [] pl_nodeSelector (img_placement (img_spec img))) \<and>
   ps_tolerations (podSpec ws img ref) =
     (if ws_tolerations (ws_spec ws) \<noteq> [] then ws_tolerations (ws_spec ws)
      else case_option [] pl_tolerations (img_placement (img_spec img))) \<and>
   ps_affinity (podSpec ws img ref) =
     (if ws_affinity (ws_spec ws) \<noteq> None then ws_affinity (ws_spec ws)
      else case_option None pl_affinity (img_placement (img_spec img)))"
  by (simp add: podSpec_def Let_def) (simp add: applyPlacement_def Let_def split: option.split)

text \<open>
  The SSH configuration lists exactly the hosts that have a key: the hosts are sorted, each
  once, they are the data keys with the prefix, they do not depend on the map's iteration order, and
  reading the rendered file back gives the same list.
\<close>

theorem git_ssh_config_roundtrip:
  assumes "distinct (map fst data)" and "\<forall>k\<in>fst ` set data. CHR 10 \<notin> set k" and "mset data' = mset data"
  shows "configHosts (GitSSHConfig (GitSSHHostsFromData data)) = GitSSHHostsFromData data \<and>
    sorted (GitSSHHostsFromData data) \<and> distinct (GitSSHHostsFromData data) \<and>
    set (GitSSHHostsFromData data) = {h. GitSSHKeyDataPrefix @ h \<in> fst ` set data} \<and>
    GitSSHHostsFromData data' = GitSSHHostsFromData data"
proof -
  have hosts: "set (GitSSHHostsFromData data) = {h. GitSSHKeyDataPrefix @ h \<in> fst ` set data}"
    by (force simp: GitSSHHosts_alt keyHosts_iff image_iff)
  then have "\<forall>h\<in>set (GitSSHHostsFromData data). CHR 10 \<notin> set h" using assms(2) by fastforce
  then have rt: "configHosts (GitSSHConfig (GitSSHHostsFromData data)) = GitSSHHostsFromData data"
    by (simp add: GitSSHConfig_alt configHosts_blocks)
  have "mset (concat (map keyHosts data')) = mset (concat (map keyHosts data))"
    using assms(3) by (metis mset_concat mset_map sum_mset_sum_list)
  then have "GitSSHHostsFromData data' = GitSSHHostsFromData data"
    unfolding GitSSHHosts_alt by (metis mset_sort properties_for_sort sorted_sort)
  with rt hosts keyHosts_distinct [OF assms(1)] show ?thesis by (simp add: GitSSHHosts_alt)
qed

theorem git_ssh_config_roundtrip_witness:
  "GitSSHHostsFromData [(''key-gitlab.com'', ''x''), (''config'', ''y''), (''key-github.com'', ''z'')] =
     [''github.com'', ''gitlab.com''] \<and>
   configHosts (GitSSHConfig [''github.com'', ''gitlab.com'']) = [''github.com'', ''gitlab.com'']"
proof -
  let ?d = "[(''key-gitlab.com'', ''x''), (''config'', ''y''), (''key-github.com'', ''z'')]"
  have "GitSSHHostsFromData ?d = [''github.com'', ''gitlab.com'']" by code_simp
  with git_ssh_config_roundtrip [of ?d ?d] show ?thesis by simp
qed

text \<open>
  A Git key survives encryption: whenever sealing succeeds, opening the result under the same
  key gives the plaintext, and a result cut short inside its nonce is refused, not opened.
\<close>

theorem git_key_roundtrip:
  assumes "crypto_laws cr" and "newGCM cr key = Inr g" and "EncryptGitSSHKey cr key plaintext = Inr ct"
    and "n < ae_NonceSize g"
  shows "DecryptGitSSHKey cr key ct = Inr plaintext \<and> DecryptGitSSHKey cr key (take n ct) = Inl (ShortCiphertext n)"
proof -
  from assms(2,3) obtain nonce where n: "cr_randRead cr (ae_NonceSize g) = Inr nonce"
    and ct: "ct = nonce @ ae_Seal g nonce plaintext"
    by (auto simp: EncryptGitSSHKey_def split: sum.splits)
  from assms(1) n have len: "length nonce = ae_NonceSize g" by (auto simp: crypto_laws_def)
  from newGCM_laws [OF assms(1,2) len] have "DecryptGitSSHKey cr key ct = Inr plaintext"
    by (simp add: DecryptGitSSHKey_def assms(2) ct len)
  then show ?thesis using assms(4) by (simp add: DecryptGitSSHKey_def assms(2) ct len)
qed

text \<open>A cipher that only reverses its input, with a constant nonce: enough to exercise the laws.\<close>

definition demo_aead :: aead where
  "demo_aead = \<lparr>ae_NonceSize = 2, ae_Seal = (\<lambda>n p. rev p), ae_Open = (\<lambda>n c. Inr (rev c))\<rparr>"

definition demo_crypto :: "unit crypto" where
  "demo_crypto = \<lparr>cr_aesNewCipher = (\<lambda>k. if length k = 3 then Inr () else Inl ''key size''),
     cr_newGCM = (\<lambda>b. Inr demo_aead), cr_randRead = (\<lambda>n. Inr (replicate n (CHR ''r'')))\<rparr>"

theorem git_key_roundtrip_witness:
  "EncryptGitSSHKey demo_crypto ''abc'' ''secret'' = Inr ''rrterces'' \<and>
   DecryptGitSSHKey demo_crypto ''abc'' ''rrterces'' = Inr ''secret'' \<and>
   DecryptGitSSHKey demo_crypto ''abc'' ''r'' = Inl (ShortCiphertext 1)"
proof -
  have l: "crypto_laws demo_crypto" by (auto simp: crypto_laws_def demo_crypto_def demo_aead_def)
  have g: "newGCM demo_crypto ''abc'' = Inr demo_aead" by (simp add: newGCM_def demo_crypto_def)
  have e: "EncryptGitSSHKey demo_crypto ''abc'' ''secret'' = Inr ''rrterces''" by code_simp
  from git_key_roundtrip [OF l g e, of 1] show ?thesis using e by (simp add: demo_aead_def)
qed

text \<open>
  Token scopes fail closed: only the exact scope \<^verbatim>\<open>full\<close> mints for the session account, every
  other string for the read-only one, both scopes offered are told apart, and no scope ever mints
  for the account workspace pods run as.
\<close>

theorem scope_fails_closed:
  "(ServiceAccountForScope s = ''session'' \<longleftrightarrow> s = ''full'') \<and>
   (ServiceAccountForScope s = ''session-readonly'' \<longleftrightarrow> s \<noteq> ''full'') \<and>
   ServiceAccountForScope s \<noteq> ps_serviceAccount (podSpec ws img ref) \<and>
   map ServiceAccountForScope TokenScopes = [''session-readonly'', ''session'']"
  by (simp add: ServiceAccountForScope_def TokenScopes_def TokenScopeFull_def TokenScopeRead_def podSpec_def Let_def
      SessionServiceAccountName_def ReadOnlySessionServiceAccountName_def ServiceAccountName_def)

text \<open>
  When SSH user names identify a workspace: with default namespaces and workspace names that
  have no hyphen, the name determines both the namespace and the workspace.
\<close>

lemma append_sep_unique:
  assumes "x @ c # y = x' @ c # y'" "c \<notin> set y" "c \<notin> set y'"
  shows "x = x' \<and> y = y'"
proof -
  have "takeWhile (\<lambda>d. d \<noteq> c) (rev v @ c # u) = rev v" if "c \<notin> set v" for u v :: "'a list"
    using that by (subst takeWhile_append2) auto
  from this [of y "rev x"] this [of y' "rev x'"] assms(2,3)
  have "takeWhile (\<lambda>d. d \<noteq> c) (rev (x @ c # y)) = rev y" "takeWhile (\<lambda>d. d \<noteq> c) (rev (x' @ c # y')) = rev y'"
    by simp_all
  then have "y = y'" using assms(1) by simp
  with assms(1) show ?thesis by simp
qed

theorem ssh_user_unique:
  assumes "SSHUser w1 = SSHUser w2" and "CHR ''-'' \<notin> set (ws_name w1)" "CHR ''-'' \<notin> set (ws_name w2)"
    and "ws_ns w1 = NamespacePrefix @ u1" "ws_ns w2 = NamespacePrefix @ u2"
  shows "ws_ns w1 = ws_ns w2 \<and> ws_name w1 = ws_name w2"
  using append_sep_unique [of u1 "CHR ''-''" "ws_name w1" u2 "ws_name w2"] assms
  by (simp add: SSHUser_def TrimPrefix_def HasPrefix_def)

theorem ssh_user_unique_witness:
  "ws_ns (demo_ws ''go'' 1) = ws_ns (demo_ws ''go'' 2) \<and> ws_name (demo_ws ''go'' 1) = ws_name (demo_ws ''go'' 2)"
proof -
  have "SSHUser (demo_ws ''go'' 1) = SSHUser (demo_ws ''go'' 2)" by (simp add: SSHUser_def demo_ws_def)
  from ssh_user_unique [OF this, of "''ana''" "''ana''"] show ?thesis
    by (simp add: demo_ws_def meta0_def NamespacePrefix_def)
qed

text \<open>
  With hyphens they do not: \<^verbatim>\<open>c\<close> of user \<^verbatim>\<open>a-b\<close> and \<^verbatim>\<open>b-c\<close> of user \<^verbatim>\<open>a\<close> answer to one name, and so do
  the workspaces of a custom namespace \<^verbatim>\<open>ana\<close> and of the default namespace of the user \<^verbatim>\<open>ana\<close>.
\<close>

theorem ssh_user_collides:
  "SSHUser ((demo_ws ''c'' 1)\<lparr>ws_meta := meta0 ''dwpk-a-b'' ''c''\<rparr>) =
     SSHUser ((demo_ws ''b-c'' 1)\<lparr>ws_meta := meta0 ''dwpk-a'' ''b-c''\<rparr>) \<and>
   SSHUser ((demo_ws ''w'' 1)\<lparr>ws_meta := meta0 ''ana'' ''w''\<rparr>) =
     SSHUser ((demo_ws ''w'' 1)\<lparr>ws_meta := meta0 ''dwpk-ana'' ''w''\<rparr>)"
  by (simp add: SSHUser_def meta0_def NamespacePrefix_def TrimPrefix_def HasPrefix_def)

end
