(* ===== verification/WorkspaceController.thy ===== *)
theory WorkspaceController
  imports KubeClient WorkspaceObjects "HOL-Library.AList"
begin

text \<open>
  The Workspace reconciler (\<^verbatim>\<open>src/internal/controller/workspace_controller.go\<close>): resolve the catalog
  entry, decrypt the owner's Git keys into the Secret the pods mount, apply the Service and the
  StatefulSet, and report what became of them.

  The client calls are the fields of \<open>ws_client\<close>; a Secret is its data, a StatefulSet read back is its
  ready replicas and a Service its load-balancer ingress. Log calls are left out. The reconciler
  keeps no state of its own: its flags and the library functions it calls are the fields of \<open>ws_env\<close>.
\<close>

section \<open>Client and environment\<close>

datatype 'q wschild = ServiceChild k8s_service | StatefulSetChild "'q statefulset"

text \<open>\<open>Panicked\<close> is the dereference of a nil storage in the builder.\<close>

datatype wserror =
    GetWorkspaceErr apierr
  | GetImageErr apierr
  | GetSourceErr apierr
  | DeleteStaleErr apierr
  | GetMasterKeyErr apierr
  | DecryptKeyErr string crypterr
  | CreateRuntimeErr apierr
  | GetRuntimeErr apierr
  | PatchRuntimeErr apierr
  | WorkloadErr applyerr
  | GetStatefulSetErr apierr
  | WsPatchStatusErr apierr
  | Panicked

record ('q, 's) ws_client =
  wc_getWorkspace :: "string \<Rightarrow> string \<Rightarrow> 's \<Rightarrow> apierr + 'q workspace"
  wc_getImage :: "string \<Rightarrow> 's \<Rightarrow> apierr + workspaceimage"
  wc_getSecret :: "string \<Rightarrow> string \<Rightarrow> 's \<Rightarrow> apierr + string gomap"
  wc_createSecret :: "string \<Rightarrow> string \<Rightarrow> string gomap \<Rightarrow> 's \<Rightarrow> apierr option \<times> 's"
  wc_patchSecret :: "string \<Rightarrow> string \<Rightarrow> string gomap \<Rightarrow> 's \<Rightarrow> apierr option \<times> 's"
  wc_deleteSecret :: "string \<Rightarrow> string \<Rightarrow> 's \<Rightarrow> apierr option \<times> 's"
  wc_applier :: "('q workspace, 'q wschild, 's) applier"
  wc_getStatefulSet :: "string \<Rightarrow> string \<Rightarrow> 's \<Rightarrow> apierr + int"
  wc_getService :: "string \<Rightarrow> string \<Rightarrow> 's \<Rightarrow> apierr + (string \<times> string) list"
  wc_patchStatus :: "'q workspace \<Rightarrow> 's \<Rightarrow> apierr option \<times> 's"
  wc_listWorkspaces :: "string option \<Rightarrow> 's \<Rightarrow> apierr + 'q workspace list"

record 'b ws_env =
  we_GatewayHost :: string
  we_GatewayService :: string
  we_GitSSHEncryptionKeyNamespace :: string
  we_crypto :: "'b crypto"
  we_setCond :: "condition list \<Rightarrow> condition \<Rightarrow> condition list"
  we_errText :: "wserror \<Rightarrow> string"

definition GitSSHKeysSecretName :: string where
  "GitSSHKeysSecretName = ''dwpk-git-ssh-keys''"

definition GitSSHEncryptionKeySecretName :: string where
  "GitSSHEncryptionKeySecretName = ''dwpk-git-ssh-encryption-key''"

definition GitSSHEncryptionKeySecretDataKey :: string where
  "GitSSHEncryptionKeySecretDataKey = ''key''"

definition GitSSHKeysRuntimeSecretName :: string where
  "GitSSHKeysRuntimeSecretName = ''dwpk-git-ssh-keys-runtime''"

section \<open>The endpoint\<close>

text \<open>An ingress is its hostname and its IP.\<close>

definition loadBalancerHost :: "(string \<times> string) list \<Rightarrow> string" where
  "loadBalancerHost svc =
     (case find (\<lambda>ingress. fst ingress \<noteq> '''') svc of
        Some ingress \<Rightarrow> fst ingress
      | None \<Rightarrow> (case find (\<lambda>ingress. snd ingress \<noteq> '''') svc of Some ingress \<Rightarrow> snd ingress | None \<Rightarrow> ''''))"

definition resolveGatewayHost :: "('q, 's) ws_client \<Rightarrow> 'b ws_env \<Rightarrow> 's \<Rightarrow> string" where
  "resolveGatewayHost cl env s =
     (if we_GatewayService env = '''' then we_GatewayHost env
      else case Cut (we_GatewayService env) (CHR ''/'') of
        None \<Rightarrow> we_GatewayHost env
      | Some (namespace, name) \<Rightarrow>
          if namespace = '''' \<or> name = '''' then we_GatewayHost env
          else case wc_getService cl namespace name s of
            Inl err \<Rightarrow> we_GatewayHost env
          | Inr svc \<Rightarrow> (let host = loadBalancerHost svc in if host \<noteq> '''' then host else we_GatewayHost env))"

section \<open>Status\<close>

definition ws_patchStatus ::
    "('q, 's) ws_client \<Rightarrow> 'b ws_env \<Rightarrow> 'q workspace \<Rightarrow> string \<Rightarrow> string \<Rightarrow> condition list \<Rightarrow> 's \<Rightarrow>
     wserror option \<times> 's" where
  "ws_patchStatus cl env ws phase podName conditions s =
     (let gen = m_generation (ws_meta ws);
          st = (ws_status ws)\<lparr>wst_state := phase, wst_podName := podName,
            wst_endpoint := SSHUser ws @ ''@'' @ resolveGatewayHost cl env s, wst_observedGeneration := gen\<rparr>;
          st = st\<lparr>wst_conditions := setConditions (we_setCond env) gen (wst_conditions st) conditions\<rparr>
      in case wc_patchStatus cl (ws\<lparr>ws_status := st\<rparr>) s of
           (Some err, s') \<Rightarrow> (Some (WsPatchStatusErr err), s')
         | (None, s') \<Rightarrow> (None, s'))"

definition markImageNotFound :: "('q, 's) ws_client \<Rightarrow> 'b ws_env \<Rightarrow> 'q workspace \<Rightarrow> 's \<Rightarrow> wserror option \<times> 's" where
  "markImageNotFound cl env ws =
     (let msg = ''WorkspaceImage '' @ goQuote (ws_imageRef (ws_spec ws)) @ '' does not exist'' in
      ws_patchStatus cl env ws WorkspaceStatePending ''''
        [mkCond ''ImageResolved'' False ''ImageNotFound'' msg,
         mkCond ''Ready'' False ''ImageNotFound'' msg])"

definition markStorageUnset :: "('q, 's) ws_client \<Rightarrow> 'b ws_env \<Rightarrow> 'q workspace \<Rightarrow> 's \<Rightarrow> wserror option \<times> 's" where
  "markStorageUnset cl env ws =
     ws_patchStatus cl env ws WorkspaceStateFailed ''''
       [mkCond ''Ready'' False ''StorageNotDefaulted'' ''spec.storage is unset; set it to a quantity such as 10Gi'']"

definition ws_markDegraded ::
    "('q, 's) ws_client \<Rightarrow> 'b ws_env \<Rightarrow> 'q workspace \<Rightarrow> wserror \<Rightarrow> 's \<Rightarrow> wserror option \<times> 's" where
  "ws_markDegraded cl env ws cause =
     ws_patchStatus cl env ws WorkspaceStateFailed ''''
       [mkCond ''Ready'' False ''WorkloadApplyFailed'' (we_errText env cause),
        mkCond ''Degraded'' True ''WorkloadApplyFailed'' (we_errText env cause)]"

text \<open>The StatefulSet is its ready replicas, zero when the cache has none.\<close>

definition markObserved :: "('q, 's) ws_client \<Rightarrow> 'b ws_env \<Rightarrow> 'q workspace \<Rightarrow> int \<Rightarrow> 's \<Rightarrow> wserror option \<times> 's" where
  "markObserved cl env ws readyReplicas =
     (let (phase, ready) = (WorkspaceStateSuspended, mkCond ''Ready'' False ''Suspended''
            ''spec.running is false; the home volume is retained'');
          podName = '''';
          (phase, ready, podName) =
            (if ws_running (ws_spec ws) then
               let podName = PodName ws;
                   (phase, ready) = (WorkspaceStateStarting, mkCond ''Ready'' False ''PodNotReady''
                     (''pod '' @ podName @ '' is not ready yet''));
                   (phase, ready) =
                     (if readyReplicas > 0
                      then (WorkspaceStateRunning, mkCond ''Ready'' True ''PodRunning'' (''pod '' @ podName @ '' is ready''))
                      else (phase, ready))
               in (phase, ready, podName)
             else (phase, ready, podName))
      in ws_patchStatus cl env ws phase podName
           [ready,
            mkCond ''ImageResolved'' True ''CatalogEntryFound''
              (''WorkspaceImage '' @ goQuote (ws_imageRef (ws_spec ws)) @ '' resolved''),
            mkCond ''Degraded'' False ''WorkloadApplied'' ''no reconcile errors''])"

section \<open>Children\<close>

definition applyWorkload ::
    "('q, 's) ws_client \<Rightarrow> 'q workspace \<Rightarrow> workspaceimage \<Rightarrow> string option \<Rightarrow> 's \<Rightarrow> wserror option \<times> 's" where
  "applyWorkload cl ws img gitSSHKeysRef s =
     (case BuildStatefulSet ws img gitSSHKeysRef of
        None \<Rightarrow> (Some Panicked, s)
      | Some sts \<Rightarrow>
          (case applyAll (wc_applier cl) ws [ServiceChild (BuildService ws), StatefulSetChild sts] s of
             (Some err, s') \<Rightarrow> (Some (WorkloadErr err), s')
           | (None, s') \<Rightarrow> (None, s')))"

text \<open>The loop over the source Secret, in iteration order; \<open>AList.update\<close> is the map assignment.\<close>

fun decryptKeys ::
    "'b crypto \<Rightarrow> string \<Rightarrow> string gomap \<Rightarrow> string gomap \<Rightarrow> wserror + string gomap" where
  "decryptKeys cr masterKey [] data = Inr data"
| "decryptKeys cr masterKey ((key, ciphertext) # rest) data =
     (case CutPrefix key GitSSHKeyDataPrefix of
        None \<Rightarrow> decryptKeys cr masterKey rest data
      | Some host \<Rightarrow>
          (case DecryptGitSSHKey cr masterKey ciphertext of
             Inl err \<Rightarrow> Inl (DecryptKeyErr host err)
           | Inr plaintext \<Rightarrow> decryptKeys cr masterKey rest (AList.update key plaintext data)))"

text \<open>\<^verbatim>\<open>maps.EqualFunc\<close>.\<close>

definition mapsEqual :: "string gomap \<Rightarrow> string gomap \<Rightarrow> bool" where
  "mapsEqual a b \<longleftrightarrow> length a = length b \<and> list_all (\<lambda>(k, v). map_of b k = Some v) a"

definition ensureGitSSHRuntimeSecret ::
    "('q, 's) ws_client \<Rightarrow> 'b ws_env \<Rightarrow> string \<Rightarrow> 's \<Rightarrow> (wserror + string option) \<times> 's" where
  "ensureGitSSHRuntimeSecret cl env namespace s =
     (case wc_getSecret cl namespace GitSSHKeysSecretName s of
        Inl err \<Rightarrow>
          if \<not> IsNotFound err then (Inl (GetSourceErr err), s)
          else (case wc_getSecret cl namespace GitSSHKeysRuntimeSecretName s of
             Inl _ \<Rightarrow> (Inr None, s)
           | Inr stale \<Rightarrow>
               (case wc_deleteSecret cl namespace GitSSHKeysRuntimeSecretName s of
                  (Some err, s') \<Rightarrow> if \<not> IsNotFound err then (Inl (DeleteStaleErr err), s') else (Inr None, s')
                | (None, s') \<Rightarrow> (Inr None, s')))
      | Inr source \<Rightarrow>
          (case wc_getSecret cl (we_GitSSHEncryptionKeyNamespace env) GitSSHEncryptionKeySecretName s of
             Inl err \<Rightarrow> (Inl (GetMasterKeyErr err), s)
           | Inr masterKeySecret \<Rightarrow>
               let masterKey = (case map_of masterKeySecret GitSSHEncryptionKeySecretDataKey of None \<Rightarrow> '''' | Some k \<Rightarrow> k) in
               (case decryptKeys (we_crypto env) masterKey source [] of
                  Inl err \<Rightarrow> (Inl err, s)
                | Inr data \<Rightarrow>
                    let data = AList.update ''config'' (GitSSHConfig (GitSSHHostsFromData source)) data in
                    (case wc_getSecret cl namespace GitSSHKeysRuntimeSecretName s of
                       Inl err \<Rightarrow>
                         if IsNotFound err then
                           (case wc_createSecret cl namespace GitSSHKeysRuntimeSecretName data s of
                              (Some err, s') \<Rightarrow> (Inl (CreateRuntimeErr err), s')
                            | (None, s') \<Rightarrow> (Inr (Some GitSSHKeysRuntimeSecretName), s'))
                         else (Inl (GetRuntimeErr err), s)
                     | Inr existing \<Rightarrow>
                         if \<not> mapsEqual existing data then
                           (case wc_patchSecret cl namespace GitSSHKeysRuntimeSecretName data s of
                              (Some err, s') \<Rightarrow> (Inl (PatchRuntimeErr err), s')
                            | (None, s') \<Rightarrow> (Inr (Some GitSSHKeysRuntimeSecretName), s'))
                         else (Inr (Some GitSSHKeysRuntimeSecretName), s)))))"

section \<open>Reconcile\<close>

definition ws_degraded ::
    "('q, 's) ws_client \<Rightarrow> 'b ws_env \<Rightarrow> 'q workspace \<Rightarrow> wserror \<Rightarrow> 's \<Rightarrow> wserror list \<times> 's" where
  "ws_degraded cl env ws err s =
     (case ws_markDegraded cl env ws err s of (None, s') \<Rightarrow> ([err], s') | (Some e, s') \<Rightarrow> ([err, e], s'))"

definition errList :: "wserror option \<times> 's \<Rightarrow> wserror list \<times> 's" where
  "errList r = (case r of (None, s) \<Rightarrow> ([], s) | (Some e, s) \<Rightarrow> ([e], s))"

text \<open>The errors a reconcile joins: the empty list is a nil error. A panic ends it at once.\<close>

definition ws_Reconcile ::
    "('q, 's) ws_client \<Rightarrow> 'b ws_env \<Rightarrow> string \<Rightarrow> string \<Rightarrow> 's \<Rightarrow> wserror list \<times> 's" where
  "ws_Reconcile cl env namespace name s =
     (case wc_getWorkspace cl namespace name s of
        Inl err \<Rightarrow> if IsNotFound err then ([], s) else ([GetWorkspaceErr err], s)
      | Inr ws \<Rightarrow>
          if m_deletion (ws_meta ws) \<noteq> None then ([], s)
          else (case wc_getImage cl (ws_imageRef (ws_spec ws)) s of
             Inl err \<Rightarrow> if IsNotFound err then errList (markImageNotFound cl env ws s) else ([GetImageErr err], s)
           | Inr img \<Rightarrow>
               if ws_storage (ws_spec ws) = None then errList (markStorageUnset cl env ws s)
               else (case ensureGitSSHRuntimeSecret cl env (ws_ns ws) s of
                  (Inl err, s1) \<Rightarrow> ws_degraded cl env ws err s1
                | (Inr gitSSHKeysRef, s1) \<Rightarrow>
                    (case applyWorkload cl ws img gitSSHKeysRef s1 of
                       (Some err, s2) \<Rightarrow> if err = Panicked then ([Panicked], s2) else ws_degraded cl env ws err s2
                     | (None, s2) \<Rightarrow>
                         (case wc_getStatefulSet cl (ws_ns ws) (ws_name ws) s2 of
                            Inl err \<Rightarrow> if IsNotFound err then errList (markObserved cl env ws 0 s2) else ([GetStatefulSetErr err], s2)
                          | Inr readyReplicas \<Rightarrow> errList (markObserved cl env ws readyReplicas s2))))))"

section \<open>Watches\<close>

definition workspacesUsingImage :: "('q, 's) ws_client \<Rightarrow> string \<Rightarrow> 's \<Rightarrow> (string \<times> string) list" where
  "workspacesUsingImage cl imgName s =
     (case wc_listWorkspaces cl None s of
        Inl err \<Rightarrow> []
      | Inr items \<Rightarrow> concat (map (\<lambda>ws. if ws_imageRef (ws_spec ws) = imgName then [(ws_ns ws, ws_name ws)] else []) items))"

definition workspacesInGitSSHKeysSecretNamespace ::
    "('q, 's) ws_client \<Rightarrow> string \<Rightarrow> string \<Rightarrow> 's \<Rightarrow> (string \<times> string) list" where
  "workspacesInGitSSHKeysSecretNamespace cl secretNamespace secretName s =
     (if secretName \<noteq> GitSSHKeysSecretName then []
      else case wc_listWorkspaces cl (Some secretNamespace) s of
        Inl err \<Rightarrow> []
      | Inr items \<Rightarrow> map (\<lambda>ws. (ws_ns ws, ws_name ws)) items)"

section \<open>What the theorems need of the cluster\<close>

text \<open>
  Observations of a state: the Secrets, the workspace statuses and the children, by key. Reads see
  them, a write that succeeds changes exactly its object, one that fails changes nothing. \<open>rel\<close> is
  what server-side apply keeps of an applied child.
\<close>

type_synonym objkey = "string \<times> string"

fun childKey :: "'q wschild \<Rightarrow> bool \<times> string \<times> string" where
  "childKey (ServiceChild svc) = (False, m_namespace (svc_meta svc), m_name (svc_meta svc))"
| "childKey (StatefulSetChild ss) = (True, m_namespace (ss_meta ss), m_name (ss_meta ss))"

record ('q, 's) ws_view =
  wv_secrets :: "'s \<Rightarrow> objkey \<rightharpoonup> string gomap"
  wv_status :: "'s \<Rightarrow> objkey \<rightharpoonup> workspace_status"
  wv_children :: "'s \<Rightarrow> bool \<times> string \<times> string \<rightharpoonup> 'q wschild"

definition same_view :: "('q, 's) ws_view \<Rightarrow> 's \<Rightarrow> 's \<Rightarrow> bool" where
  "same_view v s s' \<longleftrightarrow> wv_secrets v s' = wv_secrets v s \<and> wv_status v s' = wv_status v s \<and>
     wv_children v s' = wv_children v s"

text \<open>A write of a Secret: to \<open>d\<close>, or to nothing.\<close>

definition secret_write ::
    "('q, 's) ws_view \<Rightarrow> objkey \<Rightarrow> string gomap option \<Rightarrow> 's \<Rightarrow> apierr option \<times> 's \<Rightarrow> bool" where
  "secret_write v k d s r \<longleftrightarrow>
     (fst r = None \<longrightarrow> wv_secrets v (snd r) = (wv_secrets v s)(k := d) \<and> wv_status v (snd r) = wv_status v s \<and>
        wv_children v (snd r) = wv_children v s) \<and>
     (fst r \<noteq> None \<longrightarrow> same_view v s (snd r))"

locale secret_laws =
  fixes cl :: "('q, 's) ws_client" and v :: "('q, 's) ws_view"
  assumes secret_got: "wc_getSecret cl ns n s = Inr d \<Longrightarrow> wv_secrets v s (ns, n) = Some d \<and> distinct (map fst d)"
    and secret_missing: "wc_getSecret cl ns n s = Inl NotFound \<Longrightarrow> wv_secrets v s (ns, n) = None"
    and secret_created: "secret_write v (ns, n) (Some d) s (wc_createSecret cl ns n d s)"
    and secret_patched: "secret_write v (ns, n) (Some d) s (wc_patchSecret cl ns n d s)"
    and secret_deleted: "secret_write v (ns, n) None s (wc_deleteSecret cl ns n s)"
    and secret_gone: "wc_deleteSecret cl ns n s = (Some NotFound, s') \<Longrightarrow> wv_secrets v s (ns, n) = None"

locale status_laws =
  fixes cl :: "('q, 's) ws_client" and v :: "('q, 's) ws_view"
  assumes status_written: "wc_patchStatus cl ws s = (None, s') \<Longrightarrow>
        wv_status v s' = (wv_status v s)((ws_ns ws, ws_name ws) \<mapsto> ws_status ws) \<and>
        wv_secrets v s' = wv_secrets v s \<and> wv_children v s' = wv_children v s"
    and status_refused: "wc_patchStatus cl ws s = (Some e, s') \<Longrightarrow> same_view v s s'"

locale child_laws = applier_laws "wc_applier cl" "wv_children v" childKey rel
  for cl :: "('q, 's) ws_client" and v :: "('q, 's) ws_view" and rel :: "'q wschild \<Rightarrow> 'q wschild \<Rightarrow> bool" +
  assumes apply_frame: "ap_apply (wc_applier cl) d s = (r, s') \<Longrightarrow>
        wv_secrets v s' = wv_secrets v s \<and> wv_status v s' = wv_status v s"

section \<open>Lemmas\<close>

lemma ws_patchStatus_ok:
  assumes "status_laws cl v" and "ws_patchStatus cl env ws phase pod conds s = (None, s')"
  shows "\<exists>st. wv_status v s' = (wv_status v s)((ws_ns ws, ws_name ws) \<mapsto> st) \<and>
     wst_state st = phase \<and> wst_podName st = pod \<and> wst_observedGeneration st = m_generation (ws_meta ws) \<and>
     wst_endpoint st = SSHUser ws @ ''@'' @ resolveGatewayHost cl env s \<and>
     wst_conditions st = setConditions (we_setCond env) (m_generation (ws_meta ws)) (wst_conditions (ws_status ws)) conds \<and>
     wv_secrets v s' = wv_secrets v s \<and> wv_children v s' = wv_children v s"
  using assms by (auto simp: ws_patchStatus_def Let_def status_laws_def split: prod.splits option.splits)

lemma ws_patchStatus_no_panic: "fst (ws_patchStatus cl env ws phase pod conds s) \<noteq> Some Panicked"
  by (auto simp: ws_patchStatus_def Let_def split: prod.splits option.splits)

lemmas marks = markImageNotFound_def markStorageUnset_def ws_markDegraded_def markObserved_def

lemma mark_no_panic:
  "fst (markImageNotFound cl env ws s) \<noteq> Some Panicked" "fst (markStorageUnset cl env ws s) \<noteq> Some Panicked"
  "fst (ws_markDegraded cl env ws e s) \<noteq> Some Panicked" "fst (markObserved cl env ws n s) \<noteq> Some Panicked"
  by (simp_all add: marks Let_def ws_patchStatus_no_panic split: prod.splits)

lemma errList_no_panic: "fst r \<noteq> Some Panicked \<Longrightarrow> Panicked \<notin> set (fst (errList r))"
  by (auto simp: errList_def split: prod.splits option.splits)

lemma ws_degraded_no_panic: "e \<noteq> Panicked \<Longrightarrow> Panicked \<notin> set (fst (ws_degraded cl env ws e s))"
  using mark_no_panic(3) [of cl env ws e s] by (auto simp: ws_degraded_def split: prod.splits option.splits)

lemma ws_degraded_errs: "fst (ws_degraded cl env ws e s) \<noteq> []"
  by (auto simp: ws_degraded_def split: prod.splits option.splits)

lemma decryptKeys_no_panic: "decryptKeys cr k src acc \<noteq> Inl Panicked"
  by (induction src arbitrary: acc) (auto split: option.splits sum.splits)

lemma ensure_no_panic: "fst (ensureGitSSHRuntimeSecret cl env ns s) \<noteq> Inl Panicked"
  using decryptKeys_no_panic
  by (auto simp: ensureGitSSHRuntimeSecret_def Let_def split: sum.splits prod.splits option.splits)

lemma applyWorkload_no_panic:
  "ws_storage (ws_spec ws) \<noteq> None \<Longrightarrow> fst (applyWorkload cl ws img ref s) \<noteq> Some Panicked"
  by (auto simp: applyWorkload_def BuildStatefulSet_def Let_def split: prod.splits option.splits)

text \<open>The decrypted data, entry by entry.\<close>

definition decrypted :: "'b crypto \<Rightarrow> string \<Rightarrow> string gomap \<Rightarrow> string \<Rightarrow> string option" where
  "decrypted cr masterKey src key =
     (if HasPrefix key GitSSHKeyDataPrefix then
        (case map_of src key of None \<Rightarrow> None
         | Some ct \<Rightarrow> (case DecryptGitSSHKey cr masterKey ct of Inr p \<Rightarrow> Some p | Inl _ \<Rightarrow> None))
      else None)"

lemma decryptKeys_map:
  assumes "decryptKeys cr k src acc = Inr data" and "distinct (map fst src)"
  shows "map_of data = map_of acc ++ decrypted cr k src"
  using assms
proof (induction src arbitrary: acc)
  case Nil
  have "decrypted cr k [] = Map.empty" by (rule ext) (simp add: decrypted_def)
  with Nil show ?case by simp
next
  case (Cons e src)
  obtain key ct where e: "e = (key, ct)" by force
  with Cons.prems(2) have notin: "map_of src key = None" by (simp add: map_of_eq_None_iff)
  show ?case
  proof (cases "HasPrefix key GitSSHKeyDataPrefix")
    case False
    with Cons.prems have "decryptKeys cr k src acc = Inr data" by (simp add: e CutPrefix_def)
    moreover have "decrypted cr k (e # src) = decrypted cr k src"
      using False by (intro ext) (auto simp: decrypted_def e)
    ultimately show ?thesis using Cons by simp
  next
    case True
    with Cons.prems obtain p where p: "DecryptGitSSHKey cr k ct = Inr p"
      and run: "decryptKeys cr k src (AList.update key p acc) = Inr data"
      by (auto simp: e CutPrefix_def split: sum.splits)
    have "decrypted cr k (e # src) = (decrypted cr k src)(key \<mapsto> p)"
      using True p by (intro ext) (auto simp: decrypted_def e)
    moreover have "decrypted cr k src key = None" by (simp add: decrypted_def notin)
    ultimately show ?thesis using Cons.IH [OF run] Cons.prems(2)
      by (auto simp: update_conv' map_add_def fun_eq_iff split: option.splits)
  qed
qed

lemma decryptKeys_distinct:
  "decryptKeys cr k src acc = Inr data \<Longrightarrow> distinct (map fst acc) \<Longrightarrow> distinct (map fst data)"
  by (induction src arbitrary: acc) (fastforce split: option.splits sum.splits intro: distinct_update)+

lemma mapsEqual_map_of:
  assumes "mapsEqual a b" "distinct (map fst a)" "distinct (map fst b)"
  shows "map_of a = map_of b"
proof -
  have sub: "map_of a \<subseteq>\<^sub>m map_of b"
    using assms(1) map_of_SomeD [of a] by (fastforce simp: mapsEqual_def list_all_iff map_le_def)
  then have "fst ` set a \<subseteq> fst ` set b" by (metis dom_map_of_conv_image_fst map_le_implies_dom_le)
  moreover have "card (fst ` set a) = card (fst ` set b)"
    using assms by (metis distinct_card length_map list.set_map mapsEqual_def)
  ultimately have "fst ` set a = fst ` set b" by (simp add: card_subset_eq)
  then have "dom (map_of a) = dom (map_of b)" by (simp add: dom_map_of_conv_image_fst)
  with sub show ?thesis by (metis map_le_antisym map_le_def)
qed

lemma ensure_off:
  assumes l: "secret_laws cl v" and "wv_secrets v s (ns, GitSSHKeysSecretName) = None"
    and "ensureGitSSHRuntimeSecret cl env ns s = (Inr ref, s')"
  shows "ref = None \<and> (wv_secrets v s' (ns, GitSSHKeysRuntimeSecretName) = None \<or>
     (\<exists>e. wc_getSecret cl ns GitSSHKeysRuntimeSecretName s = Inl e \<and> e \<noteq> NotFound)) \<and>
     wv_status v s' = wv_status v s \<and> wv_children v s' = wv_children v s"
proof -
  let ?rt = "GitSSHKeysRuntimeSecretName"
  from assms(2) l obtain e where src: "wc_getSecret cl ns GitSSHKeysSecretName s = Inl e"
    unfolding secret_laws_def by (metis option.distinct(1) sum.exhaust)
  show ?thesis
  proof (cases "wc_getSecret cl ns ?rt s")
    case (Inl err)
    with src assms(3) have "ref = None" "s' = s"
      by (auto simp: ensureGitSSHRuntimeSecret_def split: if_splits)
    moreover have "err = NotFound \<Longrightarrow> wv_secrets v s (ns, ?rt) = None"
      using l Inl unfolding secret_laws_def by metis
    ultimately show ?thesis using Inl by auto
  next
    case (Inr d)
    obtain r t where del: "wc_deleteSecret cl ns ?rt s = (r, t)" by fastforce
    have "secret_write v (ns, ?rt) None s (r, t)" using l del unfolding secret_laws_def by metis
    moreover have "r = Some NotFound \<Longrightarrow> wv_secrets v s (ns, ?rt) = None"
      using l del unfolding secret_laws_def by metis
    moreover have "ref = None" "s' = t" "r = None \<or> r = Some NotFound"
      using src Inr del assms(3)
      by (auto simp: ensureGitSSHRuntimeSecret_def split: if_splits option.splits elim: IsNotFound.elims)
    ultimately show ?thesis unfolding secret_write_def same_view_def by (cases r) simp_all
  qed
qed

lemma ensure_on:
  assumes l: "secret_laws cl v" and src: "wv_secrets v s (ns, GitSSHKeysSecretName) = Some src"
    and run: "ensureGitSSHRuntimeSecret cl env ns s = (Inr ref, s')"
  shows "\<exists>mk d. wc_getSecret cl (we_GitSSHEncryptionKeyNamespace env) GitSSHEncryptionKeySecretName s = Inr mk \<and>
     ref = Some GitSSHKeysRuntimeSecretName \<and> wv_secrets v s' (ns, GitSSHKeysRuntimeSecretName) = Some d \<and>
     map_of d = (decrypted (we_crypto env) (case map_of mk GitSSHEncryptionKeySecretDataKey of None \<Rightarrow> '''' | Some k \<Rightarrow> k) src)
       (''config'' \<mapsto> GitSSHConfig (GitSSHHostsFromData src)) \<and>
     wv_status v s' = wv_status v s \<and> wv_children v s' = wv_children v s"
proof -
  let ?rt = "GitSSHKeysRuntimeSecretName" and ?cfg = "GitSSHConfig (GitSSHHostsFromData src)"
  have get: "wc_getSecret cl ns n s = Inr d \<Longrightarrow> wv_secrets v s (ns, n) = Some d \<and> distinct (map fst d)" for n d
    using l unfolding secret_laws_def by metis
  have "wc_getSecret cl ns GitSSHKeysSecretName s \<noteq> Inl NotFound"
    using l src unfolding secret_laws_def by (metis option.distinct(1))
  with run have s: "wc_getSecret cl ns GitSSHKeysSecretName s = Inr src" "distinct (map fst src)"
    using get [of GitSSHKeysSecretName] src
    by (auto simp: ensureGitSSHRuntimeSecret_def split: sum.splits if_splits elim: IsNotFound.elims)
  from run s(1) obtain mk data where
    mk: "wc_getSecret cl (we_GitSSHEncryptionKeyNamespace env) GitSSHEncryptionKeySecretName s = Inr mk" and
    dec: "decryptKeys (we_crypto env) (case map_of mk GitSSHEncryptionKeySecretDataKey of None \<Rightarrow> '''' | Some k \<Rightarrow> k) src [] = Inr data"
    by (auto simp: ensureGitSSHRuntimeSecret_def Let_def split: sum.splits)
  let ?d = "AList.update ''config'' ?cfg data"
  have m: "map_of ?d = (map_of data)(''config'' \<mapsto> ?cfg)" by (simp add: update_conv')
  have dd: "distinct (map fst ?d)" using decryptKeys_distinct [OF dec] by (simp add: distinct_update)
  note R = run [unfolded ensureGitSSHRuntimeSecret_def s(1) sum.case mk Let_def dec]
  have "\<exists>d. wv_secrets v s' (ns, ?rt) = Some d \<and> map_of d = map_of ?d \<and> ref = Some ?rt \<and>
     wv_status v s' = wv_status v s \<and> wv_children v s' = wv_children v s"
  proof (cases "wc_getSecret cl ns ?rt s")
    case (Inl e)
    obtain r t where c: "wc_createSecret cl ns ?rt ?d s = (r, t)" by fastforce
    have "secret_write v (ns, ?rt) (Some ?d) s (r, t)" using l c unfolding secret_laws_def by metis
    moreover from R Inl c have "r = None" "t = s'" "ref = Some ?rt" by (auto split: if_splits option.splits)
    ultimately show ?thesis by (auto simp: secret_write_def)
  next
    case (Inr ex)
    show ?thesis
    proof (cases "mapsEqual ex ?d")
      case True
      with R Inr get [OF Inr] mapsEqual_map_of [OF True _ dd] show ?thesis by auto
    next
      case False
      obtain r t where c: "wc_patchSecret cl ns ?rt ?d s = (r, t)" by fastforce
      have "secret_write v (ns, ?rt) (Some ?d) s (r, t)" using l c unfolding secret_laws_def by metis
      moreover from R Inr False c have "r = None" "t = s'" "ref = Some ?rt" by (auto split: option.splits)
      ultimately show ?thesis by (auto simp: secret_write_def)
    qed
  qed
  with mk show ?thesis using decryptKeys_map [OF dec s(2)] unfolding m by auto
qed

lemma applyOwned_frame:
  assumes "child_laws cl v rel" and "applyOwned (wc_applier cl) own d s = (r, s')"
  shows "wv_secrets v s' = wv_secrets v s \<and> wv_status v s' = wv_status v s"
  using assms by (auto simp: applyOwned_def child_laws_def child_laws_axioms_def split: sum.splits prod.splits option.splits)

lemma applyAll_keeps:
  assumes "child_laws cl v rel" and "applyAll (wc_applier cl) own ds s = (r, s')"
  shows "wv_secrets v s' = wv_secrets v s \<and> wv_status v s' = wv_status v s"
  using assms(2)
proof (induction ds arbitrary: s)
  case (Cons d ds)
  obtain e t where t: "applyOwned (wc_applier cl) own d s = (e, t)" by fastforce
  from applyOwned_frame [OF assms(1) t] Cons t show ?case by (cases e) auto
qed simp

lemma childKey_build:
  "childKey (ServiceChild (BuildService ws)) = (False, ws_ns ws, ws_name ws)"
  "BuildStatefulSet ws img ref = Some ss \<Longrightarrow> childKey (StatefulSetChild ss) = (True, ws_ns ws, ws_name ws)"
  by (auto simp: BuildService_def meta0_def ServiceName_def BuildStatefulSet_def Let_def split: option.splits)

lemma applyWorkload_ok:
  assumes l: "child_laws cl v rel" and run: "applyWorkload cl ws img ref s = (None, s')"
  shows "\<exists>ss x y. BuildStatefulSet ws img ref = Some ss \<and>
     wv_children v s' (False, ws_ns ws, ws_name ws) = Some x \<and> rel (ServiceChild (BuildService ws)) x \<and>
     wv_children v s' (True, ws_ns ws, ws_name ws) = Some y \<and> rel (StatefulSetChild ss) y \<and>
     wv_secrets v s' = wv_secrets v s \<and> wv_status v s' = wv_status v s"
proof -
  let ?svc = "ServiceChild (BuildService ws)"
  from run obtain ss where ss: "BuildStatefulSet ws img ref = Some ss"
    and all: "applyAll (wc_applier cl) ws [?svc, StatefulSetChild ss] s = (None, s')"
    by (auto simp: applyWorkload_def split: option.splits prod.splits)
  note k = childKey_build(1) [of ws] childKey_build(2) [OF ss]
  have ap: "applier_laws (wc_applier cl) (wv_children v) childKey rel" using l by (simp add: child_laws_def child_laws_axioms_def)
  from applier_laws.applyAll_ok [OF ap all, of "(False, ws_ns ws, ws_name ws)"] applier_laws.applyAll_ok [OF ap all, of "(True, ws_ns ws, ws_name ws)"]
  show ?thesis using ss k applyAll_keeps [OF l all] by auto
qed

text \<open>The stages of a reconcile that found its Workspace, by what it returned.\<close>

lemma ws_Reconcile_ok:
  fixes cl :: "('q, 's) ws_client"
  assumes "wc_getWorkspace cl ns name s = Inr ws" and "m_deletion (ws_meta ws) = None"
    and "ws_Reconcile cl env ns name s = ([], s')"
  obtains (no_image) "wc_getImage cl (ws_imageRef (ws_spec ws)) s = Inl NotFound" "markImageNotFound cl env ws s = (None, s')"
  | (no_storage) img where "wc_getImage cl (ws_imageRef (ws_spec ws)) s = Inr img" "ws_storage (ws_spec ws) = None"
      "markStorageUnset cl env ws s = (None, s')"
  | (observed) img ref s1 s2 ready where "wc_getImage cl (ws_imageRef (ws_spec ws)) s = Inr img" "ws_storage (ws_spec ws) \<noteq> None"
      "ensureGitSSHRuntimeSecret cl env (ws_ns ws) s = (Inr ref, s1)" "applyWorkload cl ws img ref s1 = (None, s2)"
      "wc_getStatefulSet cl (ws_ns ws) (ws_name ws) s2 = Inr ready \<or>
        wc_getStatefulSet cl (ws_ns ws) (ws_name ws) s2 = Inl NotFound \<and> ready = 0"
      "markObserved cl env ws ready s2 = (None, s')"
proof -
  have e: "errList r = ([], t) \<Longrightarrow> r = (None, t)" for r :: "wserror option \<times> 's" and t
    by (auto simp: errList_def split: prod.splits option.splits)
  have d: "ws_degraded cl env ws x t \<noteq> ([], u)" for x t u
    using ws_degraded_errs [of cl env ws x t] by (metis fst_conv)
  show ?thesis
  proof (cases "wc_getImage cl (ws_imageRef (ws_spec ws)) s")
    case (Inl err)
    with assms have "err = NotFound" "errList (markImageNotFound cl env ws s) = ([], s')"
      by (auto simp: ws_Reconcile_def split: if_splits elim: IsNotFound.elims)
    with Inl no_image e show ?thesis by blast
  next
    case (Inr img)
    show ?thesis
    proof (cases "ws_storage (ws_spec ws) = None")
      case True
      with assms Inr have "errList (markStorageUnset cl env ws s) = ([], s')" by (simp add: ws_Reconcile_def)
      with Inr True no_storage e show ?thesis by blast
    next
      case False
      obtain r s1 where en: "ensureGitSSHRuntimeSecret cl env (ws_ns ws) s = (r, s1)" by fastforce
      with assms Inr False d obtain ref where r: "r = Inr ref" by (cases r) (auto simp: ws_Reconcile_def)
      obtain q s2 where ap: "applyWorkload cl ws img ref s1 = (q, s2)" by fastforce
      with assms Inr False en r d have q: "q = None"
        by (cases q) (auto simp: ws_Reconcile_def split: if_splits)
      show ?thesis
      proof (cases "wc_getStatefulSet cl (ws_ns ws) (ws_name ws) s2")
        case inl: (Inl err)
        with assms Inr False en r ap q have "err = NotFound" "errList (markObserved cl env ws 0 s2) = ([], s')"
          by (auto simp: ws_Reconcile_def split: if_splits elim: IsNotFound.elims)
        with observed [of img ref s1 s2 0] Inr False en r ap q inl e show ?thesis by blast
      next
        case inr: (Inr n)
        with assms Inr False en r ap q have "errList (markObserved cl env ws n s2) = ([], s')"
          by (auto simp: ws_Reconcile_def)
        with observed [of img ref s1 s2 n] Inr False en r ap q inr e show ?thesis by blast
      qed
    qed
  qed
qed

lemma markObserved_cases:
  obtains (suspended) "\<not> ws_running (ws_spec ws)"
      "markObserved cl env ws n = ws_patchStatus cl env ws WorkspaceStateSuspended ''''
        [mkCond ''Ready'' False ''Suspended'' ''spec.running is false; the home volume is retained'',
         mkCond ''ImageResolved'' True ''CatalogEntryFound'' (''WorkspaceImage '' @ goQuote (ws_imageRef (ws_spec ws)) @ '' resolved''),
         mkCond ''Degraded'' False ''WorkloadApplied'' ''no reconcile errors'']"
  | (starting) "ws_running (ws_spec ws)" "n \<le> 0"
      "markObserved cl env ws n = ws_patchStatus cl env ws WorkspaceStateStarting (PodName ws)
        [mkCond ''Ready'' False ''PodNotReady'' (''pod '' @ PodName ws @ '' is not ready yet''),
         mkCond ''ImageResolved'' True ''CatalogEntryFound'' (''WorkspaceImage '' @ goQuote (ws_imageRef (ws_spec ws)) @ '' resolved''),
         mkCond ''Degraded'' False ''WorkloadApplied'' ''no reconcile errors'']"
  | (running) "ws_running (ws_spec ws)" "n > 0"
      "markObserved cl env ws n = ws_patchStatus cl env ws WorkspaceStateRunning (PodName ws)
        [mkCond ''Ready'' True ''PodRunning'' (''pod '' @ PodName ws @ '' is ready''),
         mkCond ''ImageResolved'' True ''CatalogEntryFound'' (''WorkspaceImage '' @ goQuote (ws_imageRef (ws_spec ws)) @ '' resolved''),
         mkCond ''Degraded'' False ''WorkloadApplied'' ''no reconcile errors'']"
proof (cases "ws_running (ws_spec ws)")
  case False
  with suspended show ?thesis by (simp add: markObserved_def Let_def)
next
  case True
  with starting running show ?thesis by (cases "n > 0") (simp_all add: markObserved_def Let_def)
qed

lemma loadBalancerHost_in:
  assumes "loadBalancerHost svc \<noteq> []"
  shows "if \<exists>i\<in>set svc. fst i \<noteq> [] then loadBalancerHost svc \<in> fst ` set svc else loadBalancerHost svc \<in> snd ` set svc"
proof (cases "find (\<lambda>i. fst i \<noteq> []) svc")
  case None
  with assms obtain i where i: "find (\<lambda>i. snd i \<noteq> []) svc = Some i"
    by (auto simp: loadBalancerHost_def split: option.splits)
  with None have "loadBalancerHost svc = snd i" by (simp add: loadBalancerHost_def)
  moreover from None have "\<not> (\<exists>i\<in>set svc. fst i \<noteq> [])" by (auto simp: find_None_iff)
  ultimately show ?thesis using find_SomeE [OF i] by (metis imageI)
next
  case (Some i)
  from find_SomeE [OF Some] Some show ?thesis by (auto simp: loadBalancerHost_def)
qed

section \<open>Properties\<close>

text \<open>
  The reconciler never reaches the builder with a nil storage: whatever the cluster answers, no
  run ends in the panic of that dereference.
\<close>

theorem reconcile_never_panics: "Panicked \<notin> set (fst (ws_Reconcile cl env ns name s))"
proof -
  have e: "ensureGitSSHRuntimeSecret cl env n t \<noteq> (Inl Panicked, u)" for n t u
    using ensure_no_panic [of cl env n t] by auto
  have a: "ws_storage (ws_spec ws) \<noteq> None \<Longrightarrow> applyWorkload cl ws img ref t \<noteq> (Some Panicked, u)" for ws img ref t u
    using applyWorkload_no_panic [of ws cl img ref t] by auto
  have d: "Panicked \<in> set (fst (ws_degraded cl env ws x t)) \<longleftrightarrow> x = Panicked" for ws x t
    using mark_no_panic(3) [of cl env ws x t] by (auto simp: ws_degraded_def split: prod.splits option.splits)
  show ?thesis
    unfolding ws_Reconcile_def
    by (auto split: sum.splits prod.splits option.splits simp: a e d errList_no_panic mark_no_panic)
qed

text \<open>
  The report that a Workspace is to have: its state, the pod it names, and the conditions that are set, each with its status and reason.
  Conditions of other types stay as they were, so a Workspace that loses its image keeps the Degraded condition of an
  earlier run.
\<close>

definition expected_report :: "'q workspace \<Rightarrow> bool \<Rightarrow> int \<Rightarrow> string \<times> string \<times> (string \<times> bool \<times> string) list" where
  "expected_report ws image_there ready =
     (let done = [(''ImageResolved'', True, ''CatalogEntryFound''), (''Degraded'', False, ''WorkloadApplied'')];
          pod = ws_name ws @ ''-0'' in
      if \<not> image_there then (''Pending'', '''', [(''ImageResolved'', False, ''ImageNotFound''), (''Ready'', False, ''ImageNotFound'')])
      else if ws_storage (ws_spec ws) = None then (''Failed'', '''', [(''Ready'', False, ''StorageNotDefaulted'')])
      else if \<not> ws_running (ws_spec ws) then (''Suspended'', '''', (''Ready'', False, ''Suspended'') # done)
      else if ready > 0 then (''Running'', pod, (''Ready'', True, ''PodRunning'') # done)
      else (''Starting'', pod, (''Ready'', False, ''PodNotReady'') # done))"

definition conditions_set :: "int \<Rightarrow> condition list \<Rightarrow> (string \<times> bool \<times> string) list \<Rightarrow> condition list \<Rightarrow> bool" where
  "conditions_set g old conds new \<longleftrightarrow>
     (\<forall>t. case map_of conds t of None \<Rightarrow> findCond new t = findCond old t
        | Some (b, reason) \<Rightarrow> \<exists>c. findCond new t = Some c \<and> c_status c = b \<and> c_reason c = reason \<and> c_generation c = g)"

lemma conditions_set_all:
  assumes "setCond_law setCond" "conds = map (\<lambda>c. (c_type c, c_status c, c_reason c)) cs" "distinct (map c_type cs)"
  shows "conditions_set g old conds (setConditions setCond g old cs)"
  using assms(2,3)
proof (induction cs arbitrary: conds rule: rev_induct)
  case Nil
  then show ?case by (simp add: conditions_set_def findCond_setConditions_Nil)
next
  case (snoc c cs)
  let ?K = "map (\<lambda>c. (c_type c, c_status c, c_reason c)) cs"
  have f: "findCond (setConditions setCond g old (cs @ [c])) t =
      (if t = c_type c then Some (c\<lparr>c_generation := g\<rparr>) else findCond (setConditions setCond g old cs) t)" for t
    by (rule findCond_setConditions [OF assms(1)])
  have none: "map_of ?K (c_type c) = None" using snoc.prems(2) by (auto simp: map_of_eq_None_iff)
  have IH: "conditions_set g old ?K (setConditions setCond g old cs)" using snoc by simp
  show ?case
    unfolding conditions_set_def
  proof
    fix t
    show "case map_of conds t of None \<Rightarrow> findCond (setConditions setCond g old (cs @ [c])) t = findCond old t
        | Some (b, reason) \<Rightarrow> \<exists>d. findCond (setConditions setCond g old (cs @ [c])) t = Some d \<and> c_status d = b \<and> c_reason d = reason \<and> c_generation d = g"
    proof (cases "t = c_type c")
      case True
      then show ?thesis using none by (simp add: snoc.prems(1) map_add_def f)
    next
      case False
      then have "map_of conds t = map_of ?K t" by (simp add: snoc.prems(1) map_add_def split: option.split)
      then show ?thesis using IH [unfolded conditions_set_def, THEN spec, of t] False by (simp only: f if_False)
    qed
  qed
qed

text \<open>A report of the given shape is in the status when its write was accepted.\<close>

definition reported_as :: "('q, 's) ws_client \<Rightarrow> 'b ws_env \<Rightarrow> 'q workspace \<Rightarrow> 's \<Rightarrow> string \<times> string \<times> (string \<times> bool \<times> string) list \<Rightarrow> workspace_status \<Rightarrow> bool" where
  "reported_as cl env ws t report st \<longleftrightarrow>
     wst_state st = fst report \<and> wst_podName st = fst (snd report) \<and> wst_observedGeneration st = m_generation (ws_meta ws) \<and>
     wst_endpoint st = SSHUser ws @ ''@'' @ resolveGatewayHost cl env t \<and>
     conditions_set (m_generation (ws_meta ws)) (wst_conditions (ws_status ws)) (snd (snd report)) (wst_conditions st)"

lemma patched_status:
  assumes "status_laws cl v" and "setCond_law (we_setCond env)" and "ws_patchStatus cl env ws phase pod conds t = (None, s')"
    and "report = (phase, pod, map (\<lambda>c. (c_type c, c_status c, c_reason c)) conds)" and "distinct (map c_type conds)"
  shows "\<exists>st. wv_status v s' (ws_ns ws, ws_name ws) = Some st \<and> reported_as cl env ws t report st"
  using ws_patchStatus_ok [OF assms(1,3)] conditions_set_all [OF assms(2) _ assms(5)] assms(4) by (auto simp: reported_as_def)

definition readyReplicas :: "apierr + int \<Rightarrow> int" where
  "readyReplicas r = (case r of Inl _ \<Rightarrow> 0 | Inr n \<Rightarrow> n)"

text \<open>
  (C19) What a reconcile that returned no error has reported about a live Workspace, to each field: state, pod name, observed generation,
  endpoint, and every condition, as \<open>expected_report\<close> tells from three facts: whether the catalog has the image, what the spec says,
  and, when there is an image and a storage, how many replicas of the StatefulSet were ready after the workload was applied. The host of the endpoint
  is the gateway's at the moment of the report.
\<close>

theorem reported_state_exact:
  assumes l: "status_laws cl v" and c: "setCond_law (we_setCond env)"
    and ws: "wc_getWorkspace cl ns name s = Inr ws" "m_deletion (ws_meta ws) = None"
    and run: "ws_Reconcile cl env ns name s = ([], s')"
    and catalog: "found = wc_getImage cl (ws_imageRef (ws_spec ws)) s"
  shows "\<exists>t st. wv_status v s' (ws_ns ws, ws_name ws) = Some st \<and>
    reported_as cl env ws t (expected_report ws (found \<noteq> Inl NotFound) (readyReplicas (wc_getStatefulSet cl (ws_ns ws) (ws_name ws) t))) st \<and>
    (if found = Inl NotFound \<or> ws_storage (ws_spec ws) = None then t = s
     else \<exists>img ref s1. found = Inr img \<and> ensureGitSSHRuntimeSecret cl env (ws_ns ws) s = (Inr ref, s1) \<and> applyWorkload cl ws img ref s1 = (None, t))"
  using ws run
proof (cases rule: ws_Reconcile_ok)
  case no_image
  from patched_status [OF l c no_image(2) [unfolded markImageNotFound_def Let_def]] obtain st
    where "wv_status v s' (ws_ns ws, ws_name ws) = Some st" "reported_as cl env ws s (expected_report ws False n) st" for n
    by (force simp: expected_report_def Let_def mkCond_def WorkspaceStatePending_def)
  then show ?thesis using no_image(1) catalog by auto
next
  case (no_storage img)
  from patched_status [OF l c no_storage(3) [unfolded markStorageUnset_def]] obtain st
    where "wv_status v s' (ws_ns ws, ws_name ws) = Some st" "reported_as cl env ws s (expected_report ws True n) st" for n
    using no_storage(2) by (force simp: expected_report_def Let_def mkCond_def WorkspaceStateFailed_def)
  then show ?thesis using no_storage catalog by auto
next
  case (observed img ref s1 t ready)
  have ready: "readyReplicas (wc_getStatefulSet cl (ws_ns ws) (ws_name ws) t) = ready"
    using observed(5) by (auto simp: readyReplicas_def)
  from observed(2) obtain q where q: "ws_storage (ws_spec ws) = Some q" by blast
  have "\<exists>st. wv_status v s' (ws_ns ws, ws_name ws) = Some st \<and> reported_as cl env ws t (expected_report ws True ready) st"
    by (rule markObserved_cases [of ws cl env ready]; rule patched_status [OF l c], (use observed(6) in simp))
      (simp_all add: q expected_report_def Let_def mkCond_def PodName_def
        WorkspaceStateSuspended_def WorkspaceStateStarting_def WorkspaceStateRunning_def)
  then show ?thesis using observed(1-4) ready catalog by auto
qed

text \<open>
  (C20) What a successful reconcile of a Workspace with image and storage leaves in the cluster: its
  Service and its StatefulSet, built from the current spec, with the Git keys mounted exactly when
  the owner has a key Secret; then the mounted Secret holds, for every host with a key, the
  decryption of that key under the operator's master key, the rendered configuration, and nothing else.
\<close>

theorem reconcile_builds_workload:
  assumes sl: "secret_laws cl v" and l: "status_laws cl v" and cl: "child_laws cl v rel"
    and ws: "wc_getWorkspace cl ns name s = Inr ws" "m_deletion (ws_meta ws) = None"
    and img: "wc_getImage cl (ws_imageRef (ws_spec ws)) s = Inr img" and sto: "ws_storage (ws_spec ws) = Some q"
    and run: "ws_Reconcile cl env ns name s = ([], s')"
  shows "\<exists>ref ss x y. BuildStatefulSet ws img ref = Some ss \<and>
    wv_children v s' (False, ws_ns ws, ws_name ws) = Some x \<and> rel (ServiceChild (BuildService ws)) x \<and>
    wv_children v s' (True, ws_ns ws, ws_name ws) = Some y \<and> rel (StatefulSetChild ss) y \<and>
    (case wv_secrets v s (ws_ns ws, GitSSHKeysSecretName) of
       None \<Rightarrow> ref = None
     | Some src \<Rightarrow> ref = Some GitSSHKeysRuntimeSecretName \<and>
         (\<exists>mk d. wc_getSecret cl (we_GitSSHEncryptionKeyNamespace env) GitSSHEncryptionKeySecretName s = Inr mk \<and>
            wv_secrets v s' (ws_ns ws, GitSSHKeysRuntimeSecretName) = Some d \<and>
            map_of d = (decrypted (we_crypto env)
              (case map_of mk GitSSHEncryptionKeySecretDataKey of None \<Rightarrow> '''' | Some k \<Rightarrow> k) src)
                (''config'' \<mapsto> GitSSHConfig (GitSSHHostsFromData src))))"
  using ws run
proof (cases rule: ws_Reconcile_ok)
  case (observed img' ref s1 s2 ready)
  with img have [simp]: "img' = img" by simp
  have k: "wv_children v s' = wv_children v s2 \<and> wv_secrets v s' = wv_secrets v s2"
    using observed(6) by (cases rule: markObserved_cases [of ws cl env ready]) (auto dest: ws_patchStatus_ok [OF l])
  from applyWorkload_ok [OF cl observed(4)] obtain ss x y where w: "BuildStatefulSet ws img ref = Some ss"
    "wv_children v s2 (False, ws_ns ws, ws_name ws) = Some x" "rel (ServiceChild (BuildService ws)) x"
    "wv_children v s2 (True, ws_ns ws, ws_name ws) = Some y" "rel (StatefulSetChild ss) y"
    "wv_secrets v s2 = wv_secrets v s1" by auto
  show ?thesis
  proof (cases "wv_secrets v s (ws_ns ws, GitSSHKeysSecretName)")
    case None
    with ensure_off [OF sl None observed(3)] w k show ?thesis by auto
  next
    case (Some src)
    note E = ensure_on [OF sl Some observed(3)]
    show ?thesis
    proof (rule exI [of _ ref], rule exI [of _ ss], rule exI [of _ x], rule exI [of _ y], intro conjI)
    qed (use E Some w k in auto)
  qed
qed (use img sto in simp_all)

text \<open>
  A failure to prepare the keys or to apply a child is reported: when the status can be written,
  the Workspace is left \<^verbatim>\<open>Failed\<close> with Ready false and Degraded true, with the error as message, and no
  pod name.
\<close>

theorem reconcile_failure_reported:
  assumes l: "status_laws cl v" and c: "setCond_law (we_setCond env)"
    and ws: "wc_getWorkspace cl ns name s = Inr ws" "m_deletion (ws_meta ws) = None"
    and img: "wc_getImage cl (ws_imageRef (ws_spec ws)) s = Inr img" and sto: "ws_storage (ws_spec ws) = Some q"
    and stage: "ensureGitSSHRuntimeSecret cl env (ws_ns ws) s = (Inl err, s1) \<or>
      ensureGitSSHRuntimeSecret cl env (ws_ns ws) s = (Inr ref, s0) \<and> applyWorkload cl ws img ref s0 = (Some err, s1)"
    and run: "ws_Reconcile cl env ns name s = ([err], s')"
  shows "\<exists>st. wv_status v s' (ws_ns ws, ws_name ws) = Some st \<and> wst_state st = ''Failed'' \<and> wst_podName st = '''' \<and>
      map_option c_status (findCond (wst_conditions st) ''Ready'') = Some False \<and>
      map_option c_status (findCond (wst_conditions st) ''Degraded'') = Some True \<and>
      map_option c_message (findCond (wst_conditions st) ''Degraded'') = Some (we_errText env err)"
proof -
  have sc: "findCond (we_setCond env cs x) k = (if k = c_type x then Some x else findCond cs k)" for cs x k
    using c by (simp add: setCond_law_def)
  have np: "err \<noteq> Panicked"
    using stage ensure_no_panic [of cl env "ws_ns ws" s] applyWorkload_no_panic [of ws cl img ref s0] sto by auto
  from stage have "ws_Reconcile cl env ns name s = ws_degraded cl env ws err s1"
    by (rule disjE) (use ws img sto np in \<open>simp_all add: ws_Reconcile_def\<close>)
  with run have "ws_markDegraded cl env ws err s1 = (None, s')"
    by (auto simp: ws_degraded_def split: prod.splits option.splits)
  from ws_patchStatus_ok [OF l this [unfolded ws_markDegraded_def]] show ?thesis
    by (auto simp: setConditions_def sc mkCond_def WorkspaceStateFailed_def)
qed

text \<open>
  The Service comes first: when it cannot be applied, no child of the Workspace has changed, so
  there is never a StatefulSet update without its Service.
\<close>

theorem service_before_statefulset:
  assumes ch: "child_laws cl v rel"
    and svc: "applyOwned (wc_applier cl) ws (ServiceChild (BuildService ws)) s = (Some e, t)"
    and run: "applyWorkload cl ws img ref s = (r, s')"
  shows "r \<noteq> None \<and> wv_children v s' = wv_children v s"
proof -
  have "r \<noteq> None" "s' = t \<or> s' = s" using svc run by (auto simp: applyWorkload_def split: option.splits)
  moreover have "wv_children v t = wv_children v s"
    using ch applier_laws.applyOwned_err [OF _ svc, of "wv_children v" childKey rel] by (simp add: child_laws_def child_laws_axioms_def)
  ultimately show ?thesis by auto
qed

text \<open>
  The published host is never empty by accident: it is the configured host unless the gateway
  Service was named, read and has a load-balancer address, and then it is one of that Service's
  addresses, a hostname whenever any ingress has one.
\<close>

theorem gateway_host_choice:
  "resolveGatewayHost cl env s = we_GatewayHost env \<or>
   (\<exists>namespace name svc. we_GatewayService env = namespace @ ''/'' @ name \<and> wc_getService cl namespace name s = Inr svc \<and>
      resolveGatewayHost cl env s \<noteq> '''' \<and>
      (if \<exists>i\<in>set svc. fst i \<noteq> '''' then resolveGatewayHost cl env s \<in> fst ` set svc
       else resolveGatewayHost cl env s \<in> snd ` set svc))"
proof (cases "resolveGatewayHost cl env s = we_GatewayHost env")
  case False
  then obtain namespace name svc where c: "Cut (we_GatewayService env) (CHR ''/'') = Some (namespace, name)"
    and g: "wc_getService cl namespace name s = Inr svc" and h: "loadBalancerHost svc \<noteq> ''''"
    and r: "resolveGatewayHost cl env s = loadBalancerHost svc"
    by (auto simp: resolveGatewayHost_def Let_def split: if_splits option.splits sum.splits)
  from Cut_Some [OF c] have n: "we_GatewayService env = namespace @ ''/'' @ name" by simp
  show ?thesis
    unfolding r
  proof (rule disjI2, rule exI [of _ namespace], rule exI [of _ name], rule exI [of _ svc], intro conjI)
  qed (rule n g h loadBalancerHost_in [OF h])+
qed simp

section \<open>Witnesses\<close>

text \<open>A cluster in memory that holds one Workspace and its image, and answers every call.\<close>

record 'q ws_mem =
  wm_secrets :: "objkey \<rightharpoonup> string gomap"
  wm_status :: "objkey \<rightharpoonup> workspace_status"
  wm_children :: "bool \<times> string \<times> string \<rightharpoonup> 'q wschild"

definition mem_ws_client :: "'q workspace \<Rightarrow> workspaceimage option \<Rightarrow> int \<Rightarrow> bool \<Rightarrow> ('q, 'q ws_mem) ws_client" where
  "mem_ws_client ws img ready svcFails =
     \<lparr>wc_getWorkspace = (\<lambda>ns n s. Inr ws),
      wc_getImage = (\<lambda>n s. case img of None \<Rightarrow> Inl NotFound | Some i \<Rightarrow> Inr i),
      wc_getSecret = (\<lambda>ns n s. case wm_secrets s (ns, n) of None \<Rightarrow> Inl NotFound
         | Some d \<Rightarrow> if distinct (map fst d) then Inr d else Inl (ApiErr ''malformed'')),
      wc_createSecret = (\<lambda>ns n d s. (None, s\<lparr>wm_secrets := (wm_secrets s)((ns, n) \<mapsto> d)\<rparr>)),
      wc_patchSecret = (\<lambda>ns n d s. (None, s\<lparr>wm_secrets := (wm_secrets s)((ns, n) \<mapsto> d)\<rparr>)),
      wc_deleteSecret = (\<lambda>ns n s. (None, s\<lparr>wm_secrets := (wm_secrets s)((ns, n) := None)\<rparr>)),
      wc_applier = \<lparr>ap_setControllerReference = (\<lambda>own d. Inr d), ap_toUnstructured = Inr,
        ap_apply = (\<lambda>d s. if svcFails then (Some Conflict, s)
          else (None, s\<lparr>wm_children := (wm_children s)(childKey d \<mapsto> d)\<rparr>))\<rparr>,
      wc_getStatefulSet = (\<lambda>ns n s. Inr ready),
      wc_getService = (\<lambda>ns n s. Inl NotFound),
      wc_patchStatus = (\<lambda>w s. (None, s\<lparr>wm_status := (wm_status s)((ws_ns w, ws_name w) \<mapsto> ws_status w)\<rparr>)),
      wc_listWorkspaces = (\<lambda>ns s. Inr [ws])\<rparr>"

definition mem_ws_view :: "('q, 'q ws_mem) ws_view" where
  "mem_ws_view = \<lparr>wv_secrets = wm_secrets, wv_status = wm_status, wv_children = wm_children\<rparr>"

lemma mem_secret_laws: "secret_laws (mem_ws_client ws img r b) mem_ws_view"
  unfolding secret_laws_def secret_write_def
  by (auto simp: mem_ws_client_def mem_ws_view_def split: option.splits if_splits)

lemma mem_status_laws: "status_laws (mem_ws_client ws img r b) mem_ws_view"
  unfolding status_laws_def by (auto simp: mem_ws_client_def mem_ws_view_def)

lemma mem_child_laws: "child_laws (mem_ws_client ws img r b) mem_ws_view (=)"
  unfolding child_laws_def child_laws_axioms_def applier_laws_def
  by (auto simp: mem_ws_client_def mem_ws_view_def split: if_splits)

interpretation mem_ws_secrets: secret_laws "mem_ws_client ws img r b" mem_ws_view for ws img r b
  by (rule mem_secret_laws)

interpretation mem_ws_status: status_laws "mem_ws_client ws img r b" mem_ws_view for ws img r b
  by (rule mem_status_laws)

interpretation mem_ws_children: child_laws "mem_ws_client ws img r b" mem_ws_view "(=)" for ws img r b
  by (rule mem_child_laws)

definition demo_ws_env :: "unit ws_env" where
  "demo_ws_env = \<lparr>we_GatewayHost = ''gw.local'', we_GatewayService = '''', we_GitSSHEncryptionKeyNamespace = ''dwpk-system'',
     we_crypto = demo_crypto, we_setCond = mem_setCond, we_errText = (\<lambda>_. ''conflict'')\<rparr>"

definition demo_mem :: "int ws_mem" where
  "demo_mem = \<lparr>wm_secrets = [(''dwpk-ana'', ''dwpk-git-ssh-keys'') \<mapsto> [(''key-github.com'', ''rrterces''), (''meta-github.com'', ''{}'')],
       (''dwpk-system'', ''dwpk-git-ssh-encryption-key'') \<mapsto> [(''key'', ''abc'')]],
     wm_status = Map.empty, wm_children = Map.empty\<rparr>"

abbreviation demo_cl :: "int \<Rightarrow> bool \<Rightarrow> (int, int ws_mem) ws_client" where
  "demo_cl \<equiv> mem_ws_client (demo_ws ''w'' 100) (Some (demo_img ''go''))"

abbreviation demo_ws_run :: "int \<Rightarrow> bool \<Rightarrow> wserror list \<times> int ws_mem" where
  "demo_ws_run ready b \<equiv> ws_Reconcile (demo_cl ready b) demo_ws_env ''dwpk-ana'' ''w'' demo_mem"

lemma demo_ws_run_ok: "demo_ws_run 1 False = ([], snd (demo_ws_run 1 False))"
proof -
  have "fst (demo_ws_run 1 False) = []" by code_simp
  then show ?thesis by (metis prod.collapse)
qed

lemma demo_ws_reads [simp]:
  "wc_getWorkspace (demo_cl r b) ns n s = Inr (demo_ws ''w'' 100)" "wc_getImage (demo_cl r b) i s = Inr (demo_img ''go'')"
  "m_deletion (ws_meta (demo_ws ''w'' 100)) = None" "ws_storage (ws_spec (demo_ws ''w'' 100)) = Some 10"
  "ws_running (ws_spec (demo_ws ''w'' 100))" "ws_ns (demo_ws ''w'' 100) = ''dwpk-ana''" "ws_name (demo_ws ''w'' 100) = ''w''"
  by (simp_all add: mem_ws_client_def demo_ws_def meta0_def)

lemma demo_setCond: "setCond_law (we_setCond demo_ws_env)"
  by (simp add: demo_ws_env_def mem_setCond_law)

theorem reported_state_exact_witness:
  "\<exists>st c. wm_status (snd (demo_ws_run 1 False)) (''dwpk-ana'', ''w'') = Some st \<and> wst_state st = ''Running'' \<and>
     wst_podName st = ''w-0'' \<and> findCond (wst_conditions st) ''Ready'' = Some c \<and> c_status c \<and> c_reason c = ''PodRunning''"
proof -
  have r: "wc_getStatefulSet (demo_cl 1 False) n m t = Inr 1" for n m t by (simp add: mem_ws_client_def)
  from reported_state_exact [OF mem_status_laws demo_setCond demo_ws_reads(1,3) demo_ws_run_ok refl] obtain t st where
    st: "wm_status (snd (demo_ws_run 1 False)) (''dwpk-ana'', ''w'') = Some st"
      "reported_as (demo_cl 1 False) demo_ws_env (demo_ws ''w'' 100) t (expected_report (demo_ws ''w'' 100) True 1) st"
    by (auto simp: mem_ws_view_def r readyReplicas_def)
  from st(2) have "conditions_set (m_generation (ws_meta (demo_ws ''w'' 100))) (wst_conditions (ws_status (demo_ws ''w'' 100)))
      [(''Ready'', True, ''PodRunning''), (''ImageResolved'', True, ''CatalogEntryFound''), (''Degraded'', False, ''WorkloadApplied'')] (wst_conditions st)"
    "wst_state st = ''Running''" "wst_podName st = ''w-0''"
    by (simp_all add: reported_as_def expected_report_def)
  with st(1) show ?thesis by (fastforce simp: conditions_set_def dest: spec [of _ "''Ready''"])
qed

theorem reconcile_builds_workload_witness:
  "\<exists>d. wm_secrets (snd (demo_ws_run 1 False)) (''dwpk-ana'', ''dwpk-git-ssh-keys-runtime'') = Some d \<and>
     map_of d ''key-github.com'' = Some ''secret'' \<and> map_of d ''meta-github.com'' = None"
proof -
  let ?src = "[(''key-github.com'', ''rrterces''), (''meta-github.com'', ''{}'')]"
  have "wv_secrets mem_ws_view demo_mem (''dwpk-ana'', GitSSHKeysSecretName) = Some ?src"
    by (simp add: mem_ws_view_def demo_mem_def GitSSHKeysSecretName_def)
  moreover have "wc_getSecret (demo_cl 1 False) (we_GitSSHEncryptionKeyNamespace demo_ws_env) GitSSHEncryptionKeySecretName demo_mem =
      Inr [(''key'', ''abc'')]"
    by (simp add: mem_ws_client_def demo_mem_def demo_ws_env_def GitSSHEncryptionKeySecretName_def)
  moreover have "decrypted (we_crypto demo_ws_env) ''abc'' ?src ''key-github.com'' = Some ''secret''"
    "decrypted (we_crypto demo_ws_env) ''abc'' ?src ''meta-github.com'' = None"
    by code_simp+
  ultimately show ?thesis
    using reconcile_builds_workload [OF mem_secret_laws mem_status_laws mem_child_laws _ _ _ _ demo_ws_run_ok,
        of "demo_ws ''w'' 100" "demo_img ''go''" 10]
    by (auto simp: mem_ws_view_def GitSSHKeysRuntimeSecretName_def GitSSHEncryptionKeySecretDataKey_def)
qed

theorem service_before_statefulset_witness:
  "fst (applyWorkload (demo_cl 1 True) (demo_ws ''w'' 100) (demo_img ''go'') None demo_mem) \<noteq> None \<and>
   wm_children (snd (applyWorkload (demo_cl 1 True) (demo_ws ''w'' 100) (demo_img ''go'') None demo_mem)) = Map.empty"
proof -
  have "applyOwned (wc_applier (demo_cl 1 True)) (demo_ws ''w'' 100) (ServiceChild (BuildService (demo_ws ''w'' 100))) demo_mem =
      (Some (ApplyErr Conflict), demo_mem)"
    by (simp add: applyOwned_def mem_ws_client_def)
  from service_before_statefulset [OF mem_child_laws this prod.collapse [symmetric], of "demo_img ''go''" None] show ?thesis
    by (auto simp: mem_ws_view_def demo_mem_def)
qed

theorem reconcile_failure_reported_witness:
  "\<exists>st. wm_status (snd (demo_ws_run 1 True)) (''dwpk-ana'', ''w'') = Some st \<and> wst_state st = ''Failed'' \<and>
      map_option c_message (findCond (wst_conditions st) ''Degraded'') = Some ''conflict''"
proof -
  let ?e = "ensureGitSSHRuntimeSecret (demo_cl 1 True) demo_ws_env ''dwpk-ana'' demo_mem"
  let ?a = "applyWorkload (demo_cl 1 True) (demo_ws ''w'' 100) (demo_img ''go'') (Some GitSSHKeysRuntimeSecretName) (snd ?e)"
  have "fst ?e = Inr (Some GitSSHKeysRuntimeSecretName)" "fst ?a = Some (WorkloadErr (ApplyErr Conflict))"
    "fst (demo_ws_run 1 True) = [WorkloadErr (ApplyErr Conflict)]"
    by code_simp+
  then have "?e = (Inr (Some GitSSHKeysRuntimeSecretName), snd ?e)" "?a = (Some (WorkloadErr (ApplyErr Conflict)), snd ?a)"
    "demo_ws_run 1 True = ([WorkloadErr (ApplyErr Conflict)], snd (demo_ws_run 1 True))"
    by (metis prod.collapse)+
  with reconcile_failure_reported [OF mem_status_laws demo_setCond, of "demo_ws ''w'' 100" "Some (demo_img ''go'')" 1 True
      "''dwpk-ana''" "''w''" demo_mem "demo_ws ''w'' 100" "demo_img ''go''" 10 "WorkloadErr (ApplyErr Conflict)" "snd ?a"
      "Some GitSSHKeysRuntimeSecretName" "snd ?e" "snd (demo_ws_run 1 True)"]
  show ?thesis by (auto simp: mem_ws_view_def demo_ws_env_def)
qed

end
