(* ===== verification/UserSpaceObjects.thy ===== *)
theory UserSpaceObjects
  imports WorkspaceObjects
begin

text \<open>
  The objects a UserSpace owns (\<^verbatim>\<open>src/internal/controller/userspace_objects.go\<close> and
  \<^verbatim>\<open>role_objects.go\<close>): namespace, quota, limits, network policy, accounts, roles and bindings, and what
  these roles and bindings let a subject do.

  Quantities written as text (\<^verbatim>\<open>resource.MustParse\<close>) come from the parameter \<open>mustParse\<close>. The built-in
  ClusterRole \<^verbatim>\<open>edit\<close> and the administrator ClusterRoles are not code of the controller: what they permit
  is the parameter \<open>extern\<close> of the access check.
\<close>

section \<open>Object types\<close>

record subject =
  sb_apiGroup :: string
  sb_kind :: string
  sb_name :: string
  sb_namespace :: string

record policyrule =
  pr_groups :: "string list"
  pr_resources :: "string list"
  pr_names :: "string list"
  pr_verbs :: "string list"

record roleref =
  rr_kind :: string
  rr_name :: string

text \<open>A peer of a network policy: pods by label, optionally in namespaces by label, or an IP block.\<close>

datatype npeer =
    PodPeer "string gomap option" "string gomap"
  | IPPeer string "string list"

record egressrule =
  eg_to :: "npeer list"
  eg_ports :: "(string option \<times> int) list"

datatype 'q k8sobj =
    NamespaceObj objectmeta
  | ResourceQuotaObj objectmeta "'q gomap"
  | LimitRangeObj objectmeta "'q gomap"
  | NetworkPolicyObj objectmeta "npeer list" "egressrule list"
  | ServiceAccountObj objectmeta
  | RoleObj objectmeta "policyrule list"
  | RoleBindingObj objectmeta "subject list" roleref
  | ClusterRoleObj objectmeta "policyrule list"
  | ClusterRoleBindingObj objectmeta "subject list" roleref
  | SecretObj objectmeta string "string gomap"

fun objMeta :: "'q k8sobj \<Rightarrow> objectmeta" where
  "objMeta (NamespaceObj m) = m"
| "objMeta (ResourceQuotaObj m _) = m"
| "objMeta (LimitRangeObj m _) = m"
| "objMeta (NetworkPolicyObj m _ _) = m"
| "objMeta (ServiceAccountObj m) = m"
| "objMeta (RoleObj m _) = m"
| "objMeta (RoleBindingObj m _ _) = m"
| "objMeta (ClusterRoleObj m _) = m"
| "objMeta (ClusterRoleBindingObj m _ _) = m"
| "objMeta (SecretObj m _ _) = m"

fun objKind :: "'q k8sobj \<Rightarrow> string" where
  "objKind (NamespaceObj m) = ''Namespace''"
| "objKind (ResourceQuotaObj m _) = ''ResourceQuota''"
| "objKind (LimitRangeObj m _) = ''LimitRange''"
| "objKind (NetworkPolicyObj m _ _) = ''NetworkPolicy''"
| "objKind (ServiceAccountObj m) = ''ServiceAccount''"
| "objKind (RoleObj m _) = ''Role''"
| "objKind (RoleBindingObj m _ _) = ''RoleBinding''"
| "objKind (ClusterRoleObj m _) = ''ClusterRole''"
| "objKind (ClusterRoleBindingObj m _ _) = ''ClusterRoleBinding''"
| "objKind (SecretObj m _ _) = ''Secret''"

definition objKey :: "'q k8sobj \<Rightarrow> string \<times> string \<times> string" where
  "objKey ob = (objKind ob, m_namespace (objMeta ob), m_name (objMeta ob))"

section \<open>Constants\<close>

definition userSpaceLabel :: string where
  "userSpaceLabel = ''dwpk.devops-ia.io/userspace''"

definition dwpkGroup :: string where
  "dwpkGroup = ''dwpk.devops-ia.io''"

definition clusterRolePrefix :: string where
  "clusterRolePrefix = ''dwpk-userspace-''"

definition adminBindingPrefix :: string where
  "adminBindingPrefix = ''dwpk-administrator-''"

definition workspaceOwnerVerbs :: "string list" where
  "workspaceOwnerVerbs = [''create'', ''delete'', ''get'', ''list'', ''patch'', ''update'', ''watch'']"

definition readVerbs :: "string list" where
  "readVerbs = [''get'', ''list'', ''watch'']"

definition rbacGroup :: string where
  "rbacGroup = ''rbac.authorization.k8s.io''"

section \<open>Builders\<close>

definition namespaceFor :: "'q userspace \<Rightarrow> string" where
  "namespaceFor us = NamespaceName us"

definition childMeta :: "'q userspace \<Rightarrow> string \<Rightarrow> objectmeta" where
  "childMeta us name = (meta0 (namespaceFor us) name)\<lparr>m_labels := [userSpaceLabel \<mapsto> us_name us]\<rparr>"

definition clusterMeta :: "'q userspace \<Rightarrow> string \<Rightarrow> objectmeta" where
  "clusterMeta us name = (meta0 '''' name)\<lparr>m_labels := [userSpaceLabel \<mapsto> us_name us]\<rparr>"

definition buildNamespace :: "'q userspace \<Rightarrow> 'q k8sobj" where
  "buildNamespace us = NamespaceObj (clusterMeta us (namespaceFor us))"

definition buildResourceQuota :: "('q :: linordered_idom) userspace \<Rightarrow> string \<Rightarrow> 'q k8sobj" where
  "buildResourceQuota us gpuRes =
     (let q = us_quota (us_spec us);
          hard = [(''requests.cpu'', q_cpu q), (''requests.memory'', q_memory q), (''requests.storage'', q_storage q)];
          hard = (if q_gpu q > 0 then hard @ [(''requests.'' @ gpuRes, of_int (q_gpu q))] else hard)
      in ResourceQuotaObj (childMeta us ''dwpk-quota'') hard)"

definition buildLimitRange :: "(string \<Rightarrow> 'q) \<Rightarrow> 'q userspace \<Rightarrow> 'q k8sobj" where
  "buildLimitRange mustParse us =
     LimitRangeObj (childMeta us ''dwpk-limits'') [(''cpu'', mustParse ''100m''), (''memory'', mustParse ''128Mi'')]"

definition offClusterEgressRule :: egressrule where
  "offClusterEgressRule =
     \<lparr>eg_to = [IPPeer ''0.0.0.0/0'' [''10.0.0.0/8'', ''172.16.0.0/12'', ''192.168.0.0/16'']], eg_ports = []\<rparr>"

definition dnsEgressRule :: egressrule where
  "dnsEgressRule =
     \<lparr>eg_to = [PodPeer (Some [(''kubernetes.io/metadata.name'', ''kube-system'')]) [(''k8s-app'', ''kube-dns'')]],
      eg_ports = [(Some ''UDP'', 53), (Some ''TCP'', 53)]\<rparr>"

definition NetworkPolicyClusterEgress :: string where
  "NetworkPolicyClusterEgress = ''ClusterEgress''"

definition buildNetworkPolicy :: "'q userspace \<Rightarrow> egressrule option \<Rightarrow> 'q k8sobj" where
  "buildNetworkPolicy us apiServer =
     (let egress = [\<lparr>eg_to = [PodPeer None []], eg_ports = []\<rparr>, dnsEgressRule, offClusterEgressRule];
          egress = (case apiServer of None \<Rightarrow> egress | Some rule \<Rightarrow> egress @ [rule]);
          egress = (if us_networkPolicy (us_spec us) = NetworkPolicyClusterEgress
                    then [\<lparr>eg_to = [], eg_ports = []\<rparr>] else egress)
      in NetworkPolicyObj (childMeta us ''dwpk-isolation'') [PodPeer None []] egress)"

text \<open>A source Secret: its name, type and data.\<close>

definition buildPullSecret :: "'q userspace \<Rightarrow> string \<times> string \<times> string gomap \<Rightarrow> 'q k8sobj" where
  "buildPullSecret us source = (case source of (name, ty, data) \<Rightarrow> SecretObj (childMeta us name) ty data)"

definition buildServiceAccount :: "'q userspace \<Rightarrow> 'q k8sobj" where
  "buildServiceAccount us = ServiceAccountObj (childMeta us ServiceAccountName)"

definition buildSessionServiceAccount :: "'q userspace \<Rightarrow> 'q k8sobj" where
  "buildSessionServiceAccount us = ServiceAccountObj (childMeta us SessionServiceAccountName)"

definition buildReadOnlySessionServiceAccount :: "'q userspace \<Rightarrow> 'q k8sobj" where
  "buildReadOnlySessionServiceAccount us = ServiceAccountObj (childMeta us ReadOnlySessionServiceAccountName)"

definition rule :: "string list \<Rightarrow> string list \<Rightarrow> string list \<Rightarrow> policyrule" where
  "rule groups resources verbs = \<lparr>pr_groups = groups, pr_resources = resources, pr_names = [], pr_verbs = verbs\<rparr>"

definition buildReadOnlyRole :: "'q userspace \<Rightarrow> 'q k8sobj" where
  "buildReadOnlyRole us = RoleObj (childMeta us ''dwpk-workspace-reader'')
     [rule [dwpkGroup] [''workspaces''] readVerbs,
      rule [dwpkGroup] [''workspaces/status''] [''get''],
      rule [''''] [''pods'', ''pods/log''] readVerbs,
      rule [''''] [''pods/exec''] [''create''],
      rule ['''', ''events.k8s.io''] [''events''] readVerbs]"

definition saSubject :: "'q userspace \<Rightarrow> string \<Rightarrow> subject" where
  "saSubject us name = \<lparr>sb_apiGroup = '''', sb_kind = ''ServiceAccount'', sb_name = name, sb_namespace = namespaceFor us\<rparr>"

definition readOnlySessionSubject :: "'q userspace \<Rightarrow> subject" where
  "readOnlySessionSubject us = saSubject us ReadOnlySessionServiceAccountName"

definition sessionSubject :: "'q userspace \<Rightarrow> subject" where
  "sessionSubject us = saSubject us SessionServiceAccountName"

definition ownerSubject :: "'q userspace \<Rightarrow> subject" where
  "ownerSubject us = \<lparr>sb_apiGroup = rbacGroup, sb_kind = ''User'', sb_name = us_owner (us_spec us), sb_namespace = ''''\<rparr>"

definition buildReadOnlyRoleBinding :: "'q userspace \<Rightarrow> 'q k8sobj" where
  "buildReadOnlyRoleBinding us = RoleBindingObj (childMeta us ''dwpk-reader'')
     [saSubject us ReadOnlySessionServiceAccountName] \<lparr>rr_kind = ''Role'', rr_name = ''dwpk-workspace-reader''\<rparr>"

definition buildOwnerRole :: "'q userspace \<Rightarrow> 'q k8sobj" where
  "buildOwnerRole us = RoleObj (childMeta us ''dwpk-workspace-user'')
     [rule [dwpkGroup] [''workspaces''] workspaceOwnerVerbs,
      rule [dwpkGroup] [''workspaces/status''] [''get''],
      rule [''''] [''pods'', ''pods/log''] readVerbs,
      rule [''''] [''pods/exec''] [''create''],
      rule [''''] [''persistentvolumeclaims''] (readVerbs @ [''delete'']),
      rule ['''', ''events.k8s.io''] [''events''] readVerbs,
      rule [''''] [''secrets''] [''create'', ''get'', ''update'', ''patch'', ''delete'']]"

definition buildOwnerClusterRole :: "'q userspace \<Rightarrow> 'q k8sobj" where
  "buildOwnerClusterRole us = ClusterRoleObj (clusterMeta us (clusterRolePrefix @ us_name us))
     [(rule [dwpkGroup] [''userspaces''] [''get'', ''watch'', ''patch''])\<lparr>pr_names := [us_name us]\<rparr>,
      rule [dwpkGroup] [''workspaceimages''] (readVerbs @ [''use''])]"

definition buildOwnerClusterRoleBinding :: "'q userspace \<Rightarrow> 'q k8sobj" where
  "buildOwnerClusterRoleBinding us = ClusterRoleBindingObj (clusterMeta us (clusterRolePrefix @ us_name us))
     [ownerSubject us, sessionSubject us, readOnlySessionSubject us]
     \<lparr>rr_kind = ''ClusterRole'', rr_name = clusterRolePrefix @ us_name us\<rparr>"

definition buildOwnerRoleBinding :: "'q userspace \<Rightarrow> 'q k8sobj" where
  "buildOwnerRoleBinding us = RoleBindingObj (childMeta us ''dwpk-owner'')
     [ownerSubject us, sessionSubject us] \<lparr>rr_kind = ''Role'', rr_name = ''dwpk-workspace-user''\<rparr>"

definition buildEditRoleBinding :: "'q userspace \<Rightarrow> 'q k8sobj" where
  "buildEditRoleBinding us = RoleBindingObj (childMeta us ''dwpk-workspace-edit'')
     [saSubject us ServiceAccountName] \<lparr>rr_kind = ''ClusterRole'', rr_name = ''edit''\<rparr>"

definition buildAdministratorBinding :: "'q userspace \<Rightarrow> string \<Rightarrow> 'q k8sobj" where
  "buildAdministratorBinding us clusterRole =
     ClusterRoleBindingObj (clusterMeta us (adminBindingPrefix @ clusterRole @ ''-'' @ us_name us))
       [sessionSubject us] \<lparr>rr_kind = ''ClusterRole'', rr_name = clusterRole\<rparr>"

section \<open>All children, in order\<close>

definition userSpaceChildren ::
    "(string \<Rightarrow> 'q) \<Rightarrow> ('q :: linordered_idom) userspace \<Rightarrow> string \<Rightarrow> egressrule option \<Rightarrow>
     (string \<times> string \<times> string gomap) list \<Rightarrow> 'q k8sobj list" where
  "userSpaceChildren mustParse us gpuRes apiServer pullSecrets =
     [buildNamespace us, buildResourceQuota us gpuRes, buildLimitRange mustParse us, buildNetworkPolicy us apiServer,
      buildServiceAccount us, buildSessionServiceAccount us, buildReadOnlySessionServiceAccount us,
      buildOwnerRole us, buildOwnerRoleBinding us, buildReadOnlyRole us, buildReadOnlyRoleBinding us,
      buildEditRoleBinding us, buildOwnerClusterRole us, buildOwnerClusterRoleBinding us] @
     map (buildPullSecret us) pullSecrets"

section \<open>What the bindings permit\<close>

text \<open>
  The documented RBAC rule evaluation: a rule matches a request by group, resource, verb and, when it
  lists any, object name, \<^verbatim>\<open>*\<close> matching everything; a RoleBinding grants in its own namespace, a
  ClusterRoleBinding everywhere.
\<close>

record request =
  rq_verb :: string
  rq_group :: string
  rq_resource :: string
  rq_namespace :: string
  rq_name :: string

definition oneOf :: "string \<Rightarrow> string list \<Rightarrow> bool" where
  "oneOf x xs \<longleftrightarrow> x \<in> set xs \<or> ''*'' \<in> set xs"

definition ruleAllows :: "policyrule \<Rightarrow> request \<Rightarrow> bool" where
  "ruleAllows r q \<longleftrightarrow> oneOf (rq_group q) (pr_groups r) \<and> oneOf (rq_resource q) (pr_resources r) \<and>
     oneOf (rq_verb q) (pr_verbs r) \<and> (pr_names r = [] \<or> rq_name q \<in> set (pr_names r))"

fun rolesNamed :: "(string \<Rightarrow> policyrule list) \<Rightarrow> 'q k8sobj list \<Rightarrow> string \<Rightarrow> roleref \<Rightarrow> policyrule list" where
  "rolesNamed extern objs ns ref =
     (if rr_kind ref = ''Role'' then
        concat (map (\<lambda>ob. case ob of RoleObj m rules \<Rightarrow>
          if m_namespace m = ns \<and> m_name m = rr_name ref then rules else [] | _ \<Rightarrow> []) objs)
      else
        concat (map (\<lambda>ob. case ob of ClusterRoleObj m rules \<Rightarrow> if m_name m = rr_name ref then rules else [] | _ \<Rightarrow> []) objs) @
        extern (rr_name ref))"

fun grants :: "(string \<Rightarrow> policyrule list) \<Rightarrow> 'q k8sobj list \<Rightarrow> subject \<Rightarrow> 'q k8sobj \<Rightarrow> request \<Rightarrow> bool" where
  "grants extern objs sub (RoleBindingObj m subs ref) q \<longleftrightarrow>
     sub \<in> set subs \<and> rq_namespace q = m_namespace m \<and>
     list_ex (\<lambda>r. ruleAllows r q) (rolesNamed extern objs (m_namespace m) ref)"
| "grants extern objs sub (ClusterRoleBindingObj m subs ref) q \<longleftrightarrow>
     sub \<in> set subs \<and> list_ex (\<lambda>r. ruleAllows r q) (rolesNamed extern objs '''' ref)"
| "grants extern objs sub _ q = False"

definition may :: "(string \<Rightarrow> policyrule list) \<Rightarrow> 'q k8sobj list \<Rightarrow> subject \<Rightarrow> request \<Rightarrow> bool" where
  "may extern objs sub q \<longleftrightarrow> list_ex (\<lambda>b. grants extern objs sub b q) objs"

section \<open>Lemmas\<close>

definition ownerRules :: "policyrule list" where
  "ownerRules =
     [rule [dwpkGroup] [''workspaces''] workspaceOwnerVerbs,
      rule [dwpkGroup] [''workspaces/status''] [''get''],
      rule [''''] [''pods'', ''pods/log''] readVerbs,
      rule [''''] [''pods/exec''] [''create''],
      rule [''''] [''persistentvolumeclaims''] (readVerbs @ [''delete'']),
      rule ['''', ''events.k8s.io''] [''events''] readVerbs,
      rule [''''] [''secrets''] [''create'', ''get'', ''update'', ''patch'', ''delete'']]"

definition readerRules :: "policyrule list" where
  "readerRules =
     [rule [dwpkGroup] [''workspaces''] readVerbs,
      rule [dwpkGroup] [''workspaces/status''] [''get''],
      rule [''''] [''pods'', ''pods/log''] readVerbs,
      rule [''''] [''pods/exec''] [''create''],
      rule ['''', ''events.k8s.io''] [''events''] readVerbs]"

definition clusterRules :: "'q userspace \<Rightarrow> policyrule list" where
  "clusterRules us =
     [(rule [dwpkGroup] [''userspaces''] [''get'', ''watch'', ''patch''])\<lparr>pr_names := [us_name us]\<rparr>,
      rule [dwpkGroup] [''workspaceimages''] (readVerbs @ [''use''])]"

lemmas us_builders = buildNamespace_def buildResourceQuota_def buildLimitRange_def buildNetworkPolicy_def
  buildServiceAccount_def buildSessionServiceAccount_def buildReadOnlySessionServiceAccount_def
  buildOwnerRole_def [folded ownerRules_def] buildOwnerRoleBinding_def buildReadOnlyRole_def [folded readerRules_def]
  buildReadOnlyRoleBinding_def buildEditRoleBinding_def buildOwnerClusterRole_def [folded clusterRules_def]
  buildOwnerClusterRoleBinding_def

lemma childMeta_simps [simp]: "m_name (childMeta us n) = n" "m_namespace (childMeta us n) = NamespaceName us"
  "m_labels (childMeta us n) = [userSpaceLabel \<mapsto> us_name us]"
  "m_name (clusterMeta us n) = n" "m_namespace (clusterMeta us n) = ''''"
  "m_labels (clusterMeta us n) = [userSpaceLabel \<mapsto> us_name us]"
  by (simp_all add: childMeta_def clusterMeta_def meta0_def namespaceFor_def)

lemma pull_secrets_inert [simp]:
  "concat (map (\<lambda>ob. case ob of RoleObj m rules \<Rightarrow> f m rules | _ \<Rightarrow> []) (map (buildPullSecret us) ps)) = []"
  "concat (map (\<lambda>ob. case ob of ClusterRoleObj m rules \<Rightarrow> f m rules | _ \<Rightarrow> []) (map (buildPullSecret us) ps)) = []"
  "list_ex (\<lambda>b. grants extern objs sub b q) (map (buildPullSecret us) ps) = False"
  by (induction ps) (auto simp: buildPullSecret_def split: prod.splits)

lemma roles_of_children:
  "rolesNamed extern (userSpaceChildren mp us g a ps) (NamespaceName us) \<lparr>rr_kind = ''Role'', rr_name = ''dwpk-workspace-user''\<rparr> = ownerRules"
  "rolesNamed extern (userSpaceChildren mp us g a ps) (NamespaceName us) \<lparr>rr_kind = ''Role'', rr_name = ''dwpk-workspace-reader''\<rparr> = readerRules"
  "extern (clusterRolePrefix @ us_name us) = [] \<Longrightarrow>
   rolesNamed extern (userSpaceChildren mp us g a ps) '''' \<lparr>rr_kind = ''ClusterRole'', rr_name = clusterRolePrefix @ us_name us\<rparr> = clusterRules us"
  by (simp_all add: userSpaceChildren_def us_builders Let_def buildPullSecret_def split: prod.splits)

text \<open>Everything a subject may do, binding by binding.\<close>

lemma may_children:
  assumes "extern (clusterRolePrefix @ us_name us) = []"
  shows "may extern (userSpaceChildren mp us g a ps) sub q \<longleftrightarrow>
     (sub \<in> {ownerSubject us, sessionSubject us} \<and> rq_namespace q = NamespaceName us \<and> list_ex (\<lambda>r. ruleAllows r q) ownerRules) \<or>
     (sub = readOnlySessionSubject us \<and> rq_namespace q = NamespaceName us \<and> list_ex (\<lambda>r. ruleAllows r q) readerRules) \<or>
     (sub = saSubject us ServiceAccountName \<and> rq_namespace q = NamespaceName us \<and>
        list_ex (\<lambda>r. ruleAllows r q) (rolesNamed extern (userSpaceChildren mp us g a ps) (NamespaceName us) \<lparr>rr_kind = ''ClusterRole'', rr_name = ''edit''\<rparr>)) \<or>
     (sub \<in> {ownerSubject us, sessionSubject us, readOnlySessionSubject us} \<and> list_ex (\<lambda>r. ruleAllows r q) (clusterRules us))"
proof -
  let ?objs = "userSpaceChildren mp us g a ps"
  have "may extern ?objs sub q \<longleftrightarrow>
     grants extern ?objs sub (buildOwnerRoleBinding us) q \<or> grants extern ?objs sub (buildReadOnlyRoleBinding us) q \<or>
     grants extern ?objs sub (buildEditRoleBinding us) q \<or> grants extern ?objs sub (buildOwnerClusterRoleBinding us) q"
    unfolding may_def
    by (subst (2) userSpaceChildren_def) (simp add: buildNamespace_def buildResourceQuota_def buildLimitRange_def
        buildNetworkPolicy_def buildServiceAccount_def buildSessionServiceAccount_def buildReadOnlySessionServiceAccount_def
        buildOwnerRole_def buildReadOnlyRole_def buildOwnerClusterRole_def Let_def)
  then show ?thesis
    using roles_of_children(1,2) [of extern mp us g a ps] roles_of_children(3) [of extern us mp g a ps] assms
    by (auto simp: buildOwnerRoleBinding_def buildReadOnlyRoleBinding_def buildEditRoleBinding_def
        buildOwnerClusterRoleBinding_def readOnlySessionSubject_def simp del: rolesNamed.simps)
qed

lemma list_ex_rules [simp]:
  "list_ex (\<lambda>r. ruleAllows r q) (clusterRules us) \<longleftrightarrow> rq_group q = ''dwpk.devops-ia.io'' \<and>
     (rq_resource q = ''userspaces'' \<and> rq_verb q \<in> {''get'', ''watch'', ''patch''} \<and> rq_name q = us_name us \<or>
      rq_resource q = ''workspaceimages'' \<and> rq_verb q \<in> {''get'', ''list'', ''watch'', ''use''})"
  by (auto simp: clusterRules_def rule_def ruleAllows_def oneOf_def dwpkGroup_def readVerbs_def)

section \<open>Properties\<close>

text \<open>
  (C21) What the objects of every UserSpace permit outside its namespace, exactly: the owner and the two session accounts may get, watch and
  patch this very UserSpace, and get, list, watch and use entries of the image catalog; nobody else may do anything there, the account
  that workspace pods run as included. The cluster role bindings that an administrator has besides are not among these objects;
  they are the subject of the theory of the reconciler.
\<close>

theorem grants_confined:
  assumes "extern (clusterRolePrefix @ us_name us) = []" and "rq_namespace q \<noteq> NamespaceName us"
  shows "may extern (userSpaceChildren mp us g a ps) sub q \<longleftrightarrow>
    sub \<in> {ownerSubject us, sessionSubject us, readOnlySessionSubject us} \<and> sub \<noteq> saSubject us ServiceAccountName \<and>
    rq_group q = ''dwpk.devops-ia.io'' \<and>
    (rq_resource q = ''userspaces'' \<and> rq_name q = us_name us \<and> rq_verb q \<in> {''get'', ''watch'', ''patch''} \<or>
     rq_resource q = ''workspaceimages'' \<and> rq_verb q \<in> {''get'', ''list'', ''watch'', ''use''})"
proof -
  have "saSubject us ServiceAccountName \<notin> {ownerSubject us, sessionSubject us, readOnlySessionSubject us}"
    by (simp add: saSubject_def ownerSubject_def sessionSubject_def readOnlySessionSubject_def ServiceAccountName_def
        SessionServiceAccountName_def ReadOnlySessionServiceAccountName_def)
  with assms(2) show ?thesis unfolding may_children [of extern us, OF assms(1)] by auto
qed

text \<open>
  Exactly what a read-scoped token may do. In its namespace: read workspaces, pods, logs and
  events, get a workspace's status, and open a shell in a pod. Anywhere: read and use the catalog,
  and get, watch or patch its own UserSpace.
\<close>

theorem read_only_rights_exact:
  assumes "extern (clusterRolePrefix @ us_name us) = []"
  shows "may extern (userSpaceChildren mp us g a ps) (readOnlySessionSubject us) q \<longleftrightarrow>
    rq_namespace q = NamespaceName us \<and>
      (rq_group q = ''dwpk.devops-ia.io'' \<and> rq_resource q = ''workspaces'' \<and> rq_verb q \<in> {''get'', ''list'', ''watch''} \<or>
       rq_group q = ''dwpk.devops-ia.io'' \<and> rq_resource q = ''workspaces/status'' \<and> rq_verb q = ''get'' \<or>
       rq_group q = '''' \<and> rq_resource q \<in> {''pods'', ''pods/log''} \<and> rq_verb q \<in> {''get'', ''list'', ''watch''} \<or>
       rq_group q = '''' \<and> rq_resource q = ''pods/exec'' \<and> rq_verb q = ''create'' \<or>
       rq_group q \<in> {'''', ''events.k8s.io''} \<and> rq_resource q = ''events'' \<and> rq_verb q \<in> {''get'', ''list'', ''watch''}) \<or>
    rq_group q = ''dwpk.devops-ia.io'' \<and>
      (rq_resource q = ''userspaces'' \<and> rq_verb q \<in> {''get'', ''watch'', ''patch''} \<and> rq_name q = us_name us \<or>
       rq_resource q = ''workspaceimages'' \<and> rq_verb q \<in> {''get'', ''list'', ''watch'', ''use''})"
proof -
  have ne: "readOnlySessionSubject us \<noteq> ownerSubject us" "readOnlySessionSubject us \<noteq> sessionSubject us"
    "readOnlySessionSubject us \<noteq> saSubject us ServiceAccountName"
    by (simp_all add: saSubject_def ownerSubject_def sessionSubject_def readOnlySessionSubject_def ServiceAccountName_def
        SessionServiceAccountName_def ReadOnlySessionServiceAccountName_def)
  have r: "list_ex (\<lambda>r. ruleAllows r q) readerRules \<longleftrightarrow>
      rq_group q = ''dwpk.devops-ia.io'' \<and> rq_resource q = ''workspaces'' \<and> rq_verb q \<in> {''get'', ''list'', ''watch''} \<or>
       rq_group q = ''dwpk.devops-ia.io'' \<and> rq_resource q = ''workspaces/status'' \<and> rq_verb q = ''get'' \<or>
       rq_group q = '''' \<and> rq_resource q \<in> {''pods'', ''pods/log''} \<and> rq_verb q \<in> {''get'', ''list'', ''watch''} \<or>
       rq_group q = '''' \<and> rq_resource q = ''pods/exec'' \<and> rq_verb q = ''create'' \<or>
       rq_group q \<in> {'''', ''events.k8s.io''} \<and> rq_resource q = ''events'' \<and> rq_verb q \<in> {''get'', ''list'', ''watch''}"
    by (simp add: readerRules_def rule_def ruleAllows_def oneOf_def dwpkGroup_def readVerbs_def)
  show ?thesis unfolding may_children [of extern us, OF assms] r list_ex_rules using ne by simp
qed

text \<open>
  The isolated posture never opens up by accident: unless the spec asks for cluster egress,
  every egress rule names at least one peer (a rule with none permits everything), whatever the
  lookup of the API server gave, as long as that lookup returns no rule without peers; ingress comes
  from the same namespace only, in both postures.
\<close>

theorem isolated_policy_closed:
  assumes "\<forall>r. api = Some r \<longrightarrow> eg_to r \<noteq> []"
  shows "\<exists>m egress. buildNetworkPolicy us api = NetworkPolicyObj m [PodPeer None []] egress \<and>
    m_namespace m = NamespaceName us \<and>
    ((\<exists>r\<in>set egress. eg_to r = []) \<longleftrightarrow> us_networkPolicy (us_spec us) = ''ClusterEgress'') \<and>
    (\<forall>r\<in>set egress. \<forall>cidr ex. IPPeer cidr ex \<in> set (eg_to r) \<longrightarrow>
       cidr = ''0.0.0.0/0'' \<and> ex = [''10.0.0.0/8'', ''172.16.0.0/12'', ''192.168.0.0/16''] \<or> api = Some r)"
  using assms
  by (auto simp: buildNetworkPolicy_def Let_def NetworkPolicyClusterEgress_def dnsEgressRule_def offClusterEgressRule_def
      split: option.splits)

text \<open>
  No child overwrites another: with distinct pull Secrets the objects of one UserSpace have
  distinct keys, all namespaced ones lie in its namespace, which comes first, and every one carries
  the UserSpace's label; and of two UserSpaces with different names no cluster-scoped role or
  binding of the fixed children coincides.
\<close>

theorem children_keys_distinct:
  assumes "distinct (map fst ps)"
  shows "distinct (map objKey (userSpaceChildren mp us g a ps)) \<and>
    hd (userSpaceChildren mp us g a ps) = buildNamespace us \<and>
    (\<forall>ob\<in>set (userSpaceChildren mp us g a ps). m_labels (objMeta ob) userSpaceLabel = Some (us_name us) \<and>
       (m_namespace (objMeta ob) = NamespaceName us \<or>
        m_namespace (objMeta ob) = '''' \<and> objKind ob \<in> {''Namespace'', ''ClusterRole'', ''ClusterRoleBinding''})) \<and>
    (us_name us \<noteq> us_name us' \<longrightarrow> objKey (buildOwnerClusterRoleBinding us) \<noteq> objKey (buildOwnerClusterRoleBinding us'))"
proof -
  have pk: "map objKey (map (buildPullSecret us) ps) = map (\<lambda>n. (''Secret'', NamespaceName us, n)) (map fst ps)"
    by (auto simp: buildPullSecret_def objKey_def split: prod.splits)
  have d: "distinct (map objKey (map (buildPullSecret us) ps))"
    unfolding pk using assms by (simp only: distinct_map inj_on_def) auto
  have s: "objKind ob = ''Secret''" if "ob \<in> set (map (buildPullSecret us) ps)" for ob
    using that by (auto simp: buildPullSecret_def split: prod.splits)
  let ?fixed = "take 14 (userSpaceChildren mp us g a ps)"
  have split: "userSpaceChildren mp us g a ps = ?fixed @ map (buildPullSecret us) ps"
    by (simp add: userSpaceChildren_def)
  have f: "distinct (map objKey ?fixed)" "\<forall>ob\<in>set ?fixed. objKind ob \<noteq> ''Secret''"
    by (simp_all add: userSpaceChildren_def us_builders Let_def objKey_def ServiceAccountName_def
        SessionServiceAccountName_def ReadOnlySessionServiceAccountName_def)
  have "objKey ` set ?fixed \<inter> objKey ` set (map (buildPullSecret us) ps) = {}"
    using f(2) s by (force simp: objKey_def)
  then have "distinct (map objKey (userSpaceChildren mp us g a ps))"
    using d f(1) by (subst split, simp only: map_append distinct_append) auto
  moreover have "\<forall>ob\<in>set (userSpaceChildren mp us g a ps). m_labels (objMeta ob) userSpaceLabel = Some (us_name us) \<and>
       (m_namespace (objMeta ob) = NamespaceName us \<or>
        m_namespace (objMeta ob) = '''' \<and> objKind ob \<in> {''Namespace'', ''ClusterRole'', ''ClusterRoleBinding''})"
    by (simp add: userSpaceChildren_def us_builders Let_def buildPullSecret_def split: prod.splits)
  moreover have "us_name us \<noteq> us_name us' \<Longrightarrow>
      objKey (buildOwnerClusterRoleBinding us) \<noteq> objKey (buildOwnerClusterRoleBinding us')"
    by (simp add: buildOwnerClusterRoleBinding_def objKey_def)
  ultimately show ?thesis by (simp add: userSpaceChildren_def)
qed

section \<open>Witnesses\<close>

definition demo_request :: "string \<Rightarrow> string \<Rightarrow> string \<Rightarrow> string \<Rightarrow> string \<Rightarrow> request" where
  "demo_request v g r ns n = \<lparr>rq_verb = v, rq_group = g, rq_resource = r, rq_namespace = ns, rq_name = n\<rparr>"

abbreviation demo_children :: "int k8sobj list" where
  "demo_children \<equiv> userSpaceChildren (\<lambda>_. 1) demo_us ''nvidia.com/gpu'' None [(''regcred'', ''Opaque'', [])]"

theorem grants_confined_witness:
  "may (\<lambda>_. []) demo_children (sessionSubject demo_us) (demo_request ''get'' ''dwpk.devops-ia.io'' ''workspaceimages'' '''' ''go'') \<and>
   \<not> may (\<lambda>_. []) demo_children (sessionSubject demo_us) (demo_request ''delete'' ''dwpk.devops-ia.io'' ''workspaces'' ''dwpk-bob'' ''go'')"
proof -
  have n: "NamespaceName demo_us = ''dwpk-ana''" by (simp add: NamespaceName_def demo_us_def meta0_def NamespacePrefix_def)
  show ?thesis
    using grants_confined [of "\<lambda>_. []" demo_us "demo_request ''get'' ''dwpk.devops-ia.io'' ''workspaceimages'' '''' ''go''", OF refl]
      grants_confined [of "\<lambda>_. []" demo_us "demo_request ''delete'' ''dwpk.devops-ia.io'' ''workspaces'' ''dwpk-bob'' ''go''", OF refl]
    by (simp add: demo_request_def n) (simp add: sessionSubject_def saSubject_def ServiceAccountName_def SessionServiceAccountName_def)
qed

theorem read_only_rights_exact_witness:
  "may (\<lambda>_. []) demo_children (readOnlySessionSubject demo_us)
     (demo_request ''patch'' ''dwpk.devops-ia.io'' ''userspaces'' '''' ''ana'') \<and>
   \<not> may (\<lambda>_. []) demo_children (readOnlySessionSubject demo_us)
     (demo_request ''delete'' ''dwpk.devops-ia.io'' ''workspaces'' ''dwpk-ana'' ''w'')"
  using read_only_rights_exact [of "\<lambda>_. []" demo_us] by (simp add: demo_request_def demo_us_def meta0_def)

theorem isolated_policy_closed_witness:
  "\<exists>m egress. buildNetworkPolicy demo_us (Some \<lparr>eg_to = [IPPeer ''10.0.0.1/32'' []], eg_ports = []\<rparr>) =
     NetworkPolicyObj m [PodPeer None []] egress \<and> \<not> (\<exists>r\<in>set egress. eg_to r = [])"
  using isolated_policy_closed [of "Some \<lparr>eg_to = [IPPeer ''10.0.0.1/32'' []], eg_ports = []\<rparr>" demo_us]
  by (auto simp: demo_us_def)

theorem children_keys_distinct_witness: "distinct (map objKey demo_children)"
  using children_keys_distinct [of "[(''regcred'', ''Opaque'', [])]" "\<lambda>_. 1" demo_us "''nvidia.com/gpu''" None demo_us] by simp

end
