(* ===== verification/UserSpaceController.thy ===== *)
theory UserSpaceController
  imports KubeClient UserSpaceObjects
begin

text \<open>
  The UserSpace reconciler (\<^verbatim>\<open>src/internal/controller/userspace_controller.go\<close>): provision the
  namespace and everything in it, grant or withdraw the administrator roles, report.

  As in the other reconcilers the client calls are the fields of a record over an abstract state. The
  \<^verbatim>\<open>kubernetes\<close> Service is its ports and ClusterIP, an EndpointSlice the addresses of each endpoint and
  its ports, a listed ClusterRoleBinding its name and the role it refers to.
\<close>

section \<open>Client and environment\<close>

datatype userror =
    GetUserSpaceErr apierr
  | GetServiceErr apierr
  | ListSlicesErr apierr
  | ListPullSecretsErr apierr
  | ChildErr applyerr
  | ListBindingsErr apierr
  | WithdrawErr string apierr
  | UsPatchStatusErr apierr

record endpointslice =
  es_endpoints :: "string list list"
  es_ports :: "int option list"

record ('q, 's) us_client =
  uc_get :: "string \<Rightarrow> 's \<Rightarrow> apierr + 'q userspace"
  uc_getPlatform :: "'s \<Rightarrow> apierr + platformconfig"
  uc_getAPIService :: "'s \<Rightarrow> apierr + int list \<times> string"
  uc_listSlices :: "'s \<Rightarrow> apierr + endpointslice list"
  uc_listPullSecrets :: "string \<Rightarrow> 's \<Rightarrow> apierr + (string \<times> string \<times> string gomap) list"
  uc_applier :: "('q userspace, 'q k8sobj, 's) applier"
  uc_listBindings :: "string \<Rightarrow> 's \<Rightarrow> apierr + (string \<times> string) list"
  uc_deleteBinding :: "string \<Rightarrow> 's \<Rightarrow> apierr option \<times> 's"
  uc_patchStatus :: "'q userspace \<Rightarrow> 's \<Rightarrow> apierr option \<times> 's"
  uc_listUserSpaces :: "'s \<Rightarrow> apierr + 'q userspace list"

record 'q us_env =
  ue_AdminClusterRoles :: "string list"
  ue_PullSecretNamespace :: string
  ue_mustParse :: "string \<Rightarrow> 'q"
  ue_setCond :: "condition list \<Rightarrow> condition \<Rightarrow> condition list"
  ue_errText :: "userror \<Rightarrow> string"

section \<open>Status\<close>

text \<open>The object is changed in memory even when the write fails.\<close>

definition us_patchStatus ::
    "('q, 's) us_client \<Rightarrow> 'q us_env \<Rightarrow> 'q userspace \<Rightarrow> string \<Rightarrow> condition list \<Rightarrow> 's \<Rightarrow>
     userror option \<times> 'q userspace \<times> 's" where
  "us_patchStatus cl env us phase conditions s =
     (let gen = m_generation (us_meta us);
          st = (us_status us)\<lparr>ust_namespace := namespaceFor us, ust_state := phase, ust_observedGeneration := gen\<rparr>;
          st = st\<lparr>ust_conditions := setConditions (ue_setCond env) gen (ust_conditions st) conditions\<rparr>;
          us = us\<lparr>us_status := st\<rparr>
      in case uc_patchStatus cl us s of
           (Some err, s') \<Rightarrow> (Some (UsPatchStatusErr err), us, s')
         | (None, s') \<Rightarrow> (None, us, s'))"

definition us_markReady :: "('q, 's) us_client \<Rightarrow> 'q us_env \<Rightarrow> 'q userspace \<Rightarrow> 's \<Rightarrow> userror option \<times> 'q userspace \<times> 's" where
  "us_markReady cl env us =
     us_patchStatus cl env us UserSpaceStateReady
       [mkCond ''Ready'' True ''NamespaceProvisioned'' ''namespace, quota and role bindings are in place'',
        mkCond ''Degraded'' False ''NamespaceProvisioned'' ''no reconcile errors'']"

definition us_markDegraded ::
    "('q, 's) us_client \<Rightarrow> 'q us_env \<Rightarrow> 'q userspace \<Rightarrow> userror \<Rightarrow> 's \<Rightarrow> userror option \<times> 'q userspace \<times> 's" where
  "us_markDegraded cl env us cause =
     us_patchStatus cl env us UserSpaceStateFailed
       [mkCond ''Ready'' False ''ProvisioningFailed'' (ue_errText env cause),
        mkCond ''Degraded'' True ''ProvisioningFailed'' (ue_errText env cause)]"

section \<open>The API server rule\<close>

definition hostPeer :: "string \<Rightarrow> npeer" where
  "hostPeer ip = IPPeer (ip @ (if CHR '':'' \<in> set ip then ''/128'' else ''/32'')) []"

definition apiServerEgress :: "('q, 's) us_client \<Rightarrow> 's \<Rightarrow> userror + egressrule option" where
  "apiServerEgress cl s =
     (case uc_getAPIService cl s of
        Inl err \<Rightarrow> Inl (GetServiceErr err)
      | Inr (ports, clusterIP) \<Rightarrow>
          (case uc_listSlices cl s of
             Inl err \<Rightarrow> Inl (ListSlicesErr err)
           | Inr slices \<Rightarrow>
               let rl = \<lparr>eg_to = [], eg_ports = map (\<lambda>p. (None, p)) ports\<rparr>;
                   rl = (if clusterIP \<noteq> '''' \<and> clusterIP \<noteq> ''None'' then rl\<lparr>eg_to := eg_to rl @ [hostPeer clusterIP]\<rparr> else rl);
                   rl = foldl (\<lambda>rl slice.
                     let rl = foldl (\<lambda>rl ep. foldl (\<lambda>rl addr. rl\<lparr>eg_to := eg_to rl @ [hostPeer addr]\<rparr>) rl ep) rl (es_endpoints slice)
                     in foldl (\<lambda>rl port. case port of None \<Rightarrow> rl | Some p \<Rightarrow> rl\<lparr>eg_ports := eg_ports rl @ [(None, p)]\<rparr>) rl (es_ports slice))
                     rl slices
               in Inr (if length (eg_to rl) = 0 then None else Some rl)))"

definition us_gpuResource :: "('q, 's) us_client \<Rightarrow> 's \<Rightarrow> string" where
  "us_gpuResource cl s =
     (case uc_getPlatform cl s of Inl err \<Rightarrow> DefaultGPUResourceName | Inr config \<Rightarrow> GPUResource (Some config))"

section \<open>Children\<close>

definition pullSecrets :: "('q, 's) us_client \<Rightarrow> 'q us_env \<Rightarrow> 's \<Rightarrow> userror + (string \<times> string \<times> string gomap) list" where
  "pullSecrets cl env s =
     (if ue_PullSecretNamespace env = '''' then Inr []
      else case uc_listPullSecrets cl (ue_PullSecretNamespace env) s of
        Inl err \<Rightarrow> Inl (ListPullSecretsErr err)
      | Inr items \<Rightarrow> Inr items)"

definition applyChildren ::
    "(('q :: linordered_idom), 's) us_client \<Rightarrow> 'q us_env \<Rightarrow> 'q userspace \<Rightarrow> egressrule option \<Rightarrow>
     (string \<times> string \<times> string gomap) list \<Rightarrow> 's \<Rightarrow> userror option \<times> 's" where
  "applyChildren cl env us apiServer secrets s =
     (case applyAll (uc_applier cl) us
             (userSpaceChildren (ue_mustParse env) us (us_gpuResource cl s) apiServer secrets) s of
        (Some err, s') \<Rightarrow> (Some (ChildErr err), s')
      | (None, s') \<Rightarrow> (None, s'))"

section \<open>Role grants\<close>

text \<open>The sweep over the listed bindings: name and role of each.\<close>

fun withdraw :: "('q, 's) us_client \<Rightarrow> string list \<Rightarrow> (string \<times> string) list \<Rightarrow> 's \<Rightarrow> userror option \<times> 's" where
  "withdraw cl granted [] s = (None, s)"
| "withdraw cl granted ((name, roleName) # rest) s =
     (if \<not> HasPrefix name adminBindingPrefix \<or> roleName \<in> set granted then withdraw cl granted rest s
      else case uc_deleteBinding cl name s of
        (Some err, s') \<Rightarrow> if IsNotFound err then withdraw cl granted rest s' else (Some (WithdrawErr name err), s')
      | (None, s') \<Rightarrow> withdraw cl granted rest s')"

definition reconcileRoleGrants ::
    "('q, 's) us_client \<Rightarrow> 'q us_env \<Rightarrow> 'q userspace \<Rightarrow> 's \<Rightarrow> userror option \<times> 's" where
  "reconcileRoleGrants cl env us s =
     (let granted = (if EffectiveRole (us_spec us) = UserSpaceRoleAdmin then ue_AdminClusterRoles env else []) in
      case applyAll (uc_applier cl) us (map (buildAdministratorBinding us) granted) s of
        (Some err, s1) \<Rightarrow> (Some (ChildErr err), s1)
      | (None, s1) \<Rightarrow>
          (case uc_listBindings cl (us_name us) s1 of
             Inl err \<Rightarrow> (Some (ListBindingsErr err), s1)
           | Inr bindings \<Rightarrow> withdraw cl granted bindings s1))"

section \<open>Reconcile\<close>

definition us_degraded ::
    "('q, 's) us_client \<Rightarrow> 'q us_env \<Rightarrow> 'q userspace \<Rightarrow> userror \<Rightarrow> 's \<Rightarrow> userror list \<times> 's" where
  "us_degraded cl env us err s =
     (case us_markDegraded cl env us err s of (None, _, s') \<Rightarrow> ([err], s') | (Some e, _, s') \<Rightarrow> ([err, e], s'))"

text \<open>From the API server lookup on.\<close>

definition us_provision ::
    "(('q :: linordered_idom), 's) us_client \<Rightarrow> 'q us_env \<Rightarrow> 'q userspace \<Rightarrow> 's \<Rightarrow> userror list \<times> 's" where
  "us_provision cl env us s =
     (case apiServerEgress cl s of
        Inl err \<Rightarrow> us_degraded cl env us err s
      | Inr apiServer \<Rightarrow>
          (case pullSecrets cl env s of
             Inl err \<Rightarrow> us_degraded cl env us err s
           | Inr secrets \<Rightarrow>
               (case applyChildren cl env us apiServer secrets s of
                  (Some err, s1) \<Rightarrow> us_degraded cl env us err s1
                | (None, s1) \<Rightarrow>
                    (case reconcileRoleGrants cl env us s1 of
                       (Some err, s2) \<Rightarrow> us_degraded cl env us err s2
                     | (None, s2) \<Rightarrow>
                         (case us_markReady cl env us s2 of (None, _, s3) \<Rightarrow> ([], s3) | (Some e, _, s3) \<Rightarrow> ([e], s3))))))"

definition us_Reconcile ::
    "(('q :: linordered_idom), 's) us_client \<Rightarrow> 'q us_env \<Rightarrow> string \<Rightarrow> 's \<Rightarrow> userror list \<times> 's" where
  "us_Reconcile cl env name s =
     (case uc_get cl name s of
        Inl err \<Rightarrow> if IsNotFound err then ([], s) else ([GetUserSpaceErr err], s)
      | Inr us \<Rightarrow>
          if m_deletion (us_meta us) \<noteq> None then ([], s)
          else if ust_state (us_status us) = '''' then
            (case us_patchStatus cl env us UserSpaceStatePending [] s of
               (Some err, _, s') \<Rightarrow> ([err], s')
             | (None, us', s') \<Rightarrow> us_provision cl env us' s')
          else us_provision cl env us s)"

section \<open>Watches\<close>

definition PullSecretLabel :: string where
  "PullSecretLabel = ''dwpk.devops-ia.io/pull-secret''"

definition userSpacesForPullSecretChange ::
    "('q, 's) us_client \<Rightarrow> 'q us_env \<Rightarrow> objectmeta \<Rightarrow> 's \<Rightarrow> string list" where
  "userSpacesForPullSecretChange cl env secret s =
     (if m_namespace secret \<noteq> ue_PullSecretNamespace env \<or> m_labels secret PullSecretLabel \<noteq> Some ''true'' then []
      else case uc_listUserSpaces cl s of Inl err \<Rightarrow> [] | Inr items \<Rightarrow> map us_name items)"

section \<open>What the theorems need of the cluster\<close>

text \<open>
  \<open>objs\<close> observes the owned objects and \<open>stat\<close> the UserSpace statuses of a state. Apply keeps a
  binding's subjects and role and at least its labels; a listing by label sees the current bindings.
\<close>

abbreviation bindingKey :: "string \<Rightarrow> string \<times> string \<times> string" where
  "bindingKey n \<equiv> (''ClusterRoleBinding'', '''', n)"

definition binding_kept :: "('q k8sobj \<Rightarrow> 'q k8sobj \<Rightarrow> bool) \<Rightarrow> bool" where
  "binding_kept rel \<longleftrightarrow> (\<forall>m subs ref x. rel (ClusterRoleBindingObj m subs ref) x \<longrightarrow>
     (\<exists>m'. x = ClusterRoleBindingObj m' subs ref \<and> m_labels m \<subseteq>\<^sub>m m_labels m'))"

definition labelled :: "('k \<rightharpoonup> 'q k8sobj) \<Rightarrow> (string \<Rightarrow> 'k) \<Rightarrow> string \<Rightarrow> string \<Rightarrow> string \<Rightarrow> bool" where
  "labelled os key us n role \<longleftrightarrow> (\<exists>m subs ref. os (key n) = Some (ClusterRoleBindingObj m subs ref) \<and>
     rr_name ref = role \<and> m_labels m userSpaceLabel = Some us)"

locale us_laws = applier_laws "uc_applier cl" objs objKey rel
  for cl :: "('q, 's) us_client" and objs :: "'s \<Rightarrow> string \<times> string \<times> string \<rightharpoonup> 'q k8sobj"
    and stat :: "'s \<Rightarrow> string \<rightharpoonup> userspace_status" and rel :: "'q k8sobj \<Rightarrow> 'q k8sobj \<Rightarrow> bool" +
  assumes bindings_kept: "binding_kept rel"
    and apply_stat: "ap_apply (uc_applier cl) d s = (r, s') \<Longrightarrow> stat s' = stat s"
    and binding_deleted: "uc_deleteBinding cl n s = (None, s') \<Longrightarrow> objs s' = (objs s)(bindingKey n := None) \<and> stat s' = stat s"
    and binding_delete_refused: "uc_deleteBinding cl n s = (Some e, s') \<Longrightarrow> objs s' = objs s \<and> stat s' = stat s \<and>
        (e = NotFound \<longrightarrow> objs s (bindingKey n) = None)"
    and status_written: "uc_patchStatus cl us s = (None, s') \<Longrightarrow> stat s' = (stat s)(us_name us \<mapsto> us_status us) \<and> objs s' = objs s"
    and status_refused: "uc_patchStatus cl us s = (Some e, s') \<Longrightarrow> stat s' = stat s \<and> objs s' = objs s"
    and bindings_listed: "uc_listBindings cl u s = Inr xs \<Longrightarrow> set xs = {(n, role). labelled (objs s) bindingKey u n role}"

section \<open>Lemmas\<close>

lemma withdraw_ok:
  assumes l: "us_laws cl objs stat rel" and "withdraw cl granted xs s = (None, s')"
  shows "objs s' k = (if \<exists>n role. (n, role) \<in> set xs \<and> k = bindingKey n \<and> HasPrefix n adminBindingPrefix \<and> role \<notin> set granted
     then None else objs s k) \<and> stat s' = stat s"
  using assms(2)
proof (induction xs arbitrary: s)
  case (Cons x xs)
  obtain n role where x: "x = (n, role)" by force
  show ?case
  proof (cases "\<not> HasPrefix n adminBindingPrefix \<or> role \<in> set granted")
    case True
    with Cons x show ?thesis by auto
  next
    case False
    obtain e t where t: "uc_deleteBinding cl n s = (e, t)" by fastforce
    with Cons.prems x False have run: "withdraw cl granted xs t = (None, s')" and e: "e = None \<or> e = Some NotFound"
      by (auto split: option.splits if_splits elim: IsNotFound.elims)
    from l t e have "objs t = (objs s)(bindingKey n := None)" "stat t = stat s"
      unfolding us_laws_def us_laws_axioms_def by (metis (no_types, lifting) fun_upd_idem_iff)+
    with Cons.IH [OF run] x False show ?thesis by auto
  qed
qed simp

lemma us_applyOwned_stat:
  "us_laws cl objs stat rel \<Longrightarrow> applyOwned (uc_applier cl) own d s = (r, s') \<Longrightarrow> stat s' = stat s"
  by (auto simp: applyOwned_def us_laws_def us_laws_axioms_def split: sum.splits prod.splits option.splits)

lemma us_applyAll_stat:
  assumes "us_laws cl objs stat rel" and "applyAll (uc_applier cl) own ds s = (r, s')"
  shows "stat s' = stat s"
  using assms(2)
proof (induction ds arbitrary: s)
  case (Cons d ds)
  obtain e t where t: "applyOwned (uc_applier cl) own d s = (e, t)" by fastforce
  from us_applyOwned_stat [OF assms(1) t] Cons t show ?case by (cases e) auto
qed simp

lemma admin_key_inj: "objKey (buildAdministratorBinding us r) = objKey (buildAdministratorBinding us r') \<longleftrightarrow> r = r'"
  by (simp add: buildAdministratorBinding_def objKey_def)

definition grantedRoles :: "'q us_env \<Rightarrow> 'q userspace \<Rightarrow> string list" where
  "grantedRoles env us = (if EffectiveRole (us_spec us) = UserSpaceRoleAdmin then ue_AdminClusterRoles env else [])"

lemma reconcileRoleGrants_ok:
  assumes l: "us_laws cl objs stat rel" and run: "reconcileRoleGrants cl env us s = (None, s')"
  shows "(\<forall>n role. HasPrefix n adminBindingPrefix \<and> labelled (objs s') bindingKey (us_name us) n role \<longrightarrow> role \<in> set (grantedRoles env us)) \<and>
    (\<forall>r\<in>set (grantedRoles env us). \<exists>m. objs s' (objKey (buildAdministratorBinding us r)) =
       Some (ClusterRoleBindingObj m [sessionSubject us] \<lparr>rr_kind = ''ClusterRole'', rr_name = r\<rparr>)) \<and>
    stat s' = stat s"
proof -
  let ?g = "grantedRoles env us" and ?b = "buildAdministratorBinding us"
  obtain s1 xs where ap: "applyAll (uc_applier cl) us (map ?b ?g) s = (None, s1)"
    and ls: "uc_listBindings cl (us_name us) s1 = Inr xs" and wd: "withdraw cl ?g xs s1 = (None, s')"
    using run by (auto simp: reconcileRoleGrants_def grantedRoles_def Let_def split: prod.splits option.splits sum.splits)
  have xs: "set xs = {(n, role). labelled (objs s1) bindingKey (us_name us) n role}"
    using l ls by (simp add: us_laws_def us_laws_axioms_def)
  note W = withdraw_ok [OF l wd]
  have al: "applier_laws (uc_applier cl) objs objKey rel" and bk: "binding_kept rel" using l by (simp_all add: us_laws_def us_laws_axioms_def)
  have old: "labelled (objs s1) bindingKey (us_name us) n role"
    if "labelled (objs s') bindingKey (us_name us) n role" for n role
    using that W [of "bindingKey n"] unfolding labelled_def by (metis option.distinct(1))
  have a: "role \<in> set ?g" if p: "HasPrefix n adminBindingPrefix" and lb: "labelled (objs s') bindingKey (us_name us) n role" for n role
  proof (rule ccontr)
    assume "role \<notin> set ?g"
    with W [of "bindingKey n"] old [OF lb] p xs have "objs s' (bindingKey n) = None" by auto
    with lb show False by (simp add: labelled_def)
  qed
  have b: "\<exists>m. objs s' (objKey (?b r)) = Some (ClusterRoleBindingObj m [sessionSubject us] \<lparr>rr_kind = ''ClusterRole'', rr_name = r\<rparr>)"
    if r: "r \<in> set ?g" for r
  proof -
    from applier_laws.applyAll_ok [OF al ap, of "objKey (?b r)"] r obtain d x where "d \<in> set (map ?b ?g)" "objKey d = objKey (?b r)"
      and x: "objs s1 (objKey (?b r)) = Some x" "rel d x" by auto
    then have "d = ?b r" using admin_key_inj [of us] by auto
    with x(2) bk obtain m where m: "x = ClusterRoleBindingObj m [sessionSubject us] \<lparr>rr_kind = ''ClusterRole'', rr_name = r\<rparr>"
      unfolding binding_kept_def buildAdministratorBinding_def by blast
    have "\<not> (\<exists>n role. (n, role) \<in> set xs \<and> objKey (?b r) = bindingKey n \<and> HasPrefix n adminBindingPrefix \<and> role \<notin> set ?g)"
      using x(1) r unfolding xs m by (auto simp: labelled_def objKey_def buildAdministratorBinding_def)
    with W [of "objKey (?b r)"] x(1) m show ?thesis by auto
  qed
  show ?thesis using a b W us_applyAll_stat [OF l ap] by auto
qed

text \<open>The stages of a run that returned no error.\<close>

lemma us_degraded_errs: "us_degraded cl env us e s \<noteq> ([], t)"
  by (auto simp: us_degraded_def split: prod.splits option.splits)

lemma us_provision_ok:
  assumes "us_provision cl env us s = ([], s')"
  obtains api ps s1 s2 us' where "apiServerEgress cl s = Inr api" "pullSecrets cl env s = Inr ps"
    "applyChildren cl env us api ps s = (None, s1)" "reconcileRoleGrants cl env us s1 = (None, s2)"
    "us_markReady cl env us s2 = (None, us', s')"
  using assms
  by (auto simp: us_provision_def us_degraded_errs split: sum.splits prod.splits option.splits)

lemma us_patchStatus_ok:
  assumes "us_laws cl objs stat rel" and "us_patchStatus cl env us phase conds s = (None, us', s')"
  shows "us_spec us' = us_spec us \<and> us_meta us' = us_meta us \<and> objs s' = objs s \<and>
    stat s' = (stat s)(us_name us \<mapsto> us_status us') \<and> ust_state (us_status us') = phase \<and>
    ust_namespace (us_status us') = NamespaceName us \<and> ust_observedGeneration (us_status us') = m_generation (us_meta us) \<and>
    ust_conditions (us_status us') = setConditions (ue_setCond env) (m_generation (us_meta us)) (ust_conditions (us_status us)) conds"
  using assms by (auto simp: us_patchStatus_def Let_def us_laws_def us_laws_axioms_def namespaceFor_def split: prod.splits option.splits)

lemma EffectiveRole_cong: "us_spec a = us_spec b \<Longrightarrow> us_meta a = us_meta b \<Longrightarrow>
   NamespaceName a = NamespaceName b \<and> grantedRoles env a = grantedRoles env b \<and>
   objKey (buildAdministratorBinding a r) = objKey (buildAdministratorBinding b r) \<and> sessionSubject a = sessionSubject b"
  by (simp add: NamespaceName_def grantedRoles_def objKey_def buildAdministratorBinding_def sessionSubject_def saSubject_def namespaceFor_def)

lemma us_Reconcile_ok:
  assumes l: "us_laws cl objs stat rel" and "uc_get cl name s = Inr us" "m_deletion (us_meta us) = None"
    and "us_Reconcile cl env name s = ([], s')"
  obtains us0 s0 where "us_provision cl env us0 s0 = ([], s')" "us_spec us0 = us_spec us" "us_meta us0 = us_meta us"
proof (cases "ust_state (us_status us) = ''''")
  case True
  with assms obtain us0 s0 where p: "us_patchStatus cl env us UserSpaceStatePending [] s = (None, us0, s0)"
    "us_provision cl env us0 s0 = ([], s')"
    by (auto simp: us_Reconcile_def split: prod.splits option.splits)
  with us_patchStatus_ok [OF l p(1)] that show ?thesis by blast
next
  case False
  with assms that [of us s] show ?thesis by (simp add: us_Reconcile_def)
qed

lemma foldl_to: "eg_to (foldl (\<lambda>rl addr. rl\<lparr>eg_to := eg_to rl @ [hostPeer addr]\<rparr>) rl ep) = eg_to rl @ map hostPeer ep"
  by (induction ep arbitrary: rl) auto

lemma foldl_eps: "eg_to (foldl (\<lambda>rl ep. foldl (\<lambda>rl addr. rl\<lparr>eg_to := eg_to rl @ [hostPeer addr]\<rparr>) rl ep) rl eps) =
    eg_to rl @ map hostPeer (concat eps)"
  by (induction eps arbitrary: rl) (auto simp: foldl_to)

lemma foldl_ports: "eg_to (foldl (\<lambda>rl port. case port of None \<Rightarrow> rl | Some p \<Rightarrow> rl\<lparr>eg_ports := eg_ports rl @ [(None, p)]\<rparr>) rl ps) = eg_to rl"
  by (induction ps arbitrary: rl) (auto split: option.splits)

lemma foldl_slices:
  "eg_to (foldl (\<lambda>rl slice.
     let rl = foldl (\<lambda>rl ep. foldl (\<lambda>rl addr. rl\<lparr>eg_to := eg_to rl @ [hostPeer addr]\<rparr>) rl ep) rl (es_endpoints slice)
     in foldl (\<lambda>rl port. case port of None \<Rightarrow> rl | Some p \<Rightarrow> rl\<lparr>eg_ports := eg_ports rl @ [(None, p)]\<rparr>) rl (es_ports slice))
     rl slices) = eg_to rl @ map hostPeer (concat (concat (map es_endpoints slices)))"
  by (induction slices arbitrary: rl) (simp_all add: Let_def foldl_ports foldl_eps)

lemma apiServerEgress_peers: "apiServerEgress cl s = Inr (Some r) \<Longrightarrow> eg_to r \<noteq> []"
  by (auto simp: apiServerEgress_def Let_def split: sum.splits prod.splits if_splits)

section \<open>Properties\<close>

text \<open>
  (C6) Demotion takes effect: after any reconcile of a live UserSpace that returned no error, every
  administrator binding that carries its label refers to a role the UserSpace is granted now. For one
  that is not an administrator there is none left, including bindings to roles no longer configured;
  for an administrator each configured role is bound, to the session account only.
\<close>

theorem role_grants_follow_role:
  assumes l: "us_laws cl objs stat rel" and us: "uc_get cl name s = Inr us" "m_deletion (us_meta us) = None"
    and run: "us_Reconcile cl env name s = ([], s')"
  shows "(\<forall>n role. HasPrefix n ''dwpk-administrator-'' \<and> labelled (objs s') bindingKey (us_name us) n role \<longrightarrow>
      us_role (us_spec us) = ''admin'' \<and> role \<in> set (ue_AdminClusterRoles env)) \<and>
    (us_role (us_spec us) = ''admin'' \<longrightarrow> (\<forall>r\<in>set (ue_AdminClusterRoles env).
      \<exists>m. objs s' (bindingKey (''dwpk-administrator-'' @ r @ ''-'' @ us_name us)) =
        Some (ClusterRoleBindingObj m [sessionSubject us] \<lparr>rr_kind = ''ClusterRole'', rr_name = r\<rparr>)))"
proof -
  from us_Reconcile_ok [OF l us run] obtain us0 s0 where p: "us_provision cl env us0 s0 = ([], s')"
    and e: "us_spec us0 = us_spec us" "us_meta us0 = us_meta us" .
  from us_provision_ok [OF p] obtain api ps s1 s2 us' where g: "reconcileRoleGrants cl env us0 s1 = (None, s2)"
    and m: "us_markReady cl env us0 s2 = (None, us', s')" .
  have o: "objs s' = objs s2" using us_patchStatus_ok [OF l m [unfolded us_markReady_def]] by simp
  have "set (grantedRoles env us) = (if us_role (us_spec us) = ''admin'' then set (ue_AdminClusterRoles env) else {})"
    by (simp add: grantedRoles_def EffectiveRole_def UserSpaceRoleAdmin_def UserSpaceRoleUser_def)
  with reconcileRoleGrants_ok [OF l g] EffectiveRole_cong [OF e] e show ?thesis
    unfolding o by (auto simp: adminBindingPrefix_def objKey_def buildAdministratorBinding_def split: if_splits)
qed

text \<open>
  What a successful reconcile reports: state \<^verbatim>\<open>Ready\<close>, the namespace the UserSpace names, the
  generation acted on, and a true Ready condition with it.
\<close>

theorem ready_reported:
  assumes l: "us_laws cl objs stat rel" and c: "setCond_law (ue_setCond env)"
    and us: "uc_get cl name s = Inr us" "m_deletion (us_meta us) = None"
    and run: "us_Reconcile cl env name s = ([], s')"
  shows "\<exists>st r. stat s' (us_name us) = Some st \<and> ust_state st = ''Ready'' \<and> ust_namespace st = NamespaceName us \<and>
    ust_observedGeneration st = m_generation (us_meta us) \<and>
    findCond (ust_conditions st) ''Ready'' = Some r \<and> c_status r \<and> c_generation r = m_generation (us_meta us)"
proof -
  have sc: "findCond (ue_setCond env cs x) k = (if k = c_type x then Some x else findCond cs k)" for cs x k
    using c by (simp add: setCond_law_def)
  from us_Reconcile_ok [OF l us run] obtain us0 s0 where p: "us_provision cl env us0 s0 = ([], s')"
    and e: "us_spec us0 = us_spec us" "us_meta us0 = us_meta us" .
  from us_provision_ok [OF p] obtain s2 us' where m: "us_markReady cl env us0 s2 = (None, us', s')" .
  from us_patchStatus_ok [OF l m [unfolded us_markReady_def]] EffectiveRole_cong [OF e] e show ?thesis
    by (auto simp: UserSpaceStateReady_def setConditions_def sc mkCond_def)
qed

text \<open>
  The namespace is claimed before it exists: the first thing a reconcile of a new UserSpace
  writes is the state \<^verbatim>\<open>Pending\<close> together with the namespace, so from then on the admission check treats
  it as provisioned, even if every later step fails.
\<close>

theorem namespace_claimed_before_provisioned:
  assumes l: "us_laws cl objs stat rel" and us: "uc_get cl name s = Inr us" "m_deletion (us_meta us) = None"
    and new: "ust_state (us_status us) = ''''"
    and patch: "us_patchStatus cl env us UserSpaceStatePending [] s = (None, us1, s1)"
    and api: "uc_getAPIService cl s1 = Inl err"
    and run: "us_Reconcile cl env name s = (errs, s')"
  shows "\<exists>st. stat s' (us_name us) = Some st \<and> ust_namespace st = NamespaceName us \<and> objs s' = objs s \<and> errs \<noteq> []"
proof -
  note P = us_patchStatus_ok [OF l patch]
  have r: "us_Reconcile cl env name s = us_degraded cl env us1 (GetServiceErr err) s1"
    using us new patch api by (simp add: us_Reconcile_def us_provision_def apiServerEgress_def)
  obtain e us2 s2 where d: "us_markDegraded cl env us1 (GetServiceErr err) s1 = (e, us2, s2)" by (cases "us_markDegraded cl env us1 (GetServiceErr err) s1") auto
  have "errs \<noteq> []" "s' = s2" using run r d by (auto simp: us_degraded_def split: option.splits)
  moreover have "\<exists>st. stat s2 (us_name us) = Some st \<and> ust_namespace st = NamespaceName us \<and> objs s2 = objs s1"
  proof (cases e)
    case None
    from us_patchStatus_ok [OF l d [unfolded us_markDegraded_def None]] P show ?thesis
      by (auto simp: NamespaceName_def)
  next
    case (Some x)
    with d l have "stat s2 = stat s1 \<and> objs s2 = objs s1"
      by (auto simp: us_markDegraded_def us_patchStatus_def Let_def us_laws_def us_laws_axioms_def split: prod.splits option.splits)
    with P show ?thesis by simp
  qed
  ultimately show ?thesis using P by simp
qed

text \<open>
  The API server rule a policy gets never permits everything: it names the Service's address
  and every endpoint address, as single hosts, and when there are none there is no rule; so in the
  isolated posture the network policy of a reconcile has no rule without peers.
\<close>

theorem api_rule_names_hosts:
  assumes "uc_getAPIService cl s = Inr (ports, ip)" and "uc_listSlices cl s = Inr slices"
    and "apiServerEgress cl s = Inr api" and "us_networkPolicy (us_spec us) \<noteq> ''ClusterEgress''"
  shows "(case api of None \<Rightarrow> concat (concat (map es_endpoints slices)) = [] \<and> ip \<in> {'''', ''None''}
     | Some r \<Rightarrow> eg_to r = (if ip \<in> {'''', ''None''} then [] else [hostPeer ip]) @
         map hostPeer (concat (concat (map es_endpoints slices))) \<and> eg_to r \<noteq> []) \<and>
    (\<exists>m egress. buildNetworkPolicy us api = NetworkPolicyObj m [PodPeer None []] egress \<and> (\<forall>r\<in>set egress. eg_to r \<noteq> []))"
proof -
  have a: "\<forall>r. api = Some r \<longrightarrow> eg_to r \<noteq> []" using apiServerEgress_peers [of cl s] assms(3) by auto
  have "case api of None \<Rightarrow> concat (concat (map es_endpoints slices)) = [] \<and> ip \<in> {'''', ''None''}
     | Some r \<Rightarrow> eg_to r = (if ip \<in> {'''', ''None''} then [] else [hostPeer ip]) @
         map hostPeer (concat (concat (map es_endpoints slices)))"
    using assms(3) by (auto simp: apiServerEgress_def assms(1,2) Let_def foldl_slices [unfolded Let_def] split: if_splits)
  then show ?thesis using a assms(4)
    by (auto simp: buildNetworkPolicy_def Let_def NetworkPolicyClusterEgress_def dnsEgressRule_def offClusterEgressRule_def
        split: option.splits)
qed

section \<open>Witnesses\<close>

text \<open>A cluster in memory: the owned objects as a list and the statuses as a map.\<close>

record 'q us_mem =
  um_objs :: "'q k8sobj list"
  um_stat :: "string \<rightharpoonup> userspace_status"

definition bindingRefs :: "string \<Rightarrow> 'q k8sobj list \<Rightarrow> (string \<times> string) list" where
  "bindingRefs u os = concat (map (\<lambda>ob. case ob of
      ClusterRoleBindingObj m subs ref \<Rightarrow>
        if m_namespace m = '''' \<and> m_labels m userSpaceLabel = Some u then [(m_name m, rr_name ref)] else []
    | _ \<Rightarrow> []) (mem_select objKey (\<lambda>_. True) os))"

definition mem_us_client :: "'q userspace \<Rightarrow> bool \<Rightarrow> ('q, 'q us_mem) us_client" where
  "mem_us_client us apiOk =
     \<lparr>uc_get = (\<lambda>n s. Inr us), uc_getPlatform = (\<lambda>s. Inl NotFound),
      uc_getAPIService = (\<lambda>s. if apiOk then Inr ([443], ''10.96.0.1'') else Inl NotFound),
      uc_listSlices = (\<lambda>s. Inr [\<lparr>es_endpoints = [[''10.0.0.5'']], es_ports = [Some 6443]\<rparr>]),
      uc_listPullSecrets = (\<lambda>ns s. Inr []),
      uc_applier = \<lparr>ap_setControllerReference = (\<lambda>own d. Inr d), ap_toUnstructured = Inr,
        ap_apply = (\<lambda>d s. (None, s\<lparr>um_objs := d # um_objs s\<rparr>))\<rparr>,
      uc_listBindings = (\<lambda>u s. Inr (bindingRefs u (um_objs s))),
      uc_deleteBinding = (\<lambda>n s. case mem_del objKey (bindingKey n) (um_objs s) of (e, os) \<Rightarrow> (e, s\<lparr>um_objs := os\<rparr>)),
      uc_patchStatus = (\<lambda>u s. (None, s\<lparr>um_stat := (um_stat s)(us_name u \<mapsto> us_status u)\<rparr>)),
      uc_listUserSpaces = (\<lambda>s. Inr [us])\<rparr>"

lemma objKey_binding:
  "objKey x = bindingKey n \<longleftrightarrow> (\<exists>m subs ref. x = ClusterRoleBindingObj m subs ref \<and> m_namespace m = '''' \<and> m_name m = n)"
  by (cases x) (auto simp: objKey_def)

lemma mem_select_find: "x \<in> set (mem_select key (\<lambda>_. True) s) \<longleftrightarrow> mem_find key s (key x) = Some x"
proof
  assume "x \<in> set (mem_select key (\<lambda>_. True) s)"
  then obtain y where "y \<in> set s" "x = the (mem_find key s (key y))" by (auto simp: mem_select_def)
  with mem_find_key [of y s key] show "mem_find key s (key x) = Some x" by auto
next
  assume a: "mem_find key s (key x) = Some x"
  with mem_find_SomeD [OF a] show "x \<in> set (mem_select key (\<lambda>_. True) s)"
    by (auto simp: mem_select_def intro!: image_eqI [of _ _ "key x"])
qed

lemma bindingRefs_set: "set (bindingRefs u os) = {(n, role). labelled (mem_find objKey os) bindingKey u n role}"
proof -
  have "(n, role) \<in> set (bindingRefs u os) \<longleftrightarrow> labelled (mem_find objKey os) bindingKey u n role" for n role
  proof -
    have "(n, role) \<in> set (bindingRefs u os) \<longleftrightarrow> (\<exists>m subs ref. mem_find objKey os (bindingKey n) = Some (ClusterRoleBindingObj m subs ref) \<and>
        m_namespace m = '''' \<and> m_name m = n \<and> rr_name ref = role \<and> m_labels m userSpaceLabel = Some u)"
      by (fastforce simp: bindingRefs_def mem_select_find objKey_def split: k8sobj.splits if_splits)
    also have "\<dots> \<longleftrightarrow> labelled (mem_find objKey os) bindingKey u n role"
      unfolding labelled_def using mem_find_SomeD [of objKey os "bindingKey n"] by (auto simp: objKey_def)
    finally show ?thesis .
  qed
  then show ?thesis by auto
qed

lemma mem_us_laws: "us_laws (mem_us_client us b) (\<lambda>s. mem_find objKey (um_objs s)) um_stat (=)"
  unfolding us_laws_def us_laws_axioms_def applier_laws_def binding_kept_def
  by (auto simp: mem_us_client_def mem_find_Cons mem_del_def mem_find_filter bindingRefs_set split: if_splits prod.splits)

interpretation mem_userspaces: us_laws "mem_us_client us b" "\<lambda>s. mem_find objKey (um_objs s)" um_stat "(=)" for us b
  by (rule mem_us_laws)

definition demo_us_env :: "int us_env" where
  "demo_us_env = \<lparr>ue_AdminClusterRoles = [''dwpk-admin''], ue_PullSecretNamespace = '''', ue_mustParse = (\<lambda>_. 1),
     ue_setCond = mem_setCond, ue_errText = (\<lambda>_. ''failed'')\<rparr>"

text \<open>A former administrator: bound to a current and to a retired role, and no longer in the role.\<close>

definition demo_demoted :: "int us_mem" where
  "demo_demoted = \<lparr>um_objs = [buildAdministratorBinding demo_us ''dwpk-admin'', buildAdministratorBinding demo_us ''retired''],
     um_stat = Map.empty\<rparr>"

abbreviation demo_us_run :: "int userspace \<Rightarrow> userror list \<times> int us_mem" where
  "demo_us_run u \<equiv> us_Reconcile (mem_us_client u True) demo_us_env ''ana'' demo_demoted"

definition demo_admin :: "int userspace" where
  "demo_admin = demo_us\<lparr>us_spec := (us_spec demo_us)\<lparr>us_role := ''admin''\<rparr>\<rparr>"

lemma mem_us_applyAll: "\<exists>s'. applyAll (uc_applier (mem_us_client u b)) own ds s = (None, s')"
  by (induction ds arbitrary: s) (simp_all add: applyOwned_def mem_us_client_def)

lemma mem_us_withdraw: "\<exists>s'. withdraw (mem_us_client u b) g xs s = (None, s')"
  by (induction xs arbitrary: s) (auto simp: mem_us_client_def mem_del_def)

lemma mem_us_patch: "\<exists>us' s'. us_patchStatus (mem_us_client u b) env us phase conds s = (None, us', s')"
  by (simp add: us_patchStatus_def mem_us_client_def Let_def)

lemma mem_us_provision:
  assumes "ue_PullSecretNamespace env = ''''"
  shows "fst (us_provision (mem_us_client u True) env us s) = []"
proof -
  obtain api where a: "apiServerEgress (mem_us_client u True) s = Inr api"
    by (simp add: apiServerEgress_def mem_us_client_def)
  have p: "pullSecrets (mem_us_client u True) env s = Inr []" using assms by (simp add: pullSecrets_def)
  obtain s1 where "applyAll (uc_applier (mem_us_client u True)) us
      (userSpaceChildren (ue_mustParse env) us (us_gpuResource (mem_us_client u True) s) api []) s = (None, s1)"
    using mem_us_applyAll by blast
  then have c: "applyChildren (mem_us_client u True) env us api [] s = (None, s1)" by (simp add: applyChildren_def)
  obtain s2 where g: "applyAll (uc_applier (mem_us_client u True)) us (map (buildAdministratorBinding us) (grantedRoles env us)) s1 = (None, s2)"
    using mem_us_applyAll [of u True us _ s1] by blast
  obtain s3 where w: "withdraw (mem_us_client u True) (grantedRoles env us) (bindingRefs (us_name us) (um_objs s2)) s2 = (None, s3)"
    using mem_us_withdraw by blast
  have "uc_listBindings (mem_us_client u True) (us_name us) s2 = Inr (bindingRefs (us_name us) (um_objs s2))"
    by (simp add: mem_us_client_def)
  with g w have r: "reconcileRoleGrants (mem_us_client u True) env us s1 = (None, s3)"
    by (simp add: reconcileRoleGrants_def grantedRoles_def [symmetric] Let_def)
  obtain us' s4 where m: "us_markReady (mem_us_client u True) env us s3 = (None, us', s4)"
    using mem_us_patch unfolding us_markReady_def by blast
  show ?thesis by (simp add: us_provision_def a p c r m)
qed

lemma demo_us_run_ok:
  assumes "m_deletion (us_meta u) = None" "ust_state (us_status u) \<noteq> ''''"
  shows "demo_us_run u = ([], snd (demo_us_run u))"
proof -
  have "demo_us_run u = us_provision (mem_us_client u True) demo_us_env u demo_demoted"
    using assms by (simp add: us_Reconcile_def mem_us_client_def)
  with mem_us_provision [of demo_us_env u u demo_demoted] show ?thesis
    by (metis (no_types, lifting) demo_us_env_def prod.collapse us_env.select_convs(2))
qed

lemma demo_us_runs:
  "demo_us_run demo_us = ([], snd (demo_us_run demo_us))" "demo_us_run demo_admin = ([], snd (demo_us_run demo_admin))"
  by (rule demo_us_run_ok; simp add: demo_us_def demo_admin_def meta0_def)+

lemma demo_us_reads: "uc_get (mem_us_client u b) n s = Inr u" "m_deletion (us_meta demo_us) = None" "m_deletion (us_meta demo_admin) = None"
  by (simp_all add: mem_us_client_def demo_us_def demo_admin_def meta0_def)

theorem role_grants_follow_role_witness:
  "\<not> labelled (mem_find objKey (um_objs (snd (demo_us_run demo_us)))) bindingKey ''ana'' ''dwpk-administrator-retired-ana'' ''retired'' \<and>
   mem_find objKey (um_objs (snd (demo_us_run demo_admin))) (bindingKey ''dwpk-administrator-dwpk-admin-ana'') \<noteq> None"
proof -
  have n: "us_name demo_us = ''ana''" "us_name demo_admin = ''ana''" "us_role (us_spec demo_us) = ''user''"
    "us_role (us_spec demo_admin) = ''admin''" "ue_AdminClusterRoles demo_us_env = [''dwpk-admin'']"
    by (simp_all add: demo_us_def demo_admin_def meta0_def demo_us_env_def)
  show ?thesis
    using role_grants_follow_role [OF mem_us_laws demo_us_reads(1,2) demo_us_runs(1)]
      role_grants_follow_role [OF mem_us_laws demo_us_reads(1,3) demo_us_runs(2)]
    by (auto simp: n HasPrefix_def)
qed

theorem ready_reported_witness:
  "\<exists>st. um_stat (snd (demo_us_run demo_us)) ''ana'' = Some st \<and> ust_state st = ''Ready'' \<and> ust_namespace st = ''dwpk-ana''"
proof -
  have "setCond_law (ue_setCond demo_us_env)" by (simp add: demo_us_env_def mem_setCond_law)
  moreover have "us_name demo_us = ''ana''" "NamespaceName demo_us = ''dwpk-ana''"
    by (simp_all add: demo_us_def meta0_def NamespaceName_def NamespacePrefix_def)
  ultimately show ?thesis
    using ready_reported [OF mem_us_laws _ demo_us_reads(1,2) demo_us_runs(1)] by fastforce
qed

theorem api_rule_names_hosts_witness:
  "\<exists>r. apiServerEgress (mem_us_client demo_us True) demo_demoted = Inr (Some r) \<and>
     eg_to r = [IPPeer ''10.96.0.1/32'' [], IPPeer ''10.0.0.5/32'' []]"
proof -
  have "apiServerEgress (mem_us_client demo_us True) demo_demoted = Inr (Some \<lparr>eg_to = [hostPeer ''10.96.0.1'', hostPeer ''10.0.0.5''],
      eg_ports = [(None, 443), (None, 6443)]\<rparr>)"
    by (simp add: apiServerEgress_def mem_us_client_def Let_def)
  from api_rule_names_hosts [OF _ _ this, of "[443]" "''10.96.0.1''" "[\<lparr>es_endpoints = [[''10.0.0.5'']], es_ports = [Some 6443]\<rparr>]" demo_us] this
  show ?thesis by (simp add: mem_us_client_def hostPeer_def demo_us_def)
qed

definition demo_new :: "int userspace" where
  "demo_new = demo_us\<lparr>us_status := (us_status demo_us)\<lparr>ust_state := '''', ust_namespace := ''''\<rparr>\<rparr>"

theorem namespace_claimed_before_provisioned_witness:
  "\<exists>st. um_stat (snd (us_Reconcile (mem_us_client demo_new False) demo_us_env ''ana'' demo_demoted)) ''ana'' = Some st \<and>
     ust_namespace st = ''dwpk-ana''"
proof -
  let ?p = "us_patchStatus (mem_us_client demo_new False) demo_us_env demo_new UserSpaceStatePending [] demo_demoted"
  have p: "?p = (None, fst (snd ?p), snd (snd ?p))"
    by (simp add: us_patchStatus_def mem_us_client_def Let_def)
  have n: "m_deletion (us_meta demo_new) = None" "ust_state (us_status demo_new) = ''''" "us_name demo_new = ''ana''"
    "NamespaceName demo_new = ''dwpk-ana''"
    by (simp_all add: demo_new_def demo_us_def meta0_def NamespaceName_def NamespacePrefix_def)
  have "uc_getAPIService (mem_us_client demo_new False) t = Inl NotFound" for t by (simp add: mem_us_client_def)
  from namespace_claimed_before_provisioned [OF mem_us_laws demo_us_reads(1) n(1,2) p this prod.collapse [symmetric]]
  show ?thesis using n by fastforce
qed

end
