(* ===== verification/Gateway.thy ===== *)
theory Gateway
  imports WorkspaceObjects WorkspaceController
begin

text \<open>
  The SSH gateway (\<^verbatim>\<open>src/internal/gateway\<close>): authenticate a connection against the Workspaces' keys,
  open sessions and forwards into the one pod that belongs to it, and bound what unauthenticated
  clients can hold open.

  \<^verbatim>\<open>ssh.ParseAuthorizedKey\<close> is the parameter \<open>parse\<close>, which gives a key's wire encoding; a public key is
  its wire encoding. The Kubernetes calls are the fields of \<open>gw_client\<close>; streams, listeners and the
  transport are not modelled. A session is a state machine over the events its goroutines see.
\<close>

section \<open>Resolving a key (pod_resolver.go)\<close>

record 'q workspacetarget =
  wt_workspace :: "'q workspace"
  wt_podNamespace :: string
  wt_podName :: string

datatype resolveerr = MissingUsername | NoMatch string | NoKeyMatch | MultipleMatches string "string list"

definition publicKeysEqual :: "string \<Rightarrow> string \<Rightarrow> bool" where
  "publicKeysEqual left right = (if length left \<noteq> length right then False else left = right)"

definition workspaceAuthorizesKey :: "(string \<Rightarrow> string option) \<Rightarrow> 'q workspace \<Rightarrow> string \<Rightarrow> bool" where
  "workspaceAuthorizesKey parse ws publicKey =
     list_ex (\<lambda>line. case parse line of None \<Rightarrow> False | Some authorizedKey \<Rightarrow> publicKeysEqual publicKey authorizedKey)
       (ws_keys (ws_spec ws))"

definition targetOf :: "'q workspace \<Rightarrow> 'q workspacetarget" where
  "targetOf ws = \<lparr>wt_workspace = ws, wt_podNamespace = ws_ns ws, wt_podName = PodName ws\<rparr>"

definition pickOne :: "resolveerr \<Rightarrow> string \<Rightarrow> 'q workspacetarget list \<Rightarrow> resolveerr + 'q workspacetarget" where
  "pickOne none nm matches =
     (case matches of
        [] \<Rightarrow> Inl none
      | [m] \<Rightarrow> Inr m
      | _ \<Rightarrow> Inl (MultipleMatches nm (map (\<lambda>m. ws_ns (wt_workspace m) @ ''/'' @ ws_name (wt_workspace m)) matches)))"

definition ResolveWorkspaceTargetByNameAndPublicKey ::
    "(string \<Rightarrow> string option) \<Rightarrow> string \<Rightarrow> string \<Rightarrow> 'q workspace list \<Rightarrow> resolveerr + 'q workspacetarget" where
  "ResolveWorkspaceTargetByNameAndPublicKey parse workspaceName publicKey workspaces =
     (if workspaceName = '''' then Inl MissingUsername
      else pickOne (NoMatch workspaceName) workspaceName
        (concat (map (\<lambda>ws. if SSHUser ws \<noteq> workspaceName \<or> \<not> workspaceAuthorizesKey parse ws publicKey then []
           else [targetOf ws]) workspaces)))"

definition ResolveWorkspaceTargetByPublicKey ::
    "(string \<Rightarrow> string option) \<Rightarrow> string \<Rightarrow> 'q workspace list \<Rightarrow> resolveerr + 'q workspacetarget" where
  "ResolveWorkspaceTargetByPublicKey parse publicKey workspaces =
     pickOne NoKeyMatch ''''
       (concat (map (\<lambda>ws. if \<not> workspaceAuthorizesKey parse ws publicKey then [] else [targetOf ws]) workspaces))"

section \<open>Client\<close>

record podinfo =
  pi_namespace :: string
  pi_name :: string
  pi_labels :: strmap
  pi_containers :: "(string \<times> string) list"

record ('q, 's) gw_client =
  gc_list :: "'s \<Rightarrow> apierr + 'q workspace list"
  gc_get :: "string \<Rightarrow> string \<Rightarrow> 's \<Rightarrow> apierr + 'q workspace"
  gc_patchStatus :: "'q workspace \<Rightarrow> 's \<Rightarrow> apierr option \<times> 's"
  gc_getPod :: "string \<Rightarrow> string \<Rightarrow> 's \<Rightarrow> apierr + podinfo"

datatype gwerror =
    GwListErr apierr
  | GwResolveErr resolveerr
  | MissingPermissions
  | MissingMetadata
  | GwGetErr apierr
  | GwPatchErr apierr
  | GetPodErr apierr
  | PodNotLabelled string
  | NotReady string
  | ExitStatus int

section \<open>Authentication (server.go)\<close>

definition permissionWorkspaceNamespace :: string where
  "permissionWorkspaceNamespace = ''workspaceNamespace''"

definition permissionWorkspaceName :: string where
  "permissionWorkspaceName = ''workspaceName''"

definition publicKeyCallback ::
    "('q, 's) gw_client \<Rightarrow> (string \<Rightarrow> string option) \<Rightarrow> string \<Rightarrow> string \<Rightarrow> 's \<Rightarrow> gwerror + strmap" where
  "publicKeyCallback cl parse user key s =
     (case gc_list cl s of
        Inl err \<Rightarrow> Inl (GwListErr err)
      | Inr workspaces \<Rightarrow>
          (case ResolveWorkspaceTargetByNameAndPublicKey parse user key workspaces of
             Inl err \<Rightarrow> Inl (GwResolveErr err)
           | Inr target \<Rightarrow>
               Inr [permissionWorkspaceNamespace \<mapsto> ws_ns (wt_workspace target),
                    permissionWorkspaceName \<mapsto> ws_name (wt_workspace target)]))"

definition mapGet :: "strmap \<Rightarrow> string \<Rightarrow> string" where
  "mapGet m k = (case m k of None \<Rightarrow> '''' | Some v \<Rightarrow> v)"

definition workspaceKeyFromPermissions :: "strmap option \<Rightarrow> gwerror + string \<times> string" where
  "workspaceKeyFromPermissions permissions =
     (case permissions of
        None \<Rightarrow> Inl MissingPermissions
      | Some extensions \<Rightarrow>
          (let namespace = mapGet extensions permissionWorkspaceNamespace;
               name = mapGet extensions permissionWorkspaceName
           in if namespace = '''' \<or> name = '''' then Inl MissingMetadata else Inr (namespace, name)))"

definition gw_getWorkspace :: "('q, 's) gw_client \<Rightarrow> string \<times> string \<Rightarrow> 's \<Rightarrow> gwerror + 'q workspace" where
  "gw_getWorkspace cl key s =
     (case gc_get cl (fst key) (snd key) s of Inl err \<Rightarrow> Inl (GwGetErr err) | Inr ws \<Rightarrow> Inr ws)"

definition touchWorkspaceActivity ::
    "('q, 's) gw_client \<Rightarrow> gotime \<Rightarrow> string \<times> string \<Rightarrow> 's \<Rightarrow> gwerror option \<times> 's" where
  "touchWorkspaceActivity cl now key s =
     (case gw_getWorkspace cl key s of
        Inl err \<Rightarrow> (Some err, s)
      | Inr ws \<Rightarrow>
          (case gc_patchStatus cl (ws\<lparr>ws_status := (ws_status ws)\<lparr>wst_lastActivity := Some now\<rparr>\<rparr>) s of
             (Some err, s') \<Rightarrow> (Some (GwPatchErr err), s')
           | (None, s') \<Rightarrow> (None, s')))"

text \<open>A refusal is logged and forgotten.\<close>

definition recordActivity :: "('q, 's) gw_client \<Rightarrow> gotime \<Rightarrow> string \<times> string \<Rightarrow> 's \<Rightarrow> 's" where
  "recordActivity cl now key s = snd (touchWorkspaceActivity cl now key s)"

section \<open>The pod behind a workspace\<close>

definition workspaceIsReady :: "'q workspace \<Rightarrow> bool" where
  "workspaceIsReady ws \<longleftrightarrow> wst_state (ws_status ws) = WorkspaceStateRunning \<and> wst_podName (ws_status ws) \<noteq> ''''"

definition workspaceNotReadyMessage :: "'q workspace \<Rightarrow> string" where
  "workspaceNotReadyMessage ws =
     (let phase = wst_state (ws_status ws); phase = (if phase = '''' then WorkspaceStatePending else phase)
      in ''Workspace '' @ ws_name ws @ '' is not ready yet (phase: '' @ phase @ ''). Try again later.'' @ [CHR 13, CHR 10])"

record podtarget =
  pt_namespace :: string
  pt_name :: string
  pt_homePath :: string

definition containerWorkingDir :: "podinfo \<Rightarrow> string" where
  "containerWorkingDir pod =
     (case find (\<lambda>c. fst c = ContainerName) (pi_containers pod) of None \<Rightarrow> '''' | Some c \<Rightarrow> snd c)"

definition resolvePodTarget :: "('q, 's) gw_client \<Rightarrow> 'q workspace \<Rightarrow> 's \<Rightarrow> gwerror + podtarget" where
  "resolvePodTarget cl ws s =
     (let podName = wst_podName (ws_status ws); podName = (if podName = '''' then PodName ws else podName) in
      case gc_getPod cl (ws_ns ws) podName s of
        Inl err \<Rightarrow> Inl (GetPodErr err)
      | Inr pod \<Rightarrow>
          if mapGet (pi_labels pod) WorkspaceLabel \<noteq> ws_name ws then Inl (PodNotLabelled (pi_name pod))
          else Inr \<lparr>pt_namespace = pi_namespace pod, pt_name = pi_name pod, pt_homePath = containerWorkingDir pod\<rparr>)"

definition shellCmd :: "string \<Rightarrow> bool \<Rightarrow> string \<Rightarrow> string \<Rightarrow> string list" where
  \<open>shellCmd term tty homePath command =
     (let prelude = (if homePath \<noteq> ''''
            then ''export SHELL="$(command -v bash || command -v sh)"; export HOME='' @ goQuote homePath @ ''; cd "$HOME" 2>/dev/null || true;''
            else ''export SHELL="$(command -v bash || command -v sh)"; cd ${HOME:-/root} 2>/dev/null || true;'');
          prelude = (if tty then prelude @ '' export TERM='' @ goQuote term @ '';'' else prelude)
      in if command = '''' then [''/bin/sh'', ''-c'', prelude @ '' exec "$SHELL" -l'']
         else [''/bin/sh'', ''-c'', prelude @ '' '' @ command])\<close>

section \<open>Sizes\<close>

text \<open>The buffered channel of terminal sizes. A send on a closed channel panics, in a select too: \<open>None\<close>.\<close>

record sizequeue =
  sq_buf :: "(16 word \<times> 16 word) list"
  sq_closed :: bool

definition clampToUint16 :: "32 word \<Rightarrow> 16 word" where
  "clampToUint16 v = (if v > 65535 then 65535 else ucast v)"

definition sq_push :: "sizequeue \<Rightarrow> 32 word \<Rightarrow> 32 word \<Rightarrow> sizequeue option" where
  "sq_push q cols rows =
     (if sq_closed q then None
      else Some (if length (sq_buf q) < 4
                 then q\<lparr>sq_buf := sq_buf q @ [(clampToUint16 cols, clampToUint16 rows)]\<rparr> else q))"

text \<open>\<^verbatim>\<open>Next\<close> when it does not block: the next size, or nil from a closed and drained channel.\<close>

definition sq_Next :: "sizequeue \<Rightarrow> ((16 word \<times> 16 word) option \<times> sizequeue) option" where
  "sq_Next q =
     (case sq_buf q of
        sz # rest \<Rightarrow> Some (Some sz, q\<lparr>sq_buf := rest\<rparr>)
      | [] \<Rightarrow> if sq_closed q then Some (None, q) else None)"

definition sq_close :: "sizequeue \<Rightarrow> sizequeue" where
  "sq_close q = q\<lparr>sq_closed := True\<rparr>"

section \<open>Sessions\<close>

text \<open>
  What the goroutines of one session see: the client's requests in order (a payload that does not
  unmarshal is \<open>None\<close>), the start of the exec goroutine, its end with an exit code, and the end of the
  request stream, which the client decides.
\<close>

datatype sevent =
    ReqPty "(string \<times> 32 word \<times> 32 word) option"
  | ReqWindow "(32 word \<times> 32 word) option"
  | ReqEnv
  | ReqShell
  | ReqExec "string option"
  | ReqSignal
  | ReqOther string
  | ExecStart
  | ExecDone "32 word"
  | RequestsEnd

record session_st =
  se_tty :: bool
  se_term :: string
  se_sizes :: sizequeue
  se_pending :: "string list option"
  se_once :: bool
  se_running :: bool
  se_execs :: "(string list \<times> bool) list"
  se_exit :: "32 word option"
  se_replies :: "bool list"

definition session_init :: session_st where
  "session_init = \<lparr>se_tty = False, se_term = ''xterm-256color'', se_sizes = \<lparr>sq_buf = [], sq_closed = False\<rparr>,
     se_pending = None, se_once = False, se_running = False, se_execs = [], se_exit = None, se_replies = []\<rparr>"

definition reply :: "bool \<Rightarrow> session_st \<Rightarrow> session_st" where
  "reply b st = st\<lparr>se_replies := se_replies st @ [b]\<rparr>"

text \<open>\<^verbatim>\<open>start.Do\<close>: only the first call schedules the goroutine.\<close>

definition se_run :: "string list \<Rightarrow> session_st \<Rightarrow> session_st" where
  "se_run command st = (if se_once st then st else st\<lparr>se_once := True, se_pending := Some command\<rparr>)"

definition resize :: "32 word \<Rightarrow> 32 word \<Rightarrow> session_st \<Rightarrow> session_st option" where
  "resize cols rows st = map_option (\<lambda>q. st\<lparr>se_sizes := q\<rparr>) (sq_push (se_sizes st) cols rows)"

fun session_step :: "podtarget \<Rightarrow> session_st \<Rightarrow> sevent \<Rightarrow> session_st option" where
  "session_step tg st (ReqPty payload) =
     (case payload of
        None \<Rightarrow> Some (reply True st)
      | Some (term, cols, rows) \<Rightarrow> map_option (reply True) (resize cols rows (st\<lparr>se_tty := True, se_term := term\<rparr>)))"
| "session_step tg st (ReqWindow payload) =
     (case payload of
        None \<Rightarrow> Some (reply True st)
      | Some (cols, rows) \<Rightarrow> map_option (reply True) (resize cols rows st))"
| "session_step tg st ReqEnv = Some (reply True st)"
| "session_step tg st ReqShell = Some (se_run (shellCmd (se_term st) (se_tty st) (pt_homePath tg) '''') (reply True st))"
| "session_step tg st (ReqExec payload) =
     (case payload of
        None \<Rightarrow> Some (reply False st)
      | Some command \<Rightarrow> Some (se_run (shellCmd (se_term st) (se_tty st) (pt_homePath tg) command) (reply True st)))"
| "session_step tg st ReqSignal = Some (reply False st)"
| "session_step tg st (ReqOther t) = Some (reply False st)"
| "session_step tg st ExecStart =
     (case se_pending st of
        None \<Rightarrow> Some st
      | Some command \<Rightarrow> Some (st\<lparr>se_pending := None, se_running := True, se_execs := se_execs st @ [(command, se_tty st)]\<rparr>))"
| "session_step tg st (ExecDone code) =
     (if se_running st then Some (st\<lparr>se_running := False, se_exit := Some code, se_sizes := sq_close (se_sizes st)\<rparr>)
      else Some st)"
| "session_step tg st RequestsEnd = Some (st\<lparr>se_sizes := sq_close (se_sizes st)\<rparr>)"

fun session_run :: "podtarget \<Rightarrow> session_st \<Rightarrow> sevent list \<Rightarrow> session_st option" where
  "session_run tg st [] = Some st"
| "session_run tg st (e # es) = (case session_step tg st e of None \<Rightarrow> None | Some st' \<Rightarrow> session_run tg st' es)"

text \<open>Opening one: the exit code 1 with a message, or the target to run in.\<close>

definition gatewayErrorMessage :: "(gwerror \<Rightarrow> string) \<Rightarrow> gwerror \<Rightarrow> string" where
  "gatewayErrorMessage errText err = ''Gateway could not open Workspace session: '' @ errText err @ [CHR 13, CHR 10]"

definition session_open ::
    "('q, 's) gw_client \<Rightarrow> (gwerror \<Rightarrow> string) \<Rightarrow> 'q workspace \<Rightarrow> 's \<Rightarrow> (string \<times> 32 word) + podtarget" where
  "session_open cl errText ws s =
     (if \<not> workspaceIsReady ws then Inl (workspaceNotReadyMessage ws, 1)
      else case resolvePodTarget cl ws s of
        Inl err \<Rightarrow> Inl (gatewayErrorMessage errText err, 1)
      | Inr target \<Rightarrow> Inr target)"

section \<open>Exec and forwards\<close>

text \<open>The options of the exec request and of its streams; \<open>stream\<close> is what the API answers.\<close>

record podexec =
  pe_namespace :: string
  pe_pod :: string
  pe_container :: string
  pe_command :: "string list"
  pe_stdin :: bool
  pe_stdout :: bool
  pe_stderr :: bool
  pe_tty :: bool

datatype streamresult = NoExecutor | StreamOk | StreamExit int | StreamFailed

definition execWithIO :: "(podexec \<Rightarrow> streamresult) \<Rightarrow> podtarget \<Rightarrow> string list \<Rightarrow> bool \<Rightarrow> 32 word" where
  "execWithIO stream target command tty =
     (case stream \<lparr>pe_namespace = pt_namespace target, pe_pod = pt_name target, pe_container = ContainerName,
         pe_command = command, pe_stdin = True, pe_stdout = True, pe_stderr = (\<not> tty), pe_tty = tty\<rparr> of
        NoExecutor \<Rightarrow> 255 | StreamExit status \<Rightarrow> word_of_int status | StreamFailed \<Rightarrow> 255 | StreamOk \<Rightarrow> 0)"

definition isLoopbackForwardTarget :: "string \<Rightarrow> bool" where
  "isLoopbackForwardTarget destAddr = (destAddr \<in> {''localhost'', ''127.0.0.1'', ''::1''})"

datatype fwdresult = FwdRejected string | Forwarding podtarget "32 word"

text \<open>\<open>payload\<close> is the unmarshalled request, \<open>dial\<close> opens a port-forward stream.\<close>

definition directTCPIP ::
    "('q, 's) gw_client \<Rightarrow> (gwerror \<Rightarrow> string) \<Rightarrow> (podtarget \<Rightarrow> 32 word \<Rightarrow> string option) \<Rightarrow> 'q workspace \<Rightarrow>
     (string \<times> 32 word) option \<Rightarrow> 's \<Rightarrow> fwdresult" where
  "directTCPIP cl errText dial ws payload s =
     (if \<not> workspaceIsReady ws then FwdRejected (workspaceNotReadyMessage ws)
      else case resolvePodTarget cl ws s of
        Inl err \<Rightarrow> FwdRejected (errText err)
      | Inr target \<Rightarrow>
          (case payload of
             None \<Rightarrow> FwdRejected ''bad direct-tcpip payload''
           | Some (destAddr, destPort) \<Rightarrow>
               if isLoopbackForwardTarget destAddr then
                 (case dial target destPort of Some err \<Rightarrow> FwdRejected err | None \<Rightarrow> Forwarding target destPort)
               else FwdRejected (''direct-tcpip to '' @ goQuote destAddr @ '' refused: only the workspace'' @ [CHR 0x27] @
                 ''s own loopback is forwarded'')))"

section \<open>Connections\<close>

datatype chankind = SessionChannel | ForwardChannel | RejectedChannel

definition serveChannel :: "string \<Rightarrow> chankind" where
  "serveChannel channelType =
     (if channelType = ''session'' then SessionChannel
      else if channelType = ''direct-tcpip'' then ForwardChannel else RejectedChannel)"

text \<open>
  An authenticated connection: what it was given at the handshake, the Workspace its channels see and
  the state with the opening recorded, or that it was dropped.
\<close>

definition gw_serve ::
    "('q, 's) gw_client \<Rightarrow> gotime \<Rightarrow> strmap option \<Rightarrow> 's \<Rightarrow> (gwerror + 'q workspace) \<times> 's" where
  "gw_serve cl now permissions s =
     (case workspaceKeyFromPermissions permissions of
        Inl err \<Rightarrow> (Inl err, s)
      | Inr key \<Rightarrow>
          (case gw_getWorkspace cl key s of
             Inl err \<Rightarrow> (Inl err, s)
           | Inr ws \<Rightarrow> (Inr ws, recordActivity cl now key s)))"

definition maxConcurrentConnections :: nat where
  "maxConcurrentConnections = 256"

text \<open>The accept loop over the slots: an arriving connection is served or closed, a served one ends.\<close>

inductive conn_step :: "nat \<Rightarrow> nat \<Rightarrow> bool" where
  conn_accept: "n < maxConcurrentConnections \<Longrightarrow> conn_step n (Suc n)"
| conn_reject: "\<not> n < maxConcurrentConnections \<Longrightarrow> conn_step n n"
| conn_done: "conn_step (Suc n) n"

section \<open>The browser terminal (terminal.go)\<close>

definition OpenTerminal ::
    "('q, 's) gw_client \<Rightarrow> (podtarget \<Rightarrow> string list \<Rightarrow> 's \<Rightarrow> 32 word \<times> 's) \<Rightarrow> gotime \<Rightarrow> gotime \<Rightarrow>
     string \<times> string \<Rightarrow> string \<Rightarrow> 's \<Rightarrow> gwerror option \<times> 's" where
  "OpenTerminal cl exec opened closed key term s =
     (case gw_getWorkspace cl key s of
        Inl err \<Rightarrow> (Some err, s)
      | Inr ws \<Rightarrow>
          if \<not> workspaceIsReady ws then (Some (NotReady (wst_state (ws_status ws))), s)
          else
            let s1 = recordActivity cl opened key s in
            case resolvePodTarget cl ws s1 of
              Inl err \<Rightarrow> (Some err, recordActivity cl closed key s1)
            | Inr target \<Rightarrow>
                (case exec target (shellCmd term True (pt_homePath target) '''') s1 of
                   (exitCode, s2) \<Rightarrow>
                     (if exitCode \<noteq> 0 then Some (ExitStatus (uint exitCode)) else None, recordActivity cl closed key s2)))"

section \<open>Lemmas\<close>

lemma publicKeysEqual_iff [simp]: "publicKeysEqual a b \<longleftrightarrow> a = b"
  by (auto simp: publicKeysEqual_def)

lemma workspaceAuthorizesKey_iff: "workspaceAuthorizesKey parse ws k \<longleftrightarrow> (\<exists>l\<in>set (ws_keys (ws_spec ws)). parse l = Some k)"
  by (auto simp: workspaceAuthorizesKey_def list_ex_iff split: option.splits)

lemma concat_map_if_filter: "concat (map (\<lambda>x. if P x then [] else [f x]) xs) = map f (filter (\<lambda>x. \<not> P x) xs)"
  by (induction xs) auto

lemma pickOne_Inr: "pickOne e n ms = Inr m \<longleftrightarrow> ms = [m]"
  by (auto simp: pickOne_def split: list.splits)

lemma resolve_iff:
  "ResolveWorkspaceTargetByNameAndPublicKey parse u k wss = Inr t \<longleftrightarrow>
     u \<noteq> '''' \<and> (\<exists>ws. filter (\<lambda>ws. SSHUser ws = u \<and> workspaceAuthorizesKey parse ws k) wss = [ws] \<and> t = targetOf ws)"
  by (auto simp: ResolveWorkspaceTargetByNameAndPublicKey_def concat_map_if_filter pickOne_Inr map_eq_Cons_conv)

lemma session_run_append: "session_run tg st (a @ b) = (case session_run tg st a of None \<Rightarrow> None | Some st' \<Rightarrow> session_run tg st' b)"
  by (induction a arbitrary: st) (auto split: option.splits)

text \<open>A send on the size channel, in a request that can be unmarshalled.\<close>

fun isResize :: "sevent \<Rightarrow> bool" where
  "isResize (ReqPty (Some _)) = True"
| "isResize (ReqWindow (Some _)) = True"
| "isResize _ = False"

lemma session_step_None: "session_step tg st e = None \<longleftrightarrow> isResize e \<and> sq_closed (se_sizes st)"
  by (cases e) (auto simp: resize_def sq_push_def split: option.splits)

definition session_inv :: "session_st \<Rightarrow> bool" where
  "session_inv st \<longleftrightarrow> length (sq_buf (se_sizes st)) \<le> 4 \<and> length (se_execs st) \<le> 1 \<and>
     (se_pending st \<noteq> None \<longrightarrow> se_once st \<and> se_execs st = []) \<and> (se_execs st \<noteq> [] \<longrightarrow> se_once st)"

lemma session_inv_init: "session_inv session_init"
  by (simp add: session_inv_def session_init_def)

lemma session_inv_step: "session_inv st \<Longrightarrow> session_step tg st e = Some st' \<Longrightarrow> session_inv st'"
  by (cases e)
    (auto simp: session_inv_def resize_def sq_push_def reply_def se_run_def sq_close_def split: option.splits if_splits)

text \<open>One session as a transition system.\<close>

definition sess_step :: "podtarget \<Rightarrow> session_st \<Rightarrow> session_st \<Rightarrow> bool" where
  "sess_step tg st st' \<longleftrightarrow> (\<exists>e. session_step tg st e = Some st')"

interpretation sess: preserved "\<lambda>st. st = session_init" "sess_step tg" session_inv for tg
  by unfold_locales (auto simp: session_inv_init sess_step_def session_inv_step)

interpretation conns: preserved "\<lambda>n. n = 0" conn_step "\<lambda>n. n \<le> maxConcurrentConnections"
  by unfold_locales (auto elim: conn_step.cases)

lemma session_run_reach:
  "reach (\<lambda>st. st = session_init) (sess_step tg) st \<Longrightarrow> session_run tg st es = Some st' \<Longrightarrow>
   reach (\<lambda>st. st = session_init) (sess_step tg) st'"
proof (induction es arbitrary: st)
  case (Cons e es)
  then obtain t where "session_step tg st e = Some t" "session_run tg t es = Some st'" by (auto split: option.splits)
  with Cons reach_next [OF Cons.prems(1), of t] show ?case by (auto simp: sess_step_def)
qed simp

lemma resolvePodTarget_ok:
  assumes "resolvePodTarget cl ws s = Inr t"
  shows "\<exists>pod. gc_getPod cl (ws_ns ws) (if wst_podName (ws_status ws) = '''' then PodName ws else wst_podName (ws_status ws)) s = Inr pod \<and>
    pt_namespace t = pi_namespace pod \<and> pt_name t = pi_name pod \<and> mapGet (pi_labels pod) WorkspaceLabel = ws_name ws"
  using assms by (auto simp: resolvePodTarget_def Let_def split: sum.splits if_splits)

section \<open>Properties\<close>

text \<open>
  (C11) Authentication is sound and unambiguous: a connection is accepted only when exactly one
  Workspace in the cluster both answers to the offered user name and lists the offered key, and the
  permissions it is given name that Workspace; in particular two Workspaces that answer to one name
  and list one key refuse the connection rather than choosing.
\<close>


theorem authentication_exact:
  assumes "gc_list cl s = Inr wss"
  shows "((\<exists>p. publicKeyCallback cl parse user key s = Inr p) \<longleftrightarrow> user \<noteq> '''' \<and>
      length (filter (\<lambda>ws. SSHUser ws = user \<and> (\<exists>l\<in>set (ws_keys (ws_spec ws)). parse l = Some key)) wss) = 1) \<and>
    (\<forall>p. publicKeyCallback cl parse user key s = Inr p \<longrightarrow>
      (\<exists>ws\<in>set wss. SSHUser ws = user \<and> (\<exists>l\<in>set (ws_keys (ws_spec ws)). parse l = Some key) \<and>
        p = [''workspaceNamespace'' \<mapsto> ws_ns ws, ''workspaceName'' \<mapsto> ws_name ws]))"
proof -
  let ?m = "filter (\<lambda>ws. SSHUser ws = user \<and> (\<exists>l\<in>set (ws_keys (ws_spec ws)). parse l = Some key)) wss"
  have P: "publicKeyCallback cl parse user key s = Inr p \<longleftrightarrow> user \<noteq> '''' \<and> (\<exists>ws. ?m = [ws] \<and>
      p = [''workspaceNamespace'' \<mapsto> ws_ns ws, ''workspaceName'' \<mapsto> ws_name ws])" for p
  proof (cases "ResolveWorkspaceTargetByNameAndPublicKey parse user key wss")
    case (Inl e)
    then have "\<not> (user \<noteq> [] \<and> (\<exists>ws. ?m = [ws]))"
      using resolve_iff [of parse user key wss] unfolding workspaceAuthorizesKey_iff by (metis sum.distinct(1))
    with Inl show ?thesis by (auto simp: publicKeyCallback_def assms)
  next
    case (Inr t)
    with resolve_iff [of parse user key wss t] show ?thesis
      by (auto simp: publicKeyCallback_def assms workspaceAuthorizesKey_iff targetOf_def permissionWorkspaceNamespace_def
          permissionWorkspaceName_def)
  qed
  have "\<exists>ws\<in>set wss. SSHUser ws = user \<and> (\<exists>l\<in>set (ws_keys (ws_spec ws)). parse l = Some key) \<and>
        p = [''workspaceNamespace'' \<mapsto> ws_ns ws, ''workspaceName'' \<mapsto> ws_name ws]"
    if "publicKeyCallback cl parse user key s = Inr p" for p
  proof -
    from that P obtain ws where m: "?m = [ws]" and p: "p = [''workspaceNamespace'' \<mapsto> ws_ns ws, ''workspaceName'' \<mapsto> ws_name ws]" by auto
    from m have "ws \<in> set ?m" by simp
    with p show ?thesis by auto
  qed
  moreover have "(\<exists>p. publicKeyCallback cl parse user key s = Inr p) \<longleftrightarrow> user \<noteq> '''' \<and> length ?m = 1"
    unfolding P by (auto simp: length_Suc_conv)
  ultimately show ?thesis by blast
qed

text \<open>
  The handshake's result survives to the session: for a Workspace with a name and a namespace,
  the key read back from the permissions is the key of the Workspace that authenticated.
\<close>

theorem permissions_roundtrip:
  assumes "publicKeyCallback cl parse user key s = Inr p" and "gc_list cl s = Inr wss"
    and "\<forall>ws\<in>set wss. ws_ns ws \<noteq> '''' \<and> ws_name ws \<noteq> ''''"
  shows "\<exists>ws\<in>set wss. SSHUser ws = user \<and> workspaceAuthorizesKey parse ws key \<and>
    workspaceKeyFromPermissions (Some p) = Inr (ws_ns ws, ws_name ws)"
proof -
  from assms(1,2) obtain t where t: "ResolveWorkspaceTargetByNameAndPublicKey parse user key wss = Inr t"
    and p: "p = [''workspaceNamespace'' \<mapsto> ws_ns (wt_workspace t), ''workspaceName'' \<mapsto> ws_name (wt_workspace t)]"
    by (auto simp: publicKeyCallback_def permissionWorkspaceNamespace_def permissionWorkspaceName_def split: sum.splits)
  from t obtain ws where m: "filter (\<lambda>ws. SSHUser ws = user \<and> workspaceAuthorizesKey parse ws key) wss = [ws]" and "t = targetOf ws"
    by (auto simp: resolve_iff)
  from m have "ws \<in> set (filter (\<lambda>ws. SSHUser ws = user \<and> workspaceAuthorizesKey parse ws key) wss)" by simp
  with \<open>t = targetOf ws\<close> p assms(3) show ?thesis
    by (auto simp: workspaceKeyFromPermissions_def Let_def mapGet_def permissionWorkspaceNamespace_def
        permissionWorkspaceName_def targetOf_def)
qed

text \<open>
  (C24) A forward only ever reaches the workspace's own pod: it is opened only for a ready Workspace,
  to a loopback destination, into a pod of the Workspace's namespace that carries its label; every
  other destination is refused.
\<close>

theorem forward_stays_in_pod:
  assumes "directTCPIP cl errText dial ws payload s = Forwarding tg port"
  shows "workspaceIsReady ws \<and> dial tg port = None \<and>
    (\<exists>addr. payload = Some (addr, port) \<and> addr \<in> {''localhost'', ''127.0.0.1'', ''::1''}) \<and>
    (\<exists>pod n. gc_getPod cl (ws_ns ws) n s = Inr pod \<and> pt_namespace tg = pi_namespace pod \<and> pt_name tg = pi_name pod \<and>
       mapGet (pi_labels pod) ''dwpk.devops-ia.io/workspace'' = ws_name ws)"
proof -
  from assms obtain addr where a: "workspaceIsReady ws" "resolvePodTarget cl ws s = Inr tg" "dial tg port = None"
      "payload = Some (addr, port)" "isLoopbackForwardTarget addr"
    by (auto simp: directTCPIP_def split: if_splits sum.splits option.splits)
  with resolvePodTarget_ok [OF a(2)] show ?thesis
    by (auto simp: isLoopbackForwardTarget_def WorkspaceLabel_def)
qed

text \<open>
  (C23) A session runs at most one command, however many shell and exec requests arrive and however
  the goroutines interleave, and its queue of sizes never holds more than four.
\<close>

theorem session_runs_once:
  assumes "session_run tg session_init es = Some st"
  shows "length (se_execs st) \<le> 1 \<and> length (sq_buf (se_sizes st)) \<le> 4"
proof -
  have "reach (\<lambda>st. st = session_init) (sess_step tg) session_init" by (rule reach_start) simp
  from sess.inv_reach [OF session_run_reach [OF this assms]] show ?thesis by (simp add: session_inv_def)
qed

text \<open>
  When a session crashes the gateway: exactly when the client sends a terminal or window size
  after the size queue was closed, which the end of the command does; so a client that resizes once
  more after its command has ended brings the process down.
\<close>

theorem resize_after_exit_panics:
  "(session_run tg session_init es = None \<longleftrightarrow>
     (\<exists>pre e post st. es = pre @ e # post \<and> session_run tg session_init pre = Some st \<and> isResize e \<and> sq_closed (se_sizes st))) \<and>
   session_run tg session_init [ReqShell, ExecStart, ExecDone 0, ReqWindow (Some (80, 24))] = None"
proof -
  have "session_run tg st0 es = None \<longleftrightarrow>
     (\<exists>pre e post st. es = pre @ e # post \<and> session_run tg st0 pre = Some st \<and> isResize e \<and> sq_closed (se_sizes st))" for st0
  proof (induction es arbitrary: st0)
    case (Cons e es)
    show ?case
    proof (cases "session_step tg st0 e")
      case None
      then have "isResize e" "sq_closed (se_sizes st0)" by (simp_all add: session_step_None)
      then have "\<exists>pre x post st. e # es = pre @ x # post \<and> session_run tg st0 pre = Some st \<and> isResize x \<and> sq_closed (se_sizes st)"
        by (intro exI [of _ "[]"]) auto
      with None show ?thesis by simp
    next
      case (Some t)
      have "(\<exists>pre x post st. e # es = pre @ x # post \<and> session_run tg st0 pre = Some st \<and> isResize x \<and> sq_closed (se_sizes st)) \<longleftrightarrow>
        (\<exists>pre x post st. es = pre @ x # post \<and> session_run tg t pre = Some st \<and> isResize x \<and> sq_closed (se_sizes st))"
        (is "?L \<longleftrightarrow> ?R")
      proof
        assume ?L
        then obtain pre x post st where L: "e # es = pre @ x # post" "session_run tg st0 pre = Some st" "isResize x" "sq_closed (se_sizes st)"
          by blast
        with Some session_step_None [of tg st0 e] show ?R by (cases pre) auto
      next
        assume ?R
        then obtain pre x post st where "es = pre @ x # post" "session_run tg t pre = Some st" "isResize x" "sq_closed (se_sizes st)"
          by blast
        with Some show ?L by (intro exI [of _ "e # pre"] exI [of _ x] exI [of _ post] exI [of _ st]) simp
      qed
      with Some Cons.IH [of t] show ?thesis by simp
    qed
  qed simp
  note crash = this [of session_init]
  have "session_run tg session_init [ReqShell, ExecStart, ExecDone 0, ReqWindow (Some (80, 24))] = None"
    by (simp add: session_init_def se_run_def reply_def sq_close_def resize_def sq_push_def)
  with crash show ?thesis by (rule conjI)
qed

text \<open>
  At most 256 connections are served at once, and one is turned away only when all slots are
  taken.
\<close>

theorem connections_bounded:
  assumes "reach (\<lambda>n. n = 0) conn_step n"
  shows "n \<le> 256 \<and> (conn_step n n \<longleftrightarrow> n = 256)"
  using conns.inv_reach [OF assms] by (auto simp: maxConcurrentConnections_def elim: conn_step.cases intro: conn_reject)

text \<open>
  Terminal sizes saturate: the reported size is the client's when it fits 16 bits and the
  largest one otherwise, never a wrapped value.
\<close>

theorem clamp_saturates: "unat (clampToUint16 v) = min (unat v) 65535"
proof (cases "v > 65535")
  case True
  then have "unat v > 65535" by (simp add: word_less_nat_alt)
  with True show ?thesis by (simp add: clampToUint16_def)
next
  case False
  then have "unat v \<le> 65535" by (simp add: word_less_nat_alt)
  with False show ?thesis by (simp add: clampToUint16_def unsigned_ucast_eq take_bit_nat_eq_self min_def)
qed

text \<open>
  Recording activity never stops a terminal: whatever the status writes answer, a terminal opens
  for a ready Workspace whose pod can be resolved, runs the shell in that pod, and reports exactly
  the shell's exit code.
\<close>

theorem terminal_opens_despite_bookkeeping:
  assumes "gc_get cl (fst key) (snd key) s = Inr ws" and "workspaceIsReady ws"
    and "resolvePodTarget cl ws (recordActivity cl opened key s) = Inr tg"
    and "exec tg (shellCmd term True (pt_homePath tg) '''') (recordActivity cl opened key s) = (code, s2)"
  shows "OpenTerminal cl exec opened closed key term s =
    (if code = 0 then None else Some (ExitStatus (uint code)), recordActivity cl closed key s2)"
  using assms by (simp add: OpenTerminal_def gw_getWorkspace_def Let_def)

section \<open>Witnesses\<close>

definition demo_gw_ws :: "int workspace" where
  "demo_gw_ws = (demo_ws ''w'' 100)\<lparr>ws_spec := (ws_spec (demo_ws ''w'' 100))\<lparr>ws_keys := [''ssh-ed25519 AAA ana'']\<rparr>,
     ws_status := (ws_status (demo_ws ''w'' 100))\<lparr>wst_state := ''Running'', wst_podName := ''w-0''\<rparr>\<rparr>"

definition demo_gw :: "(int, unit) gw_client" where
  "demo_gw = \<lparr>gc_list = (\<lambda>s. Inr [demo_gw_ws, demo_ws ''other'' 100]), gc_get = (\<lambda>ns n s. Inr demo_gw_ws),
     gc_patchStatus = (\<lambda>ws s. (Some (ApiErr ''forbidden''), s)),
     gc_getPod = (\<lambda>ns n s. Inr \<lparr>pi_namespace = ns, pi_name = n, pi_labels = [''dwpk.devops-ia.io/workspace'' \<mapsto> ''w''],
        pi_containers = [(''workspace'', ''/home/dev'')]\<rparr>)\<rparr>"

definition demo_parse :: "string \<Rightarrow> string option" where
  "demo_parse l = (if HasPrefix l ''ssh-'' then Some (drop 12 l) else None)"

lemma demo_gw_auth: "publicKeyCallback demo_gw demo_parse ''ana-w'' ''AAA ana'' () =
    Inr [''workspaceNamespace'' \<mapsto> ''dwpk-ana'', ''workspaceName'' \<mapsto> ''w'']"
proof -
  have "ResolveWorkspaceTargetByNameAndPublicKey demo_parse ''ana-w'' ''AAA ana'' [demo_gw_ws, demo_ws ''other'' 100] = Inr (targetOf demo_gw_ws)"
    unfolding resolve_iff
    by (simp add: workspaceAuthorizesKey_iff demo_gw_ws_def demo_ws_def meta0_def SSHUser_def TrimPrefix_def HasPrefix_def
        NamespacePrefix_def demo_parse_def)
  then show ?thesis
    by (simp add: publicKeyCallback_def demo_gw_def targetOf_def demo_gw_ws_def demo_ws_def meta0_def
        permissionWorkspaceNamespace_def permissionWorkspaceName_def)
qed

theorem authentication_exact_witness:
  "length (filter (\<lambda>ws. SSHUser ws = ''ana-w'' \<and> (\<exists>l\<in>set (ws_keys (ws_spec ws)). demo_parse l = Some ''AAA ana''))
     [demo_gw_ws, demo_ws ''other'' 100]) = 1"
proof -
  have "gc_list demo_gw () = Inr [demo_gw_ws, demo_ws ''other'' 100]" by (simp add: demo_gw_def)
  from authentication_exact [OF this, of demo_parse "''ana-w''" "''AAA ana''"] demo_gw_auth show ?thesis by blast
qed

theorem permissions_roundtrip_witness:
  "workspaceKeyFromPermissions (Some [''workspaceNamespace'' \<mapsto> ''dwpk-ana'', ''workspaceName'' \<mapsto> ''w'']) = Inr (''dwpk-ana'', ''w'')"
proof -
  have l: "gc_list demo_gw () = Inr [demo_gw_ws, demo_ws ''other'' 100]" by (simp add: demo_gw_def)
  have "\<forall>ws\<in>set [demo_gw_ws, demo_ws ''other'' 100]. ws_ns ws \<noteq> '''' \<and> ws_name ws \<noteq> ''''"
    by (simp add: demo_gw_ws_def demo_ws_def meta0_def)
  from permissions_roundtrip [OF demo_gw_auth l this] show ?thesis
    by (auto simp: demo_gw_ws_def demo_ws_def meta0_def SSHUser_def TrimPrefix_def HasPrefix_def NamespacePrefix_def)
qed

theorem forward_stays_in_pod_witness:
  "\<exists>tg. directTCPIP demo_gw (\<lambda>_. '''') (\<lambda>_ _. None) demo_gw_ws (Some (''localhost'', 8080)) () = Forwarding tg 8080 \<and>
     workspaceIsReady demo_gw_ws"
proof -
  have "directTCPIP demo_gw (\<lambda>_. '''') (\<lambda>_ _. None) demo_gw_ws (Some (''localhost'', 8080)) () =
      Forwarding \<lparr>pt_namespace = ''dwpk-ana'', pt_name = ''w-0'', pt_homePath = ''/home/dev''\<rparr> 8080"
    by (simp add: directTCPIP_def workspaceIsReady_def resolvePodTarget_def demo_gw_def demo_gw_ws_def demo_ws_def meta0_def Let_def
        mapGet_def WorkspaceLabel_def WorkspaceStateRunning_def containerWorkingDir_def ContainerName_def isLoopbackForwardTarget_def)
  from forward_stays_in_pod [OF this] this show ?thesis by blast
qed

theorem session_runs_once_witness:
  "\<exists>st. session_run \<lparr>pt_namespace = ''n'', pt_name = ''p'', pt_homePath = ''/h''\<rparr> session_init
     [ReqShell, ReqExec (Some ''ls''), ExecStart, ReqShell, ExecStart] = Some st \<and> length (se_execs st) \<le> 1"
proof -
  let ?r = "session_run \<lparr>pt_namespace = ''n'', pt_name = ''p'', pt_homePath = ''/h''\<rparr> session_init
     [ReqShell, ReqExec (Some ''ls''), ExecStart, ReqShell, ExecStart]"
  have "?r \<noteq> None" by (simp add: se_run_def reply_def session_init_def)
  then obtain st where "?r = Some st" by blast
  with session_runs_once [OF this] show ?thesis by blast
qed

theorem connections_bounded_witness: "conn_step 0 1 \<and> (2 :: nat) \<le> 256"
proof -
  have s: "conn_step 0 1" "conn_step 1 2" using conn_accept [of 0] conn_accept [of 1] by (simp_all add: maxConcurrentConnections_def numeral_2_eq_2)
  have "reach (\<lambda>n. n = 0) conn_step 2"
    by (rule reach_next [OF reach_next [OF reach_start]]) (use s in auto)
  from connections_bounded [OF this] s show ?thesis by simp
qed

theorem terminal_opens_despite_bookkeeping_witness:
  "fst (OpenTerminal demo_gw (\<lambda>tg c s. (3, s)) 1 2 (''dwpk-ana'', ''w'') ''xterm'' ()) = Some (ExitStatus 3)"
proof -
  have g: "gc_get demo_gw (fst (''dwpk-ana'', ''w'')) (snd (''dwpk-ana'', ''w'')) () = Inr demo_gw_ws" "workspaceIsReady demo_gw_ws"
    by (simp_all add: demo_gw_def workspaceIsReady_def demo_gw_ws_def WorkspaceStateRunning_def)
  have r: "resolvePodTarget demo_gw demo_gw_ws (recordActivity demo_gw 1 (''dwpk-ana'', ''w'') ()) =
      Inr \<lparr>pt_namespace = ''dwpk-ana'', pt_name = ''w-0'', pt_homePath = ''/home/dev''\<rparr>"
    by (simp add: resolvePodTarget_def demo_gw_def demo_gw_ws_def demo_ws_def meta0_def Let_def
        mapGet_def WorkspaceLabel_def containerWorkingDir_def ContainerName_def)
  from terminal_opens_despite_bookkeeping [OF g r, of "\<lambda>tg c s. (3, s)" "''xterm''" 3 "()" 2] show ?thesis by simp
qed

end
