(* ===== verification/SecretStore.thy ===== *)
theory SecretStore
  imports ApiTypes
begin

text \<open>
  The Secrets of one namespace as the authentication code uses them: the client calls as a record over
  an abstract state, what the theorems need of them, and a store in memory for the witnesses.

  A Secret is its name, its labels and its data; a name that the server generates is empty on create.
  Libraries that are not code of this repository are the fields of \<open>authlib\<close>: the digest of
  \<^verbatim>\<open>crypto/sha256\<close> in hexadecimal, bcrypt, random values, and the RFC 3339 format of a time.
\<close>

record ksecret =
  ks_name :: string
  ks_generateName :: string
  ks_labels :: strmap
  ks_data :: strmap

definition dataGet :: "ksecret \<Rightarrow> string \<Rightarrow> string" where
  "dataGet x k = (case ks_data x k of None \<Rightarrow> '''' | Some v \<Rightarrow> v)"

record 's sec_client =
  sc_list :: "(string \<times> string) option \<Rightarrow> 's \<Rightarrow> apierr + ksecret list"
  sc_create :: "ksecret \<Rightarrow> 's \<Rightarrow> (apierr + string) \<times> 's"
  sc_delete :: "string \<Rightarrow> 's \<Rightarrow> apierr option \<times> 's"
  sc_patch :: "ksecret \<Rightarrow> 's \<Rightarrow> apierr option \<times> 's"
  sc_get :: "string \<Rightarrow> 's \<Rightarrow> apierr + ksecret"

record authlib =
  al_sha256 :: "string \<Rightarrow> string"
  al_bcryptHash :: "string \<Rightarrow> string \<Rightarrow> string + string"
  al_bcryptCompare :: "string \<Rightarrow> string \<Rightarrow> bool"
  al_format :: "gotime \<Rightarrow> string"
  al_parse :: "string \<Rightarrow> gotime option"

section \<open>Laws\<close>

definition labelOf :: "(string \<times> string) option \<Rightarrow> ksecret \<Rightarrow> bool" where
  "labelOf sel x \<longleftrightarrow> (case sel of None \<Rightarrow> True | Some (k, v) \<Rightarrow> ks_labels x k = Some v)"

text \<open>
  \<open>sec\<close> observes the Secrets of a state by name. A listing has each matching one once; a create
  succeeds under a free name, the given one when there is one, and refuses a taken name; writes change
  exactly their object, failed ones nothing.
\<close>

locale sec_laws =
  fixes cl :: "'s sec_client" and sec :: "'s \<Rightarrow> string \<rightharpoonup> ksecret"
  assumes sec_name: "sec s n = Some x \<Longrightarrow> ks_name x = n"
    and list_all_once: "sc_list cl sel s = Inr xs \<Longrightarrow> distinct (map ks_name xs) \<and>
        (\<forall>x. x \<in> set xs \<longleftrightarrow> sec s (ks_name x) = Some x \<and> labelOf sel x)"
    and created: "sc_create cl x s = (Inr n, s') \<Longrightarrow> sec s n = None \<and> (ks_name x \<noteq> [] \<longrightarrow> n = ks_name x) \<and>
        sec s' = (sec s)(n \<mapsto> x\<lparr>ks_name := n\<rparr>)"
    and generated: "sc_create cl x s = (Inr n, s') \<Longrightarrow> ks_name x = [] \<Longrightarrow> \<exists>r. n = ks_generateName x @ r"
    and create_refused: "sc_create cl x s = (Inl e, s') \<Longrightarrow> sec s' = sec s"
    and deleted: "sc_delete cl n s = (None, s') \<Longrightarrow> sec s' = (sec s)(n := None)"
    and delete_refused: "sc_delete cl n s = (Some e, s') \<Longrightarrow> sec s' = sec s \<and> (e = NotFound \<longrightarrow> sec s n = None)"
    and patched: "sc_patch cl x s = (None, s') \<Longrightarrow> sec s' = (sec s)(ks_name x \<mapsto> x)"
    and patch_refused: "sc_patch cl x s = (Some e, s') \<Longrightarrow> sec s' = sec s"
    and got: "sc_get cl n s = Inr x \<Longrightarrow> sec s n = Some x"
    and got_none: "sc_get cl n s = Inl NotFound \<Longrightarrow> sec s n = None"
begin

lemma listed: "sc_list cl sel s = Inr xs \<Longrightarrow> x \<in> set xs \<longleftrightarrow> sec s (ks_name x) = Some x \<and> labelOf sel x"
  using list_all_once by blast

lemma listed_distinct: "sc_list cl sel s = Inr xs \<Longrightarrow> distinct (map ks_name xs)"
  using list_all_once by blast

text \<open>The callers treat a delete that finds nothing like one that succeeded.\<close>

lemma delete_gone: "sc_delete cl n s = (e, s') \<Longrightarrow> e = None \<or> e = Some NotFound \<Longrightarrow> sec s' = (sec s)(n := None)"
  using deleted [of n s s'] delete_refused [of n s NotFound s'] by (auto simp: fun_upd_idem)

end

section \<open>A store in memory\<close>

text \<open>Names are generated by appending as many zeros as it takes to be longer than any name.\<close>

definition freshName :: "string \<Rightarrow> ksecret list \<Rightarrow> string" where
  "freshName p xs = p @ replicate (Suc (sum_list (map (length \<circ> ks_name) xs))) (CHR ''0'')"

definition memFind :: "ksecret list \<Rightarrow> string \<rightharpoonup> ksecret" where
  "memFind xs n = find (\<lambda>x. ks_name x = n) xs"

definition mem_sec :: "ksecret list sec_client" where
  "mem_sec = \<lparr>sc_list = (\<lambda>sel s. if distinct (map ks_name s) then Inr (filter (labelOf sel) s) else Inl (ApiErr ''corrupt'')),
     sc_create = (\<lambda>x s. let n = (if ks_name x = '''' then freshName (ks_generateName x) s else ks_name x) in
        if n \<in> set (map ks_name s) then (Inl AlreadyExists, s) else (Inr n, s @ [x\<lparr>ks_name := n\<rparr>])),
     sc_delete = (\<lambda>n s. if n \<in> set (map ks_name s) then (None, filter (\<lambda>x. ks_name x \<noteq> n) s) else (Some NotFound, s)),
     sc_patch = (\<lambda>x s. if ks_name x \<in> set (map ks_name s) then (None, map (\<lambda>y. if ks_name y = ks_name x then x else y) s) else (Some NotFound, s)),
     sc_get = (\<lambda>n s. case memFind s n of None \<Rightarrow> Inl NotFound | Some x \<Rightarrow> Inr x)\<rparr>"

lemma memFind_SomeD: "memFind xs n = Some x \<Longrightarrow> ks_name x = n \<and> x \<in> set xs"
  by (auto simp: memFind_def find_Some_iff)

lemma memFind_iff: "distinct (map ks_name xs) \<Longrightarrow> memFind xs (ks_name x) = Some x \<longleftrightarrow> x \<in> set xs"
  by (induction xs) (auto simp: memFind_def)

lemma memFind_None: "memFind xs n = None \<longleftrightarrow> n \<notin> set (map ks_name xs)"
  by (auto simp: memFind_def find_None_iff)

lemma memFind_append: "memFind (xs @ ys) n = (case memFind xs n of None \<Rightarrow> memFind ys n | Some x \<Rightarrow> Some x)"
  by (induction xs) (auto simp: memFind_def)

lemma memFind_filter: "memFind (filter (\<lambda>x. ks_name x \<noteq> n) xs) = (memFind xs)(n := None)"
proof
  fix k show "memFind (filter (\<lambda>x. ks_name x \<noteq> n) xs) k = ((memFind xs)(n := None)) k"
    by (induction xs) (auto simp: memFind_def)
qed

lemma memFind_replace_other:
  "k \<noteq> ks_name x \<Longrightarrow> memFind (map (\<lambda>y. if ks_name y = ks_name x then x else y) xs) k = memFind xs k"
  by (induction xs) (simp_all add: memFind_def)

lemma memFind_replace_same:
  "ks_name x \<in> ks_name ` set xs \<Longrightarrow> memFind (map (\<lambda>y. if ks_name y = ks_name x then x else y) xs) (ks_name x) = Some x"
proof (induction xs)
  case (Cons y ys)
  then show ?case by (cases "ks_name y = ks_name x") (simp_all add: memFind_def)
qed simp

lemma memFind_replace:
  assumes "ks_name x \<in> ks_name ` set xs"
  shows "memFind (map (\<lambda>y. if ks_name y = ks_name x then x else y) xs) = (memFind xs)(ks_name x \<mapsto> x)"
proof
  fix k show "memFind (map (\<lambda>y. if ks_name y = ks_name x then x else y) xs) k = ((memFind xs)(ks_name x \<mapsto> x)) k"
    using memFind_replace_other [of k x xs] memFind_replace_same [OF assms] by (cases "k = ks_name x") simp_all
qed

lemma freshName_fresh: "freshName p xs \<notin> ks_name ` set xs"
proof
  assume "freshName p xs \<in> ks_name ` set xs"
  then obtain x where x: "x \<in> set xs" "freshName p xs = ks_name x" by auto
  from x(1) have "length (ks_name x) \<le> sum_list (map (length \<circ> ks_name) xs)"
    by (induction xs) auto
  moreover have "length (freshName p xs) > sum_list (map (length \<circ> ks_name) xs)" by (simp add: freshName_def)
  ultimately show False using x(2) by simp
qed

lemma mem_sec_create:
  assumes "sc_create mem_sec x s = (Inr n, s')"
  shows "memFind s n = None \<and> (ks_name x \<noteq> '''' \<longrightarrow> n = ks_name x) \<and> memFind s' = (memFind s)(n \<mapsto> x\<lparr>ks_name := n\<rparr>)"
proof -
  from assms have n: "n \<notin> ks_name ` set s" "ks_name x \<noteq> '''' \<longrightarrow> n = ks_name x" and s': "s' = s @ [x\<lparr>ks_name := n\<rparr>]"
    by (auto simp: mem_sec_def Let_def split: if_splits)
  from n(1) have none: "memFind s n = None" by (simp add: memFind_None)
  have "memFind s' k = ((memFind s)(n \<mapsto> x\<lparr>ks_name := n\<rparr>)) k" for k
    using none unfolding s' memFind_append by (simp add: memFind_def split: option.splits)
  with none n(2) show ?thesis by auto
qed

lemma mem_sec_list:
  assumes "sc_list mem_sec sel s = Inr xs"
  shows "distinct (map ks_name xs) \<and> (\<forall>x. x \<in> set xs \<longleftrightarrow> memFind s (ks_name x) = Some x \<and> labelOf sel x)"
proof -
  from assms have d: "distinct (map ks_name s)" and xs: "xs = filter (labelOf sel) s"
    by (auto simp: mem_sec_def split: if_splits)
  show ?thesis using d memFind_iff [OF d] unfolding xs by (auto simp: distinct_map_filter)
qed

lemma mem_sec_patch: "sc_patch mem_sec x s = (None, s') \<Longrightarrow> memFind s' = (memFind s)(ks_name x \<mapsto> x)"
  using memFind_replace [of x s] by (auto simp: mem_sec_def split: if_splits)

interpretation mem_secrets: sec_laws mem_sec memFind
proof
  fix sel s xs assume "sc_list mem_sec sel s = Inr xs"
  then show "distinct (map ks_name xs) \<and> (\<forall>x. x \<in> set xs \<longleftrightarrow> memFind s (ks_name x) = Some x \<and> labelOf sel x)"
    by (rule mem_sec_list)
next
  fix x s n s' assume "sc_create mem_sec x s = (Inr n, s')"
  then show "memFind s n = None \<and> (ks_name x \<noteq> [] \<longrightarrow> n = ks_name x) \<and> memFind s' = (memFind s)(n \<mapsto> x\<lparr>ks_name := n\<rparr>)"
    by (rule mem_sec_create)
next
  fix x s s' assume "sc_patch mem_sec x s = (None, s')"
  then show "memFind s' = (memFind s)(ks_name x \<mapsto> x)" by (rule mem_sec_patch)
qed (auto simp: mem_sec_def Let_def memFind_filter memFind_None freshName_def dest: memFind_SomeD split: if_splits option.splits)

lemma mem_sec_laws: "sec_laws mem_sec memFind"
  by (rule mem_secrets.sec_laws_axioms)

text \<open>A library whose digest is the text itself and whose times are written in unary, in seconds.\<close>

definition demo_authlib :: authlib where
  "demo_authlib = \<lparr>al_sha256 = (\<lambda>s. s), al_bcryptHash = (\<lambda>salt s. Inr (''b'' @ s)), al_bcryptCompare = (\<lambda>h s. h = ''b'' @ s),
     al_format = (\<lambda>t. replicate (nat (t div 1000000000)) (CHR ''s'')),
     al_parse = (\<lambda>s. if s = '''' \<or> set s \<noteq> {CHR ''s''} then None else Some (1000000000 * int (length s)))\<rparr>"

end
