(* ===== verification/Tokens.thy ===== *)
theory Tokens
  imports SecretStore
begin

text \<open>
  API tokens (\<^verbatim>\<open>src/internal/auth/apitoken.go\<close>, \<^verbatim>\<open>apitoken_store.go\<close>), single-use password reset links
  (\<^verbatim>\<open>reset.go\<close>) and the resolution of an owner to a UserSpace (\<^verbatim>\<open>owner_resolution.go\<close>). Both stores keep
  only hashes, as Secrets. The zero time is \<open>None\<close>, and so is what \<^verbatim>\<open>time.Parse\<close> leaves on an error.
\<close>

section \<open>API tokens\<close>

definition apiTokenPrefix :: string where
  "apiTokenPrefix = ''dwpk_''"

definition TokenKindAdmin :: string where
  "TokenKindAdmin = ''admin''"

definition TokenKindApplication :: string where
  "TokenKindApplication = ''application''"

text \<open>\<open>uuid\<close> is what the UUID library returned.\<close>

definition GenerateAPIToken :: "string + string \<Rightarrow> string + string" where
  "GenerateAPIToken uuid = (case uuid of Inl err \<Rightarrow> Inl err | Inr i \<Rightarrow> Inr (apiTokenPrefix @ i))"

definition HashAPIToken :: "authlib \<Rightarrow> string \<Rightarrow> string" where
  "HashAPIToken lib plaintext = al_sha256 lib plaintext"

definition LooksLikeAPIToken :: "string \<Rightarrow> bool" where
  "LooksLikeAPIToken bearer \<longleftrightarrow> length bearer > length apiTokenPrefix \<and> take (length apiTokenPrefix) bearer = apiTokenPrefix"

definition TokenKindLabel :: string where
  "TokenKindLabel = ''dwpk.devops-ia.io/token-kind''"

record tokengrant =
  tg_kind :: string
  tg_namespace :: string
  tg_account :: string
  tg_expiresAt :: "gotime option"

record tokenrecord =
  tr_secretName :: string
  tr_kind :: string
  tr_namespace :: string
  tr_account :: string
  tr_createdAt :: "gotime option"
  tr_expiresAt :: "gotime option"
  tr_plaintext :: string

datatype tokerr = GenerateTokenErr string | CreateTokenErr apierr | ListTokensErr apierr | TokenNotFound | RevokeErr apierr

definition recordFromSecret :: "authlib \<Rightarrow> ksecret \<Rightarrow> string \<Rightarrow> tokenrecord" where
  "recordFromSecret lib x kind =
     \<lparr>tr_secretName = ks_name x, tr_kind = kind, tr_namespace = dataGet x ''subject-namespace'',
      tr_account = dataGet x ''subject-service-account'', tr_createdAt = al_parse lib (dataGet x ''created-at''),
      tr_expiresAt = al_parse lib (dataGet x ''expires-at''), tr_plaintext = ''''\<rparr>"

definition tr_Expired :: "tokenrecord \<Rightarrow> gotime \<Rightarrow> bool" where
  "tr_Expired r now = (case tr_expiresAt r of None \<Rightarrow> False | Some t \<Rightarrow> now > t)"

definition tokenSecret :: "authlib \<Rightarrow> string \<Rightarrow> gotime \<Rightarrow> tokengrant \<Rightarrow> ksecret" where
  "tokenSecret lib plaintext createdAt grant =
     (let data = [''hash'' \<mapsto> HashAPIToken lib plaintext, ''subject-namespace'' \<mapsto> tg_namespace grant,
            ''subject-service-account'' \<mapsto> tg_account grant, ''created-at'' \<mapsto> al_format lib createdAt];
          data = (case tg_expiresAt grant of None \<Rightarrow> data | Some t \<Rightarrow> data(''expires-at'' \<mapsto> al_format lib t))
      in \<lparr>ks_name = '''', ks_generateName = ''dwpk-token-'', ks_labels = [TokenKindLabel \<mapsto> tg_kind grant], ks_data = data\<rparr>)"

definition tok_Issue ::
    "'s sec_client \<Rightarrow> authlib \<Rightarrow> string + string \<Rightarrow> gotime \<Rightarrow> tokengrant \<Rightarrow> 's \<Rightarrow> (tokerr + tokenrecord) \<times> 's" where
  "tok_Issue cl lib uuid now grant s =
     (case GenerateAPIToken uuid of
        Inl err \<Rightarrow> (Inl (GenerateTokenErr err), s)
      | Inr plaintext \<Rightarrow>
          (case sc_create cl (tokenSecret lib plaintext now grant) s of
             (Inl err, s') \<Rightarrow> (Inl (CreateTokenErr err), s')
           | (Inr name, s') \<Rightarrow>
               (Inr \<lparr>tr_secretName = name, tr_kind = tg_kind grant, tr_namespace = tg_namespace grant,
                  tr_account = tg_account grant, tr_createdAt = Some now, tr_expiresAt = tg_expiresAt grant,
                  tr_plaintext = plaintext\<rparr>, s')))"

fun tok_find :: "authlib \<Rightarrow> string \<Rightarrow> gotime \<Rightarrow> ksecret list \<Rightarrow> tokerr + tokenrecord" where
  "tok_find lib hash now [] = Inl TokenNotFound"
| "tok_find lib hash now (x # xs) =
     (case ks_labels x TokenKindLabel of
        None \<Rightarrow> tok_find lib hash now xs
      | Some kind \<Rightarrow>
          if dataGet x ''hash'' \<noteq> hash then tok_find lib hash now xs
          else let rec = recordFromSecret lib x kind in
               if tr_Expired rec now then Inl TokenNotFound else Inr rec)"

definition tok_Lookup :: "'s sec_client \<Rightarrow> authlib \<Rightarrow> gotime \<Rightarrow> string \<Rightarrow> 's \<Rightarrow> tokerr + tokenrecord" where
  "tok_Lookup cl lib now plaintext s =
     (case sc_list cl None s of
        Inl err \<Rightarrow> Inl (ListTokensErr err)
      | Inr secrets \<Rightarrow> tok_find lib (HashAPIToken lib plaintext) now secrets)"

definition tok_List :: "'s sec_client \<Rightarrow> authlib \<Rightarrow> string \<Rightarrow> string \<Rightarrow> 's \<Rightarrow> tokerr + tokenrecord list" where
  "tok_List cl lib kind subjectNamespace s =
     (case sc_list cl (Some (TokenKindLabel, kind)) s of
        Inl err \<Rightarrow> Inl (ListTokensErr err)
      | Inr secrets \<Rightarrow> Inr (concat (map (\<lambda>x.
          if subjectNamespace \<noteq> '''' \<and> dataGet x ''subject-namespace'' \<noteq> subjectNamespace then []
          else [recordFromSecret lib x kind]) secrets)))"

definition tok_Revoke :: "'s sec_client \<Rightarrow> string \<Rightarrow> 's \<Rightarrow> tokerr option \<times> 's" where
  "tok_Revoke cl secretName s =
     (case sc_delete cl secretName s of
        (Some err, s') \<Rightarrow> (if IsNotFound err then None else Some (RevokeErr err), s')
      | (None, s') \<Rightarrow> (None, s'))"

definition tok_HasAny :: "'s sec_client \<Rightarrow> authlib \<Rightarrow> string \<Rightarrow> 's \<Rightarrow> tokerr + bool" where
  "tok_HasAny cl lib kind s = (case tok_List cl lib kind '''' s of Inl err \<Rightarrow> Inl err | Inr records \<Rightarrow> Inr (length records > 0))"

section \<open>Password resets\<close>

definition ResetTokenLabel :: string where
  "ResetTokenLabel = ''dwpk.devops-ia.io/password-reset''"

definition resetTokenTTL :: duration where
  "resetTokenTTL = 24 * 60 * 60 * 1000000000"

datatype reseterr = ResetTokenInvalid | ListResetsErr apierr | ReplaceResetErr apierr | GenerateResetErr string
  | StoreResetErr apierr | ConsumeResetErr apierr

definition hashToken :: "authlib \<Rightarrow> string \<Rightarrow> string" where
  "hashToken lib plaintext = al_sha256 lib plaintext"

definition reset_expired :: "authlib \<Rightarrow> gotime \<Rightarrow> ksecret \<Rightarrow> bool" where
  "reset_expired lib now x = (case al_parse lib (dataGet x ''expires-at'') of None \<Rightarrow> True | Some deadline \<Rightarrow> now > deadline)"

fun clearFrom :: "'s sec_client \<Rightarrow> authlib \<Rightarrow> gotime \<Rightarrow> string \<Rightarrow> ksecret list \<Rightarrow> 's \<Rightarrow> reseterr option \<times> 's" where
  "clearFrom cl lib now username [] s = (None, s)"
| "clearFrom cl lib now username (x # xs) s =
     (if dataGet x ''username'' \<noteq> username \<and> \<not> reset_expired lib now x then clearFrom cl lib now username xs s
      else case sc_delete cl (ks_name x) s of
        (Some err, s') \<Rightarrow> if IsNotFound err then clearFrom cl lib now username xs s' else (Some (ReplaceResetErr err), s')
      | (None, s') \<Rightarrow> clearFrom cl lib now username xs s')"

definition clearStaleAndPrevious :: "'s sec_client \<Rightarrow> authlib \<Rightarrow> gotime \<Rightarrow> string \<Rightarrow> 's \<Rightarrow> reseterr option \<times> 's" where
  "clearStaleAndPrevious cl lib now username s =
     (case sc_list cl (Some (ResetTokenLabel, ''true'')) s of
        Inl err \<Rightarrow> (Some (ListResetsErr err), s)
      | Inr items \<Rightarrow> clearFrom cl lib now username items s)"

definition resetSecret :: "authlib \<Rightarrow> string \<Rightarrow> string \<Rightarrow> gotime \<Rightarrow> ksecret" where
  "resetSecret lib username plaintext expires =
     \<lparr>ks_name = '''', ks_generateName = ''dwpk-password-reset-'', ks_labels = [ResetTokenLabel \<mapsto> ''true''],
      ks_data = [''username'' \<mapsto> username, ''token-hash'' \<mapsto> hashToken lib plaintext, ''expires-at'' \<mapsto> al_format lib expires]\<rparr>"

text \<open>\<open>random\<close> is the encoded random value.\<close>

definition reset_Issue ::
    "'s sec_client \<Rightarrow> authlib \<Rightarrow> string + string \<Rightarrow> gotime \<Rightarrow> string \<Rightarrow> 's \<Rightarrow> (reseterr + string \<times> gotime) \<times> 's" where
  "reset_Issue cl lib random now username s =
     (case clearStaleAndPrevious cl lib now username s of
        (Some err, s1) \<Rightarrow> (Inl err, s1)
      | (None, s1) \<Rightarrow>
          (case random of
             Inl err \<Rightarrow> (Inl (GenerateResetErr err), s1)
           | Inr plaintext \<Rightarrow>
               let expires = now + resetTokenTTL in
               (case sc_create cl (resetSecret lib username plaintext expires) s1 of
                  (Inl err, s2) \<Rightarrow> (Inl (StoreResetErr err), s2)
                | (Inr _, s2) \<Rightarrow> (Inr (plaintext, expires), s2))))"

text \<open>A redemption reads the list, then deletes the record it found there.\<close>

definition reset_match :: "authlib \<Rightarrow> string \<Rightarrow> ksecret list \<Rightarrow> ksecret option" where
  "reset_match lib plaintext items = find (\<lambda>x. dataGet x ''token-hash'' = hashToken lib plaintext) items"

definition reset_consume :: "'s sec_client \<Rightarrow> authlib \<Rightarrow> gotime \<Rightarrow> ksecret option \<Rightarrow> 's \<Rightarrow> (reseterr + string) \<times> 's" where
  "reset_consume cl lib now found s =
     (case found of
        None \<Rightarrow> (Inl ResetTokenInvalid, s)
      | Some x \<Rightarrow>
          (let username = dataGet x ''username''; expired = reset_expired lib now x in
           case sc_delete cl (ks_name x) s of
             (Some err, s') \<Rightarrow>
               if \<not> IsNotFound err then (Inl (ConsumeResetErr err), s')
               else (if expired then Inl ResetTokenInvalid else Inr username, s')
           | (None, s') \<Rightarrow> (if expired then Inl ResetTokenInvalid else Inr username, s')))"

definition reset_Redeem :: "'s sec_client \<Rightarrow> authlib \<Rightarrow> gotime \<Rightarrow> string \<Rightarrow> 's \<Rightarrow> (reseterr + string) \<times> 's" where
  "reset_Redeem cl lib now plaintext s =
     (if plaintext = '''' then (Inl ResetTokenInvalid, s)
      else case sc_list cl (Some (ResetTokenLabel, ''true'')) s of
        Inl err \<Rightarrow> (Inl (ListResetsErr err), s)
      | Inr items \<Rightarrow> reset_consume cl lib now (reset_match lib plaintext items) s)"

section \<open>Owners\<close>

datatype ownererr = EmptyEmail | ListUserSpacesErr apierr | NoUserSpace string | MultipleUserSpaces string "string list"

definition ResolveByEmail :: "apierr + 'q userspace list \<Rightarrow> string \<Rightarrow> ownererr + 'q userspace" where
  "ResolveByEmail listed email =
     (let normalizedEmail = TrimSpace email in
      if normalizedEmail = '''' then Inl EmptyEmail
      else case listed of
        Inl err \<Rightarrow> Inl (ListUserSpacesErr err)
      | Inr items \<Rightarrow>
          (case filter (\<lambda>u. us_owner (us_spec u) = normalizedEmail) items of
             [] \<Rightarrow> Inl (NoUserSpace normalizedEmail)
           | [u] \<Rightarrow> Inr u
           | us \<Rightarrow> Inl (MultipleUserSpaces normalizedEmail (map us_name us))))"

section \<open>What a lookup finds\<close>

text \<open>RFC 3339 keeps whole seconds.\<close>

definition wholeSecond :: "gotime \<Rightarrow> gotime" where
  "wholeSecond t = t - t mod 1000000000"

definition roundtrips :: "authlib \<Rightarrow> gotime \<Rightarrow> bool" where
  "roundtrips lib t \<longleftrightarrow> al_parse lib (al_format lib t) = Some (wholeSecond t)"

definition isTokenFor :: "authlib \<Rightarrow> string \<Rightarrow> ksecret \<Rightarrow> bool" where
  "isTokenFor lib plaintext x \<longleftrightarrow> ks_labels x TokenKindLabel \<noteq> None \<and> dataGet x ''hash'' = HashAPIToken lib plaintext"

lemma tok_find_skip:
  "\<not> isTokenFor lib p x \<Longrightarrow> tok_find lib (HashAPIToken lib p) now (x # xs) = tok_find lib (HashAPIToken lib p) now xs"
  by (auto simp: isTokenFor_def split: option.splits)

lemma tok_find_none:
  "(\<And>x. x \<in> set xs \<Longrightarrow> \<not> isTokenFor lib p x) \<Longrightarrow> tok_find lib (HashAPIToken lib p) now xs = Inl TokenNotFound"
  by (induction xs) (simp_all add: tok_find_skip del: tok_find.simps(2))

lemma tok_find_one:
  assumes "x \<in> set xs" "ks_labels x TokenKindLabel = Some kind" "dataGet x ''hash'' = HashAPIToken lib p"
    "\<And>y. y \<in> set xs \<Longrightarrow> isTokenFor lib p y \<Longrightarrow> y = x"
  shows "tok_find lib (HashAPIToken lib p) now xs =
    (let r = recordFromSecret lib x kind in if tr_Expired r now then Inl TokenNotFound else Inr r)"
  using assms
proof (induction xs)
  case (Cons y ys)
  show ?case
  proof (cases "isTokenFor lib p y")
    case True
    with Cons.prems(4) [of y] have "y = x" by simp
    then show ?thesis using Cons.prems(2,3) by simp
  next
    case False
    with Cons.prems(1,2,3) have "x \<in> set ys" by (auto simp: isTokenFor_def)
    from Cons.IH [OF this Cons.prems(2,3)] Cons.prems(4) show ?thesis unfolding tok_find_skip [OF False] by simp
  qed
qed simp

lemma tok_Lookup_none:
  assumes "sec_laws cl sec" "sc_list cl None s = Inr xs" "\<And>n x. sec s n = Some x \<Longrightarrow> \<not> isTokenFor lib p x"
  shows "tok_Lookup cl lib now p s = Inl TokenNotFound"
proof -
  from sec_laws.listed [OF assms(1,2)] assms(3) have "\<And>x. x \<in> set xs \<Longrightarrow> \<not> isTokenFor lib p x" by auto
  from tok_find_none [OF this] assms(2) show ?thesis by (simp add: tok_Lookup_def)
qed

lemma tok_Lookup_one:
  assumes "sec_laws cl sec" "sc_list cl None s = Inr xs" "sec s n = Some x" "ks_labels x TokenKindLabel = Some kind"
    "dataGet x ''hash'' = HashAPIToken lib p" "\<And>m y. sec s m = Some y \<Longrightarrow> isTokenFor lib p y \<Longrightarrow> m = n"
  shows "tok_Lookup cl lib now p s =
    (let r = recordFromSecret lib x kind in if tr_Expired r now then Inl TokenNotFound else Inr r)"
proof -
  note l = sec_laws.listed [OF assms(1,2)] and nm = sec_laws.sec_name [OF assms(1)]
  have "x \<in> set xs" using l [of x] assms(3) nm [OF assms(3)] by (simp add: labelOf_def)
  moreover have "y = x" if "y \<in> set xs" "isTokenFor lib p y" for y
    using l [of y] that assms(3,6) by fastforce
  ultimately show ?thesis using tok_find_one [of x xs kind lib p now] assms(2,4,5) by (simp add: tok_Lookup_def)
qed

lemma tok_Issue_stored:
  assumes "sec_laws cl sec" "tok_Issue cl lib uuid now grant s = (Inr r, s')"
  shows "tr_plaintext r = apiTokenPrefix @ projr uuid" "sec s (tr_secretName r) = None"
    "sec s' = (sec s)(tr_secretName r \<mapsto> (tokenSecret lib (tr_plaintext r) now grant)\<lparr>ks_name := tr_secretName r\<rparr>)"
    "\<exists>i. uuid = Inr i"
  using assms(2) sec_laws.created [OF assms(1)]
  by (auto simp: tok_Issue_def GenerateAPIToken_def split: sum.splits prod.splits)

definition lookedUp :: "tokenrecord \<Rightarrow> tokenrecord" where
  "lookedUp r = r\<lparr>tr_createdAt := map_option wholeSecond (tr_createdAt r),
     tr_expiresAt := map_option wholeSecond (tr_expiresAt r), tr_plaintext := ''''\<rparr>"

lemma tok_Issue_record:
  assumes "tok_Issue cl lib uuid now grant s = (Inr r, s')"
    "roundtrips lib now" "\<And>t. tg_expiresAt grant = Some t \<Longrightarrow> roundtrips lib t" "al_parse lib '''' = None"
  shows "recordFromSecret lib ((tokenSecret lib (tr_plaintext r) now grant)\<lparr>ks_name := tr_secretName r\<rparr>) (tg_kind grant) = lookedUp r"
  using assms
  by (auto simp: tok_Issue_def recordFromSecret_def tokenSecret_def lookedUp_def dataGet_def roundtrips_def Let_def
      split: sum.splits prod.splits option.splits)

lemma isTokenFor_issued:
  "isTokenFor lib p ((tokenSecret lib p now grant)\<lparr>ks_name := n\<rparr>)"
  by (simp add: isTokenFor_def tokenSecret_def dataGet_def Let_def split: option.split)

text \<open>
  (C14) An API token works from its issue until its expiry or its revocation, whichever is first. When the
  hash of the new token is not yet stored, a lookup of its plaintext after the issue returns the record as issued
  (times at whole seconds, no plaintext) as long as the expiry is not past, and not found afterwards;
  the plaintext is recognised as a token by its prefix; and after a revocation of the Secret in any later state where
  no other Secret has that hash, every lookup answers not found, whatever the clock says.
\<close>
theorem token_lifecycle:
  assumes "sec_laws cl sec" "tok_Issue cl lib uuid now grant s = (Inr r, s')" "uuid \<noteq> Inr ''''"
    and "\<And>n x. sec s n = Some x \<Longrightarrow> \<not> isTokenFor lib (tr_plaintext r) x"
    and "roundtrips lib now" "\<And>t. tg_expiresAt grant = Some t \<Longrightarrow> roundtrips lib t" "al_parse lib '''' = None"
    and "sc_list cl None s' = Inr xs"
    and "tok_Revoke cl (tr_secretName r) s'' = (None, s3)" "sc_list cl None s3 = Inr ys"
    and "\<And>n x. n \<noteq> tr_secretName r \<Longrightarrow> sec s'' n = Some x \<Longrightarrow> \<not> isTokenFor lib (tr_plaintext r) x"
  shows "LooksLikeAPIToken (tr_plaintext r) \<and>
    tok_Lookup cl lib later (tr_plaintext r) s' =
      (if (\<exists>t. tg_expiresAt grant = Some t \<and> later > wholeSecond t) then Inl TokenNotFound else Inr (lookedUp r)) \<and>
    tok_Lookup cl lib anytime (tr_plaintext r) s3 = Inl TokenNotFound"
proof (intro conjI)
  note st = tok_Issue_stored [OF assms(1,2)]
  let ?x = "(tokenSecret lib (tr_plaintext r) now grant)\<lparr>ks_name := tr_secretName r\<rparr>"
  from st(1,4) assms(3) show "LooksLikeAPIToken (tr_plaintext r)" by (auto simp: LooksLikeAPIToken_def)
  have x: "sec s' (tr_secretName r) = Some ?x" using st(3) by simp
  have k: "ks_labels ?x TokenKindLabel = Some (tg_kind grant)" by (simp add: tokenSecret_def Let_def)
  have h: "dataGet ?x ''hash'' = HashAPIToken lib (tr_plaintext r)" using isTokenFor_issued by (simp add: isTokenFor_def)
  have u: "m = tr_secretName r" if "sec s' m = Some y" "isTokenFor lib (tr_plaintext r) y" for m y
    using that assms(4) [of m y] unfolding st(3) by (simp split: if_splits)
  have one: "tok_Lookup cl lib later (tr_plaintext r) s' = (if tr_Expired (lookedUp r) later then Inl TokenNotFound else Inr (lookedUp r))"
    using tok_Lookup_one [OF assms(1,8) x k h u, where now = later] tok_Issue_record [OF assms(2,5,6,7)] by simp
  have e: "tr_expiresAt r = tg_expiresAt grant" using assms(2) by (auto simp: tok_Issue_def split: sum.splits prod.splits)
  show "tok_Lookup cl lib later (tr_plaintext r) s' =
      (if (\<exists>t. tg_expiresAt grant = Some t \<and> later > wholeSecond t) then Inl TokenNotFound else Inr (lookedUp r))"
    unfolding one
    by (cases "tg_expiresAt grant") (simp_all add: tr_Expired_def lookedUp_def e)
  from assms(9) obtain e where "sc_delete cl (tr_secretName r) s'' = (e, s3)" "e = None \<or> e = Some NotFound"
    by (auto simp: tok_Revoke_def split: prod.splits option.splits if_splits elim!: IsNotFound.elims)
  from sec_laws.delete_gone [OF assms(1) this] assms(11)
  have "\<not> isTokenFor lib (tr_plaintext r) x" if "sec s3 n = Some x" for n x using that by (auto split: if_splits)
  from tok_Lookup_none [OF assms(1,10) this] show "tok_Lookup cl lib anytime (tr_plaintext r) s3 = Inl TokenNotFound" .
qed

text \<open>
  A stored expiry that cannot be read makes a token immortal: the record read from such a Secret has the
  zero expiry, so the lookup accepts the token at every time.
\<close>
theorem unparsable_expiry_never_expires:
  assumes "sec_laws cl sec" "sc_list cl None s = Inr xs" "sec s n = Some x" "ks_labels x TokenKindLabel = Some kind"
    and "dataGet x ''hash'' = HashAPIToken lib p" "\<And>m y. sec s m = Some y \<Longrightarrow> isTokenFor lib p y \<Longrightarrow> m = n"
    and "al_parse lib (dataGet x ''expires-at'') = None"
  shows "tok_Lookup cl lib now p s = Inr (recordFromSecret lib x kind)"
  using tok_Lookup_one [OF assms(1-6)] assms(7) by (simp add: tr_Expired_def recordFromSecret_def)

section \<open>Reset links\<close>

definition isReset :: "ksecret \<Rightarrow> bool" where
  "isReset x \<longleftrightarrow> ks_labels x ResetTokenLabel = Some ''true''"

text \<open>What clearing removes: the person's own records and everybody's expired ones.\<close>

definition clears :: "authlib \<Rightarrow> gotime \<Rightarrow> string \<Rightarrow> ksecret \<Rightarrow> bool" where
  "clears lib now username x \<longleftrightarrow> dataGet x ''username'' = username \<or> reset_expired lib now x"

context sec_laws
begin

lemma clearFrom_ok:
  "clearFrom cl lib now u xs s = (None, s') \<Longrightarrow>
   sec s' n = (if \<exists>x\<in>set xs. ks_name x = n \<and> clears lib now u x then None else sec s n)"
proof (induction xs arbitrary: s)
  case (Cons x xs)
  show ?case
  proof (cases "clears lib now u x")
    case True
    obtain e t where t: "sc_delete cl (ks_name x) s = (e, t)" by fastforce
    from Cons.prems True t have run: "clearFrom cl lib now u xs t = (None, s')" and e: "e = None \<or> e = Some NotFound"
      by (auto simp: clears_def split: option.splits if_splits elim: IsNotFound.elims)
    from Cons.IH [OF run] delete_gone [OF t e] True show ?thesis by auto
  next
    case False
    with Cons show ?thesis by (auto simp: clears_def)
  qed
qed simp

lemma clear_ok:
  assumes "clearStaleAndPrevious cl lib now u s = (None, s')"
  shows "sec s' n = (case sec s n of Some x \<Rightarrow> if isReset x \<and> clears lib now u x then None else Some x | None \<Rightarrow> None)"
proof -
  from assms obtain xs where xs: "sc_list cl (Some (ResetTokenLabel, ''true'')) s = Inr xs"
    and run: "clearFrom cl lib now u xs s = (None, s')"
    by (auto simp: clearStaleAndPrevious_def split: sum.splits)
  have "(\<exists>x\<in>set xs. ks_name x = n \<and> clears lib now u x) \<longleftrightarrow> (\<exists>x. sec s n = Some x \<and> isReset x \<and> clears lib now u x)"
    using listed [OF xs] sec_name [of s n] by (auto simp: labelOf_def isReset_def)
  then show ?thesis unfolding clearFrom_ok [OF run] by (auto split: option.split)
qed

lemma reset_Issue_ok:
  assumes "reset_Issue cl lib random now u s = (Inr (p, e), s')"
  obtains m s1 where "clearStaleAndPrevious cl lib now u s = (None, s1)" "random = Inr p" "e = now + resetTokenTTL"
    "sec s1 m = None" "sec s' = (sec s1)(m \<mapsto> (resetSecret lib u p e)\<lparr>ks_name := m\<rparr>)"
proof -
  from assms obtain m s1 where "clearStaleAndPrevious cl lib now u s = (None, s1)" "random = Inr p" "e = now + resetTokenTTL"
    "sc_create cl (resetSecret lib u p e) s1 = (Inr m, s')"
    by (auto simp: reset_Issue_def Let_def split: prod.splits option.splits sum.splits)
  with created that show thesis by blast
qed

end

definition isLinkFor :: "authlib \<Rightarrow> string \<Rightarrow> ksecret \<Rightarrow> bool" where
  "isLinkFor lib p x \<longleftrightarrow> isReset x \<and> dataGet x ''token-hash'' = hashToken lib p"

lemma resetSecret_simps [simp]:
  "isReset ((resetSecret lib u p e)\<lparr>ks_name := m\<rparr>)" "dataGet ((resetSecret lib u p e)\<lparr>ks_name := m\<rparr>) ''username'' = u"
  "dataGet ((resetSecret lib u p e)\<lparr>ks_name := m\<rparr>) ''token-hash'' = hashToken lib p"
  "dataGet ((resetSecret lib u p e)\<lparr>ks_name := m\<rparr>) ''expires-at'' = al_format lib e"
  by (simp_all add: isReset_def resetSecret_def dataGet_def)

text \<open>Under the laws a redemption acts on the stored record with the token's hash.\<close>

lemma reset_Redeem_none:
  assumes "sec_laws cl sec" "\<And>n x. sec s n = Some x \<Longrightarrow> \<not> isLinkFor lib p x" "reset_Redeem cl lib now p s = (r, s')"
  shows "(r = Inl ResetTokenInvalid \<or> (\<exists>err. r = Inl (ListResetsErr err))) \<and> s' = s"
proof (cases "sc_list cl (Some (ResetTokenLabel, ''true'')) s")
  case (Inr xs)
  have "reset_match lib p xs = None"
    using sec_laws.listed [OF assms(1) Inr] assms(2)
    unfolding reset_match_def find_None_iff by (auto simp: isLinkFor_def isReset_def labelOf_def)
  with assms(3) Inr show ?thesis by (auto simp: reset_Redeem_def reset_consume_def split: if_splits)
qed (use assms(3) in \<open>auto simp: reset_Redeem_def split: if_splits\<close>)

lemma reset_match_one:
  assumes "sec_laws cl sec" "sc_list cl (Some (ResetTokenLabel, ''true'')) s = Inr xs" "sec s n = Some x" "isLinkFor lib p x"
    "\<And>m y. sec s m = Some y \<Longrightarrow> isLinkFor lib p y \<Longrightarrow> m = n"
  shows "reset_match lib p xs = Some x"
proof -
  note l = sec_laws.listed [OF assms(1,2)]
  have "x \<in> set xs" using l [of x] sec_laws.sec_name [OF assms(1,3)] assms(3,4) by (simp add: labelOf_def isLinkFor_def isReset_def)
  then have "reset_match lib p xs \<noteq> None"
    using assms(4) unfolding reset_match_def by (auto simp: find_None_iff isLinkFor_def)
  then obtain y where y: "reset_match lib p xs = Some y" by auto
  then have "y \<in> set xs" "dataGet y ''token-hash'' = hashToken lib p" unfolding reset_match_def by (auto simp: find_Some_iff)
  with l [of y] have "sec s (ks_name y) = Some y" "isLinkFor lib p y" by (auto simp: labelOf_def isLinkFor_def isReset_def)
  with assms(3,5) y show ?thesis by fastforce
qed

lemma reset_consume_gone:
  assumes "sec_laws cl sec" "reset_consume cl lib now (Some x) s = (r, s')" "\<And>err. r \<noteq> Inl (ConsumeResetErr err)"
  shows "r = (if reset_expired lib now x then Inl ResetTokenInvalid else Inr (dataGet x ''username'')) \<and>
    sec s' = (sec s)(ks_name x := None)"
proof -
  obtain e t where t: "sc_delete cl (ks_name x) s = (e, t)" by fastforce
  with assms(2,3) have e: "e = None \<or> e = Some NotFound" and "s' = t"
    and "r = (if reset_expired lib now x then Inl ResetTokenInvalid else Inr (dataGet x ''username''))"
    by (auto simp: reset_consume_def Let_def split: option.splits if_splits elim: IsNotFound.elims)
  with sec_laws.delete_gone [OF assms(1) t e] show ?thesis by simp
qed

text \<open>
  After a reset link is issued for a person it is the only one outstanding for that person, its record holds the hash of
  the returned token and a deadline a day ahead; every record that was expired or belonged to that person is gone, and every other
  Secret is as it was.
\<close>
theorem reset_one_live_link:
  assumes "sec_laws cl sec" "reset_Issue cl lib random now u s = (Inr (p, e), s')"
  shows "\<exists>m. sec s' m = Some ((resetSecret lib u p (now + 24 * 60 * 60 * 1000000000))\<lparr>ks_name := m\<rparr>) \<and>
    (\<forall>n. n \<noteq> m \<longrightarrow> sec s' n = (case sec s n of None \<Rightarrow> None
       | Some x \<Rightarrow> if isReset x \<and> (dataGet x ''username'' = u \<or> reset_expired lib now x) then None else Some x))"
proof -
  from sec_laws.reset_Issue_ok [OF assms] obtain m s1 where c: "clearStaleAndPrevious cl lib now u s = (None, s1)"
    and e: "e = now + 24 * 60 * 60 * 1000000000" and st: "sec s' = (sec s1)(m \<mapsto> (resetSecret lib u p e)\<lparr>ks_name := m\<rparr>)"
    unfolding resetTokenTTL_def by blast
  show ?thesis unfolding st e sec_laws.clear_ok [OF assms(1) c] fun_upd_apply clears_def by (intro exI [of _ m]) simp
qed

text \<open>
  (C15) A reset link lasts a day and works once. The link expires 24 hours after it was issued; redeeming it returns the person it
  was issued for until then, to the second, and nothing afterwards; either way the record is gone, so that a redemption that
  starts after that one, whenever that is, is refused. Two redemptions that overlap are another matter,
  which a theorem below is about.
\<close>
theorem reset_single_use:
  assumes "sec_laws cl sec" "reset_Issue cl lib random now u s = (Inr (p, e), s')" "p \<noteq> ''''"
    and "\<And>n x. sec s n = Some x \<Longrightarrow> \<not> isLinkFor lib p x" "roundtrips lib e"
    and "reset_Redeem cl lib t1 p s' = (r1, s1)"
    and "\<And>err. r1 \<noteq> Inl (ListResetsErr err)" "\<And>err. r1 \<noteq> Inl (ConsumeResetErr err)"
    and "reset_Redeem cl lib t2 p s1 = (r2, s2)"
  shows "e = now + 24 * 60 * 60 * 1000000000 \<and> r1 = (if t1 > wholeSecond e then Inl ResetTokenInvalid else Inr u) \<and>
    (r2 = Inl ResetTokenInvalid \<or> (\<exists>err. r2 = Inl (ListResetsErr err)))"
proof -
  from sec_laws.reset_Issue_ok [OF assms(1,2)] obtain m s0 where cl: "clearStaleAndPrevious cl lib now u s = (None, s0)"
    and st: "sec s' = (sec s0)(m \<mapsto> (resetSecret lib u p e)\<lparr>ks_name := m\<rparr>)" by blast
  let ?x = "(resetSecret lib u p e)\<lparr>ks_name := m\<rparr>"
  have x: "sec s' m = Some ?x" "isLinkFor lib p ?x" using st by (simp_all add: isLinkFor_def)
  have only: "n = m" if "sec s' n = Some y" "isLinkFor lib p y" for n y
  proof (rule ccontr)
    assume "n \<noteq> m"
    with that(1) st have "sec s0 n = Some y" by simp
    with sec_laws.clear_ok [OF assms(1) cl, of n] have "sec s n = Some y" by (auto split: option.splits if_splits)
    with assms(4) that(2) show False by blast
  qed
  from assms(6,7,3) obtain xs where xs: "sc_list cl (Some (ResetTokenLabel, ''true'')) s' = Inr xs"
    and "reset_consume cl lib t1 (reset_match lib p xs) s' = (r1, s1)"
    by (auto simp: reset_Redeem_def split: sum.splits)
  then have "reset_consume cl lib t1 (Some ?x) s' = (r1, s1)" using reset_match_one [OF assms(1) xs x only] by simp
  from reset_consume_gone [OF assms(1) this assms(8)]
  have r1: "r1 = (if reset_expired lib t1 ?x then Inl ResetTokenInvalid else Inr u)" and s1: "sec s1 = (sec s')(m := None)" by auto
  have "\<not> isLinkFor lib p y" if "sec s1 n = Some y" for n y using only [of n y] that unfolding s1 by (auto split: if_splits)
  moreover have "e = now + 24 * 60 * 60 * 1000000000"
    using assms(2) by (auto simp: reset_Issue_def resetTokenTTL_def Let_def split: sum.splits prod.splits option.splits)
  ultimately show ?thesis
    using reset_Redeem_none [OF assms(1) _ assms(9)] r1 assms(5) by (auto simp: reset_expired_def roundtrips_def)
qed

text \<open>
  Two redemptions that both read the list before either deletes both succeed: the second delete finds nothing, which
  is not an error, and the person's name is returned twice. One link can so reset a password twice.
\<close>
theorem reset_race_double_use:
  assumes "sec_laws cl sec" "sc_list cl (Some (ResetTokenLabel, ''true'')) s = Inr xs" "reset_match lib p xs = Some x"
    and "\<not> reset_expired lib now x"
    and "reset_consume cl lib now (reset_match lib p xs) s = (r1, s1)" "\<And>err. r1 \<noteq> Inl (ConsumeResetErr err)"
    and "reset_consume cl lib now (reset_match lib p xs) s1 = (r2, s2)" "\<And>err. r2 \<noteq> Inl (ConsumeResetErr err)"
  shows "r1 = Inr (dataGet x ''username'') \<and> sec s1 (ks_name x) = None \<and> r2 = Inr (dataGet x ''username'')"
  using reset_consume_gone [OF assms(1), of lib now x s r1 s1] reset_consume_gone [OF assms(1), of lib now x s1 r2 s2] assms(3-8)
  by simp

section \<open>Owners\<close>

text \<open>
  An email resolves to a UserSpace exactly when that is the only one whose owner is the trimmed, non-empty email; in
  particular two UserSpaces of one owner make the owner unresolvable.
\<close>
theorem ResolveByEmail_exact:
  "ResolveByEmail (Inr items) email = Inr u \<longleftrightarrow>
   TrimSpace email \<noteq> '''' \<and> filter (\<lambda>v. us_owner (us_spec v) = TrimSpace email) items = [u]"
  by (auto simp: ResolveByEmail_def Let_def split: list.splits)

section \<open>Witnesses\<close>

lemma demo_roundtrips: "1000000000 \<le> t \<Longrightarrow> roundtrips demo_authlib t"
proof -
  assume "1000000000 \<le> t"
  then have "t div 1000000000 > 0" by simp
  moreover have "1000000000 * (t div 1000000000) = wholeSecond t"
    by (simp add: wholeSecond_def minus_mod_eq_mult_div)
  ultimately show ?thesis by (simp add: roundtrips_def demo_authlib_def)
qed

lemma demo_parse_empty: "al_parse demo_authlib '''' = None"
  by (simp add: demo_authlib_def)

definition demo_grant :: tokengrant where
  "demo_grant = \<lparr>tg_kind = TokenKindApplication, tg_namespace = ''dwpk-ana'', tg_account = ''dwpk-session'', tg_expiresAt = Some 5000000000\<rparr>"

abbreviation demo_issued :: "(tokerr + tokenrecord) \<times> ksecret list" where
  "demo_issued \<equiv> tok_Issue mem_sec demo_authlib (Inr ''u1'') 2000000000 demo_grant []"

definition demo_token :: tokenrecord where
  "demo_token = \<lparr>tr_secretName = ''dwpk-token-0'', tr_kind = ''application'', tr_namespace = ''dwpk-ana'', tr_account = ''dwpk-session'',
     tr_createdAt = Some 2000000000, tr_expiresAt = Some 5000000000, tr_plaintext = ''dwpk_u1''\<rparr>"

definition demo_tokens :: "ksecret list" where
  "demo_tokens = [(tokenSecret demo_authlib ''dwpk_u1'' 2000000000 demo_grant)\<lparr>ks_name := ''dwpk-token-0''\<rparr>]"

lemma demo_issue: "demo_issued = (Inr demo_token, demo_tokens)"
  by (simp add: tok_Issue_def GenerateAPIToken_def apiTokenPrefix_def mem_sec_def freshName_def demo_token_def demo_tokens_def
      demo_grant_def TokenKindApplication_def Let_def tokenSecret_def)

lemma demo_revoke: "tok_Revoke mem_sec ''dwpk-token-0'' demo_tokens = (None, [])"
  by (simp add: tok_Revoke_def mem_sec_def demo_tokens_def)

theorem token_lifecycle_witness:
  "tok_Lookup mem_sec demo_authlib 5000000000 ''dwpk_u1'' demo_tokens = Inr (lookedUp demo_token) \<and>
   tok_Lookup mem_sec demo_authlib 5000000001 ''dwpk_u1'' demo_tokens = Inl TokenNotFound \<and>
   tok_Lookup mem_sec demo_authlib 3 ''dwpk_u1'' [] = Inl TokenNotFound"
proof -
  have n: "tr_secretName demo_token = ''dwpk-token-0''" and p: "tr_plaintext demo_token = ''dwpk_u1''"
    by (simp_all add: demo_token_def)
  have g: "tg_expiresAt demo_grant = Some 5000000000" by (simp add: demo_grant_def)
  have l: "sc_list mem_sec None demo_tokens = Inr demo_tokens" "sc_list mem_sec None [] = Inr []"
    by (simp_all add: mem_sec_def demo_tokens_def labelOf_def)
  have o: "\<not> isTokenFor demo_authlib ''dwpk_u1'' x" if "k \<noteq> ''dwpk-token-0''" "memFind demo_tokens k = Some x" for k x
    using that by (auto simp: demo_tokens_def memFind_def split: if_splits)
  note life = token_lifecycle [OF mem_sec_laws demo_issue, unfolded n p, OF _ _ demo_roundtrips demo_roundtrips demo_parse_empty l(1)
      demo_revoke l(2) o]
  have w: "wholeSecond 5000000000 = 5000000000" by (simp add: wholeSecond_def)
  from life [where later = 5000000000 and anytime = 3] life [where later = 5000000001] show ?thesis by (simp add: g w memFind_def)
qed

definition demo_spoilt :: ksecret where
  "demo_spoilt = \<lparr>ks_name = ''t'', ks_generateName = '''', ks_labels = [TokenKindLabel \<mapsto> ''admin''],
     ks_data = [''hash'' \<mapsto> ''dwpk_u2'', ''expires-at'' \<mapsto> ''tomorrow'']\<rparr>"

theorem unparsable_expiry_never_expires_witness:
  "tok_Lookup mem_sec demo_authlib 999999999999 ''dwpk_u2'' [demo_spoilt] = Inr (recordFromSecret demo_authlib demo_spoilt ''admin'')"
proof (rule unparsable_expiry_never_expires [OF mem_sec_laws])
  show "sc_list mem_sec None [demo_spoilt] = Inr [demo_spoilt]" by (simp add: mem_sec_def labelOf_def)
  show "memFind [demo_spoilt] ''t'' = Some demo_spoilt" by (simp add: memFind_def demo_spoilt_def)
qed (auto simp: demo_spoilt_def dataGet_def HashAPIToken_def demo_authlib_def memFind_def split: if_splits)

text \<open>Ana has an old link, bob a live one and carol an expired one; then ana asks for a new one.\<close>

definition demo_link :: "string \<Rightarrow> string \<Rightarrow> string \<Rightarrow> gotime \<Rightarrow> ksecret" where
  "demo_link n u p e = (resetSecret demo_authlib u p e)\<lparr>ks_name := n\<rparr>"

definition demo_links :: "ksecret list" where
  "demo_links = [demo_link ''a'' ''ana'' ''p1'' 9000000000, demo_link ''b'' ''bob'' ''p2'' 9000000000, demo_link ''c'' ''carol'' ''p3'' 2000000000]"

lemma demo_link_simps [simp]: "ks_name (demo_link n u p e) = n" "isReset (demo_link n u p e)" "dataGet (demo_link n u p e) ''username'' = u"
  "dataGet (demo_link n u p e) ''token-hash'' = p" "1000000000 \<le> e \<Longrightarrow> reset_expired demo_authlib t (demo_link n u p e) \<longleftrightarrow> t > wholeSecond e"
  "labelOf (Some (ResetTokenLabel, ''true'')) (demo_link n u p e)"
proof -
  have "al_sha256 demo_authlib p = p" by (simp add: demo_authlib_def)
  then show "ks_name (demo_link n u p e) = n" "isReset (demo_link n u p e)" "dataGet (demo_link n u p e) ''username'' = u"
    "dataGet (demo_link n u p e) ''token-hash'' = p" by (simp_all add: demo_link_def hashToken_def)
  show "labelOf (Some (ResetTokenLabel, ''true'')) (demo_link n u p e)" by (simp add: demo_link_def labelOf_def resetSecret_def)
  assume "1000000000 \<le> e"
  from demo_roundtrips [OF this] show "reset_expired demo_authlib t (demo_link n u p e) \<longleftrightarrow> t > wholeSecond e"
    by (simp add: reset_expired_def roundtrips_def demo_link_def)
qed

lemma demo_seconds [simp]: "wholeSecond 9000000000 = 9000000000" "wholeSecond 2000000000 = 2000000000"
  by (simp_all add: wholeSecond_def)

definition demo_new_name :: string where
  "demo_new_name = freshName ''dwpk-password-reset-'' [demo_link ''b'' ''bob'' ''p2'' 9000000000]"

lemma demo_new_name_neq: "demo_new_name \<noteq> ''b''"
  using freshName_fresh [of "''dwpk-password-reset-''" "[demo_link ''b'' ''bob'' ''p2'' 9000000000]"] by (simp add: demo_new_name_def)

lemma demo_list_links: "distinct (map ks_name xs) \<Longrightarrow> (\<forall>x\<in>set xs. labelOf (Some (ResetTokenLabel, ''true'')) x) \<Longrightarrow>
  sc_list mem_sec (Some (ResetTokenLabel, ''true'')) xs = Inr xs"
  by (simp add: mem_sec_def)

lemma demo_delete: "n \<in> set (map ks_name s) \<Longrightarrow> sc_delete mem_sec n s = (None, filter (\<lambda>x. ks_name x \<noteq> n) s)"
  by (simp add: mem_sec_def)

lemma demo_clear: "clearStaleAndPrevious mem_sec demo_authlib 5000000000 ''ana'' demo_links = (None, [demo_link ''b'' ''bob'' ''p2'' 9000000000])"
  by (simp add: clearStaleAndPrevious_def demo_links_def demo_list_links demo_delete)

definition demo_after :: "ksecret list" where
  "demo_after = [demo_link ''b'' ''bob'' ''p2'' 9000000000, demo_link demo_new_name ''ana'' ''p4'' (5000000000 + resetTokenTTL)]"

lemma demo_reset_issue:
  "reset_Issue mem_sec demo_authlib (Inr ''p4'') 5000000000 ''ana'' demo_links = (Inr (''p4'', 5000000000 + resetTokenTTL), demo_after)"
proof -
  have "sc_create mem_sec (resetSecret demo_authlib ''ana'' ''p4'' (5000000000 + resetTokenTTL)) [demo_link ''b'' ''bob'' ''p2'' 9000000000] =
    (Inr demo_new_name, demo_after)"
    using demo_new_name_neq
    by (simp add: mem_sec_def Let_def resetSecret_def demo_after_def) (simp add: demo_new_name_def demo_link_def resetSecret_def)
  then show ?thesis by (simp add: reset_Issue_def demo_clear Let_def)
qed

theorem reset_one_live_link_witness:
  "memFind demo_after ''a'' = None \<and> memFind demo_after ''b'' = Some (demo_link ''b'' ''bob'' ''p2'' 9000000000) \<and> memFind demo_after ''c'' = None"
proof -
  from reset_one_live_link [OF mem_sec_laws demo_reset_issue] obtain m where
    m: "memFind demo_after m = Some ((resetSecret demo_authlib ''ana'' ''p4'' (5000000000 + 24 * 60 * 60 * 1000000000))\<lparr>ks_name := m\<rparr>)"
    and other: "\<And>n. n \<noteq> m \<Longrightarrow> memFind demo_after n = (case memFind demo_links n of None \<Rightarrow> None
       | Some x \<Rightarrow> if isReset x \<and> (dataGet x ''username'' = ''ana'' \<or> reset_expired demo_authlib 5000000000 x) then None else Some x)"
    by blast
  have "length demo_new_name > 1" by (simp add: demo_new_name_def freshName_def)
  moreover have "m = ''b'' \<or> m = demo_new_name"
    using memFind_SomeD [OF m] by (auto simp: demo_after_def dest: arg_cong [where f = ks_name])
  moreover have "m \<noteq> ''b''"
    using m by (auto simp: demo_after_def memFind_def demo_link_def resetSecret_def fun_eq_iff split: if_splits)
  ultimately have "length m > 1" by auto
  then have "m \<noteq> ''a''" "m \<noteq> ''b''" "m \<noteq> ''c''" by auto
  with other show ?thesis by (simp add: demo_links_def memFind_def)
qed

theorem reset_single_use_witness:
  "fst (reset_Redeem mem_sec demo_authlib 6000000000 ''p4'' demo_after) = Inr ''ana'' \<and>
   fst (reset_Redeem mem_sec demo_authlib 6000000000 ''p4'' (snd (reset_Redeem mem_sec demo_authlib 6000000000 ''p4'' demo_after))) = Inl ResetTokenInvalid"
proof -
  let ?x = "demo_link demo_new_name ''ana'' ''p4'' (5000000000 + resetTokenTTL)"
  have e: "1000000000 \<le> 5000000000 + resetTokenTTL" "\<not> wholeSecond (5000000000 + resetTokenTTL) < 6000000000"
    by (simp_all add: resetTokenTTL_def wholeSecond_def)
  have h: "hashToken demo_authlib ''p4'' = ''p4''" by (simp add: hashToken_def demo_authlib_def)
  have l: "sc_list mem_sec (Some (ResetTokenLabel, ''true'')) demo_after = Inr demo_after"
    using demo_new_name_neq by (intro demo_list_links) (auto simp: demo_after_def)
  have m: "reset_match demo_authlib ''p4'' demo_after = Some ?x" by (simp add: reset_match_def demo_after_def h)
  have r: "reset_Redeem mem_sec demo_authlib 6000000000 ''p4'' demo_after = (Inr ''ana'', [demo_link ''b'' ''bob'' ''p2'' 9000000000])"
    using demo_new_name_neq e by (simp add: reset_Redeem_def l m reset_consume_def) (simp add: demo_after_def demo_delete)
  have n: "\<not> isLinkFor demo_authlib ''p4'' x" if "memFind demo_links k = Some x" for k x
    using that by (auto simp: demo_links_def memFind_def isLinkFor_def h split: if_splits)
  have l2: "fst (reset_Redeem mem_sec demo_authlib 6000000000 ''p4'' [demo_link ''b'' ''bob'' ''p2'' 9000000000]) \<noteq> Inl (ListResetsErr err)" for err
    by (simp add: reset_Redeem_def demo_list_links reset_match_def h reset_consume_def)
  from reset_single_use [OF mem_sec_laws demo_reset_issue _ n demo_roundtrips [OF e(1)] r _ _ prod.collapse [symmetric], of "\<lambda>k x. k" 6000000000] l2
  show ?thesis unfolding r by (simp add: e(2))
qed

theorem reset_race_double_use_witness:
  "let xs = [demo_link ''b'' ''bob'' ''p2'' 9000000000]; found = reset_match demo_authlib ''p2'' xs in
     fst (reset_consume mem_sec demo_authlib 5000000000 found xs) = Inr ''bob'' \<and>
     fst (reset_consume mem_sec demo_authlib 5000000000 found (snd (reset_consume mem_sec demo_authlib 5000000000 found xs))) = Inr ''bob''"
proof -
  let ?x = "demo_link ''b'' ''bob'' ''p2'' 9000000000"
  have h: "hashToken demo_authlib ''p2'' = ''p2''" by (simp add: hashToken_def demo_authlib_def)
  have m: "reset_match demo_authlib ''p2'' [?x] = Some ?x" by (simp add: reset_match_def h)
  have c: "reset_consume mem_sec demo_authlib 5000000000 (reset_match demo_authlib ''p2'' [?x]) [?x] = (Inr ''bob'', [])"
    "reset_consume mem_sec demo_authlib 5000000000 (reset_match demo_authlib ''p2'' [?x]) [] = (Inr ''bob'', [])"
    unfolding m by (simp_all add: reset_consume_def) (simp_all add: mem_sec_def)
  have "sc_list mem_sec (Some (ResetTokenLabel, ''true'')) [?x] = Inr [?x]" by (rule demo_list_links) simp_all
  from reset_race_double_use [OF mem_sec_laws this m _ c(1) _ c(2)] show ?thesis unfolding Let_def c by (simp add: c(2))
qed

end
