(* ===== verification/Runes.thy ===== *)
theory Runes
  imports Prelude
begin

text \<open>
  Strings as Go ranges over them: the UTF-8 decoding of a byte string into code points, in which an invalid byte is one
  replacement character, the encoding back, and the library functions that work on code points.

  The case tables of the \<^verbatim>\<open>unicode\<close> package beyond ASCII are data of the library: they are the record \<open>ucd\<close>, with
  the lower-case mapping of a code point and a representative of its simple-folding orbit.
\<close>

record ucd =
  uc_lower :: "nat \<Rightarrow> nat"
  uc_fold :: "nat \<Rightarrow> nat"

definition RuneError :: nat where
  "RuneError = 0xFFFD"

abbreviation byte :: "char \<Rightarrow> nat" where
  "byte c \<equiv> of_char c"

definition cont :: "char \<Rightarrow> bool" where
  "cont c \<longleftrightarrow> 0x80 \<le> byte c \<and> byte c \<le> 0xBF"

definition payload6 :: "char \<Rightarrow> nat" where
  "payload6 c = byte c - 0x80"

text \<open>\<^verbatim>\<open>utf8.DecodeRuneInString\<close> on a non-empty string: the code point and how many bytes follow the first.\<close>

fun decodeRune :: "char \<Rightarrow> string \<Rightarrow> nat \<times> nat" where
  "decodeRune c cs =
     (let b = byte c in
      if b < 0x80 then (b, 0)
      else if 0xC2 \<le> b \<and> b \<le> 0xDF then
        (case cs of c1 # _ \<Rightarrow> if cont c1 then ((b - 0xC0) * 64 + payload6 c1, 1) else (RuneError, 0) | [] \<Rightarrow> (RuneError, 0))
      else if 0xE0 \<le> b \<and> b \<le> 0xEF then
        (case cs of c1 # c2 # _ \<Rightarrow>
           if cont c1 \<and> cont c2 \<and> (b = 0xE0 \<longrightarrow> byte c1 \<ge> 0xA0) \<and> (b = 0xED \<longrightarrow> byte c1 \<le> 0x9F)
           then ((b - 0xE0) * 4096 + payload6 c1 * 64 + payload6 c2, 2) else (RuneError, 0)
         | _ \<Rightarrow> (RuneError, 0))
      else if 0xF0 \<le> b \<and> b \<le> 0xF4 then
        (case cs of c1 # c2 # c3 # _ \<Rightarrow>
           if cont c1 \<and> cont c2 \<and> cont c3 \<and> (b = 0xF0 \<longrightarrow> byte c1 \<ge> 0x90) \<and> (b = 0xF4 \<longrightarrow> byte c1 \<le> 0x8F)
           then ((b - 0xF0) * 262144 + payload6 c1 * 4096 + payload6 c2 * 64 + payload6 c3, 3) else (RuneError, 0)
         | _ \<Rightarrow> (RuneError, 0))
      else (RuneError, 0))"

declare decodeRune.simps [simp del]

function runes :: "string \<Rightarrow> nat list" where
  "runes [] = []"
| "runes (c # cs) = (case decodeRune c cs of (r, n) \<Rightarrow> r # runes (drop n cs))"
  by pat_completeness auto
termination by (relation "measure length") auto

text \<open>\<^verbatim>\<open>utf8.AppendRune\<close>: surrogates and values out of range are written as the replacement character.\<close>

definition encodeRune :: "nat \<Rightarrow> string" where
  "encodeRune r0 =
     (let r = (if r0 > 0x10FFFF \<or> 0xD800 \<le> r0 \<and> r0 \<le> 0xDFFF then RuneError else r0) in
      if r < 0x80 then [char_of r]
      else if r < 0x800 then [char_of (0xC0 + r div 64), char_of (0x80 + r mod 64)]
      else if r < 0x10000 then [char_of (0xE0 + r div 4096), char_of (0x80 + r div 64 mod 64), char_of (0x80 + r mod 64)]
      else [char_of (0xF0 + r div 262144), char_of (0x80 + r div 4096 mod 64), char_of (0x80 + r div 64 mod 64), char_of (0x80 + r mod 64)])"

definition lowerRune :: "ucd \<Rightarrow> nat \<Rightarrow> nat" where
  "lowerRune uc r = (if r < 0x80 then (if 0x41 \<le> r \<and> r \<le> 0x5A then r + 32 else r) else uc_lower uc r)"

definition ToLower :: "ucd \<Rightarrow> string \<Rightarrow> string" where
  "ToLower uc s = concat (map (\<lambda>r. encodeRune (lowerRune uc r)) (runes s))"

text \<open>\<^verbatim>\<open>strings.EqualFold\<close> compares code points up to simple folding.\<close>

definition EqualFold :: "ucd \<Rightarrow> string \<Rightarrow> string \<Rightarrow> bool" where
  "EqualFold uc s t \<longleftrightarrow> map (uc_fold uc) (runes s) = map (uc_fold uc) (runes t)"

text \<open>\<^verbatim>\<open>strings.Trim\<close> with a cutset of ASCII characters.\<close>

definition TrimSet :: "string \<Rightarrow> string \<Rightarrow> string" where
  "TrimSet s cutset = rev (dropWhile (\<lambda>c. c \<in> set cutset) (rev (dropWhile (\<lambda>c. c \<in> set cutset) s)))"

section \<open>Lemmas\<close>

definition ascii :: "string \<Rightarrow> bool" where
  "ascii s \<longleftrightarrow> (\<forall>c\<in>set s. byte c < 0x80)"

lemma decodeRune_ascii: "byte c < 0x80 \<Longrightarrow> decodeRune c cs = (byte c, 0)"
  by (simp add: decodeRune.simps)

lemma runes_ascii: "ascii s \<Longrightarrow> runes s = map byte s"
  by (induction s) (auto simp: ascii_def decodeRune_ascii)

lemma runes_Nil_iff [simp]: "runes s = [] \<longleftrightarrow> s = []"
  by (cases s) (auto split: prod.split)

lemma encodeRune_ascii: "r < 0x80 \<Longrightarrow> encodeRune r = [char_of r]"
  by (simp add: encodeRune_def Let_def)

lemma lowerRune_ascii: "r < 0x80 \<Longrightarrow> lowerRune uc r < 0x80"
  by (simp add: lowerRune_def)

lemma ToLower_ascii:
  assumes "ascii s"
  shows "ToLower uc s = map (\<lambda>c. char_of (lowerRune uc (byte c))) s"
  using assms unfolding ToLower_def runes_ascii [OF assms]
  by (induction s) (simp_all add: ascii_def encodeRune_ascii lowerRune_ascii)

lemma TrimSet_subset: "set (TrimSet s cs) \<subseteq> set s"
  by (auto simp: TrimSet_def dest!: set_dropWhileD)

lemma TrimSet_length: "length (TrimSet s cs) \<le> length s"
  unfolding TrimSet_def by (metis length_dropWhile_le length_rev order_trans)

lemma TrimSet_ends:
  assumes "TrimSet s cs \<noteq> []"
  shows "hd (TrimSet s cs) \<notin> set cs \<and> last (TrimSet s cs) \<notin> set cs"
proof -
  let ?t = "dropWhile (\<lambda>c. c \<in> set cs) s"
  have t: "TrimSet s cs = rev (dropWhile (\<lambda>c. c \<in> set cs) (rev ?t))" by (simp add: TrimSet_def)
  with assms have ne: "dropWhile (\<lambda>c. c \<in> set cs) (rev ?t) \<noteq> []" by simp
  from hd_dropWhile [OF ne] have l: "last (TrimSet s cs) \<notin> set cs" unfolding t by (simp add: last_rev ne)
  obtain r where "rev ?t = r @ dropWhile (\<lambda>c. c \<in> set cs) (rev ?t)" by (metis takeWhile_dropWhile_id)
  then have "?t = TrimSet s cs @ rev r" unfolding t by (metis rev_append rev_rev_ident)
  then have "hd ?t = hd (TrimSet s cs)" "?t \<noteq> []" using assms by auto
  with hd_dropWhile [of "\<lambda>c. c \<in> set cs" s] l show ?thesis by auto
qed

lemma TrimSet_id: "s \<noteq> [] \<Longrightarrow> hd s \<notin> set cs \<Longrightarrow> last s \<notin> set cs \<Longrightarrow> TrimSet s cs = s"
proof -
  assume s: "s \<noteq> []" "hd s \<notin> set cs" "last s \<notin> set cs"
  have "dropWhile (\<lambda>c. c \<in> set cs) s = s" using s by (cases s) auto
  moreover have "dropWhile (\<lambda>c. c \<in> set cs) (rev s) = rev s" using s by (cases s rule: rev_cases) auto
  ultimately show ?thesis by (simp add: TrimSet_def)
qed

lemma dropWhile_snoc_keep: "\<not> P c \<Longrightarrow> \<exists>ys. dropWhile P (xs @ [c]) = ys @ [c]"
  by (induction xs) auto

lemma TrimSet_hd:
  assumes "s \<noteq> []" "hd s \<notin> set cs"
  shows "TrimSet s cs \<noteq> [] \<and> hd (TrimSet s cs) = hd s"
proof -
  from assms obtain c t where s: "s = c # t" "c \<notin> set cs" by (cases s) auto
  from dropWhile_snoc_keep [of "\<lambda>c. c \<in> set cs" c "rev t"] s obtain ys where
    "dropWhile (\<lambda>c. c \<in> set cs) (rev t @ [c]) = ys @ [c]" by auto
  then have "TrimSet s cs = c # rev ys" using s by (simp add: TrimSet_def)
  then show ?thesis using s by simp
qed

lemma TrimSet_keeps_prefix:
  assumes "p \<noteq> []" "hd p \<notin> set cs" "last p \<notin> set cs"
  shows "\<exists>r. TrimSet (p @ q) cs = p @ r"
proof -
  let ?P = "\<lambda>c. c \<in> set cs"
  have "dropWhile ?P (p @ q) = p @ q" using assms(1,2) by (cases p) auto
  moreover have "dropWhile ?P (rev p) = rev p" using assms(1,3) by (cases p rule: rev_cases) auto
  then have "\<exists>r. dropWhile ?P (rev q @ rev p) = r @ rev p" by (induction "rev q" arbitrary: q) (auto simp: dropWhile_append)
  ultimately show ?thesis unfolding TrimSet_def by (metis rev_append rev_rev_ident)
qed

end
