(* ===== verification/LocalUsers.thy ===== *)
theory LocalUsers
  imports SecretStore Runes
begin

text \<open>
  Local accounts (\<^verbatim>\<open>src/internal/auth/localuser.go\<close>, \<^verbatim>\<open>localuser_name.go\<close>, \<^verbatim>\<open>localuser_store.go\<close>, \<^verbatim>\<open>password.go\<close>):
  a Secret per person, named after the username, with the bcrypt hash of the password.

  The salt that bcrypt draws and the numbers drawn for a generated password are arguments. A comparison whose result the
  code discards, the one against the dummy hash, has no effect and appears as its result only.
\<close>

section \<open>Passwords\<close>

datatype lusererr =
    EmptyUsername | EmptyPassword | BcryptErr string | InvalidCredentials | LocalUserNotFound | LocalUserAmbiguous
  | LocalUserExists string | ListUsersErr apierr | HashPasswordErr string lusererr | CreateUserErr apierr
  | UpdatePasswordErr string apierr | DeleteUserErr string apierr | GeneratePasswordErr string

definition HashPassword :: "authlib \<Rightarrow> string \<Rightarrow> string \<Rightarrow> lusererr + string" where
  "HashPassword lib salt plaintext =
     (if plaintext = '''' then Inl EmptyPassword
      else case al_bcryptHash lib salt plaintext of Inl err \<Rightarrow> Inl (BcryptErr err) | Inr hash \<Rightarrow> Inr hash)"

definition VerifyPassword :: "authlib \<Rightarrow> string \<Rightarrow> string \<Rightarrow> lusererr option" where
  "VerifyPassword lib hash plaintext = (if al_bcryptCompare lib hash plaintext then None else Some InvalidCredentials)"

definition passwordAlphabet :: string where
  "passwordAlphabet = ''abcdefghijkmnopqrstuvwxyzABCDEFGHJKLMNPQRSTUVWXYZ23456789''"

definition generatedPasswordLength :: nat where
  "generatedPasswordLength = 20"

text \<open>\<open>draws i\<close> is what \<^verbatim>\<open>rand.Int\<close> below the limit gives the \<open>i\<close>-th time.\<close>

fun generateFrom :: "(nat \<Rightarrow> string + nat) \<Rightarrow> nat \<Rightarrow> nat \<Rightarrow> lusererr + string" where
  "generateFrom draws i 0 = Inr ''''"
| "generateFrom draws i (Suc n) =
     (case draws i of
        Inl err \<Rightarrow> Inl (GeneratePasswordErr err)
      | Inr d \<Rightarrow> (case generateFrom draws (Suc i) n of Inl err \<Rightarrow> Inl err | Inr out \<Rightarrow> Inr (passwordAlphabet ! d # out)))"

definition GeneratePassword :: "(nat \<Rightarrow> string + nat) \<Rightarrow> lusererr + string" where
  "GeneratePassword draws = generateFrom draws 0 generatedPasswordLength"

section \<open>Secret names\<close>

definition LocalUserSecretPrefix :: string where
  "LocalUserSecretPrefix = ''dwpk-local-user-''"

definition maxSecretName :: nat where
  "maxSecretName = 253"

definition nameRune :: "nat \<Rightarrow> bool" where
  "nameRune r \<longleftrightarrow> 0x61 \<le> r \<and> r \<le> 0x7A \<or> 0x30 \<le> r \<and> r \<le> 0x39 \<or> r = 0x2D \<or> r = 0x2E"

definition sanitiseName :: "ucd \<Rightarrow> string \<Rightarrow> string" where
  "sanitiseName uc raw =
     TrimSet (map (\<lambda>r. if nameRune r then char_of r else CHR ''-'') (runes (ToLower uc (TrimSpace raw)))) ''-.''"

definition LocalUserSecretName :: "ucd \<Rightarrow> authlib \<Rightarrow> string \<Rightarrow> string" where
  "LocalUserSecretName uc lib username =
     (let sanitised = sanitiseName uc username;
          name = LocalUserSecretPrefix @ sanitised;
          name = (if sanitised \<noteq> ToLower uc username \<or> sanitised = ''''
                  then name @ ''-'' @ take 8 (al_sha256 lib username) else name);
          name = (if length name > maxSecretName then take maxSecretName name else name)
      in TrimSet name ''-.'')"

section \<open>The store\<close>

definition LocalUserLabel :: string where
  "LocalUserLabel = ''dwpk.devops-ia.io/local-user''"

record localuser =
  lu_secretName :: string
  lu_username :: string
  lu_owner :: string

definition localUserFromSecret :: "ksecret \<Rightarrow> localuser" where
  "localUserFromSecret x = \<lparr>lu_secretName = ks_name x, lu_username = dataGet x ''username'', lu_owner = dataGet x ''owner''\<rparr>"

abbreviation userSelector :: "(string \<times> string) option" where
  "userSelector \<equiv> Some (LocalUserLabel, ''true'')"

definition listLocalUsers :: "'s sec_client \<Rightarrow> 's \<Rightarrow> lusererr + ksecret list" where
  "listLocalUsers cl s = (case sc_list cl userSelector s of Inl err \<Rightarrow> Inl (ListUsersErr err) | Inr items \<Rightarrow> Inr items)"

definition findByUsername :: "'s sec_client \<Rightarrow> string \<Rightarrow> 's \<Rightarrow> lusererr + ksecret" where
  "findByUsername cl username s =
     (case sc_list cl userSelector s of
        Inl err \<Rightarrow> Inl (ListUsersErr err)
      | Inr items \<Rightarrow>
          (case find (\<lambda>x. dataGet x ''username'' = username) items of
             Some x \<Rightarrow> Inr x | None \<Rightarrow> Inl LocalUserNotFound))"

text \<open>The loop of \<^verbatim>\<open>findByLogin\<close>: a username match returns at once, owner matches are collected.\<close>

fun loginScan :: "ucd \<Rightarrow> string \<Rightarrow> ksecret list \<Rightarrow> ksecret list \<Rightarrow> ksecret + ksecret list" where
  "loginScan uc login byOwner [] = Inr byOwner"
| "loginScan uc login byOwner (x # xs) =
     (if dataGet x ''username'' = login then Inl x
      else loginScan uc login (if EqualFold uc (dataGet x ''owner'') login then byOwner @ [x] else byOwner) xs)"

definition findByLogin :: "'s sec_client \<Rightarrow> ucd \<Rightarrow> string \<Rightarrow> 's \<Rightarrow> lusererr + ksecret" where
  "findByLogin cl uc login0 s =
     (let login = TrimSpace login0 in
      if login = '''' then Inl LocalUserNotFound
      else case listLocalUsers cl s of
        Inl err \<Rightarrow> Inl err
      | Inr stored \<Rightarrow>
          (case loginScan uc login [] stored of
             Inl x \<Rightarrow> Inr x
           | Inr [] \<Rightarrow> Inl LocalUserNotFound
           | Inr [x] \<Rightarrow> Inr x
           | Inr _ \<Rightarrow> Inl LocalUserAmbiguous))"

definition userSecret :: "ucd \<Rightarrow> authlib \<Rightarrow> string \<Rightarrow> string \<Rightarrow> string \<Rightarrow> ksecret" where
  "userSecret uc lib username hash owner =
     \<lparr>ks_name = LocalUserSecretName uc lib username, ks_generateName = '''', ks_labels = [LocalUserLabel \<mapsto> ''true''],
      ks_data = [''username'' \<mapsto> username, ''password-hash'' \<mapsto> hash, ''owner'' \<mapsto> owner]\<rparr>"

definition lu_Create ::
    "'s sec_client \<Rightarrow> ucd \<Rightarrow> authlib \<Rightarrow> string \<Rightarrow> string \<Rightarrow> string \<Rightarrow> string \<Rightarrow> 's \<Rightarrow> (lusererr + localuser) \<times> 's" where
  "lu_Create cl uc lib salt username0 plaintextPassword owner s =
     (let username = TrimSpace username0 in
      if username = '''' then (Inl EmptyUsername, s)
      else case findByUsername cl username s of
        Inr _ \<Rightarrow> (Inl (LocalUserExists username), s)
      | Inl err \<Rightarrow>
          if err \<noteq> LocalUserNotFound then (Inl err, s)
          else case HashPassword lib salt plaintextPassword of
            Inl err \<Rightarrow> (Inl (HashPasswordErr username err), s)
          | Inr hash \<Rightarrow>
              (case sc_create cl (userSecret uc lib username hash owner) s of
                 (Inl err, s') \<Rightarrow> (Inl (CreateUserErr err), s')
               | (Inr name, s') \<Rightarrow> (Inr \<lparr>lu_secretName = name, lu_username = username, lu_owner = owner\<rparr>, s')))"

definition withHash :: "ksecret \<Rightarrow> string \<Rightarrow> ksecret" where
  "withHash x hash = x\<lparr>ks_data := (ks_data x)(''password-hash'' \<mapsto> hash)\<rparr>"

definition writePassword :: "'s sec_client \<Rightarrow> authlib \<Rightarrow> string \<Rightarrow> ksecret \<Rightarrow> string \<Rightarrow> string \<Rightarrow> 's \<Rightarrow> lusererr option \<times> 's" where
  "writePassword cl lib salt secret username newPassword s =
     (case HashPassword lib salt newPassword of
        Inl err \<Rightarrow> (Some (HashPasswordErr username err), s)
      | Inr hash \<Rightarrow>
          (case sc_patch cl (withHash secret hash) s of
             (Some err, s') \<Rightarrow> (Some (UpdatePasswordErr username err), s')
           | (None, s') \<Rightarrow> (None, s')))"

definition SetPassword ::
    "'s sec_client \<Rightarrow> authlib \<Rightarrow> string \<Rightarrow> string \<Rightarrow> string \<Rightarrow> string \<Rightarrow> 's \<Rightarrow> lusererr option \<times> 's" where
  "SetPassword cl lib salt username currentPassword newPassword s =
     (case findByUsername cl username s of
        Inl err \<Rightarrow> (Some err, s)
      | Inr secret \<Rightarrow>
          (case VerifyPassword lib (dataGet secret ''password-hash'') currentPassword of
             Some err \<Rightarrow> (Some err, s)
           | None \<Rightarrow> writePassword cl lib salt secret username newPassword s))"

definition ResetPassword :: "'s sec_client \<Rightarrow> authlib \<Rightarrow> string \<Rightarrow> string \<Rightarrow> string \<Rightarrow> 's \<Rightarrow> lusererr option \<times> 's" where
  "ResetPassword cl lib salt username newPassword s =
     (case findByUsername cl username s of
        Inl err \<Rightarrow> (Some err, s)
      | Inr secret \<Rightarrow> writePassword cl lib salt secret username newPassword s)"

definition lu_List :: "'s sec_client \<Rightarrow> 's \<Rightarrow> lusererr + localuser list" where
  "lu_List cl s =
     (case sc_list cl userSelector s of Inl err \<Rightarrow> Inl (ListUsersErr err) | Inr items \<Rightarrow> Inr (map localUserFromSecret items))"

definition FindByOwner :: "'s sec_client \<Rightarrow> string \<Rightarrow> 's \<Rightarrow> lusererr + localuser list" where
  "FindByOwner cl owner s =
     (case lu_List cl s of Inl err \<Rightarrow> Inl err | Inr users \<Rightarrow> Inr (filter (\<lambda>u. lu_owner u = owner) users))"

definition lu_Verify :: "'s sec_client \<Rightarrow> ucd \<Rightarrow> authlib \<Rightarrow> string \<Rightarrow> string \<Rightarrow> 's \<Rightarrow> lusererr + localuser" where
  "lu_Verify cl uc lib login plaintextPassword s =
     (case findByLogin cl uc login s of
        Inl err \<Rightarrow> Inl err
      | Inr secret \<Rightarrow>
          (case VerifyPassword lib (dataGet secret ''password-hash'') plaintextPassword of
             Some err \<Rightarrow> Inl err
           | None \<Rightarrow> Inr (localUserFromSecret secret)))"

definition lu_Delete :: "'s sec_client \<Rightarrow> string \<Rightarrow> 's \<Rightarrow> lusererr option \<times> 's" where
  "lu_Delete cl secretName s =
     (case sc_delete cl secretName s of
        (Some err, s') \<Rightarrow> (if IsNotFound err then None else Some (DeleteUserErr secretName err), s')
      | (None, s') \<Rightarrow> (None, s'))"

section \<open>Accounts as the store holds them\<close>

definition isUser :: "ksecret \<Rightarrow> bool" where
  "isUser x \<longleftrightarrow> ks_labels x LocalUserLabel = Some ''true''"

definition users :: "('s \<Rightarrow> string \<rightharpoonup> ksecret) \<Rightarrow> 's \<Rightarrow> string \<rightharpoonup> ksecret" where
  "users sec s n = (case sec s n of Some x \<Rightarrow> if isUser x then Some x else None | None \<Rightarrow> None)"

definition usernames_unique :: "('s \<Rightarrow> string \<rightharpoonup> ksecret) \<Rightarrow> 's \<Rightarrow> bool" where
  "usernames_unique sec s \<longleftrightarrow>
     (\<forall>n m x y. users sec s n = Some x \<and> users sec s m = Some y \<and> dataGet x ''username'' = dataGet y ''username'' \<longrightarrow> n = m)"

text \<open>The operations of the store, whatever they return, and writes of others that leave the accounts alone.\<close>

inductive lu_step :: "'s sec_client \<Rightarrow> ucd \<Rightarrow> authlib \<Rightarrow> ('s \<Rightarrow> string \<rightharpoonup> ksecret) \<Rightarrow> 's \<Rightarrow> 's \<Rightarrow> bool"
  for cl uc lib sec where
  lu_create: "lu_Create cl uc lib salt u p own s = (r, s') \<Longrightarrow> lu_step cl uc lib sec s s'"
| lu_set: "SetPassword cl lib salt u cur new s = (e, s') \<Longrightarrow> lu_step cl uc lib sec s s'"
| lu_reset: "ResetPassword cl lib salt u new s = (e, s') \<Longrightarrow> lu_step cl uc lib sec s s'"
| lu_delete: "lu_Delete cl n s = (e, s') \<Longrightarrow> lu_step cl uc lib sec s s'"
| lu_other: "users sec s' = users sec s \<Longrightarrow> lu_step cl uc lib sec s s'"

section \<open>Lemmas\<close>

lemma users_upd:
  "sec s' = (sec s)(n \<mapsto> x) \<Longrightarrow> isUser x \<Longrightarrow> users sec s' = (users sec s)(n \<mapsto> x)"
  "sec s' = (sec s)(n := None) \<Longrightarrow> users sec s' = (users sec s)(n := None)"
  by (auto simp: users_def fun_eq_iff)

lemma users_cong: "sec s' = sec s \<Longrightarrow> users sec s' = users sec s"
  by (simp add: users_def fun_eq_iff)

lemma userSecret_simps [simp]:
  "isUser ((userSecret uc lib u h own)\<lparr>ks_name := n\<rparr>)" "dataGet ((userSecret uc lib u h own)\<lparr>ks_name := n\<rparr>) ''username'' = u"
  "dataGet ((userSecret uc lib u h own)\<lparr>ks_name := n\<rparr>) ''password-hash'' = h"
  "dataGet ((userSecret uc lib u h own)\<lparr>ks_name := n\<rparr>) ''owner'' = own"
  by (simp_all add: isUser_def userSecret_def dataGet_def)

lemma withHash_simps [simp]:
  "ks_name (withHash x h) = ks_name x"
  "isUser (withHash x h) = isUser x"
  "dataGet (withHash x h) ''username'' = dataGet x ''username''"
  "dataGet (withHash x h) ''owner'' = dataGet x ''owner''"
  "dataGet (withHash x h) ''password-hash'' = h"
  by (simp_all add: withHash_def isUser_def dataGet_def)

lemma loginScan_eq:
  "loginScan uc l acc xs = (case find (\<lambda>x. dataGet x ''username'' = l) xs of Some x \<Rightarrow> Inl x
     | None \<Rightarrow> Inr (acc @ filter (\<lambda>x. EqualFold uc (dataGet x ''owner'') l) xs))"
  by (induction xs arbitrary: acc) (auto split: option.split)

context sec_laws
begin

lemma users_listed: "sc_list cl userSelector s = Inr xs \<Longrightarrow> x \<in> set xs \<longleftrightarrow> users sec s (ks_name x) = Some x"
  using listed [of userSelector s xs x] by (auto simp: users_def isUser_def labelOf_def split: option.splits)

lemma users_name: "users sec s n = Some x \<Longrightarrow> ks_name x = n"
  using sec_name [of s n] by (auto simp: users_def split: option.splits if_splits)

lemma findByUsername_ok: "findByUsername cl u s = Inr x \<Longrightarrow> users sec s (ks_name x) = Some x \<and> dataGet x ''username'' = u"
  using users_listed by (auto simp: findByUsername_def dest!: find_SomeE split: sum.splits option.splits)

lemma findByUsername_none: "findByUsername cl u s = Inl LocalUserNotFound \<Longrightarrow> users sec s n = Some x \<Longrightarrow> dataGet x ''username'' \<noteq> u"
  using users_listed [of s _ x] users_name [of s n x]
  by (auto simp: findByUsername_def find_None_iff split: sum.splits option.splits)

lemma lu_Create_ok:
  assumes "lu_Create cl uc lib salt u p own s = (Inr r, s')"
  obtains h where "TrimSpace u \<noteq> ''''" "findByUsername cl (TrimSpace u) s = Inl LocalUserNotFound" "al_bcryptHash lib salt p = Inr h"
    "sec s (lu_secretName r) = None" "lu_username r = TrimSpace u" "lu_owner r = own"
    "sec s' = (sec s)(lu_secretName r \<mapsto> (userSecret uc lib (TrimSpace u) h own)\<lparr>ks_name := lu_secretName r\<rparr>)"
proof -
  from assms obtain h where c: "TrimSpace u \<noteq> ''''" "findByUsername cl (TrimSpace u) s = Inl LocalUserNotFound" "al_bcryptHash lib salt p = Inr h"
    and r: "sc_create cl (userSecret uc lib (TrimSpace u) h own) s = (Inr (lu_secretName r), s')" "lu_username r = TrimSpace u" "lu_owner r = own"
    by (auto simp: lu_Create_def Let_def HashPassword_def split: sum.splits if_splits prod.splits)
  from created [OF r(1)] c r(2,3) that show thesis by blast
qed

lemma lu_Create_err: "lu_Create cl uc lib salt u p own s = (Inl e, s') \<Longrightarrow> sec s' = sec s"
  by (auto simp: lu_Create_def Let_def dest: create_refused split: sum.splits if_splits prod.splits)

lemma writePassword_ok:
  assumes "writePassword cl lib salt x u new s = (None, s')"
  obtains h where "new \<noteq> ''''" "al_bcryptHash lib salt new = Inr h"
    "sec s' = (sec s)(ks_name x \<mapsto> withHash x h)"
  using assms patched by (fastforce simp: writePassword_def HashPassword_def split: sum.splits if_splits prod.splits option.splits)

lemma writePassword_err: "writePassword cl lib salt x u new s = (Some e, s') \<Longrightarrow> sec s' = sec s"
  by (auto simp: writePassword_def dest: patch_refused split: sum.splits prod.splits option.splits)

end

context sec_laws
begin

lemma SetPassword_cases:
  assumes "SetPassword cl lib salt u cur new s = (e, s')"
  shows "sec s' = sec s \<and> e \<noteq> None \<or> e = None \<and> (\<exists>x h. users sec s (ks_name x) = Some x \<and> dataGet x ''username'' = u \<and>
    al_bcryptCompare lib (dataGet x ''password-hash'') cur \<and> al_bcryptHash lib salt new = Inr h \<and>
    sec s' = (sec s)(ks_name x \<mapsto> withHash x h))"
proof (cases "findByUsername cl u s")
  case (Inr x)
  show ?thesis
  proof (cases "al_bcryptCompare lib (dataGet x ''password-hash'') cur")
    case True
    with assms Inr have w: "writePassword cl lib salt x u new s = (e, s')" by (simp add: SetPassword_def VerifyPassword_def)
    show ?thesis
    proof (cases e)
      case None
      with w show ?thesis using findByUsername_ok [OF Inr] True by (auto elim!: writePassword_ok)
    qed (use w writePassword_err in auto)
  qed (use assms Inr in \<open>auto simp: SetPassword_def VerifyPassword_def\<close>)
qed (use assms in \<open>auto simp: SetPassword_def\<close>)

lemma ResetPassword_cases:
  assumes "ResetPassword cl lib salt u new s = (e, s')"
  shows "sec s' = sec s \<and> e \<noteq> None \<or> e = None \<and> (\<exists>x h. users sec s (ks_name x) = Some x \<and> dataGet x ''username'' = u \<and>
    al_bcryptHash lib salt new = Inr h \<and> sec s' = (sec s)(ks_name x \<mapsto> withHash x h))"
proof (cases "findByUsername cl u s")
  case (Inr x)
  with assms have w: "writePassword cl lib salt x u new s = (e, s')" by (simp add: ResetPassword_def)
  show ?thesis
  proof (cases e)
    case None
    with w show ?thesis using findByUsername_ok [OF Inr] by (auto elim!: writePassword_ok)
  qed (use w writePassword_err in auto)
qed (use assms in \<open>auto simp: ResetPassword_def\<close>)

lemma lu_Delete_cases: "lu_Delete cl n s = (e, s') \<Longrightarrow> sec s' = (sec s)(n := None) \<or> sec s' = sec s"
  using deleted [of n s s'] delete_refused [of n s _ s'] by (auto simp: lu_Delete_def split: prod.splits option.splits if_splits)

lemma unique_upd:
  assumes "usernames_unique sec s" "users sec s' = (users sec s)(n \<mapsto> x)"
    "\<And>m y. m \<noteq> n \<Longrightarrow> users sec s m = Some y \<Longrightarrow> dataGet y ''username'' \<noteq> dataGet x ''username''"
  shows "usernames_unique sec s'"
  unfolding usernames_unique_def assms(2)
proof (intro allI impI)
  fix k l y z
  assume a: "((users sec s)(n \<mapsto> x)) k = Some y \<and> ((users sec s)(n \<mapsto> x)) l = Some z \<and> dataGet y ''username'' = dataGet z ''username''"
  show "k = l"
  proof (cases "k = n \<or> l = n")
    case True
    with a assms(3) [of k y] assms(3) [of l z] show ?thesis by (auto split: if_splits)
  next
    case False
    with a assms(1) show ?thesis unfolding usernames_unique_def by auto
  qed
qed

lemma unique_rehash:
  assumes "usernames_unique sec s" "users sec s (ks_name x) = Some x"
    "sec s' = (sec s)(ks_name x \<mapsto> withHash x h)"
  shows "usernames_unique sec s'"
proof -
  from assms(2) have "isUser x" by (auto simp: users_def split: option.splits if_splits)
  then have "users sec s' = (users sec s)(ks_name x \<mapsto> withHash x h)"
    using users_upd(1) [OF assms(3)] by simp
  moreover have "dataGet y ''username'' \<noteq> dataGet x ''username''" if "m \<noteq> ks_name x" "users sec s m = Some y" for m y
    using that assms(1,2) unfolding usernames_unique_def by metis
  ultimately show ?thesis by (intro unique_upd [OF assms(1)]) (assumption, metis withHash_simps(3))
qed

lemma unique_cong: "users sec s' = users sec s \<Longrightarrow> usernames_unique sec s \<Longrightarrow> usernames_unique sec s'"
  by (simp add: usernames_unique_def)

lemma unique_create:
  assumes "lu_Create cl uc lib salt u p own s = (r, s')" "usernames_unique sec s"
  shows "usernames_unique sec s'"
proof (cases r)
  case (Inl e)
  with assms show ?thesis using lu_Create_err users_cong unique_cong by metis
next
  case (Inr a)
  with assms(1) obtain h where f: "findByUsername cl (TrimSpace u) s = Inl LocalUserNotFound"
    and st: "sec s' = (sec s)(lu_secretName a \<mapsto> (userSecret uc lib (TrimSpace u) h own)\<lparr>ks_name := lu_secretName a\<rparr>)"
    by (auto elim!: lu_Create_ok)
  from users_upd(1) [OF st] have "users sec s' = (users sec s)(lu_secretName a \<mapsto> (userSecret uc lib (TrimSpace u) h own)\<lparr>ks_name := lu_secretName a\<rparr>)"
    by simp
  from unique_upd [OF assms(2) this] findByUsername_none [OF f] show ?thesis by simp
qed

lemma unique_step: "lu_step cl uc lib sec s s' \<Longrightarrow> usernames_unique sec s \<Longrightarrow> usernames_unique sec s'"
proof (induction rule: lu_step.induct)
  case (lu_create salt u p own s r s')
  then show ?case by (rule unique_create)
next
  case (lu_set salt u cur new s e s')
  from SetPassword_cases [OF lu_set(1)] lu_set(2) show ?case by (auto intro: unique_rehash unique_cong users_cong)
next
  case (lu_reset salt u new s e s')
  from ResetPassword_cases [OF lu_reset(1)] lu_reset(2) show ?case by (auto intro: unique_rehash unique_cong users_cong)
next
  case (lu_delete n s e s')
  from lu_Delete_cases [OF lu_delete(1)] show ?case
  proof
    assume "sec s' = (sec s)(n := None)"
    from users_upd(2) [OF this] lu_delete(2) show ?thesis unfolding usernames_unique_def by (auto split: if_splits)
  qed (use lu_delete(2) in \<open>auto intro: users_cong unique_cong\<close>)
next
  case (lu_other s' s)
  then show ?case by (rule unique_cong)
qed

end

sublocale sec_laws \<subseteq> accounts: preserved "\<lambda>s. users sec s = Map.empty" "lu_step cl uc lib sec" "usernames_unique sec" for uc lib
  by unfold_locales (simp_all add: unique_step, simp add: usernames_unique_def)

context sec_laws
begin

lemma unique_reach: "reach (\<lambda>s. users sec s = Map.empty) (lu_step cl uc lib sec) s \<Longrightarrow> usernames_unique sec s"
  by (rule accounts.inv_reach)

end

section \<open>Properties\<close>

text \<open>
  (C32) However the store is used, no two local accounts have one username: creating refuses a username that is taken, changing a
  password keeps the username, and nothing else writes accounts.
\<close>
theorem usernames_always_unique:
  assumes "sec_laws cl sec" "reach (\<lambda>s. users sec s = Map.empty) (lu_step cl uc lib sec) s"
    and "users sec s n = Some x" "users sec s m = Some y" "dataGet x ''username'' = dataGet y ''username''"
  shows "n = m"
  using sec_laws.unique_reach [OF assms(1,2)] assms(3-5) unfolding usernames_unique_def by blast

definition answers :: "ucd \<Rightarrow> string \<Rightarrow> ksecret \<Rightarrow> bool" where
  "answers uc login x \<longleftrightarrow> EqualFold uc (dataGet x ''owner'') login"

context sec_laws
begin

lemma findByLogin_username:
  assumes "sc_list cl userSelector s = Inr xs" "usernames_unique sec s" "users sec s n = Some x"
    "dataGet x ''username'' = TrimSpace login" "TrimSpace login \<noteq> ''''"
  shows "findByLogin cl uc login s = Inr x"
proof -
  have "x \<in> set xs" using users_listed [OF assms(1)] users_name [OF assms(3)] assms(3) by simp
  then have "find (\<lambda>x. dataGet x ''username'' = TrimSpace login) xs \<noteq> None" using assms(4) by (auto simp: find_None_iff)
  then obtain y where y: "find (\<lambda>x. dataGet x ''username'' = TrimSpace login) xs = Some y" by auto
  from find_SomeE [OF this] users_listed [OF assms(1)] have "users sec s (ks_name y) = Some y" "dataGet y ''username'' = TrimSpace login" by auto
  with assms(2-4) have "y = x" unfolding usernames_unique_def by (metis option.inject)
  with y assms(1,5) show ?thesis by (simp add: findByLogin_def listLocalUsers_def loginScan_eq)
qed

lemma findByLogin_owner:
  assumes "sc_list cl userSelector s = Inr xs" "\<And>n x. users sec s n = Some x \<Longrightarrow> dataGet x ''username'' \<noteq> TrimSpace login" "TrimSpace login \<noteq> ''''"
  shows "findByLogin cl uc login s = Inr x \<longleftrightarrow>
    (\<exists>n. users sec s n = Some x \<and> answers uc (TrimSpace login) x \<and> (\<forall>m y. users sec s m = Some y \<and> answers uc (TrimSpace login) y \<longrightarrow> m = n))"
proof -
  let ?f = "filter (answers uc (TrimSpace login)) xs"
  note l = users_listed [OF assms(1)]
  have "find (\<lambda>x. dataGet x ''username'' = TrimSpace login) xs = None" using l assms(2) by (auto simp: find_None_iff)
  then have "findByLogin cl uc login s = Inr x \<longleftrightarrow> ?f = [x]"
    using assms(1,3) by (auto simp: findByLogin_def listLocalUsers_def loginScan_eq answers_def [abs_def] split: list.splits)
  also have "distinct (map ks_name ?f)" using listed_distinct [OF assms(1)] by (simp add: distinct_map_filter)
  then have "?f = [x] \<longleftrightarrow> set ?f = {x}" by (cases ?f; cases "tl ?f") (auto simp: distinct_map)
  also have "\<dots> \<longleftrightarrow> (\<exists>n. users sec s n = Some x \<and> answers uc (TrimSpace login) x \<and>
      (\<forall>m y. users sec s m = Some y \<and> answers uc (TrimSpace login) y \<longrightarrow> m = n))"
  proof
    assume a: "set ?f = {x}"
    have "y = x" if "users sec s m = Some y" "answers uc (TrimSpace login) y" for m y
    proof -
      from that users_name [OF that(1)] l [of y] have "y \<in> set ?f" by simp
      with a show ?thesis by simp
    qed
    moreover from a have "x \<in> set ?f" by simp
    then have "users sec s (ks_name x) = Some x" "answers uc (TrimSpace login) x" using l by auto
    ultimately show "\<exists>n. users sec s n = Some x \<and> answers uc (TrimSpace login) x \<and>
      (\<forall>m y. users sec s m = Some y \<and> answers uc (TrimSpace login) y \<longrightarrow> m = n)"
      using users_name by metis
  next
    assume "\<exists>n. users sec s n = Some x \<and> answers uc (TrimSpace login) x \<and>
      (\<forall>m y. users sec s m = Some y \<and> answers uc (TrimSpace login) y \<longrightarrow> m = n)"
    then obtain n where n: "users sec s n = Some x" "answers uc (TrimSpace login) x"
      "\<And>m y. users sec s m = Some y \<Longrightarrow> answers uc (TrimSpace login) y \<Longrightarrow> m = n" by blast
    from n(1,2) users_name [OF n(1)] l [of x] have "x \<in> set ?f" by simp
    moreover have "y = x" if "y \<in> set ?f" for y
    proof -
      from that l [of y] have "users sec s (ks_name y) = Some y" "answers uc (TrimSpace login) y" by simp_all
      with n(1) n(3) [of "ks_name y" y] show ?thesis by simp
    qed
    ultimately show "set ?f = {x}" by blast
  qed
  finally show ?thesis .
qed

end

text \<open>
  (C16) Exactly who a login signs in. With unique usernames, a sign-in succeeds if and only if the trimmed login is not empty, the
  password passes the comparison with the hash of the account it returns, and that account is either the one with this username or,
  when there is none, the only account whose owner equals the login up to case. Two owners that answer to one login sign nobody in.
\<close>
theorem login_exact:
  assumes "sec_laws cl sec" "sc_list cl userSelector s = Inr xs" "usernames_unique sec s"
  shows "lu_Verify cl uc lib login password s = Inr u \<longleftrightarrow>
    TrimSpace login \<noteq> '''' \<and>
    (\<exists>n x. users sec s n = Some x \<and> u = localUserFromSecret x \<and> al_bcryptCompare lib (dataGet x ''password-hash'') password \<and>
       (dataGet x ''username'' = TrimSpace login \<or>
        (\<forall>m y. users sec s m = Some y \<longrightarrow> dataGet y ''username'' \<noteq> TrimSpace login) \<and> answers uc (TrimSpace login) x \<and>
        (\<forall>m y. users sec s m = Some y \<and> answers uc (TrimSpace login) y \<longrightarrow> m = n)))"
proof (cases "TrimSpace login = ''''")
  case True
  then show ?thesis by (simp add: lu_Verify_def findByLogin_def)
next
  case ne: False
  have v: "lu_Verify cl uc lib login password s = Inr u \<longleftrightarrow>
    (\<exists>x. findByLogin cl uc login s = Inr x \<and> u = localUserFromSecret x \<and> al_bcryptCompare lib (dataGet x ''password-hash'') password)"
    by (auto simp: lu_Verify_def VerifyPassword_def split: sum.splits option.splits if_splits)
  show ?thesis
  proof (cases "\<exists>n x. users sec s n = Some x \<and> dataGet x ''username'' = TrimSpace login")
    case True
    then obtain n x where x: "users sec s n = Some x" "dataGet x ''username'' = TrimSpace login" by blast
    have "y = x" if "users sec s m = Some y" "dataGet y ''username'' = TrimSpace login" for m y
      using x that assms(3) unfolding usernames_unique_def by (metis option.inject)
    with x ne show ?thesis unfolding v sec_laws.findByLogin_username [OF assms x ne] by blast
  next
    case False
    then have no: "\<And>n x. users sec s n = Some x \<Longrightarrow> dataGet x ''username'' \<noteq> TrimSpace login" by blast
    have "findByLogin cl uc login s = Inr x \<longleftrightarrow> (\<exists>n. users sec s n = Some x \<and> answers uc (TrimSpace login) x \<and>
      (\<forall>m y. users sec s m = Some y \<and> answers uc (TrimSpace login) y \<longrightarrow> m = n))" for x
      by (rule sec_laws.findByLogin_owner [OF assms(1,2) _ ne]) (use no in blast)
    then show ?thesis unfolding v using no ne by blast
  qed
qed

text \<open>What bcrypt promises: a hash it made accepts the password it was made from.\<close>

definition bcrypt_law :: "authlib \<Rightarrow> bool" where
  "bcrypt_law lib \<longleftrightarrow> (\<forall>salt p h. al_bcryptHash lib salt p = Inr h \<longrightarrow> al_bcryptCompare lib h p)"

context sec_laws
begin

lemma verify_account:
  assumes "sc_list cl userSelector s = Inr xs" "usernames_unique sec s" "users sec s n = Some x" "dataGet x ''username'' = TrimSpace u"
    "TrimSpace u \<noteq> ''''" "al_bcryptCompare lib (dataGet x ''password-hash'') p"
  shows "lu_Verify cl uc lib u p s = Inr (localUserFromSecret x)"
  using findByLogin_username [OF assms(1-5)] assms(6) by (simp add: lu_Verify_def VerifyPassword_def)

lemma created_verifies:
  assumes "bcrypt_law lib" "usernames_unique sec s" "lu_Create cl uc lib salt u p own s = (Inr a, s')"
    and "sec t = sec s'" "sc_list cl userSelector t = Inr xs"
  shows "\<exists>v. lu_Verify cl uc lib u p t = Inr v \<and> lu_owner v = own"
proof -
  from lu_Create_ok [OF assms(3)] obtain h where c: "TrimSpace u \<noteq> ''''" "al_bcryptHash lib salt p = Inr h" "lu_owner a = own"
    and st: "sec s' = (sec s)(lu_secretName a \<mapsto> (userSecret uc lib (TrimSpace u) h own)\<lparr>ks_name := lu_secretName a\<rparr>)" by metis
  let ?x = "(userSecret uc lib (TrimSpace u) h own)\<lparr>ks_name := lu_secretName a\<rparr>"
  have x: "users sec t (lu_secretName a) = Some ?x" unfolding users_def assms(4) st by (simp add: userSecret_simps)
  have "usernames_unique sec t" using unique_create [OF assms(3,2)] assms(4) by (simp add: usernames_unique_def users_def)
  from verify_account [OF assms(5) this x] c(1,2) assms(1)
  have "lu_Verify cl uc lib u p t = Inr (localUserFromSecret ?x)" by (simp add: bcrypt_law_def)
  then show ?thesis by (simp add: localUserFromSecret_def)
qed

end

text \<open>
  A local account that was created can sign in. After a successful create the username with its password signs in as exactly
  the account that was returned and every other Secret is unchanged; a create that fails changes nothing.
\<close>
theorem account_roundtrip:
  assumes "sec_laws cl sec" "bcrypt_law lib" "usernames_unique sec s" "lu_Create cl uc lib salt u p own s = (r, s')"
    and "sc_list cl userSelector s' = Inr xs"
  shows "case r of Inl _ \<Rightarrow> sec s' = sec s
    | Inr a \<Rightarrow> lu_Verify cl uc lib u p s' = Inr a \<and> lu_username a = TrimSpace u \<and> lu_owner a = own \<and>
        sec s (lu_secretName a) = None \<and> (\<forall>n. n \<noteq> lu_secretName a \<longrightarrow> sec s' n = sec s n)"
proof (cases r)
  case (Inl e)
  with sec_laws.lu_Create_err [OF assms(1)] assms(4) show ?thesis by simp
next
  case (Inr a)
  from sec_laws.lu_Create_ok [OF assms(1) assms(4) [unfolded Inr]] obtain h where c: "TrimSpace u \<noteq> ''''" "al_bcryptHash lib salt p = Inr h"
    "sec s (lu_secretName a) = None" "lu_username a = TrimSpace u" "lu_owner a = own"
    and st: "sec s' = (sec s)(lu_secretName a \<mapsto> (userSecret uc lib (TrimSpace u) h own)\<lparr>ks_name := lu_secretName a\<rparr>)" by blast
  let ?x = "(userSecret uc lib (TrimSpace u) h own)\<lparr>ks_name := lu_secretName a\<rparr>"
  have x: "users sec s' (lu_secretName a) = Some ?x" using users_upd(1) [OF st] by simp
  have "lu_Verify cl uc lib u p s' = Inr (localUserFromSecret ?x)"
    using sec_laws.verify_account [OF assms(1,5) sec_laws.unique_create [OF assms(1,4,3)] x] c(1,2) assms(2) by (simp add: bcrypt_law_def)
  moreover have "localUserFromSecret ?x = a" using c(4,5) by (simp add: localUserFromSecret_def)
  ultimately show ?thesis using Inr c st by simp
qed

text \<open>
  Changing a password needs the current one. A change that succeeds was made by someone whose current password passed the comparison
  for that username; afterwards the new password signs that account in and nothing else has changed. A change that fails changes nothing.
\<close>
theorem password_change_exact:
  assumes "sec_laws cl sec" "bcrypt_law lib" "usernames_unique sec s" "SetPassword cl lib salt u cur new s = (e, s')"
    and "TrimSpace u = u" "u \<noteq> ''''" "sc_list cl userSelector s' = Inr xs"
  shows "if e \<noteq> None then sec s' = sec s
    else \<exists>x. users sec s (ks_name x) = Some x \<and> dataGet x ''username'' = u \<and> al_bcryptCompare lib (dataGet x ''password-hash'') cur \<and>
      lu_Verify cl uc lib u new s' = Inr (localUserFromSecret x) \<and> (\<forall>n. n \<noteq> ks_name x \<longrightarrow> sec s' n = sec s n)"
  using sec_laws.SetPassword_cases [OF assms(1,4)]
proof (elim disjE conjE exE)
  fix x h assume x: "users sec s (ks_name x) = Some x" "dataGet x ''username'' = u" "al_bcryptCompare lib (dataGet x ''password-hash'') cur"
    and h: "al_bcryptHash lib salt new = Inr h" and st: "sec s' = (sec s)(ks_name x \<mapsto> withHash x h)" and e: "e = None"
  from x(1) have u: "isUser x" by (auto simp: users_def split: option.splits if_splits)
  have n: "users sec s' (ks_name x) = Some (withHash x h)" using users_upd(1) [OF st] u by simp
  have "lu_Verify cl uc lib u new s' = Inr (localUserFromSecret (withHash x h))"
    using sec_laws.verify_account [OF assms(1,7) sec_laws.unique_rehash [OF assms(1,3) x(1) st] n] x(2) h assms(2,5,6) by (simp add: bcrypt_law_def)
  moreover have "localUserFromSecret (withHash x h) = localUserFromSecret x" by (simp add: localUserFromSecret_def)
  ultimately show ?thesis using x st e by auto
qed simp

section \<open>Names and generated passwords\<close>

definition nameChar :: "char \<Rightarrow> bool" where
  "nameChar c \<longleftrightarrow> nameRune (byte c)"

lemma nameRune_lt: "nameRune r \<Longrightarrow> r < 0x80"
  by (auto simp: nameRune_def)

lemma sanitiseName_chars: "c \<in> set (sanitiseName uc raw) \<Longrightarrow> nameChar c"
proof -
  let ?f = "\<lambda>r. if nameRune r then char_of r else CHR ''-''"
  assume "c \<in> set (sanitiseName uc raw)"
  with TrimSet_subset have "c \<in> ?f ` set (runes (ToLower uc (TrimSpace raw)))" unfolding sanitiseName_def by fastforce
  then show ?thesis using nameRune_lt by (fastforce simp: nameChar_def nameRune_def)
qed

text \<open>
  The Secret of a local account always has a valid object name: lower-case letters, digits, hyphens and dots, starting and
  ending with a letter or digit, at most 253 bytes, whatever the username is.
\<close>
theorem secret_name_valid:
  assumes "\<forall>c\<in>set (al_sha256 lib u). nameChar c"
  shows "(\<forall>c\<in>set (LocalUserSecretName uc lib u). nameChar c) \<and> length (LocalUserSecretName uc lib u) \<le> 253 \<and>
    hd (LocalUserSecretName uc lib u) = CHR ''d'' \<and> last (LocalUserSecretName uc lib u) \<notin> {CHR ''-'', CHR ''.''}"
proof -
  let ?s = "sanitiseName uc u"
  let ?long = "LocalUserSecretPrefix @ (if ?s \<noteq> ToLower uc u \<or> ?s = [] then ?s @ ''-'' @ take 8 (al_sha256 lib u) else ?s)"
  let ?n = "take 253 ?long"
  have n: "LocalUserSecretName uc lib u = TrimSet ?n ''-.''" by (auto simp: LocalUserSecretName_def Let_def maxSecretName_def)
  have pre: "nameChar c" if "c \<in> set LocalUserSecretPrefix" for c
    using that by (auto simp: LocalUserSecretPrefix_def nameChar_def nameRune_def)
  have "nameChar (CHR ''-'')" by (simp add: nameChar_def nameRune_def)
  then have "nameChar c" if "c \<in> set ?long" for c
    using that pre sanitiseName_chars [of c uc u] assms set_take_subset [of 8 "al_sha256 lib u"] by (auto split: if_splits)
  then have "nameChar c" if "c \<in> set ?n" for c using that set_take_subset [of 253 ?long] by blast
  then have "\<forall>c\<in>set (TrimSet ?n ''-.''). nameChar c" using TrimSet_subset [of ?n "''-.''"] by blast
  moreover have "length (TrimSet ?n ''-.'') \<le> 253" using TrimSet_length [of ?n "''-.''"] by simp
  moreover have t: "TrimSet ?n ''-.'' \<noteq> [] \<and> hd (TrimSet ?n ''-.'') = CHR ''d''"
    using TrimSet_hd [of ?n "''-.''"] by (simp add: LocalUserSecretPrefix_def)
  moreover have "last (TrimSet ?n ''-.'') \<notin> {CHR ''-'', CHR ''.''}"
    using TrimSet_ends [of ?n "''-.''"] t by simp
  ultimately show ?thesis unfolding n by blast
qed

lemma trim_demo [simp]: "TrimSpace ''Alice'' = ''Alice''" "TrimSpace ''alice'' = ''alice''" "TrimSpace ''bob'' = ''bob''" "TrimSpace ''ana'' = ''ana''"
  by code_simp+

lemma ascii_demo [simp]: "ascii ''Alice''" "ascii ''alice''" "ascii ''ana''" "ascii ''bob''"
  by (simp_all add: ascii_def)

lemma alice_names:
  "LocalUserSecretName uc lib ''Alice'' = ''dwpk-local-user-alice'' \<and> LocalUserSecretName uc lib ''alice'' = ''dwpk-local-user-alice''"
proof -
  have "ToLower uc ''Alice'' = ''alice''" "ToLower uc ''alice'' = ''alice''" by (simp_all add: ToLower_ascii lowerRune_def char_of_def bit_0)
  moreover from this have "sanitiseName uc ''Alice'' = ''alice''" "sanitiseName uc ''alice'' = ''alice''"
    by (simp_all add: sanitiseName_def runes_ascii nameRune_def TrimSet_def char_of_def bit_0 del: runes.simps)
  ultimately show ?thesis by (simp add: LocalUserSecretName_def LocalUserSecretPrefix_def maxSecretName_def TrimSet_def)
qed

text \<open>
  Different usernames may get one Secret name: the hash that keeps names apart is left out when only the case differs, so
  Alice and alice share a name and the second of them cannot be created.
\<close>
theorem usernames_collide:
  "LocalUserSecretName uc lib ''Alice'' = ''dwpk-local-user-alice'' \<and> LocalUserSecretName uc lib ''alice'' = ''dwpk-local-user-alice''"
  by (rule alice_names)

lemma generateFrom_ok:
  assumes "\<And>i d. draws i = Inr d \<Longrightarrow> d < length passwordAlphabet"
  shows "case generateFrom draws i n of Inl e \<Rightarrow> \<exists>j\<in>{i..<i + n}. \<exists>err. draws j = Inl err
    | Inr p \<Rightarrow> length p = n \<and> set p \<subseteq> set passwordAlphabet"
proof (induction n arbitrary: i)
  case (Suc n)
  show ?case
  proof (cases "draws i")
    case (Inr d)
    with assms [OF Inr] Suc [of "Suc i"] show ?thesis by (auto split: sum.splits)
  qed auto
qed simp

lemma GeneratePassword_ok:
  assumes "\<And>i d. draws i = Inr d \<Longrightarrow> d < length passwordAlphabet" "GeneratePassword draws = Inr p"
  shows "length p = 20 \<and> set p \<subseteq> set passwordAlphabet"
  using generateFrom_ok [of draws 0 20] assms by (auto simp: GeneratePassword_def generatedPasswordLength_def)

section \<open>Witnesses\<close>

definition demo_uc :: ucd where
  "demo_uc = \<lparr>uc_lower = (\<lambda>r. r), uc_fold = (\<lambda>r. if 0x41 \<le> r \<and> r \<le> 0x5A then r + 32 else r)\<rparr>"

definition demo_account :: "string \<Rightarrow> string \<Rightarrow> string \<Rightarrow> string \<Rightarrow> ksecret" where
  "demo_account n u p own = (userSecret demo_uc demo_authlib u (''b'' @ p) own)\<lparr>ks_name := n\<rparr>"

lemma demo_account_simps [simp]: "ks_name (demo_account n u p own) = n" "isUser (demo_account n u p own)" "dataGet (demo_account n u p own) ''username'' = u"
  "dataGet (demo_account n u p own) ''password-hash'' = ''b'' @ p" "dataGet (demo_account n u p own) ''owner'' = own"
  "labelOf userSelector (demo_account n u p own)" "localUserFromSecret (demo_account n u p own) = \<lparr>lu_secretName = n, lu_username = u, lu_owner = own\<rparr>"
  by (simp_all add: demo_account_def labelOf_def userSecret_def localUserFromSecret_def isUser_def dataGet_def)

lemma demo_bcrypt: "bcrypt_law demo_authlib"
  by (simp add: bcrypt_law_def demo_authlib_def)

lemma demo_list_users: "distinct (map ks_name xs) \<Longrightarrow> (\<forall>x\<in>set xs. labelOf userSelector x) \<Longrightarrow> sc_list mem_sec userSelector xs = Inr xs"
  by (simp add: mem_sec_def)

definition demo_users :: "ksecret list" where
  "demo_users = [demo_account ''a'' ''ana'' ''pw1'' ''ana@x'', demo_account ''b'' ''bob'' ''pw2'' ''ana@x'']"

lemma demo_users_list: "sc_list mem_sec userSelector demo_users = Inr demo_users"
  by (rule demo_list_users) (simp_all add: demo_users_def)

lemma demo_users_unique: "usernames_unique memFind demo_users" "usernames_unique memFind []"
  by (auto simp: usernames_unique_def users_def memFind_def demo_users_def split: if_splits option.splits)

lemma demo_create:
  "lu_Create mem_sec demo_uc demo_authlib ''salt'' ''alice'' ''pw'' ''alice@x'' [] =
    (Inr \<lparr>lu_secretName = ''dwpk-local-user-alice'', lu_username = ''alice'', lu_owner = ''alice@x''\<rparr>,
     [demo_account ''dwpk-local-user-alice'' ''alice'' ''pw'' ''alice@x''])"
proof -
  have h: "HashPassword demo_authlib ''salt'' ''pw'' = Inr ''bpw''" by (simp add: HashPassword_def demo_authlib_def)
  have n: "LocalUserSecretName demo_uc demo_authlib ''alice'' = ''dwpk-local-user-alice''" using alice_names by simp
  then have c: "sc_create mem_sec (userSecret demo_uc demo_authlib ''alice'' ''bpw'' ''alice@x'') [] =
    (Inr ''dwpk-local-user-alice'', [demo_account ''dwpk-local-user-alice'' ''alice'' ''pw'' ''alice@x''])"
    by (simp add: mem_sec_def userSecret_def demo_account_def Let_def)
  show ?thesis by (simp add: lu_Create_def findByUsername_def demo_list_users h c Let_def)
qed

theorem account_roundtrip_witness:
  "lu_Verify mem_sec demo_uc demo_authlib ''alice'' ''pw'' [demo_account ''dwpk-local-user-alice'' ''alice'' ''pw'' ''alice@x''] =
     Inr \<lparr>lu_secretName = ''dwpk-local-user-alice'', lu_username = ''alice'', lu_owner = ''alice@x''\<rparr>"
  using account_roundtrip [OF mem_sec_laws demo_bcrypt demo_users_unique(2) demo_create demo_list_users] by simp

theorem usernames_always_unique_witness:
  "usernames_unique memFind [demo_account ''dwpk-local-user-alice'' ''alice'' ''pw'' ''alice@x''] \<and>
   lu_step mem_sec demo_uc demo_authlib memFind [] [demo_account ''dwpk-local-user-alice'' ''alice'' ''pw'' ''alice@x'']"
proof -
  let ?s = "[demo_account ''dwpk-local-user-alice'' ''alice'' ''pw'' ''alice@x'']"
  have st: "lu_step mem_sec demo_uc demo_authlib memFind [] ?s" by (rule lu_create [OF demo_create])
  let ?S = "lu_step mem_sec demo_uc demo_authlib memFind"
  have i: "reach (\<lambda>s. users memFind s = Map.empty) ?S []" by (rule reach_start) (simp add: users_def [abs_def] memFind_def)
  have r: "reach (\<lambda>s. users memFind s = Map.empty) ?S ?s" by (rule reach_next [where step = ?S, OF i st])
  from usernames_always_unique [OF mem_sec_laws r] st show ?thesis unfolding usernames_unique_def by blast
qed

theorem login_exact_witness:
  "lu_Verify mem_sec demo_uc demo_authlib ''bob'' ''pw2'' demo_users = Inr \<lparr>lu_secretName = ''b'', lu_username = ''bob'', lu_owner = ''ana@x''\<rparr>"
proof -
  have u: "users memFind demo_users ''b'' = Some (demo_account ''b'' ''bob'' ''pw2'' ''ana@x'')" by (simp add: users_def memFind_def demo_users_def)
  have "al_bcryptCompare demo_authlib (''b'' @ ''pw2'') ''pw2''" by (simp add: demo_authlib_def)
  with u show ?thesis unfolding login_exact [OF mem_sec_laws demo_users_list demo_users_unique(1)]
    by (intro conjI exI [of _ "''b''"] exI [of _ "demo_account ''b'' ''bob'' ''pw2'' ''ana@x''"]) simp_all
qed

theorem password_change_exact_witness:
  "fst (SetPassword mem_sec demo_authlib ''salt'' ''bob'' ''wrong'' ''new'' demo_users) \<noteq> None \<and>
   memFind (snd (SetPassword mem_sec demo_authlib ''salt'' ''bob'' ''wrong'' ''new'' demo_users)) = memFind demo_users"
proof -
  let ?r = "SetPassword mem_sec demo_authlib ''salt'' ''bob'' ''wrong'' ''new'' demo_users"
  have f: "findByUsername mem_sec ''bob'' demo_users = Inr (demo_account ''b'' ''bob'' ''pw2'' ''ana@x'')"
    by (simp add: findByUsername_def demo_users_list) (simp add: demo_users_def)
  have v: "VerifyPassword demo_authlib (''b'' @ ''pw2'') ''wrong'' = Some InvalidCredentials" by (simp add: VerifyPassword_def demo_authlib_def)
  have r: "?r = (Some InvalidCredentials, demo_users)" using v by (simp add: SetPassword_def f)
  from password_change_exact [OF mem_sec_laws demo_bcrypt demo_users_unique(1) r] demo_users_list show ?thesis unfolding r by simp
qed

theorem secret_name_valid_witness:
  "hd (LocalUserSecretName demo_uc (demo_authlib\<lparr>al_sha256 := \<lambda>s. ''0123abcd''\<rparr>) ''Alice @ Corp'') = CHR ''d''"
  using secret_name_valid [of "demo_authlib\<lparr>al_sha256 := \<lambda>s. ''0123abcd''\<rparr>" "''Alice @ Corp''" demo_uc]
  by (simp add: nameChar_def nameRune_def)

end
