(* ===== verification/Bootstrap.thy ===== *)
theory Bootstrap
  imports Tokens LocalUsers WorkspaceObjects
begin

text \<open>
  The bootstrap of an installation (\<^verbatim>\<open>src/internal/bootstrap\<close>): the administrator's UserSpace and local account
  (\<^verbatim>\<open>account.go\<close>), the initial API token (\<^verbatim>\<open>admin.go\<close>) and the Secret that shows both once (\<^verbatim>\<open>initial.go\<close>).

  All Secrets live in the release namespace, which the client record is for; creating the UserSpace is one more call.
\<close>

record ('q, 's) boot_client =
  bc_secrets :: "'s sec_client"
  bc_createUserSpace :: "'q userspace \<Rightarrow> 's \<Rightarrow> apierr option \<times> 's"

section \<open>The bootstrap Secret (initial.go)\<close>

definition BootstrapSecretName :: string where
  "BootstrapSecretName = ''dwpk-admin-bootstrap''"

definition BootstrapKeyUsername :: string where
  "BootstrapKeyUsername = ''username''"

definition BootstrapKeyPassword :: string where
  "BootstrapKeyPassword = ''password''"

definition BootstrapKeyToken :: string where
  "BootstrapKeyToken = ''token''"

datatype booterr =
    NamespaceRequired | UserSpaceNameRequired | UsernameRequired | EmailRequired
  | CreateBootstrapErr apierr | ReadBootstrapErr apierr | UpdateBootstrapErr apierr
  | CreateUserSpaceErr string apierr | ListLocalUsersErr lusererr | PasswordErr lusererr | CreateLocalUserErr lusererr
  | CheckTokenErr tokerr | IssueTokenErr tokerr

fun addMissing :: "string gomap \<Rightarrow> strmap \<Rightarrow> strmap \<times> bool" where
  "addMissing [] data = (data, False)"
| "addMissing ((name, value) # rest) data =
     (if data name \<noteq> None then addMissing rest data
      else case addMissing rest (data(name \<mapsto> value)) of (data', _) \<Rightarrow> (data', True))"

definition writeInitialValues :: "'s sec_client \<Rightarrow> string gomap \<Rightarrow> 's \<Rightarrow> booterr option \<times> 's" where
  "writeInitialValues cl values s =
     (case sc_create cl \<lparr>ks_name = BootstrapSecretName, ks_generateName = '''', ks_labels = Map.empty, ks_data = map_of values\<rparr> s of
        (Inr _, s1) \<Rightarrow> (None, s1)
      | (Inl err, s1) \<Rightarrow>
          if err \<noteq> AlreadyExists then (Some (CreateBootstrapErr err), s1)
          else case sc_get cl BootstrapSecretName s1 of
            Inl err \<Rightarrow> (Some (ReadBootstrapErr err), s1)
          | Inr existing \<Rightarrow>
              (case addMissing values (ks_data existing) of
                 (data, changed) \<Rightarrow>
                   if \<not> changed then (None, s1)
                   else case sc_patch cl (existing\<lparr>ks_data := data\<rparr>) s1 of
                     (Some err, s2) \<Rightarrow> (Some (UpdateBootstrapErr err), s2)
                   | (None, s2) \<Rightarrow> (None, s2)))"

section \<open>The account (account.go)\<close>

record adminaccountoptions =
  ao_namespace :: string
  ao_userSpaceName :: string
  ao_username :: string
  ao_email :: string
  ao_password :: string

record adminaccountresult =
  ar_created :: bool
  ar_passwordGenerated :: bool

definition ao_validate :: "adminaccountoptions \<Rightarrow> booterr option" where
  "ao_validate opts =
     (if ao_namespace opts = '''' then Some NamespaceRequired
      else if ao_userSpaceName opts = '''' then Some UserSpaceNameRequired
      else if ao_username opts = '''' then Some UsernameRequired
      else if ao_email opts = '''' then Some EmailRequired
      else None)"

text \<open>\<open>mustParse\<close> is \<^verbatim>\<open>resource.MustParse\<close>.\<close>

definition adminUserSpace :: "(string \<Rightarrow> 'q) \<Rightarrow> adminaccountoptions \<Rightarrow> 'q userspace" where
  "adminUserSpace mustParse opts =
     \<lparr>us_meta = meta0 '''' (ao_userSpaceName opts),
      us_spec = \<lparr>us_owner = ao_email opts, us_username = '''', us_email = '''', us_namespace = '''', us_keys = [],
        us_quota = \<lparr>q_cpu = mustParse ''4'', q_memory = mustParse ''8Gi'', q_storage = mustParse ''50Gi'', q_gpu = 0, q_workspaces = 2\<rparr>,
        us_networkPolicy = ''Isolated'', us_role = UserSpaceRoleAdmin, us_disabled = False, us_onboarding = None\<rparr>,
      us_status = \<lparr>ust_namespace = '''', ust_state = '''', ust_observedGeneration = 0, ust_conditions = []\<rparr>\<rparr>"

definition ensureAdminUserSpace ::
    "('q, 's) boot_client \<Rightarrow> (string \<Rightarrow> 'q) \<Rightarrow> adminaccountoptions \<Rightarrow> 's \<Rightarrow> booterr option \<times> 's" where
  "ensureAdminUserSpace c mustParse opts s =
     (case bc_createUserSpace c (adminUserSpace mustParse opts) s of
        (Some err, s1) \<Rightarrow> (if err \<noteq> AlreadyExists then Some (CreateUserSpaceErr (ao_userSpaceName opts) err) else None, s1)
      | (None, s1) \<Rightarrow> (None, s1))"

definition writeInitialPassword :: "'s sec_client \<Rightarrow> adminaccountoptions \<Rightarrow> string \<Rightarrow> 's \<Rightarrow> booterr option \<times> 's" where
  "writeInitialPassword cl opts password s =
     writeInitialValues cl [(BootstrapKeyUsername, ao_username opts), (BootstrapKeyPassword, password)] s"

text \<open>What follows once the list shows no such account; \<open>draws\<close> and \<open>salt\<close> are the random values.\<close>

definition createAdmin ::
    "('q, 's) boot_client \<Rightarrow> ucd \<Rightarrow> authlib \<Rightarrow> (nat \<Rightarrow> string + nat) \<Rightarrow> string \<Rightarrow> adminaccountoptions \<Rightarrow> 's \<Rightarrow>
     (booterr + adminaccountresult) \<times> 's" where
  "createAdmin c uc lib draws salt opts s =
     (let generated = (ao_password opts = '''') in
      case (if generated then GeneratePassword draws else Inr (ao_password opts)) of
        Inl err \<Rightarrow> (Inl (PasswordErr err), s)
      | Inr password \<Rightarrow>
          (case lu_Create (bc_secrets c) uc lib salt (ao_username opts) password (ao_email opts) s of
             (Inl err, s1) \<Rightarrow>
               (case err of LocalUserExists _ \<Rightarrow> (Inr \<lparr>ar_created = False, ar_passwordGenerated = False\<rparr>, s1)
                | _ \<Rightarrow> (Inl (CreateLocalUserErr err), s1))
           | (Inr _, s1) \<Rightarrow>
               if generated then
                 (case writeInitialPassword (bc_secrets c) opts password s1 of
                    (Some err, s2) \<Rightarrow> (Inl err, s2)
                  | (None, s2) \<Rightarrow> (Inr \<lparr>ar_created = True, ar_passwordGenerated = True\<rparr>, s2))
               else (Inr \<lparr>ar_created = True, ar_passwordGenerated = False\<rparr>, s1)))"

definition AdminAccount ::
    "('q, 's) boot_client \<Rightarrow> (string \<Rightarrow> 'q) \<Rightarrow> ucd \<Rightarrow> authlib \<Rightarrow> (nat \<Rightarrow> string + nat) \<Rightarrow> string \<Rightarrow> adminaccountoptions \<Rightarrow> 's \<Rightarrow>
     (booterr + adminaccountresult) \<times> 's" where
  "AdminAccount c mustParse uc lib draws salt opts s =
     (case ao_validate opts of
        Some err \<Rightarrow> (Inl err, s)
      | None \<Rightarrow>
          (case ensureAdminUserSpace c mustParse opts s of
             (Some err, s1) \<Rightarrow> (Inl err, s1)
           | (None, s1) \<Rightarrow>
               (case lu_List (bc_secrets c) s1 of
                  Inl err \<Rightarrow> (Inl (ListLocalUsersErr err), s1)
                | Inr existing \<Rightarrow>
                    if list_ex (\<lambda>u. lu_username u = ao_username opts) existing
                    then (Inr \<lparr>ar_created = False, ar_passwordGenerated = False\<rparr>, s1)
                    else createAdmin c uc lib draws salt opts s1)))"

section \<open>The API token (admin.go)\<close>

record admintokenoptions =
  at_subjectNamespace :: string
  at_subjectServiceAccount :: string

definition DefaultAdminServiceAccountName :: string where
  "DefaultAdminServiceAccountName = SessionServiceAccountName"

definition AdminToken ::
    "'s sec_client \<Rightarrow> authlib \<Rightarrow> string + string \<Rightarrow> gotime \<Rightarrow> admintokenoptions \<Rightarrow> 's \<Rightarrow> (booterr + bool) \<times> 's" where
  "AdminToken cl lib uuid now opts s =
     (case tok_HasAny cl lib TokenKindAdmin s of
        Inl err \<Rightarrow> (Inl (CheckTokenErr err), s)
      | Inr True \<Rightarrow> (Inr False, s)
      | Inr False \<Rightarrow>
          (case tok_Issue cl lib uuid now \<lparr>tg_kind = TokenKindAdmin, tg_namespace = at_subjectNamespace opts,
                  tg_account = at_subjectServiceAccount opts, tg_expiresAt = None\<rparr> s of
             (Inl err, s1) \<Rightarrow> (Inl (IssueTokenErr err), s1)
           | (Inr r, s1) \<Rightarrow>
               (case writeInitialValues cl [(BootstrapKeyToken, tr_plaintext r)] s1 of
                  (Some err, s2) \<Rightarrow> (Inl err, s2)
                | (None, s2) \<Rightarrow> (Inr True, s2))))"

section \<open>Lemmas\<close>

lemma addMissing_data:
  "fst (addMissing vs d) k = (case d k of Some v \<Rightarrow> Some v | None \<Rightarrow> map_of vs k)"
proof (induction vs d rule: addMissing.induct)
  case (2 name v rest d)
  then show ?case by (cases "d name") (auto simp: case_prod_beta fun_upd_def split: option.splits)
qed (simp split: option.split)

lemma addMissing_unchanged: "\<not> snd (addMissing vs d) \<Longrightarrow> fst (addMissing vs d) = d"
  by (induction vs d rule: addMissing.induct) (auto split: if_splits prod.splits)

text \<open>What the bootstrap Secret holds after values are written: keys that were there keep their value.\<close>

definition bootData :: "ksecret option \<Rightarrow> string gomap \<Rightarrow> strmap" where
  "bootData old vs k = (case old of None \<Rightarrow> map_of vs k
     | Some y \<Rightarrow> (case ks_data y k of Some v \<Rightarrow> Some v | None \<Rightarrow> map_of vs k))"

context sec_laws
begin

lemma writeInitialValues_ok:
  assumes "writeInitialValues cl vs s = (None, s')"
  shows "\<exists>x. sec s' = (sec s)(BootstrapSecretName \<mapsto> x) \<and> ks_data x = bootData (sec s BootstrapSecretName) vs \<and>
    ks_labels x = (case sec s BootstrapSecretName of None \<Rightarrow> Map.empty | Some y \<Rightarrow> ks_labels y)"
proof -
  let ?f = "\<lparr>ks_name = BootstrapSecretName, ks_generateName = '''', ks_labels = Map.empty, ks_data = map_of vs\<rparr>"
  obtain c s1 where c: "sc_create cl ?f s = (c, s1)" by fastforce
  show ?thesis
  proof (cases c)
    case (Inr n)
    with c created [of ?f s n s1] assms show ?thesis by (auto simp: writeInitialValues_def BootstrapSecretName_def bootData_def fun_eq_iff)
  next
    case (Inl e)
    with c create_refused have s1: "sec s1 = sec s" by blast
    from assms c Inl have "e = AlreadyExists" by (auto simp: writeInitialValues_def split: if_splits)
    with assms c Inl obtain y where y: "sc_get cl BootstrapSecretName s1 = Inr y" by (auto simp: writeInitialValues_def split: sum.splits)
    let ?x = "y\<lparr>ks_data := fst (addMissing vs (ks_data y))\<rparr>"
    from got [OF y] s1 have sy: "sec s BootstrapSecretName = Some y" "ks_name y = BootstrapSecretName" using sec_name by auto
    have d: "fst (addMissing vs (ks_data y)) = bootData (Some y) vs" by (simp add: fun_eq_iff addMissing_data bootData_def)
    have "sec s' = (sec s)(BootstrapSecretName \<mapsto> ?x)"
    proof (cases "snd (addMissing vs (ks_data y))")
      case True
      with assms c Inl y \<open>e = AlreadyExists\<close> have "sc_patch cl ?x s1 = (None, s')"
        by (auto simp: writeInitialValues_def split: prod.splits option.splits)
      from patched [OF this] s1 sy(2) show ?thesis by simp
    next
      case False
      with assms c Inl y \<open>e = AlreadyExists\<close> have "s' = s1" by (auto simp: writeInitialValues_def split: prod.splits)
      moreover have "?x = y" using addMissing_unchanged [OF False] by simp
      ultimately show ?thesis using s1 sy(1) by auto
    qed
    with d sy(1) show ?thesis by auto
  qed
qed

end

lemma secret_name_prefix: "\<exists>r. LocalUserSecretName uc lib u = ''dwpk-local-user'' @ r"
proof -
  define q where "q = (if sanitiseName uc u \<noteq> ToLower uc u \<or> sanitiseName uc u = '''' then sanitiseName uc u @ ''-'' @ take 8 (al_sha256 lib u) else sanitiseName uc u)"
  have "LocalUserSecretName uc lib u = TrimSet (''dwpk-local-user'' @ ''-'' @ take 237 q) ''-.''"
    by (auto simp: LocalUserSecretName_def Let_def maxSecretName_def LocalUserSecretPrefix_def q_def)
  with TrimSet_keeps_prefix [of "''dwpk-local-user''" "''-.''"] show ?thesis by simp
qed

lemma secret_name_not_boot: "LocalUserSecretName uc lib u \<noteq> BootstrapSecretName"
  using secret_name_prefix [of uc lib u] by (auto simp: BootstrapSecretName_def)

lemma created_name:
  assumes "sec_laws cl sec" "lu_Create cl uc lib salt u p own s = (Inr a, s')"
  shows "lu_secretName a \<noteq> BootstrapSecretName"
proof -
  from assms(2) obtain h where c: "sc_create cl (userSecret uc lib (TrimSpace u) h own) s = (Inr (lu_secretName a), s')"
    by (auto simp: lu_Create_def Let_def split: sum.splits if_splits prod.splits)
  have n: "ks_name (userSecret uc lib (TrimSpace u) h own) = LocalUserSecretName uc lib (TrimSpace u)" by (simp add: userSecret_def)
  moreover obtain r where "LocalUserSecretName uc lib (TrimSpace u) = ''dwpk-local-user'' @ r" using secret_name_prefix by blast
  ultimately have "lu_secretName a = LocalUserSecretName uc lib (TrimSpace u)" using sec_laws.created [OF assms(1) c] by simp
  then show ?thesis using secret_name_not_boot by metis
qed

section \<open>Properties\<close>

text \<open>Creating a UserSpace writes no Secret.\<close>

definition userspace_frame :: "('q, 's) boot_client \<Rightarrow> ('s \<Rightarrow> string \<rightharpoonup> ksecret) \<Rightarrow> bool" where
  "userspace_frame c sec \<longleftrightarrow> (\<forall>u s e s'. bc_createUserSpace c u s = (e, s') \<longrightarrow> sec s' = sec s)"

lemma ensure_frame: "userspace_frame c sec \<Longrightarrow> ensureAdminUserSpace c mp opts s = (e, s') \<Longrightarrow> sec s' = sec s"
  by (auto simp: ensureAdminUserSpace_def userspace_frame_def split: prod.splits option.splits)

lemma lu_List_has:
  assumes "sec_laws cl sec" "lu_List cl s = Inr us"
  shows "list_ex (\<lambda>u. lu_username u = name) us \<longleftrightarrow> (\<exists>n x. users sec s n = Some x \<and> dataGet x ''username'' = name)"
proof -
  from assms(2) obtain xs where xs: "sc_list cl userSelector s = Inr xs" "us = map localUserFromSecret xs"
    by (auto simp: lu_List_def split: sum.splits)
  have "list_ex (\<lambda>u. lu_username u = name) us \<longleftrightarrow> (\<exists>x\<in>set xs. dataGet x ''username'' = name)"
    by (simp add: xs(2) list_ex_iff localUserFromSecret_def)
  then show ?thesis using sec_laws.users_listed [OF assms(1) xs(1)] sec_laws.users_name [OF assms(1)] by metis
qed

lemma AdminAccount_ok:
  assumes "AdminAccount c mp uc lib draws salt opts s = (Inr r, s')"
  obtains s1 us where "ensureAdminUserSpace c mp opts s = (None, s1)" "lu_List (bc_secrets c) s1 = Inr us"
    "list_ex (\<lambda>u. lu_username u = ao_username opts) us \<Longrightarrow> \<not> ar_created r \<and> s' = s1"
    "\<not> list_ex (\<lambda>u. lu_username u = ao_username opts) us \<Longrightarrow> createAdmin c uc lib draws salt opts s1 = (Inr r, s')"
proof -
  obtain e s1 where e: "ensureAdminUserSpace c mp opts s = (e, s1)" by fastforce
  have v: "ao_validate opts = None" using assms by (simp add: AdminAccount_def split: option.splits)
  with e assms have n: "e = None" by (simp add: AdminAccount_def split: option.splits)
  with v e assms obtain us where "lu_List (bc_secrets c) s1 = Inr us" by (simp add: AdminAccount_def split: sum.splits)
  with v e n assms that [of s1 us] show thesis by (auto simp: AdminAccount_def split: if_splits)
qed

text \<open>
  Running the bootstrap again never rotates a working password: when an account with the configured username exists, the
  run reports that nothing was created and every Secret, the account's among them, is as it was.
\<close>
theorem bootstrap_keeps_existing:
  assumes "sec_laws (bc_secrets c) sec" "userspace_frame c sec"
    and "users sec s n = Some x" "dataGet x ''username'' = ao_username opts"
    and "AdminAccount c mp uc lib draws salt opts s = (Inr r, s')"
  shows "\<not> ar_created r \<and> sec s' = sec s"
proof -
  from AdminAccount_ok [OF assms(5)] obtain s1 us where e: "ensureAdminUserSpace c mp opts s = (None, s1)"
    and l: "lu_List (bc_secrets c) s1 = Inr us"
    and rest: "list_ex (\<lambda>u. lu_username u = ao_username opts) us \<Longrightarrow> \<not> ar_created r \<and> s' = s1" by metis
  from ensure_frame [OF assms(2) e] have s1: "sec s1 = sec s" .
  with assms(3,4) have "\<exists>n x. users sec s1 n = Some x \<and> dataGet x ''username'' = ao_username opts" by (auto simp: users_def)
  with lu_List_has [OF assms(1) l] have "list_ex (\<lambda>u. lu_username u = ao_username opts) us" by blast
  with rest s1 show ?thesis by auto
qed

lemma createAdmin_created:
  assumes "createAdmin c uc lib draws salt opts s = (Inr r, s')" "ar_created r"
  obtains p a s1 where "if ao_password opts = '''' then GeneratePassword draws = Inr p else p = ao_password opts"
    "lu_Create (bc_secrets c) uc lib salt (ao_username opts) p (ao_email opts) s = (Inr a, s1)"
    "ar_passwordGenerated r \<longleftrightarrow> ao_password opts = ''''"
    "if ao_password opts = '''' then writeInitialPassword (bc_secrets c) opts p s1 = (None, s') else s' = s1"
proof -
  obtain q where q: "(if ao_password opts = '''' then GeneratePassword draws else Inr (ao_password opts)) = q" by blast
  show thesis
  proof (cases q)
    case (Inl e)
    with assms(1) q show thesis by (simp add: createAdmin_def Let_def)
  next
    case (Inr p)
    obtain o1 s1 where o1: "lu_Create (bc_secrets c) uc lib salt (ao_username opts) p (ao_email opts) s = (o1, s1)" by fastforce
    show thesis
    proof (cases o1)
      case (Inl e)
      with assms o1 q Inr show thesis by (auto simp: createAdmin_def Let_def split: lusererr.splits)
    next
      case (Inr a)
      with assms o1 q \<open>q = Inr p\<close> that [of p a s1] show thesis
        by (auto simp: createAdmin_def Let_def split: if_splits prod.splits option.splits)
    qed
  qed
qed

text \<open>
  (C33) What a bootstrap that creates the account leaves behind. The configured username passes the password check of the sign-in with the
  configured password, or with a generated one exactly when none was configured, as an account owned by the configured email. A
  generated password is recorded in the bootstrap Secret, unless that Secret already had a password: then the old value stays, which
  need not be the new one, and the new one is in no Secret. The session that a sign-in opens needs a provisioned UserSpace besides,
  which this is not about.
\<close>
theorem bootstrap_admin_can_login:
  assumes "sec_laws (bc_secrets c) sec" "userspace_frame c sec" "bcrypt_law lib" "usernames_unique sec s"
    and "AdminAccount c mp uc lib draws salt opts s = (Inr r, s')" "ar_created r"
    and "sc_list (bc_secrets c) userSelector s' = Inr xs"
    and "\<And>y. sec s BootstrapSecretName = Some y \<Longrightarrow> \<not> isUser y"
  shows "\<exists>p a. lu_Verify (bc_secrets c) uc lib (ao_username opts) p s' = Inr a \<and> lu_owner a = ao_email opts \<and>
    (ar_passwordGenerated r \<longleftrightarrow> ao_password opts = '''') \<and>
    (if ao_password opts \<noteq> '''' then p = ao_password opts
     else GeneratePassword draws = Inr p \<and> (\<exists>x. sec s' BootstrapSecretName = Some x \<and>
       ks_data x ''password'' = (case sec s BootstrapSecretName of None \<Rightarrow> Some p
          | Some y \<Rightarrow> (case ks_data y ''password'' of None \<Rightarrow> Some p | Some old \<Rightarrow> Some old))))"
proof -
  obtain s0 where e: "ensureAdminUserSpace c mp opts s = (None, s0)"
    and c: "createAdmin c uc lib draws salt opts s0 = (Inr r, s')"
    using AdminAccount_ok [OF assms(5)] assms(6) by metis
  from ensure_frame [OF assms(2) e] have s0: "sec s0 = sec s" .
  from createAdmin_created [OF c assms(6)] obtain p a s1 where
    p: "if ao_password opts = '''' then GeneratePassword draws = Inr p else p = ao_password opts"
    and cr: "lu_Create (bc_secrets c) uc lib salt (ao_username opts) p (ao_email opts) s0 = (Inr a, s1)"
    and g: "ar_passwordGenerated r \<longleftrightarrow> ao_password opts = ''''"
    and w: "if ao_password opts = '''' then writeInitialPassword (bc_secrets c) opts p s1 = (None, s') else s' = s1" by metis
  from sec_laws.lu_Create_ok [OF assms(1) cr] obtain h where t: "TrimSpace (ao_username opts) \<noteq> ''''" and h: "al_bcryptHash lib salt p = Inr h"
    and st: "sec s1 = (sec s0)(lu_secretName a \<mapsto> (userSecret uc lib (TrimSpace (ao_username opts)) h (ao_email opts))\<lparr>ks_name := lu_secretName a\<rparr>)"
    and own: "lu_owner a = ao_email opts" and un: "lu_username a = TrimSpace (ao_username opts)" by metis
  let ?x = "(userSecret uc lib (TrimSpace (ao_username opts)) h (ao_email opts))\<lparr>ks_name := lu_secretName a\<rparr>"
  from created_name [OF assms(1) cr] have nm: "lu_secretName a \<noteq> BootstrapSecretName" .
  have u0: "usernames_unique sec s0" using assms(4) s0 by (simp add: usernames_unique_def users_def)
  have boot1: "sec s1 BootstrapSecretName = sec s BootstrapSecretName" using st nm s0 by simp
  have us: "users sec s' = users sec s1"
  proof (cases "ao_password opts = ''''")
    case True
    with w have "writeInitialPassword (bc_secrets c) opts p s1 = (None, s')" by simp
    from sec_laws.writeInitialValues_ok [OF assms(1) this [unfolded writeInitialPassword_def]] obtain x where
      x: "sec s' = (sec s1)(BootstrapSecretName \<mapsto> x)" and lab: "ks_labels x = (case sec s1 BootstrapSecretName of None \<Rightarrow> Map.empty | Some y \<Rightarrow> ks_labels y)"
      by blast
    have "\<not> isUser x" using lab boot1 assms(8) by (auto simp: isUser_def split: option.splits)
    moreover have "users sec s1 BootstrapSecretName = None" using boot1 assms(8) by (auto simp: users_def split: option.splits)
    ultimately show ?thesis using x by (auto simp: users_def fun_eq_iff)
  qed (use w in simp)
  have "users sec s' (lu_secretName a) = Some ?x" unfolding us users_upd(1) [OF st userSecret_simps(1)] by simp
  moreover have "usernames_unique sec s'" using sec_laws.unique_create [OF assms(1) cr u0] us by (simp add: usernames_unique_def)
  ultimately have "lu_Verify (bc_secrets c) uc lib (ao_username opts) p s' = Inr (localUserFromSecret ?x)"
    using sec_laws.verify_account [OF assms(1,7)] t h assms(3) by (simp add: bcrypt_law_def)
  moreover have "lu_owner (localUserFromSecret ?x) = ao_email opts" by (simp add: localUserFromSecret_def)
  moreover have "\<exists>x. sec s' BootstrapSecretName = Some x \<and> ks_data x ''password'' = (case sec s BootstrapSecretName of None \<Rightarrow> Some p
          | Some y \<Rightarrow> (case ks_data y ''password'' of None \<Rightarrow> Some p | Some old \<Rightarrow> Some old))" if "ao_password opts = ''''"
    using sec_laws.writeInitialValues_ok [OF assms(1), of "[(BootstrapKeyUsername, ao_username opts), (BootstrapKeyPassword, p)]" s1 s'] w that boot1
    by (auto simp: writeInitialPassword_def bootData_def BootstrapKeyPassword_def BootstrapKeyUsername_def split: option.splits)
  ultimately show ?thesis using p g by (metis (no_types, lifting))
qed

lemma token_name_not_boot:
  assumes "sec_laws cl sec" "tok_Issue cl lib uuid now g s = (Inr t, s')"
  shows "tr_secretName t \<noteq> BootstrapSecretName"
proof -
  from assms(2) obtain p where c: "sc_create cl (tokenSecret lib p now g) s = (Inr (tr_secretName t), s')"
    by (auto simp: tok_Issue_def split: sum.splits prod.splits)
  have "ks_name (tokenSecret lib p now g) = ''''" "ks_generateName (tokenSecret lib p now g) = ''dwpk-token-''" by (simp_all add: tokenSecret_def Let_def)
  with sec_laws.generated [OF assms(1) c] show ?thesis by (auto simp: BootstrapSecretName_def)
qed

text \<open>
  The initial API token. A run that issues one shows it in the bootstrap Secret, when that had none; the token so shown is accepted
  at every time as an administrator token of the configured service account; and running the step again issues nothing.
\<close>
theorem bootstrap_token_works:
  assumes "sec_laws cl sec" "AdminToken cl lib (Inr i) now opts s = (Inr True, s')"
    and "roundtrips lib now" "al_parse lib '''' = None"
    and "\<And>n x. sec s n = Some x \<Longrightarrow> \<not> isTokenFor lib (apiTokenPrefix @ i) x"
    and "\<And>y. sec s BootstrapSecretName = Some y \<Longrightarrow> ks_data y ''token'' = None"
    and "sc_list cl None s' = Inr xs" "sc_list cl (Some (TokenKindLabel, TokenKindAdmin)) s' = Inr ys"
  shows "(\<exists>x. sec s' BootstrapSecretName = Some x \<and> ks_data x ''token'' = Some (apiTokenPrefix @ i)) \<and>
    (\<exists>t. tok_Lookup cl lib later (apiTokenPrefix @ i) s' = Inr t \<and> tr_kind t = TokenKindAdmin \<and> tr_namespace t = at_subjectNamespace opts \<and>
       tr_account t = at_subjectServiceAccount opts \<and> tr_expiresAt t = None) \<and>
    AdminToken cl lib uuid' now' opts' s' = (Inr False, s')"
proof -
  let ?g = "\<lparr>tg_kind = TokenKindAdmin, tg_namespace = at_subjectNamespace opts, tg_account = at_subjectServiceAccount opts, tg_expiresAt = None\<rparr>"
  let ?p = "apiTokenPrefix @ i"
  from assms(2) obtain t s1 where iss: "tok_Issue cl lib (Inr i) now ?g s = (Inr t, s1)"
    and w: "writeInitialValues cl [(BootstrapKeyToken, tr_plaintext t)] s1 = (None, s')"
    by (auto simp: AdminToken_def split: sum.splits prod.splits option.splits bool.splits)
  note st = tok_Issue_stored [OF assms(1) iss] and nb = token_name_not_boot [OF assms(1) iss]
  have p: "tr_plaintext t = ?p" using st(1) by simp
  let ?x = "(tokenSecret lib ?p now ?g)\<lparr>ks_name := tr_secretName t\<rparr>"
  from sec_laws.writeInitialValues_ok [OF assms(1) w] obtain b where b: "sec s' = (sec s1)(BootstrapSecretName \<mapsto> b)"
    and bd: "ks_data b = bootData (sec s1 BootstrapSecretName) [(BootstrapKeyToken, tr_plaintext t)]"
    and bl: "ks_labels b = (case sec s1 BootstrapSecretName of None \<Rightarrow> Map.empty | Some y \<Rightarrow> ks_labels y)" by blast
  have boot: "sec s1 BootstrapSecretName = sec s BootstrapSecretName" using st(3) nb by simp
  have "ks_data b ''token'' = Some ?p"
    using bd boot assms(6) p by (auto simp: bootData_def BootstrapKeyToken_def split: option.splits)
  moreover have x: "sec s' (tr_secretName t) = Some ?x" using b st(3) nb p by simp
  have nbk: "\<not> isTokenFor lib ?p b"
    using assms(5) [of BootstrapSecretName] bl bd boot
    by (auto simp: isTokenFor_def dataGet_def bootData_def BootstrapKeyToken_def split: option.splits)
  have only: "m = tr_secretName t" if "sec s' m = Some y" "isTokenFor lib ?p y" for m y
    using that nbk assms(5) [of m y] unfolding b st(3) by (auto split: if_splits)
  have k: "ks_labels ?x TokenKindLabel = Some TokenKindAdmin" "dataGet ?x ''hash'' = HashAPIToken lib ?p"
    by (simp_all add: tokenSecret_def Let_def dataGet_def)
  have rec: "recordFromSecret lib ?x TokenKindAdmin = lookedUp t"
    using tok_Issue_record [OF iss assms(3) _ assms(4)] p by simp
  have tr: "tr_kind t = TokenKindAdmin" "tr_namespace t = at_subjectNamespace opts" "tr_account t = at_subjectServiceAccount opts" "tr_expiresAt t = None"
    using iss by (auto simp: tok_Issue_def split: sum.splits prod.splits)
  moreover have "tok_Lookup cl lib later ?p s' = Inr (lookedUp t)"
    using tok_Lookup_one [OF assms(1,7) x k only, where now = later] rec tr(4) by (simp add: tr_Expired_def lookedUp_def)
  moreover have "?x \<in> set ys" using sec_laws.listed [OF assms(1,8), of ?x] x k(1) by (simp add: labelOf_def)
  then have "tok_HasAny cl lib TokenKindAdmin s' = Inr True"
    using assms(8) by (cases ys) (auto simp: tok_HasAny_def tok_List_def)
  then have "AdminToken cl lib uuid' now' opts' s' = (Inr False, s')" by (simp add: AdminToken_def)
  ultimately show ?thesis using b by (auto simp: lookedUp_def)
qed

section \<open>Witnesses\<close>

definition demo_boot :: "(int, ksecret list) boot_client" where
  "demo_boot = \<lparr>bc_secrets = mem_sec, bc_createUserSpace = (\<lambda>u s. (Some AlreadyExists, s))\<rparr>"

lemma demo_boot_simps [simp]: "bc_secrets demo_boot = mem_sec" "ensureAdminUserSpace demo_boot mp opts s = (None, s)"
  by (simp_all add: demo_boot_def ensureAdminUserSpace_def)

lemma demo_boot_frame: "userspace_frame demo_boot memFind"
  by (simp add: userspace_frame_def demo_boot_def)

lemma demo_boot_laws: "sec_laws (bc_secrets demo_boot) memFind"
  using mem_sec_laws by simp

definition demo_opts :: "string \<Rightarrow> adminaccountoptions" where
  "demo_opts u = \<lparr>ao_namespace = ''dwpk'', ao_userSpaceName = ''admin'', ao_username = u, ao_email = ''root@x'', ao_password = ''''\<rparr>"

theorem bootstrap_keeps_existing_witness:
  "memFind (snd (AdminAccount demo_boot (\<lambda>_. 0) demo_uc demo_authlib (\<lambda>_. Inr 0) ''salt'' (demo_opts ''ana'') demo_users)) = memFind demo_users"
proof -
  have r: "AdminAccount demo_boot (\<lambda>_. 0) demo_uc demo_authlib (\<lambda>_. Inr 0) ''salt'' (demo_opts ''ana'') demo_users =
      (Inr \<lparr>ar_created = False, ar_passwordGenerated = False\<rparr>, demo_users)"
    by (simp add: AdminAccount_def ao_validate_def lu_List_def demo_users_list) (simp add: demo_opts_def demo_users_def)
  have u: "users memFind demo_users ''a'' = Some (demo_account ''a'' ''ana'' ''pw1'' ''ana@x'')" by (simp add: users_def memFind_def demo_users_def)
  have "dataGet (demo_account ''a'' ''ana'' ''pw1'' ''ana@x'') ''username'' = ao_username (demo_opts ''ana'')" by (simp add: demo_opts_def)
  from bootstrap_keeps_existing [OF demo_boot_laws demo_boot_frame u this r] show ?thesis unfolding r by simp
qed

text \<open>A bootstrap Secret left behind by an earlier installation.\<close>

definition demo_left :: ksecret where
  "demo_left = \<lparr>ks_name = BootstrapSecretName, ks_generateName = '''', ks_labels = Map.empty,
     ks_data = [''username'' \<mapsto> ''alice'', ''password'' \<mapsto> ''old'']\<rparr>"

abbreviation demo_generated :: string where
  "demo_generated \<equiv> replicate 20 (CHR ''a'')"

lemma demo_left_user: "\<not> isUser demo_left" "ks_name demo_left = BootstrapSecretName" "\<not> labelOf userSelector demo_left"
  by (simp_all add: isUser_def demo_left_def labelOf_def)

definition demo_admin :: ksecret where
  "demo_admin = demo_account ''dwpk-local-user-alice'' ''alice'' demo_generated ''root@x''"

lemma demo_boot_create:
  "lu_Create mem_sec demo_uc demo_authlib ''salt'' ''alice'' demo_generated ''root@x'' [demo_left] =
    (Inr (localUserFromSecret demo_admin), [demo_left, demo_admin])"
proof -
  have h: "HashPassword demo_authlib ''salt'' demo_generated = Inr (''b'' @ demo_generated)" by (simp add: HashPassword_def demo_authlib_def numeral_eq_Suc)
  have n: "LocalUserSecretName demo_uc demo_authlib ''alice'' = ''dwpk-local-user-alice''" using alice_names by simp
  then have c: "sc_create mem_sec (userSecret demo_uc demo_authlib ''alice'' (''b'' @ demo_generated) ''root@x'') [demo_left] =
    (Inr ''dwpk-local-user-alice'', [demo_left, demo_admin])"
    by (simp add: mem_sec_def userSecret_def demo_account_def Let_def demo_left_user BootstrapSecretName_def demo_admin_def)
  have f: "findByUsername mem_sec ''alice'' [demo_left] = Inl LocalUserNotFound"
    by (simp add: findByUsername_def mem_sec_def demo_left_user)
  show ?thesis using h c f by (simp add: lu_Create_def Let_def demo_admin_def)
qed

lemma demo_generate: "GeneratePassword (\<lambda>_. Inr 0) = Inr demo_generated"
  by (simp add: GeneratePassword_def generatedPasswordLength_def passwordAlphabet_def numeral_eq_Suc)

lemma demo_boot_write: "writeInitialPassword mem_sec (demo_opts ''alice'') p [demo_left, demo_admin] = (None, [demo_left, demo_admin])"
proof -
  have "memFind [demo_left, demo_admin] BootstrapSecretName = Some demo_left" by (simp add: memFind_def demo_left_user)
  then show ?thesis
    by (simp add: writeInitialPassword_def writeInitialValues_def mem_sec_def Let_def demo_left_user BootstrapSecretName_def [symmetric])
      (simp add: demo_left_def BootstrapKeyUsername_def BootstrapKeyPassword_def BootstrapSecretName_def)
qed

lemma demo_boot_run:
  "AdminAccount demo_boot (\<lambda>_. 0) demo_uc demo_authlib (\<lambda>_. Inr 0) ''salt'' (demo_opts ''alice'') [demo_left] =
      (Inr \<lparr>ar_created = True, ar_passwordGenerated = True\<rparr>, [demo_left, demo_admin])"
proof -
  have o: "ao_username (demo_opts ''alice'') = ''alice''" "ao_email (demo_opts ''alice'') = ''root@x''" "ao_password (demo_opts ''alice'') = ''''"
    "ao_validate (demo_opts ''alice'') = None" by (simp_all add: demo_opts_def ao_validate_def)
  have l: "lu_List mem_sec [demo_left] = Inr []" by (simp add: lu_List_def mem_sec_def demo_left_user)
  show ?thesis using demo_boot_create demo_boot_write by (simp add: AdminAccount_def o l createAdmin_def demo_generate)
qed

theorem bootstrap_admin_can_login_witness:
  "\<exists>a. lu_Verify mem_sec demo_uc demo_authlib ''alice'' demo_generated [demo_left, demo_admin] = Inr a \<and>
     ks_data demo_left ''password'' = Some ''old''"
proof -
  have u: "usernames_unique memFind [demo_left]" by (auto simp: usernames_unique_def users_def memFind_def demo_left_user split: if_splits option.splits)
  have l: "sc_list (bc_secrets demo_boot) userSelector [demo_left, demo_admin] = Inr [demo_admin]"
    by (simp add: mem_sec_def demo_left_user demo_admin_def BootstrapSecretName_def)
  have "\<not> isUser y" if "memFind [demo_left] BootstrapSecretName = Some y" for y
    using that by (auto simp: memFind_def demo_left_user split: if_splits)
  from bootstrap_admin_can_login [OF demo_boot_laws demo_boot_frame demo_bcrypt u demo_boot_run _ l this]
  obtain p a where "lu_Verify mem_sec demo_uc demo_authlib ''alice'' p [demo_left, demo_admin] = Inr a" "GeneratePassword (\<lambda>_. Inr 0) = Inr p"
    by (auto simp: demo_opts_def)
  then show ?thesis by (simp add: demo_generate demo_left_def)
qed

definition demo_topts :: admintokenoptions where
  "demo_topts = \<lparr>at_subjectNamespace = ''dwpk-admin'', at_subjectServiceAccount = DefaultAdminServiceAccountName\<rparr>"

definition demo_admin_grant :: tokengrant where
  "demo_admin_grant = \<lparr>tg_kind = TokenKindAdmin, tg_namespace = at_subjectNamespace demo_topts,
     tg_account = at_subjectServiceAccount demo_topts, tg_expiresAt = None\<rparr>"

definition demo_admin_token :: ksecret where
  "demo_admin_token = (tokenSecret demo_authlib ''dwpk_u1'' 2000000000 demo_admin_grant)\<lparr>ks_name := ''dwpk-token-0''\<rparr>"

definition demo_shown :: ksecret where
  "demo_shown = \<lparr>ks_name = BootstrapSecretName, ks_generateName = '''', ks_labels = Map.empty, ks_data = [''token'' \<mapsto> ''dwpk_u1'']\<rparr>"

lemma demo_admin_run: "AdminToken mem_sec demo_authlib (Inr ''u1'') 2000000000 demo_topts [] = (Inr True, [demo_admin_token, demo_shown])"
proof -
  have h: "tok_HasAny mem_sec demo_authlib TokenKindAdmin [] = Inr False" by (simp add: tok_HasAny_def tok_List_def mem_sec_def)
  have c: "sc_create mem_sec (tokenSecret demo_authlib ''dwpk_u1'' 2000000000 demo_admin_grant) [] = (Inr ''dwpk-token-0'', [demo_admin_token])"
    by (simp add: mem_sec_def freshName_def demo_admin_token_def tokenSecret_def Let_def demo_admin_grant_def)
  have "writeInitialValues mem_sec [(BootstrapKeyToken, ''dwpk_u1'')] [demo_admin_token] = (None, [demo_admin_token, demo_shown])"
    by (simp add: writeInitialValues_def mem_sec_def Let_def demo_admin_token_def BootstrapSecretName_def demo_shown_def BootstrapKeyToken_def)
  then show ?thesis using h c by (simp add: AdminToken_def tok_Issue_def GenerateAPIToken_def apiTokenPrefix_def demo_admin_grant_def)
qed

theorem bootstrap_token_works_witness:
  "(\<exists>t. tok_Lookup mem_sec demo_authlib 999999999999 ''dwpk_u1'' [demo_admin_token, demo_shown] = Inr t \<and> tr_kind t = TokenKindAdmin) \<and>
   AdminToken mem_sec demo_authlib (Inr ''u2'') 5 demo_topts [demo_admin_token, demo_shown] = (Inr False, [demo_admin_token, demo_shown])"
proof -
  have l: "sc_list mem_sec None [demo_admin_token, demo_shown] = Inr [demo_admin_token, demo_shown]"
    "sc_list mem_sec (Some (TokenKindLabel, TokenKindAdmin)) [demo_admin_token, demo_shown] = Inr [demo_admin_token]"
    by (simp_all add: mem_sec_def demo_admin_token_def demo_shown_def BootstrapSecretName_def labelOf_def tokenSecret_def Let_def demo_admin_grant_def)
  have t: "roundtrips demo_authlib 2000000000" by (rule demo_roundtrips) simp
  from bootstrap_token_works [OF mem_sec_laws demo_admin_run t demo_parse_empty _ _ l, where later = 999999999999 and uuid' = "Inr ''u2''" and now' = 5 and opts' = demo_topts]
  show ?thesis by (auto simp: memFind_def apiTokenPrefix_def)
qed

end
