(* ===== verification/Sessions.thy ===== *)
theory Sessions
  imports ApiTypes
begin

text \<open>
  Browser sessions (\<^verbatim>\<open>src/internal/auth/session.go\<close>): an in-memory map with a sliding idle window. The
  mutex makes every operation one step; \<open>now\<close> is what the store's clock says at that step. The zero
  time is \<open>None\<close>; the random session identifier is an argument.
\<close>

record claims =
  cl_email :: string
  cl_groups :: "string list"

record authsession =
  as_claims :: claims
  as_token :: string
  as_tokenExpiresAt :: "gotime option"
  as_createdAt :: gotime
  as_expiresAt :: "gotime option"
  as_ttl :: duration

record sessionstore =
  sst_sessions :: "string \<rightharpoonup> authsession"
  sst_ttl :: duration

datatype sesserr = MissingEmail | GenerateIDErr string | MissingToken | InvalidTokenExpiry | SessionNotFound

definition DefaultSessionTTL :: duration where
  "DefaultSessionTTL = 15 * 60 * 1000000000"

definition NewSessionStore :: "duration \<Rightarrow> sessionstore" where
  "NewSessionStore ttl =
     (let ttl = (if ttl \<le> 0 then DefaultSessionTTL else ttl) in \<lparr>sst_sessions = Map.empty, sst_ttl = ttl\<rparr>)"

definition expiredAt :: "authsession \<Rightarrow> gotime \<Rightarrow> bool" where
  "expiredAt s now = (case as_expiresAt s of None \<Rightarrow> True | Some t \<Rightarrow> \<not> t > now)"

definition CreateWithTTL ::
    "sessionstore \<Rightarrow> string + string \<Rightarrow> gotime \<Rightarrow> claims \<Rightarrow> duration \<Rightarrow> (sesserr + string) \<times> sessionstore" where
  "CreateWithTTL st generated now cs ttl =
     (if cl_email cs = '''' then (Inl MissingEmail, st)
      else
        let ttl = (if ttl \<le> 0 then sst_ttl st else ttl) in
        case generated of
          Inl err \<Rightarrow> (Inl (GenerateIDErr err), st)
        | Inr sessionID \<Rightarrow>
            (Inr sessionID, st\<lparr>sst_sessions := (sst_sessions st)(sessionID \<mapsto>
               \<lparr>as_claims = cs, as_token = '''', as_tokenExpiresAt = None, as_createdAt = now,
                as_expiresAt = Some (now + ttl), as_ttl = ttl\<rparr>)\<rparr>))"

definition sess_Create ::
    "sessionstore \<Rightarrow> string + string \<Rightarrow> gotime \<Rightarrow> claims \<Rightarrow> (sesserr + string) \<times> sessionstore" where
  "sess_Create st generated now cs = CreateWithTTL st generated now cs (sst_ttl st)"

definition sess_Get :: "sessionstore \<Rightarrow> gotime \<Rightarrow> string \<Rightarrow> authsession option \<times> sessionstore" where
  "sess_Get st now sessionID =
     (case sst_sessions st sessionID of
        None \<Rightarrow> (None, st)
      | Some s \<Rightarrow>
          if expiredAt s now then (None, st\<lparr>sst_sessions := (sst_sessions st)(sessionID := None)\<rparr>)
          else (Some s, st))"

definition sess_Delete :: "sessionstore \<Rightarrow> string \<Rightarrow> sessionstore" where
  "sess_Delete st sessionID = st\<lparr>sst_sessions := (sst_sessions st)(sessionID := None)\<rparr>"

definition sess_Refresh ::
    "sessionstore \<Rightarrow> gotime \<Rightarrow> string \<Rightarrow> string \<Rightarrow> gotime option \<Rightarrow> sesserr option \<times> sessionstore" where
  "sess_Refresh st now sessionID token tokenExpiresAt =
     (if token = '''' then (Some MissingToken, st)
      else if (case tokenExpiresAt of None \<Rightarrow> True | Some t \<Rightarrow> \<not> t > now) then (Some InvalidTokenExpiry, st)
      else case sst_sessions st sessionID of
        None \<Rightarrow> (Some SessionNotFound, st)
      | Some s \<Rightarrow>
          if expiredAt s now then (Some SessionNotFound, st\<lparr>sst_sessions := (sst_sessions st)(sessionID := None)\<rparr>)
          else
            let ttl = (if as_ttl s \<le> 0 then sst_ttl st else as_ttl s) in
            (None, st\<lparr>sst_sessions := (sst_sessions st)(sessionID \<mapsto>
               s\<lparr>as_token := token, as_tokenExpiresAt := tokenExpiresAt, as_expiresAt := Some (now + ttl)\<rparr>)\<rparr>))"

section \<open>A log of operations\<close>

text \<open>
  A store under use: each operation with its time, times never decreasing. The log remembers when a
  session was last created or successfully refreshed.
\<close>

datatype sessop =
    OpCreate "string + string" claims duration
  | OpGet string
  | OpDelete string
  | OpRefresh string string "gotime option"

record sesslog =
  sl_store :: sessionstore
  sl_now :: gotime
  sl_touched :: "string \<rightharpoonup> gotime"

fun sess_apply :: "gotime \<Rightarrow> sessop \<Rightarrow> sesslog \<Rightarrow> sesslog" where
  "sess_apply now (OpCreate g cs ttl) l =
     (case CreateWithTTL (sl_store l) g now cs ttl of
        (Inl _, st) \<Rightarrow> l\<lparr>sl_store := st, sl_now := now\<rparr>
      | (Inr sid, st) \<Rightarrow> l\<lparr>sl_store := st, sl_now := now, sl_touched := (sl_touched l)(sid \<mapsto> now)\<rparr>)"
| "sess_apply now (OpGet sid) l = l\<lparr>sl_store := snd (sess_Get (sl_store l) now sid), sl_now := now\<rparr>"
| "sess_apply now (OpDelete sid) l = l\<lparr>sl_store := sess_Delete (sl_store l) sid, sl_now := now\<rparr>"
| "sess_apply now (OpRefresh sid tok e) l =
     (case sess_Refresh (sl_store l) now sid tok e of
        (Some _, st) \<Rightarrow> l\<lparr>sl_store := st, sl_now := now\<rparr>
      | (None, st) \<Rightarrow> l\<lparr>sl_store := st, sl_now := now, sl_touched := (sl_touched l)(sid \<mapsto> now)\<rparr>)"

inductive sess_step :: "sesslog \<Rightarrow> sesslog \<Rightarrow> bool" where
  "sl_now l \<le> now \<Longrightarrow> sess_step l (sess_apply now op l)"

definition sess_start :: "sesslog \<Rightarrow> bool" where
  "sess_start l \<longleftrightarrow> (\<exists>ttl. sl_store l = NewSessionStore ttl) \<and> sl_touched l = Map.empty"

text \<open>What holds of every stored session.\<close>

definition sess_inv :: "sesslog \<Rightarrow> bool" where
  "sess_inv l \<longleftrightarrow> sst_ttl (sl_store l) > 0 \<and>
     (\<forall>sid s. sst_sessions (sl_store l) sid = Some s \<longrightarrow>
        cl_email (as_claims s) \<noteq> '''' \<and> as_ttl s > 0 \<and>
        (\<exists>t. sl_touched l sid = Some t \<and> t \<le> sl_now l \<and> as_expiresAt s = Some (t + as_ttl s)))"

lemma sess_inv_start: "sess_start l \<Longrightarrow> sess_inv l"
  by (auto simp: sess_start_def sess_inv_def NewSessionStore_def DefaultSessionTTL_def Let_def)

lemma sess_inv_apply:
  assumes "sess_inv l" "sl_now l \<le> now"
  shows "sess_inv (sess_apply now op l)"
proof (cases op)
  case (OpCreate g cs ttl)
  with assms show ?thesis
    by (cases g) (fastforce simp: sess_inv_def CreateWithTTL_def Let_def split: if_splits)+
next
  case (OpGet sid)
  with assms show ?thesis
    by (auto simp: sess_inv_def sess_Get_def split: option.splits if_splits) (meson order_trans)+
next
  case (OpDelete sid)
  with assms show ?thesis by (auto simp: sess_inv_def sess_Delete_def) (meson order_trans)+
next
  case (OpRefresh sid tok e)
  with assms show ?thesis
    by (fastforce simp: sess_inv_def sess_Refresh_def Let_def split: option.splits if_splits)
qed

interpretation sessions: preserved sess_start sess_step sess_inv
  by unfold_locales (auto simp: sess_inv_start sess_inv_apply elim!: sess_step.cases)

section \<open>Properties\<close>

text \<open>
  A session is honoured exactly within its idle window: in any store under use, a lookup that
  succeeds finds an identified person whose session was created or refreshed less than its window
  ago, and a stored session is refused, and dropped, exactly when that time is over.
\<close>

theorem session_idle_window:
  assumes "reach sess_start sess_step l" and "sl_now l \<le> now" and "sst_sessions (sl_store l) sid = Some s"
  shows "\<exists>t. sl_touched l sid = Some t \<and> as_ttl s > 0 \<and> cl_email (as_claims s) \<noteq> '''' \<and>
    (now < t + as_ttl s \<longrightarrow> sess_Get (sl_store l) now sid = (Some s, sl_store l)) \<and>
    (t + as_ttl s \<le> now \<longrightarrow> fst (sess_Get (sl_store l) now sid) = None \<and>
       sst_sessions (snd (sess_Get (sl_store l) now sid)) sid = None)"
proof -
  from sessions.inv_reach [OF assms(1)] assms(3) obtain t where "sl_touched l sid = Some t" "as_expiresAt s = Some (t + as_ttl s)"
    "as_ttl s > 0" "cl_email (as_claims s) \<noteq> ''''"
    by (auto simp: sess_inv_def)
  then show ?thesis by (auto simp: sess_Get_def assms(3) expiredAt_def)
qed

text \<open>
  A session that is over stays over: after a delete, or once the window has passed, neither a
  lookup nor a refresh with any token brings it back, and a refresh never touches another session.
\<close>

theorem session_never_revived:
  assumes over: "st' = sess_Delete st sid \<or> (st' = st \<and> (\<exists>s. sst_sessions st sid = Some s \<and> expiredAt s now))"
  shows "fst (sess_Get st' now sid) = None \<and> fst (sess_Refresh st' now sid tok e) \<noteq> None \<and>
    (other \<noteq> sid \<longrightarrow> sst_sessions (snd (sess_Refresh st' now sid tok e)) other = sst_sessions st other)"
  using assms by (auto simp: sess_Get_def sess_Refresh_def sess_Delete_def Let_def split: option.splits)

definition demo_claims :: claims where
  "demo_claims = \<lparr>cl_email = ''ana@x.io'', cl_groups = []\<rparr>"

definition demo_log :: sesslog where
  "demo_log = sess_apply 100 (OpCreate (Inr ''sid'') demo_claims 50) \<lparr>sl_store = NewSessionStore 0, sl_now = 0, sl_touched = Map.empty\<rparr>"

theorem session_idle_window_witness:
  "fst (sess_Get (sl_store demo_log) 149 ''sid'') \<noteq> None \<and> fst (sess_Get (sl_store demo_log) 150 ''sid'') = None"
proof -
  have r: "reach sess_start sess_step demo_log"
    unfolding demo_log_def
  proof (rule reach_next [OF reach_start])
    show "sess_start \<lparr>sl_store = NewSessionStore 0, sl_now = 0, sl_touched = Map.empty\<rparr>" by (auto simp: sess_start_def)
  qed (rule sess_step.intros, simp)
  let ?s = "\<lparr>as_claims = demo_claims, as_token = '''', as_tokenExpiresAt = None, as_createdAt = 100,
      as_expiresAt = Some 150, as_ttl = 50\<rparr>"
  have l: "sst_sessions (sl_store demo_log) ''sid'' = Some ?s" "sl_now demo_log = 100" "sl_touched demo_log ''sid'' = Some 100"
    by (simp_all add: demo_log_def CreateWithTTL_def demo_claims_def Let_def)
  from session_idle_window [OF r _ l(1), of 149] session_idle_window [OF r _ l(1), of 150] show ?thesis by (simp add: l)
qed

theorem session_never_revived_witness:
  "fst (sess_Refresh (sess_Delete (sl_store demo_log) ''sid'') 110 ''sid'' ''tok'' (Some 999)) \<noteq> None"
  using session_never_revived [of "sess_Delete (sl_store demo_log) ''sid''" "sl_store demo_log" "''sid''" 110 "''tok''" "Some 999" "''x''"]
  by blast

end
