(* ===== verification/LoginFlow.thy ===== *)
theory LoginFlow
  imports Sessions Tokens LocalUsers WorkspaceObjects
begin

text \<open>
  Signing in (\<^verbatim>\<open>src/internal/ui/auth_handlers.go\<close>, \<^verbatim>\<open>challenges.go\<close>, \<^verbatim>\<open>csrf.go\<close>, and the provider side of
  \<^verbatim>\<open>src/internal/auth\<close>: \<^verbatim>\<open>provider.go\<close>, \<^verbatim>\<open>registry.go\<close>, \<^verbatim>\<open>oidc.go\<close>, \<^verbatim>\<open>github.go\<close>, \<^verbatim>\<open>token_mint.go\<close>).

  The three in-memory tables of the UI process, sessions with their identities, CSRF tokens and login challenges, are one
  record, \<open>uistate\<close>; their mutexes make each access one step. Opening a session and storing its identity are two accesses and
  one step here, as nobody knows the new name in between; so are ending a session and dropping its identity, as an identity
  without a session is not honoured. The two halves of a mint are also there apart. An OAuth provider is a record of its calls. The OAuth and OIDC
  libraries, the token endpoint of the API server and all random values are arguments. \<open>now\<close> is the clock at the operation.
\<close>

lemma TrimSpace_Nil: "TrimSpace [] = []"
  by code_simp

section \<open>Providers\<close>

definition provider_Valid :: "string \<Rightarrow> bool" where
  "provider_Valid n \<longleftrightarrow> n \<in> {''entra-id'', ''google'', ''gitlab'', ''keycloak'', ''github''}"

text \<open>A provider: \<open>pv_validateNonce\<close> is \<open>None\<close> when it does not implement the nonce extension.\<close>

record 'tok provider =
  pv_AuthURL :: "string \<Rightarrow> string \<Rightarrow> string \<Rightarrow> string"
  pv_Exchange :: "string \<Rightarrow> string \<Rightarrow> string + 'tok"
  pv_Claims :: "'tok \<Rightarrow> string + claims"
  pv_ValidateNonce :: "('tok \<Rightarrow> string \<Rightarrow> string option) option"

text \<open>The OIDC provider over its libraries: the raw ID token of a response and its verification.\<close>

record oidcidentity =
  oi_email :: string
  oi_preferredUsername :: string
  oi_groups :: "string list"

record 'tok oidclib =
  ol_authCodeURL :: "string \<Rightarrow> (string \<times> string) list \<Rightarrow> string"
  ol_s256 :: "string \<Rightarrow> string"
  ol_exchange :: "string \<Rightarrow> string \<Rightarrow> string + 'tok"
  ol_idToken :: "'tok \<Rightarrow> string option"
  ol_verify :: "string \<Rightarrow> string + string \<times> oidcidentity"

definition rawIDTokenFrom :: "'tok oidclib \<Rightarrow> 'tok \<Rightarrow> string + string" where
  "rawIDTokenFrom lib tok =
     (case ol_idToken lib tok of
        None \<Rightarrow> Inl ''id_token required''
      | Some raw \<Rightarrow> if TrimSpace raw = '''' then Inl ''id_token required'' else Inr raw)"

definition emailFromIDTokenClaims :: "oidcidentity \<Rightarrow> string + string" where
  "emailFromIDTokenClaims cs =
     (if TrimSpace (oi_email cs) \<noteq> '''' then Inr (TrimSpace (oi_email cs))
      else if TrimSpace (oi_preferredUsername cs) \<noteq> '''' then Inr (TrimSpace (oi_preferredUsername cs))
      else Inl ''email claim required'')"

definition oidc_Claims :: "'tok oidclib \<Rightarrow> 'tok \<Rightarrow> string + claims" where
  "oidc_Claims lib tok =
     (case rawIDTokenFrom lib tok of
        Inl err \<Rightarrow> Inl err
      | Inr raw \<Rightarrow>
          (case ol_verify lib raw of
             Inl err \<Rightarrow> Inl err
           | Inr (_, identity) \<Rightarrow>
               (case emailFromIDTokenClaims identity of
                  Inl err \<Rightarrow> Inl err
                | Inr email \<Rightarrow> Inr \<lparr>cl_email = email, cl_groups = oi_groups identity\<rparr>)))"

definition oidc_ValidateNonce :: "'tok oidclib \<Rightarrow> 'tok \<Rightarrow> string \<Rightarrow> string option" where
  "oidc_ValidateNonce lib tok expectedNonce =
     (case rawIDTokenFrom lib tok of
        Inl err \<Rightarrow> Some err
      | Inr raw \<Rightarrow>
          (case ol_verify lib raw of
             Inl err \<Rightarrow> Some err
           | Inr (nonce, _) \<Rightarrow>
               if nonce \<noteq> expectedNonce then Some ''id token nonce does not match login challenge'' else None))"

definition oidcProvider :: "'tok oidclib \<Rightarrow> 'tok provider" where
  "oidcProvider lib =
     \<lparr>pv_AuthURL = (\<lambda>state nonce codeVerifier. ol_authCodeURL lib state
        [(''code_challenge_method'', ''S256''), (''code_challenge'', ol_s256 lib codeVerifier), (''nonce'', nonce)]),
      pv_Exchange = ol_exchange lib, pv_Claims = oidc_Claims lib, pv_ValidateNonce = Some (oidc_ValidateNonce lib)\<rparr>"

text \<open>The GitHub provider: no nonce and no code verifier; the email comes from the API.\<close>

record githubemail =
  ge_email :: string
  ge_primary :: bool
  ge_verified :: bool

record 'tok githublib =
  gl_authCodeURL :: "string \<Rightarrow> string"
  gl_exchange :: "string \<Rightarrow> string + 'tok"
  gl_accessToken :: "'tok \<Rightarrow> string"
  gl_user :: "string \<Rightarrow> string + unit"
  gl_emails :: "string \<Rightarrow> string + githubemail list"

fun primaryVerifiedEmail :: "githubemail list \<Rightarrow> string + string" where
  "primaryVerifiedEmail [] = Inl ''primary verified email required''"
| "primaryVerifiedEmail (e # es) =
     (if ge_primary e \<and> ge_verified e \<and> TrimSpace (ge_email e) \<noteq> '''' then Inr (TrimSpace (ge_email e))
      else primaryVerifiedEmail es)"

definition github_Claims :: "'tok githublib \<Rightarrow> 'tok \<Rightarrow> string + claims" where
  "github_Claims lib tok =
     (if TrimSpace (gl_accessToken lib tok) = '''' then Inl ''access token required''
      else case gl_user lib (gl_accessToken lib tok) of
        Inl err \<Rightarrow> Inl err
      | Inr _ \<Rightarrow>
          (case gl_emails lib (gl_accessToken lib tok) of
             Inl err \<Rightarrow> Inl err
           | Inr emails \<Rightarrow>
               (case primaryVerifiedEmail emails of
                  Inl err \<Rightarrow> Inl err
                | Inr email \<Rightarrow> Inr \<lparr>cl_email = email, cl_groups = []\<rparr>)))"

definition githubProvider :: "'tok githublib \<Rightarrow> 'tok provider" where
  "githubProvider lib =
     \<lparr>pv_AuthURL = (\<lambda>state _ _. gl_authCodeURL lib state), pv_Exchange = (\<lambda>code _. gl_exchange lib code),
      pv_Claims = github_Claims lib, pv_ValidateNonce = None\<rparr>"

text \<open>The registry: the configured providers by name.\<close>

definition reg_Get :: "(string \<rightharpoonup> 'tok provider) \<Rightarrow> string \<Rightarrow> string + 'tok provider" where
  "reg_Get providers name =
     (if \<not> provider_Valid name then Inl ''invalid provider name''
      else case providers name of None \<Rightarrow> Inl ''provider not configured'' | Some p \<Rightarrow> Inr p)"

section \<open>Roles from groups\<close>

record grouproles =
  gr_adminGroups :: "string list"
  gr_userGroups :: "string list"

definition anyGroupMatches :: "string list \<Rightarrow> string list \<Rightarrow> bool" where
  "anyGroupMatches groups configured \<longleftrightarrow> list_ex (\<lambda>want. want \<in> set groups) configured"

definition roleFor :: "grouproles \<Rightarrow> string list \<Rightarrow> string \<times> bool" where
  "roleFor m groups =
     (if anyGroupMatches groups (gr_adminGroups m) then (UserSpaceRoleAdmin, True)
      else if anyGroupMatches groups (gr_userGroups m) then (UserSpaceRoleUser, True)
      else ('''', False))"

section \<open>State\<close>

record sessionidentity =
  si_email :: string
  si_userSpaceName :: string
  si_userSpaceNamespace :: string
  si_role :: string
  si_onboardingPending :: bool
  si_localLogin :: bool

record loginchallenge =
  lc_state :: string
  lc_nonce :: string
  lc_expiresAt :: "gotime option"
  lc_codeVerifier :: string

record uistate =
  ui_sessions :: sessionstore
  ui_identities :: "string \<rightharpoonup> sessionidentity"
  ui_csrf :: "string \<rightharpoonup> string"
  ui_challenges :: "string \<rightharpoonup> string \<times> loginchallenge"

text \<open>What the flow is configured with, and what its calls answer.\<close>

record ('q, 'tok) login_env =
  le_providers :: "string \<rightharpoonup> 'tok provider"
  le_groupRoles :: "string \<rightharpoonup> grouproles"
  le_challengeTTL :: duration
  le_userSpaces :: "apierr + 'q userspace list"
  le_verifyLocal :: "(string \<Rightarrow> string \<Rightarrow> lusererr + localuser) option"
  le_mint :: "string \<Rightarrow> string \<Rightarrow> string + string \<times> gotime option"

datatype flowerr =
    ProviderRequired | ProviderLookup string | ChallengeErr string | CodeRequired | StateRequired | ChallengeExpired | StateMismatch
  | ExchangeErr string | NonceErr string | ClaimsErr string | AccessDenied string ownererr | UserSpaceDisabled string
  | ResolveErr string ownererr | NamespaceMissing | CreateSessionErr sesserr | LocalLoginDisabled | VerifyErr lusererr
  | SessionGone | IdentityMissing | MintErr string | RefreshErr sesserr

section \<open>CSRF tokens and challenges\<close>

definition csrf_Ensure :: "string + string \<Rightarrow> string \<Rightarrow> uistate \<Rightarrow> (string + string) \<times> uistate" where
  "csrf_Ensure generated sessionID st =
     (case ui_csrf st sessionID of
        Some token \<Rightarrow> (Inr token, st)
      | None \<Rightarrow>
          (case generated of
             Inl err \<Rightarrow> (Inl err, st)
           | Inr token \<Rightarrow> (Inr token, st\<lparr>ui_csrf := (ui_csrf st)(sessionID \<mapsto> token)\<rparr>)))"

definition csrf_Valid :: "string \<Rightarrow> string \<Rightarrow> uistate \<Rightarrow> bool" where
  "csrf_Valid sessionID token st =
     (case ui_csrf st sessionID of
        None \<Rightarrow> False
      | Some expected \<Rightarrow> if length expected \<noteq> length token then False else expected = token)"

definition csrf_Delete :: "string \<Rightarrow> uistate \<Rightarrow> uistate" where
  "csrf_Delete sessionID st = st\<lparr>ui_csrf := (ui_csrf st)(sessionID := None)\<rparr>"

definition challenge_Put :: "string \<Rightarrow> loginchallenge \<Rightarrow> uistate \<Rightarrow> uistate" where
  "challenge_Put provider c st = st\<lparr>ui_challenges := (ui_challenges st)(lc_state c \<mapsto> (provider, c))\<rparr>"

definition after :: "gotime option \<Rightarrow> gotime \<Rightarrow> bool" where
  "after t now = (case t of None \<Rightarrow> False | Some t \<Rightarrow> t > now)"

definition challenge_Take :: "gotime \<Rightarrow> string \<Rightarrow> string \<Rightarrow> uistate \<Rightarrow> loginchallenge option \<times> uistate" where
  "challenge_Take now provider state st =
     (case ui_challenges st state of
        None \<Rightarrow> (None, st)
      | Some (p, c) \<Rightarrow>
          (let st' = st\<lparr>ui_challenges := (ui_challenges st)(state := None)\<rparr> in
           if p \<noteq> provider \<or> \<not> after (lc_expiresAt c) now then (None, st') else (Some c, st')))"

section \<open>The flow\<close>

definition lf_provider :: "('q, 'tok) login_env \<Rightarrow> string \<Rightarrow> flowerr + 'tok provider" where
  "lf_provider env name =
     (if \<not> provider_Valid name then Inl ProviderRequired
      else case reg_Get (le_providers env) name of Inl err \<Rightarrow> Inl (ProviderLookup err) | Inr p \<Rightarrow> Inr p)"

text \<open>\<open>rstate\<close>, \<open>rnonce\<close> and \<open>rverifier\<close> are the random values.\<close>

definition newChallenge :: "('q, 'tok) login_env \<Rightarrow> gotime \<Rightarrow> string + string \<Rightarrow> string + string \<Rightarrow> string \<Rightarrow> flowerr + loginchallenge" where
  "newChallenge env now rstate rnonce rverifier =
     (case rstate of
        Inl err \<Rightarrow> Inl (ChallengeErr err)
      | Inr state \<Rightarrow>
          (case rnonce of
             Inl err \<Rightarrow> Inl (ChallengeErr err)
           | Inr nonce \<Rightarrow>
               Inr \<lparr>lc_state = state, lc_nonce = nonce, lc_expiresAt = Some (now + le_challengeTTL env), lc_codeVerifier = rverifier\<rparr>))"

definition BeginLogin ::
    "('q, 'tok) login_env \<Rightarrow> gotime \<Rightarrow> string + string \<Rightarrow> string + string \<Rightarrow> string \<Rightarrow> string \<Rightarrow> flowerr + string \<times> loginchallenge" where
  "BeginLogin env now rstate rnonce rverifier name =
     (case lf_provider env name of
        Inl err \<Rightarrow> Inl err
      | Inr p \<Rightarrow>
          (case newChallenge env now rstate rnonce rverifier of
             Inl err \<Rightarrow> Inl err
           | Inr c \<Rightarrow> Inr (pv_AuthURL p (lc_state c) (lc_nonce c) (lc_codeVerifier c), c)))"

record completerequest =
  cr_provider :: string
  cr_code :: string
  cr_state :: string
  cr_challenge :: loginchallenge
  cr_sessionTTL :: duration

definition validateCompleteLoginRequest :: "gotime \<Rightarrow> completerequest \<Rightarrow> flowerr option" where
  "validateCompleteLoginRequest now req =
     (if \<not> provider_Valid (cr_provider req) then Some ProviderRequired
      else if cr_code req = '''' then Some CodeRequired
      else if cr_state req = '''' then Some StateRequired
      else if \<not> after (lc_expiresAt (cr_challenge req)) now then Some ChallengeExpired
      else if lc_state (cr_challenge req) \<noteq> cr_state req then Some StateMismatch
      else None)"

definition validateNonce :: "'tok provider \<Rightarrow> 'tok \<Rightarrow> string \<Rightarrow> string option" where
  "validateNonce p tok nonce = (case pv_ValidateNonce p of None \<Rightarrow> None | Some v \<Rightarrow> v tok nonce)"

fun wrapOwnerResolutionError :: "string \<Rightarrow> ownererr \<Rightarrow> flowerr" where
  "wrapOwnerResolutionError email (NoUserSpace e) = AccessDenied email (NoUserSpace e)"
| "wrapOwnerResolutionError email (MultipleUserSpaces e ns) = AccessDenied email (MultipleUserSpaces e ns)"
| "wrapOwnerResolutionError email err = ResolveErr email err"

definition sessionIdentityFrom :: "'q userspace \<Rightarrow> claims \<Rightarrow> string \<Rightarrow> flowerr + sessionidentity" where
  "sessionIdentityFrom us cs roleOverride =
     (if ust_namespace (us_status us) = '''' then Inl NamespaceMissing
      else if us_disabled (us_spec us) then Inl (UserSpaceDisabled (cl_email cs))
      else Inr \<lparr>si_email = cl_email cs, si_userSpaceName = us_name us, si_userSpaceNamespace = ust_namespace (us_status us),
          si_role = (if roleOverride \<noteq> '''' then roleOverride else EffectiveRole (us_spec us)),
          si_onboardingPending = (us_onboarding (us_spec us) = None), si_localLogin = False\<rparr>)"

definition storeIdentity :: "string \<Rightarrow> sessionidentity \<Rightarrow> uistate \<Rightarrow> uistate" where
  "storeIdentity sessionID i st = st\<lparr>ui_identities := (ui_identities st)(sessionID \<mapsto> i)\<rparr>"

definition deleteIdentity :: "string \<Rightarrow> uistate \<Rightarrow> uistate" where
  "deleteIdentity sessionID st = st\<lparr>ui_identities := (ui_identities st)(sessionID := None)\<rparr>"

text \<open>The end both sign-ins share: a session is created and the identity stored under it.\<close>

definition openSession :: "string + string \<Rightarrow> gotime \<Rightarrow> claims \<Rightarrow> duration \<Rightarrow> sessionidentity \<Rightarrow> uistate \<Rightarrow> (flowerr + string) \<times> uistate" where
  "openSession generated now cs ttl identity st =
     (case CreateWithTTL (ui_sessions st) generated now cs ttl of
        (Inl err, ss) \<Rightarrow> (Inl (CreateSessionErr err), st\<lparr>ui_sessions := ss\<rparr>)
      | (Inr sessionID, ss) \<Rightarrow> (Inr sessionID, storeIdentity sessionID identity (st\<lparr>ui_sessions := ss\<rparr>)))"

definition rolesOf :: "('q, 'tok) login_env \<Rightarrow> string \<Rightarrow> grouproles" where
  "rolesOf env name = (case le_groupRoles env name of None \<Rightarrow> \<lparr>gr_adminGroups = [], gr_userGroups = []\<rparr> | Some m \<Rightarrow> m)"

text \<open>Who a set of claims is, before a session exists.\<close>

definition identify :: "('q, 'tok) login_env \<Rightarrow> claims \<Rightarrow> string \<Rightarrow> flowerr + sessionidentity" where
  "identify env cs roleOverride =
     (case ResolveByEmail (le_userSpaces env) (cl_email cs) of
        Inl err \<Rightarrow> Inl (wrapOwnerResolutionError (cl_email cs) err)
      | Inr us \<Rightarrow> sessionIdentityFrom us cs roleOverride)"

definition CompleteLogin ::
    "('q, 'tok) login_env \<Rightarrow> gotime \<Rightarrow> string + string \<Rightarrow> completerequest \<Rightarrow> uistate \<Rightarrow> (flowerr + string) \<times> uistate" where
  "CompleteLogin env now generated req st =
     (case lf_provider env (cr_provider req) of
        Inl err \<Rightarrow> (Inl err, st)
      | Inr p \<Rightarrow>
          (case validateCompleteLoginRequest now req of
             Some err \<Rightarrow> (Inl err, st)
           | None \<Rightarrow>
               (case pv_Exchange p (cr_code req) (lc_codeVerifier (cr_challenge req)) of
                  Inl err \<Rightarrow> (Inl (ExchangeErr err), st)
                | Inr tok \<Rightarrow>
                    (case validateNonce p tok (lc_nonce (cr_challenge req)) of
                       Some err \<Rightarrow> (Inl (NonceErr err), st)
                     | None \<Rightarrow>
                         (case pv_Claims p tok of
                            Inl err \<Rightarrow> (Inl (ClaimsErr err), st)
                          | Inr cs \<Rightarrow>
                              (case identify env cs (fst (roleFor (rolesOf env (cr_provider req)) (cl_groups cs))) of
                                 Inl err \<Rightarrow> (Inl err, st)
                               | Inr identity \<Rightarrow> openSession generated now cs (cr_sessionTTL req) identity st))))))"

definition CompleteLocalLogin ::
    "('q, 'tok) login_env \<Rightarrow> gotime \<Rightarrow> string + string \<Rightarrow> string \<Rightarrow> string \<Rightarrow> duration \<Rightarrow> uistate \<Rightarrow> (flowerr + string) \<times> uistate" where
  "CompleteLocalLogin env now generated username password ttl st =
     (case le_verifyLocal env of
        None \<Rightarrow> (Inl LocalLoginDisabled, st)
      | Some verify \<Rightarrow>
          (case verify username password of
             Inl err \<Rightarrow> (Inl (VerifyErr err), st)
           | Inr u \<Rightarrow>
               (let cs = \<lparr>cl_email = lu_owner u, cl_groups = []\<rparr> in
                case identify env cs '''' of
                  Inl err \<Rightarrow> (Inl err, st)
                | Inr identity \<Rightarrow> openSession generated now cs ttl (identity\<lparr>si_localLogin := True\<rparr>) st)))"

definition sessionIdentity :: "gotime \<Rightarrow> string \<Rightarrow> uistate \<Rightarrow> (flowerr + sessionidentity) \<times> uistate" where
  "sessionIdentity now sessionID st =
     (case sess_Get (ui_sessions st) now sessionID of
        (None, ss) \<Rightarrow> (Inl SessionGone, deleteIdentity sessionID (st\<lparr>ui_sessions := ss\<rparr>))
      | (Some _, ss) \<Rightarrow>
          (case ui_identities st sessionID of
             None \<Rightarrow> (Inl IdentityMissing, st\<lparr>ui_sessions := ss\<rparr>)
           | Some identity \<Rightarrow> (Inr identity, st\<lparr>ui_sessions := ss\<rparr>)))"

text \<open>\<^verbatim>\<open>TokenMinter.Mint\<close> asks the API server for a token of one hour.\<close>

definition serviceAccountTokenLifetime :: duration where
  "serviceAccountTokenLifetime = 60 * 60 * 1000000000"

definition Mint :: "(string \<Rightarrow> string \<Rightarrow> int \<Rightarrow> string + string \<times> gotime option) option \<Rightarrow> string \<Rightarrow> string \<Rightarrow> string + string \<times> gotime option" where
  "Mint createToken namespace serviceAccountName =
     (case createToken of
        None \<Rightarrow> Inl ''kubernetes clientset required''
      | Some create \<Rightarrow> create namespace serviceAccountName (serviceAccountTokenLifetime div 1000000000))"

text \<open>
  The session is looked up at \<open>now\<close> and, the API server having answered, refreshed at \<open>now'\<close>; other requests can come in
  between, so the second half has a name.
\<close>

definition refreshMinted :: "gotime \<Rightarrow> string \<Rightarrow> string \<Rightarrow> gotime option \<Rightarrow> uistate \<Rightarrow> (flowerr + string) \<times> uistate" where
  "refreshMinted now' sessionID token expiresAt st =
     (case sess_Refresh (ui_sessions st) now' sessionID token expiresAt of
        (Some err, ss) \<Rightarrow> (Inl (RefreshErr err), deleteIdentity sessionID (st\<lparr>ui_sessions := ss\<rparr>))
      | (None, ss) \<Rightarrow> (Inr token, st\<lparr>ui_sessions := ss\<rparr>))"

definition MintTokenForSession :: "('q, 'tok) login_env \<Rightarrow> gotime \<Rightarrow> gotime \<Rightarrow> string \<Rightarrow> uistate \<Rightarrow> (flowerr + string) \<times> uistate" where
  "MintTokenForSession env now now' sessionID st =
     (case sessionIdentity now sessionID st of
        (Inl err, st1) \<Rightarrow> (Inl err, st1)
      | (Inr identity, st1) \<Rightarrow>
          (case le_mint env (si_userSpaceNamespace identity) SessionServiceAccountName of
             Inl err \<Rightarrow> (Inl (MintErr err), st1)
           | Inr (token, expiresAt) \<Rightarrow> refreshMinted now' sessionID token expiresAt st1))"

definition Logout :: "gotime \<Rightarrow> string \<Rightarrow> uistate \<Rightarrow> flowerr option \<times> uistate" where
  "Logout now sessionID st =
     (case sessionIdentity now sessionID st of
        (Inl err, st1) \<Rightarrow> (Some err, st1)
      | (Inr _, st1) \<Rightarrow> (None, deleteIdentity sessionID (st1\<lparr>ui_sessions := sess_Delete (ui_sessions st1) sessionID\<rparr>)))"

definition MarkOnboardingCompleted :: "string \<Rightarrow> uistate \<Rightarrow> uistate" where
  "MarkOnboardingCompleted sessionID st =
     (case ui_identities st sessionID of
        None \<Rightarrow> st
      | Some i \<Rightarrow> storeIdentity sessionID (i\<lparr>si_onboardingPending := False\<rparr>) st)"

section \<open>What signing in means\<close>

text \<open>A session that the next lookup at \<open>now\<close> will honour, and who it belongs to.\<close>

definition live :: "uistate \<Rightarrow> gotime \<Rightarrow> string \<Rightarrow> bool" where
  "live st now sid \<longleftrightarrow> (\<exists>s. sst_sessions (ui_sessions st) sid = Some s \<and> \<not> expiredAt s now)"

definition signedIn :: "uistate \<times> gotime \<Rightarrow> string \<rightharpoonup> sessionidentity" where
  "signedIn x sid = (if live (fst x) (snd x) sid then ui_identities (fst x) sid else None)"

text \<open>
  Who a completed sign-in is, said without the order in which the code asks: a provider login with every check passed,
  or a password that verifies, and the one UserSpace of that owner, enabled and provisioned.
\<close>

definition identityOf :: "'q userspace \<Rightarrow> string \<Rightarrow> string \<Rightarrow> sessionidentity" where
  "identityOf us email roleOverride = \<lparr>si_email = email, si_userSpaceName = us_name us, si_userSpaceNamespace = ust_namespace (us_status us),
     si_role = (if roleOverride \<noteq> '''' then roleOverride else EffectiveRole (us_spec us)),
     si_onboardingPending = (us_onboarding (us_spec us) = None), si_localLogin = False\<rparr>"

definition ownerSpace :: "('q, 'tok) login_env \<Rightarrow> string \<Rightarrow> 'q userspace \<Rightarrow> bool" where
  "ownerSpace env email us \<longleftrightarrow> (\<exists>items. le_userSpaces env = Inr items \<and> TrimSpace email \<noteq> '''' \<and>
     filter (\<lambda>v. us_owner (us_spec v) = TrimSpace email) items = [us] \<and> ust_namespace (us_status us) \<noteq> '''' \<and> \<not> us_disabled (us_spec us))"

definition providerSignIn :: "('q, 'tok) login_env \<Rightarrow> gotime \<Rightarrow> completerequest \<Rightarrow> sessionidentity \<Rightarrow> bool" where
  "providerSignIn env now req i \<longleftrightarrow> (\<exists>p tok cs us. lf_provider env (cr_provider req) = Inr p \<and> cr_code req \<noteq> '''' \<and> cr_state req \<noteq> '''' \<and>
     after (lc_expiresAt (cr_challenge req)) now \<and> lc_state (cr_challenge req) = cr_state req \<and>
     pv_Exchange p (cr_code req) (lc_codeVerifier (cr_challenge req)) = Inr tok \<and>
     (case pv_ValidateNonce p of None \<Rightarrow> True | Some v \<Rightarrow> v tok (lc_nonce (cr_challenge req)) = None) \<and>
     pv_Claims p tok = Inr cs \<and> ownerSpace env (cl_email cs) us \<and>
     i = identityOf us (cl_email cs) (fst (roleFor (rolesOf env (cr_provider req)) (cl_groups cs))))"

definition passwordSignIn :: "('q, 'tok) login_env \<Rightarrow> string \<Rightarrow> string \<Rightarrow> sessionidentity \<Rightarrow> bool" where
  "passwordSignIn env username password i \<longleftrightarrow> (\<exists>verify u us. le_verifyLocal env = Some verify \<and> verify username password = Inr u \<and>
     ownerSpace env (lu_owner u) us \<and> i = (identityOf us (lu_owner u) '''')\<lparr>si_localLogin := True\<rparr>)"

text \<open>
  What happens to the tables, and what is answered. \<open>EvMinted\<close> is the second half of a mint on its own: its first half is a
  lookup, and whatever comes in between is events too.
\<close>

datatype ('q, 'tok) uievent =
    EvLogin "('q, 'tok) login_env" "string + string" completerequest
  | EvLocalLogin "('q, 'tok) login_env" "string + string" string string duration
  | EvLookup string
  | EvMint "('q, 'tok) login_env" gotime string
  | EvMinted string string "gotime option"
  | EvLogout string
  | EvOnboarded string
  | EvCsrfEnsure "string + string" string
  | EvCsrfDelete string
  | EvPut string loginchallenge
  | EvTake string string

datatype uianswer = Refused | Done | Opened string | Served sessionidentity | Minted string

fun ui_do :: "gotime \<Rightarrow> ('q, 'tok) uievent \<Rightarrow> uistate \<Rightarrow> uianswer \<times> uistate" where
  "ui_do now (EvLogin env g req) st = (case CompleteLogin env now g req st of (Inl _, st') \<Rightarrow> (Refused, st') | (Inr sid, st') \<Rightarrow> (Opened sid, st'))"
| "ui_do now (EvLocalLogin env g u p ttl) st =
     (case CompleteLocalLogin env now g u p ttl st of (Inl _, st') \<Rightarrow> (Refused, st') | (Inr sid, st') \<Rightarrow> (Opened sid, st'))"
| "ui_do now (EvLookup sid) st = (case sessionIdentity now sid st of (Inl _, st') \<Rightarrow> (Refused, st') | (Inr i, st') \<Rightarrow> (Served i, st'))"
| "ui_do now (EvMint env now' sid) st =
     (case MintTokenForSession env now now' sid st of (Inl _, st') \<Rightarrow> (Refused, st') | (Inr tok, st') \<Rightarrow> (Minted tok, st'))"
| "ui_do now (EvMinted sid tok e) st = (Done, snd (refreshMinted now sid tok e st))"
| "ui_do now (EvLogout sid) st = (case Logout now sid st of (Some _, st') \<Rightarrow> (Refused, st') | (None, st') \<Rightarrow> (Done, st'))"
| "ui_do now (EvOnboarded sid) st = (Done, MarkOnboardingCompleted sid st)"
| "ui_do now (EvCsrfEnsure tok sid) st = (Done, snd (csrf_Ensure tok sid st))"
| "ui_do now (EvCsrfDelete sid) st = (Done, csrf_Delete sid st)"
| "ui_do now (EvPut name c) st = (Done, challenge_Put name c st)"
| "ui_do now (EvTake name state) st = (Done, snd (challenge_Take now name state st))"

fun evEnd :: "gotime \<Rightarrow> ('q, 'tok) uievent \<Rightarrow> gotime" where
  "evEnd now (EvMint env now' sid) = now'"
| "evEnd now ev = now"

record ('q, 'tok) uirun =
  ur_state :: uistate
  ur_clock :: gotime
  ur_log :: "(gotime \<times> ('q, 'tok) uievent \<times> uianswer) list"

definition ui_start :: "('q, 'tok) uirun \<Rightarrow> bool" where
  "ui_start x \<longleftrightarrow> (\<exists>ttl. ui_sessions (ur_state x) = NewSessionStore ttl) \<and> ui_identities (ur_state x) = Map.empty \<and>
     ui_csrf (ur_state x) = Map.empty \<and> ui_challenges (ur_state x) = Map.empty \<and> ur_log x = []"

inductive ui_step :: "('q, 'tok) uirun \<Rightarrow> ('q, 'tok) uirun \<Rightarrow> bool" where
  "ur_clock x \<le> now \<Longrightarrow> now \<le> evEnd now ev \<Longrightarrow> ui_do now ev (ur_state x) = (ans, st') \<Longrightarrow>
   ui_step x \<lparr>ur_state = st', ur_clock = evEnd now ev, ur_log = ur_log x @ [(now, ev, ans)]\<rparr>"

text \<open>
  The specification: one table of who is signed in, for how long at a stretch and until when. Rows whose time is over are not in it.
\<close>

record signrow =
  sr_who :: sessionidentity
  sr_window :: duration
  sr_until :: gotime

type_synonym signtable = "string \<rightharpoonup> signrow"

definition unexpired :: "gotime \<Rightarrow> signtable \<Rightarrow> signtable" where
  "unexpired now m sid = (case m sid of None \<Rightarrow> None | Some r \<Rightarrow> if now < sr_until r then Some r else None)"

definition newRow :: "duration \<Rightarrow> gotime \<Rightarrow> duration \<Rightarrow> sessionidentity \<Rightarrow> signrow" where
  "newRow idle now ttl i = (let w = (if ttl \<le> 0 then idle else ttl) in \<lparr>sr_who = i, sr_window = w, sr_until = now + w\<rparr>)"

text \<open>The row that a sign-in adds, if it is one.\<close>

fun signsIn :: "duration \<Rightarrow> gotime \<Rightarrow> ('q, 'tok) uievent \<Rightarrow> string \<Rightarrow> signrow \<Rightarrow> bool" where
  "signsIn idle now (EvLogin env g req) sid r \<longleftrightarrow>
     g = Inr sid \<and> (\<exists>i. providerSignIn env now req i \<and> r = newRow idle now (cr_sessionTTL req) i)"
| "signsIn idle now (EvLocalLogin env g u p ttl) sid r \<longleftrightarrow> g = Inr sid \<and> (\<exists>i. passwordSignIn env u p i \<and> r = newRow idle now ttl i)"
| "signsIn idle now ev sid r \<longleftrightarrow> False"

text \<open>A token the API server issued keeps the row going for another window; an unusable one, or one that comes too late, ends it.\<close>

definition renewed :: "gotime \<Rightarrow> string \<Rightarrow> gotime option \<Rightarrow> signrow \<Rightarrow> signrow option" where
  "renewed now tok e r = (if tok \<noteq> '''' \<and> after e now \<and> now < sr_until r then Some (r\<lparr>sr_until := now + sr_window r\<rparr>) else None)"

definition onboard :: "signrow \<Rightarrow> signrow" where
  "onboard r = r\<lparr>sr_who := (sr_who r)\<lparr>si_onboardingPending := False\<rparr>\<rparr>"

fun table_do :: "duration \<Rightarrow> gotime \<Rightarrow> ('q, 'tok) uievent \<Rightarrow> uianswer \<Rightarrow> signtable \<Rightarrow> signtable \<Rightarrow> bool" where
  "table_do idle now (EvLogin env g req) ans m m' \<longleftrightarrow>
     (\<exists>sid r. signsIn idle now (EvLogin env g req) sid r \<and> ans = Opened sid \<and> m' = m(sid \<mapsto> r)) \<or>
     (\<nexists>sid r. signsIn idle now (EvLogin env g req) sid r) \<and> ans = Refused \<and> m' = m"
| "table_do idle now (EvLocalLogin env g u p ttl) ans m m' \<longleftrightarrow>
     (\<exists>sid r. signsIn idle now (EvLocalLogin env g u p ttl) sid r \<and> ans = Opened sid \<and> m' = m(sid \<mapsto> r)) \<or>
     (\<nexists>sid r. signsIn idle now (EvLocalLogin env g u p ttl) sid r) \<and> ans = Refused \<and> m' = m"
| "table_do idle now (EvLookup sid) ans m m' \<longleftrightarrow> ans = (case m sid of None \<Rightarrow> Refused | Some r \<Rightarrow> Served (sr_who r)) \<and> m' = m"
| "table_do idle now (EvMint env now' sid) ans m m' \<longleftrightarrow>
     (case m sid of
        None \<Rightarrow> ans = Refused \<and> m' = m
      | Some r \<Rightarrow>
          (case le_mint env (si_userSpaceNamespace (sr_who r)) SessionServiceAccountName of
             Inl _ \<Rightarrow> ans = Refused \<and> m' = m
           | Inr (tok, e) \<Rightarrow> ans = (if renewed now' tok e r = None then Refused else Minted tok) \<and> m' = m(sid := renewed now' tok e r)))"
| "table_do idle now (EvMinted sid tok e) ans m m' \<longleftrightarrow> ans = Done \<and> m' = m(sid := Option.bind (m sid) (renewed now tok e))"
| "table_do idle now (EvLogout sid) ans m m' \<longleftrightarrow> ans = (if m sid = None then Refused else Done) \<and> m' = m(sid := None)"
| "table_do idle now (EvOnboarded sid) ans m m' \<longleftrightarrow> ans = Done \<and> m' = m(sid := map_option onboard (m sid))"
| "table_do idle now ev ans m m' \<longleftrightarrow> ans = Done \<and> m' = m"

record ('q, 'tok) signrun =
  sg_idle :: duration
  sg_table :: signtable
  sg_clock :: gotime
  sg_log :: "(gotime \<times> ('q, 'tok) uievent \<times> uianswer) list"

definition sign_start :: "('q, 'tok) signrun \<Rightarrow> bool" where
  "sign_start y \<longleftrightarrow> sg_idle y > 0 \<and> sg_table y = Map.empty \<and> sg_log y = []"

inductive sign_step :: "('q, 'tok) signrun \<Rightarrow> ('q, 'tok) signrun \<Rightarrow> bool" where
  "sg_clock y \<le> now \<Longrightarrow> now \<le> evEnd now ev \<Longrightarrow> table_do (sg_idle y) now ev ans (unexpired now (sg_table y)) m \<Longrightarrow>
   sign_step y \<lparr>sg_idle = sg_idle y, sg_table = unexpired (evEnd now ev) m, sg_clock = evEnd now ev, sg_log = sg_log y @ [(now, ev, ans)]\<rparr>"

text \<open>How the tables of the process stand for that table: a session and its identity, while the session lasts.\<close>

definition rowsOf :: "uistate \<Rightarrow> gotime \<Rightarrow> signtable" where
  "rowsOf st now sid =
     (case (sst_sessions (ui_sessions st) sid, ui_identities st sid) of
        (Some s, Some i) \<Rightarrow>
          (case as_expiresAt s of
             None \<Rightarrow> None
           | Some t \<Rightarrow> if now < t then Some \<lparr>sr_who = i, sr_window = (if as_ttl s \<le> 0 then sst_ttl (ui_sessions st) else as_ttl s), sr_until = t\<rparr>
               else None)
      | _ \<Rightarrow> None)"

definition signRun :: "('q, 'tok) uirun \<Rightarrow> ('q, 'tok) signrun" where
  "signRun x = \<lparr>sg_idle = sst_ttl (ui_sessions (ur_state x)), sg_table = rowsOf (ur_state x) (ur_clock x), sg_clock = ur_clock x, sg_log = ur_log x\<rparr>"

section \<open>The tables implement the specification\<close>

lemma sessionIdentity_cases:
  "sessionIdentity now sid st =
     (if live st now sid then (case ui_identities st sid of None \<Rightarrow> Inl IdentityMissing | Some i \<Rightarrow> Inr i, st)
      else (Inl SessionGone, st\<lparr>ui_sessions := (ui_sessions st)\<lparr>sst_sessions := (sst_sessions (ui_sessions st))(sid := None)\<rparr>,
              ui_identities := (ui_identities st)(sid := None)\<rparr>))"
proof (cases "sst_sessions (ui_sessions st) sid")
  case None
  then have "(ui_sessions st)\<lparr>sst_sessions := (sst_sessions (ui_sessions st))(sid := None)\<rparr> = ui_sessions st"
    by (simp add: fun_upd_idem)
  with None show ?thesis by (simp add: sessionIdentity_def sess_Get_def live_def deleteIdentity_def)
next
  case (Some s)
  then show ?thesis
    by (cases "expiredAt s now"; cases "ui_identities st sid") (simp_all add: sessionIdentity_def sess_Get_def live_def deleteIdentity_def)
qed

lemma sessionIdentity_result: "fst (sessionIdentity now sid st) = Inr i \<longleftrightarrow> signedIn (st, now) sid = Some i"
  by (auto simp: sessionIdentity_cases signedIn_def split: option.splits)

lemma identify_ok:
  "identify env cs ov = Inr i \<longleftrightarrow> (\<exists>items us. le_userSpaces env = Inr items \<and> TrimSpace (cl_email cs) \<noteq> '''' \<and>
     filter (\<lambda>v. us_owner (us_spec v) = TrimSpace (cl_email cs)) items = [us] \<and> ust_namespace (us_status us) \<noteq> '''' \<and>
     \<not> us_disabled (us_spec us) \<and> i = identityOf us (cl_email cs) ov)"
  by (auto simp: identify_def ResolveByEmail_def sessionIdentityFrom_def identityOf_def Let_def split: sum.splits list.splits if_splits)

lemma CompleteLogin_or:
  "(\<exists>e. CompleteLogin env now g req st = (Inl e, st)) \<or>
   (\<exists>p tok cs i. lf_provider env (cr_provider req) = Inr p \<and> validateCompleteLoginRequest now req = None \<and>
      pv_Exchange p (cr_code req) (lc_codeVerifier (cr_challenge req)) = Inr tok \<and>
      validateNonce p tok (lc_nonce (cr_challenge req)) = None \<and> pv_Claims p tok = Inr cs \<and>
      identify env cs (fst (roleFor (rolesOf env (cr_provider req)) (cl_groups cs))) = Inr i \<and>
      CompleteLogin env now g req st = openSession g now cs (cr_sessionTTL req) i st)"
  by (auto simp: CompleteLogin_def split: sum.splits option.splits)

lemma CompleteLogin_cases:
  obtains (refused) e where "CompleteLogin env now g req st = (Inl e, st)"
  | (opened) p tok cs i where "lf_provider env (cr_provider req) = Inr p" "validateCompleteLoginRequest now req = None"
      "pv_Exchange p (cr_code req) (lc_codeVerifier (cr_challenge req)) = Inr tok"
      "validateNonce p tok (lc_nonce (cr_challenge req)) = None" "pv_Claims p tok = Inr cs"
      "identify env cs (fst (roleFor (rolesOf env (cr_provider req)) (cl_groups cs))) = Inr i"
      "CompleteLogin env now g req st = openSession g now cs (cr_sessionTTL req) i st"
  using CompleteLogin_or [of env now g req st] by blast

lemma CompleteLocalLogin_or:
  "(\<exists>e. CompleteLocalLogin env now g u p ttl st = (Inl e, st)) \<or>
   (\<exists>verify lu i. le_verifyLocal env = Some verify \<and> verify u p = Inr lu \<and>
      identify env \<lparr>cl_email = lu_owner lu, cl_groups = []\<rparr> [] = Inr i \<and>
      CompleteLocalLogin env now g u p ttl st = openSession g now \<lparr>cl_email = lu_owner lu, cl_groups = []\<rparr> ttl (i\<lparr>si_localLogin := True\<rparr>) st)"
  by (auto simp: CompleteLocalLogin_def Let_def split: sum.splits option.splits)

lemma CompleteLocalLogin_cases:
  obtains (refused) e where "CompleteLocalLogin env now g u p ttl st = (Inl e, st)"
  | (opened) verify lu i where "le_verifyLocal env = Some verify" "verify u p = Inr lu"
      "identify env \<lparr>cl_email = lu_owner lu, cl_groups = []\<rparr> [] = Inr i"
      "CompleteLocalLogin env now g u p ttl st = openSession g now \<lparr>cl_email = lu_owner lu, cl_groups = []\<rparr> ttl (i\<lparr>si_localLogin := True\<rparr>) st"
  using CompleteLocalLogin_or [of env now g u p ttl st] by blast


lemma rowsOf_who: "map_option sr_who (rowsOf st now sid) = signedIn (st, now) sid"
  by (auto simp: rowsOf_def signedIn_def live_def expiredAt_def split: option.splits)

lemma rowsOf_later: "now \<le> now' \<Longrightarrow> rowsOf st now' = unexpired now' (rowsOf st now)"
  by (rule ext) (auto simp: rowsOf_def unexpired_def split: option.splits)

lemma rowsOf_unexpired: "unexpired now (rowsOf st now) = rowsOf st now"
  by (rule rowsOf_later [symmetric]) simp

lemma rowsOf_none: "rowsOf st now sid = None \<longleftrightarrow> \<not> live st now sid \<or> ui_identities st sid = None"
  using rowsOf_who [of st now sid] by (cases "rowsOf st now sid") (auto simp: signedIn_def split: if_splits dest: sym)

lemma rowsOf_some:
  "rowsOf st now sid = Some r \<longleftrightarrow> (\<exists>s. sst_sessions (ui_sessions st) sid = Some s \<and> ui_identities st sid = Some (sr_who r) \<and>
     as_expiresAt s = Some (sr_until r) \<and> now < sr_until r \<and> sr_window r = (if as_ttl s \<le> 0 then sst_ttl (ui_sessions st) else as_ttl s))"
  by (cases r) (auto simp: rowsOf_def split: option.splits)

text \<open>The rows depend on the sessions and the identities only, one by one.\<close>

lemma rowsOf_cong:
  assumes "sst_sessions (ui_sessions st') sid = sst_sessions (ui_sessions st) sid" "ui_identities st' sid = ui_identities st sid"
    and "sst_ttl (ui_sessions st') = sst_ttl (ui_sessions st)"
  shows "rowsOf st' now sid = rowsOf st now sid"
  by (simp only: rowsOf_def assms)

text \<open>What an event must show: its answer and its effect are those of the table.\<close>

definition matched :: "gotime \<Rightarrow> ('q, 'tok) uievent \<Rightarrow> uistate \<Rightarrow> bool" where
  "matched now ev st \<longleftrightarrow> (\<exists>m. table_do (sst_ttl (ui_sessions st)) now ev (fst (ui_do now ev st)) (rowsOf st now) m \<and>
     rowsOf (snd (ui_do now ev st)) (evEnd now ev) = unexpired (evEnd now ev) m) \<and>
     sst_ttl (ui_sessions (snd (ui_do now ev st))) = sst_ttl (ui_sessions st)"

lemma sessionIdentity_rows:
  "rowsOf (snd (sessionIdentity now sid st)) now = rowsOf st now"
  "sst_ttl (ui_sessions (snd (sessionIdentity now sid st))) = sst_ttl (ui_sessions st)"
proof -
  show "rowsOf (snd (sessionIdentity now sid st)) now = rowsOf st now"
  proof
    fix k
    show "rowsOf (snd (sessionIdentity now sid st)) now k = rowsOf st now k"
    proof (cases "live st now sid \<or> k \<noteq> sid")
      case True
      then show ?thesis by (intro rowsOf_cong) (auto simp: sessionIdentity_cases)
    next
      case False
      then have "rowsOf st now k = None" "rowsOf (snd (sessionIdentity now sid st)) now k = None"
        by (simp_all add: rowsOf_none) (simp add: sessionIdentity_cases)
      then show ?thesis by simp
    qed
  qed
qed (simp add: sessionIdentity_cases)

lemma sessionIdentity_rows_cases:
  obtains (gone) e st' where "sessionIdentity now sid st = (Inl e, st')" "rowsOf st now sid = None"
      "rowsOf st' now = rowsOf st now" "sst_ttl (ui_sessions st') = sst_ttl (ui_sessions st)"
  | (found) r where "sessionIdentity now sid st = (Inr (sr_who r), st)" "rowsOf st now sid = Some r"
proof (cases "rowsOf st now sid")
  case None
  then have "\<not> (\<exists>i. fst (sessionIdentity now sid st) = Inr i)"
    using rowsOf_who [of st now sid] by (simp add: sessionIdentity_result)
  then obtain e st' where e: "sessionIdentity now sid st = (Inl e, st')" by (metis fst_conv old.sum.exhaust surj_pair)
  then show ?thesis using gone [OF e None] sessionIdentity_rows [of now sid st] by simp
next
  case (Some r)
  then have "signedIn (st, now) sid = Some (sr_who r)" using rowsOf_who [of st now sid] by simp
  then have "sessionIdentity now sid st = (Inr (sr_who r), st)"
    by (auto simp: sessionIdentity_cases signedIn_def split: if_splits)
  then show ?thesis using found Some by blast
qed

lemma matched_lookup: "matched now (EvLookup sid) st"
  by (cases rule: sessionIdentity_rows_cases [of now sid st]) (simp_all add: matched_def rowsOf_unexpired)

lemma deleted_rows:
  "rowsOf (deleteIdentity sid st) now = (rowsOf st now)(sid := None)"
  by (auto simp: rowsOf_def deleteIdentity_def fun_eq_iff split: option.splits)

lemma Logout_rows: "rowsOf (deleteIdentity sid (st\<lparr>ui_sessions := sess_Delete (ui_sessions st) sid\<rparr>)) now = (rowsOf st now)(sid := None)"
  by (auto simp: rowsOf_def deleteIdentity_def sess_Delete_def fun_eq_iff split: option.splits)

lemma unexpired_drop: "unexpired now ((rowsOf st now)(sid := None)) = (rowsOf st now)(sid := None)"
  by (auto simp: unexpired_def rowsOf_def fun_eq_iff split: option.splits)

lemma matched_logout: "matched now (EvLogout sid) st"
proof (cases rule: sessionIdentity_rows_cases [of now sid st])
  case (gone e st')
  then have "(rowsOf st now)(sid := None) = rowsOf st now" by auto
  with gone show ?thesis by (simp add: matched_def Logout_def rowsOf_unexpired)
next
  case (found r)
  then show ?thesis
    by (simp add: matched_def Logout_def Logout_rows unexpired_drop) (simp add: deleteIdentity_def sess_Delete_def)
qed

lemma matched_onboarded: "matched now (EvOnboarded sid) st"
proof -
  have "rowsOf (MarkOnboardingCompleted sid st) now k = unexpired now ((rowsOf st now)(sid := map_option onboard (rowsOf st now sid))) k" for k
    by (cases "k = sid"; cases "ui_identities st sid"; cases "sst_sessions (ui_sessions st) k")
      (auto simp: MarkOnboardingCompleted_def storeIdentity_def rowsOf_def unexpired_def onboard_def split: option.splits)
  then have "rowsOf (MarkOnboardingCompleted sid st) now = unexpired now ((rowsOf st now)(sid := map_option onboard (rowsOf st now sid)))" ..
  moreover have "ui_sessions (MarkOnboardingCompleted sid st) = ui_sessions st"
    by (simp add: MarkOnboardingCompleted_def storeIdentity_def split: option.splits)
  ultimately show ?thesis by (simp add: matched_def)
qed

lemma tables_unchanged:
  "ui_sessions (snd (csrf_Ensure tok sid st)) = ui_sessions st \<and> ui_identities (snd (csrf_Ensure tok sid st)) = ui_identities st"
  "ui_sessions (csrf_Delete sid st) = ui_sessions st \<and> ui_identities (csrf_Delete sid st) = ui_identities st"
  "ui_sessions (challenge_Put name c st) = ui_sessions st \<and> ui_identities (challenge_Put name c st) = ui_identities st"
  "ui_sessions (snd (challenge_Take now name state st)) = ui_sessions st \<and> ui_identities (snd (challenge_Take now name state st)) = ui_identities st"
  by (auto simp: csrf_Ensure_def csrf_Delete_def challenge_Put_def challenge_Take_def Let_def split: option.splits sum.splits)

lemma rowsOf_tables: "ui_sessions st' = ui_sessions st \<and> ui_identities st' = ui_identities st \<Longrightarrow> rowsOf st' now = rowsOf st now"
  by (rule ext, rule rowsOf_cong) simp_all

lemma matched_tables:
  "matched now (EvCsrfEnsure tok sid) st" "matched now (EvCsrfDelete sid) st"
  "matched now (EvPut name c) st" "matched now (EvTake name state) st"
  by (simp_all add: matched_def rowsOf_unexpired tables_unchanged rowsOf_tables [OF tables_unchanged(1)] rowsOf_tables [OF tables_unchanged(2)]
      rowsOf_tables [OF tables_unchanged(3)] rowsOf_tables [OF tables_unchanged(4)])

text \<open>The second half of a mint, at \<open>now'\<close>, on the row that is still there.\<close>

lemma refreshMinted_other:
  "k \<noteq> sid \<Longrightarrow> rowsOf (snd (refreshMinted now' sid tok e st)) now k = rowsOf st now k"
  by (rule rowsOf_cong) (auto simp: refreshMinted_def sess_Refresh_def deleteIdentity_def Let_def split: option.splits)

lemma refreshMinted_ttl: "sst_ttl (ui_sessions (snd (refreshMinted now' sid tok e st))) = sst_ttl (ui_sessions st)"
  by (auto simp: refreshMinted_def sess_Refresh_def deleteIdentity_def Let_def split: option.splits)

lemma refreshMinted_ok:
  "fst (refreshMinted now' sid tok e st) = Inr tok' \<longleftrightarrow> tok' = tok \<and> tok \<noteq> '''' \<and> after e now' \<and> live st now' sid"
  by (cases "sst_sessions (ui_sessions st) sid"; cases e)
    (auto simp: refreshMinted_def sess_Refresh_def after_def live_def Let_def)

lemma refreshMinted_refused: "fst (refreshMinted now' sid tok e st) = Inl err \<Longrightarrow> ui_identities (snd (refreshMinted now' sid tok e st)) sid = None"
  by (auto simp: refreshMinted_def deleteIdentity_def split: prod.splits option.splits)

lemma refreshMinted_same:
  "rowsOf (snd (refreshMinted now' sid tok e st)) now' sid = unexpired now' ((rowsOf st now')(sid := Option.bind (rowsOf st now' sid) (renewed now' tok e))) sid"
proof (cases "fst (refreshMinted now' sid tok e st)")
  case (Inl err)
  then have "\<not> (tok \<noteq> '''' \<and> after e now' \<and> live st now' sid)"
    using refreshMinted_ok [of now' sid tok e st tok] by simp
  then have "Option.bind (rowsOf st now' sid) (renewed now' tok e) = None"
    using rowsOf_none [of st now' sid] by (cases "rowsOf st now' sid") (auto simp: renewed_def)
  with refreshMinted_refused [OF Inl] show ?thesis by (simp add: rowsOf_none unexpired_def)
next
  case (Inr x)
  then have ok: "tok \<noteq> ''''" "after e now'" "live st now' sid" by (simp_all add: refreshMinted_ok)
  then obtain s where s: "sst_sessions (ui_sessions st) sid = Some s" "\<not> expiredAt s now'" by (auto simp: live_def)
  let ?ttl = "if as_ttl s \<le> 0 then sst_ttl (ui_sessions st) else as_ttl s"
  have st': "snd (refreshMinted now' sid tok e st) = st\<lparr>ui_sessions := (ui_sessions st)\<lparr>sst_sessions := (sst_sessions (ui_sessions st))(sid \<mapsto>
      s\<lparr>as_token := tok, as_tokenExpiresAt := e, as_expiresAt := Some (now' + ?ttl)\<rparr>)\<rparr>\<rparr>"
    using ok s by (cases e) (simp_all add: refreshMinted_def sess_Refresh_def after_def Let_def)
  show ?thesis
    using ok s by (cases "ui_identities st sid")
      (auto simp: st' rowsOf_def unexpired_def renewed_def expiredAt_def split: option.splits)
qed

lemma refreshMinted_rows:
  "rowsOf (snd (refreshMinted now' sid tok e st)) now' =
     unexpired now' ((rowsOf st now')(sid := Option.bind (rowsOf st now' sid) (renewed now' tok e)))"
proof
  fix k
  have "k \<noteq> sid \<Longrightarrow> unexpired now' ((rowsOf st now')(sid := x)) k = rowsOf st now' k" for x
    using rowsOf_unexpired [of now' st] by (metis fun_upd_other unexpired_def)
  then show "rowsOf (snd (refreshMinted now' sid tok e st)) now' k =
      unexpired now' ((rowsOf st now')(sid := Option.bind (rowsOf st now' sid) (renewed now' tok e))) k"
    using refreshMinted_same refreshMinted_other by (cases "k = sid") simp_all
qed

lemma matched_minted: "matched now (EvMinted sid tok e) st"
  by (simp add: matched_def refreshMinted_rows refreshMinted_ttl)

text \<open>A mint as a whole is a lookup followed by that half.\<close>

lemma matched_mint:
  assumes "now \<le> now'"
  shows "matched now (EvMint env now' sid) st"
proof (cases rule: sessionIdentity_rows_cases [of now sid st])
  case (gone e st')
  then show ?thesis by (simp add: matched_def MintTokenForSession_def rowsOf_later [OF assms])
next
  case (found r)
  show ?thesis
  proof (cases "le_mint env (si_userSpaceNamespace (sr_who r)) SessionServiceAccountName")
    case (Inl e)
    with found show ?thesis by (simp add: matched_def MintTokenForSession_def rowsOf_later [OF assms])
  next
    case (Inr p)
    obtain tok e where p: "p = (tok, e)" by fastforce
    let ?m = "(rowsOf st now)(sid := renewed now' tok e r)"
    have later: "rowsOf st now' sid = (if now' < sr_until r then Some r else None)"
      by (simp add: rowsOf_later [OF assms] unexpired_def found(2))
    have rows: "rowsOf (snd (refreshMinted now' sid tok e st)) now' = unexpired now' ?m"
      unfolding refreshMinted_rows later by (auto simp: rowsOf_later [OF assms] unexpired_def renewed_def fun_eq_iff split: option.splits)
    have lv: "live st now' sid \<longleftrightarrow> now' < sr_until r"
      using rowsOf_none [of st now sid] rowsOf_none [of st now' sid] found(2) later by (auto split: if_splits)
    show ?thesis
    proof (cases "fst (refreshMinted now' sid tok e st)")
      case (Inl err)
      then have "\<not> (tok \<noteq> '''' \<and> after e now' \<and> live st now' sid)" using refreshMinted_ok [of now' sid tok e st tok] by simp
      then have n: "renewed now' tok e r = None" using lv by (auto simp: renewed_def)
      from Inl obtain st' where "refreshMinted now' sid tok e st = (Inl err, st')" by (metis surjective_pairing)
      with n rows refreshMinted_ttl [of now' sid tok e st] show ?thesis
        by (simp add: matched_def MintTokenForSession_def found Inr p)
    next
      case (Inr x)
      then have n: "x = tok" "renewed now' tok e r \<noteq> None" using lv by (simp_all add: refreshMinted_ok renewed_def)
      from Inr obtain st' where "refreshMinted now' sid tok e st = (Inr x, st')" by (metis surjective_pairing)
      with n rows refreshMinted_ttl [of now' sid tok e st] show ?thesis
        by (simp add: matched_def MintTokenForSession_def found \<open>le_mint env (si_userSpaceNamespace (sr_who r)) SessionServiceAccountName = Inr p\<close> p)
    qed
  qed
qed

text \<open>The two sign-ins: who it is, and the row that is added.\<close>

lemma identify_owner: "identify env cs ov = Inr i \<longleftrightarrow> (\<exists>us. ownerSpace env (cl_email cs) us \<and> i = identityOf us (cl_email cs) ov)"
  by (auto simp: identify_ok ownerSpace_def)

lemma ownerSpace_email: "ownerSpace env email us \<Longrightarrow> email \<noteq> ''''"
  using TrimSpace_Nil by (auto simp: ownerSpace_def)

lemma provider_opens:
  assumes "providerSignIn env now req i"
  shows "\<exists>cs. cl_email cs \<noteq> '''' \<and> CompleteLogin env now g req st = openSession g now cs (cr_sessionTTL req) i st"
proof -
  from assms obtain p tok cs us where c: "lf_provider env (cr_provider req) = Inr p" "cr_code req \<noteq> ''''" "cr_state req \<noteq> ''''"
      "after (lc_expiresAt (cr_challenge req)) now" "lc_state (cr_challenge req) = cr_state req"
      "pv_Exchange p (cr_code req) (lc_codeVerifier (cr_challenge req)) = Inr tok"
      "case pv_ValidateNonce p of None \<Rightarrow> True | Some v \<Rightarrow> v tok (lc_nonce (cr_challenge req)) = None" "pv_Claims p tok = Inr cs"
    and u: "ownerSpace env (cl_email cs) us" "i = identityOf us (cl_email cs) (fst (roleFor (rolesOf env (cr_provider req)) (cl_groups cs)))"
    unfolding providerSignIn_def by blast
  from u have "identify env cs (fst (roleFor (rolesOf env (cr_provider req)) (cl_groups cs))) = Inr i" by (auto simp: identify_owner)
  moreover have "validateCompleteLoginRequest now req = None" "validateNonce p tok (lc_nonce (cr_challenge req)) = None"
    using c by (auto simp: validateCompleteLoginRequest_def validateNonce_def lf_provider_def split: if_splits option.splits)
  ultimately show ?thesis using c ownerSpace_email [OF u(1)] by (intro exI [of _ cs]) (simp add: CompleteLogin_def)
qed

lemma provider_refuses:
  assumes "\<And>i. \<not> providerSignIn env now req i"
  shows "\<exists>e. CompleteLogin env now g req st = (Inl e, st)"
proof (cases rule: CompleteLogin_cases [of env now g req st])
  case (opened p tok cs i)
  have "validateCompleteLoginRequest now req = None \<longleftrightarrow> provider_Valid (cr_provider req) \<and> cr_code req \<noteq> '''' \<and> cr_state req \<noteq> '''' \<and>
      after (lc_expiresAt (cr_challenge req)) now \<and> lc_state (cr_challenge req) = cr_state req"
    by (simp add: validateCompleteLoginRequest_def)
  with opened have "providerSignIn env now req i"
    unfolding providerSignIn_def identify_owner validateNonce_def by (auto split: option.splits)
  with assms show ?thesis by blast
qed blast

lemma password_opens:
  assumes "passwordSignIn env u p i"
  shows "\<exists>cs. cl_email cs \<noteq> '''' \<and> CompleteLocalLogin env now g u p ttl st = openSession g now cs ttl i st"
proof -
  from assms obtain verify lu us where c: "le_verifyLocal env = Some verify" "verify u p = Inr lu"
    "ownerSpace env (lu_owner lu) us" "i = (identityOf us (lu_owner lu) '''')\<lparr>si_localLogin := True\<rparr>"
    unfolding passwordSignIn_def by blast
  then have "identify env \<lparr>cl_email = lu_owner lu, cl_groups = []\<rparr> '''' = Inr (identityOf us (lu_owner lu) '''')"
    by (auto simp: identify_owner)
  with c ownerSpace_email [OF c(3)] show ?thesis
    by (intro exI [of _ "\<lparr>cl_email = lu_owner lu, cl_groups = []\<rparr>"]) (simp add: CompleteLocalLogin_def)
qed

lemma password_refuses:
  assumes "\<And>i. \<not> passwordSignIn env u p i"
  shows "\<exists>e. CompleteLocalLogin env now g u p ttl st = (Inl e, st)"
proof (cases rule: CompleteLocalLogin_cases [of env now g u p ttl st])
  case (opened verify lu i)
  then have "passwordSignIn env u p (i\<lparr>si_localLogin := True\<rparr>)"
    unfolding passwordSignIn_def identify_owner by auto
  with assms show ?thesis by blast
qed blast

lemma openSession_fails: "\<exists>x. openSession (Inl e) now cs ttl i st = (Inl x, st)"
  by (simp add: openSession_def CreateWithTTL_def Let_def)

lemma openSession_opens:
  assumes "cl_email cs \<noteq> ''''"
  obtains st' where "openSession (Inr sid) now cs ttl i st = (Inr sid, st')"
    "rowsOf st' now = unexpired now ((rowsOf st now)(sid \<mapsto> newRow (sst_ttl (ui_sessions st)) now ttl i))"
    "sst_ttl (ui_sessions st') = sst_ttl (ui_sessions st)"
proof -
  obtain st' where st': "openSession (Inr sid) now cs ttl i st = (Inr sid, st')"
    using assms by (simp add: openSession_def CreateWithTTL_def Let_def)
  then have new: "rowsOf st' now sid = unexpired now [sid \<mapsto> newRow (sst_ttl (ui_sessions st)) now ttl i] sid"
    and ttl: "sst_ttl (ui_sessions st') = sst_ttl (ui_sessions st)"
    using assms by (auto simp: openSession_def CreateWithTTL_def Let_def storeIdentity_def rowsOf_def unexpired_def newRow_def)
  have old: "rowsOf st' now k = rowsOf st now k" if "k \<noteq> sid" for k
    by (rule rowsOf_cong) (use st' assms that in \<open>auto simp: openSession_def CreateWithTTL_def Let_def storeIdentity_def\<close>)
  have "rowsOf st' now k = unexpired now ((rowsOf st now)(sid \<mapsto> newRow (sst_ttl (ui_sessions st)) now ttl i)) k" for k
    using new old [of k] fun_cong [OF rowsOf_unexpired [of now st], of k] by (cases "k = sid") (simp_all add: unexpired_def)
  then have "rowsOf st' now = unexpired now ((rowsOf st now)(sid \<mapsto> newRow (sst_ttl (ui_sessions st)) now ttl i))" ..
  with that st' ttl show ?thesis by blast
qed

lemma matched_login: "matched now (EvLogin env g req) st"
proof (cases "\<exists>i. providerSignIn env now req i")
  case True
  then obtain i cs where i: "providerSignIn env now req i" "cl_email cs \<noteq> ''''"
    "CompleteLogin env now g req st = openSession g now cs (cr_sessionTTL req) i st" using provider_opens by blast
  show ?thesis
  proof (cases g)
    case (Inl e)
    then show ?thesis using openSession_fails [of e now cs "cr_sessionTTL req" i st] by (auto simp: matched_def Inl i(3) [unfolded Inl] rowsOf_unexpired)
  next
    case (Inr sid)
    obtain st' where "openSession (Inr sid) now cs (cr_sessionTTL req) i st = (Inr sid, st')"
      "rowsOf st' now = unexpired now ((rowsOf st now)(sid \<mapsto> newRow (sst_ttl (ui_sessions st)) now (cr_sessionTTL req) i))"
      "sst_ttl (ui_sessions st') = sst_ttl (ui_sessions st)"
      using openSession_opens [OF i(2)] by blast
    with i(1) Inr show ?thesis by (auto simp: matched_def i(3) [unfolded Inr])
  qed
next
  case False
  then obtain e where "CompleteLogin env now g req st = (Inl e, st)" using provider_refuses by blast
  with False show ?thesis by (simp add: matched_def rowsOf_unexpired)
qed

lemma matched_local: "matched now (EvLocalLogin env g u p ttl) st"
proof (cases "\<exists>i. passwordSignIn env u p i")
  case True
  then obtain i cs where i: "passwordSignIn env u p i" "cl_email cs \<noteq> ''''"
    "CompleteLocalLogin env now g u p ttl st = openSession g now cs ttl i st" using password_opens by blast
  show ?thesis
  proof (cases g)
    case (Inl e)
    then show ?thesis using openSession_fails [of e now cs ttl i st] by (auto simp: matched_def Inl i(3) [unfolded Inl] rowsOf_unexpired)
  next
    case (Inr sid)
    obtain st' where "openSession (Inr sid) now cs ttl i st = (Inr sid, st')"
      "rowsOf st' now = unexpired now ((rowsOf st now)(sid \<mapsto> newRow (sst_ttl (ui_sessions st)) now ttl i))"
      "sst_ttl (ui_sessions st') = sst_ttl (ui_sessions st)"
      using openSession_opens [OF i(2)] by blast
    with i(1) Inr show ?thesis by (auto simp: matched_def i(3) [unfolded Inr])
  qed
next
  case False
  then obtain e where "CompleteLocalLogin env now g u p ttl st = (Inl e, st)" using password_refuses by blast
  with False show ?thesis by (simp add: matched_def rowsOf_unexpired)
qed

text \<open>What a password that verifies comes to: a session for the UserSpace of its owner, if there is one to sign in to.\<close>

lemma local_login_outcome:
  assumes "le_verifyLocal env = Some verify" "verify u p = Inr lu"
  shows "case CompleteLocalLogin env now (Inr sid) u p ttl st of
      (Inr sid', st') \<Rightarrow> sid' = sid \<and> (\<exists>v. ownerSpace env (lu_owner lu) v \<and>
        ui_identities st' sid = Some ((identityOf v (lu_owner lu) '''')\<lparr>si_localLogin := True\<rparr>))
    | (Inl _, st') \<Rightarrow> st' = st \<and> (\<nexists>v. ownerSpace env (lu_owner lu) v)"
proof (cases "\<exists>v. ownerSpace env (lu_owner lu) v")
  case True
  then obtain v where v: "ownerSpace env (lu_owner lu) v" by blast
  then have "passwordSignIn env u p ((identityOf v (lu_owner lu) '''')\<lparr>si_localLogin := True\<rparr>)"
    unfolding passwordSignIn_def using assms by blast
  then obtain cs where cs: "cl_email cs \<noteq> ''''" "CompleteLocalLogin env now (Inr sid) u p ttl st =
      openSession (Inr sid) now cs ttl ((identityOf v (lu_owner lu) '''')\<lparr>si_localLogin := True\<rparr>) st"
    using password_opens by blast
  with v show ?thesis by (auto simp: openSession_def CreateWithTTL_def storeIdentity_def Let_def)
next
  case False
  then have "\<not> passwordSignIn env u p i" for i using assms by (auto simp: passwordSignIn_def)
  then obtain e where "CompleteLocalLogin env now (Inr sid) u p ttl st = (Inl e, st)" using password_refuses by blast
  with False show ?thesis by simp
qed

lemma ui_do_matched: "now \<le> evEnd now ev \<Longrightarrow> matched now ev st"
  by (cases ev) (simp_all add: matched_login matched_local matched_lookup matched_mint matched_minted matched_logout matched_onboarded matched_tables)

lemma ui_start_row: "ui_start x \<Longrightarrow> sign_start (signRun x)"
  by (auto simp: ui_start_def sign_start_def signRun_def rowsOf_def NewSessionStore_def DefaultSessionTTL_def Let_def fun_eq_iff)

lemma ui_step_row: "ui_step x x' \<Longrightarrow> sign_step (signRun x) (signRun x')"
proof (induction rule: ui_step.induct)
  case (1 x now ev ans st')
  from ui_do_matched [OF 1(2), of "ur_state x"] obtain m where m: "table_do (sst_ttl (ui_sessions (ur_state x))) now ev ans (rowsOf (ur_state x) now) m"
    "rowsOf st' (evEnd now ev) = unexpired (evEnd now ev) m" "sst_ttl (ui_sessions st') = sst_ttl (ui_sessions (ur_state x))"
    by (auto simp: matched_def 1(3))
  from sign_step.intros [of "signRun x" now ev ans m] 1(1,2) m show ?case
    by (simp add: signRun_def rowsOf_later [OF 1(1)])
qed

interpretation signin: implements "ui_start :: ('q, 'tok) uirun \<Rightarrow> bool" ui_step sign_start sign_step signRun
  by unfold_locales (auto simp: ui_start_row ui_step_row)

section \<open>Where a row comes from\<close>

text \<open>
  A log accounts for a row when it holds the sign-in that opened it, with no later sign-in under that name and no logout after it:
  the person is the one who signed in, their onboarding marked done if it was marked since, and the time left is one window,
  counted from the sign-in or from a mint since.
\<close>

fun renews :: "string \<Rightarrow> ('q, 'tok) uievent \<Rightarrow> bool" where
  "renews sid (EvMint env now' sid') \<longleftrightarrow> sid' = sid"
| "renews sid (EvMinted sid' tok e) \<longleftrightarrow> sid' = sid"
| "renews sid ev \<longleftrightarrow> False"

definition accounts :: "duration \<Rightarrow> (gotime \<times> ('q, 'tok) uievent \<times> uianswer) list \<Rightarrow> string \<Rightarrow> signrow \<Rightarrow> bool" where
  "accounts idle log sid r \<longleftrightarrow> (\<exists>pre t ev post r0. log = pre @ (t, ev, Opened sid) # post \<and> signsIn idle t ev sid r0 \<and>
     (\<forall>(t', ev', ans) \<in> set post. ans \<noteq> Opened sid \<and> (ev' = EvLogout sid \<longrightarrow> ans = Refused)) \<and>
     sr_who r = (if \<exists>(t', ev', ans) \<in> set post. ev' = EvOnboarded sid then sr_who (onboard r0) else sr_who r0) \<and> sr_window r = sr_window r0 \<and>
     (sr_until r = t + sr_window r \<or> (\<exists>(t', ev', ans) \<in> set post. renews sid ev' \<and> sr_until r = evEnd t' ev' + sr_window r)))"

lemma accounts_opened: "signsIn idle now ev sid r \<Longrightarrow> accounts idle (log @ [(now, ev, Opened sid)]) sid r"
  unfolding accounts_def
  by (intro exI [of _ log] exI [of _ now] exI [of _ ev] exI [of _ "[]"] exI [of _ r])
    (cases ev, auto simp: newRow_def Let_def)

lemma accounts_kept:
  assumes "accounts idle log sid r" "ans \<noteq> Opened sid" "ev = EvLogout sid \<longrightarrow> ans = Refused"
    and "r' = (if ev = EvOnboarded sid then onboard r else r) \<or> renews sid ev \<and> r' = r\<lparr>sr_until := evEnd now ev + sr_window r\<rparr>"
  shows "accounts idle (log @ [(now, ev, ans)]) sid r'"
proof -
  from assms(1) obtain pre t ev0 post r0 where l: "log = pre @ (t, ev0, Opened sid) # post" "signsIn idle t ev0 sid r0"
     "\<forall>(t', ev', ans) \<in> set post. ans \<noteq> Opened sid \<and> (ev' = EvLogout sid \<longrightarrow> ans = Refused)"
     "sr_who r = (if \<exists>(t', ev', ans) \<in> set post. ev' = EvOnboarded sid then sr_who (onboard r0) else sr_who r0)" "sr_window r = sr_window r0"
     "sr_until r = t + sr_window r \<or> (\<exists>(t', ev', ans) \<in> set post. renews sid ev' \<and> sr_until r = evEnd t' ev' + sr_window r)"
    unfolding accounts_def by blast
  have w: "sr_window r' = sr_window r" using assms(4) by (auto simp: onboard_def split: if_splits)
  have u: "sr_until r' = sr_until r \<or> renews sid ev \<and> sr_until r' = evEnd now ev + sr_window r" using assms(4) by (auto simp: onboard_def split: if_splits)
  have "sr_who r' = (if ev = EvOnboarded sid then sr_who (onboard r) else sr_who r)" using assms(4) by auto
  then have "sr_who r' = (if \<exists>(t', ev', ans) \<in> set (post @ [(now, ev, ans)]). ev' = EvOnboarded sid then sr_who (onboard r0) else sr_who r0)"
    using l(4) by (auto simp: onboard_def)
  moreover have "sr_until r' = t + sr_window r' \<or>
      (\<exists>(t', ev', ans) \<in> set (post @ [(now, ev, ans)]). renews sid ev' \<and> sr_until r' = evEnd t' ev' + sr_window r')"
    using l(6) u unfolding w by auto
  moreover have "\<forall>(t', ev', ans) \<in> set (post @ [(now, ev, ans)]). ans \<noteq> Opened sid \<and> (ev' = EvLogout sid \<longrightarrow> ans = Refused)"
    using l(3) assms(2,3) by auto
  moreover have "log @ [(now, ev, ans)] = pre @ (t, ev0, Opened sid) # (post @ [(now, ev, ans)])" using l(1) by simp
  moreover have "sr_window r' = sr_window r0" using w l(5) by simp
  ultimately show ?thesis
    unfolding accounts_def using l(2)
    by (intro exI [of _ pre] exI [of _ t] exI [of _ ev0] exI [of _ "post @ [(now, ev, ans)]"] exI [of _ r0] conjI)
qed

lemma renewed_some: "renewed now tok e r = Some r' \<Longrightarrow> r' = r\<lparr>sr_until := now + sr_window r\<rparr>"
  by (simp add: renewed_def split: if_splits)

text \<open>One event: a row is new, or it was there and is as before but for the onboarding mark or the time.\<close>

lemma table_do_row:
  assumes "table_do idle now ev ans m m'" "m' sid = Some r'"
  shows "signsIn idle now ev sid r' \<and> ans = Opened sid \<or>
    (\<exists>r. m sid = Some r \<and> ans \<noteq> Opened sid \<and> (ev = EvLogout sid \<longrightarrow> ans = Refused) \<and>
       (r' = (if ev = EvOnboarded sid then onboard r else r) \<or> renews sid ev \<and> r' = r\<lparr>sr_until := evEnd now ev + sr_window r\<rparr>))"
proof (cases ev)
  case (EvLogin env g req)
  with assms show ?thesis by (auto split: if_splits)
next
  case (EvLocalLogin env g u p ttl)
  with assms show ?thesis by (auto split: if_splits)
next
  case (EvMint env now' sid')
  with assms show ?thesis by (auto split: option.splits sum.splits if_splits dest: renewed_some)
next
  case (EvMinted sid' tok e)
  with assms show ?thesis by (auto simp: Option.bind_eq_Some_conv split: if_splits dest: renewed_some)
qed (use assms in \<open>auto split: option.splits if_splits\<close>)

definition accounted :: "('q, 'tok) signrun \<Rightarrow> bool" where
  "accounted y \<longleftrightarrow> (\<forall>sid r. sg_table y sid = Some r \<longrightarrow> accounts (sg_idle y) (sg_log y) sid r)"

lemma unexpired_some: "unexpired now m sid = Some r \<longleftrightarrow> m sid = Some r \<and> now < sr_until r"
  by (auto simp: unexpired_def split: option.splits)

interpretation signed: preserved "sign_start :: ('q, 'tok) signrun \<Rightarrow> bool" sign_step accounted
proof
  fix y y' :: "('q, 'tok) signrun"
  assume "accounted y" "sign_step y y'"
  from this(2,1) show "accounted y'"
  proof (induction rule: sign_step.induct)
    case (1 y now ev ans m)
    have "accounts (sg_idle y) (sg_log y @ [(now, ev, ans)]) sid r'" if r': "m sid = Some r'" for sid r'
      using table_do_row [OF 1(3) r']
    proof (elim disjE exE conjE)
      fix r assume "unexpired now (sg_table y) sid = Some r"
      then have "accounts (sg_idle y) (sg_log y) sid r" using 1(4) by (simp add: accounted_def unexpired_some)
      moreover assume "ans \<noteq> Opened sid" "ev = EvLogout sid \<longrightarrow> ans = Refused"
      moreover assume "r' = (if ev = EvOnboarded sid then onboard r else r)"
      ultimately show ?thesis by (blast intro: accounts_kept)
    next
      fix r assume "unexpired now (sg_table y) sid = Some r"
      then have "accounts (sg_idle y) (sg_log y) sid r" using 1(4) by (simp add: accounted_def unexpired_some)
      moreover assume "ans \<noteq> Opened sid" "ev = EvLogout sid \<longrightarrow> ans = Refused"
      moreover assume "renews sid ev" "r' = r\<lparr>sr_until := evEnd now ev + sr_window r\<rparr>"
      ultimately show ?thesis by (blast intro: accounts_kept)
    qed (auto intro: accounts_opened)
    then show ?case by (simp add: accounted_def unexpired_some)
  qed
qed (simp add: accounted_def sign_start_def)

section \<open>Properties\<close>

text \<open>
  (C3) The sign-in machinery implements the table: whatever events come, in whatever order, and however the configuration and
  the UserSpaces change in between, the table machine can go through the same events with the same answers, and its table is
  then the sessions that the process honours.
\<close>

theorem signin_refined:
  assumes "reach ui_start ui_step x" and "ur_clock x \<le> now"
  shows "reach sign_start sign_step (signRun x) \<and> sg_log (signRun x) = ur_log x \<and>
    fst (sessionIdentity now sid (ur_state x)) =
      (case unexpired now (sg_table (signRun x)) sid of
         Some r \<Rightarrow> Inr (sr_who r)
       | None \<Rightarrow> Inl (if live (ur_state x) now sid then IdentityMissing else SessionGone))"
proof -
  have "sg_log (signRun x) = ur_log x" "unexpired now (sg_table (signRun x)) = rowsOf (ur_state x) now"
    by (simp_all add: signRun_def rowsOf_later [OF assms(2)])
  moreover have "fst (sessionIdentity now sid (ur_state x)) = (case rowsOf (ur_state x) now sid of
       Some r \<Rightarrow> Inr (sr_who r) | None \<Rightarrow> Inl (if live (ur_state x) now sid then IdentityMissing else SessionGone))"
    by (cases "rowsOf (ur_state x) now sid")
      (auto simp: sessionIdentity_cases rowsOf_none rowsOf_some live_def expiredAt_def split: option.splits)
  ultimately show ?thesis using signin.refines [OF assms(1)] by simp
qed

text \<open>
  (C9) A browser session is only ever honoured as the person who signed in to it: the log of the process holds the sign-in
  that answered with its name.
\<close>

theorem identity_entitled:
  assumes "reach ui_start ui_step x" and "ur_clock x \<le> now" and "fst (sessionIdentity now sid (ur_state x)) = Inr i"
  shows "\<exists>pre t ev post r0. ur_log x = pre @ (t, ev, Opened sid) # post \<and>
    ((\<exists>env g req i0. ev = EvLogin env g req \<and> providerSignIn env t req i0 \<and> r0 = newRow (sst_ttl (ui_sessions (ur_state x))) t (cr_sessionTTL req) i0) \<or>
     (\<exists>env g u p ttl i0. ev = EvLocalLogin env g u p ttl \<and> passwordSignIn env u p i0 \<and> r0 = newRow (sst_ttl (ui_sessions (ur_state x))) t ttl i0)) \<and>
    (\<forall>(t', ev', ans) \<in> set post. ans \<noteq> Opened sid \<and> (ev' = EvLogout sid \<longrightarrow> ans = Refused)) \<and>
    i = (if \<exists>(t', ev', ans) \<in> set post. ev' = EvOnboarded sid then (sr_who r0)\<lparr>si_onboardingPending := False\<rparr> else sr_who r0) \<and>
    (now < t + sr_window r0 \<or> (\<exists>(t', ev', ans) \<in> set post. renews sid ev' \<and> now < evEnd t' ev' + sr_window r0))"
proof -
  let ?idle = "sst_ttl (ui_sessions (ur_state x))"
  from assms(3) obtain r where r: "rowsOf (ur_state x) now sid = Some r" "i = sr_who r"
    using rowsOf_who [of "ur_state x" now sid] by (auto simp: sessionIdentity_result)
  then have "sg_table (signRun x) sid = Some r" "now < sr_until r"
    by (simp_all add: rowsOf_later [OF assms(2)] unexpired_some signRun_def)
  moreover have "accounted (signRun x)" using signed.inv_reach [OF signin.refines [OF assms(1)]] .
  ultimately have "accounts ?idle (ur_log x) sid r" by (simp add: accounted_def signRun_def)
  then obtain pre t ev post r0 where a: "ur_log x = pre @ (t, ev, Opened sid) # post" "signsIn ?idle t ev sid r0"
     "\<forall>(t', ev', ans) \<in> set post. ans \<noteq> Opened sid \<and> (ev' = EvLogout sid \<longrightarrow> ans = Refused)"
     "sr_who r = (if \<exists>(t', ev', ans) \<in> set post. ev' = EvOnboarded sid then sr_who (onboard r0) else sr_who r0)" "sr_window r = sr_window r0"
     "sr_until r = t + sr_window r \<or> (\<exists>(t', ev', ans) \<in> set post. renews sid ev' \<and> sr_until r = evEnd t' ev' + sr_window r)"
    unfolding accounts_def by blast
  from a(2) have "(\<exists>env g req i0. ev = EvLogin env g req \<and> providerSignIn env t req i0 \<and> r0 = newRow ?idle t (cr_sessionTTL req) i0) \<or>
     (\<exists>env g u p ttl i0. ev = EvLocalLogin env g u p ttl \<and> passwordSignIn env u p i0 \<and> r0 = newRow ?idle t ttl i0)"
    by (cases ev) auto
  moreover have "i = (if \<exists>(t', ev', ans) \<in> set post. ev' = EvOnboarded sid then (sr_who r0)\<lparr>si_onboardingPending := False\<rparr> else sr_who r0)"
    using a(4) r(2) by (simp add: onboard_def)
  moreover have "now < t + sr_window r0 \<or> (\<exists>(t', ev', ans) \<in> set post. renews sid ev' \<and> now < evEnd t' ev' + sr_window r0)"
    using a(5,6) \<open>now < sr_until r\<close> by fastforce
  ultimately show ?thesis using a(1,3) by blast
qed

text \<open>
  (C10) A provider login succeeds exactly when it should: for a configured provider, a code, and a state
  that is the one of an unexpired challenge, whose code verifier the provider accepts and whose nonce
  its token carries, with claims whose email owns exactly one UserSpace, enabled and provisioned.
\<close>

theorem login_succeeds_exactly:
  "fst (CompleteLogin env now (Inr sid) req st) = Inr sid \<longleftrightarrow>
   (\<exists>p tok cs items us. lf_provider env (cr_provider req) = Inr p \<and> cr_code req \<noteq> '''' \<and> cr_state req \<noteq> '''' \<and>
      after (lc_expiresAt (cr_challenge req)) now \<and> lc_state (cr_challenge req) = cr_state req \<and>
      pv_Exchange p (cr_code req) (lc_codeVerifier (cr_challenge req)) = Inr tok \<and>
      (case pv_ValidateNonce p of None \<Rightarrow> True | Some v \<Rightarrow> v tok (lc_nonce (cr_challenge req)) = None) \<and> pv_Claims p tok = Inr cs \<and>
      le_userSpaces env = Inr items \<and> TrimSpace (cl_email cs) \<noteq> '''' \<and>
      filter (\<lambda>v. us_owner (us_spec v) = TrimSpace (cl_email cs)) items = [us] \<and>
      \<not> us_disabled (us_spec us) \<and> ust_namespace (us_status us) \<noteq> '''')" (is "?l \<longleftrightarrow> ?r")
proof
  assume ?l
  show ?r
  proof (cases rule: CompleteLogin_cases [of env now "Inr sid" req st])
    case (opened p tok cs i)
    then show ?thesis
      by (auto simp: identify_ok validateNonce_def validateCompleteLoginRequest_def split: if_splits option.splits intro!: exI [of _ p] exI [of _ tok] exI [of _ cs])
  qed (use \<open>?l\<close> in simp)
next
  assume ?r
  then obtain p tok cs items us where r: "lf_provider env (cr_provider req) = Inr p" "cr_code req \<noteq> ''''" "cr_state req \<noteq> ''''"
      "after (lc_expiresAt (cr_challenge req)) now" "lc_state (cr_challenge req) = cr_state req"
      "pv_Exchange p (cr_code req) (lc_codeVerifier (cr_challenge req)) = Inr tok"
      "case pv_ValidateNonce p of None \<Rightarrow> True | Some v \<Rightarrow> v tok (lc_nonce (cr_challenge req)) = None" "pv_Claims p tok = Inr cs"
      "le_userSpaces env = Inr items" "TrimSpace (cl_email cs) \<noteq> ''''"
      "filter (\<lambda>v. us_owner (us_spec v) = TrimSpace (cl_email cs)) items = [us]"
      "\<not> us_disabled (us_spec us)" "ust_namespace (us_status us) \<noteq> ''''" by blast
  let ?o = "fst (roleFor (rolesOf env (cr_provider req)) (cl_groups cs))"
  have "identify env cs ?o = Inr (identityOf us (cl_email cs) ?o)" using r(9-13) unfolding identify_ok by blast
  moreover have "validateCompleteLoginRequest now req = None" "validateNonce p tok (lc_nonce (cr_challenge req)) = None"
    using r by (auto simp: validateCompleteLoginRequest_def validateNonce_def lf_provider_def split: if_splits option.splits)
  moreover have "cl_email cs \<noteq> ''''" using r(10) TrimSpace_Nil by metis
  ultimately show ?l using r by (simp add: CompleteLogin_def openSession_def CreateWithTTL_def Let_def)
qed

text \<open>
  A login through an OpenID Connect provider is bound to its challenge: the code was exchanged with
  the verifier of that challenge, the identity is the email, or for want of one the preferred
  username, of an ID token that the provider's keys verify, and that token carries the nonce of that
  challenge.
\<close>

theorem oidc_login_bound:
  assumes "lf_provider env (cr_provider req) = Inr (oidcProvider lib)" and "CompleteLogin env now g req st = (Inr sid, st')"
  shows "\<exists>tok raw identity cs. ol_exchange lib (cr_code req) (lc_codeVerifier (cr_challenge req)) = Inr tok \<and>
    ol_idToken lib tok = Some raw \<and> ol_verify lib raw = Inr (lc_nonce (cr_challenge req), identity) \<and>
    emailFromIDTokenClaims identity = Inr (cl_email cs) \<and> cl_groups cs = oi_groups identity \<and>
    map_option as_claims (sst_sessions (ui_sessions st') sid) = Some cs \<and> map_option si_email (ui_identities st' sid) = Some (cl_email cs)"
proof (cases rule: CompleteLogin_cases [of env now g req st])
  case (opened p tok cs i)
  from opened(1) assms(1) have p: "p = oidcProvider lib" by simp
  have "si_email i = cl_email cs" using opened(6) by (auto simp: identify_ok identityOf_def)
  then have "map_option as_claims (sst_sessions (ui_sessions st') sid) = Some cs \<and> map_option si_email (ui_identities st' sid) = Some (cl_email cs)"
    using assms(2) opened(7) by (auto simp: openSession_def CreateWithTTL_def storeIdentity_def Let_def split: sum.splits prod.splits if_splits)
  moreover from opened(3-5) obtain raw identity where "ol_exchange lib (cr_code req) (lc_codeVerifier (cr_challenge req)) = Inr tok"
    "ol_idToken lib tok = Some raw" "ol_verify lib raw = Inr (lc_nonce (cr_challenge req), identity)"
    "emailFromIDTokenClaims identity = Inr (cl_email cs)" "cl_groups cs = oi_groups identity"
    by (auto simp: p oidcProvider_def oidc_Claims_def validateNonce_def oidc_ValidateNonce_def rawIDTokenFrom_def
        split: option.splits sum.splits if_splits)
  ultimately show ?thesis by blast
qed (use assms(2) in simp)

text \<open>
  Local and external sign-ins cannot be mixed up: a session opened with a password is marked as such
  and one opened through a provider is not, and a password session never takes a role from groups.
\<close>

theorem login_kind_recorded:
  "(CompleteLogin env now g req st = (Inr sid, st') \<longrightarrow> map_option si_localLogin (ui_identities st' sid) = Some False) \<and>
   (CompleteLocalLogin env now g u p ttl st = (Inr sid, st') \<longrightarrow>
      (\<exists>items us. le_userSpaces env = Inr items \<and> us \<in> set items \<and>
         map_option (\<lambda>i. (si_localLogin i, si_role i)) (ui_identities st' sid) = Some (True, EffectiveRole (us_spec us))))"
proof (intro conjI impI)
  assume "CompleteLogin env now g req st = (Inr sid, st')"
  then show "map_option si_localLogin (ui_identities st' sid) = Some False"
    by (cases rule: CompleteLogin_cases [of env now g req st])
      (auto simp: openSession_def CreateWithTTL_def storeIdentity_def Let_def identify_ok identityOf_def split: sum.splits prod.splits if_splits)
next
  assume l: "CompleteLocalLogin env now g u p ttl st = (Inr sid, st')"
  then obtain lu :: localuser and i where i: "identify env \<lparr>cl_email = lu_owner lu, cl_groups = []\<rparr> [] = Inr i"
    and o': "openSession g now \<lparr>cl_email = lu_owner lu, cl_groups = []\<rparr> ttl (i\<lparr>si_localLogin := True\<rparr>) st = (Inr sid, st')"
  proof (cases rule: CompleteLocalLogin_cases [of env now g u p ttl st])
    case (opened verify lu i)
    show ?thesis by (rule that [OF opened(3)]) (use opened(4) l in simp)
  qed simp
  from i obtain items us where us: "le_userSpaces env = Inr items" "i = identityOf us (lu_owner lu) []"
    "filter (\<lambda>v. us_owner (us_spec v) = TrimSpace (lu_owner lu)) items = [us]" by (auto simp: identify_ok)
  then have "us \<in> set (filter (\<lambda>v. us_owner (us_spec v) = TrimSpace (lu_owner lu)) items)" by simp
  then have "us \<in> set items" by simp
  with us o' show "\<exists>items us. le_userSpaces env = Inr items \<and> us \<in> set items \<and>
      map_option (\<lambda>i. (si_localLogin i, si_role i)) (ui_identities st' sid) = Some (True, EffectiveRole (us_spec us))"
    by (auto simp: openSession_def CreateWithTTL_def storeIdentity_def Let_def identityOf_def split: sum.splits prod.splits if_splits)
qed

section \<open>Witnesses\<close>

text \<open>The owner of one UserSpace signs in through a provider whose tokens are strings.\<close>

definition demo_oidc :: "string oidclib" where
  "demo_oidc = \<lparr>ol_authCodeURL = (\<lambda>st _. ''https://idp/?state='' @ st), ol_s256 = (\<lambda>v. v), ol_exchange = (\<lambda>code v. Inr code),
     ol_idToken = (\<lambda>tok. Some tok), ol_verify = (\<lambda>raw. Inr (raw, \<lparr>oi_email = ''ana@x.io'', oi_preferredUsername = '''', oi_groups = [''devs'']\<rparr>))\<rparr>"

definition demo_env :: "(int, string) login_env" where
  "demo_env = \<lparr>le_providers = [''keycloak'' \<mapsto> oidcProvider demo_oidc], le_groupRoles = [''keycloak'' \<mapsto> \<lparr>gr_adminGroups = [''devs''], gr_userGroups = []\<rparr>],
     le_challengeTTL = 300, le_userSpaces = Inr [demo_us], le_verifyLocal = Some (\<lambda>u p. Inr \<lparr>lu_secretName = ''s'', lu_username = u, lu_owner = ''ana@x.io''\<rparr>),
     le_mint = (\<lambda>ns sa. Inr (''token'', Some 900))\<rparr>"

definition demo_request :: completerequest where
  "demo_request = \<lparr>cr_provider = ''keycloak'', cr_code = ''n1'', cr_state = ''s1'',
     cr_challenge = \<lparr>lc_state = ''s1'', lc_nonce = ''n1'', lc_expiresAt = Some 300, lc_codeVerifier = ''v1''\<rparr>, cr_sessionTTL = 100\<rparr>"

definition demo_uistate :: uistate where
  "demo_uistate = \<lparr>ui_sessions = NewSessionStore 0, ui_identities = Map.empty, ui_csrf = Map.empty, ui_challenges = Map.empty\<rparr>"

lemmas demo_login_defs = demo_env_def demo_request_def demo_uistate_def demo_oidc_def demo_us_def CompleteLogin_def lf_provider_def
  provider_Valid_def reg_Get_def validateCompleteLoginRequest_def after_def oidcProvider_def validateNonce_def oidc_ValidateNonce_def
  rawIDTokenFrom_def oidc_Claims_def emailFromIDTokenClaims_def identify_def ResolveByEmail_def sessionIdentityFrom_def
  roleFor_def rolesOf_def anyGroupMatches_def openSession_def CreateWithTTL_def storeIdentity_def NewSessionStore_def
  DefaultSessionTTL_def Let_def

definition demo_signed :: uistate where
  "demo_signed = snd (CompleteLogin demo_env 10 (Inr ''sid'') demo_request demo_uistate)"

lemma demo_trims: "TrimSpace ''n1'' = ''n1''" "TrimSpace ''ana@x.io'' = ''ana@x.io''"
  by code_simp+

lemma demo_login: "CompleteLogin demo_env 10 (Inr ''sid'') demo_request demo_uistate = (Inr ''sid'', demo_signed)"
  unfolding demo_signed_def by (simp add: demo_login_defs demo_trims)

definition demo_identity :: sessionidentity where
  "demo_identity = \<lparr>si_email = ''ana@x.io'', si_userSpaceName = ''ana'', si_userSpaceNamespace = ''dwpk-ana'', si_role = ''admin'',
     si_onboardingPending = True, si_localLogin = False\<rparr>"

lemma demo_signed_in: "signedIn (demo_signed, 10) ''sid'' = Some demo_identity"
  unfolding demo_signed_def
  by (simp add: demo_login_defs demo_trims signedIn_def live_def expiredAt_def demo_identity_def meta0_def UserSpaceRoleAdmin_def)

definition demo_run :: "(int, string) uirun" where
  "demo_run = \<lparr>ur_state = demo_signed, ur_clock = 10, ur_log = [(10, EvLogin demo_env (Inr ''sid'') demo_request, Opened ''sid'')]\<rparr>"

lemma demo_run_reach: "reach ui_start ui_step demo_run"
proof -
  let ?x = "\<lparr>ur_state = demo_uistate, ur_clock = 0, ur_log = []\<rparr> :: (int, string) uirun"
  have "reach ui_start ui_step ?x" by (rule reach_start) (auto simp: ui_start_def demo_uistate_def)
  moreover have "ui_step ?x demo_run"
    using ui_step.intros [of ?x 10 "EvLogin demo_env (Inr ''sid'') demo_request" "Opened ''sid''" demo_signed] demo_login
    by (simp add: demo_run_def)
  ultimately show ?thesis by (rule reach_next)
qed

lemma demo_rows: "rowsOf demo_signed 10 ''sid'' = Some \<lparr>sr_who = demo_identity, sr_window = 100, sr_until = 110\<rparr>"
  unfolding demo_signed_def
  by (simp add: demo_login_defs demo_trims rowsOf_def demo_identity_def meta0_def UserSpaceRoleAdmin_def)

lemma demo_served: "fst (sessionIdentity 50 ''sid'' demo_signed) = Inr demo_identity"
  using rowsOf_later [of 10 50 demo_signed] rowsOf_who [of demo_signed 50 "''sid''"] by (simp add: sessionIdentity_result unexpired_def demo_rows)

theorem signin_refined_witness:
  "reach sign_start sign_step (signRun demo_run) \<and> fst (sessionIdentity 50 ''sid'' demo_signed) = Inr demo_identity \<and>
   fst (sessionIdentity 110 ''sid'' demo_signed) = Inl SessionGone"
proof -
  have "demo_run = \<lparr>ur_state = demo_signed, ur_clock = 10, ur_log = ur_log demo_run\<rparr>" "ur_clock demo_run = 10" "ur_state demo_run = demo_signed"
    by (simp_all add: demo_run_def)
  moreover have "sg_table (signRun demo_run) ''sid'' = Some \<lparr>sr_who = demo_identity, sr_window = 100, sr_until = 110\<rparr>"
    by (simp add: signRun_def demo_run_def demo_rows)
  moreover have "\<not> live demo_signed 110 ''sid''"
    using demo_rows by (auto simp: rowsOf_some live_def expiredAt_def)
  ultimately show ?thesis
    using signin_refined [OF demo_run_reach, of 50 "''sid''"] signin_refined [OF demo_run_reach, of 110 "''sid''"]
    by (simp add: unexpired_def)
qed

theorem identity_entitled_witness: "providerSignIn demo_env 10 demo_request demo_identity"
proof -
  have x: "ur_clock demo_run \<le> 50" "fst (sessionIdentity 50 ''sid'' (ur_state demo_run)) = Inr demo_identity"
    using demo_served by (simp_all add: demo_run_def)
  have "ur_log demo_run = pre @ y # post \<longleftrightarrow> pre = [] \<and> y = (10, EvLogin demo_env (Inr ''sid'') demo_request, Opened ''sid'') \<and> post = []" for pre y post
    by (auto simp: demo_run_def Cons_eq_append_conv)
  with identity_entitled [OF demo_run_reach x] show ?thesis by (auto simp: newRow_def Let_def)
qed

theorem oidc_login_bound_witness:
  "\<exists>tok raw identity. ol_exchange demo_oidc ''n1'' ''v1'' = Inr tok \<and> ol_verify demo_oidc raw = Inr (''n1'', identity)"
proof -
  have "lf_provider demo_env (cr_provider demo_request) = Inr (oidcProvider demo_oidc)"
    by (simp add: lf_provider_def demo_env_def demo_request_def provider_Valid_def reg_Get_def)
  from oidc_login_bound [OF this demo_login] show ?thesis by (auto simp: demo_request_def)
qed

theorem login_kind_recorded_witness: "map_option si_localLogin (ui_identities demo_signed ''sid'') = Some False"
  using login_kind_recorded [of demo_env 10 "Inr ''sid''" demo_request demo_uistate "''sid''" demo_signed] demo_login by blast

end
