(* ===== verification/UiServer.thy ===== *)
theory UiServer
  imports LoginFlow
begin

text \<open>
  The request side of the web interface: requests and responses, the base path, cookies and redirects, the two
  authentication middlewares with their CSRF check, signing in and out, and bearer tokens
  (\<^verbatim>\<open>src/internal/ui/middleware.go\<close>, \<^verbatim>\<open>login.go\<close>, \<^verbatim>\<open>basepath.go\<close>, \<^verbatim>\<open>api_middleware.go\<close>, \<^verbatim>\<open>error.go\<close>, \<^verbatim>\<open>request_context.go\<close>
  and the sign-in handlers of \<^verbatim>\<open>api.go\<close>).

  A request carries what the handlers read of it, already decoded by \<^verbatim>\<open>net/http\<close>: cookies, headers, query, the form or the
  error of parsing it. A handler is a function of the server's configuration, the random values and the clock of the
  request, the request and the state: the tables of the process and the cluster. A middleware answers itself or passes the
  session on. What a page shows is kept only as far as it depends on the outcome.
\<close>

section \<open>Requests and responses\<close>

record httpreq =
  rq_method :: string
  rq_cookies :: "string \<rightharpoonup> string"
  rq_header :: "string \<Rightarrow> string"
  rq_query :: "string \<Rightarrow> string"
  rq_form :: "string + (string \<Rightarrow> string)"
  rq_multipart :: "string + (string \<Rightarrow> string)"
  rq_path :: "string \<Rightarrow> string"
  rq_uri :: string
  rq_host :: string
  rq_tls :: bool

datatype uierr = ApiError nat string | FlowErr flowerr | KubeErr apierr | TokErr tokerr | UserErr lusererr | ResetErr reseterr | CsrfErr string | OtherErr string

record cookie =
  ck_name :: string
  ck_value :: string
  ck_path :: string
  ck_expires :: gotime
  ck_delete :: bool
  ck_httpOnly :: bool
  ck_secure :: bool
  ck_sameSite :: string

text \<open>A message on a page: none, a text of the code, or the text of an error.\<close>

datatype message = NoNote | NoteText string | NoteErr uierr

datatype page =
    NoPage | ErrorPage uierr | LoginPage string string | ResetPage string bool message | ResetLinkPage string string gotime
  | PeoplePage message | ProfilePage message string | TokenJSON string string string | TokensJSON "(string \<times> string) list"
  | SessionJSON string string string string string | UserJSON localuser | UsersJSON "localuser list" | MembershipJSON string string bool

record response =
  rs_status :: nat
  rs_location :: string
  rs_cookies :: "cookie list"
  rs_csrf :: string
  rs_page :: page

definition respond :: "nat \<Rightarrow> page \<Rightarrow> response" where
  "respond status p = \<lparr>rs_status = status, rs_location = '''', rs_cookies = [], rs_csrf = '''', rs_page = p\<rparr>"

definition redirectTo :: "nat \<Rightarrow> string \<Rightarrow> response" where
  "redirectTo status target = \<lparr>rs_status = status, rs_location = target, rs_cookies = [], rs_csrf = '''', rs_page = NoPage\<rparr>"

definition withCookie :: "cookie \<Rightarrow> response \<Rightarrow> response" where
  "withCookie c r = r\<lparr>rs_cookies := c # rs_cookies r\<rparr>"

section \<open>The server\<close>

record reqsession =
  rs_sessionID :: string
  rs_identity :: sessionidentity
  rs_token :: string
  rs_csrfToken :: string

record membership =
  mb_name :: string
  mb_role :: string
  mb_disabled :: bool

record 's svstate =
  st_ui :: uistate
  st_cluster :: 's

text \<open>
  The configuration, with what the client under a caller's token answers. \<open>sv_code\<close> is the HTTP code of an API server
  error that is told apart only by its message, \<open>sv_profileReads\<close> the first error among the reads that the profile page needs.
\<close>

record ('q, 'tok, 's) uiserver =
  sv_login :: "'s \<Rightarrow> ('q, 'tok) login_env"
  sv_providers :: "string list"
  sv_basePath :: string
  sv_sessionTTL :: duration
  sv_cookieSecure :: bool
  sv_support :: string
  sv_apiTokens :: "'s sec_client option"
  sv_tokenMinter :: "(string \<Rightarrow> string \<Rightarrow> string + string \<times> gotime option) option"
  sv_localUsers :: "'s sec_client option"
  sv_passwordResets :: "'s sec_client option"
  sv_lib :: authlib
  sv_uc :: ucd
  sv_code :: "string \<Rightarrow> nat"
  sv_forToken :: "string \<Rightarrow> string option"
  sv_listUserSpaces :: "string \<Rightarrow> 's \<Rightarrow> apierr + 'q userspace list"
  sv_canI :: "string \<Rightarrow> string \<Rightarrow> string \<Rightarrow> string \<Rightarrow> 's \<Rightarrow> apierr + bool"
  sv_profileReads :: "reqsession \<Rightarrow> 's \<Rightarrow> uierr option"
  sv_patchMembership :: "string \<Rightarrow> membership \<Rightarrow> 's \<Rightarrow> apierr option \<times> 's"

text \<open>The clock and the random values of one request; \<open>rn_now'\<close> is the time after the API server minted a token.\<close>

record reqrandom =
  rn_now :: gotime
  rn_now' :: gotime
  rn_sid :: "string + string"
  rn_csrf :: "string + string"
  rn_state :: "string + string"
  rn_nonce :: "string + string"
  rn_verifier :: string
  rn_uuid :: "string + string"
  rn_reset :: "string + string"
  rn_salt :: string

definition onUi :: "(uistate \<Rightarrow> 'r \<times> uistate) \<Rightarrow> 's svstate \<Rightarrow> 'r \<times> 's svstate" where
  "onUi f st = (case f (st_ui st) of (r, u) \<Rightarrow> (r, st\<lparr>st_ui := u\<rparr>))"

text \<open>\<^verbatim>\<open>statusAndMessage\<close>, for the status; the message is the error itself.\<close>

fun apiStatus :: "(string \<Rightarrow> nat) \<Rightarrow> apierr \<Rightarrow> nat" where
  "apiStatus code NotFound = 404"
| "apiStatus code AlreadyExists = 409"
| "apiStatus code Conflict = 409"
| "apiStatus code (ApiErr msg) = code msg"

fun flowStatus :: "(string \<Rightarrow> nat) \<Rightarrow> flowerr \<Rightarrow> nat" where
  "flowStatus code (AccessDenied _ _) = 403"
| "flowStatus code (UserSpaceDisabled _) = 403"
| "flowStatus code StateMismatch = 401"
| "flowStatus code ChallengeExpired = 401"
| "flowStatus code SessionGone = 401"
| "flowStatus code (ResolveErr _ (ListUserSpacesErr e)) = apiStatus code e"
| "flowStatus code _ = 500"

fun errorStatus :: "(string \<Rightarrow> nat) \<Rightarrow> uierr \<Rightarrow> nat" where
  "errorStatus code (ApiError status _) = status"
| "errorStatus code (FlowErr e) = flowStatus code e"
| "errorStatus code (KubeErr e) = apiStatus code e"
| "errorStatus code (TokErr (CreateTokenErr e)) = apiStatus code e"
| "errorStatus code (TokErr (ListTokensErr e)) = apiStatus code e"
| "errorStatus code (TokErr (RevokeErr e)) = apiStatus code e"
| "errorStatus code (UserErr (ListUsersErr e)) = apiStatus code e"
| "errorStatus code (UserErr (DeleteUserErr _ e)) = apiStatus code e"
| "errorStatus code (ResetErr (ListResetsErr e)) = apiStatus code e"
| "errorStatus code _ = 500"

definition failWith :: "('q, 'tok, 's) uiserver \<Rightarrow> uierr \<Rightarrow> response" where
  "failWith sv err = respond (errorStatus (sv_code sv) err) (ErrorPage err)"

section \<open>Paths and cookies\<close>

fun stripSlashes :: "string \<Rightarrow> string" where
  "stripSlashes [] = []"
| "stripSlashes [c] = [c]"
| "stripSlashes p = (if last p = CHR ''/'' then stripSlashes (butlast p) else p)"

definition normalizeBasePath :: "string \<Rightarrow> string" where
  "normalizeBasePath basePath =
     (if basePath = '''' \<or> basePath = ''/'' then ''''
      else stripSlashes (if hd basePath \<noteq> CHR ''/'' then ''/'' @ basePath else basePath))"

definition sv_path :: "('q, 'tok, 's) uiserver \<Rightarrow> string \<Rightarrow> string" where
  "sv_path sv p = sv_basePath sv @ p"

definition cookiePath :: "('q, 'tok, 's) uiserver \<Rightarrow> string" where
  "cookiePath sv = (if sv_basePath sv = '''' then ''/'' else sv_basePath sv)"

definition mkCookie :: "('q, 'tok, 's) uiserver \<Rightarrow> string \<Rightarrow> string \<Rightarrow> gotime \<Rightarrow> cookie" where
  "mkCookie sv name val expiresAt =
     \<lparr>ck_name = name, ck_value = val, ck_path = cookiePath sv, ck_expires = expiresAt, ck_delete = False,
      ck_httpOnly = True, ck_secure = sv_cookieSecure sv, ck_sameSite = ''Lax''\<rparr>"

definition clearCookie :: "('q, 'tok, 's) uiserver \<Rightarrow> gotime \<Rightarrow> string \<Rightarrow> cookie" where
  "clearCookie sv now name =
     \<lparr>ck_name = name, ck_value = '''', ck_path = cookiePath sv, ck_expires = now - 3600 * 1000000000, ck_delete = True,
      ck_httpOnly = True, ck_secure = sv_cookieSecure sv, ck_sameSite = ''Lax''\<rparr>"

definition sessionCookieName :: string where
  "sessionCookieName = ''dwpk_ui_session''"

definition loginStateCookieName :: string where
  "loginStateCookieName = ''dwpk_ui_login_state''"

definition loginNextCookieName :: string where
  "loginNextCookieName = ''dwpk_ui_login_next''"

definition loginRememberCookieName :: string where
  "loginRememberCookieName = ''dwpk_ui_login_remember''"

definition rememberedSessionTTL :: duration where
  "rememberedSessionTTL = 7 * 24 * 60 * 60 * 1000000000"

text \<open>\<^verbatim>\<open>url.QueryEscape\<close>.\<close>

definition hexDigit :: "nat \<Rightarrow> char" where
  "hexDigit d = (if d < 10 then char_of (48 + d) else char_of (55 + d))"

definition isAlnum :: "nat \<Rightarrow> bool" where
  "isAlnum b \<longleftrightarrow> 0x61 \<le> b \<and> b \<le> 0x7A \<or> 0x41 \<le> b \<and> b \<le> 0x5A \<or> 0x30 \<le> b \<and> b \<le> 0x39"

definition QueryEscape :: "string \<Rightarrow> string" where
  "QueryEscape s = concat (map (\<lambda>c. if isAlnum (byte c) \<or> c \<in> set ''-_.~'' then [c]
     else if c = CHR '' '' then ''+'' else [CHR ''%'', hexDigit (byte c div 16), hexDigit (byte c mod 16)]) s)"

definition redirectToLogin :: "('q, 'tok, 's) uiserver \<Rightarrow> httpreq \<Rightarrow> response" where
  "redirectToLogin sv r =
     (let target = sv_path sv ''/login'' in
      redirectTo 302 (if rq_uri r \<noteq> '''' \<and> rq_uri r \<noteq> ''/login'' then target @ ''?next='' @ QueryEscape (rq_uri r) else target))"

section \<open>Redirect targets\<close>

text \<open>
  What \<^verbatim>\<open>url.Parse\<close> makes of a reference, for its scheme and its path; \<open>None\<close> is an error. The authority of a reference that
  starts with two slashes is not examined: such a reference is refused whatever its authority.
\<close>

fun getScheme :: "nat \<Rightarrow> string \<Rightarrow> string \<Rightarrow> (string \<times> string) option" where
  "getScheme i raw [] = Some ('''', raw)"
| "getScheme i raw (c # cs) =
     (let b = byte c in
      if 0x61 \<le> b \<and> b \<le> 0x7A \<or> 0x41 \<le> b \<and> b \<le> 0x5A then getScheme (Suc i) raw cs
      else if 0x30 \<le> b \<and> b \<le> 0x39 \<or> c \<in> set ''+-.'' then (if i = 0 then Some ('''', raw) else getScheme (Suc i) raw cs)
      else if c = CHR '':'' then (if i = 0 then None else Some (take i raw, cs))
      else Some ('''', raw))"

definition cut :: "char \<Rightarrow> string \<Rightarrow> string" where
  "cut c s = takeWhile (\<lambda>d. d \<noteq> c) s"

definition hexVal :: "char \<Rightarrow> nat option" where
  "hexVal c = (let b = byte c in
     if 0x30 \<le> b \<and> b \<le> 0x39 then Some (b - 0x30)
     else if 0x61 \<le> b \<and> b \<le> 0x66 then Some (b - 0x61 + 10)
     else if 0x41 \<le> b \<and> b \<le> 0x46 then Some (b - 0x41 + 10) else None)"

fun unescape :: "string \<Rightarrow> string option" where
  "unescape [] = Some []"
| "unescape (c # cs) =
     (if c = CHR ''%'' then
        (case cs of
           a # b # rest \<Rightarrow>
             (case (hexVal a, hexVal b) of
                (Some x, Some y) \<Rightarrow> map_option ((#) (char_of (16 * x + y))) (unescape rest)
              | _ \<Rightarrow> None)
         | _ \<Rightarrow> None)
      else map_option ((#) c) (unescape cs))"

definition parseNoFragment :: "string \<Rightarrow> (string \<times> string) option" where
  "parseNoFragment raw =
     (if list_ex (\<lambda>c. byte c < 0x20 \<or> byte c = 0x7F) raw then None
      else if raw = ''*'' then Some ('''', ''*'')
      else case getScheme 0 raw raw of
        None \<Rightarrow> None
      | Some (scheme, rest0) \<Rightarrow>
          (let rest = cut (CHR ''?'') rest0 in
           if take 1 rest \<noteq> ''/'' \<and> scheme \<noteq> '''' then Some (scheme, '''')
           else if take 1 rest \<noteq> ''/'' \<and> CHR '':'' \<in> set (cut (CHR ''/'') rest) then None
           else if take 2 rest = ''//'' \<and> (scheme \<noteq> '''' \<or> take 3 rest \<noteq> ''///'')
           then map_option (Pair scheme) (unescape (dropWhile (\<lambda>d. d \<noteq> CHR ''/'') (drop 2 rest)))
           else map_option (Pair scheme) (unescape rest)))"

definition urlParse :: "string \<Rightarrow> (string \<times> string) option" where
  "urlParse raw =
     (case parseNoFragment (cut (CHR ''#'') raw) of
        None \<Rightarrow> None
      | Some u \<Rightarrow> (case unescape (drop 1 (dropWhile (\<lambda>d. d \<noteq> CHR ''#'') raw)) of None \<Rightarrow> None | Some _ \<Rightarrow> Some u))"

definition safeRedirectPath :: "string \<Rightarrow> string" where
  "safeRedirectPath raw =
     (case urlParse raw of
        None \<Rightarrow> ''''
      | Some (scheme, path) \<Rightarrow>
          if scheme \<noteq> '''' \<or> take 2 raw = ''//'' then ''''
          else if take 1 path \<noteq> ''/'' then ''''
          else raw)"

section \<open>Sessions of requests\<close>

definition requestNeedsCSRF :: "string \<Rightarrow> bool" where
  "requestNeedsCSRF m \<longleftrightarrow> m \<in> {''POST'', ''PATCH'', ''DELETE''}"

definition csrfHeaderName :: string where
  "csrfHeaderName = ''X-CSRF-Token''"

definition requestCSRFToken :: "httpreq \<Rightarrow> string" where
  "requestCSRFToken r =
     (let token = TrimSpace (rq_header r csrfHeaderName) in
      if token \<noteq> '''' then token
      else case (if take 19 (rq_header r ''Content-Type'') = ''multipart/form-data'' then rq_multipart r else Inl '''') of
        Inr f \<Rightarrow> TrimSpace (f ''csrf_token'')
      | Inl _ \<Rightarrow> (case rq_form r of Inr f \<Rightarrow> TrimSpace (f ''csrf_token'') | Inl _ \<Rightarrow> ''''))"

text \<open>What both cookie paths do once a cookie is there: identify, mint, make sure of a CSRF token.\<close>

datatype 'r gated = Refused 'r | Passed reqsession

definition cookieSession ::
    "('q, 'tok, 's) uiserver \<Rightarrow> reqrandom \<Rightarrow> string \<Rightarrow> 's svstate \<Rightarrow> (flowerr + flowerr + string + reqsession) \<times> 's svstate" where
  "cookieSession sv rn sid st =
     (case onUi (sessionIdentity (rn_now rn) sid) st of
        (Inl err, st1) \<Rightarrow> (Inl err, st1\<lparr>st_ui := csrf_Delete sid (st_ui st1)\<rparr>)
      | (Inr identity, st1) \<Rightarrow>
          (case onUi (MintTokenForSession (sv_login sv (st_cluster st1)) (rn_now rn) (rn_now' rn) sid) st1 of
             (Inl err, st2) \<Rightarrow> (Inr (Inl err), st2)
           | (Inr token, st2) \<Rightarrow>
               (case onUi (csrf_Ensure (rn_csrf rn) sid) st2 of
                  (Inl err, st3) \<Rightarrow> (Inr (Inr (Inl err)), st3)
                | (Inr csrf, st3) \<Rightarrow>
                    (Inr (Inr (Inr \<lparr>rs_sessionID = sid, rs_identity = identity, rs_token = token, rs_csrfToken = csrf\<rparr>)), st3))))"

definition withSession :: "('q, 'tok, 's) uiserver \<Rightarrow> reqrandom \<Rightarrow> httpreq \<Rightarrow> 's svstate \<Rightarrow> response gated \<times> 's svstate" where
  "withSession sv rn r st =
     (case rq_cookies r sessionCookieName of
        None \<Rightarrow> (Refused (redirectToLogin sv r), st)
      | Some sid \<Rightarrow>
          if TrimSpace sid = '''' then (Refused (redirectToLogin sv r), st)
          else case cookieSession sv rn sid st of
            (Inl _, st1) \<Rightarrow> (Refused (withCookie (clearCookie sv (rn_now rn) sessionCookieName) (redirectToLogin sv r)), st1)
          | (Inr (Inl err), st1) \<Rightarrow> (Refused (failWith sv (FlowErr err)), st1)
          | (Inr (Inr (Inl err)), st1) \<Rightarrow> (Refused (failWith sv (CsrfErr err)), st1)
          | (Inr (Inr (Inr session)), st1) \<Rightarrow>
              if requestNeedsCSRF (rq_method r) \<and> \<not> csrf_Valid sid (requestCSRFToken r) (st_ui st1)
              then (Refused (failWith sv (ApiError 403 ''invalid CSRF token'')), st1)
              else (Passed session, st1))"

definition bearerPrefix :: string where
  "bearerPrefix = ''Bearer ''"

definition bearerToken :: "ucd \<Rightarrow> httpreq \<Rightarrow> string" where
  "bearerToken uc r =
     (let header = TrimSpace (rq_header r ''Authorization'') in
      if length header \<le> length bearerPrefix \<or> \<not> EqualFold uc (take (length bearerPrefix) header) bearerPrefix then ''''
      else TrimSpace (drop (length bearerPrefix) header))"

definition emptyIdentity :: "string \<Rightarrow> sessionidentity" where
  "emptyIdentity namespace = \<lparr>si_email = '''', si_userSpaceName = '''', si_userSpaceNamespace = namespace, si_role = '''',
     si_onboardingPending = False, si_localLogin = False\<rparr>"

definition identityForNamespace :: "('q, 'tok, 's) uiserver \<Rightarrow> string \<Rightarrow> string \<Rightarrow> 's \<Rightarrow> uierr + sessionidentity" where
  "identityForNamespace sv token namespace s =
     (case sv_forToken sv token of
        Some err \<Rightarrow> Inl (OtherErr err)
      | None \<Rightarrow>
          (case sv_listUserSpaces sv token s of
             Inl err \<Rightarrow> Inl (KubeErr err)
           | Inr userSpaces \<Rightarrow>
               (case find (\<lambda>u. ust_namespace (us_status u) = namespace) userSpaces of
                  None \<Rightarrow> Inl (OtherErr ''no UserSpace owns namespace'')
                | Some u \<Rightarrow> Inr ((emptyIdentity namespace)\<lparr>si_userSpaceName := us_name u, si_role := EffectiveRole (us_spec u)\<rparr>))))"

definition tokenSession :: "('q, 'tok, 's) uiserver \<Rightarrow> tokenrecord \<Rightarrow> string \<Rightarrow> 's \<Rightarrow> reqsession" where
  "tokenSession sv rec tok s = \<lparr>rs_sessionID = '''', rs_identity = (case identityForNamespace sv tok (tr_namespace rec) s of
     Inr resolved \<Rightarrow> resolved | Inl _ \<Rightarrow> emptyIdentity (tr_namespace rec)), rs_token = tok, rs_csrfToken = ''''\<rparr>"

definition sessionFromAPIToken :: "('q, 'tok, 's) uiserver \<Rightarrow> reqrandom \<Rightarrow> string \<Rightarrow> 's \<Rightarrow> uierr + reqsession" where
  "sessionFromAPIToken sv rn bearer s =
     (if \<not> LooksLikeAPIToken bearer then Inl (ApiError 401 ''bearer token is not a dwpk API token'')
      else case (sv_apiTokens sv, sv_tokenMinter sv) of
        (Some tokens, Some mint) \<Rightarrow>
          (case tok_Lookup tokens (sv_lib sv) (rn_now rn) bearer s of
             Inl err \<Rightarrow> if err = TokenNotFound then Inl (ApiError 401 ''unknown API token'') else Inl (TokErr err)
           | Inr rec \<Rightarrow>
               (let serviceAccount = (if tr_account rec = '''' then SessionServiceAccountName else tr_account rec) in
                case mint (tr_namespace rec) serviceAccount of
                  Inl err \<Rightarrow> Inl (OtherErr err)
                | Inr (token, _) \<Rightarrow>
                    Inr (tokenSession sv rec token s)))
      | _ \<Rightarrow> Inl (OtherErr ''API token authentication is not configured''))"

definition withAPISession :: "('q, 'tok, 's) uiserver \<Rightarrow> reqrandom \<Rightarrow> httpreq \<Rightarrow> 's svstate \<Rightarrow> response gated \<times> 's svstate" where
  "withAPISession sv rn r st =
     (let bearer = bearerToken (sv_uc sv) r in
      if bearer \<noteq> '''' then
        (case sessionFromAPIToken sv rn bearer (st_cluster st) of
           Inl err \<Rightarrow> (Refused (failWith sv err), st)
         | Inr session \<Rightarrow> (Passed session, st))
      else case rq_cookies r sessionCookieName of
        None \<Rightarrow> (Refused (failWith sv (ApiError 401 ''missing session cookie or bearer token'')), st)
      | Some sid \<Rightarrow>
          if TrimSpace sid = '''' then (Refused (failWith sv (ApiError 401 ''missing session cookie or bearer token'')), st)
          else case cookieSession sv rn sid st of
            (Inl _, st1) \<Rightarrow> (Refused (withCookie (clearCookie sv (rn_now rn) sessionCookieName) (failWith sv (ApiError 401 ''session expired''))), st1)
          | (Inr (Inl err), st1) \<Rightarrow> (Refused (failWith sv (FlowErr err)), st1)
          | (Inr (Inr (Inl err)), st1) \<Rightarrow> (Refused (failWith sv (CsrfErr err)), st1)
          | (Inr (Inr (Inr session)), st1) \<Rightarrow>
              if requestNeedsCSRF (rq_method r) \<and> \<not> csrf_Valid sid (requestCSRFToken r) (st_ui st1)
              then (Refused (failWith sv (ApiError 403 ''invalid CSRF token'')), st1)
              else (Passed session, st1))"

text \<open>A route behind a middleware.\<close>

definition guarded ::
    "('s svstate \<Rightarrow> response gated \<times> 's svstate) \<Rightarrow> (reqsession \<Rightarrow> 's svstate \<Rightarrow> response \<times> 's svstate) \<Rightarrow> 's svstate \<Rightarrow> response \<times> 's svstate" where
  "guarded gate handler st = (case gate st of (Refused resp, st1) \<Rightarrow> (resp, st1) | (Passed session, st1) \<Rightarrow> handler session st1)"

section \<open>Signing in and out\<close>

text \<open>
  The target of a redirect is what the handlers hand to \<^verbatim>\<open>http.Redirect\<close>, which leaves a target that starts with a slash and
  has no dot segments as it is.
\<close>

definition isDisabledErr :: "flowerr \<Rightarrow> bool" where
  "isDisabledErr err = (case err of UserSpaceDisabled _ \<Rightarrow> True | _ \<Rightarrow> False)"

definition signInProblem :: "('q, 'tok, 's) uiserver \<Rightarrow> flowerr \<Rightarrow> string" where
  "signInProblem sv err =
     (if \<not> isDisabledErr err then ''Those credentials were not accepted.''
      else if sv_support sv \<noteq> '''' then ''This account is disabled. Contact '' @ sv_support sv @ '' to have it restored.''
      else ''This account is disabled. Contact an administrator to have it restored.'')"

definition requestedSessionTTL :: "('q, 'tok, 's) uiserver \<Rightarrow> string \<Rightarrow> duration" where
  "requestedSessionTTL sv remember = (if TrimSpace remember = '''' then sv_sessionTTL sv else rememberedSessionTTL)"

definition landingPath :: "reqrandom \<Rightarrow> string \<Rightarrow> 's svstate \<Rightarrow> string \<times> 's svstate" where
  "landingPath rn sid st =
     (case onUi (sessionIdentity (rn_now rn) sid) st of
        (Inl _, st1) \<Rightarrow> (''/'', st1)
      | (Inr identity, st1) \<Rightarrow> (if si_onboardingPending identity then ''/onboarding'' else ''/'', st1))"

definition handleLocalLogin :: "('q, 'tok, 's) uiserver \<Rightarrow> reqrandom \<Rightarrow> httpreq \<Rightarrow> 's svstate \<Rightarrow> response \<times> 's svstate" where
  "handleLocalLogin sv rn r st =
     (let env = sv_login sv (st_cluster st) in
      if Option.is_none (le_verifyLocal env) then (failWith sv (ApiError 404 ''local login is not enabled''), st)
      else case rq_form r of
        Inl _ \<Rightarrow> (failWith sv (ApiError 400 ''invalid form''), st)
      | Inr f \<Rightarrow>
          (let sessionTTL = requestedSessionTTL sv (f ''remember''); next = TrimSpace (f ''next'') in
           case onUi (CompleteLocalLogin env (rn_now rn) (rn_sid rn) (TrimSpace (f ''username'')) (f ''password'') sessionTTL) st of
             (Inl err, st1) \<Rightarrow> (respond 401 (LoginPage next (signInProblem sv err)), st1)
           | (Inr sid, st1) \<Rightarrow>
               (case onUi (csrf_Ensure (rn_csrf rn) sid) st1 of
                  (Inl err, st2) \<Rightarrow> (failWith sv (CsrfErr err), st2)
                | (Inr _, st2) \<Rightarrow>
                    (case landingPath rn sid st2 of
                       (landing, st3) \<Rightarrow>
                         (let target = (if next \<noteq> '''' \<and> safeRedirectPath next \<noteq> '''' then sv_path sv (safeRedirectPath next) else sv_path sv landing)
                          in (withCookie (mkCookie sv sessionCookieName sid (rn_now rn + sessionTTL)) (redirectTo 302 target), st3))))))"

definition beginLogin :: "('q, 'tok, 's) uiserver \<Rightarrow> reqrandom \<Rightarrow> httpreq \<Rightarrow> string \<Rightarrow> string \<Rightarrow> 's svstate \<Rightarrow> response \<times> 's svstate" where
  "beginLogin sv rn r provider next st =
     (if provider \<notin> set (sv_providers sv) then (failWith sv (ApiError 404 ''no such login provider is configured''), st)
      else case BeginLogin (sv_login sv (st_cluster st)) (rn_now rn) (rn_state rn) (rn_nonce rn) (rn_verifier rn) provider of
        Inl err \<Rightarrow> (failWith sv (FlowErr err), st)
      | Inr (url, c) \<Rightarrow>
          (let expires = (case lc_expiresAt c of Some t \<Rightarrow> t | None \<Rightarrow> 0);
               resp = redirectTo 302 url;
               resp = (if rq_query r ''remember'' \<noteq> '''' then withCookie (mkCookie sv loginRememberCookieName ''true'' expires) resp else resp);
               resp = (if next \<noteq> '''' then withCookie (mkCookie sv loginNextCookieName next expires) resp else resp)
           in (withCookie (mkCookie sv loginStateCookieName (lc_state c) expires) resp, st\<lparr>st_ui := challenge_Put provider c (st_ui st)\<rparr>)))"

definition handleBeginLogin :: "('q, 'tok, 's) uiserver \<Rightarrow> reqrandom \<Rightarrow> httpreq \<Rightarrow> 's svstate \<Rightarrow> response \<times> 's svstate" where
  "handleBeginLogin sv rn r st = beginLogin sv rn r (rq_path r ''provider'') (TrimSpace (rq_query r ''next'')) st"

definition handleLoginPicker :: "('q, 'tok, 's) uiserver \<Rightarrow> reqrandom \<Rightarrow> httpreq \<Rightarrow> 's svstate \<Rightarrow> response \<times> 's svstate" where
  "handleLoginPicker sv rn r st =
     (let next = TrimSpace (rq_query r ''next''); provider = TrimSpace (rq_query r ''provider'') in
      if provider \<noteq> '''' then beginLogin sv rn r provider next st else (respond 200 (LoginPage next ''''), st))"

text \<open>Where a callback goes, and the cookies it clears on the way.\<close>

definition callbackTarget :: "('q, 'tok, 's) uiserver \<Rightarrow> httpreq \<Rightarrow> string \<Rightarrow> string" where
  "callbackTarget sv r landing =
     (let next = (case rq_cookies r loginNextCookieName of Some v \<Rightarrow> TrimSpace v | None \<Rightarrow> TrimSpace (rq_query r ''next'')) in
      if safeRedirectPath next \<noteq> '''' then sv_path sv (safeRedirectPath next) else sv_path sv landing)"

text \<open>The rest of the callback, once the challenge is taken.\<close>

definition afterChallenge :: "('q, 'tok, 's) uiserver \<Rightarrow> reqrandom \<Rightarrow> httpreq \<Rightarrow> loginchallenge \<Rightarrow> 's svstate \<Rightarrow> response \<times> 's svstate" where
  "afterChallenge sv rn r challenge st =
     (let remembered = (rq_cookies r loginRememberCookieName = Some ''true'');
          sessionTTL = (if remembered then rememberedSessionTTL else sv_sessionTTL sv);
          clear = (\<lambda>name. withCookie (clearCookie sv (rn_now rn) name));
          cleared = (\<lambda>resp. clear loginStateCookieName (if remembered then clear loginRememberCookieName resp else resp));
          req = \<lparr>cr_provider = rq_path r ''provider'', cr_code = TrimSpace (rq_query r ''code''), cr_state = TrimSpace (rq_query r ''state''),
                 cr_challenge = challenge, cr_sessionTTL = sessionTTL\<rparr>
      in case onUi (CompleteLogin (sv_login sv (st_cluster st)) (rn_now rn) (rn_sid rn) req) st of
           (Inl err, st1) \<Rightarrow>
             (cleared (if isDisabledErr err then respond 403 (LoginPage '''' (signInProblem sv err)) else failWith sv (FlowErr err)), st1)
         | (Inr sid, st1) \<Rightarrow>
             (case onUi (csrf_Ensure (rn_csrf rn) sid) st1 of
                (Inl err, st2) \<Rightarrow> (cleared (failWith sv (CsrfErr err)), st2)
              | (Inr _, st2) \<Rightarrow>
                  (case landingPath rn sid st2 of
                     (landing, st3) \<Rightarrow>
                       (let resp = redirectTo 302 (callbackTarget sv r landing);
                            resp = (if rq_cookies r loginNextCookieName \<noteq> None then clear loginNextCookieName resp else resp)
                        in (cleared (withCookie (mkCookie sv sessionCookieName sid (rn_now rn + sessionTTL)) resp), st3)))))"

definition handleCompleteLogin :: "('q, 'tok, 's) uiserver \<Rightarrow> reqrandom \<Rightarrow> httpreq \<Rightarrow> 's svstate \<Rightarrow> response \<times> 's svstate" where
  "handleCompleteLogin sv rn r st =
     (let state = TrimSpace (rq_query r ''state'') in
      case rq_cookies r loginStateCookieName of
        None \<Rightarrow> (failWith sv (ApiError 401 ''missing login state cookie''), st)
      | Some stateCookie \<Rightarrow>
          if stateCookie \<noteq> state then (failWith sv (FlowErr StateMismatch), st)
          else case onUi (challenge_Take (rn_now rn) (rq_path r ''provider'') state) st of
            (None, st1) \<Rightarrow> (failWith sv (FlowErr ChallengeExpired), st1)
          | (Some challenge, st1) \<Rightarrow> afterChallenge sv rn r challenge st1)"

definition endSession :: "('q, 'tok, 's) uiserver \<Rightarrow> reqrandom \<Rightarrow> response \<Rightarrow> reqsession \<Rightarrow> 's svstate \<Rightarrow> response \<times> 's svstate" where
  "endSession sv rn done session st =
     (case onUi (Logout (rn_now rn) (rs_sessionID session)) st of
        (err, st1) \<Rightarrow>
          if err \<noteq> None \<and> err \<noteq> Some SessionGone then (failWith sv (FlowErr (the err)), st1)
          else (withCookie (clearCookie sv (rn_now rn) sessionCookieName) done, st1\<lparr>st_ui := csrf_Delete (rs_sessionID session) (st_ui st1)\<rparr>))"

definition handleLogout :: "('q, 'tok, 's) uiserver \<Rightarrow> reqrandom \<Rightarrow> reqsession \<Rightarrow> 's svstate \<Rightarrow> response \<times> 's svstate" where
  "handleLogout sv rn session st = endSession sv rn (redirectTo 302 (sv_path sv ''/login'')) session st"

definition handleAPILogout :: "('q, 'tok, 's) uiserver \<Rightarrow> reqrandom \<Rightarrow> reqsession \<Rightarrow> 's svstate \<Rightarrow> response \<times> 's svstate" where
  "handleAPILogout sv rn session st =
     (if rs_sessionID session = '''' then (failWith sv (ApiError 400 ''bearer tokens are revoked, not logged out''), st)
      else endSession sv rn (respond 204 NoPage) session st)"

text \<open>\<open>body\<close> is the decoded JSON: username and password.\<close>

definition handleAPILocalLogin :: "('q, 'tok, 's) uiserver \<Rightarrow> reqrandom \<Rightarrow> string + string \<times> string \<Rightarrow> 's svstate \<Rightarrow> response \<times> 's svstate" where
  "handleAPILocalLogin sv rn body st =
     (let env = sv_login sv (st_cluster st) in
      if Option.is_none (le_verifyLocal env) then (failWith sv (ApiError 404 ''local login is not enabled''), st)
      else case body of
        Inl err \<Rightarrow> (failWith sv (ApiError 400 err), st)
      | Inr (username, password) \<Rightarrow>
          (case onUi (CompleteLocalLogin env (rn_now rn) (rn_sid rn) (TrimSpace username) password 0) st of
             (Inl _, st1) \<Rightarrow> (failWith sv (ApiError 401 ''invalid username or password''), st1)
           | (Inr sid, st1) \<Rightarrow>
               (case onUi (csrf_Ensure (rn_csrf rn) sid) st1 of
                  (Inl err, st2) \<Rightarrow> (failWith sv (CsrfErr err), st2)
                | (Inr csrf, st2) \<Rightarrow>
                    (withCookie (mkCookie sv sessionCookieName sid (rn_now rn + sv_sessionTTL sv)) ((respond 204 NoPage)\<lparr>rs_csrf := csrf\<rparr>), st2))))"

definition handleAPISession :: "reqsession \<Rightarrow> 's svstate \<Rightarrow> response \<times> 's svstate" where
  "handleAPISession session st =
     (respond 200 (SessionJSON (si_email (rs_identity session)) (si_userSpaceName (rs_identity session))
        (si_userSpaceNamespace (rs_identity session)) (si_role (rs_identity session)) (rs_csrfToken session)), st)"

section \<open>Lemmas\<close>

lemma onUi_eq: "onUi f st = (r, st') \<longleftrightarrow> (\<exists>u. f (st_ui st) = (r, u) \<and> st' = st\<lparr>st_ui := u\<rparr>)"
  by (auto simp: onUi_def split: prod.splits)

lemma csrf_Ensure_ok:
  assumes "csrf_Ensure g sid u = (Inr t, u')"
  shows "ui_csrf u' sid = Some t \<and> (\<forall>t'. ui_csrf u sid = Some t' \<longrightarrow> t = t') \<and> ui_sessions u' = ui_sessions u \<and>
    ui_identities u' = ui_identities u \<and> ui_challenges u' = ui_challenges u \<and> (\<forall>k. k \<noteq> sid \<longrightarrow> ui_csrf u' k = ui_csrf u k)"
  using assms by (auto simp: csrf_Ensure_def split: option.splits sum.splits)

lemma csrf_Valid_iff: "csrf_Valid sid t u \<longleftrightarrow> ui_csrf u sid = Some t"
  by (auto simp: csrf_Valid_def split: option.splits)

lemma Mint_ok:
  assumes "MintTokenForSession env now now' sid u = (Inr tok, u')" "fst (sessionIdentity now sid u) = Inr i"
  shows "(\<exists>e. le_mint env (si_userSpaceNamespace i) SessionServiceAccountName = Inr (tok, e)) \<and> ui_csrf u' = ui_csrf (snd (sessionIdentity now sid u))"
  using assms by (auto simp: MintTokenForSession_def refreshMinted_def split: prod.splits sum.splits option.splits)

lemma sessionIdentity_tables: "sessionIdentity now sid u = (r, u') \<Longrightarrow> ui_csrf u' = ui_csrf u \<and> ui_challenges u' = ui_challenges u"
  by (auto simp: sessionIdentity_cases split: if_splits)

lemma sessionIdentity_live: "sessionIdentity now sid u = (Inr i, u') \<Longrightarrow> u' = u \<and> signedIn (u, now) sid = Some i"
  using sessionIdentity_result [of now sid u i] by (auto simp: sessionIdentity_cases split: if_splits)

text \<open>What a cookie session is, and what it leaves in the tables.\<close>

lemma cookieSession_ok:
  assumes "cookieSession sv rn sid st = (Inr (Inr (Inr session)), st')"
  shows "signedIn (st_ui st, rn_now rn) sid = Some (rs_identity session) \<and> rs_sessionID session = sid \<and>
    (\<exists>e. le_mint (sv_login sv (st_cluster st)) (si_userSpaceNamespace (rs_identity session)) SessionServiceAccountName = Inr (rs_token session, e)) \<and>
    ui_csrf (st_ui st') sid = Some (rs_csrfToken session) \<and> (\<forall>t. ui_csrf (st_ui st) sid = Some t \<longrightarrow> rs_csrfToken session = t) \<and>
    st_cluster st' = st_cluster st"
proof -
  obtain r u1 where 1: "sessionIdentity (rn_now rn) sid (st_ui st) = (r, u1)" by fastforce
  with assms obtain i where r: "r = Inr i" by (cases r) (auto simp: cookieSession_def onUi_def)
  with 1 sessionIdentity_live have u1: "u1 = st_ui st" and i: "signedIn (st_ui st, rn_now rn) sid = Some i" by blast+
  obtain r2 u2 where 2: "MintTokenForSession (sv_login sv (st_cluster st)) (rn_now rn) (rn_now' rn) sid (st_ui st) = (r2, u2)" by fastforce
  with assms 1 r u1 obtain tok where r2: "r2 = Inr tok" by (cases r2) (auto simp: cookieSession_def onUi_def)
  obtain r3 u3 where 3: "csrf_Ensure (rn_csrf rn) sid u2 = (r3, u3)" by fastforce
  with assms 1 2 r r2 u1 obtain t where r3: "r3 = Inr t" by (cases r3) (auto simp: cookieSession_def onUi_def)
  have s: "session = \<lparr>rs_sessionID = sid, rs_identity = i, rs_token = tok, rs_csrfToken = t\<rparr>" "st' = st\<lparr>st_ui := u3\<rparr>"
    using assms 1 2 3 r r2 r3 u1 by (auto simp: cookieSession_def onUi_def)
  show ?thesis
    using s i Mint_ok [OF 2 [unfolded r2], of i] csrf_Ensure_ok [OF 3 [unfolded r3]] 1 r u1 by auto
qed

lemma withSession_cases:
  assumes "withSession sv rn r st = (Passed session, st')"
  shows "\<exists>sid. rq_cookies r sessionCookieName = Some sid \<and> cookieSession sv rn sid st = (Inr (Inr (Inr session)), st') \<and>
    (requestNeedsCSRF (rq_method r) \<longrightarrow> csrf_Valid sid (requestCSRFToken r) (st_ui st'))"
  using assms by (auto simp: withSession_def split: option.splits if_splits prod.splits sum.splits)

lemma withAPISession_cases:
  assumes "withAPISession sv rn r st = (Passed session, st')"
  shows "if bearerToken (sv_uc sv) r \<noteq> [] then sessionFromAPIToken sv rn (bearerToken (sv_uc sv) r) (st_cluster st) = Inr session \<and> st' = st
    else \<exists>sid. rq_cookies r sessionCookieName = Some sid \<and> cookieSession sv rn sid st = (Inr (Inr (Inr session)), st') \<and>
      (requestNeedsCSRF (rq_method r) \<longrightarrow> csrf_Valid sid (requestCSRFToken r) (st_ui st'))"
  using assms by (auto simp: withAPISession_def Let_def split: option.splits if_splits prod.splits sum.splits)

lemma sessionFromAPIToken_ok:
  assumes "sessionFromAPIToken sv rn bearer s = Inr session"
  shows "\<exists>tokens mint rec tok e. LooksLikeAPIToken bearer \<and> sv_apiTokens sv = Some tokens \<and> sv_tokenMinter sv = Some mint \<and>
      tok_Lookup tokens (sv_lib sv) (rn_now rn) bearer s = Inr rec \<and>
      mint (tr_namespace rec) (if tr_account rec = '''' then SessionServiceAccountName else tr_account rec) = Inr (tok, e) \<and>
      session = tokenSession sv rec tok s"
proof -
  from assms obtain tokens mint where t: "LooksLikeAPIToken bearer" "sv_apiTokens sv = Some tokens" "sv_tokenMinter sv = Some mint"
    by (cases "sv_apiTokens sv"; cases "sv_tokenMinter sv") (simp_all add: sessionFromAPIToken_def split: if_splits)
  with assms obtain rec where l: "tok_Lookup tokens (sv_lib sv) (rn_now rn) bearer s = Inr rec"
    by (cases "tok_Lookup tokens (sv_lib sv) (rn_now rn) bearer s") (simp_all add: sessionFromAPIToken_def split: if_splits)
  let ?a = "if tr_account rec = '''' then SessionServiceAccountName else tr_account rec"
  from assms t l obtain tok e where "mint (tr_namespace rec) ?a = Inr (tok, e)"
    by (cases "mint (tr_namespace rec) ?a") (auto simp: sessionFromAPIToken_def Let_def)
  with assms t l show ?thesis by (auto simp: sessionFromAPIToken_def Let_def)
qed

lemma identityForNamespace_namespace: "identityForNamespace sv tok ns s = Inr i \<Longrightarrow> si_userSpaceNamespace i = ns"
  by (auto simp: identityForNamespace_def emptyIdentity_def split: option.splits sum.splits)

lemma tokenSession_simps [simp]: "rs_token (tokenSession sv rec tok s) = tok" "rs_sessionID (tokenSession sv rec tok s) = []"
  "si_userSpaceNamespace (rs_identity (tokenSession sv rec tok s)) = tr_namespace rec"
  using identityForNamespace_namespace [of sv tok "tr_namespace rec" s]
  by (auto simp: tokenSession_def emptyIdentity_def split: sum.splits)

section \<open>Properties\<close>

text \<open>
  (C4) A page behind the browser's middleware is served only to a live session: the identity is the one that signed in under the
  presented cookie, the Kubernetes credential is minted for the session account of that identity's own namespace, and a
  request that can change something carries the CSRF token that is stored for that session.
\<close>

theorem browser_requests_authenticated:
  assumes "withSession sv rn r st = (Passed session, st')"
  shows "rq_cookies r sessionCookieName = Some (rs_sessionID session) \<and>
    signedIn (st_ui st, rn_now rn) (rs_sessionID session) = Some (rs_identity session) \<and>
    (\<exists>e. le_mint (sv_login sv (st_cluster st)) (si_userSpaceNamespace (rs_identity session)) SessionServiceAccountName = Inr (rs_token session, e)) \<and>
    (rq_method r \<in> {''POST'', ''PATCH'', ''DELETE''} \<longrightarrow> requestCSRFToken r = rs_csrfToken session \<and>
       (\<forall>t. ui_csrf (st_ui st) (rs_sessionID session) = Some t \<longrightarrow> requestCSRFToken r = t))"
proof -
  from withSession_cases [OF assms] obtain sid where c: "rq_cookies r sessionCookieName = Some sid"
    "cookieSession sv rn sid st = (Inr (Inr (Inr session)), st')" "requestNeedsCSRF (rq_method r) \<longrightarrow> csrf_Valid sid (requestCSRFToken r) (st_ui st')" by blast
  from cookieSession_ok [OF c(2)] c(1,3) show ?thesis unfolding csrf_Valid_iff requestNeedsCSRF_def by auto
qed

text \<open>
  (C8) The REST interface serves a request only under one of the two credentials. With a bearer token, it is one the store knows
  and that has not expired, and the request runs as the account and in the namespace that token was issued for; without, the
  browser's rules apply, the CSRF check of requests that can change something included.
\<close>

theorem api_requests_authenticated:
  assumes "withAPISession sv rn r st = (Passed session, st')"
  shows "if bearerToken (sv_uc sv) r \<noteq> '''' then
      \<exists>tokens mint rec e. sv_apiTokens sv = Some tokens \<and> sv_tokenMinter sv = Some mint \<and>
        tok_Lookup tokens (sv_lib sv) (rn_now rn) (bearerToken (sv_uc sv) r) (st_cluster st) = Inr rec \<and>
        mint (tr_namespace rec) (if tr_account rec = '''' then SessionServiceAccountName else tr_account rec) = Inr (rs_token session, e) \<and>
        si_userSpaceNamespace (rs_identity session) = tr_namespace rec \<and> rs_sessionID session = '''' \<and> st' = st
    else rq_cookies r sessionCookieName = Some (rs_sessionID session) \<and>
      signedIn (st_ui st, rn_now rn) (rs_sessionID session) = Some (rs_identity session) \<and>
      (requestNeedsCSRF (rq_method r) \<longrightarrow> requestCSRFToken r = rs_csrfToken session)"
proof (cases "bearerToken (sv_uc sv) r = ''''")
  case False
  with withAPISession_cases [OF assms] have "sessionFromAPIToken sv rn (bearerToken (sv_uc sv) r) (st_cluster st) = Inr session" "st' = st" by auto
  with sessionFromAPIToken_ok [OF this(1)] False show ?thesis by fastforce
next
  case True
  with withAPISession_cases [OF assms] obtain sid where c: "rq_cookies r sessionCookieName = Some sid"
    "cookieSession sv rn sid st = (Inr (Inr (Inr session)), st')" "requestNeedsCSRF (rq_method r) \<longrightarrow> csrf_Valid sid (requestCSRFToken r) (st_ui st')" by auto
  from cookieSession_ok [OF c(2)] c(1,3) True show ?thesis unfolding csrf_Valid_iff by auto
qed

text \<open>Signing in leaves the challenges alone.\<close>

lemma CompleteLogin_challenges: "ui_challenges (snd (CompleteLogin env now g req u)) = ui_challenges u"
proof (cases rule: CompleteLogin_cases [of env now g req u])
  case (opened p tok cs i)
  then show ?thesis by (auto simp: openSession_def storeIdentity_def split: prod.splits sum.splits)
qed simp

lemma landingPath_challenges: "ui_challenges (st_ui (snd (landingPath rn sid st))) = ui_challenges (st_ui st)"
  using sessionIdentity_tables by (fastforce simp: landingPath_def onUi_def split: prod.splits sum.splits)

lemma csrf_Ensure_challenges: "csrf_Ensure g sid u = (x, u') \<Longrightarrow> ui_challenges u' = ui_challenges u"
  by (auto simp: csrf_Ensure_def split: option.splits sum.splits)

lemma afterChallenge_challenges: "ui_challenges (st_ui (snd (afterChallenge sv rn r c st))) = ui_challenges (st_ui st)"
proof -
  let ?ttl = "if rq_cookies r loginRememberCookieName = Some ''true'' then rememberedSessionTTL else sv_sessionTTL sv"
  let ?req = "\<lparr>cr_provider = rq_path r ''provider'', cr_code = TrimSpace (rq_query r ''code''), cr_state = TrimSpace (rq_query r ''state''),
    cr_challenge = c, cr_sessionTTL = ?ttl\<rparr>"
  obtain x u where 1: "CompleteLogin (sv_login sv (st_cluster st)) (rn_now rn) (rn_sid rn) ?req (st_ui st) = (x, u)" by fastforce
  have u: "ui_challenges u = ui_challenges (st_ui st)" using CompleteLogin_challenges by (metis 1 snd_conv)
  show ?thesis
  proof (cases x)
    case (Inl e)
    with 1 u show ?thesis by (simp add: afterChallenge_def onUi_def Let_def)
  next
    case (Inr sid)
    obtain y v where 2: "csrf_Ensure (rn_csrf rn) sid u = (y, v)" by fastforce
    obtain l w where 3: "landingPath rn sid (st\<lparr>st_ui := v\<rparr>) = (l, w)" by fastforce
    have "ui_challenges (st_ui w) = ui_challenges u"
      using landingPath_challenges [of rn sid "st\<lparr>st_ui := v\<rparr>"] csrf_Ensure_challenges [OF 2] 3 by simp
    with 1 2 3 u Inr csrf_Ensure_challenges [OF 2] show ?thesis by (cases y) (simp_all add: afterChallenge_def onUi_def Let_def)
  qed
qed

definition setsSession :: "response \<Rightarrow> bool" where
  "setsSession resp \<longleftrightarrow> (\<exists>c\<in>set (rs_cookies resp). ck_name c = sessionCookieName \<and> \<not> ck_delete c)"

lemma cookie_names: "loginStateCookieName \<noteq> sessionCookieName" "loginRememberCookieName \<noteq> sessionCookieName" "loginNextCookieName \<noteq> sessionCookieName"
  by (simp_all add: loginStateCookieName_def sessionCookieName_def loginRememberCookieName_def loginNextCookieName_def)

lemma setsSession_simps [simp]:
  "\<not> setsSession (respond n p)" "\<not> setsSession (failWith sv err)" "\<not> setsSession (redirectTo n l)"
  "setsSession (withCookie (clearCookie sv now name) resp) = setsSession resp"
  "setsSession (withCookie (mkCookie sv name v t) resp) \<longleftrightarrow> name = sessionCookieName \<or> setsSession resp"
  by (auto simp: setsSession_def respond_def failWith_def redirectTo_def withCookie_def clearCookie_def mkCookie_def)

text \<open>A callback, once its cookie and its query agree on a state.\<close>

lemma handleCompleteLogin_mismatch:
  "rq_cookies r loginStateCookieName \<noteq> Some (TrimSpace (rq_query r ''state'')) \<Longrightarrow>
   snd (handleCompleteLogin sv rn r st) = st \<and> \<not> setsSession (fst (handleCompleteLogin sv rn r st)) \<and> rs_status (fst (handleCompleteLogin sv rn r st)) = 401"
  by (auto simp: handleCompleteLogin_def Let_def failWith_def respond_def setsSession_def split: option.splits)

lemma challenge_Take_consumes:
  "ui_challenges (snd (challenge_Take now p state u)) = (ui_challenges u)(state := None)"
  by (auto simp: challenge_Take_def Let_def split: option.splits)

lemma challenge_Take_Some:
  "fst (challenge_Take now p state u) = Some c \<longleftrightarrow> ui_challenges u state = Some (p, c) \<and> after (lc_expiresAt c) now"
  by (auto simp: challenge_Take_def Let_def split: option.splits)

lemma handleCompleteLogin_match:
  assumes "rq_cookies r loginStateCookieName = Some (TrimSpace (rq_query r ''state''))"
  shows "ui_challenges (st_ui (snd (handleCompleteLogin sv rn r st))) = (ui_challenges (st_ui st))(TrimSpace (rq_query r ''state'') := None) \<and>
    (\<not> (\<exists>c. ui_challenges (st_ui st) (TrimSpace (rq_query r ''state'')) = Some (rq_path r ''provider'', c) \<and> after (lc_expiresAt c) (rn_now rn)) \<longrightarrow>
       fst (handleCompleteLogin sv rn r st) = failWith sv (FlowErr ChallengeExpired))"
proof -
  let ?state = "TrimSpace (rq_query r ''state'')" let ?p = "rq_path r ''provider''"
  obtain x u where t: "challenge_Take (rn_now rn) ?p ?state (st_ui st) = (x, u)" by fastforce
  have u: "ui_challenges u = (ui_challenges (st_ui st))(?state := None)" using challenge_Take_consumes [of "rn_now rn" ?p ?state "st_ui st"] t by simp
  show ?thesis
  proof (cases x)
    case None
    then show ?thesis using u t by (simp add: handleCompleteLogin_def assms onUi_def)
  next
    case (Some c)
    with challenge_Take_Some [of "rn_now rn" ?p ?state "st_ui st" c] t
    have c: "ui_challenges (st_ui st) ?state = Some (?p, c)" "after (lc_expiresAt c) (rn_now rn)" by simp_all
    have "ui_challenges (st_ui (snd (handleCompleteLogin sv rn r st))) = ui_challenges u"
      using t Some by (simp add: handleCompleteLogin_def assms onUi_def afterChallenge_challenges)
    with u c show ?thesis by simp
  qed
qed

text \<open>
  (C17) A login callback counts only in the browser that started the login, and only once: a session cookie is handed out only if
  the state cookie equals the state of the query and a challenge was stored under it, for the same provider and not yet
  expired; whatever comes of it the challenge is spent, so that any later callback with that state is refused with 401.
\<close>

theorem callback_bound_and_once:
  assumes "handleCompleteLogin sv rn r st = (resp, st')" and "rq_query r2 ''state'' = rq_query r ''state''"
    and "rq_cookies r loginStateCookieName = rq_cookies r2 loginStateCookieName"
  shows "(setsSession resp \<longrightarrow> (\<exists>c. rq_cookies r loginStateCookieName = Some (TrimSpace (rq_query r ''state'')) \<and>
      ui_challenges (st_ui st) (TrimSpace (rq_query r ''state'')) = Some (rq_path r ''provider'', c) \<and> after (lc_expiresAt c) (rn_now rn))) \<and>
    rs_status (fst (handleCompleteLogin sv2 rn2 r2 st')) = 401 \<and> \<not> setsSession (fst (handleCompleteLogin sv2 rn2 r2 st'))"
proof (cases "rq_cookies r loginStateCookieName = Some (TrimSpace (rq_query r ''state''))")
  case True
  with handleCompleteLogin_match [OF this, of sv rn st] assms(1)
  have m: "ui_challenges (st_ui st') = (ui_challenges (st_ui st))(TrimSpace (rq_query r ''state'') := None)"
    "\<not> (\<exists>c. ui_challenges (st_ui st) (TrimSpace (rq_query r ''state'')) = Some (rq_path r ''provider'', c) \<and> after (lc_expiresAt c) (rn_now rn)) \<longrightarrow>
       resp = failWith sv (FlowErr ChallengeExpired)" by simp_all
  have r2: "rq_cookies r2 loginStateCookieName = Some (TrimSpace (rq_query r2 ''state''))" using True assms(2,3) by simp
  have "fst (handleCompleteLogin sv2 rn2 r2 st') = failWith sv2 (FlowErr ChallengeExpired)"
    using handleCompleteLogin_match [OF r2, of sv2 rn2 st'] m(1) assms(2) by simp
  with m(2) True show ?thesis by (auto simp: failWith_def respond_def setsSession_def)
next
  case False
  with handleCompleteLogin_mismatch [OF this, of sv rn st] handleCompleteLogin_mismatch [of r2 sv2 rn2 st'] assms
  show ?thesis by simp
qed

text \<open>
  Signing out is final: after a logout that answers with its redirect, the session is over at every later time and its CSRF
  token is gone, and everybody else is as they were.
\<close>

theorem logout_is_final:
  assumes "handleLogout sv rn session st = (resp, st')" and "rs_status resp = 302" and "sid = rs_sessionID session"
  shows "signedIn (st_ui st', t) sid = None \<and> ui_csrf (st_ui st') sid = None \<and>
    (other \<noteq> sid \<longrightarrow> signedIn (st_ui st', t) other = signedIn (st_ui st, t) other \<and> ui_csrf (st_ui st') other = ui_csrf (st_ui st) other)"
proof -
  obtain e u where l: "Logout (rn_now rn) sid (st_ui st) = (e, u)" by fastforce
  have ok: "e = None \<or> e = Some SessionGone"
  proof (rule ccontr)
    assume n: "\<not> (e = None \<or> e = Some SessionGone)"
    then have "resp = failWith sv (FlowErr (the e))" using assms(1) l by (simp add: handleLogout_def endSession_def onUi_def assms(3))
    moreover from n l have "e = Some IdentityMissing"
      by (auto simp: Logout_def sessionIdentity_cases split: if_splits option.splits)
    ultimately show False using assms(2) by (simp add: failWith_def respond_def)
  qed
  then have st': "st' = st\<lparr>st_ui := csrf_Delete sid u\<rparr>"
    using assms(1) l by (auto simp: handleLogout_def endSession_def onUi_def assms(3))
  have "sst_sessions (ui_sessions u) = (sst_sessions (ui_sessions (st_ui st)))(sid := None)" "ui_csrf u = ui_csrf (st_ui st)"
    "ui_identities u = (ui_identities (st_ui st))(sid := None)"
    using l ok by (auto simp: Logout_def sessionIdentity_cases sess_Delete_def deleteIdentity_def split: if_splits option.splits)
  then show ?thesis by (auto simp: st' signedIn_def live_def csrf_Delete_def)
qed

text \<open>The characters of a host name pass the parser of redirect targets unchanged.\<close>

definition hostChar :: "char \<Rightarrow> bool" where
  "hostChar c \<longleftrightarrow> isAlnum (byte c) \<or> c = CHR ''.''"

lemma hostChar_plain:
  assumes "hostChar c"
  shows "c \<noteq> CHR ''%'' \<and> c \<noteq> CHR ''?'' \<and> c \<noteq> CHR ''#'' \<and> \<not> (byte c < 0x20 \<or> byte c = 0x7F)"
  using assms by (auto simp: hostChar_def isAlnum_def)

lemma unescape_plain: "(\<And>c. c \<in> set s \<Longrightarrow> c \<noteq> CHR ''%'') \<Longrightarrow> unescape s = Some s"
  by (induction s) simp_all

lemma cut_absent: "c \<notin> set s \<Longrightarrow> cut c s = s"
  by (auto simp: cut_def takeWhile_eq_all_conv)

lemma safeRedirectPath_backslash:
  assumes "list_all hostChar host"
  shows "safeRedirectPath (CHR ''/'' # CHR 0x5C # host) = CHR ''/'' # CHR 0x5C # host"
proof -
  let ?raw = "CHR ''/'' # CHR 0x5C # host"
  have h: "c \<noteq> CHR ''%'' \<and> c \<noteq> CHR ''?'' \<and> c \<noteq> CHR ''#'' \<and> \<not> (byte c < 0x20 \<or> byte c = 0x7F)" if "c \<in> set ?raw" for c
  proof -
    have "CHR ''/'' \<noteq> CHR ''%'' \<and> CHR ''/'' \<noteq> CHR ''?'' \<and> CHR ''/'' \<noteq> CHR ''#'' \<and> \<not> (byte (CHR ''/'') < 0x20 \<or> byte (CHR ''/'') = 0x7F)"
      "CHR 0x5C \<noteq> CHR ''%'' \<and> CHR 0x5C \<noteq> CHR ''?'' \<and> CHR 0x5C \<noteq> CHR ''#'' \<and> \<not> (byte (CHR 0x5C) < 0x20 \<or> byte (CHR 0x5C) = 0x7F)"
      by code_simp+
    moreover from that consider "c = CHR ''/''" | "c = CHR 0x5C" | "hostChar c" using assms by (auto simp: list_all_iff)
    ultimately show ?thesis using hostChar_plain by cases metis+
  qed
  have c: "cut (CHR ''#'') ?raw = ?raw" "cut (CHR ''?'') ?raw = ?raw" using h by (blast intro: cut_absent)+
  have d: "dropWhile (\<lambda>d. d \<noteq> CHR ''#'') ?raw = []" unfolding dropWhile_eq_Nil_conv using h by blast
  have e: "\<not> list_ex (\<lambda>c. byte c < 0x20 \<or> byte c = 0x7F) ?raw" unfolding list_ex_iff using h by blast
  have u: "unescape ?raw = Some ?raw" using h by (intro unescape_plain) blast
  have "parseNoFragment ?raw = Some ([], ?raw)"
    unfolding parseNoFragment_def using e u by (simp only: c if_False Let_def) (simp add: Let_def c(2) split: option.split)
  then show ?thesis unfolding safeRedirectPath_def urlParse_def c(1) d by simp
qed

text \<open>
  The check of the redirect after a login lets a backslash through: \<^verbatim>\<open>/\host\<close> is accepted and, without a base path, sent as it
  is, and browsers read a backslash in that place as a slash, hence the target as another host. Everything the check does
  accept is passed on unchanged, has no scheme and does not start with two slashes.
\<close>

theorem open_redirect:
  assumes "list_all hostChar host" and "sv_basePath sv = ''''" and "rq_form r = Inr f" and "TrimSpace (f ''next'') = CHR ''/'' # CHR 0x5C # host"
    and "handleLocalLogin sv rn r st = (resp, st')" and "rs_status resp = 302"
  shows "rs_location resp = CHR ''/'' # CHR 0x5C # host \<and>
    (safeRedirectPath raw \<noteq> '''' \<longrightarrow> safeRedirectPath raw = raw \<and> take 2 raw \<noteq> ''//'' \<and> (\<exists>p. urlParse raw = Some ('''', p) \<and> take 1 p = ''/''))"
proof
  have "rs_status (failWith sv (ApiError 404 m)) \<noteq> 302" "rs_status (failWith sv (ApiError 400 m)) \<noteq> 302" "rs_status (failWith sv (CsrfErr e)) \<noteq> 302"
    "rs_status (respond 401 p) \<noteq> 302" for m e p
    by (simp_all add: failWith_def respond_def)
  then show "rs_location resp = CHR ''/'' # CHR 0x5C # host"
    using assms(5,6) safeRedirectPath_backslash [OF assms(1)]
    by (auto simp: handleLocalLogin_def assms(2-4) Let_def sv_path_def withCookie_def redirectTo_def split: if_splits sum.splits prod.splits)
  show "safeRedirectPath raw \<noteq> '''' \<longrightarrow> safeRedirectPath raw = raw \<and> take 2 raw \<noteq> ''//'' \<and> (\<exists>p. urlParse raw = Some ('''', p) \<and> take 1 p = ''/'')"
    by (auto simp: safeRedirectPath_def split: option.splits if_splits)
qed

section \<open>Witnesses\<close>

definition demo_server :: "(int, string, ksecret list) uiserver" where
  "demo_server = \<lparr>sv_login = (\<lambda>_. demo_env), sv_providers = [''keycloak''], sv_basePath = '''', sv_sessionTTL = 100, sv_cookieSecure = True,
     sv_support = '''', sv_apiTokens = Some mem_sec, sv_tokenMinter = Some (\<lambda>ns sa. Inr (sa @ ''.'' @ ns, Some 900)), sv_localUsers = Some mem_sec,
     sv_passwordResets = Some mem_sec, sv_lib = demo_authlib, sv_uc = demo_uc, sv_code = (\<lambda>_. 403), sv_forToken = (\<lambda>_. None),
     sv_listUserSpaces = (\<lambda>_ _. Inr [demo_us]), sv_canI = (\<lambda>tok _ _ _ _. Inr (tok = ''admin'')), sv_profileReads = (\<lambda>_ _. None), sv_patchMembership = (\<lambda>_ _ s. (None, s))\<rparr>"

definition demo_random :: "gotime \<Rightarrow> reqrandom" where
  "demo_random now = \<lparr>rn_now = now, rn_now' = now, rn_sid = Inr ''sid2'', rn_csrf = Inr ''c2'', rn_state = Inr ''s2'', rn_nonce = Inr ''n2'',
     rn_verifier = ''v2'', rn_uuid = Inr ''u2'', rn_reset = Inr ''r2'', rn_salt = ''salt''\<rparr>"

definition demo_req :: "string \<Rightarrow> (string \<rightharpoonup> string) \<Rightarrow> (string \<Rightarrow> string) \<Rightarrow> (string \<Rightarrow> string) \<Rightarrow> httpreq" where
  "demo_req meth cookies header query = \<lparr>rq_method = meth, rq_cookies = cookies, rq_header = header, rq_query = query, rq_form = Inr query,
     rq_multipart = Inl ''not multipart'', rq_path = (\<lambda>_. ''keycloak''), rq_uri = ''/x'', rq_host = ''dwpk.x.io'', rq_tls = True\<rparr>"

definition demo_svstate :: "ksecret list svstate" where
  "demo_svstate = \<lparr>st_ui = demo_signed\<lparr>ui_csrf := [''sid'' \<mapsto> ''c1''],
     ui_challenges := [''s1'' \<mapsto> (''keycloak'', cr_challenge demo_request)]\<rparr>, st_cluster = []\<rparr>"

definition demo_post :: httpreq where
  "demo_post = demo_req ''POST'' [sessionCookieName \<mapsto> ''sid''] (\<lambda>h. if h = csrfHeaderName then ''c1'' else '''') (\<lambda>_. '''')"

lemma demo_words: "TrimSpace ''sid'' = ''sid''" "TrimSpace ''c1'' = ''c1''" "TrimSpace ''s1'' = ''s1''"
  by code_simp+

definition demo_session :: reqsession where
  "demo_session = \<lparr>rs_sessionID = ''sid'', rs_identity = demo_identity, rs_token = ''token'', rs_csrfToken = ''c1''\<rparr>"

lemma demo_signed_session:
  "signedIn (st_ui demo_svstate, 10) ''sid'' = Some demo_identity" "sessionIdentity 10 ''sid'' (st_ui demo_svstate) = (Inr demo_identity, st_ui demo_svstate)"
proof -
  show 1: "signedIn (st_ui demo_svstate, 10) ''sid'' = Some demo_identity"
    using demo_signed_in by (simp add: demo_svstate_def signedIn_def live_def split: if_splits)
  then have "live (st_ui demo_svstate) 10 ''sid''" by (auto simp: signedIn_def split: if_splits)
  with 1 show "sessionIdentity 10 ''sid'' (st_ui demo_svstate) = (Inr demo_identity, st_ui demo_svstate)"
    by (simp add: sessionIdentity_cases signedIn_def)
qed

lemma demo_passes: "\<exists>st'. withSession demo_server (demo_random 10) demo_post demo_svstate = (Passed demo_session, st')"
proof -
  obtain x u where m: "MintTokenForSession demo_env 10 10 ''sid'' (st_ui demo_svstate) = (x, u)" by fastforce
  obtain s where s: "sst_sessions (ui_sessions (st_ui demo_svstate)) ''sid'' = Some s" "\<not> expiredAt s 10"
    using demo_signed_session(1) by (auto simp: signedIn_def live_def split: if_splits)
  from s m have x: "x = Inr ''token''" and u: "ui_csrf u = [''sid'' \<mapsto> ''c1'']"
    by (auto simp: MintTokenForSession_def refreshMinted_def demo_signed_session demo_env_def sess_Refresh_def Let_def) (simp_all add: demo_svstate_def)
  have "csrf_Ensure (Inr ''c2'') ''sid'' u = (Inr ''c1'', u)" by (simp add: csrf_Ensure_def u)
  then have "cookieSession demo_server (demo_random 10) ''sid'' demo_svstate = (Inr (Inr (Inr demo_session)), demo_svstate\<lparr>st_ui := u\<rparr>)"
    using m x by (simp add: cookieSession_def onUi_def demo_random_def demo_server_def demo_signed_session demo_session_def)
  then have "withSession demo_server (demo_random 10) demo_post demo_svstate = (Passed demo_session, demo_svstate\<lparr>st_ui := u\<rparr>)"
    by (simp add: withSession_def demo_post_def demo_req_def demo_words csrf_Valid_iff u requestCSRFToken_def)
  then show ?thesis by blast
qed

theorem browser_requests_authenticated_witness:
  "signedIn (st_ui demo_svstate, 10) ''sid'' = Some (rs_identity demo_session) \<and> requestCSRFToken demo_post = ''c1''"
proof -
  from demo_passes obtain st' where "withSession demo_server (demo_random 10) demo_post demo_svstate = (Passed demo_session, st')" by blast
  from browser_requests_authenticated [OF this] show ?thesis by (simp add: demo_session_def demo_random_def demo_post_def demo_req_def)
qed

theorem logout_is_final_witness:
  "signedIn (st_ui (snd (handleLogout demo_server (demo_random 10) demo_session demo_svstate)), 20) ''sid'' = None"
proof -
  obtain resp st' where h: "handleLogout demo_server (demo_random 10) demo_session demo_svstate = (resp, st')" by fastforce
  have "rs_status resp = 302"
    using h by (auto simp: handleLogout_def endSession_def onUi_def Logout_def demo_signed_session demo_session_def demo_random_def withCookie_def redirectTo_def)
  from logout_is_final [OF h this refl, of 20] h show ?thesis by (simp add: demo_session_def)
qed

definition demo_callback :: httpreq where
  "demo_callback = demo_req ''GET'' [loginStateCookieName \<mapsto> ''s1''] (\<lambda>_. '''') (\<lambda>k. if k = ''state'' then ''s1'' else if k = ''code'' then ''n1'' else '''')"

lemma demo_callback_simps: "rq_cookies demo_callback = [loginStateCookieName \<mapsto> ''s1'']" "rq_query demo_callback ''state'' = ''s1''"
  "rq_query demo_callback ''code'' = ''n1''" "rq_path demo_callback ''provider'' = ''keycloak''"
  by (simp_all add: demo_callback_def demo_req_def)

lemma demo_random_simps: "rn_now (demo_random t) = t" "rn_sid (demo_random t) = Inr ''sid2''" "rn_csrf (demo_random t) = Inr ''c2''"
  by (simp_all add: demo_random_def)

lemma demo_callback_login:
  "CompleteLogin demo_env 10 (Inr ''sid2'') \<lparr>cr_provider = ''keycloak'', cr_code = ''n1'', cr_state = ''s1'', cr_challenge = cr_challenge demo_request,
     cr_sessionTTL = 100\<rparr> u = (Inr ''sid2'', snd (CompleteLogin demo_env 10 (Inr ''sid2'') demo_request u))"
  by (simp add: demo_login_defs demo_trims)

theorem callback_bound_and_once_witness:
  "setsSession (fst (handleCompleteLogin demo_server (demo_random 10) demo_callback demo_svstate)) \<and>
   rs_status (fst (handleCompleteLogin demo_server (demo_random 11) demo_callback
     (snd (handleCompleteLogin demo_server (demo_random 10) demo_callback demo_svstate)))) = 401"
proof -
  obtain resp st' where h: "handleCompleteLogin demo_server (demo_random 10) demo_callback demo_svstate = (resp, st')" by fastforce
  have "challenge_Take 10 ''keycloak'' ''s1'' (st_ui demo_svstate) = (Some (cr_challenge demo_request), (st_ui demo_svstate)\<lparr>ui_challenges := Map.empty\<rparr>)"
    by (simp add: challenge_Take_def demo_svstate_def after_def demo_request_def)
  then have "resp = fst (afterChallenge demo_server (demo_random 10) demo_callback (cr_challenge demo_request)
      (demo_svstate\<lparr>st_ui := (st_ui demo_svstate)\<lparr>ui_challenges := Map.empty\<rparr>\<rparr>))"
    using h by (simp add: handleCompleteLogin_def demo_callback_simps demo_words onUi_def demo_random_simps)
  then have "setsSession resp"
    using cookie_names
    by (simp add: afterChallenge_def demo_callback_simps demo_words demo_trims onUi_def demo_random_simps demo_server_def demo_callback_login
        csrf_Ensure_def Let_def split: option.splits prod.splits)
  with callback_bound_and_once [OF h, of demo_callback demo_server "demo_random 11"] h show ?thesis by simp
qed

definition demo_bearer :: httpreq where
  "demo_bearer = demo_req ''POST'' Map.empty (\<lambda>h. if h = ''Authorization'' then ''Bearer dwpk_u1'' else '''') (\<lambda>_. '''')"

lemma demo_bearer_token: "bearerToken demo_uc demo_bearer = ''dwpk_u1''"
  by code_simp

lemma demo_server_simps: "sv_uc demo_server = demo_uc" "sv_apiTokens demo_server = Some mem_sec" "sv_lib demo_server = demo_authlib"
  "sv_tokenMinter demo_server = Some (\<lambda>ns sa. Inr (sa @ ''.'' @ ns, Some 900))" "sv_login demo_server s = demo_env" "sv_basePath demo_server = []"
  "sv_sessionTTL demo_server = 100" "sv_localUsers demo_server = Some mem_sec" "sv_passwordResets demo_server = Some mem_sec"
  "sv_forToken demo_server t = None"
  by (simp_all add: demo_server_def)

lemma demo_lookup: "tok_Lookup mem_sec demo_authlib 3 ''dwpk_u1'' demo_tokens = Inr (recordFromSecret demo_authlib (hd demo_tokens) TokenKindApplication)"
  by (simp add: tok_Lookup_def mem_sec_def demo_tokens_def labelOf_def tokenSecret_def demo_grant_def HashAPIToken_def dataGet_def Let_def
      tr_Expired_def recordFromSecret_def demo_authlib_def)

lemma demo_record: "tr_account (recordFromSecret demo_authlib (hd demo_tokens) TokenKindApplication) = ''dwpk-session''"
  "tr_namespace (recordFromSecret demo_authlib (hd demo_tokens) TokenKindApplication) = ''dwpk-ana''"
  by (simp_all add: recordFromSecret_def demo_tokens_def tokenSecret_def demo_grant_def dataGet_def Let_def)

lemma demo_bearer_passes:
  "withAPISession demo_server (demo_random 3) demo_bearer \<lparr>st_ui = demo_signed, st_cluster = demo_tokens\<rparr> =
     (Passed (tokenSession demo_server (recordFromSecret demo_authlib (hd demo_tokens) TokenKindApplication) ''dwpk-session.dwpk-ana'' demo_tokens),
      \<lparr>st_ui = demo_signed, st_cluster = demo_tokens\<rparr>)"
  by (simp add: withAPISession_def demo_server_simps demo_bearer_token sessionFromAPIToken_def demo_random_simps demo_lookup demo_record
      LooksLikeAPIToken_def apiTokenPrefix_def Let_def)

theorem api_requests_authenticated_witness:
  "\<exists>rec. tok_Lookup mem_sec demo_authlib 3 ''dwpk_u1'' demo_tokens = Inr rec \<and> tr_namespace rec = ''dwpk-ana''"
  using api_requests_authenticated [OF demo_bearer_passes]
  by (auto simp: demo_bearer_token demo_server_simps demo_random_simps demo_record demo_lookup split: if_splits)

definition demo_evil :: httpreq where
  "demo_evil = demo_req ''POST'' Map.empty (\<lambda>_. '''') (\<lambda>k. if k = ''next'' then CHR ''/'' # CHR 0x5C # ''evil.x'' else ''x'')"

lemma demo_evil_trim: "TrimSpace (CHR ''/'' # CHR 0x5C # ''evil.x'') = CHR ''/'' # CHR 0x5C # ''evil.x''" "TrimSpace ''x'' = ''x''"
  "list_all hostChar ''evil.x''"
  by code_simp+

theorem open_redirect_witness:
  "rs_location (fst (handleLocalLogin demo_server (demo_random 10) demo_evil demo_svstate)) = CHR ''/'' # CHR 0x5C # ''evil.x''"
proof -
  obtain resp st' where h: "handleLocalLogin demo_server (demo_random 10) demo_evil demo_svstate = (resp, st')" by fastforce
  obtain f where f: "rq_form demo_evil = Inr f" "TrimSpace (f ''next'') = CHR ''/'' # CHR 0x5C # ''evil.x''" "f ''username'' = ''x''"
    by (simp add: demo_evil_def demo_req_def demo_evil_trim)
  have "\<exists>u. CompleteLocalLogin demo_env 10 (Inr ''sid2'') ''x'' p ttl v = (Inr ''sid2'', u)" for p ttl v
    by (simp add: CompleteLocalLogin_def demo_env_def identify_def ResolveByEmail_def demo_us_def sessionIdentityFrom_def openSession_def CreateWithTTL_def
        demo_trims Let_def)
  then obtain u where "CompleteLocalLogin demo_env 10 (Inr ''sid2'') ''x'' (f ''password'') (requestedSessionTTL demo_server (f ''remember'')) (st_ui demo_svstate)
      = (Inr ''sid2'', u)" by blast
  moreover have "\<exists>x u'. csrf_Ensure (Inr ''c2'') ''sid2'' u = (Inr x, u')" by (simp add: csrf_Ensure_def split: option.splits)
  ultimately have "rs_status resp = 302" using h f
    by (auto simp: handleLocalLogin_def demo_server_simps demo_random_simps demo_env_def Let_def onUi_def demo_evil_trim withCookie_def redirectTo_def split: prod.splits)
  from open_redirect [OF demo_evil_trim(3) demo_server_simps(6) f(1,2) h this] h show ?thesis by simp
qed

end
