(* ===== verification/UiAccounts.thy ===== *)
theory UiAccounts
  imports UiServer
begin

text \<open>
  The handlers that act on credentials: API tokens (\<^verbatim>\<open>src/internal/ui/profile_tokens.go\<close> and the token routes of \<^verbatim>\<open>api.go\<close>),
  password resets (\<^verbatim>\<open>reset.go\<close>), local accounts and passwords (\<^verbatim>\<open>admin_users.go\<close>, \<^verbatim>\<open>profile.go\<close>, \<^verbatim>\<open>api_resources.go\<close>) and roles
  (\<^verbatim>\<open>admin_membership.go\<close>). They run behind the middlewares of \<open>UiServer\<close>, over the stores of \<open>Tokens\<close> and \<open>LocalUsers\<close>.
\<close>

section \<open>Gates\<close>

text \<open>\<open>None\<close> lets the caller through.\<close>

definition requireUserSpaceAdmin :: "('q, 'tok, 's) uiserver \<Rightarrow> reqsession \<Rightarrow> 's \<Rightarrow> uierr option" where
  "requireUserSpaceAdmin sv session s =
     (case sv_forToken sv (rs_token session) of
        Some err \<Rightarrow> Some (OtherErr err)
      | None \<Rightarrow>
          (case sv_canI sv (rs_token session) ''delete'' ''userspaces'' '''' s of
             Inl err \<Rightarrow> Some (KubeErr err)
           | Inr allowed \<Rightarrow> if allowed then None else Some (ApiError 403 ''administrator privileges required'')))"

definition errLocalUsersDisabled :: uierr where
  "errLocalUsersDisabled = ApiError 404 ''local user management is not enabled''"

definition requireLocalUserAdmin :: "('q, 'tok, 's) uiserver \<Rightarrow> reqsession \<Rightarrow> 's \<Rightarrow> uierr + 's sec_client" where
  "requireLocalUserAdmin sv session s =
     (case sv_localUsers sv of
        None \<Rightarrow> Inl errLocalUsersDisabled
      | Some cl \<Rightarrow> (case requireUserSpaceAdmin sv session s of Some err \<Rightarrow> Inl err | None \<Rightarrow> Inr cl))"

text \<open>The API's twin checks the client first and then the configuration.\<close>

definition serveAdminAPI :: "('q, 'tok, 's) uiserver \<Rightarrow> reqsession \<Rightarrow> 's \<Rightarrow> uierr + 's sec_client" where
  "serveAdminAPI sv session s =
     (case sv_forToken sv (rs_token session) of
        Some err \<Rightarrow> Inl (OtherErr err)
      | None \<Rightarrow>
          (case sv_localUsers sv of
             None \<Rightarrow> Inl errLocalUsersDisabled
           | Some cl \<Rightarrow>
               (case sv_canI sv (rs_token session) ''delete'' ''userspaces'' '''' s of
                  Inl err \<Rightarrow> Inl (KubeErr err)
                | Inr allowed \<Rightarrow> if allowed then Inr cl else Inl (ApiError 403 ''administrator privileges required''))))"

definition onCluster :: "('s \<Rightarrow> 'r \<times> 's) \<Rightarrow> 's svstate \<Rightarrow> 'r \<times> 's svstate" where
  "onCluster f st = (case f (st_cluster st) of (r, s) \<Rightarrow> (r, st\<lparr>st_cluster := s\<rparr>))"

section \<open>Pages\<close>

definition renderPeople :: "('q, 'tok, 's) uiserver \<Rightarrow> reqsession \<Rightarrow> message \<Rightarrow> 's \<Rightarrow> response" where
  "renderPeople sv session msg s =
     (case sv_forToken sv (rs_token session) of
        Some err \<Rightarrow> failWith sv (OtherErr err)
      | None \<Rightarrow>
          (case sv_listUserSpaces sv (rs_token session) s of
             Inl err \<Rightarrow> failWith sv (KubeErr err)
           | Inr _ \<Rightarrow>
               (case sv_localUsers sv of
                  None \<Rightarrow> respond (if msg \<noteq> NoNote then 400 else 200) (PeoplePage msg)
                | Some cl \<Rightarrow>
                    (case lu_List cl s of
                       Inl err \<Rightarrow> failWith sv (UserErr err)
                     | Inr _ \<Rightarrow> respond (if msg \<noteq> NoNote then 400 else 200) (PeoplePage msg)))))"

definition renderProfileWith :: "('q, 'tok, 's) uiserver \<Rightarrow> reqsession \<Rightarrow> message \<Rightarrow> string \<Rightarrow> 's \<Rightarrow> response" where
  "renderProfileWith sv session msg issued s =
     (case sv_profileReads sv session s of
        Some err \<Rightarrow> failWith sv err
      | None \<Rightarrow> respond (if msg \<noteq> NoNote then 400 else 200) (ProfilePage msg issued))"

definition redirectToProfileTab :: "('q, 'tok, 's) uiserver \<Rightarrow> string \<Rightarrow> string \<Rightarrow> response" where
  "redirectToProfileTab sv tab doneKey = redirectTo 303 (sv_path sv (''/profile?done='' @ QueryEscape doneKey) @ ''#'' @ tab)"

section \<open>API tokens\<close>

definition day :: duration where
  "day = 24 * 60 * 60 * 1000000000"

definition tokenExpiryFrom :: "gotime \<Rightarrow> string \<Rightarrow> gotime option" where
  "tokenExpiryFrom now choice =
     (if choice = ''never'' then None
      else if choice = ''7d'' then Some (now + 7 * day)
      else if choice = ''90d'' then Some (now + 90 * day)
      else Some (now + 30 * day))"

definition scopeOf :: "string \<Rightarrow> string" where
  "scopeOf serviceAccount = (if serviceAccount = ReadOnlySessionServiceAccountName then TokenScopeRead else TokenScopeFull)"

text \<open>The names of the caller's own tokens, none when the list cannot be read.\<close>

definition profileTokens :: "('q, 'tok, 's) uiserver \<Rightarrow> 's sec_client \<Rightarrow> reqsession \<Rightarrow> 's \<Rightarrow> (string \<times> string) list" where
  "profileTokens sv cl session s =
     (case tok_List cl (sv_lib sv) TokenKindApplication (si_userSpaceNamespace (rs_identity session)) s of
        Inl _ \<Rightarrow> []
      | Inr records \<Rightarrow> map (\<lambda>rec. (tr_secretName rec, scopeOf (tr_account rec))) records)"

definition tokenGrantFor :: "reqsession \<Rightarrow> string \<Rightarrow> gotime option \<Rightarrow> tokengrant" where
  "tokenGrantFor session scope expires =
     \<lparr>tg_kind = TokenKindApplication, tg_namespace = si_userSpaceNamespace (rs_identity session),
      tg_account = ServiceAccountForScope scope, tg_expiresAt = expires\<rparr>"

definition handleProfileIssueToken :: "('q, 'tok, 's) uiserver \<Rightarrow> reqrandom \<Rightarrow> httpreq \<Rightarrow> reqsession \<Rightarrow> 's svstate \<Rightarrow> response \<times> 's svstate" where
  "handleProfileIssueToken sv rn r session st =
     (case sv_apiTokens sv of
        None \<Rightarrow> (failWith sv (OtherErr ''API token authentication is not configured''), st)
      | Some cl \<Rightarrow>
          (case rq_form r of
             Inl _ \<Rightarrow> (failWith sv (ApiError 400 ''invalid form''), st)
           | Inr f \<Rightarrow>
               (case onCluster (tok_Issue cl (sv_lib sv) (rn_uuid rn) (rn_now rn)
                        (tokenGrantFor session (TrimSpace (f ''scope'')) (tokenExpiryFrom (rn_now rn) (TrimSpace (f ''expires''))))) st of
                  (Inl err, st1) \<Rightarrow> (renderProfileWith sv session (NoteErr (TokErr err)) '''' (st_cluster st1), st1)
                | (Inr rec, st1) \<Rightarrow> (renderProfileWith sv session NoNote (tr_plaintext rec) (st_cluster st1), st1))))"

definition handleProfileRevokeToken :: "('q, 'tok, 's) uiserver \<Rightarrow> httpreq \<Rightarrow> reqsession \<Rightarrow> 's svstate \<Rightarrow> response \<times> 's svstate" where
  "handleProfileRevokeToken sv r session st =
     (case sv_apiTokens sv of
        None \<Rightarrow> (failWith sv (OtherErr ''API token authentication is not configured''), st)
      | Some cl \<Rightarrow>
          (let name = rq_path r ''name'' in
           if name \<notin> set (map fst (profileTokens sv cl session (st_cluster st))) then (failWith sv (ApiError 404 ''no such token''), st)
           else case onCluster (tok_Revoke cl name) st of
             (Some err, st1) \<Rightarrow> (renderProfileWith sv session (NoteErr (TokErr err)) '''' (st_cluster st1), st1)
           | (None, st1) \<Rightarrow> (redirectToProfileTab sv ''api'' ''token-revoked'', st1)))"

text \<open>The API routes; \<open>body\<close> is the scope of the decoded body, absent when there is none or it cannot be decoded.\<close>

definition handleAPIListTokens :: "('q, 'tok, 's) uiserver \<Rightarrow> reqsession \<Rightarrow> 's svstate \<Rightarrow> response \<times> 's svstate" where
  "handleAPIListTokens sv session st =
     (case sv_forToken sv (rs_token session) of
        Some err \<Rightarrow> (failWith sv (OtherErr err), st)
      | None \<Rightarrow>
          (case sv_apiTokens sv of
             None \<Rightarrow> (failWith sv (OtherErr ''API token authentication is not configured''), st)
           | Some cl \<Rightarrow>
               (case tok_List cl (sv_lib sv) TokenKindApplication (si_userSpaceNamespace (rs_identity session)) (st_cluster st) of
                  Inl err \<Rightarrow> (failWith sv (TokErr err), st)
                | Inr records \<Rightarrow> (respond 200 (TokensJSON (map (\<lambda>rec. (tr_secretName rec, tr_namespace rec)) records)), st))))"

definition handleAPIIssueToken ::
    "('q, 'tok, 's) uiserver \<Rightarrow> reqrandom \<Rightarrow> httpreq \<Rightarrow> string option \<Rightarrow> reqsession \<Rightarrow> 's svstate \<Rightarrow> response \<times> 's svstate" where
  "handleAPIIssueToken sv rn r body session st =
     (case sv_forToken sv (rs_token session) of
        Some err \<Rightarrow> (failWith sv (OtherErr err), st)
      | None \<Rightarrow>
          (case sv_apiTokens sv of
             None \<Rightarrow> (failWith sv (OtherErr ''API token authentication is not configured''), st)
           | Some cl \<Rightarrow>
               (let fromBody = (case body of None \<Rightarrow> '''' | Some b \<Rightarrow> TrimSpace b);
                    scope = (if fromBody \<noteq> '''' then fromBody else TrimSpace (rq_query r ''scope''))
                in case onCluster (tok_Issue cl (sv_lib sv) (rn_uuid rn) (rn_now rn)
                          (tokenGrantFor session scope (tokenExpiryFrom (rn_now rn) (rq_query r ''expires'')))) st of
                     (Inl err, st1) \<Rightarrow> (failWith sv (TokErr err), st1)
                   | (Inr rec, st1) \<Rightarrow> (respond 201 (TokenJSON (tr_secretName rec) (tr_namespace rec) (tr_plaintext rec)), st1))))"

definition handleAPIRevokeToken :: "('q, 'tok, 's) uiserver \<Rightarrow> httpreq \<Rightarrow> reqsession \<Rightarrow> 's svstate \<Rightarrow> response \<times> 's svstate" where
  "handleAPIRevokeToken sv r session st =
     (case sv_forToken sv (rs_token session) of
        Some err \<Rightarrow> (failWith sv (OtherErr err), st)
      | None \<Rightarrow>
          (case sv_apiTokens sv of
             None \<Rightarrow> (failWith sv (OtherErr ''API token authentication is not configured''), st)
           | Some cl \<Rightarrow>
               (case tok_List cl (sv_lib sv) TokenKindApplication (si_userSpaceNamespace (rs_identity session)) (st_cluster st) of
                  Inl err \<Rightarrow> (failWith sv (TokErr err), st)
                | Inr records \<Rightarrow>
                    if rq_path r ''name'' \<notin> set (map tr_secretName records) then (failWith sv (ApiError 404 ''token not found''), st)
                    else case onCluster (tok_Revoke cl (rq_path r ''name'')) st of
                      (Some err, st1) \<Rightarrow> (failWith sv (TokErr err), st1)
                    | (None, st1) \<Rightarrow> (respond 204 NoPage, st1))))"

section \<open>Password resets\<close>

definition absoluteResetLink :: "('q, 'tok, 's) uiserver \<Rightarrow> httpreq \<Rightarrow> string \<Rightarrow> string" where
  "absoluteResetLink sv r token =
     (let scheme = (if \<not> rq_tls r \<and> \<not> EqualFold (sv_uc sv) (rq_header r ''X-Forwarded-Proto'') ''https'' then ''http'' else ''https'')
      in scheme @ ''://'' @ rq_host r @ sv_path sv (''/reset/'' @ token))"

definition handleAdminIssueReset :: "('q, 'tok, 's) uiserver \<Rightarrow> reqrandom \<Rightarrow> httpreq \<Rightarrow> reqsession \<Rightarrow> 's svstate \<Rightarrow> response \<times> 's svstate" where
  "handleAdminIssueReset sv rn r session st =
     (case requireLocalUserAdmin sv session (st_cluster st) of
        Inl err \<Rightarrow> (failWith sv err, st)
      | Inr _ \<Rightarrow>
          (case sv_passwordResets sv of
             None \<Rightarrow> (failWith sv errLocalUsersDisabled, st)
           | Some cl \<Rightarrow>
               (case onCluster (reset_Issue cl (sv_lib sv) (rn_reset rn) (rn_now rn) (rq_path r ''name'')) st of
                  (Inl err, st1) \<Rightarrow> (renderPeople sv session (NoteErr (ResetErr err)) (st_cluster st1), st1)
                | (Inr (token, expires), st1) \<Rightarrow>
                    (respond 200 (ResetLinkPage (rq_path r ''name'') (absoluteResetLink sv r token) expires), st1))))"

definition handleResetForm :: "('q, 'tok, 's) uiserver \<Rightarrow> httpreq \<Rightarrow> response" where
  "handleResetForm sv r =
     (case sv_passwordResets sv of None \<Rightarrow> failWith sv errLocalUsersDisabled | Some _ \<Rightarrow> respond 200 (ResetPage (rq_path r ''token'') True NoNote))"

definition handleResetSubmit :: "('q, 'tok, 's) uiserver \<Rightarrow> reqrandom \<Rightarrow> httpreq \<Rightarrow> 's svstate \<Rightarrow> response \<times> 's svstate" where
  "handleResetSubmit sv rn r st =
     (case (sv_passwordResets sv, sv_localUsers sv) of
        (Some resets, Some accs) \<Rightarrow>
          (case rq_form r of
             Inl _ \<Rightarrow> (failWith sv (ApiError 400 ''invalid form''), st)
           | Inr f \<Rightarrow>
               (let token = TrimSpace (f ''token''); password = f ''password'' in
                if password = '''' \<or> password \<noteq> f ''confirm''
                then (respond 400 (ResetPage token True (NoteText ''The two passwords do not match.'')), st)
                else case onCluster (reset_Redeem resets (sv_lib sv) (rn_now rn) token) st of
                  (Inl err, st1) \<Rightarrow>
                    (respond (if err = ResetTokenInvalid then 400 else 500)
                       (ResetPage '''' False (NoteText ''This link is invalid or has expired. Ask an administrator for a new one.'')), st1)
                | (Inr username, st1) \<Rightarrow>
                    (case onCluster (ResetPassword accs (sv_lib sv) (rn_salt rn) username password) st1 of
                       (Some err, st2) \<Rightarrow> (respond 400 (ResetPage '''' False (NoteErr (UserErr err))), st2)
                     | (None, st2) \<Rightarrow> (redirectTo 303 (sv_path sv ''/login''), st2))))
      | _ \<Rightarrow> (failWith sv errLocalUsersDisabled, st))"

section \<open>Local accounts\<close>

definition handleAdminCreateLocalUser :: "('q, 'tok, 's) uiserver \<Rightarrow> reqrandom \<Rightarrow> httpreq \<Rightarrow> reqsession \<Rightarrow> 's svstate \<Rightarrow> response \<times> 's svstate" where
  "handleAdminCreateLocalUser sv rn r session st =
     (case requireLocalUserAdmin sv session (st_cluster st) of
        Inl err \<Rightarrow> (failWith sv err, st)
      | Inr cl \<Rightarrow>
          (case rq_form r of
             Inl _ \<Rightarrow> (failWith sv (ApiError 400 ''invalid form''), st)
           | Inr f \<Rightarrow>
               (case onCluster (lu_Create cl (sv_uc sv) (sv_lib sv) (rn_salt rn) (TrimSpace (f ''username'')) (f ''password'') (TrimSpace (f ''owner''))) st of
                  (Inl err, st1) \<Rightarrow> (renderPeople sv session (NoteErr (UserErr err)) (st_cluster st1), st1)
                | (Inr _, st1) \<Rightarrow> (redirectTo 302 (sv_path sv ''/admin/users''), st1))))"

definition handleAdminDeleteLocalUser :: "('q, 'tok, 's) uiserver \<Rightarrow> httpreq \<Rightarrow> reqsession \<Rightarrow> 's svstate \<Rightarrow> response \<times> 's svstate" where
  "handleAdminDeleteLocalUser sv r session st =
     (case requireLocalUserAdmin sv session (st_cluster st) of
        Inl err \<Rightarrow> (failWith sv err, st)
      | Inr cl \<Rightarrow>
          (case onCluster (lu_Delete cl (rq_path r ''name'')) st of
             (Some err, st1) \<Rightarrow> (failWith sv (UserErr err), st1)
           | (None, st1) \<Rightarrow> (redirectTo 302 (sv_path sv ''/admin/users''), st1)))"

definition handleAPIListLocalUsers :: "('q, 'tok, 's) uiserver \<Rightarrow> reqsession \<Rightarrow> 's svstate \<Rightarrow> response \<times> 's svstate" where
  "handleAPIListLocalUsers sv session st =
     (case serveAdminAPI sv session (st_cluster st) of
        Inl err \<Rightarrow> (failWith sv err, st)
      | Inr cl \<Rightarrow>
          (case lu_List cl (st_cluster st) of
             Inl err \<Rightarrow> (failWith sv (UserErr err), st)
           | Inr us \<Rightarrow> (respond 200 (UsersJSON us), st)))"

text \<open>\<open>body\<close> is the decoded JSON: username, password and owner.\<close>

definition handleAPICreateLocalUser ::
    "('q, 'tok, 's) uiserver \<Rightarrow> reqrandom \<Rightarrow> string + string \<times> string \<times> string \<Rightarrow> reqsession \<Rightarrow> 's svstate \<Rightarrow> response \<times> 's svstate" where
  "handleAPICreateLocalUser sv rn body session st =
     (case serveAdminAPI sv session (st_cluster st) of
        Inl err \<Rightarrow> (failWith sv err, st)
      | Inr cl \<Rightarrow>
          (case body of
             Inl err \<Rightarrow> (failWith sv (ApiError 400 err), st)
           | Inr (username, password, owner) \<Rightarrow>
               (case onCluster (lu_Create cl (sv_uc sv) (sv_lib sv) (rn_salt rn) (TrimSpace username) password (TrimSpace owner)) st of
                  (Inl err, st1) \<Rightarrow>
                    (respond (case err of LocalUserExists _ \<Rightarrow> 409 | _ \<Rightarrow> 400) (ErrorPage (UserErr err)), st1)
                | (Inr u, st1) \<Rightarrow> (respond 201 (UserJSON u), st1))))"

definition handleAPIDeleteLocalUser :: "('q, 'tok, 's) uiserver \<Rightarrow> httpreq \<Rightarrow> reqsession \<Rightarrow> 's svstate \<Rightarrow> response \<times> 's svstate" where
  "handleAPIDeleteLocalUser sv r session st =
     (case serveAdminAPI sv session (st_cluster st) of
        Inl err \<Rightarrow> (failWith sv err, st)
      | Inr cl \<Rightarrow>
          (case onCluster (lu_Delete cl (rq_path r ''name'')) st of
             (Some err, st1) \<Rightarrow> (failWith sv (UserErr err), st1)
           | (None, st1) \<Rightarrow> (respond 204 NoPage, st1)))"

section \<open>One's own password\<close>

definition localUsernameFor :: "('q, 'tok, 's) uiserver \<Rightarrow> sessionidentity \<Rightarrow> 's \<Rightarrow> string" where
  "localUsernameFor sv identity s =
     (case sv_localUsers sv of
        None \<Rightarrow> ''''
      | Some cl \<Rightarrow>
          if si_email identity = '''' \<or> \<not> si_localLogin identity then ''''
          else case FindByOwner cl (si_email identity) s of
            Inr [u] \<Rightarrow> lu_username u
          | _ \<Rightarrow> '''')"

definition handleChangePassword :: "('q, 'tok, 's) uiserver \<Rightarrow> reqrandom \<Rightarrow> httpreq \<Rightarrow> reqsession \<Rightarrow> 's svstate \<Rightarrow> response \<times> 's svstate" where
  "handleChangePassword sv rn r session st =
     (case sv_localUsers sv of
        None \<Rightarrow> (failWith sv errLocalUsersDisabled, st)
      | Some cl \<Rightarrow>
          (case rq_form r of
             Inl _ \<Rightarrow> (failWith sv (ApiError 400 ''invalid form''), st)
           | Inr f \<Rightarrow>
               (let username = localUsernameFor sv (rs_identity session) (st_cluster st);
                    profile = (\<lambda>msg st. (renderProfileWith sv session msg '''' (st_cluster st), st)) in
                if username = '''' then (failWith sv (ApiError 403 ''this account has no password to change here''), st)
                else if f ''new_password'' \<noteq> f ''confirm_password'' then profile (NoteText ''The new passwords do not match.'') st
                else case onCluster (SetPassword cl (sv_lib sv) (rn_salt rn) username (f ''current_password'') (f ''new_password'')) st of
                  (Some err, st1) \<Rightarrow>
                    profile (if err = InvalidCredentials then NoteText ''That is not your current password.'' else NoteErr (UserErr err)) st1
                | (None, st1) \<Rightarrow> (redirectToProfileTab sv ''password'' ''password'', st1))))"

text \<open>\<open>body\<close> is the decoded JSON: the current and the new password.\<close>

definition handleAPIChangePassword ::
    "('q, 'tok, 's) uiserver \<Rightarrow> reqrandom \<Rightarrow> string + string \<times> string \<Rightarrow> reqsession \<Rightarrow> 's svstate \<Rightarrow> response \<times> 's svstate" where
  "handleAPIChangePassword sv rn body session st =
     (case sv_forToken sv (rs_token session) of
        Some err \<Rightarrow> (failWith sv (OtherErr err), st)
      | None \<Rightarrow>
          (case sv_localUsers sv of
             None \<Rightarrow> (failWith sv errLocalUsersDisabled, st)
           | Some cl \<Rightarrow>
               (let username = localUsernameFor sv (rs_identity session) (st_cluster st) in
                if username = '''' then (failWith sv (ApiError 409 ''this account has no password to change here''), st)
                else case body of
                  Inl err \<Rightarrow> (failWith sv (ApiError 400 err), st)
                | Inr (current, new) \<Rightarrow>
                    (case onCluster (SetPassword cl (sv_lib sv) (rn_salt rn) username current new) st of
                       (Some err, st1) \<Rightarrow> (respond 400 (ErrorPage (UserErr err)), st1)
                     | (None, st1) \<Rightarrow> (respond 204 NoPage, st1)))))"

section \<open>Roles\<close>

definition roleOrDefault :: "string \<Rightarrow> string" where
  "roleOrDefault role = (if role = '''' then UserSpaceRoleUser else role)"

definition isTruthy :: "ucd \<Rightarrow> string \<Rightarrow> bool" where
  "isTruthy uc v \<longleftrightarrow> ToLower uc (TrimSpace v) \<in> {''1'', ''true'', ''on'', ''yes''}"

definition membershipFromForm :: "ucd \<Rightarrow> string \<Rightarrow> string \<Rightarrow> string \<Rightarrow> uierr + membership" where
  "membershipFromForm uc name role disabled =
     (if name = '''' then Inl (ApiError 400 ''userspace name required'')
      else let role = roleOrDefault (TrimSpace role) in
        if role \<notin> {UserSpaceRoleUser, UserSpaceRoleAdmin} then Inl (ApiError 400 ''role must be one of user or admin'')
        else Inr \<lparr>mb_name = name, mb_role = role, mb_disabled = isTruthy uc disabled\<rparr>)"

definition handleAdminUpdateMembership :: "('q, 'tok, 's) uiserver \<Rightarrow> httpreq \<Rightarrow> reqsession \<Rightarrow> 's svstate \<Rightarrow> response \<times> 's svstate" where
  "handleAdminUpdateMembership sv r session st =
     (case rq_form r of
        Inl _ \<Rightarrow> (failWith sv (ApiError 400 ''invalid form''), st)
      | Inr f \<Rightarrow>
          (case membershipFromForm (sv_uc sv) (rq_path r ''name'') (f ''role'') (f ''disabled'') of
             Inl err \<Rightarrow> (failWith sv err, st)
           | Inr m \<Rightarrow>
               (case sv_forToken sv (rs_token session) of
                  Some err \<Rightarrow> (failWith sv (OtherErr err), st)
                | None \<Rightarrow>
                    (case onCluster (sv_patchMembership sv (rs_token session) m) st of
                       (Some err, st1) \<Rightarrow> (failWith sv (KubeErr err), st1)
                     | (None, st1) \<Rightarrow> (redirectTo 302 (sv_path sv ''/admin/users''), st1)))))"

definition userSpaceByName :: "('q, 'tok, 's) uiserver \<Rightarrow> string \<Rightarrow> string \<Rightarrow> 's \<Rightarrow> uierr + 'q userspace" where
  "userSpaceByName sv token name s =
     (case sv_listUserSpaces sv token s of
        Inl err \<Rightarrow> Inl (KubeErr err)
      | Inr items \<Rightarrow> (case find (\<lambda>u. us_name u = name) items of None \<Rightarrow> Inl (ApiError 404 ''userspace not found'') | Some u \<Rightarrow> Inr u))"

definition boolText :: "bool \<Rightarrow> string" where
  "boolText b = (if b then ''true'' else ''false'')"

text \<open>\<open>body\<close> is the decoded JSON: the role and the flag, each of which can be absent.\<close>

definition handleAPIAdminUpdateMembership ::
    "('q, 'tok, 's) uiserver \<Rightarrow> httpreq \<Rightarrow> string + string option \<times> bool option \<Rightarrow> reqsession \<Rightarrow> 's svstate \<Rightarrow> response \<times> 's svstate" where
  "handleAPIAdminUpdateMembership sv r body session st =
     (case sv_forToken sv (rs_token session) of
        Some err \<Rightarrow> (failWith sv (OtherErr err), st)
      | None \<Rightarrow>
          (case body of
             Inl err \<Rightarrow> (failWith sv (ApiError 400 err), st)
           | Inr (role, disabled) \<Rightarrow>
               (case userSpaceByName sv (rs_token session) (rq_path r ''name'') (st_cluster st) of
                  Inl err \<Rightarrow> (failWith sv err, st)
                | Inr current \<Rightarrow>
                    (case membershipFromForm (sv_uc sv) (rq_path r ''name'') (case role of Some v \<Rightarrow> v | None \<Rightarrow> EffectiveRole (us_spec current))
                            (boolText (case disabled of Some v \<Rightarrow> v | None \<Rightarrow> us_disabled (us_spec current))) of
                       Inl err \<Rightarrow> (failWith sv err, st)
                     | Inr m \<Rightarrow>
                         (case onCluster (sv_patchMembership sv (rs_token session) m) st of
                            (Some err, st1) \<Rightarrow> (failWith sv (KubeErr err), st1)
                          | (None, st1) \<Rightarrow> (respond 200 (MembershipJSON (mb_name m) (mb_role m) (mb_disabled m)), st1))))))"

section \<open>Lemmas\<close>

lemma onCluster_eq: "onCluster f st = (r, st') \<longleftrightarrow> (\<exists>s. f (st_cluster st) = (r, s) \<and> st' = st\<lparr>st_cluster := s\<rparr>)"
  by (auto simp: onCluster_def split: prod.splits)

lemma requireLocalUserAdmin_ok:
  "requireLocalUserAdmin sv session s = Inr cl \<Longrightarrow> sv_localUsers sv = Some cl \<and> sv_canI sv (rs_token session) ''delete'' ''userspaces'' '''' s = Inr True"
  by (auto simp: requireLocalUserAdmin_def requireUserSpaceAdmin_def split: option.splits sum.splits if_splits)

lemma serveAdminAPI_ok:
  "serveAdminAPI sv session s = Inr cl \<Longrightarrow> sv_localUsers sv = Some cl \<and> sv_canI sv (rs_token session) ''delete'' ''userspaces'' '''' s = Inr True"
  by (auto simp: serveAdminAPI_def split: option.splits sum.splits if_splits)

text \<open>The tokens a session sees are application tokens of its namespace.\<close>

lemma tok_List_own:
  assumes "sec_laws cl sec" "tok_List cl lib TokenKindApplication ns s = Inr records" "ns \<noteq> []" "n \<in> set (map tr_secretName records)"
  shows "\<exists>x. sec s n = Some x \<and> ks_labels x TokenKindLabel = Some TokenKindApplication \<and> dataGet x ''subject-namespace'' = ns"
proof -
  from assms(2) obtain xs where xs: "sc_list cl (Some (TokenKindLabel, TokenKindApplication)) s = Inr xs"
    by (auto simp: tok_List_def split: sum.splits)
  from assms(2-4) xs obtain x where "x \<in> set xs" "n = ks_name x" "dataGet x ''subject-namespace'' = ns"
    by (auto simp: tok_List_def recordFromSecret_def split: if_splits)
  with sec_laws.listed [OF assms(1) xs] show ?thesis by (auto simp: labelOf_def)
qed

lemma profileTokens_own:
  assumes "n \<in> set (map fst (profileTokens sv cl session s))"
  shows "\<exists>records. tok_List cl (sv_lib sv) TokenKindApplication (si_userSpaceNamespace (rs_identity session)) s = Inr records \<and>
    n \<in> set (map tr_secretName records)"
  using assms
  by (cases "tok_List cl (sv_lib sv) TokenKindApplication (si_userSpaceNamespace (rs_identity session)) s") (auto simp: profileTokens_def)

lemma tok_Revoke_cases: "sec_laws cl sec \<Longrightarrow> tok_Revoke cl n s = (e, s') \<Longrightarrow> sec s' = sec s \<or> sec s' = (sec s)(n := None)"
  using sec_laws.deleted [of cl sec n s] sec_laws.delete_refused [of cl sec n s]
  by (auto simp: tok_Revoke_def split: prod.splits option.splits if_splits)

text \<open>Who a session may set the password of.\<close>

lemma localUsernameFor_own:
  assumes "sec_laws cl sec" "sv_localUsers sv = Some cl" "localUsernameFor sv identity s \<noteq> ''''" "usernames_unique sec s"
    and "users sec s n = Some x" "dataGet x ''username'' = localUsernameFor sv identity s"
  shows "si_localLogin identity \<and> dataGet x ''owner'' = si_email identity"
proof -
  from assms(2,3) obtain u where u: "FindByOwner cl (si_email identity) s = Inr [u]" "localUsernameFor sv identity s = lu_username u" "si_localLogin identity"
    by (auto simp: localUsernameFor_def split: option.splits if_splits sum.splits list.splits)
  then obtain items where items: "sc_list cl userSelector s = Inr items" "filter (\<lambda>u. lu_owner u = si_email identity) (map localUserFromSecret items) = [u]"
    by (auto simp: FindByOwner_def lu_List_def split: sum.splits)
  have "u \<in> set (filter (\<lambda>u. lu_owner u = si_email identity) (map localUserFromSecret items))" unfolding items(2) by simp
  then obtain y where y: "y \<in> set items" "u = localUserFromSecret y" "lu_owner u = si_email identity" by auto
  from y(1) sec_laws.listed [OF assms(1) items(1), of y] have "users sec s (ks_name y) = Some y"
    by (auto simp: users_def labelOf_def isUser_def)
  with assms(4-6) u(2) y(2) have "ks_name y = n" unfolding usernames_unique_def by (auto simp: localUserFromSecret_def)
  with \<open>users sec s (ks_name y) = Some y\<close> assms(5) have "y = x" by simp
  with y u(3) show ?thesis by (simp add: localUserFromSecret_def)
qed

section \<open>Properties\<close>

text \<open>
  Nobody revokes somebody else's token. Whatever name is asked for, in the browser or over the API, and whatever the outcome,
  the Secrets stay as they are, or exactly the one named is gone, and that was an application token of the caller's namespace.
\<close>

theorem revoke_only_own_tokens:
  assumes "sec_laws cl sec" "sv_apiTokens sv = Some cl" "si_userSpaceNamespace (rs_identity session) \<noteq> ''''"
    and "handleAPIRevokeToken sv r session st = (resp, st') \<or> handleProfileRevokeToken sv r session st = (resp, st')"
  shows "sec (st_cluster st') = sec (st_cluster st) \<or>
    (\<exists>x. sec (st_cluster st) (rq_path r ''name'') = Some x \<and> ks_labels x TokenKindLabel = Some TokenKindApplication \<and>
       dataGet x ''subject-namespace'' = si_userSpaceNamespace (rs_identity session) \<and>
       sec (st_cluster st') = (sec (st_cluster st))(rq_path r ''name'' := None))"
proof -
  let ?n = "rq_path r ''name''" let ?ns = "si_userSpaceNamespace (rs_identity session)"
  obtain e s2 where rv: "tok_Revoke cl ?n (st_cluster st) = (e, s2)" by fastforce
  have c: "st' = st \<or> st_cluster st' = s2 \<and> (\<exists>records. tok_List cl (sv_lib sv) TokenKindApplication ?ns (st_cluster st) = Inr records \<and> ?n \<in> set (map tr_secretName records))"
    using assms(4)
  proof
    assume "handleAPIRevokeToken sv r session st = (resp, st')"
    then show ?thesis using assms(2) rv
      by (auto simp: handleAPIRevokeToken_def onCluster_def split: option.splits sum.splits if_splits)
  next
    assume "handleProfileRevokeToken sv r session st = (resp, st')"
    then show ?thesis using assms(2) rv profileTokens_own [of ?n sv cl session "st_cluster st"]
      by (cases e) (simp_all add: handleProfileRevokeToken_def onCluster_def Let_def split: if_splits, auto)
  qed
  then show ?thesis using tok_List_own [OF assms(1) _ assms(3), of "sv_lib sv" "st_cluster st" _ ?n] tok_Revoke_cases [OF assms(1) rv] by auto
qed

text \<open>
  (C36) The scope of a token does not limit what it can be turned into: a request that presents a token of the read-only account
  and asks for the full scope gets a token of the full session account of the same namespace, which never expires when it
  asks for that, and every later lookup finds it.
\<close>

theorem token_scope_escalation:
  assumes laws: "sec_laws cl sec" "sv_apiTokens sv = Some cl"
    and gate: "withAPISession sv rn r st = (Passed session, st)" "bearerToken (sv_uc sv) r \<noteq> ''''"
      "tok_Lookup cl (sv_lib sv) (rn_now rn) (bearerToken (sv_uc sv) r) (st_cluster st) = Inr rec" "tr_account rec = ReadOnlySessionServiceAccountName"
    and ask: "TrimSpace (rq_query r ''scope'') = TokenScopeFull" "rq_query r ''expires'' = ''never''"
    and run: "handleAPIIssueToken sv rn r None session st = (resp, st')" "rs_page resp = TokenJSON nm ns p" "sc_list cl None (st_cluster st') = Inr xs"
    and fresh: "\<And>n x. sec (st_cluster st) n = Some x \<Longrightarrow> \<not> isTokenFor (sv_lib sv) p x" "al_parse (sv_lib sv) '''' = None"
  shows "\<exists>rec'. tok_Lookup cl (sv_lib sv) later p (st_cluster st') = Inr rec' \<and> tr_account rec' = SessionServiceAccountName \<and>
    tr_namespace rec' = tr_namespace rec \<and> tr_expiresAt rec' = None"
proof -
  let ?g = "tokenGrantFor session TokenScopeFull None" let ?s = "st_cluster st'"
  have ns: "si_userSpaceNamespace (rs_identity session) = tr_namespace rec"
    using withAPISession_cases [OF gate(1)] gate(2,3) laws(2) by (auto dest: sessionFromAPIToken_ok)
  have g: "tokenGrantFor session (TrimSpace (rq_query r ''scope'')) (tokenExpiryFrom (rn_now rn) (rq_query r ''expires'')) = ?g"
    by (simp add: ask tokenExpiryFrom_def)
  obtain x s2 where t: "tok_Issue cl (sv_lib sv) (rn_uuid rn) (rn_now rn) ?g (st_cluster st) = (x, s2)" by fastforce
  with run(1,2) laws(2) g obtain r2 where r2: "x = Inr r2" "tr_plaintext r2 = p" "?s = s2"
    by (cases x) (auto simp: handleAPIIssueToken_def onCluster_def failWith_def respond_def split: option.splits)
  let ?x = "(tokenSecret (sv_lib sv) p (rn_now rn) ?g)\<lparr>ks_name := tr_secretName r2\<rparr>"
  from tok_Issue_stored(3) [OF laws(1) t [unfolded r2(1)]] r2 have st: "sec ?s = (sec (st_cluster st))(tr_secretName r2 \<mapsto> ?x)" by simp
  have only: "m = tr_secretName r2" if "sec ?s m = Some y" "isTokenFor (sv_lib sv) p y" for m y
    using that fresh(1) by (auto simp: st split: if_splits)
  have x: "ks_labels ?x TokenKindLabel = Some TokenKindApplication" "dataGet ?x ''hash'' = HashAPIToken (sv_lib sv) p"
    "recordFromSecret (sv_lib sv) ?x TokenKindApplication = \<lparr>tr_secretName = tr_secretName r2, tr_kind = TokenKindApplication, tr_namespace = tr_namespace rec,
       tr_account = SessionServiceAccountName, tr_createdAt = al_parse (sv_lib sv) (al_format (sv_lib sv) (rn_now rn)), tr_expiresAt = None, tr_plaintext = []\<rparr>"
    by (simp_all add: tokenSecret_def dataGet_def Let_def tokenGrantFor_def recordFromSecret_def ns ServiceAccountForScope_def fresh(2))
  have m: "sec ?s (tr_secretName r2) = Some ?x" by (simp add: st)
  from tok_Lookup_one [where now = later, OF laws(1) run(3) m x(1,2) only] show ?thesis unfolding x(3) by (simp add: tr_Expired_def)
qed

text \<open>
  A password change touches one's own account only: both handlers leave every Secret as it is, unless the session was opened
  with a password; then at most one account changes, it belongs to the session's owner, only its password hash is new, and the
  current password that was sent is right.
\<close>

theorem password_change_own_only:
  assumes laws: "sec_laws cl sec" "sv_localUsers sv = Some cl" "usernames_unique sec (st_cluster st)"
    and "handleChangePassword sv rn r session st = (resp, st') \<and> rq_form r = Inr f \<and> cur = f ''current_password'' \<and> new = f ''new_password'' \<or>
      handleAPIChangePassword sv rn (Inr (cur, new)) session st = (resp, st')"
  shows "sec (st_cluster st') = sec (st_cluster st) \<or>
    (\<exists>x h. si_localLogin (rs_identity session) \<and> users sec (st_cluster st) (ks_name x) = Some x \<and> dataGet x ''owner'' = si_email (rs_identity session) \<and>
       al_bcryptCompare (sv_lib sv) (dataGet x ''password-hash'') cur \<and> al_bcryptHash (sv_lib sv) (rn_salt rn) new = Inr h \<and>
       sec (st_cluster st') = (sec (st_cluster st))(ks_name x \<mapsto> withHash x h))"
proof -
  let ?u = "localUsernameFor sv (rs_identity session) (st_cluster st)"
  obtain e s2 where p: "SetPassword cl (sv_lib sv) (rn_salt rn) ?u cur new (st_cluster st) = (e, s2)" by fastforce
  have "st' = st \<or> ?u \<noteq> '''' \<and> st_cluster st' = s2"
    using assms(4)
  proof
    assume "handleChangePassword sv rn r session st = (resp, st') \<and> rq_form r = Inr f \<and> cur = f ''current_password'' \<and> new = f ''new_password''"
    then show ?thesis using laws(2) p by (cases e) (auto simp: handleChangePassword_def onCluster_def Let_def split: if_splits)
  next
    assume "handleAPIChangePassword sv rn (Inr (cur, new)) session st = (resp, st')"
    then show ?thesis using laws(2) p by (cases e) (auto simp: handleAPIChangePassword_def onCluster_def Let_def split: if_splits option.splits)
  qed
  then show ?thesis
    using sec_laws.SetPassword_cases [OF laws(1) p] localUsernameFor_own [OF laws(1,2) _ laws(3)] by auto
qed

text \<open>
  (C35) The five routes that manage the accounts of others are for administrators: creating or deleting a local account, by form or over the
  API, and issuing a reset link change the cluster only when the API server grants the caller's own credential the deletion of
  UserSpaces. Changing one's own password and redeeming a reset link are not among them.
\<close>

theorem accounts_admin_only:
  assumes "(resp, st') \<in> {handleAdminCreateLocalUser sv rn r session st, handleAdminDeleteLocalUser sv r session st, handleAdminIssueReset sv rn r session st,
      handleAPICreateLocalUser sv rn body session st, handleAPIDeleteLocalUser sv r session st}"
    and "st_cluster st' \<noteq> st_cluster st"
  shows "sv_canI sv (rs_token session) ''delete'' ''userspaces'' '''' (st_cluster st) = Inr True"
proof -
  consider cl where "requireLocalUserAdmin sv session (st_cluster st) = Inr cl" | cl where "serveAdminAPI sv session (st_cluster st) = Inr cl"
    | e1 e2 where "requireLocalUserAdmin sv session (st_cluster st) = Inl e1" "serveAdminAPI sv session (st_cluster st) = Inl e2"
    by (cases "requireLocalUserAdmin sv session (st_cluster st)"; cases "serveAdminAPI sv session (st_cluster st)") auto
  then show ?thesis
  proof cases
    case 3
    with assms have False
      by (auto simp: handleAdminCreateLocalUser_def handleAdminDeleteLocalUser_def handleAdminIssueReset_def handleAPICreateLocalUser_def handleAPIDeleteLocalUser_def)
    then show ?thesis ..
  qed (auto dest: requireLocalUserAdmin_ok serveAdminAPI_ok)
qed

text \<open>The record of a reset link after its issue and after its redemption.\<close>

lemma issued_redeemed:
  assumes "sec_laws cl sec" "reset_Issue cl lib random now u s = (Inr (p, e), s1)" "\<And>n x. sec s n = Some x \<Longrightarrow> \<not> isLinkFor lib p x"
    and "reset_Redeem cl lib t p s1 = (Inr name, s2)" "sec s2 n = Some x"
  shows "name = u \<and> sec s n = Some x \<and> \<not> isLinkFor lib p x"
proof -
  from sec_laws.reset_Issue_ok [OF assms(1,2)] obtain m s0 where c: "clearStaleAndPrevious cl lib now u s = (None, s0)"
    and st: "sec s1 = (sec s0)(m \<mapsto> (resetSecret lib u p e)\<lparr>ks_name := m\<rparr>)" by blast
  have old: "sec s k = Some y" if "sec s0 k = Some y" for k y
    using that sec_laws.clear_ok [OF assms(1) c, of k] by (auto split: option.splits if_splits)
  let ?x = "(resetSecret lib u p e)\<lparr>ks_name := m\<rparr>"
  have x: "sec s1 m = Some ?x" "isLinkFor lib p ?x" by (simp_all add: st isLinkFor_def)
  have only: "k = m" if "sec s1 k = Some y" "isLinkFor lib p y" for k y
    using that old assms(3) by (auto simp: st split: if_splits)
  from assms(4) obtain xs where xs: "sc_list cl (Some (ResetTokenLabel, ''true'')) s1 = Inr xs" and cs: "reset_consume cl lib t (reset_match lib p xs) s1 = (Inr name, s2)"
    by (auto simp: reset_Redeem_def split: if_splits sum.splits)
  have "reset_match lib p xs = Some ?x" by (rule reset_match_one [OF assms(1) xs x only])
  with reset_consume_gone [OF assms(1), of lib t ?x s1 "Inr name" s2] cs have g: "name = u" "sec s2 = (sec s1)(m := None)"
    by (auto split: if_splits)
  with assms(5) have "n \<noteq> m" "sec s0 n = Some x" by (auto simp: st split: if_splits)
  with g old assms(3) show ?thesis by blast
qed

lemma usernames_unique_sub:
  "usernames_unique sec s \<Longrightarrow> (\<And>n x. sec s' n = Some x \<Longrightarrow> sec s n = Some x) \<Longrightarrow> usernames_unique sec s'"
  unfolding usernames_unique_def users_def by (smt (verit) option.case_eq_if option.collapse option.sel option.simps(3))

lemma handleResetSubmit_ok:
  assumes "handleResetSubmit sv rn r st = (resp, st')" "rs_status resp = 303" "sv_passwordResets sv = Some cl" "sv_localUsers sv = Some cl" "rq_form r = Inr f"
  shows "\<exists>u s1 s2. reset_Redeem cl (sv_lib sv) (rn_now rn) (TrimSpace (f ''token'')) (st_cluster st) = (Inr u, s1) \<and>
    ResetPassword cl (sv_lib sv) (rn_salt rn) u (f ''password'') s1 = (None, s2) \<and> st_cluster st' = s2 \<and> f ''password'' \<noteq> ''''"
proof -
  obtain x s1 where 1: "reset_Redeem cl (sv_lib sv) (rn_now rn) (TrimSpace (f ''token'')) (st_cluster st) = (x, s1)" by fastforce
  show ?thesis
  proof (cases x)
    case (Inl e)
    with 1 assms show ?thesis by (auto simp: handleResetSubmit_def onCluster_def respond_def Let_def split: if_splits)
  next
    case (Inr u)
    obtain e s2 where 2: "ResetPassword cl (sv_lib sv) (rn_salt rn) u (f ''password'') s1 = (e, s2)" by fastforce
    show ?thesis using 1 2 Inr assms by (cases e) (auto simp: handleResetSubmit_def onCluster_def respond_def Let_def split: if_splits)
  qed
qed

lemma handleAdminIssueReset_ok:
  assumes "handleAdminIssueReset sv rn r session st = (resp, st1)" "rs_page resp = ResetLinkPage u link e" "rn_reset rn = Inr p" "sv_passwordResets sv = Some cl"
  shows "reset_Issue cl (sv_lib sv) (Inr p) (rn_now rn) u (st_cluster st) = (Inr (p, e), st_cluster st1)"
proof -
  obtain x s0 where i: "reset_Issue cl (sv_lib sv) (rn_reset rn) (rn_now rn) (rq_path r ''name'') (st_cluster st) = (x, s0)" by fastforce
  show ?thesis
  proof (cases x)
    case (Inl err)
    with i assms show ?thesis
      by (auto simp: handleAdminIssueReset_def onCluster_def renderPeople_def failWith_def respond_def split: sum.splits option.splits if_splits)
  next
    case (Inr te)
    with i assms have "u = rq_path r ''name'' \<and> snd te = e \<and> st_cluster st1 = s0"
      by (cases te) (auto simp: handleAdminIssueReset_def onCluster_def failWith_def respond_def split: sum.splits option.splits if_splits)
    moreover from i Inr assms(3) have "fst te = p"
      by (auto simp: reset_Issue_def Let_def split: prod.splits option.splits sum.splits)
    ultimately show ?thesis using i Inr assms(3) by (cases te) simp
  qed
qed

text \<open>
  A reset link restores access, once: when an administrator's request was answered with a link for an account and that link's
  token is submitted with a new password and the answer is the redirect to the sign-in page, then signing in as that account
  with the new password succeeds; submitting the same token again never succeeds.
\<close>

theorem reset_link_restores_access:
  assumes laws: "sec_laws cl sec" "bcrypt_law (sv_lib sv)" "sv_passwordResets sv = Some cl" "sv_localUsers sv = Some cl" "usernames_unique sec (st_cluster st)"
    and issue: "handleAdminIssueReset sv rn r session st = (resp, st1)" "rs_page resp = ResetLinkPage u link e" "rn_reset rn = Inr p"
      "\<And>n x. sec (st_cluster st) n = Some x \<Longrightarrow> \<not> isLinkFor (sv_lib sv) p x"
    and submit: "rq_form r2 = Inr f" "TrimSpace (f ''token'') = p" "handleResetSubmit sv rn2 r2 st1 = (resp2, st2)" "rs_status resp2 = 303"
    and name: "TrimSpace u = u" "u \<noteq> ''''" "sc_list cl userSelector (st_cluster st2) = Inr xs"
  shows "(\<exists>a. lu_Verify cl uc (sv_lib sv) u (f ''password'') (st_cluster st2) = Inr a \<and> lu_username a = u) \<and>
    rs_status (fst (handleResetSubmit sv rn3 r2 st2)) \<noteq> 303"
proof -
  let ?lib = "sv_lib sv"
  note i2 = handleAdminIssueReset_ok [OF issue(1-3) laws(3)]
  from handleResetSubmit_ok [OF submit(3,4) laws(3,4) submit(1)] submit(2) obtain v s1 where
    rd: "reset_Redeem cl ?lib (rn_now rn2) p (st_cluster st1) = (Inr v, s1)"
    and rp: "ResetPassword cl ?lib (rn_salt rn2) v (f ''password'') s1 = (None, st_cluster st2)" by auto
  have sub: "v = u \<and> sec (st_cluster st) n = Some x \<and> \<not> isLinkFor ?lib p x" if "sec s1 n = Some x" for n x
    by (rule issued_redeemed [OF laws(1) i2 _ rd that]) (rule issue(4))
  from sec_laws.ResetPassword_cases [OF laws(1) rp] obtain y h where y: "users sec s1 (ks_name y) = Some y" "dataGet y ''username'' = v"
    and h: "al_bcryptHash ?lib (rn_salt rn2) (f ''password'') = Inr h" and st2: "sec (st_cluster st2) = (sec s1)(ks_name y \<mapsto> withHash y h)" by auto
  from y(1) have sy: "sec s1 (ks_name y) = Some y" "isUser y" by (auto simp: users_def split: option.splits if_splits)
  have v: "v = u" using sub [OF sy(1)] by simp
  have un: "usernames_unique sec s1" using usernames_unique_sub [OF laws(5)] sub by blast
  have "lu_Verify cl uc ?lib u (f ''password'') (st_cluster st2) = Inr (localUserFromSecret (withHash y h))"
    using sec_laws.verify_account [OF laws(1) name(3) sec_laws.unique_rehash [OF laws(1) un y(1) st2], of "ks_name y" "withHash y h" u ?lib "f ''password''" uc]
      users_upd(1) [OF st2] sy(2) y(2) v h laws(2) name(1,2) by (simp add: bcrypt_law_def)
  moreover have "\<not> isLinkFor ?lib p z" if "sec (st_cluster st2) k = Some z" for k z
    using that sub [of k z] sub [OF sy(1)] by (auto simp: st2 isLinkFor_def isReset_def withHash_def dataGet_def split: if_splits)
  then have "\<exists>err. fst (reset_Redeem cl ?lib (rn_now rn3) p (st_cluster st2)) = Inl err"
    using reset_Redeem_none [OF laws(1)] by (metis prod.collapse)
  then have "rs_status (fst (handleResetSubmit sv rn3 r2 st2)) \<noteq> 303"
    using handleResetSubmit_ok [of sv rn3 r2 st2 _ _ cl f] laws(3,4) submit(1,2) by (metis Inl_Inr_False fst_conv prod.collapse)
  ultimately show ?thesis using y(2) v by (auto simp: localUserFromSecret_def)
qed

section \<open>Witnesses\<close>

definition demo_as :: "string \<Rightarrow> sessionidentity \<Rightarrow> reqsession" where
  "demo_as tok i = \<lparr>rs_sessionID = '''', rs_identity = i, rs_token = tok, rs_csrfToken = ''''\<rparr>"

theorem revoke_only_own_tokens_witness:
  "memFind (st_cluster (snd (handleAPIRevokeToken demo_server (demo_bearer\<lparr>rq_path := (\<lambda>_. ''dwpk-token-0'')\<rparr>)
     (demo_as ''t'' (emptyIdentity ''dwpk-eve'')) \<lparr>st_ui = demo_signed, st_cluster = demo_tokens\<rparr>))) = memFind demo_tokens"
proof -
  let ?r = "demo_bearer\<lparr>rq_path := (\<lambda>_. ''dwpk-token-0'')\<rparr>" let ?s = "demo_as ''t'' (emptyIdentity ''dwpk-eve'')"
  obtain resp st' where h: "handleAPIRevokeToken demo_server ?r ?s \<lparr>st_ui = demo_signed, st_cluster = demo_tokens\<rparr> = (resp, st')" by fastforce
  have "memFind demo_tokens ''dwpk-token-0'' = Some x \<Longrightarrow> dataGet x ''subject-namespace'' = ''dwpk-ana''" for x
    by (auto simp: memFind_def demo_tokens_def tokenSecret_def demo_grant_def dataGet_def Let_def)
  then show ?thesis
    using revoke_only_own_tokens [OF mem_sec_laws demo_server_simps(2) _ disjI1 [OF h]] h by (auto simp: demo_as_def emptyIdentity_def)
qed

text \<open>A token of the read-only account asks for the full scope.\<close>

definition demo_ro :: "ksecret list" where
  "demo_ro = [(tokenSecret demo_authlib ''dwpk_u1'' 2000000000 (demo_grant\<lparr>tg_account := ReadOnlySessionServiceAccountName\<rparr>))\<lparr>ks_name := ''dwpk-token-0''\<rparr>]"

definition demo_ask :: httpreq where
  "demo_ask = demo_bearer\<lparr>rq_query := (\<lambda>k. if k = ''scope'' then ''full'' else if k = ''expires'' then ''never'' else '''')\<rparr>"

lemma demo_ask_simps: "bearerToken demo_uc demo_ask = ''dwpk_u1''" "TrimSpace (rq_query demo_ask ''scope'') = TokenScopeFull" "rq_query demo_ask ''expires'' = ''never''"
proof -
  show "bearerToken demo_uc demo_ask = ''dwpk_u1''" by (simp only: demo_bearer_token [symmetric]) (simp add: demo_ask_def bearerToken_def)
  have "TrimSpace ''full'' = TokenScopeFull" by code_simp
  then show "TrimSpace (rq_query demo_ask ''scope'') = TokenScopeFull" "rq_query demo_ask ''expires'' = ''never''" by (simp_all add: demo_ask_def)
qed

lemma demo_ro_lookup:
  "\<exists>rec. tok_Lookup mem_sec demo_authlib 3 ''dwpk_u1'' demo_ro = Inr rec \<and> tr_account rec = ReadOnlySessionServiceAccountName \<and> tr_namespace rec = ''dwpk-ana''"
  by (simp add: tok_Lookup_def mem_sec_def demo_ro_def labelOf_def tokenSecret_def demo_grant_def HashAPIToken_def dataGet_def Let_def
      tr_Expired_def recordFromSecret_def demo_authlib_def)

lemma demo_ro_passes: "\<exists>session. withAPISession demo_server (demo_random 3) demo_ask \<lparr>st_ui = demo_signed, st_cluster = demo_ro\<rparr> =
    (Passed session, \<lparr>st_ui = demo_signed, st_cluster = demo_ro\<rparr>)"
  using demo_ro_lookup
  by (auto simp: withAPISession_def demo_server_simps demo_ask_simps sessionFromAPIToken_def demo_random_simps LooksLikeAPIToken_def apiTokenPrefix_def Let_def)

theorem token_scope_escalation_witness:
  "\<exists>s rec'. tok_Lookup mem_sec demo_authlib 99 ''dwpk_u2'' s = Inr rec' \<and> tr_account rec' = SessionServiceAccountName \<and> tr_namespace rec' = ''dwpk-ana'' \<and> tr_expiresAt rec' = None"
proof -
  let ?st = "\<lparr>st_ui = demo_signed, st_cluster = demo_ro\<rparr>"
  from demo_ro_passes obtain session where g: "withAPISession demo_server (demo_random 3) demo_ask ?st = (Passed session, ?st)" by blast
  from demo_ro_lookup obtain rec where rec: "tok_Lookup mem_sec demo_authlib 3 ''dwpk_u1'' demo_ro = Inr rec" "tr_account rec = ReadOnlySessionServiceAccountName"
    "tr_namespace rec = ''dwpk-ana''" by blast
  let ?x = "tokenSecret demo_authlib ''dwpk_u2'' 3 (tokenGrantFor session TokenScopeFull None)"
  have c: "sc_create mem_sec ?x demo_ro = (Inr (freshName ''dwpk-token-'' demo_ro), demo_ro @ [?x\<lparr>ks_name := freshName ''dwpk-token-'' demo_ro\<rparr>])"
    using freshName_fresh [of "''dwpk-token-''" demo_ro] by (simp add: mem_sec_def tokenSecret_def Let_def)
  obtain resp st' where h: "handleAPIIssueToken demo_server (demo_random 3) demo_ask None session ?st = (resp, st')" by fastforce
  have p: "rs_page resp = TokenJSON (freshName ''dwpk-token-'' demo_ro) (si_userSpaceNamespace (rs_identity session)) ''dwpk_u2''"
    and s: "st_cluster st' = demo_ro @ [?x\<lparr>ks_name := freshName ''dwpk-token-'' demo_ro\<rparr>]"
    using h c by (auto simp: handleAPIIssueToken_def demo_server_simps demo_ask_simps onCluster_def tok_Issue_def demo_random_def GenerateAPIToken_def
        apiTokenPrefix_def tokenExpiryFrom_def respond_def Let_def tokenGrantFor_def)
  have d: "sc_list mem_sec None (st_cluster st') = Inr (st_cluster st')"
    using freshName_fresh [of "''dwpk-token-''" demo_ro] by (simp add: s mem_sec_def labelOf_def) (simp add: demo_ro_def)
  have f: "\<not> isTokenFor (sv_lib demo_server) ''dwpk_u2'' x" if "memFind (st_cluster ?st) n = Some x" for n x
    using that by (auto simp: memFind_def demo_ro_def isTokenFor_def tokenSecret_def dataGet_def Let_def demo_server_simps HashAPIToken_def demo_authlib_def demo_grant_def split: if_splits)
  have b: "bearerToken (sv_uc demo_server) demo_ask \<noteq> ''''"
      "tok_Lookup mem_sec (sv_lib demo_server) (rn_now (demo_random 3)) (bearerToken (sv_uc demo_server) demo_ask) (st_cluster ?st) = Inr rec"
      "al_parse (sv_lib demo_server) [] = None"
    using rec demo_parse_empty by (simp_all add: demo_server_simps demo_ask_simps demo_random_simps)
  have "\<exists>rec'. tok_Lookup mem_sec (sv_lib demo_server) 99 ''dwpk_u2'' (st_cluster st') = Inr rec' \<and> tr_account rec' = SessionServiceAccountName \<and>
      tr_namespace rec' = tr_namespace rec \<and> tr_expiresAt rec' = None"
    by (rule token_scope_escalation [OF mem_sec_laws demo_server_simps(2) g b(1,2) rec(2) demo_ask_simps(2,3) h p d _ b(3)]) (rule f)
  with rec(3) show ?thesis by (auto simp: demo_server_simps)
qed

theorem accounts_admin_only_witness: "sv_canI demo_server ''admin'' ''delete'' ''userspaces'' '''' demo_users = Inr True"
proof -
  let ?st = "\<lparr>st_ui = demo_signed, st_cluster = demo_users\<rparr>" let ?r = "demo_bearer\<lparr>rq_path := (\<lambda>_. ''a'')\<rparr>"
  obtain resp st' where h: "handleAdminDeleteLocalUser demo_server ?r (demo_as ''admin'' demo_identity) ?st = (resp, st')" by fastforce
  have "lu_Delete mem_sec ''a'' demo_users = (None, [demo_account ''b'' ''bob'' ''pw2'' ''ana@x''])"
    by (simp add: lu_Delete_def mem_sec_def demo_users_def)
  with h have "st_cluster st' = [demo_account ''b'' ''bob'' ''pw2'' ''ana@x'']"
    by (auto simp: handleAdminDeleteLocalUser_def requireLocalUserAdmin_def requireUserSpaceAdmin_def demo_server_def demo_as_def onCluster_def)
  then have "st_cluster st' \<noteq> st_cluster ?st" by (simp add: demo_users_def)
  from accounts_admin_only [OF _ this, of resp demo_server undefined ?r "demo_as ''admin'' demo_identity" undefined] h show ?thesis
    by (simp add: demo_as_def)
qed

text \<open>One account, its owner signed in with a password.\<close>

definition demo_mine :: "ksecret list" where
  "demo_mine = [demo_account ''a'' ''ana'' ''pw1'' ''ana@x.io'']"

lemma demo_mine_unique: "usernames_unique memFind demo_mine"
  by (auto simp: usernames_unique_def users_def demo_mine_def memFind_def split: option.splits if_splits)

theorem password_change_own_only_witness:
  "memFind (st_cluster (snd (handleAPIChangePassword demo_server (demo_random 3) (Inr (''wrong'', ''new'')) (demo_as ''t'' (demo_identity\<lparr>si_localLogin := True\<rparr>))
     \<lparr>st_ui = demo_signed, st_cluster = demo_mine\<rparr>))) = memFind demo_mine"
proof -
  let ?st = "\<lparr>st_ui = demo_signed, st_cluster = demo_mine\<rparr>" let ?s = "demo_as ''t'' (demo_identity\<lparr>si_localLogin := True\<rparr>)"
  obtain resp st' where h: "handleAPIChangePassword demo_server (demo_random 3) (Inr (''wrong'', ''new'')) ?s ?st = (resp, st')" by fastforce
  have "\<not> al_bcryptCompare (sv_lib demo_server) (dataGet x ''password-hash'') ''wrong''" if "users memFind demo_mine n = Some x" for n x
    using that by (auto simp: users_def demo_mine_def memFind_def demo_server_simps demo_authlib_def split: option.splits if_splits)
  then show ?thesis
    using password_change_own_only [OF mem_sec_laws demo_server_simps(8), of ?st "demo_random 3" undefined ?s resp st' undefined "''wrong''" "''new''"] demo_mine_unique h
    by auto
qed

text \<open>An administrator issues a link for that account and its owner uses it.\<close>

definition demo_link_name :: string where
  "demo_link_name = freshName ''dwpk-password-reset-'' demo_mine"

definition demo_mine_link :: ksecret where
  "demo_mine_link = demo_link demo_link_name ''ana'' ''r2'' (5000000000 + resetTokenTTL)"

lemma demo_link_name_neq: "demo_link_name \<noteq> ''a''"
  using freshName_fresh [of "''dwpk-password-reset-''" demo_mine] by (simp add: demo_link_name_def demo_mine_def)

lemma demo_mine_no_reset: "\<not> labelOf (Some (ResetTokenLabel, ''true'')) (demo_account n u p own)"
  by (simp add: labelOf_def demo_account_def userSecret_def ResetTokenLabel_def LocalUserLabel_def)

lemma demo_mine_issue: "reset_Issue mem_sec demo_authlib (Inr ''r2'') 5000000000 ''ana'' demo_mine = (Inr (''r2'', 5000000000 + resetTokenTTL), demo_mine @ [demo_mine_link])"
proof -
  have "clearStaleAndPrevious mem_sec demo_authlib 5000000000 ''ana'' demo_mine = (None, demo_mine)"
    by (simp add: clearStaleAndPrevious_def mem_sec_def demo_mine_def demo_mine_no_reset)
  moreover have "sc_create mem_sec (resetSecret demo_authlib ''ana'' ''r2'' (5000000000 + resetTokenTTL)) demo_mine = (Inr demo_link_name, demo_mine @ [demo_mine_link])"
    using freshName_fresh [of "''dwpk-password-reset-''" demo_mine]
    by (simp add: mem_sec_def Let_def resetSecret_def demo_mine_link_def demo_link_def demo_link_name_def)
  ultimately show ?thesis by (simp add: reset_Issue_def Let_def)
qed

lemma demo_mine_redeem: "reset_Redeem mem_sec demo_authlib 6000000000 ''r2'' (demo_mine @ [demo_mine_link]) = (Inr ''ana'', demo_mine)"
proof -
  have l: "labelOf (Some (ResetTokenLabel, ''true'')) demo_mine_link" "ks_name demo_mine_link = demo_link_name" "dataGet demo_mine_link ''username'' = ''ana''"
    "dataGet demo_mine_link ''token-hash'' = ''r2''" by (simp_all add: demo_mine_link_def)
  have e: "\<not> reset_expired demo_authlib 6000000000 demo_mine_link"
    unfolding demo_mine_link_def by (subst demo_link_simps(5)) (simp_all add: resetTokenTTL_def wholeSecond_def)
  have "sc_list mem_sec (Some (ResetTokenLabel, ''true'')) (demo_mine @ [demo_mine_link]) = Inr [demo_mine_link]"
    using demo_link_name_neq l by (simp add: mem_sec_def demo_mine_def demo_mine_no_reset)
  moreover have "reset_match demo_authlib ''r2'' [demo_mine_link] = Some demo_mine_link"
    by (simp add: reset_match_def l hashToken_def demo_authlib_def)
  moreover have "sc_delete mem_sec demo_link_name (demo_mine @ [demo_mine_link]) = (None, demo_mine)"
    using demo_link_name_neq l by (simp add: mem_sec_def demo_mine_def)
  ultimately show ?thesis by (simp add: reset_Redeem_def reset_consume_def e l)
qed

lemma demo_mine_reset: "\<exists>s. ResetPassword mem_sec demo_authlib ''salt'' ''ana'' ''new'' demo_mine = (None, s) \<and> (\<exists>xs. sc_list mem_sec userSelector s = Inr xs)"
proof -
  have "findByUsername mem_sec ''ana'' demo_mine = Inr (demo_account ''a'' ''ana'' ''pw1'' ''ana@x.io'')"
    by (simp add: findByUsername_def mem_sec_def demo_mine_def)
  moreover have "HashPassword demo_authlib ''salt'' ''new'' = Inr ''bnew''" by (simp add: HashPassword_def demo_authlib_def)
  ultimately show ?thesis by (simp add: ResetPassword_def writePassword_def) (simp add: mem_sec_def demo_mine_def withHash_def)
qed

definition demo_reset_form :: "string \<Rightarrow> string" where
  "demo_reset_form k = (if k = ''token'' then ''r2'' else ''new'')"

theorem reset_link_restores_access_witness:
  "\<exists>s a. lu_Verify mem_sec demo_uc demo_authlib ''ana'' ''new'' s = Inr a \<and> lu_username a = ''ana''"
proof -
  let ?st = "\<lparr>st_ui = demo_signed, st_cluster = demo_mine\<rparr>" let ?r = "demo_bearer\<lparr>rq_path := (\<lambda>_. ''ana'')\<rparr>"
  let ?r2 = "demo_bearer\<lparr>rq_form := Inr demo_reset_form\<rparr>" let ?admin = "demo_as ''admin'' demo_identity"
  let ?st1 = "\<lparr>st_ui = demo_signed, st_cluster = demo_mine @ [demo_mine_link]\<rparr>"
  have i: "handleAdminIssueReset demo_server (demo_random 5000000000) ?r ?admin ?st =
      (respond 200 (ResetLinkPage ''ana'' (absoluteResetLink demo_server ?r ''r2'') (5000000000 + resetTokenTTL)), ?st1)"
    using demo_mine_issue
    by (simp add: handleAdminIssueReset_def requireLocalUserAdmin_def requireUserSpaceAdmin_def demo_server_def demo_as_def onCluster_def demo_random_def)
  have t: "TrimSpace ''r2'' = ''r2''" "TrimSpace ''ana'' = ''ana''" by code_simp+
  from demo_mine_reset obtain s xs where s: "ResetPassword mem_sec demo_authlib ''salt'' ''ana'' ''new'' demo_mine = (None, s)" "sc_list mem_sec userSelector s = Inr xs" by blast
  have h: "handleResetSubmit demo_server (demo_random 6000000000) ?r2 ?st1 = (redirectTo 303 ''/login'', \<lparr>st_ui = demo_signed, st_cluster = s\<rparr>)"
    using demo_mine_redeem s(1)
    by (simp add: handleResetSubmit_def demo_server_simps demo_reset_form_def t onCluster_def demo_random_def sv_path_def)
  have f: "\<not> isLinkFor (sv_lib demo_server) ''r2'' x" if "memFind (st_cluster ?st) n = Some x" for n x
    using that demo_mine_no_reset by (auto simp: memFind_def demo_mine_def isLinkFor_def isReset_def labelOf_def split: if_splits)
  have "(\<exists>a. lu_Verify mem_sec demo_uc (sv_lib demo_server) ''ana'' (demo_reset_form ''password'') (st_cluster \<lparr>st_ui = demo_signed, st_cluster = s\<rparr>) = Inr a \<and> lu_username a = ''ana'') \<and>
      rs_status (fst (handleResetSubmit demo_server (demo_random 7000000000) ?r2 \<lparr>st_ui = demo_signed, st_cluster = s\<rparr>)) \<noteq> 303"
  proof (rule reset_link_restores_access [where st = ?st and p = "''r2''" and f = demo_reset_form, OF mem_sec_laws _ demo_server_simps(9,8) _ i _ _ _ _ _ h])
    show "\<not> isLinkFor (sv_lib demo_server) ''r2'' x" if "memFind (st_cluster ?st) n = Some x" for n x using that by (rule f)
  qed (use s(2) t demo_bcrypt demo_mine_unique in \<open>simp_all add: demo_server_simps demo_random_def respond_def redirectTo_def demo_reset_form_def\<close>)
  then show ?thesis by (auto simp: demo_server_simps demo_reset_form_def)
qed

end
