(* ===== verification/UiForms.thy ===== *)
theory UiForms
  imports UiServer WebhookWorkspace
begin

text \<open>
  What the web interface computes without a cluster: reading numbers, resources and environment rows out of a form, the
  Workspace object that a form describes, the quota screen, pagination, rows of patterns, names made from titles and the
  events of a workspace (\<^verbatim>\<open>src/internal/ui/resources.go\<close>, \<^verbatim>\<open>create.go\<close>, \<^verbatim>\<open>admin.go\<close>, \<^verbatim>\<open>admin_userspaces.go\<close>, \<^verbatim>\<open>dashboard.go\<close>,
  \<^verbatim>\<open>events.go\<close>, and parts of \<^verbatim>\<open>helpers.go\<close>, \<^verbatim>\<open>k8s.go\<close>, \<^verbatim>\<open>admin_catalog.go\<close> and \<^verbatim>\<open>admin_registries.go\<close>).

  Parsing, rounding and printing a \<^verbatim>\<open>resource.Quantity\<close> is library code: the record \<open>quantlib\<close>.
\<close>

section \<open>Numbers and quantities\<close>

definition isDigit :: "char \<Rightarrow> bool" where
  "isDigit c \<longleftrightarrow> 48 \<le> byte c \<and> byte c \<le> 57"

definition digitsVal :: "string \<Rightarrow> int" where
  "digitsVal ds = foldl (\<lambda>v c. 10 * v + (int (byte c) - 48)) 0 ds"

text \<open>\<^verbatim>\<open>strconv.Atoi\<close>, which is \<^verbatim>\<open>ParseInt(s, 10, 64)\<close> on a 64-bit platform; \<open>None\<close> is an error.\<close>

definition Atoi :: "string \<Rightarrow> int option" where
  "Atoi s =
     (let neg = (take 1 s = ''-''); ds = (if take 1 s = ''-'' \<or> take 1 s = ''+'' then tl s else s) in
      if ds = [] \<or> \<not> list_all isDigit ds then None
      else let v = (if neg then - digitsVal ds else digitsVal ds) in
        if - (2 ^ 63) \<le> v \<and> v < 2 ^ 63 then Some v else None)"

record 'q quantlib =
  ql_parse :: "string \<Rightarrow> string + 'q"
  ql_value :: "'q \<Rightarrow> int"
  ql_show :: "'q \<Rightarrow> string"

text \<open>Writing an entry of a Go map.\<close>

definition mapSet :: "string \<Rightarrow> 'v \<Rightarrow> 'v gomap \<Rightarrow> 'v gomap" where
  "mapSet k v m = filter (\<lambda>p. fst p \<noteq> k) m @ [(k, v)]"

section \<open>Resources (resources.go)\<close>

record resourcevalues =
  rv_cpu :: string
  rv_memoryLimit :: string
  rv_storage :: string
  rv_gpu :: string
  rv_gpuResource :: string

definition defaultGPUResourceName :: string where
  "defaultGPUResourceName = ''nvidia.com/gpu''"

definition defaultResourceValues :: resourcevalues where
  "defaultResourceValues = \<lparr>rv_cpu = ''2'', rv_memoryLimit = ''4Gi'', rv_storage = ''10Gi'', rv_gpu = ''0'', rv_gpuResource = defaultGPUResourceName\<rparr>"

definition resourceValuesFrom :: "(string \<Rightarrow> string) \<Rightarrow> resourcevalues" where
  "resourceValuesFrom form =
     (let get = (\<lambda>name. TrimSpace (form name)) in
      \<lparr>rv_cpu = get ''cpu_request'', rv_memoryLimit = get ''memory_limit'', rv_storage = get ''storage'', rv_gpu = get ''gpu'',
       rv_gpuResource = (if get ''gpu_resource'' = '''' then defaultGPUResourceName else get ''gpu_resource'')\<rparr>)"

text \<open>One field of the form: nothing when it is blank.\<close>

definition addField :: "'q quantlib \<Rightarrow> string \<Rightarrow> string \<Rightarrow> string \<Rightarrow> 'q gomap \<Rightarrow> string + 'q gomap" where
  "addField ql raw name label into =
     (if raw = '''' then Inr into
      else case ql_parse ql raw of
        Inl _ \<Rightarrow> Inl (label @ '': '' @ goQuote raw @ '' is not a quantity'')
      | Inr q \<Rightarrow> Inr (mapSet name q into))"

definition addGPU :: "resourcevalues \<Rightarrow> ('q :: linordered_idom) resources \<Rightarrow> string + 'q resources" where
  "addGPU v requirements =
     (if rv_gpu v = '''' \<or> rv_gpu v = ''0'' then Inr requirements
      else case Atoi (rv_gpu v) of
        None \<Rightarrow> Inl (''GPUs: '' @ goQuote (rv_gpu v) @ '' is not a whole number'')
      | Some number \<Rightarrow>
          if number < 0 then Inl (''GPUs: '' @ goQuote (rv_gpu v) @ '' is not a whole number'')
          else Inr \<lparr>res_requests = mapSet (rv_gpuResource v) (of_int number) (res_requests requirements),
                    res_limits = mapSet (rv_gpuResource v) (of_int number) (res_limits requirements)\<rparr>)"

definition Requirements :: "('q :: linordered_idom) quantlib \<Rightarrow> resourcevalues \<Rightarrow> string + 'q resources" where
  "Requirements ql v =
     (case addField ql (rv_cpu v) ''cpu'' ''CPU'' [] of
        Inl err \<Rightarrow> Inl err
      | Inr requests \<Rightarrow>
          (case addField ql (rv_memoryLimit v) ''memory'' ''memory limit'' [] of
             Inl err \<Rightarrow> Inl err
           | Inr limits \<Rightarrow> addGPU v \<lparr>res_requests = requests, res_limits = limits\<rparr>))"

definition StorageQuantity :: "'q quantlib \<Rightarrow> resourcevalues \<Rightarrow> string + 'q" where
  "StorageQuantity ql v =
     (case ql_parse ql (rv_storage v) of
        Inl _ \<Rightarrow> Inl (''storage: '' @ goQuote (rv_storage v) @ '' is not a quantity'')
      | Inr q \<Rightarrow> Inr q)"

definition quantityText :: "'q quantlib \<Rightarrow> 'q gomap \<Rightarrow> string \<Rightarrow> string" where
  "quantityText ql m name = (case map_of m name of None \<Rightarrow> '''' | Some q \<Rightarrow> ql_show ql q)"

definition resourceValuesFromWorkspace :: "'q quantlib \<Rightarrow> 'q workspace \<Rightarrow> string \<Rightarrow> resourcevalues" where
  "resourceValuesFromWorkspace ql ws gpu =
     (let limits = res_limits (ws_resources (ws_spec ws)) in
      \<lparr>rv_cpu = quantityText ql (res_requests (ws_resources (ws_spec ws))) ''cpu'', rv_memoryLimit = quantityText ql limits ''memory'',
       rv_storage = (case ws_storage (ws_spec ws) of None \<Rightarrow> '''' | Some q \<Rightarrow> ql_show ql q),
       rv_gpu = quantityText ql limits gpu, rv_gpuResource = gpu\<rparr>)"

section \<open>The workspace a form describes (create.go, k8s.go)\<close>

record workspacedraft =
  wd_name :: string
  wd_namespace :: string
  wd_image :: string
  wd_sshKey :: string
  wd_resources :: resourcevalues
  wd_env :: "envvar list"

text \<open>The rows \<^verbatim>\<open>env_key\<close> and \<^verbatim>\<open>env_value\<close>; a missing value is blank.\<close>

fun envRows :: "string list \<Rightarrow> string list \<Rightarrow> uierr + envvar list" where
  "envRows [] values = Inr []"
| "envRows (rawKey # keys) values =
     (let key = TrimSpace rawKey; val = (case values of [] \<Rightarrow> '''' | v # _ \<Rightarrow> TrimSpace v) in
      if key = '''' \<and> val = '''' then envRows keys (tl values)
      else if key = '''' then Inl (ApiError 400 ''an environment variable is missing its name'')
      else if ContainsAny key '' ='' then
        Inl (ApiError 400 (''environment variable name '' @ key @ '' must not contain spaces or '' @ [CHR 0x27, CHR ''='', CHR 0x27]))
      else case envRows keys (tl values) of
        Inl err \<Rightarrow> Inl err
      | Inr env \<Rightarrow> Inr (\<lparr>ev_name = key, ev_value = val, ev_from = None\<rparr> # env))"

definition envVarsFromForm :: "(string \<Rightarrow> string list) \<Rightarrow> uierr + envvar list" where
  "envVarsFromForm rows = envRows (rows ''env_key'') (rows ''env_value'')"

definition draftFromForm :: "(string \<Rightarrow> string) \<Rightarrow> (string \<Rightarrow> string list) \<Rightarrow> string \<Rightarrow> uierr + workspacedraft" where
  "draftFromForm form rows namespace =
     (case envVarsFromForm rows of
        Inl err \<Rightarrow> Inl err
      | Inr env \<Rightarrow> Inr \<lparr>wd_name = TrimSpace (form ''name''), wd_namespace = namespace, wd_image = TrimSpace (form ''image''),
          wd_sshKey = TrimSpace (form ''ssh_public_key''), wd_resources = resourceValuesFrom form, wd_env = env\<rparr>)"

definition authorizedKeys :: "string \<Rightarrow> string list" where
  "authorizedKeys sshKey = (if TrimSpace sshKey = '''' then [] else [sshKey])"

definition buildWorkspace :: "('q :: linordered_idom) quantlib \<Rightarrow> workspacedraft \<Rightarrow> string + 'q workspace" where
  "buildWorkspace ql draft =
     (case StorageQuantity ql (wd_resources draft) of
        Inl err \<Rightarrow> Inl err
      | Inr storage \<Rightarrow>
          (case Requirements ql (wd_resources draft) of
             Inl err \<Rightarrow> Inl err
           | Inr requirements \<Rightarrow>
               Inr \<lparr>ws_meta = meta0 (wd_namespace draft) (wd_name draft),
                 ws_spec = \<lparr>ws_imageRef = wd_image draft, ws_resources = requirements, ws_storage = Some storage,
                   ws_nodeSelector = [], ws_tolerations = [], ws_affinity = None, ws_env = wd_env draft, ws_envFrom = [],
                   ws_volumes = [], ws_volumeMounts = [], ws_keys = authorizedKeys (wd_sshKey draft), ws_running = True,
                   ws_idleTimeout = 0, ws_logsEnabled = True, ws_metricsEnabled = True\<rparr>,
                 ws_status = \<lparr>wst_state = '''', wst_endpoint = '''', wst_podName = '''', wst_lastActivity = None,
                   wst_observedGeneration = 0, wst_conditions = []\<rparr>\<rparr>))"

section \<open>The quota form (admin_userspaces.go)\<close>

definition quantityOrDefault :: "'q quantlib \<Rightarrow> string \<Rightarrow> string \<Rightarrow> uierr + 'q" where
  "quantityOrDefault ql raw0 fallback =
     (let raw = (if TrimSpace raw0 = '''' then fallback else TrimSpace raw0) in
      case ql_parse ql raw of
        Inl _ \<Rightarrow> Inl (ApiError 400 (''not a valid quantity: '' @ raw))
      | Inr q \<Rightarrow> Inr q)"

text \<open>The parsed value is an \<^verbatim>\<open>int64\<close>, converted to \<^verbatim>\<open>int32\<close> without a check.\<close>

definition int32OrDefault :: "'q quantlib \<Rightarrow> string \<Rightarrow> int \<Rightarrow> uierr + int" where
  "int32OrDefault ql raw0 fallback =
     (let raw = TrimSpace raw0 in
      if raw = '''' then Inr fallback
      else case ql_parse ql raw of
        Inl _ \<Rightarrow> Inl (ApiError 400 (''not a valid workspace count: '' @ raw))
      | Inr q \<Rightarrow> if ql_value ql q < 0 then Inl (ApiError 400 (''not a valid workspace count: '' @ raw)) else Inr (wrap32 (ql_value ql q)))"

definition quotaFromForm :: "'q quantlib \<Rightarrow> (string \<Rightarrow> string) \<Rightarrow> uierr + 'q userspace_quota" where
  "quotaFromForm ql form =
     (case quantityOrDefault ql (form ''cpu'') ''4'' of
        Inl err \<Rightarrow> Inl err
      | Inr cpu \<Rightarrow>
          (case quantityOrDefault ql (form ''memory'') ''8Gi'' of
             Inl err \<Rightarrow> Inl err
           | Inr memory \<Rightarrow>
               (case quantityOrDefault ql (form ''storage'') ''50Gi'' of
                  Inl err \<Rightarrow> Inl err
                | Inr storage \<Rightarrow>
                    (case int32OrDefault ql (form ''workspaces'') 2 of
                       Inl err \<Rightarrow> Inl err
                     | Inr workspaces \<Rightarrow>
                         (case int32OrDefault ql (form ''gpu'') 0 of
                            Inl err \<Rightarrow> Inl err
                          | Inr gpu \<Rightarrow> Inr \<lparr>q_cpu = cpu, q_memory = memory, q_storage = storage, q_gpu = gpu, q_workspaces = workspaces\<rparr>)))))"

section \<open>The quota screen (admin.go, helpers.go)\<close>

record quotarow =
  qr_name :: string
  qr_owner :: string
  qr_namespace :: string
  qr_workspaceCount :: int
  qr_workspaceLimit :: int
  qr_cpuUsed :: string
  qr_cpuLimit :: string
  qr_memoryUsed :: string
  qr_memoryLimit :: string
  qr_storageUsed :: string
  qr_storageLimit :: string
  qr_gpuUsed :: string
  qr_gpuLimit :: string

record 'q rowusage =
  ru_cpu :: 'q
  ru_memory :: 'q
  ru_storage :: 'q
  ru_gpu :: 'q
  ru_count :: int

definition rowUsage_add :: "string \<Rightarrow> ('q :: linordered_idom) rowusage \<Rightarrow> 'q workspace \<Rightarrow> 'q rowusage" where
  "rowUsage_add gpu u ws =
     (let u = (case ws_storage (ws_spec ws) of None \<Rightarrow> u | Some q \<Rightarrow> u\<lparr>ru_storage := ru_storage u + q\<rparr>) in
      if \<not> ws_running (ws_spec ws) then u
      else
        let requests = res_requests (ws_resources (ws_spec ws));
            u = u\<lparr>ru_count := ru_count u + 1\<rparr>;
            u = u\<lparr>ru_cpu := ru_cpu u + (case map_of requests ''cpu'' of None \<Rightarrow> 0 | Some q \<Rightarrow> q)\<rparr>;
            u = u\<lparr>ru_memory := ru_memory u + (case map_of requests ''memory'' of None \<Rightarrow> 0 | Some q \<Rightarrow> q)\<rparr>
        in (case map_of (res_limits (ws_resources (ws_spec ws))) gpu of None \<Rightarrow> u | Some q \<Rightarrow> u\<lparr>ru_gpu := ru_gpu u + q\<rparr>))"

definition rowUsage :: "string \<Rightarrow> ('q :: linordered_idom) workspace list \<Rightarrow> 'q rowusage" where
  "rowUsage gpu wss = foldl (rowUsage_add gpu) \<lparr>ru_cpu = 0, ru_memory = 0, ru_storage = 0, ru_gpu = 0, ru_count = 0\<rparr> wss"

definition quotaRow :: "('q :: linordered_idom) quantlib \<Rightarrow> string \<Rightarrow> 'q workspace list \<Rightarrow> 'q userspace \<Rightarrow> quotarow" where
  "quotaRow ql gpu all us =
     (let ns = ust_namespace (us_status us); u = rowUsage gpu (filter (\<lambda>w. ws_ns w = ns) all); q = us_quota (us_spec us) in
      \<lparr>qr_name = us_name us, qr_owner = us_owner (us_spec us), qr_namespace = ns,
       qr_workspaceCount = ru_count u, qr_workspaceLimit = q_workspaces q,
       qr_cpuUsed = ql_show ql (ru_cpu u), qr_cpuLimit = ql_show ql (q_cpu q),
       qr_memoryUsed = ql_show ql (ru_memory u), qr_memoryLimit = ql_show ql (q_memory q),
       qr_storageUsed = ql_show ql (ru_storage u), qr_storageLimit = ql_show ql (q_storage q),
       qr_gpuUsed = ql_show ql (ru_gpu u), qr_gpuLimit = FormatInt (q_gpu q)\<rparr>)"

text \<open>Sorted by name, which is unique among UserSpaces.\<close>

definition quotaRows :: "('q :: linordered_idom) quantlib \<Rightarrow> 'q userspace list \<Rightarrow> 'q workspace list \<Rightarrow> string \<Rightarrow> quotarow list" where
  "quotaRows ql userSpaces all gpu = sort_key qr_name (map (quotaRow ql gpu all) userSpaces)"

text \<open>Whether the create form says that another workspace would be refused; the form counts every workspace of the namespace.\<close>

definition AtWorkspaceLimit :: "int \<Rightarrow> int \<Rightarrow> bool" where
  "AtWorkspaceLimit workspaceCount workspaceLimit \<longleftrightarrow> workspaceLimit > 0 \<and> workspaceCount \<ge> workspaceLimit"

definition filterWorkspaces :: "'q workspace list \<Rightarrow> string \<Rightarrow> 'q workspace list" where
  "filterWorkspaces wss namespace = (if namespace = '''' then wss else filter (\<lambda>w. ws_ns w = namespace) wss)"

section \<open>Pagination (helpers.go)\<close>

record 'a page_of =
  pg_items :: "'a list"
  pg_number :: int
  pg_size :: int
  pg_total :: int
  pg_pages :: int

definition pageSizes :: "int list" where
  "pageSizes = [10, 5, 0]"

definition catalogPageSizes :: "int list" where
  "catalogPageSizes = [9, 15, 18, 0]"

definition pageSizeFrom :: "string \<Rightarrow> int list \<Rightarrow> int" where
  "pageSizeFrom raw sizes =
     (if raw = ''all'' then 0
      else case Atoi raw of
        Some parsed \<Rightarrow> if parsed \<in> set sizes then parsed else hd sizes
      | None \<Rightarrow> hd sizes)"

text \<open>\<open>per\<close> and \<open>raw\<close> are the query parameters \<^verbatim>\<open>per\<close> and \<^verbatim>\<open>page\<close>.\<close>

definition paginateWith :: "int list \<Rightarrow> string \<Rightarrow> string \<Rightarrow> 'a list \<Rightarrow> 'a page_of" where
  "paginateWith sizes per raw items =
     (let size = pageSizeFrom per sizes; total = int (length items) in
      if size \<le> 0 \<or> items = [] then \<lparr>pg_items = items, pg_number = 1, pg_size = size, pg_total = total, pg_pages = 1\<rparr>
      else
        let pages = (total + size - 1) div size;
            number = (if raw = '''' then 1 else case Atoi raw of Some parsed \<Rightarrow> if parsed > 1 then parsed else 1 | None \<Rightarrow> 1);
            number = (if number > pages then pages else number);
            start = (number - 1) * size;
            stop = min (start + size) total
        in \<lparr>pg_items = take (nat (stop - start)) (drop (nat start) items), pg_number = number, pg_size = size, pg_total = total, pg_pages = pages\<rparr>)"

definition paginate :: "string \<Rightarrow> string \<Rightarrow> 'a list \<Rightarrow> 'a page_of" where
  "paginate per raw items = paginateWith pageSizes per raw items"

definition pageNumbers :: "int \<Rightarrow> int list" where
  "pageNumbers pages = [1..pages]"

section \<open>Lists in text fields (admin_catalog.go, admin_registries.go)\<close>

text \<open>\<^verbatim>\<open>strings.SplitSeq\<close> with a one-byte separator; \<open>cur\<close> is the piece being read.\<close>

fun splitFrom :: "char \<Rightarrow> string \<Rightarrow> string \<Rightarrow> string list" where
  "splitFrom sep cur [] = [cur]"
| "splitFrom sep cur (c # cs) = (if c = sep then cur # splitFrom sep [] cs else splitFrom sep (cur @ [c]) cs)"

definition pieces :: "char \<Rightarrow> string \<Rightarrow> string list" where
  "pieces sep val = filter (\<lambda>p. p \<noteq> '''') (map TrimSpace (splitFrom sep [] val))"

definition splitList :: "string \<Rightarrow> string list" where
  "splitList val = pieces (CHR '','') val"

definition splitLines :: "string \<Rightarrow> string list" where
  "splitLines val = pieces (CHR 0x0A) val"

definition joinLines :: "string list \<Rightarrow> string" where
  "joinLines items = Join items [CHR 0x0A]"

definition pullSecretName :: "string option \<Rightarrow> string" where
  "pullSecretName ref = (case ref of None \<Rightarrow> '''' | Some name \<Rightarrow> name)"

definition pullSecretRefOrNil :: "string \<Rightarrow> string option" where
  "pullSecretRefOrNil name = (if TrimSpace name = '''' then None else Some (TrimSpace name))"

text \<open>Both numbers are read with \<^verbatim>\<open>Atoi\<close> and then converted to \<^verbatim>\<open>int32\<close>.\<close>

definition syncFromForm :: "(string \<Rightarrow> string) \<Rightarrow> registrysync" where
  "syncFromForm form =
     (let interval = (case Atoi (TrimSpace (form ''intervalSeconds'')) of None \<Rightarrow> DefaultSyncIntervalSeconds
            | Some n \<Rightarrow> if n \<le> 0 then DefaultSyncIntervalSeconds else n);
          limit = (case Atoi (TrimSpace (form ''tagLimit'')) of None \<Rightarrow> 1 | Some n \<Rightarrow> if n \<le> 0 then 1 else n);
          tagMode = (if TrimSpace (form ''tagMode'') = '''' then ''latest'' else TrimSpace (form ''tagMode''))
      in \<lparr>sy_intervalSeconds = wrap32 interval, sy_include = splitLines (form ''include''), sy_exclude = splitLines (form ''exclude''),
          sy_tags = \<lparr>ts_mode = tagMode, ts_patterns = splitLines (form ''tagPatterns''), ts_limit = wrap32 limit\<rparr>,
          sy_prune = (form ''prune'' \<noteq> '''')\<rparr>)"

section \<open>Names made from titles (admin_catalog.go)\<close>

definition slugRune :: "nat \<Rightarrow> bool" where
  "slugRune r \<longleftrightarrow> 0x61 \<le> r \<and> r \<le> 0x7A \<or> 0x30 \<le> r \<and> r \<le> 0x39"

fun slugLoop :: "string \<Rightarrow> bool \<Rightarrow> nat list \<Rightarrow> string" where
  "slugLoop out previousDash [] = out"
| "slugLoop out previousDash (r # rest) =
     (if slugRune r then slugLoop (out @ [char_of r]) False rest
      else if out \<noteq> [] \<and> \<not> previousDash then slugLoop (out @ ''-'') True rest
      else slugLoop out previousDash rest)"

definition slugify :: "ucd \<Rightarrow> string \<Rightarrow> string" where
  "slugify uc name = TrimSet (take 60 (slugLoop [] False (runes (ToLower uc name)))) ''-''"

definition slugAttempts :: nat where
  "slugAttempts = 10"

definition slugName :: "string \<Rightarrow> nat \<Rightarrow> string" where
  "slugName base attempt = (if attempt > 1 then base @ ''-'' @ show_nat attempt else base)"

text \<open>The attempts from \<open>attempt\<close> on; \<open>left\<close> of them remain.\<close>

fun slugTry :: "(workspaceimage \<Rightarrow> 's \<Rightarrow> apierr option \<times> 's) \<Rightarrow> workspaceimage \<Rightarrow> string \<Rightarrow> string \<Rightarrow> nat \<Rightarrow> nat \<Rightarrow> 's \<Rightarrow> uierr option \<times> 's" where
  "slugTry create img name base attempt 0 s =
     (Some (OtherErr (''could not find a free name for '' @ goQuote name @ '' after '' @ show_nat slugAttempts @ '' attempts'')), s)"
| "slugTry create img name base attempt (Suc left) s =
     (case create (img\<lparr>img_meta := (img_meta img)\<lparr>m_name := slugName base attempt\<rparr>\<rparr>) s of
        (None, s') \<Rightarrow> (None, s')
      | (Some err, s') \<Rightarrow> if err = AlreadyExists then slugTry create img name base (Suc attempt) left s' else (Some (KubeErr err), s'))"

definition createWithSlug ::
    "ucd \<Rightarrow> (workspaceimage \<Rightarrow> 's \<Rightarrow> apierr option \<times> 's) \<Rightarrow> workspaceimage \<Rightarrow> string \<Rightarrow> 's \<Rightarrow> uierr option \<times> 's" where
  "createWithSlug uc create img name s =
     (let base = slugify uc name in
      if base = '''' then (Some (OtherErr (goQuote name @ '' contains no characters usable in a name'')), s)
      else slugTry create img name base 1 slugAttempts s)"

section \<open>Events and ages (events.go, dashboard.go)\<close>

text \<open>A time of an event, \<open>None\<close> when it is zero; a series can be absent.\<close>

record kevent =
  ke_object :: string
  ke_type :: string
  ke_reason :: string
  ke_message :: string
  ke_series :: "gotime option option"
  ke_last :: "gotime option"
  ke_time :: "gotime option"
  ke_created :: "gotime option"

definition aboutWorkspace :: "kevent \<Rightarrow> string \<Rightarrow> bool" where
  "aboutWorkspace event workspaceName =
     (let name = ke_object event in
      if name = workspaceName then True
      else length name > length workspaceName \<and> take (length workspaceName) name = workspaceName \<and> name ! length workspaceName = CHR ''-'')"

definition eventTime :: "kevent \<Rightarrow> gotime option" where
  "eventTime event =
     (case ke_series event of
        Some (Some t) \<Rightarrow> Some t
      | _ \<Rightarrow> (case ke_last event of Some t \<Rightarrow> Some t | None \<Rightarrow> (case ke_time event of Some t \<Rightarrow> Some t | None \<Rightarrow> ke_created event)))"

text \<open>
  The ages are computed with \<^verbatim>\<open>Minutes()\<close> and \<^verbatim>\<open>Hours()\<close> in floating point; the quotients below are their integral parts, except
  within a nanosecond of a whole hour for ages beyond some three months.
\<close>

definition minute :: duration where
  "minute = 60 * 1000000000"

definition hour :: duration where
  "hour = 60 * minute"

definition relativeTime :: "gotime option \<Rightarrow> gotime \<Rightarrow> string" where
  "relativeTime at now =
     (case at of
        None \<Rightarrow> ''-''
      | Some t \<Rightarrow>
          (let elapsed = now - t in
           if elapsed < minute then ''just now''
           else if elapsed < hour then FormatInt (elapsed div minute) @ ''m ago''
           else if elapsed < 24 * hour then FormatInt (elapsed div hour) @ ''h ago''
           else FormatInt (elapsed div (24 * hour)) @ ''d ago''))"

record eventrow =
  er_when :: string
  er_type :: string
  er_reason :: string
  er_message :: string

definition eventRows :: "kevent list \<Rightarrow> string \<Rightarrow> gotime \<Rightarrow> eventrow list" where
  "eventRows events workspaceName now =
     rev (map (\<lambda>e. \<lparr>er_when = relativeTime (eventTime e) now, er_type = ke_type e, er_reason = ke_reason e, er_message = ke_message e\<rparr>)
       (filter (\<lambda>e. aboutWorkspace e workspaceName) events))"

definition shortDuration :: "duration \<Rightarrow> string" where
  "shortDuration d =
     (if d < minute then ''just now''
      else if d < hour then FormatInt (d div minute) @ ''m''
      else if d < 24 * hour then FormatInt (d div hour) @ ''h''
      else FormatInt (d div (24 * hour)) @ ''d'')"

section \<open>Lemmas: numbers\<close>

lemma digitsVal_snoc: "digitsVal (ds @ [c]) = 10 * digitsVal ds + (int (byte c) - 48)"
  by (simp add: digitsVal_def)

lemma digit_char_val: "k < 10 \<Longrightarrow> isDigit (digit_char k) \<and> int (byte (digit_char k)) = 48 + int k"
  by (simp add: isDigit_def digit_char_def)

lemma show_nat_digits: "show_nat n \<noteq> [] \<and> list_all isDigit (show_nat n) \<and> digitsVal (show_nat n) = int n"
proof (induction n rule: show_nat.induct)
  case (1 n)
  show ?case
  proof (cases "n < 10")
    case True
    then show ?thesis using digit_char_val [of n] digitsVal_snoc [of "[]" "digit_char n"]
      by (simp add: show_nat.simps [of n] digitsVal_def)
  next
    case False
    have "10 * int (n div 10) + int (n mod 10) = int n" by presburger
    then show ?thesis using "1.IH" [OF False] digit_char_val [of "n mod 10"] False
      by (simp add: show_nat.simps [of n] digitsVal_snoc)
  qed
qed

lemma show_nat_unsigned: "take 1 (show_nat n) \<noteq> ''-'' \<and> take 1 (show_nat n) \<noteq> ''+''"
  using show_nat_digits [of n] by (cases "show_nat n") (auto simp: isDigit_def)

lemma Atoi_FormatInt: "0 \<le> i \<Longrightarrow> i < 2 ^ 63 \<Longrightarrow> Atoi (FormatInt i) = Some i"
  using show_nat_digits [of "nat i"] show_nat_unsigned [of "nat i"] by (simp add: Atoi_def FormatInt_def Let_def)

lemma FormatInt_nonempty: "0 \<le> i \<Longrightarrow> FormatInt i \<noteq> ''''"
  using show_nat_digits [of "nat i"] by (simp add: FormatInt_def)

lemma map_of_mapSet: "map_of (mapSet k v m) n = (if n = k then Some v else map_of m n)"
proof -
  have "map_of (filter (\<lambda>p. fst p \<noteq> k) m) = (map_of m)(k := None)" by (induction m) auto
  then show ?thesis by (auto simp: mapSet_def map_add_def split: option.splits)
qed

section \<open>Lemmas: pages\<close>

lemma upto_upt: "[1..int k] = map (\<lambda>i. int i + 1) [0..<k]"
  by (induction k) (simp_all add: upto_rec2)

lemma concat_chunks: "concat (map (\<lambda>i. take s (drop (i * s) xs)) [0..<k]) = take (k * s) xs"
  by (induction k) (simp_all add: take_add add.commute [of s])

lemma page_items:
  assumes s: "pageSizeFrom per sizes = s" "0 < s" and ne: "items \<noteq> []" and n: "1 \<le> n" "n \<le> (int (length items) + s - 1) div s"
    and l: "int (length items) < 2 ^ 63"
  shows "pg_items (paginateWith sizes per (FormatInt n) items) = take (nat s) (drop (nat (n - 1) * nat s) items)"
proof -
  let ?t = "int (length items)"
  have "0 \<le> (?t - 1) * (s - 1)" using s(2) ne by (intro mult_nonneg_nonneg) (simp_all add: Suc_le_eq flip: of_nat_Suc)
  then have "?t + s - 1 \<le> ?t * s" by (simp add: algebra_simps)
  then have "(?t + s - 1) div s \<le> ?t" using s(2) zdiv_mono1 [of "?t + s - 1" "?t * s" s] by simp
  then have "n < 2 ^ 63" using n l by simp
  then have a: "Atoi (FormatInt n) = Some n" using n by (simp add: Atoi_FormatInt)
  have e: "nat ((n - 1) * s) = nat (n - 1) * nat s" using n by (simp add: nat_mult_distrib)
  have "take (nat (min ((n - 1) * s + s) ?t - (n - 1) * s)) (drop (nat ((n - 1) * s)) items) = take (nat s) (drop (nat ((n - 1) * s)) items)"
  proof (cases "(n - 1) * s + s \<le> ?t")
    case False
    then have "length (drop (nat ((n - 1) * s)) items) \<le> nat s" "length (drop (nat ((n - 1) * s)) items) \<le> nat (?t - (n - 1) * s)"
      using n s(2) by (simp_all add: nat_le_iff)
    then show ?thesis using False by (simp add: min_def)
  qed (simp add: min_def)
  then show ?thesis using s ne n a FormatInt_nonempty [of n] by (auto simp: paginateWith_def Let_def e)
qed

text \<open>
  The pages of a screen show every row once: the pages that the controls offer, one after the other, are the list, whatever
  page size the request asks for. Whatever page it asks for, the page shown is one of them.
\<close>

theorem pages_partition:
  assumes "int (length items) < 2 ^ 63"
  shows "concat (map (\<lambda>n. pg_items (paginateWith sizes per (FormatInt n) items)) (pageNumbers (pg_pages (paginateWith sizes per raw items)))) = items \<and>
    1 \<le> pg_number (paginateWith sizes per raw items) \<and> pg_number (paginateWith sizes per raw items) \<le> pg_pages (paginateWith sizes per raw items)"
proof (cases "pageSizeFrom per sizes \<le> 0 \<or> items = []")
  case True
  then show ?thesis by (auto simp: paginateWith_def Let_def pageNumbers_def)
next
  case False
  let ?s = "pageSizeFrom per sizes" and ?t = "int (length items)"
  let ?k = "nat ((?t + ?s - 1) div ?s)"
  from False have s: "0 < ?s" "items \<noteq> []" by auto
  then have "1 \<le> ?t" by (simp add: Suc_le_eq flip: of_nat_Suc)
  with s have k: "1 \<le> (?t + ?s - 1) div ?s" by (simp add: pos_imp_zdiv_pos_iff int_one_le_iff_zero_less)
  have p: "pg_pages (paginateWith sizes per raw items) = int ?k" using False k by (simp add: paginateWith_def Let_def)
  have "map (\<lambda>n. pg_items (paginateWith sizes per (FormatInt n) items)) [1..int ?k] = map (\<lambda>i. take (nat ?s) (drop (i * nat ?s) items)) [0..<?k]"
    unfolding upto_upt map_map using k by (intro map_cong) (auto simp: page_items [OF refl s _ _ assms])
  then have "concat (map (\<lambda>n. pg_items (paginateWith sizes per (FormatInt n) items)) [1..int ?k]) = take (?k * nat ?s) items"
    by (simp only: concat_chunks)
  moreover have "?t \<le> int ?k * ?s"
  proof -
    have "?s * ((?t + ?s - 1) div ?s) + (?t + ?s - 1) mod ?s = ?t + ?s - 1" by (rule mult_div_mod_eq)
    moreover have "int ?k * ?s = ?s * ((?t + ?s - 1) div ?s)" using k by (simp only: mult.commute) simp
    ultimately show ?thesis using pos_mod_bound [OF s(1), of "?t + ?s - 1"] by linarith
  qed
  then have "length items \<le> ?k * nat ?s" using s by (simp flip: zle_int)
  ultimately have "concat (map (\<lambda>n. pg_items (paginateWith sizes per (FormatInt n) items)) (pageNumbers (pg_pages (paginateWith sizes per raw items)))) = items"
    by (simp add: p pageNumbers_def)
  moreover have "1 \<le> pg_number (paginateWith sizes per raw items) \<and> pg_number (paginateWith sizes per raw items) \<le> pg_pages (paginateWith sizes per raw items)"
    using False k by (auto simp: paginateWith_def Let_def split: option.splits)
  ultimately show ?thesis by blast
qed

theorem pages_partition_witness:
  "concat (map (\<lambda>n. pg_items (paginateWith pageSizes ''5'' (FormatInt n) [1, 2, 3, 4, 5, 6, 7 :: nat])) (pageNumbers (pg_pages (paginateWith pageSizes ''5'' ''9'' [1, 2, 3, 4, 5, 6, 7 :: nat])))) = [1, 2, 3, 4, 5, 6, 7] \<and>
   pg_items (paginateWith pageSizes ''5'' ''9'' [1, 2, 3, 4, 5, 6, 7 :: nat]) = [6, 7]"
proof -
  have "pg_items (paginateWith pageSizes ''5'' ''9'' [1, 2, 3, 4, 5, 6, 7 :: nat]) = [6, 7]" by code_simp
  then show ?thesis using pages_partition [of "[1, 2, 3, 4, 5, 6, 7 :: nat]" pageSizes "''5''" "''9''"] by simp
qed

section \<open>Lemmas: the quota screen\<close>

lemma rowUsage_add_reads:
  "ru_cpu (rowUsage_add g u w) = ru_cpu u + cpu_cost w"
  "ru_memory (rowUsage_add g u w) = ru_memory u + memory_cost w"
  "ru_storage (rowUsage_add g u w) = ru_storage u + storage_cost w"
  "ru_gpu (rowUsage_add g u w) = ru_gpu u + gpu_cost g w"
  "ru_count (rowUsage_add g u w) = ru_count u + running_cost w"
  by (auto simp: rowUsage_add_def Let_def cpu_cost_def memory_cost_def storage_cost_def gpu_cost_def running_cost_def split: option.splits)

interpretation row_cpu: meter ru_cpu "rowUsage_add g" cpu_cost for g
  by unfold_locales (rule rowUsage_add_reads)

interpretation row_memory: meter ru_memory "rowUsage_add g" memory_cost for g
  by unfold_locales (rule rowUsage_add_reads)

interpretation row_storage: meter ru_storage "rowUsage_add g" storage_cost for g
  by unfold_locales (rule rowUsage_add_reads)

interpretation row_gpu: meter ru_gpu "rowUsage_add g" "gpu_cost g" for g
  by unfold_locales (rule rowUsage_add_reads)

interpretation row_count: meter ru_count "rowUsage_add g" running_cost for g
  by unfold_locales (rule rowUsage_add_reads)

lemma rowUsage_reads:
  "ru_cpu (rowUsage g wss) = sum_list (map cpu_cost wss)"
  "ru_memory (rowUsage g wss) = sum_list (map memory_cost wss)"
  "ru_storage (rowUsage g wss) = sum_list (map storage_cost wss)"
  "ru_gpu (rowUsage g wss) = sum_list (map (gpu_cost g) wss)"
  "ru_count (rowUsage g wss) = sum_list (map running_cost wss)"
  by (simp_all add: rowUsage_def row_cpu.read_foldl row_memory.read_foldl row_storage.read_foldl row_gpu.read_foldl row_count.read_foldl)

text \<open>
  (C31) The quota screen and admission never disagree: for every UserSpace the screen has a row that shows what the admission
  webhook adds up for the workspaces of its namespace, next to the limits the webhook enforces, and rows are in the order of
  their names.
\<close>

theorem quota_screen_matches_admission:
  assumes "us \<in> set userSpaces" and "int (length all) < 2 ^ 31"
    and "u = usage_of g (filter (\<lambda>w. ws_ns w = ust_namespace (us_status us)) all)" and "q = us_quota (us_spec us)"
  shows "sorted (map qr_name (quotaRows ql userSpaces all g)) \<and>
    (\<exists>r\<in>set (quotaRows ql userSpaces all g). qr_name r = us_name us \<and> qr_owner r = us_owner (us_spec us) \<and>
      qr_workspaceCount r = qu_running u \<and> qr_workspaceLimit r = q_workspaces q \<and>
      qr_cpuUsed r = ql_show ql (qu_cpu u) \<and> qr_cpuLimit r = ql_show ql (q_cpu q) \<and>
      qr_memoryUsed r = ql_show ql (qu_memory u) \<and> qr_memoryLimit r = ql_show ql (q_memory q) \<and>
      qr_storageUsed r = ql_show ql (qu_storage u) \<and> qr_storageLimit r = ql_show ql (q_storage q) \<and>
      qr_gpuUsed r = ql_show ql (qu_gpu u) \<and> qr_gpuLimit r = FormatInt (q_gpu q))"
proof -
  have "length (filter (\<lambda>w. ws_ns w = ust_namespace (us_status us)) all) \<le> length all" by simp
  with assms(2) have "int (length (filter (\<lambda>w. ws_ns w = ust_namespace (us_status us)) all)) < 2 ^ 31" by linarith
  note run = usage_of_running [OF this, of g]
  have "quotaRow ql g all us \<in> set (quotaRows ql userSpaces all g)" using assms(1) by (simp add: quotaRows_def)
  then show ?thesis
    by (intro conjI bexI [of _ "quotaRow ql g all us"])
      (simp_all add: quotaRows_def quotaRow_def Let_def assms(3,4) rowUsage_reads usage_of_reads run)
qed

lemma addField_Nil:
  "addField ql raw name label [] = Inr into \<longleftrightarrow> (if raw = [] then into = [] else \<exists>q. ql_parse ql raw = Inr q \<and> into = [(name, q)])"
  by (auto simp: addField_def mapSet_def split: sum.splits)

lemma addGPU_parallel:
  assumes "addGPU v \<lparr>res_requests = rq, res_limits = rl\<rparr> = Inr r" "addGPU v \<lparr>res_requests = rq, res_limits = rl'\<rparr> = Inr r'"
  shows "res_requests r' = res_requests r \<and> (map_of rl' n = map_of rl n \<longrightarrow> map_of (res_limits r') n = map_of (res_limits r) n)"
  using assms by (auto simp: addGPU_def map_of_mapSet split: if_splits option.splits)

lemma addGPU_memory [simp]: "addGPU (v\<lparr>rv_memoryLimit := m\<rparr>) = addGPU v"
  by (simp add: addGPU_def fun_eq_iff split: option.split)

lemma StorageQuantity_memory [simp]: "StorageQuantity ql (v\<lparr>rv_memoryLimit := m\<rparr>) = StorageQuantity ql v"
  by (simp add: StorageQuantity_def split: sum.split)

lemma addGPU_other:
  assumes "addGPU v r0 = Inr r" "n \<noteq> rv_gpuResource v"
  shows "map_of (res_requests r) n = map_of (res_requests r0) n \<and> map_of (res_limits r) n = map_of (res_limits r0) n"
  using assms by (auto simp: addGPU_def map_of_mapSet split: if_splits option.splits)

lemma buildWorkspace_ok:
  assumes "buildWorkspace ql d = Inr ws"
  obtains rq rl where "addField ql (rv_cpu (wd_resources d)) ''cpu'' ''CPU'' [] = Inr rq"
    "addField ql (rv_memoryLimit (wd_resources d)) ''memory'' ''memory limit'' [] = Inr rl"
    "addGPU (wd_resources d) \<lparr>res_requests = rq, res_limits = rl\<rparr> = Inr (ws_resources (ws_spec ws))"
    "ws_running (ws_spec ws)" "StorageQuantity ql (wd_resources d) = Inr (the (ws_storage (ws_spec ws)))" "ws_storage (ws_spec ws) \<noteq> None"
    "ws_meta ws = meta0 (wd_namespace d) (wd_name d)"
  using assms by (auto simp: buildWorkspace_def Requirements_def split: sum.splits)

text \<open>
  (C40) The admission webhook does not measure what somebody types into the memory field: it becomes a limit only, and the webhook adds
  up requests. Two forms that differ in the memory field alone are both accepted or both refused by its quota check, with the same
  message. The ResourceQuota of the namespace measures the pod later, whose request the API server copies from the limit.
\<close>

theorem form_memory_unmetered:
  assumes "buildWorkspace ql d = Inr ws" and "buildWorkspace ql (d\<lparr>wd_resources := (wd_resources d)\<lparr>rv_memoryLimit := m\<rparr>\<rparr>) = Inr ws'"
    and "gpuResource rd \<noteq> ''memory''"
  shows "validateQuota rd ws' = validateQuota rd ws \<and>
    (rv_gpuResource (wd_resources d) \<noteq> ''memory'' \<longrightarrow> memory_cost ws' = 0 \<and>
      map_of (res_limits (ws_resources (ws_spec ws'))) ''memory'' = (if m = '''' then None else case ql_parse ql m of Inl _ \<Rightarrow> None | Inr q \<Rightarrow> Some q))"
proof -
  from buildWorkspace_ok [OF assms(1)] obtain rq rl where r: "addField ql (rv_cpu (wd_resources d)) ''cpu'' ''CPU'' [] = Inr rq"
    "addField ql (rv_memoryLimit (wd_resources d)) ''memory'' ''memory limit'' [] = Inr rl"
    "addGPU (wd_resources d) \<lparr>res_requests = rq, res_limits = rl\<rparr> = Inr (ws_resources (ws_spec ws))"
    and w: "ws_running (ws_spec ws)" "StorageQuantity ql (wd_resources d) = Inr (the (ws_storage (ws_spec ws)))" "ws_storage (ws_spec ws) \<noteq> None"
      "ws_meta ws = meta0 (wd_namespace d) (wd_name d)" .
  obtain rq' rl' where r': "addField ql (rv_cpu (wd_resources d)) ''cpu'' ''CPU'' [] = Inr rq'"
    "addField ql m ''memory'' ''memory limit'' [] = Inr rl'"
    "addGPU (wd_resources d) \<lparr>res_requests = rq', res_limits = rl'\<rparr> = Inr (ws_resources (ws_spec ws'))"
    and w': "ws_running (ws_spec ws')" "StorageQuantity ql (wd_resources d) = Inr (the (ws_storage (ws_spec ws')))" "ws_storage (ws_spec ws') \<noteq> None"
      "ws_meta ws' = meta0 (wd_namespace d) (wd_name d)"
    by (rule buildWorkspace_ok [OF assms(2)]) auto
  have e: "ws_meta ws' = ws_meta ws" "ws_storage (ws_spec ws') = ws_storage (ws_spec ws)" "ws_running (ws_spec ws') = ws_running (ws_spec ws)"
    using w w' by auto
  have q: "rq' = rq" using r(1) r'(1) by simp
  have "map_of rl' n = map_of rl n" if "n \<noteq> ''memory''" for n
    using r(2) r'(2) that by (auto simp: addField_Nil split: if_splits)
  then have e4: "res_requests (ws_resources (ws_spec ws')) = res_requests (ws_resources (ws_spec ws))"
    "n \<noteq> ''memory'' \<Longrightarrow> map_of (res_limits (ws_resources (ws_spec ws'))) n = map_of (res_limits (ws_resources (ws_spec ws))) n" for n
    using addGPU_parallel [OF r(3) r'(3) [unfolded q]] by blast+
  have a: "quotaUsage_add u ws' (gpuResource rd) = quotaUsage_add u ws (gpuResource rd)" for u
    using assms(3) by (simp add: quotaUsage_add_def Let_def e e4)
  have b: "quotaUsage_within u us ws' = quotaUsage_within u us ws" for u us
    by (simp add: quotaUsage_within_def e)
  have "validateQuota rd ws' = validateQuota rd ws" unfolding validateQuota_def Let_def e(1) a b by (rule refl)
  moreover have "rv_gpuResource (wd_resources d) \<noteq> ''memory'' \<longrightarrow> memory_cost ws' = 0 \<and>
      map_of (res_limits (ws_resources (ws_spec ws'))) ''memory'' = (if m = '''' then None else case ql_parse ql m of Inl _ \<Rightarrow> None | Inr q \<Rightarrow> Some q)"
    using r'(1,2) addGPU_other [OF r'(3), of "''memory''"] by (auto simp: memory_cost_def addField_Nil split: sum.splits if_splits)
  ultimately show ?thesis by blast
qed

text \<open>
  The quota form converts a 64-bit count to 32 bits: the number an administrator types is stored as it is exactly when it is
  below \<open>2 ^ 31\<close>; the next \<open>2 ^ 31\<close> numbers are stored as a negative limit, under which no workspace can run.
\<close>

theorem quota_form_wraps:
  assumes "quotaFromForm ql form = Inr q" and "TrimSpace (form ''workspaces'') \<noteq> ''''" and "ql_parse ql (TrimSpace (form ''workspaces'')) = Inr v"
  shows "(q_workspaces q = ql_value ql v \<longleftrightarrow> ql_value ql v < 2 ^ 31) \<and>
    (2 ^ 31 \<le> ql_value ql v \<and> ql_value ql v < 2 ^ 32 \<longrightarrow> q_workspaces q < 0)"
proof -
  from assms have q: "0 \<le> ql_value ql v" "q_workspaces q = wrap32 (ql_value ql v)"
    by (auto simp: quotaFromForm_def int32OrDefault_def Let_def split: sum.splits if_splits)
  have "q_workspaces q < 0" if "2 ^ 31 \<le> ql_value ql v" "ql_value ql v < 2 ^ 32"
  proof -
    have "(ql_value ql v + 2 ^ 31) mod 2 ^ 32 = (ql_value ql v - 2 ^ 31) mod 2 ^ 32"
      using mod_add_self2 [of "ql_value ql v - 2 ^ 31" "2 ^ 32"] by (simp add: algebra_simps)
    also have "\<dots> = ql_value ql v - 2 ^ 31" using that by (intro mod_pos_pos_trivial) simp_all
    finally show ?thesis using that(2) by (simp add: q(2) wrap32_def)
  qed
  moreover have "q_workspaces q = ql_value ql v \<longleftrightarrow> ql_value ql v < 2 ^ 31"
    using q wrap32_range [of "ql_value ql v"] wrap32_id [of "ql_value ql v"] by fastforce
  ultimately show ?thesis by blast
qed

section \<open>Lemmas: lists in text fields\<close>

lemma set_TrimSpace: "set (TrimSpace s) \<subseteq> set s"
proof -
  have r: "set (TrimRightSpace s) \<subseteq> set s" for s
    using TrimRight_prefix [of s] by (metis le_sup_iff order_refl set_append)
  have "set (TrimLeftSpace s) \<subseteq> set s"
  proof (induction s rule: TrimLeftSpace.induct)
    case (1 s)
    then show ?case using set_drop_subset [of "space_len s" s]
      by (cases "space_len s = 0") (auto simp: TrimLeftSpace.simps [of s])
  qed
  with r [of "TrimLeftSpace s"] show ?thesis by (auto simp: TrimSpace_def)
qed

lemma splitFrom_no_sep: "sep \<notin> set cur \<Longrightarrow> p \<in> set (splitFrom sep cur s) \<Longrightarrow> sep \<notin> set p"
  by (induction sep cur s rule: splitFrom.induct) (auto split: if_splits)

lemma splitFrom_prefix: "sep \<notin> set x \<Longrightarrow> splitFrom sep cur (x @ rest) = splitFrom sep (cur @ x) rest"
  by (induction x arbitrary: cur) auto

lemma splitFrom_Join: "\<forall>x\<in>set xs. sep \<notin> set x \<Longrightarrow> xs \<noteq> [] \<Longrightarrow> splitFrom sep [] (Join xs [sep]) = xs"
proof (induction xs "[sep]" rule: Join.induct)
  case (2 x)
  then show ?case using splitFrom_prefix [of sep x "[]" "[]"] by simp
next
  case (3 x y ys)
  then show ?case using splitFrom_prefix [of sep x "[]" "sep # Join (y # ys) [sep]"] by simp
qed simp

lemma pieces_ok: "p \<in> set (pieces sep v) \<Longrightarrow> p \<noteq> '''' \<and> TrimSpace p = p \<and> sep \<notin> set p"
  using splitFrom_no_sep [of sep "[]" _ v] set_TrimSpace by (fastforce simp: pieces_def TrimSpace_idem)

lemma pieces_Join:
  assumes "\<forall>p\<in>set ps. p \<noteq> '''' \<and> TrimSpace p = p \<and> sep \<notin> set p"
  shows "pieces sep (Join ps [sep]) = ps"
proof (cases "ps = []")
  case True
  have "TrimSpace [] = []" by code_simp
  then show ?thesis using True by (simp add: pieces_def)
next
  case False
  have "map TrimSpace ps = ps" by (rule map_idI) (use assms in blast)
  then show ?thesis using assms False by (simp add: pieces_def splitFrom_Join)
qed

section \<open>Lemmas: names made from titles\<close>

definition labelChar :: "char \<Rightarrow> bool" where
  "labelChar c \<longleftrightarrow> slugRune (byte c) \<or> c = CHR ''-''"

text \<open>A DNS label: what Kubernetes accepts as the name of an object.\<close>

definition dnsLabel :: "string \<Rightarrow> bool" where
  "dnsLabel s \<longleftrightarrow> s \<noteq> '''' \<and> length s \<le> 63 \<and> list_all labelChar s \<and> hd s \<noteq> CHR ''-'' \<and> last s \<noteq> CHR ''-''"

lemma slugLoop_chars: "list_all labelChar out \<Longrightarrow> list_all labelChar (slugLoop out dash rs)"
  by (induction out dash rs rule: slugLoop.induct) (auto simp: labelChar_def slugRune_def)

lemma slugify_label:
  assumes "slugify uc name \<noteq> ''''"
  shows "list_all labelChar (slugify uc name) \<and> length (slugify uc name) \<le> 60 \<and>
    hd (slugify uc name) \<noteq> CHR ''-'' \<and> last (slugify uc name) \<noteq> CHR ''-''"
proof -
  let ?t = "take 60 (slugLoop [] False (runes (ToLower uc name)))"
  have "list_all labelChar ?t" using slugLoop_chars [of "[]"] by (auto simp: list_all_iff dest: in_set_takeD)
  then have "list_all labelChar (slugify uc name)" using TrimSet_subset [of ?t "''-''"] by (auto simp: slugify_def list_all_iff)
  moreover have "length (slugify uc name) \<le> 60" using TrimSet_length [of ?t "''-''"] by (simp add: slugify_def)
  ultimately show ?thesis using TrimSet_ends [of ?t "''-''"] assms by (auto simp: slugify_def)
qed

lemma slugName_label:
  assumes "slugify uc name = base" "base \<noteq> ''''" "1 \<le> k" "k \<le> slugAttempts"
  shows "dnsLabel (slugName base k)"
proof -
  have b: "list_all labelChar base" "length base \<le> 60" "hd base \<noteq> CHR ''-''" "last base \<noteq> CHR ''-''"
    using slugify_label [of uc name] assms by auto
  have n: "list_all labelChar (show_nat k)" using show_nat_digits [of k] by (auto simp: list_all_iff labelChar_def slugRune_def isDigit_def)
  have "last (show_nat k) \<in> set (show_nat k)" using show_nat_digits [of k] by simp
  then have "isDigit (last (show_nat k))" using show_nat_digits [of k] unfolding list_all_iff by blast
  then have l: "last (show_nat k) \<noteq> CHR ''-''" by (auto simp: isDigit_def)
  have "length (show_nat k) \<le> 2"
    using assms(4) by (auto simp: slugAttempts_def show_nat.simps [of k] show_nat.simps [of "k div 10"] show_nat.simps [of "Suc 0"])
  then show ?thesis
    using assms(2,3) b n l show_nat_digits [of k] by (auto simp: dnsLabel_def slugName_def labelChar_def)
qed

definition named :: "workspaceimage \<Rightarrow> string \<Rightarrow> workspaceimage" where
  "named img n = img\<lparr>img_meta := (img_meta img)\<lparr>m_name := n\<rparr>\<rparr>"

text \<open>What is relied on of creating a catalog entry: an existing name is refused as such, and a refusal changes nothing.\<close>

definition create_laws :: "(workspaceimage \<Rightarrow> 's \<Rightarrow> apierr option \<times> 's) \<Rightarrow> ('s \<Rightarrow> (string \<rightharpoonup> workspaceimage)) \<Rightarrow> bool" where
  "create_laws create imgs \<longleftrightarrow> (\<forall>img s e s'. create img s = (e, s') \<longrightarrow>
     (e = Some AlreadyExists \<longleftrightarrow> imgs s (img_name img) \<noteq> None) \<and>
     imgs s' = (if e = None then (imgs s)(img_name img \<mapsto> img) else imgs s))"

lemma create_lawsD:
  assumes "create_laws create imgs" "create img s = (e, s')"
  shows "e = Some AlreadyExists \<longleftrightarrow> imgs s (img_name img) \<noteq> None" "imgs s' = (if e = None then (imgs s)(img_name img \<mapsto> img) else imgs s)"
  using assms unfolding create_laws_def by blast+

lemma slugTry_result:
  assumes l: "create_laws create imgs" and "slugTry create img name base k left s = (r, s')"
  shows "(r = None \<longrightarrow> (\<exists>j<left. imgs s (slugName base (k + j)) = None \<and> (\<forall>i<j. imgs s (slugName base (k + i)) \<noteq> None) \<and>
      imgs s' = (imgs s)(slugName base (k + j) \<mapsto> named img (slugName base (k + j))))) \<and>
    (r \<noteq> None \<longrightarrow> imgs s' = imgs s)"
  using assms(2)
proof (induction left arbitrary: k s)
  case (Suc left)
  obtain e t where c: "create (named img (slugName base k)) s = (e, t)" by fastforce
  have nm: "img_name (named img (slugName base k)) = slugName base k" by (simp add: named_def)
  note t = create_lawsD [OF l c, unfolded nm]
  show ?case
  proof (cases "e = Some AlreadyExists")
    case True
    then have "slugTry create img name base (Suc k) left t = (r, s')" using Suc.prems c by (simp add: named_def)
    moreover have "imgs t = imgs s" using t(2) True by simp
    ultimately have ih: "r = None \<longrightarrow> (\<exists>j<left. imgs s (slugName base (k + Suc j)) = None \<and> (\<forall>i<j. imgs s (slugName base (k + Suc i)) \<noteq> None) \<and>
      imgs s' = (imgs s)(slugName base (k + Suc j) \<mapsto> named img (slugName base (k + Suc j))))" "r \<noteq> None \<longrightarrow> imgs s' = imgs s"
      using Suc.IH [of "Suc k" t] by (simp_all only: add_Suc_shift refl) blast+
    have "imgs s (slugName base (k + 0)) \<noteq> None" using t(1) True by simp
    then have all: "\<forall>i<Suc j. imgs s (slugName base (k + i)) \<noteq> None" if "\<forall>i<j. imgs s (slugName base (k + Suc i)) \<noteq> None" for j
      using that by (auto simp: less_Suc_eq_0_disj)
    show ?thesis using ih all by (metis Suc_less_eq)
  next
    case False
    show ?thesis
    proof (cases e)
      case None
      then have "r = None" "s' = t" using Suc.prems c by (simp_all add: named_def)
      then show ?thesis using t None by (intro conjI impI exI [of _ 0]) simp_all
    next
      case (Some x)
      then have "r = Some (KubeErr x)" "s' = t" using Suc.prems c False by (simp_all add: named_def)
      then show ?thesis using t(2) Some by simp
    qed
  qed
qed auto

text \<open>
  A catalog entry is named after its title and never replaces another: the entry is stored under the first free name among the
  slug and its variants 2 to 10, which is a valid object name, with the catalog otherwise as it was; when that fails, nothing
  changes.
\<close>

theorem createWithSlug_exact:
  assumes "create_laws create imgs" and "createWithSlug uc create img name s = (r, s')"
  shows "(r = None \<longrightarrow> (\<exists>k. 1 \<le> k \<and> k \<le> slugAttempts \<and> dnsLabel (slugName (slugify uc name) k) \<and> imgs s (slugName (slugify uc name) k) = None \<and>
      (\<forall>i. 1 \<le> i \<and> i < k \<longrightarrow> imgs s (slugName (slugify uc name) i) \<noteq> None) \<and>
      imgs s' = (imgs s)(slugName (slugify uc name) k \<mapsto> named img (slugName (slugify uc name) k)))) \<and>
    (r \<noteq> None \<longrightarrow> imgs s' = imgs s)"
proof (cases "slugify uc name = ''''")
  case True
  then show ?thesis using assms(2) by (auto simp: createWithSlug_def)
next
  case False
  let ?b = "slugify uc name"
  have "slugTry create img name ?b 1 slugAttempts s = (r, s')" using assms(2) False by (simp add: createWithSlug_def Let_def)
  from slugTry_result [OF assms(1) this] have t:
    "r = None \<longrightarrow> (\<exists>j < slugAttempts. imgs s (slugName ?b (1 + j)) = None \<and> (\<forall>i<j. imgs s (slugName ?b (1 + i)) \<noteq> None) \<and>
      imgs s' = (imgs s)(slugName ?b (1 + j) \<mapsto> named img (slugName ?b (1 + j))))" "r \<noteq> None \<longrightarrow> imgs s' = imgs s" by blast+
  show ?thesis
  proof (intro conjI impI)
    assume "r = None"
    with t(1) obtain j where j: "j < slugAttempts" "imgs s (slugName ?b (1 + j)) = None" "\<forall>i<j. imgs s (slugName ?b (1 + i)) \<noteq> None"
      "imgs s' = (imgs s)(slugName ?b (1 + j) \<mapsto> named img (slugName ?b (1 + j)))" by blast
    have "imgs s (slugName ?b i) \<noteq> None" if "1 \<le> i" "i < 1 + j" for i
      using j(3) that by (metis add.commute le_add_diff_inverse2 less_diff_conv2)
    then show "\<exists>k. 1 \<le> k \<and> k \<le> slugAttempts \<and> dnsLabel (slugName ?b k) \<and> imgs s (slugName ?b k) = None \<and>
      (\<forall>i. 1 \<le> i \<and> i < k \<longrightarrow> imgs s (slugName ?b i) \<noteq> None) \<and> imgs s' = (imgs s)(slugName ?b k \<mapsto> named img (slugName ?b k))"
      using j slugName_label [OF refl False, of "1 + j"] by (intro exI [of _ "1 + j"]) simp
  qed (use t(2) in blast)
qed

section \<open>Witnesses\<close>

definition demo_ql :: "int quantlib" where
  "demo_ql = \<lparr>ql_parse = (\<lambda>s. case Atoi s of None \<Rightarrow> Inl ''not a number'' | Some n \<Rightarrow> Inr n), ql_value = (\<lambda>q. q), ql_show = FormatInt\<rparr>"

definition demo_draft :: "string \<Rightarrow> workspacedraft" where
  "demo_draft memory = \<lparr>wd_name = ''dev'', wd_namespace = ''dwpk-ana'', wd_image = ''python'', wd_sshKey = '''',
     wd_resources = \<lparr>rv_cpu = ''1'', rv_memoryLimit = memory, rv_storage = ''1'', rv_gpu = ''0'', rv_gpuResource = defaultGPUResourceName\<rparr>, wd_env = []\<rparr>"

theorem quota_screen_matches_admission_witness:
  "\<exists>r :: quotarow. qr_name r = us_name demo_us \<and> qr_workspaceCount r = 1 \<and> qr_cpuUsed r = ''7''"
proof -
  have u: "usage_of ''nvidia.com/gpu'' (filter (\<lambda>w. ws_ns w = ust_namespace (us_status demo_us)) [demo_ws ''a'' 7]) =
     \<lparr>qu_running = 1, qu_cpu = 7, qu_memory = 0, qu_gpu = 0, qu_storage = 10\<rparr>" by code_simp
  have s: "ql_show demo_ql 7 = ''7''" by code_simp
  have "demo_us \<in> set [demo_us]" "int (length [demo_ws ''a'' 7]) < 2 ^ 31" by simp_all
  from quota_screen_matches_admission [where g = "''nvidia.com/gpu''" and ql = demo_ql, OF this u [symmetric] refl] s show ?thesis by (simp only: quotaUsage.simps) blast
qed

lemma demo_parse: "ql_parse demo_ql ''1'' = Inr 1" "ql_parse demo_ql ''4'' = Inr 4" "ql_parse demo_ql ''4000'' = Inr 4000"
  by code_simp+

lemma demo_builds:
  "\<exists>ws. buildWorkspace demo_ql (demo_draft ''4'') = Inr ws \<and> validateQuota (demo_reader []) ws = None"
  "\<exists>ws. buildWorkspace demo_ql (demo_draft ''4000'') = Inr ws"
  by (simp_all add: buildWorkspace_def StorageQuantity_def Requirements_def addField_def addGPU_def demo_draft_def demo_parse mapSet_def
      validateQuota_def userSpaceFor_def demo_defs quotaUsage_add_def quotaUsage_within_def newQuotaUsage_def Let_def gpuResource_def DefaultGPUResourceName_def wrap32_def)

theorem form_memory_unmetered_witness:
  "\<exists>ws'. buildWorkspace demo_ql (demo_draft ''4000'') = Inr ws' \<and>
     map_of (res_limits (ws_resources (ws_spec ws'))) ''memory'' = Some 4000 \<and> memory_cost ws' = 0 \<and>
     validateQuota (demo_reader []) ws' = None"
proof -
  obtain ws ws' where ws: "buildWorkspace demo_ql (demo_draft ''4'') = Inr ws" "validateQuota (demo_reader []) ws = None"
    and ws': "buildWorkspace demo_ql (demo_draft ''4000'') = Inr ws'" using demo_builds by blast
  have d: "(demo_draft ''4'')\<lparr>wd_resources := (wd_resources (demo_draft ''4''))\<lparr>rv_memoryLimit := ''4000''\<rparr>\<rparr> = demo_draft ''4000''"
    by (simp add: demo_draft_def)
  have g: "gpuResource (demo_reader []) \<noteq> ''memory''" "rv_gpuResource (wd_resources (demo_draft ''4'')) \<noteq> ''memory''"
    by (simp_all add: gpuResource_def demo_reader_def DefaultGPUResourceName_def demo_draft_def defaultGPUResourceName_def)
  show ?thesis using form_memory_unmetered [OF ws(1) _ g(1), of "''4000''" ws'] ws' ws(2) g(2) by (simp add: d demo_parse)
qed

theorem quota_form_wraps_witness:
  "\<exists>q. quotaFromForm demo_ql (\<lambda>n. if n = ''workspaces'' then ''4294967295'' else ''1'') = Inr q \<and> q_workspaces q < 0"
proof -
  let ?f = "\<lambda>n. if n = ''workspaces'' then ''4294967295'' else ''1''"
  have "\<not> isl (quotaFromForm demo_ql ?f)" by code_simp
  then obtain q where q: "quotaFromForm demo_ql ?f = Inr q" by (auto simp: isl_def) (metis sum.exhaust_sel)
  have "TrimSpace (?f ''workspaces'') \<noteq> ''''" "ql_parse demo_ql (TrimSpace (?f ''workspaces'')) = Inr 4294967295" by code_simp+
  from quota_form_wraps [OF q this] show ?thesis using q by (simp add: demo_ql_def)
qed

text \<open>A catalog in memory that refuses nothing but a name that is taken.\<close>

definition demo_create :: "workspaceimage \<Rightarrow> workspaceimage list \<Rightarrow> apierr option \<times> workspaceimage list" where
  "demo_create img s = (if list_ex (\<lambda>i. img_name i = img_name img) s then (Some AlreadyExists, s) else (None, img # s))"

definition demo_find :: "workspaceimage list \<Rightarrow> string \<rightharpoonup> workspaceimage" where
  "demo_find s n = find (\<lambda>i. img_name i = n) s"

lemma demo_create_laws: "create_laws demo_create demo_find"
proof -
  have "list_ex (\<lambda>i. img_name i = n) s \<longleftrightarrow> demo_find s n \<noteq> None" for n s
    by (auto simp: demo_find_def find_None_iff list_ex_iff)
  moreover have "demo_find (img # s) = (demo_find s)(img_name img \<mapsto> img)" for img s
    by (auto simp: demo_find_def)
  ultimately show ?thesis by (auto simp: create_laws_def demo_create_def)
qed

lemma demo_slug: "slugify demo_uc ''My Python!'' = ''my-python''"
proof -
  have "ToLower demo_uc ''My Python!'' = ''my python!''" by (subst ToLower_ascii) (simp_all add: ascii_def lowerRune_def char_of_def bit_0)
  moreover have "runes ''my python!'' = map byte ''my python!''" by (rule runes_ascii) (simp add: ascii_def)
  ultimately show ?thesis by (simp add: slugify_def slugRune_def TrimSet_def char_of_def bit_0 del: runes.simps)
qed

theorem createWithSlug_exact_witness:
  "\<exists>s'. createWithSlug demo_uc demo_create (demo_img '''') ''My Python!'' [demo_img ''my-python''] = (None, s') \<and>
     demo_find s' ''my-python-2'' \<noteq> None \<and> demo_find s' ''my-python'' \<noteq> None"
proof -
  let ?s = "[demo_img ''my-python'']"
  have n: "slugName ''my-python'' 1 = ''my-python''" "slugName ''my-python'' 2 = ''my-python-2''" by code_simp+
  have f: "demo_find ?s ''my-python'' \<noteq> None" "demo_find ?s ''my-python-2'' = None" by (simp_all add: demo_find_def demo_img_def meta0_def)
  obtain r s' where c: "createWithSlug demo_uc demo_create (demo_img '''') ''My Python!'' ?s = (r, s')" by fastforce
  then have r: "r = None"
    by (simp add: createWithSlug_def demo_slug slugAttempts_def numeral_eq_Suc demo_create_def demo_img_def meta0_def slugName_def show_nat.simps digit_char_def Let_def)
  from createWithSlug_exact [OF demo_create_laws c] r obtain k where k: "1 \<le> k" "demo_find ?s (slugName ''my-python'' k) = None"
    "\<forall>i. 1 \<le> i \<and> i < k \<longrightarrow> demo_find ?s (slugName ''my-python'' i) \<noteq> None"
    "demo_find s' = (demo_find ?s)(slugName ''my-python'' k \<mapsto> named (demo_img '''') (slugName ''my-python'' k))" unfolding demo_slug by blast
  have "k \<noteq> 1" using k(2) f(1) n(1) by metis
  moreover have "\<not> 2 < k" using k(3) f(2) n(2) by (metis one_le_numeral)
  ultimately have "k = 2" using k(1) by simp
  then show ?thesis using c r k(4) f(1) by (simp add: n(2))
qed

end
