(* ===== verification/UiWorkspaces.thy ===== *)
theory UiWorkspaces
  imports UiAccounts UiForms WorkspaceObjects
begin

text \<open>
  The routes that create, start, stop, resize and delete workspaces: the owner's screens (\<^verbatim>\<open>src/internal/ui/create.go\<close>, \<^verbatim>\<open>workspace.go\<close>),
  the administrator's (\<^verbatim>\<open>admin_workspaces.go\<close>) and the REST routes (\<^verbatim>\<open>api.go\<close>), over the client methods of \<^verbatim>\<open>k8s.go\<close>.

  The record \<open>wsapi\<close> is the API server as a client with a caller's token sees it: every operation takes the token. What the routes rely on
  is the locale \<open>ws_client_laws\<close>, stated over the stored workspaces and home volume claims.
\<close>

section \<open>The client\<close>

record ('q, 's) wsapi =
  wa_create :: "string \<Rightarrow> 'q workspace \<Rightarrow> 's \<Rightarrow> apierr option \<times> 's"
  wa_get :: "string \<Rightarrow> string \<Rightarrow> string \<Rightarrow> 's \<Rightarrow> apierr + 'q workspace"
  wa_list :: "string \<Rightarrow> string \<Rightarrow> 's \<Rightarrow> apierr + 'q workspace list"
  wa_delete :: "string \<Rightarrow> string \<Rightarrow> string \<Rightarrow> 's \<Rightarrow> apierr option \<times> 's"
  wa_deletePVC :: "string \<Rightarrow> string \<Rightarrow> string \<Rightarrow> 's \<Rightarrow> apierr option \<times> 's"
  wa_patchRunning :: "string \<Rightarrow> string \<Rightarrow> string \<Rightarrow> bool \<Rightarrow> 's \<Rightarrow> apierr option \<times> 's"
  wa_patchResources :: "string \<Rightarrow> string \<Rightarrow> string \<Rightarrow> 'q resources \<Rightarrow> envvar list \<Rightarrow> 's \<Rightarrow> apierr option \<times> 's"
  wa_image :: "string \<Rightarrow> string \<Rightarrow> 's \<Rightarrow> apierr + workspaceimage"
  wa_userSpace :: "string \<Rightarrow> string \<Rightarrow> 's \<Rightarrow> apierr + 'q userspace"

definition DeleteClaim :: "('q, 's) wsapi \<Rightarrow> string \<Rightarrow> string \<Rightarrow> string \<Rightarrow> 's \<Rightarrow> apierr option \<times> 's" where
  "DeleteClaim api tok ns name s =
     (case wa_deletePVC api tok ns name s of
        (Some err, s') \<Rightarrow> (if IsNotFound err then None else Some err, s')
      | (None, s') \<Rightarrow> (None, s'))"

definition PatchWorkspaceRunning :: "('q, 's) wsapi \<Rightarrow> string \<Rightarrow> string \<Rightarrow> string \<Rightarrow> bool \<Rightarrow> 's \<Rightarrow> (apierr + 'q workspace) \<times> 's" where
  "PatchWorkspaceRunning api tok ns name running s =
     (case wa_patchRunning api tok ns name running s of
        (Some err, s') \<Rightarrow> (Inl err, s')
      | (None, s') \<Rightarrow> (wa_get api tok ns name s', s'))"

definition PatchWorkspaceResources ::
    "('q, 's) wsapi \<Rightarrow> string \<Rightarrow> string \<Rightarrow> string \<Rightarrow> 'q resources \<Rightarrow> envvar list \<Rightarrow> 's \<Rightarrow> (apierr + 'q workspace) \<times> 's" where
  "PatchWorkspaceResources api tok ns name res env s =
     (case wa_patchResources api tok ns name res env s of
        (Some err, s') \<Rightarrow> (Inl err, s')
      | (None, s') \<Rightarrow> (wa_get api tok ns name s', s'))"

section \<open>Answers\<close>

datatype 'q wsresp =
    Plain response | WsJSON nat "'q workspace" | WsListJSON "'q workspace list" | WsCard "'q workspace" | WsPreview "uierr + 'q workspace"
  | WsForm workspaceimage bool int int resourcevalues

text \<open>A request with a repeated field of its form.\<close>

record formreq =
  fr_req :: httpreq
  fr_rows :: "string \<Rightarrow> string list"

definition errInvalidForm :: uierr where
  "errInvalidForm = ApiError 400 ''invalid form''"

definition workspaceClaimName :: "string \<Rightarrow> string" where
  "workspaceClaimName name = HomeVolumeName @ ''-'' @ name @ ''-0''"

definition donePath :: "string \<Rightarrow> string \<Rightarrow> string" where
  "donePath path key = path @ ''?done='' @ QueryEscape key"

section \<open>Creating\<close>

definition handleNewWorkspaceForm ::
    "('q, 'tok, 's) uiserver \<Rightarrow> ('q, 's) wsapi \<Rightarrow> gotime \<Rightarrow> string \<Rightarrow> httpreq \<Rightarrow> reqsession \<Rightarrow> 's \<Rightarrow> 'q wsresp" where
  "handleNewWorkspaceForm sv api now gpu r session s =
     (case sv_forToken sv (rs_token session) of
        Some err \<Rightarrow> Plain (failWith sv (OtherErr err))
      | None \<Rightarrow>
          (let imageName = TrimSpace (rq_query r ''image'') in
           if imageName = '''' then Plain (redirectTo 303 (sv_path sv ''/catalog''))
           else case sv_canI sv (rs_token session) ''use'' ''workspaceimages'' imageName s of
             Inl err \<Rightarrow> Plain (failWith sv (KubeErr err))
           | Inr allowed \<Rightarrow>
               if \<not> allowed then Plain (failWith sv (ApiError 403 ''you are not authorised to use this workspace image''))
               else case wa_image api (rs_token session) imageName s of
                 Inl err \<Rightarrow> Plain (failWith sv (KubeErr err))
               | Inr img \<Rightarrow>
                   if IsDeprecated img now then Plain (failWith sv (ApiError 403 ''this catalog entry is deprecated and accepts no new workspaces''))
                   else
                     let us = wa_userSpace api (rs_token session) (si_userSpaceName (rs_identity session)) s;
                         existing = wa_list api (rs_token session) (si_userSpaceNamespace (rs_identity session)) s
                     in WsForm img (case us of Inl _ \<Rightarrow> False | Inr u \<Rightarrow> us_keys (us_spec u) \<noteq> [])
                          (case existing of Inl _ \<Rightarrow> 0 | Inr wss \<Rightarrow> int (length wss))
                          (case us of Inl _ \<Rightarrow> 0 | Inr u \<Rightarrow> q_workspaces (us_quota (us_spec u)))
                          (defaultResourceValues\<lparr>rv_gpuResource := gpu\<rparr>)))"

text \<open>The object that the form describes for a namespace, or the error that either step answers.\<close>

definition formWorkspace :: "('q :: linordered_idom) quantlib \<Rightarrow> (string \<Rightarrow> string) \<Rightarrow> (string \<Rightarrow> string list) \<Rightarrow> string \<Rightarrow> uierr + 'q workspace" where
  "formWorkspace ql form rows ns =
     (case draftFromForm form rows ns of
        Inl err \<Rightarrow> Inl err
      | Inr draft \<Rightarrow> (case buildWorkspace ql draft of Inl err \<Rightarrow> Inl (OtherErr err) | Inr ws \<Rightarrow> Inr ws))"

definition handleCreateWorkspace ::
    "('q :: linordered_idom, 'tok, 's) uiserver \<Rightarrow> 'q quantlib \<Rightarrow> ('q, 's) wsapi \<Rightarrow> formreq \<Rightarrow> reqsession \<Rightarrow> 's svstate \<Rightarrow> response \<times> 's svstate" where
  "handleCreateWorkspace sv ql api fr session st =
     (case rq_form (fr_req fr) of
        Inl err \<Rightarrow> (failWith sv (OtherErr err), st)
      | Inr form \<Rightarrow>
          (case formWorkspace ql form (fr_rows fr) (si_userSpaceNamespace (rs_identity session)) of
             Inl err \<Rightarrow> (failWith sv err, st)
           | Inr ws \<Rightarrow>
               (case sv_forToken sv (rs_token session) of
                  Some err \<Rightarrow> (failWith sv (OtherErr err), st)
                | None \<Rightarrow>
                    (case onCluster (wa_create api (rs_token session) ws) st of
                       (Some err, st1) \<Rightarrow> (failWith sv (KubeErr err), st1)
                     | (None, st1) \<Rightarrow> (redirectTo 302 (sv_path sv (''/w/'' @ ws_name ws)), st1)))))"

definition handleWorkspacePreview ::
    "('q :: linordered_idom, 'tok, 's) uiserver \<Rightarrow> 'q quantlib \<Rightarrow> formreq \<Rightarrow> reqsession \<Rightarrow> 'q wsresp" where
  "handleWorkspacePreview sv ql fr session =
     (case rq_form (fr_req fr) of
        Inl _ \<Rightarrow> Plain (failWith sv errInvalidForm)
      | Inr form \<Rightarrow>
          WsPreview (formWorkspace ql form (fr_rows fr)
            (if TrimSpace (form ''namespace'') \<noteq> '''' then TrimSpace (form ''namespace'') else si_userSpaceNamespace (rs_identity session))))"

definition handleAdminCreateWorkspace ::
    "('q :: linordered_idom, 'tok, 's) uiserver \<Rightarrow> 'q quantlib \<Rightarrow> ('q, 's) wsapi \<Rightarrow> formreq \<Rightarrow> reqsession \<Rightarrow> 's svstate \<Rightarrow> response \<times> 's svstate" where
  "handleAdminCreateWorkspace sv ql api fr session st =
     (case sv_forToken sv (rs_token session) of
        Some err \<Rightarrow> (failWith sv (OtherErr err), st)
      | None \<Rightarrow>
          (case rq_form (fr_req fr) of
             Inl _ \<Rightarrow> (failWith sv errInvalidForm, st)
           | Inr form \<Rightarrow>
               (case formWorkspace ql form (fr_rows fr) (TrimSpace (form ''namespace'')) of
                  Inl err \<Rightarrow> (failWith sv err, st)
                | Inr ws \<Rightarrow>
                    (case onCluster (wa_create api (rs_token session) ws) st of
                       (Some err, st1) \<Rightarrow> (failWith sv (KubeErr err), st1)
                     | (None, st1) \<Rightarrow> (redirectTo 302 (sv_path sv ''/admin/workspaces''), st1)))))"

text \<open>The body of the REST route.\<close>

record createrequest =
  cq_name :: string
  cq_image :: string
  cq_cpu :: string
  cq_memory :: string
  cq_gpu :: string
  cq_storage :: string
  cq_sshPublicKey :: string

definition handleAPICreateWorkspace ::
    "('q :: linordered_idom, 'tok, 's) uiserver \<Rightarrow> 'q quantlib \<Rightarrow> ('q, 's) wsapi \<Rightarrow> string \<Rightarrow> string + createrequest \<Rightarrow> reqsession \<Rightarrow> 's svstate \<Rightarrow> 'q wsresp \<times> 's svstate" where
  "handleAPICreateWorkspace sv ql api gpu body session st =
     (case sv_forToken sv (rs_token session) of
        Some err \<Rightarrow> (Plain (failWith sv (OtherErr err)), st)
      | None \<Rightarrow>
          (case body of
             Inl err \<Rightarrow> (Plain (failWith sv (ApiError 400 err)), st)
           | Inr q \<Rightarrow>
               (case buildWorkspace ql \<lparr>wd_name = TrimSpace (cq_name q), wd_namespace = si_userSpaceNamespace (rs_identity session),
                     wd_image = TrimSpace (cq_image q), wd_sshKey = TrimSpace (cq_sshPublicKey q),
                     wd_resources = \<lparr>rv_cpu = cq_cpu q, rv_memoryLimit = cq_memory q, rv_storage = TrimSpace (cq_storage q), rv_gpu = cq_gpu q, rv_gpuResource = gpu\<rparr>,
                     wd_env = []\<rparr> of
                  Inl err \<Rightarrow> (Plain (failWith sv (ApiError 400 err)), st)
                | Inr ws \<Rightarrow>
                    (case onCluster (wa_create api (rs_token session) ws) st of
                       (Some err, st1) \<Rightarrow> (Plain (failWith sv (KubeErr err)), st1)
                     | (None, st1) \<Rightarrow> (WsJSON 201 ws, st1)))))"

section \<open>Starting, stopping and resizing\<close>

text \<open>\<open>referer\<close> is the host, path and raw query of the parsed Referer header, absent when it cannot be parsed.\<close>

definition redirectBack :: "('q, 'tok, 's) uiserver \<Rightarrow> httpreq \<Rightarrow> (string \<times> string \<times> string) option \<Rightarrow> string \<Rightarrow> response" where
  "redirectBack sv r referer fallback =
     redirectTo 303 (case referer of
        Some (host, path, query) \<Rightarrow>
          if path \<noteq> '''' \<and> (host = '''' \<or> host = rq_host r) then path @ (if query \<noteq> '''' then ''?'' @ query else '''') else sv_path sv fallback
      | None \<Rightarrow> sv_path sv fallback)"

definition handleWorkspaceRunningPatch ::
    "('q, 'tok, 's) uiserver \<Rightarrow> ('q, 's) wsapi \<Rightarrow> httpreq \<Rightarrow> (string \<times> string \<times> string) option \<Rightarrow> bool \<Rightarrow> reqsession \<Rightarrow> 's svstate \<Rightarrow> 'q wsresp \<times> 's svstate" where
  "handleWorkspaceRunningPatch sv api r referer running session st =
     (case sv_forToken sv (rs_token session) of
        Some err \<Rightarrow> (Plain (failWith sv (OtherErr err)), st)
      | None \<Rightarrow>
          (case onCluster (PatchWorkspaceRunning api (rs_token session) (si_userSpaceNamespace (rs_identity session)) (rq_path r ''name'') running) st of
             (Inl err, st1) \<Rightarrow> (Plain (failWith sv (KubeErr err)), st1)
           | (Inr ws, st1) \<Rightarrow>
               if rq_header r ''HX-Request'' \<noteq> ''true'' then (Plain (redirectBack sv r referer (''/w/'' @ ws_name ws)), st1)
               else (WsCard ws, st1)))"

definition handleUpdateWorkspaceResources ::
    "('q :: linordered_idom, 'tok, 's) uiserver \<Rightarrow> 'q quantlib \<Rightarrow> ('q, 's) wsapi \<Rightarrow> formreq \<Rightarrow> reqsession \<Rightarrow> 's svstate \<Rightarrow> response \<times> 's svstate" where
  "handleUpdateWorkspaceResources sv ql api fr session st =
     (case rq_form (fr_req fr) of
        Inl err \<Rightarrow> (failWith sv (OtherErr err), st)
      | Inr form \<Rightarrow>
          (case Requirements ql (resourceValuesFrom form) of
             Inl err \<Rightarrow> (failWith sv (OtherErr err), st)
           | Inr requirements \<Rightarrow>
               (case envVarsFromForm (fr_rows fr) of
                  Inl err \<Rightarrow> (failWith sv err, st)
                | Inr env \<Rightarrow>
                    (case sv_forToken sv (rs_token session) of
                       Some err \<Rightarrow> (failWith sv (OtherErr err), st)
                     | None \<Rightarrow>
                         (let name = rq_path (fr_req fr) ''name'' in
                          case onCluster (PatchWorkspaceResources api (rs_token session) (si_userSpaceNamespace (rs_identity session)) name requirements env) st of
                            (Inl err, st1) \<Rightarrow> (failWith sv (KubeErr err), st1)
                          | (Inr _, st1) \<Rightarrow> (redirectTo 302 (sv_path sv (donePath (''/w/'' @ name) ''resized'')), st1))))))"

definition setAdminWorkspaceRunning ::
    "('q, 'tok, 's) uiserver \<Rightarrow> ('q, 's) wsapi \<Rightarrow> httpreq \<Rightarrow> bool \<Rightarrow> reqsession \<Rightarrow> 's svstate \<Rightarrow> response \<times> 's svstate" where
  "setAdminWorkspaceRunning sv api r running session st =
     (case sv_forToken sv (rs_token session) of
        Some err \<Rightarrow> (failWith sv (OtherErr err), st)
      | None \<Rightarrow>
          (case onCluster (PatchWorkspaceRunning api (rs_token session) (rq_path r ''namespace'') (rq_path r ''name'') running) st of
             (Inl err, st1) \<Rightarrow> (failWith sv (KubeErr err), st1)
           | (Inr _, st1) \<Rightarrow> (redirectTo 302 (sv_path sv ''/admin/workspaces''), st1)))"

definition workspaceNamespace :: "httpreq \<Rightarrow> reqsession \<Rightarrow> string" where
  "workspaceNamespace r session =
     (if TrimSpace (rq_query r ''namespace'') \<noteq> '''' then TrimSpace (rq_query r ''namespace'') else si_userSpaceNamespace (rs_identity session))"

definition patchWorkspaceRunning ::
    "('q, 'tok, 's) uiserver \<Rightarrow> ('q, 's) wsapi \<Rightarrow> httpreq \<Rightarrow> bool \<Rightarrow> reqsession \<Rightarrow> 's svstate \<Rightarrow> 'q wsresp \<times> 's svstate" where
  "patchWorkspaceRunning sv api r running session st =
     (case sv_forToken sv (rs_token session) of
        Some err \<Rightarrow> (Plain (failWith sv (OtherErr err)), st)
      | None \<Rightarrow>
          (case onCluster (PatchWorkspaceRunning api (rs_token session) (workspaceNamespace r session) (rq_path r ''name'') running) st of
             (Inl err, st1) \<Rightarrow> (Plain (failWith sv (KubeErr err)), st1)
           | (Inr ws, st1) \<Rightarrow> (WsJSON 200 ws, st1)))"

section \<open>Deleting\<close>

text \<open>The two steps every delete route takes: the workspace, and then its home volume when that is asked for.\<close>

datatype deleted = Deleted | NotDeleted apierr | VolumeKept apierr

definition deleteBoth :: "('q, 's) wsapi \<Rightarrow> string \<Rightarrow> string \<Rightarrow> string \<Rightarrow> bool \<Rightarrow> 's \<Rightarrow> deleted \<times> 's" where
  "deleteBoth api tok ns name withVolume s =
     (case wa_delete api tok ns name s of
        (Some err, s1) \<Rightarrow> (NotDeleted err, s1)
      | (None, s1) \<Rightarrow>
          if \<not> withVolume then (Deleted, s1)
          else case DeleteClaim api tok ns (workspaceClaimName name) s1 of
            (Some err, s2) \<Rightarrow> (VolumeKept err, s2)
          | (None, s2) \<Rightarrow> (Deleted, s2))"

text \<open>
  The screens wrap the error of the second step in a message about the volume; \<^verbatim>\<open>statusAndMessage\<close> finds the API server's error
  inside and answers its code and its message.
\<close>

definition deleteFromForm ::
    "('q, 'tok, 's) uiserver \<Rightarrow> ('q, 's) wsapi \<Rightarrow> httpreq \<Rightarrow> string \<Rightarrow> string \<Rightarrow> string \<Rightarrow> string \<Rightarrow> 's svstate \<Rightarrow> response \<times> 's svstate" where
  "deleteFromForm sv api r tok ns name back st =
     (case rq_form r of
        Inl _ \<Rightarrow> (failWith sv errInvalidForm, st)
      | Inr form \<Rightarrow>
          (let typed = TrimSpace (form ''confirm_name'') in
           if typed \<noteq> name then
             (failWith sv (ApiError 400 (''the workspace was not deleted: '' @ goQuote typed @ '' does not match '' @ goQuote name)), st)
           else case onCluster (deleteBoth api tok ns name (form ''delete_volume'' \<noteq> '''')) st of
             (Deleted, st1) \<Rightarrow> (redirectTo 302 (sv_path sv back), st1)
           | (NotDeleted err, st1) \<Rightarrow> (failWith sv (KubeErr err), st1)
           | (VolumeKept err, st1) \<Rightarrow> (failWith sv (KubeErr err), st1)))"

definition handleDeleteWorkspace ::
    "('q, 'tok, 's) uiserver \<Rightarrow> ('q, 's) wsapi \<Rightarrow> httpreq \<Rightarrow> reqsession \<Rightarrow> 's svstate \<Rightarrow> response \<times> 's svstate" where
  "handleDeleteWorkspace sv api r session st =
     (case sv_forToken sv (rs_token session) of
        Some err \<Rightarrow> (failWith sv (OtherErr err), st)
      | None \<Rightarrow> deleteFromForm sv api r (rs_token session) (si_userSpaceNamespace (rs_identity session)) (rq_path r ''name'') ''/'' st)"

definition handleAdminDeleteWorkspace ::
    "('q, 'tok, 's) uiserver \<Rightarrow> ('q, 's) wsapi \<Rightarrow> httpreq \<Rightarrow> reqsession \<Rightarrow> 's svstate \<Rightarrow> response \<times> 's svstate" where
  "handleAdminDeleteWorkspace sv api r session st =
     (case sv_forToken sv (rs_token session) of
        Some err \<Rightarrow> (failWith sv (OtherErr err), st)
      | None \<Rightarrow> deleteFromForm sv api r (rs_token session) (rq_path r ''namespace'') (rq_path r ''name'') ''/admin/workspaces'' st)"

definition deleteVolumeRequested :: "ucd \<Rightarrow> httpreq \<Rightarrow> bool" where
  "deleteVolumeRequested uc r \<longleftrightarrow> \<not> EqualFold uc (TrimSpace (rq_query r ''delete_volume'')) ''false''"

text \<open>\<open>errText\<close> is the text of an API server error.\<close>

definition handleAPIDeleteWorkspace ::
    "('q, 'tok, 's) uiserver \<Rightarrow> ('q, 's) wsapi \<Rightarrow> (apierr \<Rightarrow> string) \<Rightarrow> httpreq \<Rightarrow> reqsession \<Rightarrow> 's svstate \<Rightarrow> response \<times> 's svstate" where
  "handleAPIDeleteWorkspace sv api errText r session st =
     (case sv_forToken sv (rs_token session) of
        Some err \<Rightarrow> (failWith sv (OtherErr err), st)
      | None \<Rightarrow>
          (case onCluster (deleteBoth api (rs_token session) (workspaceNamespace r session) (rq_path r ''name'') (deleteVolumeRequested (sv_uc sv) r)) st of
             (Deleted, st1) \<Rightarrow> (respond 204 NoPage, st1)
           | (NotDeleted err, st1) \<Rightarrow> (failWith sv (KubeErr err), st1)
           | (VolumeKept err, st1) \<Rightarrow>
               (failWith sv (ApiError 409 (''the workspace was deleted but its home volume '' @ workspaceClaimName (rq_path r ''name'') @ '' was not: '' @ errText err)), st1)))"

section \<open>Reading\<close>

definition visibleWorkspaces :: "('q, 's) wsapi \<Rightarrow> string \<Rightarrow> sessionidentity \<Rightarrow> 's \<Rightarrow> apierr + 'q workspace list" where
  "visibleWorkspaces api tok identity s =
     (if si_role identity = UserSpaceRoleAdmin then wa_list api tok '''' s else wa_list api tok (si_userSpaceNamespace identity) s)"

definition handleAPIListWorkspaces :: "('q, 'tok, 's) uiserver \<Rightarrow> ('q, 's) wsapi \<Rightarrow> httpreq \<Rightarrow> reqsession \<Rightarrow> 's \<Rightarrow> 'q wsresp" where
  "handleAPIListWorkspaces sv api r session s =
     (case sv_forToken sv (rs_token session) of
        Some err \<Rightarrow> Plain (failWith sv (OtherErr err))
      | None \<Rightarrow>
          (case visibleWorkspaces api (rs_token session) (rs_identity session) s of
             Inl err \<Rightarrow> Plain (failWith sv (KubeErr err))
           | Inr wss \<Rightarrow> WsListJSON (filterWorkspaces wss (rq_query r ''namespace''))))"

definition handleAPIGetWorkspace :: "('q, 'tok, 's) uiserver \<Rightarrow> ('q, 's) wsapi \<Rightarrow> httpreq \<Rightarrow> reqsession \<Rightarrow> 's \<Rightarrow> 'q wsresp" where
  "handleAPIGetWorkspace sv api r session s =
     (case sv_forToken sv (rs_token session) of
        Some err \<Rightarrow> Plain (failWith sv (OtherErr err))
      | None \<Rightarrow>
          (case wa_get api (rs_token session) (workspaceNamespace r session) (rq_path r ''name'') s of
             Inl err \<Rightarrow> Plain (failWith sv (KubeErr err))
           | Inr ws \<Rightarrow> WsJSON 200 ws))"

definition creatableNamespaces :: "('q, 'tok, 's) uiserver \<Rightarrow> string \<Rightarrow> sessionidentity \<Rightarrow> 's \<Rightarrow> apierr + (string \<times> string) list" where
  "creatableNamespaces sv tok identity s =
     (if si_role identity \<noteq> UserSpaceRoleAdmin then Inr []
      else case sv_listUserSpaces sv tok s of
        Inl err \<Rightarrow> Inl err
      | Inr uss \<Rightarrow> Inr (sort_key fst (map (\<lambda>u. (us_owner (us_spec u), ust_namespace (us_status u))) (filter (\<lambda>u. ust_namespace (us_status u) \<noteq> '''') uss))))"

section \<open>What the routes rely on\<close>

text \<open>
  The API server's documented behaviour on objects without finalizers, over the stored workspaces \<open>wsm\<close> and claims \<open>pvc\<close>, by
  namespace and name: a refused write changes nothing, a create stores the admitted object under a free key, a patch changes the
  patched fields of one object, a delete removes one object.
\<close>

locale ws_client_laws =
  fixes api :: "('q, 's) wsapi" and wsm :: "'s \<Rightarrow> string \<times> string \<rightharpoonup> 'q workspace" and pvc :: "'s \<Rightarrow> (string \<times> string) set"
  assumes create_law: "wa_create api tok w s = (e, s') \<Longrightarrow> pvc s' = pvc s \<and>
      (if e = None then wsm s (ws_ns w, ws_name w) = None \<and> (\<exists>w'. wsm s' = (wsm s)((ws_ns w, ws_name w) \<mapsto> w')) else wsm s' = wsm s)"
    and delete_law: "wa_delete api tok ns n s = (e, s') \<Longrightarrow> pvc s' = pvc s \<and> wsm s' = (if e = None then (wsm s)((ns, n) := None) else wsm s)"
    and deletePVC_law: "wa_deletePVC api tok ns n s = (e, s') \<Longrightarrow> wsm s' = wsm s \<and> pvc s' = (if e = None then pvc s - {(ns, n)} else pvc s) \<and>
      (e = Some NotFound \<longrightarrow> (ns, n) \<notin> pvc s)"
    and running_law: "wa_patchRunning api tok ns n b s = (e, s') \<Longrightarrow> pvc s' = pvc s \<and>
      (if e = None then \<exists>w w'. wsm s (ns, n) = Some w \<and> ws_spec w' = (ws_spec w)\<lparr>ws_running := b\<rparr> \<and> wsm s' = (wsm s)((ns, n) \<mapsto> w') else wsm s' = wsm s)"
    and resources_law: "wa_patchResources api tok ns n res env s = (e, s') \<Longrightarrow> pvc s' = pvc s \<and>
      (if e = None then \<exists>w w'. wsm s (ns, n) = Some w \<and> ws_spec w' = (ws_spec w)\<lparr>ws_resources := res, ws_env := env\<rparr> \<and> wsm s' = (wsm s)((ns, n) \<mapsto> w') else wsm s' = wsm s)"
begin

lemma DeleteClaim_result:
  assumes "DeleteClaim api tok ns n s = (e, s')"
  shows "wsm s' = wsm s \<and> pvc s' = (if e = None then pvc s - {(ns, n)} else pvc s)"
proof -
  obtain e0 where p: "wa_deletePVC api tok ns n s = (e0, s')" "e = (if e0 = Some NotFound then None else e0)"
    using assms by (cases "wa_deletePVC api tok ns n s"; cases "fst (wa_deletePVC api tok ns n s)")
      (auto simp: DeleteClaim_def split: if_splits elim: IsNotFound.elims)
  from deletePVC_law [OF p(1)] p(2) show ?thesis by (auto split: if_splits)
qed

lemma deleteBoth_result:
  assumes "deleteBoth api tok ns n vol s = (d, s')"
  shows "(case d of
      NotDeleted _ \<Rightarrow> wsm s' = wsm s \<and> pvc s' = pvc s
    | VolumeKept _ \<Rightarrow> vol \<and> wsm s' = (wsm s)((ns, n) := None) \<and> pvc s' = pvc s
    | Deleted \<Rightarrow> wsm s' = (wsm s)((ns, n) := None) \<and> pvc s' = (if vol then pvc s - {(ns, workspaceClaimName n)} else pvc s))"
proof -
  obtain e s1 where d: "wa_delete api tok ns n s = (e, s1)" by fastforce
  obtain e2 s2 where c: "DeleteClaim api tok ns (workspaceClaimName n) s1 = (e2, s2)" by fastforce
  show ?thesis using assms d c delete_law [OF d] DeleteClaim_result [OF c] by (cases e; cases e2) (auto simp: deleteBoth_def split: if_splits)
qed

text \<open>A change confined to one namespace.\<close>

definition within :: "string \<Rightarrow> 's \<Rightarrow> 's \<Rightarrow> bool" where
  "within ns s s' \<longleftrightarrow> (\<forall>k. fst k \<noteq> ns \<longrightarrow> wsm s' k = wsm s k \<and> (k \<in> pvc s' \<longleftrightarrow> k \<in> pvc s))"

lemma within_ops:
  "wa_create api tok w s = (e, s') \<Longrightarrow> within (ws_ns w) s s'"
  "PatchWorkspaceRunning api tok ns n b s = (r, s') \<Longrightarrow> within ns s s'"
  "PatchWorkspaceResources api tok ns n res env s = (r, s') \<Longrightarrow> within ns s s'"
  "deleteBoth api tok ns n vol s = (d, s') \<Longrightarrow> within ns s s'"
proof -
  show "within (ws_ns w) s s'" if "wa_create api tok w s = (e, s')"
    using create_law [OF that] by (auto simp: within_def split: if_splits)
  show "within ns s s'" if p: "PatchWorkspaceRunning api tok ns n b s = (r, s')"
  proof -
    obtain e where "wa_patchRunning api tok ns n b s = (e, s')"
      using p by (auto simp: PatchWorkspaceRunning_def split: prod.splits option.splits)
    from running_law [OF this] show ?thesis by (auto simp: within_def split: if_splits)
  qed
  show "within ns s s'" if p: "PatchWorkspaceResources api tok ns n res env s = (r, s')"
  proof -
    obtain e where "wa_patchResources api tok ns n res env s = (e, s')"
      using p by (auto simp: PatchWorkspaceResources_def split: prod.splits option.splits)
    from resources_law [OF this] show ?thesis by (auto simp: within_def split: if_splits)
  qed
  show "within ns s s'" if "deleteBoth api tok ns n vol s = (d, s')"
    using deleteBoth_result [OF that] by (cases d) (auto simp: within_def split: if_splits)
qed

end

section \<open>Theorems\<close>

lemma formWorkspace_meta: "formWorkspace ql form rows ns = Inr ws \<Longrightarrow> ws_meta ws = meta0 ns (TrimSpace (form ''name''))"
  by (auto simp: formWorkspace_def draftFromForm_def buildWorkspace_def split: sum.splits)

lemma claim_names_agree: "workspaceClaimName (ws_name ws) = HomeClaimName ws"
  by (simp add: workspaceClaimName_def HomeClaimName_def)

lemma onCluster_snd: "snd (onCluster f st) = st\<lparr>st_cluster := snd (f (st_cluster st))\<rparr>"
  by (simp add: onCluster_def split: prod.split)

text \<open>Each owner route leaves the state as it was or runs one operation of the client, in the namespace of the session.\<close>

lemma create_state:
  "snd (handleCreateWorkspace sv ql api fr session st) = st \<or>
   (\<exists>tok ws. ws_ns ws = si_userSpaceNamespace (rs_identity session) \<and> snd (handleCreateWorkspace sv ql api fr session st) = snd (onCluster (wa_create api tok ws) st))"
proof (cases "rq_form (fr_req fr)")
  case (Inr form)
  show ?thesis
  proof (cases "formWorkspace ql form (fr_rows fr) (si_userSpaceNamespace (rs_identity session))")
    case (Inr ws)
    have "ws_ns ws = si_userSpaceNamespace (rs_identity session)" using formWorkspace_meta [OF Inr] by (simp add: meta0_def)
    moreover have "snd (handleCreateWorkspace sv ql api fr session st) \<in> {st, snd (onCluster (wa_create api (rs_token session) ws) st)}"
      using \<open>rq_form (fr_req fr) = Inr form\<close> Inr by (auto simp: handleCreateWorkspace_def split: option.splits prod.splits)
    ultimately show ?thesis by blast
  qed (simp add: handleCreateWorkspace_def \<open>rq_form (fr_req fr) = Inr form\<close>)
qed (simp add: handleCreateWorkspace_def)

lemma running_state:
  "snd (handleWorkspaceRunningPatch sv api r referer b session st) \<in>
     {st, snd (onCluster (PatchWorkspaceRunning api (rs_token session) (si_userSpaceNamespace (rs_identity session)) (rq_path r ''name'') b) st)}"
  by (auto simp: handleWorkspaceRunningPatch_def split: option.splits prod.splits sum.splits)

lemma resources_state:
  "snd (handleUpdateWorkspaceResources sv ql api fr session st) = st \<or>
   (\<exists>res env. snd (handleUpdateWorkspaceResources sv ql api fr session st) =
      snd (onCluster (PatchWorkspaceResources api (rs_token session) (si_userSpaceNamespace (rs_identity session)) (rq_path (fr_req fr) ''name'') res env) st))"
proof (cases "rq_form (fr_req fr)")
  case (Inr form)
  note f = Inr
  show ?thesis
  proof (cases "Requirements ql (resourceValuesFrom form)")
    case (Inr res)
    note r = Inr
    show ?thesis
    proof (cases "envVarsFromForm (fr_rows fr)")
      case (Inr env)
      have "snd (handleUpdateWorkspaceResources sv ql api fr session st) \<in> {st, snd (onCluster (PatchWorkspaceResources api (rs_token session)
          (si_userSpaceNamespace (rs_identity session)) (rq_path (fr_req fr) ''name'') res env) st)}"
        by (auto simp: handleUpdateWorkspaceResources_def Let_def f r Inr split: sum.split option.split prod.split)
      then show ?thesis by blast
    qed (simp add: handleUpdateWorkspaceResources_def f r)
  qed (simp add: handleUpdateWorkspaceResources_def f)
qed (simp add: handleUpdateWorkspaceResources_def)

lemma delete_state:
  "snd (handleDeleteWorkspace sv api r session st) = st \<or>
   (\<exists>vol. snd (handleDeleteWorkspace sv api r session st) =
      snd (onCluster (deleteBoth api (rs_token session) (si_userSpaceNamespace (rs_identity session)) (rq_path r ''name'') vol) st))"
proof (cases "rq_form r")
  case (Inr form)
  have "snd (handleDeleteWorkspace sv api r session st) \<in> {st, snd (onCluster (deleteBoth api (rs_token session)
      (si_userSpaceNamespace (rs_identity session)) (rq_path r ''name'') (form ''delete_volume'' \<noteq> [])) st)}"
    using Inr by (auto simp: handleDeleteWorkspace_def deleteFromForm_def Let_def split: option.split prod.split deleted.split)
  then show ?thesis by blast
qed (simp add: handleDeleteWorkspace_def deleteFromForm_def split: option.split)

text \<open>
  The screens of an owner act in the owner's namespace only: whatever a request to create, start, stop, resize or delete a workspace
  carries, no workspace and no home volume of another namespace changes, and none of the process's own tables does.
\<close>

theorem owner_routes_confined:
  assumes l: "ws_client_laws api wsm pvc"
    and st': "st' \<in> {snd (handleCreateWorkspace sv ql api fr session st), snd (handleWorkspaceRunningPatch sv api r referer running session st),
      snd (handleUpdateWorkspaceResources sv ql api fr session st), snd (handleDeleteWorkspace sv api r session st)}"
    and k: "fst k \<noteq> si_userSpaceNamespace (rs_identity session)"
  shows "wsm (st_cluster st') k = wsm (st_cluster st) k \<and> (k \<in> pvc (st_cluster st') \<longleftrightarrow> k \<in> pvc (st_cluster st)) \<and> st_ui st' = st_ui st"
proof -
  let ?ns = "si_userSpaceNamespace (rs_identity session)"
  let ?ok = "\<lambda>f. ws_client_laws.within wsm pvc ?ns (st_cluster st) (snd (f (st_cluster st)))"
  note ops = ws_client_laws.within_ops [OF l, OF prod.collapse [symmetric]]
  have "ws_ns w = ?ns \<Longrightarrow> ?ok (wa_create api tok w)" "?ok (PatchWorkspaceRunning api tok ?ns n b)"
    "?ok (PatchWorkspaceResources api tok ?ns n res env)" "?ok (deleteBoth api tok ?ns n vol)" for tok w n b res env vol
    using ops(1) [where w = w] ops(2-4) by metis+
  then have "st' = st \<or> st_ui st' = st_ui st \<and> ws_client_laws.within wsm pvc ?ns (st_cluster st) (st_cluster st')"
    using st' create_state [of sv ql api fr session st] running_state [of sv api r referer running session st]
      resources_state [of sv ql api fr session st] delete_state [of sv api r session st]
    unfolding onCluster_snd by (elim insertE disjE emptyE exE conjE) simp_all
  then show ?thesis using k unfolding ws_client_laws.within_def [OF l] by blast
qed

text \<open>
  (C29) Deleting is confirmed, ordered and confined: a workspace goes only when its name was typed, its home volume only after it and only
  when asked for, nothing else goes, and the answer is the page without an error only when all that was asked for is gone. The claim
  is the one the operator's StatefulSet mounts as the home directory.
\<close>

theorem delete_workspace_exact:
  assumes l: "ws_client_laws api wsm pvc" and run: "handleDeleteWorkspace sv api r session st = (resp, st')" and form: "rq_form r = Inr form"
    and k: "k = (si_userSpaceNamespace (rs_identity session), rq_path r ''name'')" "c = (fst k, HomeClaimName ws)" "ws_name ws = snd k"
  shows "(wsm (st_cluster st') = wsm (st_cluster st) \<and> pvc (st_cluster st') = pvc (st_cluster st) \<or>
      TrimSpace (form ''confirm_name'') = snd k \<and> wsm (st_cluster st') = (wsm (st_cluster st))(k := None) \<and>
      (pvc (st_cluster st') = pvc (st_cluster st) \<or> form ''delete_volume'' \<noteq> '''' \<and> pvc (st_cluster st') = pvc (st_cluster st) - {c})) \<and>
    (rs_page resp = NoPage \<longrightarrow> wsm (st_cluster st') k = None \<and> (form ''delete_volume'' \<noteq> '''' \<longrightarrow> c \<notin> pvc (st_cluster st')))"
proof (cases "sv_forToken sv (rs_token session) \<noteq> None \<or> TrimSpace (form ''confirm_name'') \<noteq> snd k")
  case True
  then have "st' = st \<and> rs_page resp \<noteq> NoPage"
    using run form k by (auto simp: handleDeleteWorkspace_def deleteFromForm_def failWith_def respond_def Let_def split: option.splits)
  then show ?thesis by simp
next
  case False
  let ?vol = "form ''delete_volume'' \<noteq> ''''"
  obtain d s' where d: "deleteBoth api (rs_token session) (fst k) (snd k) ?vol (st_cluster st) = (d, s')" by fastforce
  have c: "c = (fst k, workspaceClaimName (snd k))" using k(2,3) claim_names_agree [of ws] by simp
  have "st' = st\<lparr>st_cluster := s'\<rparr>" "rs_page resp = NoPage \<longrightarrow> d = Deleted"
    using run form d False k(1) by (auto simp: handleDeleteWorkspace_def deleteFromForm_def onCluster_def failWith_def respond_def split: deleted.splits)
  with ws_client_laws.deleteBoth_result [OF l d] False show ?thesis by (cases d) (auto simp: c split: if_splits)
qed

text \<open>
  When the volume cannot be deleted the person is not told that the workspace is gone: the answer is the one for a workspace that
  could not be deleted, although its deletion took place.
\<close>

theorem volume_failure_hidden:
  assumes "sv_forToken sv (rs_token session) = None" and "rq_form r = Inr form" and "TrimSpace (form ''confirm_name'') = rq_path r ''name''"
    and "form ''delete_volume'' \<noteq> ''''"
    and "wa_delete api (rs_token session) (si_userSpaceNamespace (rs_identity session)) (rq_path r ''name'') (st_cluster st) = (None, s1)"
    and "wa_deletePVC api (rs_token session) (si_userSpaceNamespace (rs_identity session)) (workspaceClaimName (rq_path r ''name'')) s1 = (Some err, s2)"
    and "err \<noteq> NotFound"
    and "wa_delete refusing (rs_token session) (si_userSpaceNamespace (rs_identity session)) (rq_path r ''name'') (st_cluster st) = (Some err, st_cluster st)"
  shows "fst (handleDeleteWorkspace sv api r session st) = fst (handleDeleteWorkspace sv refusing r session st) \<and>
    st_cluster (snd (handleDeleteWorkspace sv api r session st)) = s2 \<and> snd (handleDeleteWorkspace sv refusing r session st) = st"
proof -
  have "DeleteClaim api (rs_token session) (si_userSpaceNamespace (rs_identity session)) (workspaceClaimName (rq_path r ''name'')) s1 = (Some err, s2)"
    using assms(6,7) by (cases err) (simp_all add: DeleteClaim_def)
  then show ?thesis using assms(1-5,8) by (simp add: handleDeleteWorkspace_def deleteFromForm_def deleteBoth_def onCluster_def Let_def)
qed

text \<open>
  (C30) The preview is what is sent: the object that the preview shows is the one that submitting the same form sends to the API server, on
  the owner's screen for a form without a namespace and on the administrator's for a form with one.
\<close>

theorem preview_is_submitted:
  assumes "handleWorkspacePreview sv ql fr session = WsPreview (Inr ws)" and "rq_form (fr_req fr) = Inr form" and "sv_forToken sv (rs_token session) = None"
  shows "snd (if TrimSpace (form ''namespace'') = '''' then handleCreateWorkspace sv ql api fr session st else handleAdminCreateWorkspace sv ql api fr session st) =
      st\<lparr>st_cluster := snd (wa_create api (rs_token session) ws (st_cluster st))\<rparr> \<and>
    ws_ns ws = (if TrimSpace (form ''namespace'') = '''' then si_userSpaceNamespace (rs_identity session) else TrimSpace (form ''namespace''))"
proof (cases "TrimSpace (form ''namespace'') = ''''")
  case True
  then have f: "formWorkspace ql form (fr_rows fr) (si_userSpaceNamespace (rs_identity session)) = Inr ws"
    using assms(1,2) by (simp add: handleWorkspacePreview_def)
  then have "snd (handleCreateWorkspace sv ql api fr session st) = snd (onCluster (wa_create api (rs_token session) ws) st)"
    using assms(2,3) by (simp add: handleCreateWorkspace_def split: prod.split option.split)
  then show ?thesis using True formWorkspace_meta [OF f] by (simp add: onCluster_snd meta0_def)
next
  case False
  then have f: "formWorkspace ql form (fr_rows fr) (TrimSpace (form ''namespace'')) = Inr ws"
    using assms(1,2) by (simp add: handleWorkspacePreview_def)
  then have "snd (handleAdminCreateWorkspace sv ql api fr session st) = snd (onCluster (wa_create api (rs_token session) ws) st)"
    using assms(2,3) by (simp add: handleAdminCreateWorkspace_def split: prod.split option.split)
  then show ?thesis using False formWorkspace_meta [OF f] by (simp add: onCluster_snd meta0_def)
qed

section \<open>Witnesses\<close>

type_synonym ws_mem = "(string \<times> string \<rightharpoonup> int workspace) \<times> (string \<times> string) set"

text \<open>Objects in memory; the claims in \<open>kept\<close> may not be deleted.\<close>

definition mem_ws :: "(string \<times> string) set \<Rightarrow> (int, ws_mem) wsapi" where
  "mem_ws kept =
     \<lparr>wa_create = (\<lambda>_ w s. if fst s (ws_ns w, ws_name w) \<noteq> None then (Some AlreadyExists, s) else (None, ((fst s)((ws_ns w, ws_name w) \<mapsto> w), snd s))),
      wa_get = (\<lambda>_ ns n s. case fst s (ns, n) of None \<Rightarrow> Inl NotFound | Some w \<Rightarrow> Inr w),
      wa_list = (\<lambda>_ ns s. Inr []),
      wa_delete = (\<lambda>_ ns n s. if fst s (ns, n) = None then (Some NotFound, s) else (None, ((fst s)((ns, n) := None), snd s))),
      wa_deletePVC = (\<lambda>_ ns n s. if (ns, n) \<notin> snd s then (Some NotFound, s) else if (ns, n) \<in> kept then (Some (ApiErr ''forbidden''), s) else (None, (fst s, snd s - {(ns, n)}))),
      wa_patchRunning = (\<lambda>_ ns n b s. case fst s (ns, n) of None \<Rightarrow> (Some NotFound, s)
        | Some w \<Rightarrow> (None, ((fst s)((ns, n) \<mapsto> w\<lparr>ws_spec := (ws_spec w)\<lparr>ws_running := b\<rparr>\<rparr>), snd s))),
      wa_patchResources = (\<lambda>_ ns n res env s. case fst s (ns, n) of None \<Rightarrow> (Some NotFound, s)
        | Some w \<Rightarrow> (None, ((fst s)((ns, n) \<mapsto> w\<lparr>ws_spec := (ws_spec w)\<lparr>ws_resources := res, ws_env := env\<rparr>\<rparr>), snd s))),
      wa_image = (\<lambda>_ _ _. Inl NotFound), wa_userSpace = (\<lambda>_ _ _. Inl NotFound)\<rparr>"

lemma patched: "\<exists>w'. ws_spec w' = x \<and> m(k \<mapsto> w\<lparr>ws_spec := x\<rparr>) = m(k \<mapsto> w')"
  by (rule exI [of _ "w\<lparr>ws_spec := x\<rparr>"]) simp

lemma mem_ws_laws: "ws_client_laws (mem_ws kept) fst snd"
  by unfold_locales (auto simp: mem_ws_def patched split: if_splits option.splits)

interpretation mem_workspaces: ws_client_laws "mem_ws kept" fst snd for kept
  by (rule mem_ws_laws)

definition demo_ws_server :: "(int, string, ws_mem) uiserver" where
  "demo_ws_server = \<lparr>sv_login = (\<lambda>_. demo_env), sv_providers = [], sv_basePath = '''', sv_sessionTTL = 100, sv_cookieSecure = True,
     sv_support = '''', sv_apiTokens = None, sv_tokenMinter = None, sv_localUsers = None,
     sv_passwordResets = None, sv_lib = demo_authlib, sv_uc = demo_uc, sv_code = (\<lambda>_. 403), sv_forToken = (\<lambda>_. None),
     sv_listUserSpaces = (\<lambda>_ _. Inr [demo_us]), sv_canI = (\<lambda>_ _ _ _ _. Inr True), sv_profileReads = (\<lambda>_ _. None), sv_patchMembership = (\<lambda>_ _ s. (None, s))\<rparr>"

definition demo_ws_state :: "ws_mem svstate" where
  "demo_ws_state = \<lparr>st_ui = demo_signed, st_cluster =
     ([(''dwpk-ana'', ''a'') \<mapsto> demo_ws ''a'' 1, (''dwpk-bob'', ''b'') \<mapsto> demo_ws ''b'' 1], {(''dwpk-ana'', ''home-a-0''), (''dwpk-bob'', ''home-b-0'')})\<rparr>"

definition demo_delete :: httpreq where
  "demo_delete = demo_req ''POST'' Map.empty (\<lambda>_. '''') (\<lambda>n. if n = ''confirm_name'' then ''a'' else ''yes'')\<lparr>rq_path := (\<lambda>_. ''a'')\<rparr>"

abbreviation demo_owner :: reqsession where
  "demo_owner \<equiv> demo_as ''tok'' demo_identity"

lemma trim_a: "TrimSpace ''a'' = ''a''"
  by code_simp

lemma demo_delete_reads:
  "rq_form demo_delete = Inr (\<lambda>n. if n = ''confirm_name'' then ''a'' else ''yes'')" "rq_path demo_delete ''name'' = ''a''" "TrimSpace ''a'' = ''a''"
  "si_userSpaceNamespace (rs_identity demo_owner) = ''dwpk-ana''" "sv_forToken demo_ws_server (rs_token demo_owner) = None"
  by (simp_all add: demo_delete_def demo_req_def demo_as_def demo_identity_def demo_ws_server_def trim_a)

theorem owner_routes_confined_witness:
  "fst (st_cluster (snd (handleDeleteWorkspace demo_ws_server (mem_ws {}) demo_delete demo_owner demo_ws_state))) (''dwpk-bob'', ''b'') = Some (demo_ws ''b'' 1)"
proof -
  have "fst (''dwpk-bob'', ''b'') \<noteq> si_userSpaceNamespace (rs_identity demo_owner)" by (simp add: demo_delete_reads)
  from owner_routes_confined [OF mem_ws_laws _ this, of "snd (handleDeleteWorkspace demo_ws_server (mem_ws {}) demo_delete demo_owner demo_ws_state)" demo_ws_server
      demo_ql "{}" "\<lparr>fr_req = demo_delete, fr_rows = (\<lambda>_. [])\<rparr>" demo_ws_state demo_delete None True]
  show ?thesis by (simp add: demo_ws_state_def)
qed

theorem delete_workspace_exact_witness:
  "fst (st_cluster (snd (handleDeleteWorkspace demo_ws_server (mem_ws {}) demo_delete demo_owner demo_ws_state))) (''dwpk-ana'', ''a'') = None \<and>
   (''dwpk-ana'', ''home-a-0'') \<notin> snd (st_cluster (snd (handleDeleteWorkspace demo_ws_server (mem_ws {}) demo_delete demo_owner demo_ws_state)))"
proof -
  obtain resp st' where run: "handleDeleteWorkspace demo_ws_server (mem_ws {}) demo_delete demo_owner demo_ws_state = (resp, st')" by fastforce
  then have p: "rs_page resp = NoPage"
    by (auto simp: handleDeleteWorkspace_def deleteFromForm_def demo_delete_reads onCluster_def deleteBoth_def DeleteClaim_def mem_ws_def demo_ws_state_def
        redirectTo_def workspaceClaimName_def HomeVolumeName_def)
  have "(''dwpk-ana'', ''a'') = (si_userSpaceNamespace (rs_identity demo_owner), rq_path demo_delete ''name'')"
    "(''dwpk-ana'', ''home-a-0'') = (fst (''dwpk-ana'', ''a''), HomeClaimName (demo_ws ''a'' 1))" "ws_name (demo_ws ''a'' 1) = snd (''dwpk-ana'', ''a'')"
    by (simp_all add: demo_delete_reads HomeClaimName_def HomeVolumeName_def demo_ws_def meta0_def)
  from delete_workspace_exact [OF mem_ws_laws run demo_delete_reads(1) this] p show ?thesis by (simp add: run)
qed

theorem volume_failure_hidden_witness:
  "fst (handleDeleteWorkspace demo_ws_server (mem_ws {(''dwpk-ana'', ''home-a-0'')}) demo_delete demo_owner demo_ws_state) =
     fst (handleDeleteWorkspace demo_ws_server ((mem_ws {})\<lparr>wa_delete := (\<lambda>_ _ _ s. (Some (ApiErr ''forbidden''), s))\<rparr>) demo_delete demo_owner demo_ws_state) \<and>
   fst (st_cluster (snd (handleDeleteWorkspace demo_ws_server (mem_ws {(''dwpk-ana'', ''home-a-0'')}) demo_delete demo_owner demo_ws_state))) (''dwpk-ana'', ''a'') = None"
proof -
  let ?api = "mem_ws {(''dwpk-ana'', ''home-a-0'')}" let ?no = "(mem_ws {})\<lparr>wa_delete := (\<lambda>_ _ _ s. (Some (ApiErr ''forbidden''), s))\<rparr>"
  let ?s = "((fst (st_cluster demo_ws_state))((''dwpk-ana'', ''a'') := None), snd (st_cluster demo_ws_state))"
  have "wa_delete ?api (rs_token demo_owner) (si_userSpaceNamespace (rs_identity demo_owner)) (rq_path demo_delete ''name'') (st_cluster demo_ws_state) = (None, ?s)"
    "wa_deletePVC ?api (rs_token demo_owner) (si_userSpaceNamespace (rs_identity demo_owner)) (workspaceClaimName (rq_path demo_delete ''name'')) ?s = (Some (ApiErr ''forbidden''), ?s)"
    "wa_delete ?no (rs_token demo_owner) (si_userSpaceNamespace (rs_identity demo_owner)) (rq_path demo_delete ''name'') (st_cluster demo_ws_state) = (Some (ApiErr ''forbidden''), st_cluster demo_ws_state)"
    by (simp_all add: mem_ws_def demo_delete_reads demo_ws_state_def workspaceClaimName_def HomeVolumeName_def)
  from volume_failure_hidden [OF demo_delete_reads(5,1) _ _ this(1,2) _ this(3)] show ?thesis by (simp add: demo_delete_reads)
qed

definition demo_create_form :: formreq where
  "demo_create_form = \<lparr>fr_req = demo_req ''POST'' Map.empty (\<lambda>_. '''')
     (\<lambda>n. if n = ''name'' then ''dev'' else if n = ''storage'' \<or> n = ''cpu_request'' then ''1'' else ''''), fr_rows = (\<lambda>_. [])\<rparr>"

theorem preview_is_submitted_witness:
  "\<exists>ws. handleWorkspacePreview demo_ws_server demo_ql demo_create_form demo_owner = WsPreview (Inr ws) \<and>
     fst (st_cluster (snd (handleCreateWorkspace demo_ws_server demo_ql (mem_ws {}) demo_create_form demo_owner demo_ws_state))) (''dwpk-ana'', ''dev'') = Some ws"
proof -
  let ?f = "\<lambda>n. if n = ''name'' then ''dev'' else if n = ''storage'' \<or> n = ''cpu_request'' then ''1'' else ''''"
  have f: "rq_form (fr_req demo_create_form) = Inr ?f" by (simp add: demo_create_form_def demo_req_def)
  have t: "TrimSpace '''' = ''''" "TrimSpace ''1'' = ''1''" "TrimSpace ''dev'' = ''dev''" by code_simp+
  obtain ws where ws: "formWorkspace demo_ql ?f (\<lambda>_. []) ''dwpk-ana'' = Inr ws"
    by (simp add: formWorkspace_def draftFromForm_def envVarsFromForm_def buildWorkspace_def StorageQuantity_def Requirements_def addField_def addGPU_def
        resourceValuesFrom_def t demo_parse Let_def)
  then have p: "handleWorkspacePreview demo_ws_server demo_ql demo_create_form demo_owner = WsPreview (Inr ws)"
    by (simp add: handleWorkspacePreview_def f demo_delete_reads t) (simp add: demo_create_form_def)
  have m: "ws_meta ws = meta0 ''dwpk-ana'' ''dev''" using formWorkspace_meta [OF ws] by (simp add: t)
  have "snd (handleCreateWorkspace demo_ws_server demo_ql (mem_ws {}) demo_create_form demo_owner demo_ws_state) =
      demo_ws_state\<lparr>st_cluster := snd (wa_create (mem_ws {}) (rs_token demo_owner) ws (st_cluster demo_ws_state))\<rparr>"
    using preview_is_submitted [OF p f demo_delete_reads(5), of "mem_ws {}" demo_ws_state] by (simp add: t)
  then show ?thesis using p m by (simp add: mem_ws_def demo_ws_state_def meta0_def)
qed

end
