(* ===== verification/UiCatalog.thy ===== *)
theory UiCatalog
  imports UiWorkspaces
begin

text \<open>
  The catalog as people browse it and administrators edit it, image registries, and the platform settings with their cache: the
  routes of \<^verbatim>\<open>src/internal/ui/catalog.go\<close>, \<^verbatim>\<open>admin_catalog.go\<close>, \<^verbatim>\<open>admin_registries.go\<close>, \<^verbatim>\<open>settings.go\<close>, \<^verbatim>\<open>platform.go\<close>, the image and registry
  routes of \<^verbatim>\<open>api_resources.go\<close>, and the patches of \<^verbatim>\<open>k8s.go\<close>.

  A merge patch is modelled by what the API server makes of it (RFC 7386): the function on the stored spec that it stands for.
\<close>

section \<open>Edits and their patches (k8s.go)\<close>

record imageedit =
  ie_name :: string
  ie_image :: string
  ie_displayName :: string
  ie_description :: string
  ie_icon :: string
  ie_tags :: "string list"
  ie_deprecated :: bool
  ie_deprecateAt :: "gotime option"
  ie_allowRoot :: bool
  ie_pullSecretRef :: "string option"

text \<open>Every field is sent, an absent one as null, which clears it; the image is left out when it is blank.\<close>

definition workspaceImagePatch :: "imageedit \<Rightarrow> workspaceimage_spec \<Rightarrow> workspaceimage_spec" where
  "workspaceImagePatch e spec =
     (if ie_image e = '''' then spec else spec\<lparr>img_image := ie_image e\<rparr>)
       \<lparr>img_displayName := ie_displayName e, img_description := ie_description e, img_icon := ie_icon e, img_tags := ie_tags e,
        img_deprecated := ie_deprecated e, img_deprecateAt := ie_deprecateAt e, img_allowRoot := ie_allowRoot e, img_pullSecretRef := ie_pullSecretRef e\<rparr>"

record registryedit =
  re_name :: string
  re_region :: string
  re_registryID :: string
  re_roleARN :: string
  re_sync :: registrysync
  re_pullSecretRef :: "string option"

definition imageRegistryMergePatch :: "registryedit \<Rightarrow> imageregistry_spec \<Rightarrow> imageregistry_spec" where
  "imageRegistryMergePatch e spec =
     spec\<lparr>ir_aws := Some \<lparr>aws_region = re_region e, aws_registryID = re_registryID e, aws_roleARN = re_roleARN e\<rparr>,
       ir_sync := re_sync e, ir_pullSecretRef := re_pullSecretRef e\<rparr>"

text \<open>The client under a token; a patch is given as the function it stands for.\<close>

record 's catapi =
  ca_images :: "string \<Rightarrow> 's \<Rightarrow> apierr + workspaceimage list"
  ca_image :: "string \<Rightarrow> string \<Rightarrow> 's \<Rightarrow> apierr + workspaceimage"
  ca_createImage :: "string \<Rightarrow> workspaceimage \<Rightarrow> 's \<Rightarrow> apierr option \<times> 's"
  ca_patchImage :: "string \<Rightarrow> string \<Rightarrow> (workspaceimage_spec \<Rightarrow> workspaceimage_spec) \<Rightarrow> 's \<Rightarrow> apierr option \<times> 's"
  ca_deleteImage :: "string \<Rightarrow> string \<Rightarrow> 's \<Rightarrow> apierr option \<times> 's"
  ca_registries :: "string \<Rightarrow> 's \<Rightarrow> apierr + imageregistry list"
  ca_registry :: "string \<Rightarrow> string \<Rightarrow> 's \<Rightarrow> apierr + imageregistry"
  ca_createRegistry :: "string \<Rightarrow> imageregistry \<Rightarrow> 's \<Rightarrow> apierr option \<times> 's"
  ca_patchRegistry :: "string \<Rightarrow> string \<Rightarrow> (imageregistry_spec \<Rightarrow> imageregistry_spec) \<Rightarrow> 's \<Rightarrow> apierr option \<times> 's"
  ca_deleteRegistry :: "string \<Rightarrow> string \<Rightarrow> 's \<Rightarrow> apierr option \<times> 's"
  ca_annotateRegistry :: "string \<Rightarrow> string \<Rightarrow> string \<Rightarrow> string \<Rightarrow> 's \<Rightarrow> apierr option \<times> 's"

definition PatchWorkspaceImage :: "'s catapi \<Rightarrow> string \<Rightarrow> imageedit \<Rightarrow> 's \<Rightarrow> apierr option \<times> 's" where
  "PatchWorkspaceImage api tok e s = ca_patchImage api tok (ie_name e) (workspaceImagePatch e) s"

definition PatchImageRegistry :: "'s catapi \<Rightarrow> string \<Rightarrow> registryedit \<Rightarrow> 's \<Rightarrow> apierr option \<times> 's" where
  "PatchImageRegistry api tok e s = ca_patchRegistry api tok (re_name e) (imageRegistryMergePatch e) s"

text \<open>\<open>stamp\<close> is the current time in RFC 3339 with nanoseconds.\<close>

definition ForceSyncImageRegistry :: "'s catapi \<Rightarrow> string \<Rightarrow> string \<Rightarrow> string \<Rightarrow> 's \<Rightarrow> apierr option \<times> 's" where
  "ForceSyncImageRegistry api tok stamp name s = ca_annotateRegistry api tok name ''dwpk.devops-ia.io/force-sync'' stamp s"

section \<open>REST routes (api_resources.go)\<close>

record imagerequest =
  wq_name :: string
  wq_image :: string
  wq_displayName :: string
  wq_description :: string
  wq_icon :: string
  wq_tags :: "string list"
  wq_deprecated :: bool

text \<open>The zero value of a spec, as Go makes it; defaults are the API server's.\<close>

definition emptyImageSpec :: workspaceimage_spec where
  "emptyImageSpec = \<lparr>img_displayName = '''', img_description = '''', img_icon = '''', img_tags = [], img_maintainer = '''', img_deprecated = False,
     img_deprecateAt = None, img_image = '''', img_pullPolicy = '''', img_shell = '''', img_homePath = '''', img_runAsUser = 0, img_allowRoot = False,
     img_command = [], img_placement = None, img_pullSecretRef = None\<rparr>"

definition handleAPICreateWorkspaceImage ::
    "('q, 'tok, 's) uiserver \<Rightarrow> 's catapi \<Rightarrow> string + imagerequest \<Rightarrow> reqsession \<Rightarrow> 's svstate \<Rightarrow> response \<times> 's svstate" where
  "handleAPICreateWorkspaceImage sv api body session st =
     (case sv_forToken sv (rs_token session) of
        Some err \<Rightarrow> (failWith sv (OtherErr err), st)
      | None \<Rightarrow>
          (case body of
             Inl err \<Rightarrow> (failWith sv (ApiError 400 err), st)
           | Inr q \<Rightarrow>
               if TrimSpace (wq_name q) = '''' \<or> TrimSpace (wq_image q) = '''' then (failWith sv (ApiError 400 ''name and image are required''), st)
               else
                 (case onCluster (ca_createImage api (rs_token session) \<lparr>img_meta = meta0 '''' (TrimSpace (wq_name q)),
                        img_spec = emptyImageSpec\<lparr>img_image := TrimSpace (wq_image q), img_displayName := wq_displayName q, img_description := wq_description q,
                          img_icon := wq_icon q, img_tags := wq_tags q, img_deprecated := wq_deprecated q\<rparr>\<rparr>) st of
                    (Some err, st1) \<Rightarrow> (failWith sv (KubeErr err), st1)
                  | (None, st1) \<Rightarrow> (respond 201 NoPage, st1))))"

definition handleAPIPatchWorkspaceImage ::
    "('q, 'tok, 's) uiserver \<Rightarrow> 's catapi \<Rightarrow> httpreq \<Rightarrow> string + imagerequest \<Rightarrow> reqsession \<Rightarrow> 's svstate \<Rightarrow> response \<times> 's svstate" where
  "handleAPIPatchWorkspaceImage sv api r body session st =
     (case sv_forToken sv (rs_token session) of
        Some err \<Rightarrow> (failWith sv (OtherErr err), st)
      | None \<Rightarrow>
          (case body of
             Inl err \<Rightarrow> (failWith sv (ApiError 400 err), st)
           | Inr q \<Rightarrow>
               (case onCluster (PatchWorkspaceImage api (rs_token session)
                      \<lparr>ie_name = rq_path r ''name'', ie_image = TrimSpace (wq_image q), ie_displayName = wq_displayName q, ie_description = wq_description q,
                       ie_icon = wq_icon q, ie_tags = wq_tags q, ie_deprecated = wq_deprecated q, ie_deprecateAt = None, ie_allowRoot = False, ie_pullSecretRef = None\<rparr>) st of
                  (Some err, st1) \<Rightarrow> (failWith sv (KubeErr err), st1)
                | (None, st1) \<Rightarrow> (respond 200 NoPage, st1))))"

text \<open>Every field but the name is a pointer: absent is \<open>None\<close>.\<close>

record registryrequest =
  gq_name :: string
  gq_region :: "string option"
  gq_registryID :: "string option"
  gq_roleARN :: "string option"
  gq_intervalSeconds :: "int option"
  gq_include :: "string list option"
  gq_exclude :: "string list option"
  gq_tagMode :: "string option"
  gq_tagPatterns :: "string list option"
  gq_tagLimit :: "int option"
  gq_prune :: "bool option"
  gq_imagePullSecret :: "string option"

definition given :: "'a option \<Rightarrow> 'a \<Rightarrow> 'a" where
  "given v current = (case v of None \<Rightarrow> current | Some x \<Rightarrow> x)"

definition imageRegistrySyncFromRequest :: "registrysync \<Rightarrow> registryrequest \<Rightarrow> registrysync" where
  "imageRegistrySyncFromRequest current q =
     current\<lparr>sy_intervalSeconds := given (gq_intervalSeconds q) (sy_intervalSeconds current), sy_include := given (gq_include q) (sy_include current),
       sy_exclude := given (gq_exclude q) (sy_exclude current),
       sy_tags := (sy_tags current)\<lparr>ts_mode := given (gq_tagMode q) (ts_mode (sy_tags current)), ts_patterns := given (gq_tagPatterns q) (ts_patterns (sy_tags current)),
         ts_limit := given (gq_tagLimit q) (ts_limit (sy_tags current))\<rparr>,
       sy_prune := given (gq_prune q) (sy_prune current)\<rparr>"

definition emptySync :: registrysync where
  "emptySync = \<lparr>sy_intervalSeconds = 0, sy_include = [], sy_exclude = [], sy_tags = \<lparr>ts_mode = '''', ts_patterns = [], ts_limit = 0\<rparr>, sy_prune = False\<rparr>"

definition newRegistry :: "string \<Rightarrow> awsregistry \<Rightarrow> registrysync \<Rightarrow> string option \<Rightarrow> imageregistry" where
  "newRegistry name aws sync pull =
     \<lparr>ir_meta = meta0 '''' name, ir_spec = \<lparr>ir_provider = ImageRegistryProviderAWSECR, ir_aws = Some aws, ir_sync = sync, ir_pullSecretRef = pull\<rparr>,
      ir_status = \<lparr>irs_conditions = [], irs_observedGeneration = 0, irs_lastSyncTime = None, irs_images = 0\<rparr>\<rparr>"

definition handleAPICreateImageRegistry ::
    "('q, 'tok, 's) uiserver \<Rightarrow> 's catapi \<Rightarrow> string + registryrequest \<Rightarrow> reqsession \<Rightarrow> 's svstate \<Rightarrow> response \<times> 's svstate" where
  "handleAPICreateImageRegistry sv api body session st =
     (case sv_forToken sv (rs_token session) of
        Some err \<Rightarrow> (failWith sv (OtherErr err), st)
      | None \<Rightarrow>
          (case body of
             Inl err \<Rightarrow> (failWith sv (ApiError 400 err), st)
           | Inr q \<Rightarrow>
               (let name = TrimSpace (gq_name q); region = TrimSpace (given (gq_region q) '''') in
                if name = '''' \<or> region = '''' then (failWith sv (ApiError 400 ''name and region are required''), st)
                else case onCluster (ca_createRegistry api (rs_token session) (newRegistry name
                       \<lparr>aws_region = region, aws_registryID = given (gq_registryID q) '''', aws_roleARN = given (gq_roleARN q) ''''\<rparr>
                       (imageRegistrySyncFromRequest emptySync q) (case gq_imagePullSecret q of None \<Rightarrow> None | Some n \<Rightarrow> pullSecretRefOrNil n))) st of
                    (Some err, st1) \<Rightarrow> (failWith sv (KubeErr err), st1)
                  | (None, st1) \<Rightarrow> (respond 201 NoPage, st1))))"

definition registryEditFrom :: "imageregistry \<Rightarrow> registryrequest \<Rightarrow> string \<Rightarrow> registryedit" where
  "registryEditFrom reg q name =
     (let aws = (case ir_aws (ir_spec reg) of None \<Rightarrow> \<lparr>aws_region = '''', aws_registryID = '''', aws_roleARN = ''''\<rparr> | Some a \<Rightarrow> a) in
      \<lparr>re_name = name, re_region = given (gq_region q) (aws_region aws), re_registryID = given (gq_registryID q) (aws_registryID aws),
       re_roleARN = given (gq_roleARN q) (aws_roleARN aws), re_sync = imageRegistrySyncFromRequest (ir_sync (ir_spec reg)) q,
       re_pullSecretRef = pullSecretRefOrNil (given (gq_imagePullSecret q) (pullSecretName (ir_pullSecretRef (ir_spec reg))))\<rparr>)"

definition handleAPIPatchImageRegistry ::
    "('q, 'tok, 's) uiserver \<Rightarrow> 's catapi \<Rightarrow> httpreq \<Rightarrow> string + registryrequest \<Rightarrow> reqsession \<Rightarrow> 's svstate \<Rightarrow> response \<times> 's svstate" where
  "handleAPIPatchImageRegistry sv api r body session st =
     (case sv_forToken sv (rs_token session) of
        Some err \<Rightarrow> (failWith sv (OtherErr err), st)
      | None \<Rightarrow>
          (case body of
             Inl err \<Rightarrow> (failWith sv (ApiError 400 err), st)
           | Inr q \<Rightarrow>
               (case ca_registry api (rs_token session) (rq_path r ''name'') (st_cluster st) of
                  Inl err \<Rightarrow> (failWith sv (KubeErr err), st)
                | Inr reg \<Rightarrow>
                    (case onCluster (PatchImageRegistry api (rs_token session) (registryEditFrom reg q (rq_path r ''name''))) st of
                       (Some err, st1) \<Rightarrow> (failWith sv (KubeErr err), st1)
                     | (None, st1) \<Rightarrow> (respond 200 NoPage, st1)))))"

definition handleAPIDeleteWorkspaceImage ::
    "('q, 'tok, 's) uiserver \<Rightarrow> 's catapi \<Rightarrow> httpreq \<Rightarrow> reqsession \<Rightarrow> 's svstate \<Rightarrow> response \<times> 's svstate" where
  "handleAPIDeleteWorkspaceImage sv api r session st =
     (case sv_forToken sv (rs_token session) of
        Some err \<Rightarrow> (failWith sv (OtherErr err), st)
      | None \<Rightarrow>
          (case onCluster (ca_deleteImage api (rs_token session) (rq_path r ''name'')) st of
             (Some err, st1) \<Rightarrow> (failWith sv (KubeErr err), st1)
           | (None, st1) \<Rightarrow> (respond 204 NoPage, st1)))"

definition handleAPIDeleteImageRegistry ::
    "('q, 'tok, 's) uiserver \<Rightarrow> 's catapi \<Rightarrow> httpreq \<Rightarrow> reqsession \<Rightarrow> 's svstate \<Rightarrow> response \<times> 's svstate" where
  "handleAPIDeleteImageRegistry sv api r session st =
     (case sv_forToken sv (rs_token session) of
        Some err \<Rightarrow> (failWith sv (OtherErr err), st)
      | None \<Rightarrow>
          (case onCluster (ca_deleteRegistry api (rs_token session) (rq_path r ''name'')) st of
             (Some err, st1) \<Rightarrow> (failWith sv (KubeErr err), st1)
           | (None, st1) \<Rightarrow> (respond 204 NoPage, st1)))"

definition handleAPIForceSyncImageRegistry ::
    "('q, 'tok, 's) uiserver \<Rightarrow> 's catapi \<Rightarrow> string \<Rightarrow> httpreq \<Rightarrow> reqsession \<Rightarrow> 's svstate \<Rightarrow> response \<times> 's svstate" where
  "handleAPIForceSyncImageRegistry sv api stamp r session st =
     (case sv_forToken sv (rs_token session) of
        Some err \<Rightarrow> (failWith sv (OtherErr err), st)
      | None \<Rightarrow>
          (case onCluster (ForceSyncImageRegistry api (rs_token session) stamp (rq_path r ''name'')) st of
             (Some err, st1) \<Rightarrow> (failWith sv (KubeErr err), st1)
           | (None, st1) \<Rightarrow> (respond 202 NoPage, st1)))"

section \<open>The administrator's forms (admin_catalog.go, admin_registries.go)\<close>

text \<open>
  A page that shows a message is a refusal here: what the administration screens list is not modelled. \<open>parseDate\<close> is
  \<^verbatim>\<open>time.Parse(time.DateOnly, _)\<close>.
\<close>

definition dateOrNil :: "(string \<Rightarrow> gotime option) \<Rightarrow> string \<Rightarrow> string + gotime option" where
  "dateOrNil parseDate raw =
     (if TrimSpace raw = '''' then Inr None
      else case parseDate (TrimSpace raw) of
        None \<Rightarrow> Inl (''deprecation date: '' @ goQuote (TrimSpace raw) @ '' is not a date (expected yyyy-mm-dd)'')
      | Some t \<Rightarrow> Inr (Some t))"

definition adminMessage :: "('q, 'tok, 's) uiserver \<Rightarrow> uierr \<Rightarrow> response" where
  "adminMessage sv err = respond 400 (ErrorPage err)"

definition handleAdminCreateWorkspaceImage ::
    "('q, 'tok, 's) uiserver \<Rightarrow> 's catapi \<Rightarrow> (string \<Rightarrow> gotime option) \<Rightarrow> httpreq \<Rightarrow> reqsession \<Rightarrow> 's svstate \<Rightarrow> response \<times> 's svstate" where
  "handleAdminCreateWorkspaceImage sv api parseDate r session st =
     (case requireUserSpaceAdmin sv session (st_cluster st) of
        Some err \<Rightarrow> (failWith sv err, st)
      | None \<Rightarrow>
          (case rq_form r of
             Inl _ \<Rightarrow> (failWith sv errInvalidForm, st)
           | Inr f \<Rightarrow>
               (case dateOrNil parseDate (f ''deprecateAt'') of
                  Inl err \<Rightarrow> (adminMessage sv (OtherErr err), st)
                | Inr deprecateAt \<Rightarrow>
                    (let name = TrimSpace (f ''displayName'') in
                     if name = '''' then (adminMessage sv (OtherErr ''a catalog entry needs a name''), st)
                     else case onCluster (createWithSlug (sv_uc sv) (ca_createImage api (rs_token session)) \<lparr>img_meta = meta0 '''' '''',
                          img_spec = emptyImageSpec\<lparr>img_displayName := name, img_description := TrimSpace (f ''description''), img_icon := TrimSpace (f ''icon''),
                            img_tags := splitList (f ''tags''), img_image := TrimSpace (f ''image''), img_allowRoot := (f ''allowRoot'' \<noteq> ''''),
                            img_deprecateAt := deprecateAt, img_pullSecretRef := pullSecretRefOrNil (f ''imagePullSecret'')\<rparr>\<rparr> name) st of
                         (Some err, st1) \<Rightarrow> (adminMessage sv err, st1)
                       | (None, st1) \<Rightarrow> (redirectTo 302 (sv_path sv (donePath ''/admin/catalog'' ''image'')), st1)))))"

definition imageEditFrom :: "string \<Rightarrow> (string \<Rightarrow> string) \<Rightarrow> gotime option \<Rightarrow> imageedit" where
  "imageEditFrom name f deprecateAt =
     \<lparr>ie_name = name, ie_image = TrimSpace (f ''image''), ie_displayName = TrimSpace (f ''displayName''), ie_description = TrimSpace (f ''description''),
      ie_icon = TrimSpace (f ''icon''), ie_tags = splitList (f ''tags''), ie_deprecated = (f ''deprecated'' \<noteq> ''''), ie_deprecateAt = deprecateAt,
      ie_allowRoot = (f ''allowRoot'' \<noteq> ''''), ie_pullSecretRef = pullSecretRefOrNil (f ''imagePullSecret'')\<rparr>"

definition handleAdminUpdateWorkspaceImage ::
    "('q, 'tok, 's) uiserver \<Rightarrow> 's catapi \<Rightarrow> (string \<Rightarrow> gotime option) \<Rightarrow> httpreq \<Rightarrow> reqsession \<Rightarrow> 's svstate \<Rightarrow> response \<times> 's svstate" where
  "handleAdminUpdateWorkspaceImage sv api parseDate r session st =
     (case requireUserSpaceAdmin sv session (st_cluster st) of
        Some err \<Rightarrow> (failWith sv err, st)
      | None \<Rightarrow>
          (case rq_form r of
             Inl _ \<Rightarrow> (failWith sv errInvalidForm, st)
           | Inr f \<Rightarrow>
               (case dateOrNil parseDate (f ''deprecateAt'') of
                  Inl err \<Rightarrow> (adminMessage sv (OtherErr err), st)
                | Inr deprecateAt \<Rightarrow>
                    (case onCluster (PatchWorkspaceImage api (rs_token session) (imageEditFrom (rq_path r ''name'') f deprecateAt)) st of
                       (Some err, st1) \<Rightarrow> (adminMessage sv (KubeErr err), st1)
                     | (None, st1) \<Rightarrow> (redirectTo 302 (sv_path sv (donePath ''/admin/catalog'' ''image'')), st1)))))"

definition handleAdminDeleteWorkspaceImage ::
    "('q, 'tok, 's) uiserver \<Rightarrow> 's catapi \<Rightarrow> httpreq \<Rightarrow> reqsession \<Rightarrow> 's svstate \<Rightarrow> response \<times> 's svstate" where
  "handleAdminDeleteWorkspaceImage sv api r session st =
     (case requireUserSpaceAdmin sv session (st_cluster st) of
        Some err \<Rightarrow> (failWith sv err, st)
      | None \<Rightarrow>
          (case onCluster (ca_deleteImage api (rs_token session) (rq_path r ''name'')) st of
             (Some err, st1) \<Rightarrow> (adminMessage sv (KubeErr err), st1)
           | (None, st1) \<Rightarrow> (redirectTo 302 (sv_path sv (donePath ''/admin/catalog'' ''image'')), st1)))"

definition registriesAdminPath :: string where
  "registriesAdminPath = ''/admin/registries''"

definition handleAdminCreateImageRegistry ::
    "('q, 'tok, 's) uiserver \<Rightarrow> 's catapi \<Rightarrow> httpreq \<Rightarrow> reqsession \<Rightarrow> 's svstate \<Rightarrow> response \<times> 's svstate" where
  "handleAdminCreateImageRegistry sv api r session st =
     (case requireUserSpaceAdmin sv session (st_cluster st) of
        Some err \<Rightarrow> (failWith sv err, st)
      | None \<Rightarrow>
          (case rq_form r of
             Inl _ \<Rightarrow> (failWith sv errInvalidForm, st)
           | Inr f \<Rightarrow>
               (let name = TrimSpace (f ''name'') in
                if name = '''' then (adminMessage sv (OtherErr ''a registry needs a name''), st)
                else case onCluster (ca_createRegistry api (rs_token session) (newRegistry (slugify (sv_uc sv) name)
                       \<lparr>aws_region = TrimSpace (f ''region''), aws_registryID = TrimSpace (f ''registryId''), aws_roleARN = TrimSpace (f ''roleArn'')\<rparr>
                       (syncFromForm f) (pullSecretRefOrNil (f ''imagePullSecret'')))) st of
                    (Some err, st1) \<Rightarrow> (adminMessage sv (KubeErr err), st1)
                  | (None, st1) \<Rightarrow> (redirectTo 302 (sv_path sv (donePath registriesAdminPath ''registry'')), st1))))"

definition handleAdminUpdateImageRegistry ::
    "('q, 'tok, 's) uiserver \<Rightarrow> 's catapi \<Rightarrow> httpreq \<Rightarrow> reqsession \<Rightarrow> 's svstate \<Rightarrow> response \<times> 's svstate" where
  "handleAdminUpdateImageRegistry sv api r session st =
     (case requireUserSpaceAdmin sv session (st_cluster st) of
        Some err \<Rightarrow> (failWith sv err, st)
      | None \<Rightarrow>
          (case rq_form r of
             Inl _ \<Rightarrow> (failWith sv errInvalidForm, st)
           | Inr f \<Rightarrow>
               (case onCluster (PatchImageRegistry api (rs_token session)
                      \<lparr>re_name = rq_path r ''name'', re_region = TrimSpace (f ''region''), re_registryID = TrimSpace (f ''registryId''), re_roleARN = TrimSpace (f ''roleArn''),
                       re_sync = syncFromForm f, re_pullSecretRef = pullSecretRefOrNil (f ''imagePullSecret'')\<rparr>) st of
                  (Some err, st1) \<Rightarrow> (adminMessage sv (KubeErr err), st1)
                | (None, st1) \<Rightarrow> (redirectTo 302 (sv_path sv (donePath registriesAdminPath ''registry'')), st1))))"

definition handleAdminDeleteImageRegistry ::
    "('q, 'tok, 's) uiserver \<Rightarrow> 's catapi \<Rightarrow> httpreq \<Rightarrow> reqsession \<Rightarrow> 's svstate \<Rightarrow> response \<times> 's svstate" where
  "handleAdminDeleteImageRegistry sv api r session st =
     (case requireUserSpaceAdmin sv session (st_cluster st) of
        Some err \<Rightarrow> (failWith sv err, st)
      | None \<Rightarrow>
          (case onCluster (ca_deleteRegistry api (rs_token session) (rq_path r ''name'')) st of
             (Some err, st1) \<Rightarrow> (adminMessage sv (KubeErr err), st1)
           | (None, st1) \<Rightarrow> (redirectTo 302 (sv_path sv (donePath registriesAdminPath ''registry'')), st1)))"

definition handleAdminForceSyncImageRegistry ::
    "('q, 'tok, 's) uiserver \<Rightarrow> 's catapi \<Rightarrow> string \<Rightarrow> httpreq \<Rightarrow> reqsession \<Rightarrow> 's svstate \<Rightarrow> response \<times> 's svstate" where
  "handleAdminForceSyncImageRegistry sv api stamp r session st =
     (case requireUserSpaceAdmin sv session (st_cluster st) of
        Some err \<Rightarrow> (failWith sv err, st)
      | None \<Rightarrow>
          (case onCluster (ForceSyncImageRegistry api (rs_token session) stamp (rq_path r ''name'')) st of
             (Some err, st1) \<Rightarrow> (adminMessage sv (KubeErr err), st1)
           | (None, st1) \<Rightarrow> (redirectTo 302 (sv_path sv (donePath registriesAdminPath ''sync'')), st1)))"

text \<open>A row of the registries screen, as far as the edit form is filled from it.\<close>

text \<open>The time of the last sync is kept as it is; \<open>None\<close> is shown as never.\<close>

record registryrow =
  rr_registry :: string
  rr_provider :: string
  rr_region :: string
  rr_registryID :: string
  rr_roleARN :: string
  rr_status :: string
  rr_message :: string
  rr_images :: int
  rr_lastSync :: "gotime option"
  rr_intervalSeconds :: int
  rr_include :: string
  rr_exclude :: string
  rr_tagMode :: string
  rr_tagPatterns :: string
  rr_tagLimit :: int
  rr_prune :: bool
  rr_imagePullSecret :: string

definition imageRegistryRow :: "imageregistry \<Rightarrow> registryrow" where
  "imageRegistryRow reg =
     (let ready = find (\<lambda>c. c_type c = ''Ready'') (irs_conditions (ir_status reg));
          aws = (case ir_aws (ir_spec reg) of None \<Rightarrow> \<lparr>aws_region = '''', aws_registryID = '''', aws_roleARN = ''''\<rparr> | Some a \<Rightarrow> a);
          sync = ir_sync (ir_spec reg)
      in \<lparr>rr_registry = ir_name reg, rr_provider = ir_provider (ir_spec reg), rr_region = aws_region aws, rr_registryID = aws_registryID aws, rr_roleARN = aws_roleARN aws,
          rr_status = (case ready of None \<Rightarrow> ''Pending'' | Some c \<Rightarrow> if c_status c then ''Ready'' else ''Degraded''),
          rr_message = (case ready of None \<Rightarrow> '''' | Some c \<Rightarrow> c_message c), rr_images = irs_images (ir_status reg), rr_lastSync = irs_lastSyncTime (ir_status reg),
          rr_intervalSeconds = sy_intervalSeconds sync, rr_include = joinLines (sy_include sync), rr_exclude = joinLines (sy_exclude sync),
          rr_tagMode = ts_mode (sy_tags sync), rr_tagPatterns = joinLines (ts_patterns (sy_tags sync)), rr_tagLimit = ts_limit (sy_tags sync),
          rr_prune = sy_prune sync, rr_imagePullSecret = pullSecretName (ir_pullSecretRef (ir_spec reg))\<rparr>)"

definition imageRegistryRows :: "imageregistry list \<Rightarrow> registryrow list" where
  "imageRegistryRows registries = sort_key rr_registry (map imageRegistryRow registries)"

section \<open>Browsing the catalog (catalog.go, helpers.go)\<close>

definition HasInfix :: "string \<Rightarrow> string \<Rightarrow> bool" where
  "HasInfix s p \<longleftrightarrow> list_ex (\<lambda>i. HasPrefix (drop i s) p) [0..<Suc (length s)]"

definition workspaceImageVisible :: "ucd \<Rightarrow> workspaceimage \<Rightarrow> string \<Rightarrow> string \<Rightarrow> bool \<Rightarrow> bool" where
  "workspaceImageVisible uc img txt tag0 showDeprecated =
     (let spec = img_spec img; tag = TrimSpace (ToLower uc tag0); query = TrimSpace (ToLower uc txt) in
      if img_deprecated spec \<and> \<not> showDeprecated then False
      else if tag \<noteq> '''' \<and> \<not> list_ex (\<lambda>candidate. EqualFold uc candidate tag) (img_tags spec) then False
      else if query = '''' then True
      else list_ex (\<lambda>haystack. HasInfix (ToLower uc haystack) query) ([img_name img, img_displayName spec, img_description spec, img_maintainer spec] @ img_tags spec))"

definition catalogEntryVisible :: "ucd \<Rightarrow> workspaceimage \<Rightarrow> string \<Rightarrow> string \<Rightarrow> bool \<Rightarrow> gotime \<Rightarrow> bool" where
  "catalogEntryVisible uc img txt tag showDeprecated now =
     (if IsDeprecated img now \<and> \<not> showDeprecated then False else workspaceImageVisible uc img txt tag True)"

text \<open>One question for the whole catalog, and one per entry when that is refused.\<close>

fun usableByName :: "('q, 'tok, 's) uiserver \<Rightarrow> string \<Rightarrow> 's \<Rightarrow> workspaceimage list \<Rightarrow> apierr + string list" where
  "usableByName sv tok s [] = Inr []"
| "usableByName sv tok s (img # imgs) =
     (case sv_canI sv tok ''use'' ''workspaceimages'' (img_name img) s of
        Inl err \<Rightarrow> Inl err
      | Inr ok \<Rightarrow>
          (case usableByName sv tok s imgs of
             Inl err \<Rightarrow> Inl err
           | Inr names \<Rightarrow> Inr (if ok then img_name img # names else names)))"

definition usableImageNames :: "('q, 'tok, 's) uiserver \<Rightarrow> string \<Rightarrow> workspaceimage list \<Rightarrow> 's \<Rightarrow> apierr + (string \<Rightarrow> bool)" where
  "usableImageNames sv tok imgs s =
     (case sv_canI sv tok ''use'' ''workspaceimages'' '''' s of
        Inl err \<Rightarrow> Inl err
      | Inr True \<Rightarrow> Inr (\<lambda>_. True)
      | Inr False \<Rightarrow>
          (case usableByName sv tok s imgs of Inl err \<Rightarrow> Inl err | Inr names \<Rightarrow> Inr (\<lambda>name. name \<in> set names)))"

text \<open>The entries of one page; entries whose titles tie are in an unspecified order.\<close>

definition handleCatalog ::
    "('q, 'tok, 's) uiserver \<Rightarrow> 's catapi \<Rightarrow> gotime \<Rightarrow> httpreq \<Rightarrow> reqsession \<Rightarrow> 's \<Rightarrow> uierr + workspaceimage page_of" where
  "handleCatalog sv api now r session s =
     (case sv_forToken sv (rs_token session) of
        Some err \<Rightarrow> Inl (OtherErr err)
      | None \<Rightarrow>
          (case ca_images api (rs_token session) s of
             Inl err \<Rightarrow> Inl (KubeErr err)
           | Inr imgs \<Rightarrow>
               (case usableImageNames sv (rs_token session) imgs s of
                  Inl err \<Rightarrow> Inl (KubeErr err)
                | Inr usable \<Rightarrow>
                    Inr (paginateWith catalogPageSizes (rq_query r ''per'') (rq_query r ''page'') (sort_key Title
                      (filter (\<lambda>img. usable (img_name img) \<and> catalogEntryVisible (sv_uc sv) img (TrimSpace (rq_query r ''q'')) (TrimSpace (rq_query r ''tag''))
                         (rq_query r ''deprecated'' = ''1'') now) imgs))))))"

section \<open>The icon proxy (catalog.go)\<close>

definition maxIconBytes :: nat where
  "maxIconBytes = 524288"

text \<open>
  An answer of another HTTP server. \<open>split\<close> is \<^verbatim>\<open>url.Parse\<close> cut to scheme and host, \<open>resolve\<close> the resolution of a Location against
  the URL it was answered for.
\<close>

record webanswer =
  wb_status :: nat
  wb_statusText :: string
  wb_location :: string
  wb_contentType :: string
  wb_body :: string

record web =
  web_split :: "string \<Rightarrow> (string \<times> string) option"
  web_resolve :: "string \<Rightarrow> string \<Rightarrow> string"
  web_get :: "string \<Rightarrow> string + webanswer"

definition checkIconURL :: "web \<Rightarrow> string \<Rightarrow> uierr option" where
  "checkIconURL web raw =
     (case web_split web raw of
        None \<Rightarrow> Some (ApiError 400 ''the icon URL is not a URL'')
      | Some (scheme, host) \<Rightarrow>
          if scheme \<noteq> ''https'' then Some (ApiError 400 ''icon URLs must be https'')
          else if host = '''' then Some (ApiError 400 ''the icon URL has no host'')
          else None)"

text \<open>\<^verbatim>\<open>http.Client.Do\<close> without a redirect policy of its own: redirects are followed, wherever they lead, in up to ten requests.\<close>

fun clientDo :: "web \<Rightarrow> nat \<Rightarrow> string \<Rightarrow> string + webanswer" where
  "clientDo web left url =
     (case web_get web url of
        Inl err \<Rightarrow> Inl err
      | Inr answer \<Rightarrow>
          if wb_status answer \<in> {301, 302, 303, 307, 308} \<and> wb_location answer \<noteq> '''' then
            (case left of
               0 \<Rightarrow> Inl ''stopped after 10 redirects''
             | Suc n \<Rightarrow> clientDo web n (web_resolve web url (wb_location answer)))
          else Inr answer)"

declare clientDo.simps [simp del]

datatype icon = NoIcon | IconError uierr | Relayed string string

definition handleWorkspaceImageIcon :: "('q, 'tok, 's) uiserver \<Rightarrow> 's catapi \<Rightarrow> web \<Rightarrow> string \<Rightarrow> reqsession \<Rightarrow> 's \<Rightarrow> icon" where
  "handleWorkspaceImageIcon sv api web name session s =
     (case sv_forToken sv (rs_token session) of
        Some err \<Rightarrow> IconError (OtherErr err)
      | None \<Rightarrow>
          (case sv_canI sv (rs_token session) ''use'' ''workspaceimages'' name s of
             Inl err \<Rightarrow> IconError (KubeErr err)
           | Inr allowed \<Rightarrow>
               if \<not> allowed then IconError (ApiError 403 ''you are not authorised to use this workspace image'')
               else case ca_image api (rs_token session) name s of
                 Inl err \<Rightarrow> IconError (KubeErr err)
               | Inr img \<Rightarrow>
                   (let iconURL = TrimSpace (img_icon (img_spec img)) in
                    if iconURL = '''' then NoIcon
                    else case checkIconURL web iconURL of
                      Some err \<Rightarrow> IconError err
                    | None \<Rightarrow>
                        (case clientDo web 9 iconURL of
                           Inl err \<Rightarrow> IconError (OtherErr err)
                         | Inr answer \<Rightarrow>
                             if wb_status answer \<noteq> 200 then IconError (ApiError (wb_status answer) (wb_statusText answer))
                             else if \<not> HasPrefix (wb_contentType answer) ''image/'' then IconError (ApiError 502 ''the icon URL did not return an image'')
                             else Relayed (wb_contentType answer) (take maxIconBytes (wb_body answer))))))"

section \<open>Platform settings (settings.go, platform.go)\<close>

definition maxLogoPixels :: int where
  "maxLogoPixels = 120"

definition maxLogoBytes :: nat where
  "maxLogoBytes = 131072"

text \<open>
  \<open>sniff\<close> is \<^verbatim>\<open>http.DetectContentType\<close> and \<open>decoders\<close> maps the formats registered with the image package, of which the process has
  PNG and JPEG, to their header readers.
\<close>

record imagelib =
  il_sniff :: "string \<Rightarrow> string"
  il_decoders :: "(string \<times> (string \<Rightarrow> (int \<times> int) option)) list"

definition detectLogoType :: "imagelib \<Rightarrow> string \<Rightarrow> string" where
  "detectLogoType il data =
     (let sniffed = il_sniff il data in
      if HasPrefix sniffed ''image/png'' then ''image/png''
      else if HasPrefix sniffed ''image/jpeg'' then ''image/jpeg''
      else if HasPrefix sniffed ''image/webp'' then ''image/webp''
      else if (HasInfix sniffed ''xml'' \<or> HasPrefix (TrimSpace data) ''<svg'') \<and> HasInfix (take 1024 data) ''<svg'' then ''image/svg+xml''
      else '''')"

text \<open>\<^verbatim>\<open>image.DecodeConfig\<close>: the first registered format that recognises the data.\<close>

definition DecodeConfig :: "imagelib \<Rightarrow> string \<Rightarrow> (int \<times> int) option" where
  "DecodeConfig il data = (case List.map_filter (\<lambda>(name, decode). decode data) (il_decoders il) of [] \<Rightarrow> None | dims # _ \<Rightarrow> Some dims)"

text \<open>\<open>file\<close> is what reading the upload yields.\<close>

definition readLogo :: "imagelib \<Rightarrow> string + string \<Rightarrow> uierr + string \<times> string" where
  "readLogo il file =
     (case file of
        Inl _ \<Rightarrow> Inl (ApiError 400 ''could not read the uploaded file'')
      | Inr content \<Rightarrow>
          (let data = take (maxLogoBytes + 1) content; contentType = detectLogoType il data in
           if length data > maxLogoBytes then Inl (ApiError 400 ''that image is larger than 128KB'')
           else if data = '''' then Inl (ApiError 400 ''that file is empty'')
           else if contentType = '''' then Inl (ApiError 400 ''only PNG, JPEG, WebP and SVG images are accepted'')
           else if contentType = ''image/svg+xml'' then Inr (contentType, data)
           else case DecodeConfig il data of
             None \<Rightarrow> Inl (ApiError 400 ''that file is not a readable image'')
           | Some (width, height) \<Rightarrow>
               if width > maxLogoPixels \<or> height > maxLogoPixels
               then Inl (ApiError 400 (''the logo must be at most 120x120; that one is '' @ FormatInt width @ ''x'' @ FormatInt height))
               else Inr (contentType, data)))"

record settings =
  se_displayName :: string
  se_defaultTheme :: string
  se_supportEmail :: string
  se_gpuResourceName :: string
  se_logo :: "(string \<times> string) option"
  se_clearLogo :: bool

definition platformPatch :: "settings \<Rightarrow> platformconfig \<Rightarrow> platformconfig" where
  "platformPatch u c =
     (if se_clearLogo u then c\<lparr>pc_logo := None\<rparr> else case se_logo u of None \<Rightarrow> c | Some l \<Rightarrow> c\<lparr>pc_logo := Some l\<rparr>)
       \<lparr>pc_displayName := se_displayName u, pc_defaultTheme := se_defaultTheme u, pc_supportEmail := se_supportEmail u, pc_gpuResourceName := se_gpuResourceName u\<rparr>"

record 's settingsapi =
  sa_get :: "'s \<Rightarrow> apierr + platformconfig"
  sa_patch :: "string \<Rightarrow> (platformconfig \<Rightarrow> platformconfig) \<Rightarrow> 's \<Rightarrow> apierr option \<times> 's"
  sa_create :: "string \<Rightarrow> platformconfig \<Rightarrow> 's \<Rightarrow> apierr option \<times> 's"

definition PatchPlatformConfig :: "'s settingsapi \<Rightarrow> string \<Rightarrow> settings \<Rightarrow> 's \<Rightarrow> apierr option \<times> 's" where
  "PatchPlatformConfig api tok u s =
     (case sa_patch api tok (platformPatch u) s of
        (None, s1) \<Rightarrow> (None, s1)
      | (Some err, s1) \<Rightarrow>
          if \<not> IsNotFound err then (Some err, s1)
          else sa_create api tok \<lparr>pc_displayName = se_displayName u, pc_logo = se_logo u, pc_defaultTheme = se_defaultTheme u,
            pc_gpuResourceName = se_gpuResourceName u, pc_supportEmail = se_supportEmail u\<rparr> s1)"

text \<open>The cache of the process: the settings or their absence, and when they were read.\<close>

record platformcache =
  ch_config :: "platformconfig option"
  ch_fetched :: "gotime option"

definition platformConfigTTL :: duration where
  "platformConfigTTL = 5 * 1000000000"

definition platformConfig :: "'s settingsapi \<Rightarrow> gotime \<Rightarrow> 's \<Rightarrow> platformcache \<Rightarrow> platformconfig option \<times> platformcache" where
  "platformConfig api now s cache =
     (case ch_fetched cache of
        Some t \<Rightarrow>
          if now - t < platformConfigTTL then (ch_config cache, cache)
          else let c = (case sa_get api s of Inl _ \<Rightarrow> None | Inr x \<Rightarrow> Some x) in (c, \<lparr>ch_config = c, ch_fetched = Some now\<rparr>)
      | None \<Rightarrow> let c = (case sa_get api s of Inl _ \<Rightarrow> None | Inr x \<Rightarrow> Some x) in (c, \<lparr>ch_config = c, ch_fetched = Some now\<rparr>))"

definition invalidatePlatformConfig :: "platformcache \<Rightarrow> platformcache" where
  "invalidatePlatformConfig cache = cache\<lparr>ch_fetched := None\<rparr>"

text \<open>The update that the form describes.\<close>

definition settingsOf :: "(string \<Rightarrow> string) \<Rightarrow> (string \<times> string) option \<Rightarrow> settings" where
  "settingsOf f logo =
     \<lparr>se_displayName = TrimSpace (f ''displayName''), se_defaultTheme = TrimSpace (f ''defaultTheme''), se_supportEmail = TrimSpace (f ''supportEmail''),
      se_gpuResourceName = TrimSpace (f ''gpuResourceName''), se_logo = logo, se_clearLogo = (f ''clearLogo'' \<noteq> '''')\<rparr>"

text \<open>\<open>upload\<close> is the logo of the multipart form, absent when none was sent.\<close>

definition handleAdminUpdateSettings ::
    "('q, 'tok, 's) uiserver \<Rightarrow> 's settingsapi \<Rightarrow> imagelib \<Rightarrow> httpreq \<Rightarrow> (string + string) option \<Rightarrow> reqsession \<Rightarrow> 's svstate \<times> platformcache \<Rightarrow> response \<times> 's svstate \<times> platformcache" where
  "handleAdminUpdateSettings sv api il r upload session stc =
     (case stc of (st, cache) \<Rightarrow>
       (case requireUserSpaceAdmin sv session (st_cluster st) of
          Some err \<Rightarrow> (failWith sv err, st, cache)
        | None \<Rightarrow>
            (case rq_multipart r of
               Inl _ \<Rightarrow> (adminMessage sv (OtherErr ''That upload is too large.''), st, cache)
             | Inr f \<Rightarrow>
                 (case (case upload of None \<Rightarrow> Inr None | Some file \<Rightarrow> (case readLogo il file of Inl err \<Rightarrow> Inl err | Inr logo \<Rightarrow> Inr (Some logo))) of
                    Inl err \<Rightarrow> (adminMessage sv err, st, cache)
                  | Inr logo \<Rightarrow>
                      (case onCluster (PatchPlatformConfig api (rs_token session) (settingsOf f logo)) st of
                         (Some err, st1) \<Rightarrow> (adminMessage sv (KubeErr err), st1, cache)
                       | (None, st1) \<Rightarrow> (redirectTo 303 (sv_path sv (donePath ''/admin/settings'' ''settings'')), st1, invalidatePlatformConfig cache))))))"

section \<open>Lemmas: text areas\<close>

text \<open>A browser submits the line breaks of a text area as CR LF.\<close>

definition browserText :: "string \<Rightarrow> string" where
  "browserText s = concat (map (\<lambda>c. if c = CHR 0x0A then [CHR 0x0D, CHR 0x0A] else [c]) s)"

lemma browserText_append: "browserText (a @ b) = browserText a @ browserText b"
  by (simp add: browserText_def)

lemma browserText_line: "CHR 0x0A \<notin> set p \<Longrightarrow> browserText p = p"
  by (induction p) (auto simp: browserText_def)

lemma space_seqs_CR: "w \<in> set space_seqs \<Longrightarrow> CHR 0x0D \<in> set w \<Longrightarrow> w = [CHR 0x0D]"
  by (auto simp: space_seqs_def)

lemma TrimSpace_ends: "TrimSpace p = p \<Longrightarrow> space_len p = 0 \<and> space_len_end p = 0"
  using TrimSpace_no_lead [of p] TrimSpace_no_trail [of p] by simp

lemma TrimSpace_CR:
  assumes "TrimSpace p = p" "p \<noteq> ''''"
  shows "TrimSpace (p @ [CHR 0x0D]) = p"
proof -
  from TrimSpace_ends [OF assms(1)] have e: "space_len p = 0" "space_len_end p = 0" by simp_all
  have "\<not> HasPrefix (p @ [CHR 0x0D]) w" if w: "w \<in> set space_seqs" for w
  proof
    assume "HasPrefix (p @ [CHR 0x0D]) w"
    then obtain r where r: "p @ [CHR 0x0D] = w @ r" by (auto simp: HasPrefix_iff)
    show False
    proof (cases r rule: rev_cases)
      case Nil
      then have "w = [CHR 0x0D]" using r space_seqs_CR [OF w] by (metis append_Nil2 in_set_conv_decomp)
      with r Nil assms(2) show False by simp
    next
      case (snoc r' c)
      then have "p = w @ r'" using r by simp
      with e(1) w show False by (auto simp: space_len_0_iff HasPrefix_iff)
    qed
  qed
  then have l: "TrimLeftSpace (p @ [CHR 0x0D]) = p @ [CHR 0x0D]" by (simp add: TrimLeftSpace.simps space_len_0_iff)
  have "w = [CHR 0x0D]" if "w \<in> set space_seqs" "HasSuffix (p @ [CHR 0x0D]) w" for w
    using that space_seqs_CR [OF that(1)] space_seqs_nonempty [OF that(1)] by (cases w rule: rev_cases) (auto simp: HasSuffix_iff)
  moreover have "[CHR 0x0D] \<in> set space_seqs" "HasSuffix (p @ [CHR 0x0D]) [CHR 0x0D]" by (auto simp: space_seqs_def HasSuffix_iff)
  ultimately have "find (\<lambda>w. HasSuffix (p @ [CHR 0x0D]) w) space_seqs = Some [CHR 0x0D]"
    by (cases "find (\<lambda>w. HasSuffix (p @ [CHR 0x0D]) w) space_seqs") (auto simp: find_None_iff dest: find_SomeE)
  then have "space_len_end (p @ [CHR 0x0D]) = 1" by (simp add: space_len_end_def)
  then have "TrimRightSpace (p @ [CHR 0x0D]) = TrimRightSpace p" by (simp add: TrimRightSpace.simps [of "p @ [CHR 0x0D]"])
  then show ?thesis using l e(2) by (simp add: TrimSpace_def TrimRightSpace.simps [of p])
qed

lemma splitLines_browser:
  assumes "\<forall>p\<in>set ps. p \<noteq> '''' \<and> TrimSpace p = p \<and> CHR 0x0A \<notin> set p"
  shows "splitLines (browserText (joinLines ps)) = ps"
  using assms
proof (induction ps "[CHR 0x0A]" rule: Join.induct)
  case 1
  have "TrimSpace [] = []" by code_simp
  then show ?case by (simp add: splitLines_def pieces_def joinLines_def browserText_def)
next
  case (2 p)
  then show ?case using splitFrom_prefix [of "CHR 0x0A" p "[]" "[]"]
    by (simp add: splitLines_def pieces_def joinLines_def browserText_line)
next
  case (3 p q qs)
  have "browserText (joinLines (p # q # qs)) = (p @ [CHR 0x0D]) @ CHR 0x0A # browserText (joinLines (q # qs))"
    using 3(2) by (simp add: joinLines_def browserText_append browserText_line) (simp add: browserText_def)
  moreover have "CHR 0x0A \<notin> set (p @ [CHR 0x0D])" using 3(2) by simp
  ultimately have "splitFrom (CHR 0x0A) [] (browserText (joinLines (p # q # qs))) = (p @ [CHR 0x0D]) # splitFrom (CHR 0x0A) [] (browserText (joinLines (q # qs)))"
    using splitFrom_prefix [of "CHR 0x0A" "p @ [CHR 0x0D]" "[]" "CHR 0x0A # browserText (joinLines (q # qs))"] by simp
  then show ?case using 3 TrimSpace_CR [of p] by (simp add: splitLines_def pieces_def)
qed

lemma TrimSpace_FormatInt: "TrimSpace (FormatInt i) = FormatInt i"
proof -
  have d: "isDigit c \<or> c = CHR ''-''" if "c \<in> set (FormatInt i)" for c
    using show_nat_digits [of "nat i"] show_nat_digits [of "nat (- i)"] that by (auto simp: FormatInt_def list_all_iff split: if_splits)
  have s: "w \<in> set space_seqs \<Longrightarrow> c \<in> set w \<Longrightarrow> \<not> (isDigit c \<or> c = CHR ''-'')" for w c by (auto simp: space_seqs_def isDigit_def)
  have "\<not> HasPrefix (FormatInt i) w \<and> \<not> HasSuffix (FormatInt i) w" if w: "w \<in> set space_seqs" for w
    using d s [OF w] space_seqs_nonempty [OF w] by (fastforce simp: HasPrefix_iff HasSuffix_iff neq_Nil_conv)
  then show ?thesis by (simp add: TrimSpace_def TrimLeftSpace.simps [of "FormatInt i"] TrimRightSpace.simps [of "FormatInt i"] space_len_0_iff space_len_end_0_iff)
qed

lemma Atoi_FormatInt_any:
  assumes "- (2 ^ 31) \<le> i" "i < 2 ^ 31"
  shows "Atoi (FormatInt i) = Some i"
proof (cases "0 \<le> i")
  case False
  then show ?thesis using assms show_nat_digits [of "nat (- i)"] by (simp add: Atoi_def FormatInt_def Let_def)
qed (use assms in \<open>simp add: Atoi_FormatInt\<close>)

section \<open>Theorems\<close>

definition cleanLines :: "string list \<Rightarrow> bool" where
  "cleanLines ps \<longleftrightarrow> (\<forall>p\<in>set ps. p \<noteq> '''' \<and> TrimSpace p = p \<and> CHR 0x0A \<notin> set p)"

text \<open>A sync configuration as the forms make them, with both numbers in range.\<close>

definition formSync :: "registrysync \<Rightarrow> bool" where
  "formSync sync \<longleftrightarrow> 0 < sy_intervalSeconds sync \<and> sy_intervalSeconds sync < 2 ^ 31 \<and> 0 < ts_limit (sy_tags sync) \<and> ts_limit (sy_tags sync) < 2 ^ 31 \<and>
     cleanLines (sy_include sync) \<and> cleanLines (sy_exclude sync) \<and> cleanLines (ts_patterns (sy_tags sync)) \<and>
     ts_mode (sy_tags sync) \<noteq> '''' \<and> TrimSpace (ts_mode (sy_tags sync)) = ts_mode (sy_tags sync)"

lemma trim_latest: "TrimSpace ''latest'' = ''latest''"
  by code_simp

lemma cleanLines_splitLines: "cleanLines (splitLines s)"
  using pieces_ok [of _ "CHR 0x0A" s] unfolding cleanLines_def splitLines_def by blast

text \<open>
  (C39) Opening a registry and saving it without a change stores what was stored exactly when the stored settings are in the shape that the form
  writes: patterns without surrounding space, line breaks or blank ones, a trimmed mode that is not empty, and a positive interval and limit.
  The form holds what the screen rendered, with the line breaks a browser submits. A registry that the API gave a pattern
  with a leading space, or a limit of zero, is changed by such a save.
\<close>

theorem registry_form_roundtrip:
  assumes "sync = ir_sync (ir_spec reg)" and "row = imageRegistryRow reg"
    and "sy_intervalSeconds sync < 2 ^ 31" and "- (2 ^ 31) \<le> sy_intervalSeconds sync" and "ts_limit (sy_tags sync) < 2 ^ 31" and "- (2 ^ 31) \<le> ts_limit (sy_tags sync)"
    and "f ''intervalSeconds'' = FormatInt (rr_intervalSeconds row)" "f ''tagLimit'' = FormatInt (rr_tagLimit row)" "f ''tagMode'' = rr_tagMode row"
      "f ''include'' = browserText (rr_include row)" "f ''exclude'' = browserText (rr_exclude row)" "f ''tagPatterns'' = browserText (rr_tagPatterns row)"
      "f ''prune'' \<noteq> '''' \<longleftrightarrow> rr_prune row"
  shows "syncFromForm f = sync \<longleftrightarrow> formSync sync"
proof
  have n: "Atoi (TrimSpace (FormatInt i)) = Some i \<and> wrap32 i = i" if "- (2 ^ 31) \<le> i" "i < 2 ^ 31" for i
    using that by (simp add: TrimSpace_FormatInt Atoi_FormatInt_any wrap32_id)
  note n = n [OF assms(4,3)] n [OF assms(6,5)]
  show "syncFromForm f = sync" if "formSync sync"
  proof -
    have l: "splitLines (browserText (joinLines ps)) = ps" if "cleanLines ps" for ps
      using that splitLines_browser unfolding cleanLines_def by blast
    show ?thesis
      using that assms(7-) n l by (simp add: syncFromForm_def assms(1,2) imageRegistryRow_def formSync_def Let_def)
  qed
  assume eq: "syncFromForm f = sync"
  have "cleanLines (sy_include sync)" "cleanLines (sy_exclude sync)" "cleanLines (ts_patterns (sy_tags sync))"
    unfolding eq [symmetric] by (simp_all add: syncFromForm_def Let_def cleanLines_splitLines)
  moreover have "ts_mode (sy_tags sync) \<noteq> ''''" "TrimSpace (ts_mode (sy_tags sync)) = ts_mode (sy_tags sync)"
    unfolding eq [symmetric] by (simp_all add: syncFromForm_def Let_def TrimSpace_idem trim_latest)
  moreover have "0 < sy_intervalSeconds sync" "0 < ts_limit (sy_tags sync)"
  proof -
    have "f ''intervalSeconds'' = FormatInt (sy_intervalSeconds sync)" "f ''tagLimit'' = FormatInt (ts_limit (sy_tags sync))"
      using assms(7,8) by (simp_all add: assms(1,2) imageRegistryRow_def Let_def)
    then have "sy_intervalSeconds (syncFromForm f) = (if sy_intervalSeconds sync \<le> 0 then wrap32 DefaultSyncIntervalSeconds else sy_intervalSeconds sync)"
      "ts_limit (sy_tags (syncFromForm f)) = (if ts_limit (sy_tags sync) \<le> 0 then wrap32 1 else ts_limit (sy_tags sync))"
      using n by (simp_all add: syncFromForm_def Let_def)
    then show "0 < sy_intervalSeconds sync" "0 < ts_limit (sy_tags sync)"
      unfolding eq by (auto simp: wrap32_def DefaultSyncIntervalSeconds_def split: if_splits)
  qed
  ultimately show "formSync sync" using assms(3,5) by (simp add: formSync_def)
qed

text \<open>
  A REST patch of a registry changes what it names and keeps the rest: every field of the stored object that the request leaves
  out is unchanged, whatever the other fields are.
\<close>

theorem registry_patch_keeps_omitted:
  assumes "ir_aws (ir_spec reg) = Some a" and "spec' = imageRegistryMergePatch (registryEditFrom reg q n) (ir_spec reg)"
    and "pullSecretRefOrNil (pullSecretName (ir_pullSecretRef (ir_spec reg))) = ir_pullSecretRef (ir_spec reg)"
  shows "ir_provider spec' = ir_provider (ir_spec reg) \<and>
    ir_aws spec' = Some \<lparr>aws_region = given (gq_region q) (aws_region a), aws_registryID = given (gq_registryID q) (aws_registryID a), aws_roleARN = given (gq_roleARN q) (aws_roleARN a)\<rparr> \<and>
    (gq_imagePullSecret q = None \<longrightarrow> ir_pullSecretRef spec' = ir_pullSecretRef (ir_spec reg)) \<and>
    (gq_intervalSeconds q = None \<longrightarrow> sy_intervalSeconds (ir_sync spec') = sy_intervalSeconds (ir_sync (ir_spec reg))) \<and>
    (gq_include q = None \<longrightarrow> sy_include (ir_sync spec') = sy_include (ir_sync (ir_spec reg))) \<and>
    (gq_exclude q = None \<longrightarrow> sy_exclude (ir_sync spec') = sy_exclude (ir_sync (ir_spec reg))) \<and>
    (gq_tagMode q = None \<longrightarrow> ts_mode (sy_tags (ir_sync spec')) = ts_mode (sy_tags (ir_sync (ir_spec reg)))) \<and>
    (gq_tagPatterns q = None \<longrightarrow> ts_patterns (sy_tags (ir_sync spec')) = ts_patterns (sy_tags (ir_sync (ir_spec reg)))) \<and>
    (gq_tagLimit q = None \<longrightarrow> ts_limit (sy_tags (ir_sync spec')) = ts_limit (sy_tags (ir_sync (ir_spec reg)))) \<and>
    (gq_prune q = None \<longrightarrow> sy_prune (ir_sync spec') = sy_prune (ir_sync (ir_spec reg)))"
  using assms(1,3) by (simp add: assms(2) imageRegistryMergePatch_def registryEditFrom_def imageRegistrySyncFromRequest_def given_def Let_def)

text \<open>What is relied on of a patch: it applies to the stored spec, or fails and changes nothing.\<close>

definition patch_laws :: "'s catapi \<Rightarrow> ('s \<Rightarrow> (string \<rightharpoonup> workspaceimage)) \<Rightarrow> bool" where
  "patch_laws api imgs \<longleftrightarrow> (\<forall>tok n p s e s'. ca_patchImage api tok n p s = (e, s') \<longrightarrow>
     (if e = None then \<exists>img. imgs s n = Some img \<and> imgs s' = (imgs s)(n \<mapsto> img\<lparr>img_spec := p (img_spec img)\<rparr>) else imgs s' = imgs s))"

text \<open>
  A REST patch of a catalog entry blanks what it leaves out, unlike every other patch: a request that only renames an entry takes
  away its scheduled deprecation, its pull secret, its right to run as root, its description, icon and tags, and makes a
  deprecated entry available again.
\<close>

theorem image_patch_blanks_omitted:
  assumes "patch_laws api imgs" and "sv_forToken sv (rs_token session) = None"
    and "handleAPIPatchWorkspaceImage sv api r (Inr \<lparr>wq_name = '''', wq_image = '''', wq_displayName = d, wq_description = '''', wq_icon = '''', wq_tags = [], wq_deprecated = False\<rparr>) session st = (resp, st')"
    and "rs_page resp = NoPage"
  shows "\<exists>img img'. imgs (st_cluster st) (rq_path r ''name'') = Some img \<and> imgs (st_cluster st') (rq_path r ''name'') = Some img' \<and>
    img_displayName (img_spec img') = d \<and> img_image (img_spec img') = img_image (img_spec img) \<and>
    img_deprecateAt (img_spec img') = None \<and> img_pullSecretRef (img_spec img') = None \<and> \<not> img_allowRoot (img_spec img') \<and>
    img_description (img_spec img') = '''' \<and> img_icon (img_spec img') = '''' \<and> img_tags (img_spec img') = [] \<and> (\<forall>now. \<not> IsDeprecated img' now)"
proof -
  have t: "TrimSpace '''' = ''''" by code_simp
  obtain e s' where p: "ca_patchImage api (rs_token session) (rq_path r ''name'')
      (workspaceImagePatch \<lparr>ie_name = rq_path r ''name'', ie_image = '''', ie_displayName = d, ie_description = '''', ie_icon = '''', ie_tags = [],
        ie_deprecated = False, ie_deprecateAt = None, ie_allowRoot = False, ie_pullSecretRef = None\<rparr>) (st_cluster st) = (e, s')" by fastforce
  have "e = None \<and> st' = st\<lparr>st_cluster := s'\<rparr>"
    using assms(2-4) p by (auto simp: handleAPIPatchWorkspaceImage_def PatchWorkspaceImage_def onCluster_def t failWith_def respond_def split: option.splits)
  then show ?thesis using assms(1) [unfolded patch_laws_def, rule_format, OF p] by (auto simp: workspaceImagePatch_def IsDeprecated_def)
qed

lemma clientDo_last: "clientDo web n url = Inr answer \<Longrightarrow> \<exists>u. web_get web u = Inr answer"
  by (induction web n url rule: clientDo.induct) (auto simp: clientDo.simps split: sum.splits if_splits nat.splits)

text \<open>
  The icon proxy relays only what it should: to somebody who may use the image, an answer with an image type, cut to half a
  megabyte, for an icon whose own address is https with a host.
\<close>

theorem icon_proxy_safe:
  assumes "handleWorkspaceImageIcon sv api web name session s = Relayed contentType body"
  shows "sv_canI sv (rs_token session) ''use'' ''workspaceimages'' name s = Inr True \<and> HasPrefix contentType ''image/'' \<and> length body \<le> 524288 \<and>
    (\<exists>img host. ca_image api (rs_token session) name s = Inr img \<and> web_split web (TrimSpace (img_icon (img_spec img))) = Some (''https'', host) \<and> host \<noteq> '''')"
  using assms
  by (auto simp: handleWorkspaceImageIcon_def checkIconURL_def Let_def maxIconBytes_def split: option.splits sum.splits if_splits prod.splits)

text \<open>
  (C38) The check of the icon's address is not a check of the address that is fetched: when the icon's server answers with a redirect, to
  any address, the proxy fetches that address from inside the cluster and relays an image it finds there.
\<close>

theorem icon_redirect_forgery:
  assumes "sv_forToken sv (rs_token session) = None" and "sv_canI sv (rs_token session) ''use'' ''workspaceimages'' name s = Inr True"
    and "ca_image api (rs_token session) name s = Inr img" and "url = TrimSpace (img_icon (img_spec img))" and "url \<noteq> ''''"
    and "web_split web url = Some (''https'', host)" and "host \<noteq> ''''"
    and "web_get web url = Inr redirect" and "wb_status redirect = 302" and "wb_location redirect \<noteq> ''''"
    and "internal = web_resolve web url (wb_location redirect)" and "web_get web internal = Inr secret" and "wb_status secret = 200"
    and "HasPrefix (wb_contentType secret) ''image/''"
  shows "handleWorkspaceImageIcon sv api web name session s = Relayed (wb_contentType secret) (take maxIconBytes (wb_body secret)) \<and>
    checkIconURL web url = None"
proof -
  have "clientDo web 9 url = Inr secret"
    using assms(8-13) by (simp add: clientDo.simps [of web 9] clientDo.simps [of web 8])
  then show ?thesis using assms by (simp add: handleWorkspaceImageIcon_def checkIconURL_def Let_def)
qed

lemma usableByName_exact:
  "usableByName sv tok s imgs = Inr names \<Longrightarrow> n \<in> set names \<longleftrightarrow> n \<in> img_name ` set imgs \<and> sv_canI sv tok ''use'' ''workspaceimages'' n s = Inr True"
  by (induction imgs arbitrary: names) (auto split: sum.splits if_splits)

lemma usableImageNames_exact:
  assumes "usableImageNames sv tok imgs s = Inr usable" and "img \<in> set imgs"
    and "sv_canI sv tok ''use'' ''workspaceimages'' '''' s = Inr True \<Longrightarrow> sv_canI sv tok ''use'' ''workspaceimages'' (img_name img) s = Inr True"
  shows "usable (img_name img) \<longleftrightarrow> sv_canI sv tok ''use'' ''workspaceimages'' (img_name img) s = Inr True"
  using assms usableByName_exact [of sv tok s imgs _ "img_name img"]
  by (auto simp: usableImageNames_def split: sum.splits bool.splits)

lemma pg_items_subset: "set (pg_items (paginateWith sizes per raw items)) \<subseteq> set items"
  by (auto simp: paginateWith_def Let_def dest: in_set_takeD in_set_dropD)

text \<open>
  The catalog shows what its reader may use: an entry on a page is a stored one that the reader's own rights permit to use, however
  the question was asked, and a deprecated one only when deprecated ones were asked for. It asks once for everything, and one
  question per entry gives the same answer, as long as a right to every image covers each.
\<close>

theorem catalog_shows_usable:
  assumes "ca_images api (rs_token session) s = Inr imgs" and "handleCatalog sv api now r session s = Inr page"
    and "\<And>n. sv_canI sv (rs_token session) ''use'' ''workspaceimages'' '''' s = Inr True \<Longrightarrow> sv_canI sv (rs_token session) ''use'' ''workspaceimages'' n s = Inr True"
    and "img \<in> set (pg_items page)"
  shows "img \<in> set imgs \<and> sv_canI sv (rs_token session) ''use'' ''workspaceimages'' (img_name img) s = Inr True \<and>
    (IsDeprecated img now \<longrightarrow> rq_query r ''deprecated'' = ''1'')"
proof -
  obtain usable where u: "usableImageNames sv (rs_token session) imgs s = Inr usable"
    using assms(1,2) by (auto simp: handleCatalog_def split: option.splits sum.splits)
  then have "img \<in> set imgs" "usable (img_name img)"
    "catalogEntryVisible (sv_uc sv) img (TrimSpace (rq_query r ''q'')) (TrimSpace (rq_query r ''tag'')) (rq_query r ''deprecated'' = ''1'') now"
    using assms(1,2,4) pg_items_subset by (fastforce simp: handleCatalog_def split: option.splits)+
  then show ?thesis using usableImageNames_exact [OF u _ assms(3)] by (auto simp: catalogEntryVisible_def split: if_splits)
qed

text \<open>
  A WebP logo is never accepted, although the check of the type admits it and the message names it: the decoders that the process
  registers, for PNG and JPEG, do not read it.
\<close>

theorem webp_logo_refused:
  assumes "data = take (maxLogoBytes + 1) content" and "\<not> HasPrefix (il_sniff il data) ''image/png''" and "\<not> HasPrefix (il_sniff il data) ''image/jpeg''"
    and "HasPrefix (il_sniff il data) ''image/webp''" and "map fst (il_decoders il) = [''jpeg'', ''png'']"
    and "\<And>name decode. (name, decode) \<in> set (il_decoders il) \<Longrightarrow> decode data = None"
  shows "detectLogoType il data = ''image/webp'' \<and> (\<exists>message. readLogo il (Inr content) = Inl (ApiError 400 message))"
proof -
  have "List.map_filter (\<lambda>(name, decode). decode data) (il_decoders il) = []"
    using assms(6) by (fastforce simp: List.map_filter_def filter_empty_conv)
  then have "DecodeConfig il data = None" by (simp add: DecodeConfig_def)
  moreover have t: "detectLogoType il data = ''image/webp''" using assms(2-4) by (simp add: detectLogoType_def)
  ultimately show ?thesis using assms(1) by (cases "length content \<le> maxLogoBytes") (auto simp: readLogo_def Let_def)
qed

text \<open>What is relied on of writing the settings object.\<close>

definition settings_laws :: "'s settingsapi \<Rightarrow> bool" where
  "settings_laws api \<longleftrightarrow>
     (\<forall>tok p s s'. sa_patch api tok p s = (None, s') \<longrightarrow> (\<exists>c. sa_get api s = Inr c \<and> sa_get api s' = Inr (p c))) \<and>
     (\<forall>tok c s s'. sa_create api tok c s = (None, s') \<longrightarrow> sa_get api s' = Inr c)"

lemma PatchPlatformConfig_stores:
  assumes "settings_laws api" and "PatchPlatformConfig api tok u s = (None, s')"
  shows "\<exists>c. sa_get api s' = Inr c \<and> pc_displayName c = se_displayName u \<and> pc_defaultTheme c = se_defaultTheme u \<and>
    pc_supportEmail c = se_supportEmail u \<and> pc_gpuResourceName c = se_gpuResourceName u \<and> (se_logo u = None \<and> se_clearLogo u \<longrightarrow> pc_logo c = None)"
proof (cases "sa_patch api tok (platformPatch u) s")
  case (Pair e s1)
  show ?thesis
  proof (cases e)
    case None
    then have "sa_patch api tok (platformPatch u) s = (None, s')" using assms(2) Pair by (simp add: PatchPlatformConfig_def)
    then obtain c where "sa_get api s' = Inr (platformPatch u c)" using assms(1) unfolding settings_laws_def by blast
    then show ?thesis by (auto simp: platformPatch_def)
  next
    case (Some err)
    then obtain t where "sa_create api tok \<lparr>pc_displayName = se_displayName u, pc_logo = se_logo u, pc_defaultTheme = se_defaultTheme u,
            pc_gpuResourceName = se_gpuResourceName u, pc_supportEmail = se_supportEmail u\<rparr> t = (None, s')"
      using assms(2) Pair by (auto simp: PatchPlatformConfig_def split: if_splits)
    then have "sa_get api s' = Inr \<lparr>pc_displayName = se_displayName u, pc_logo = se_logo u, pc_defaultTheme = se_defaultTheme u,
            pc_gpuResourceName = se_gpuResourceName u, pc_supportEmail = se_supportEmail u\<rparr>" using assms(1) unfolding settings_laws_def by blast
    then show ?thesis by auto
  qed
qed

text \<open>
  A saved setting is what the next page shows: after an update that was answered without an error, the first read of the cached
  settings, whenever it happens and whatever was cached, has the submitted values; a logo goes when it was asked to.
\<close>

theorem settings_visible_at_once:
  assumes "settings_laws api" and "handleAdminUpdateSettings sv api il r upload session (st, cache) = (resp, st', cache')"
    and "rs_page resp = NoPage" and "rq_multipart r = Inr f"
  shows "\<exists>c. fst (platformConfig api now (st_cluster st') cache') = Some c \<and> pc_displayName c = TrimSpace (f ''displayName'') \<and>
    pc_defaultTheme c = TrimSpace (f ''defaultTheme'') \<and> pc_supportEmail c = TrimSpace (f ''supportEmail'') \<and>
    pc_gpuResourceName c = TrimSpace (f ''gpuResourceName'') \<and> (upload = None \<and> f ''clearLogo'' \<noteq> '''' \<longrightarrow> pc_logo c = None)"
proof -
  obtain logo where p: "PatchPlatformConfig api (rs_token session) (settingsOf f logo) (st_cluster st) = (None, st_cluster st')"
    "upload = None \<longrightarrow> logo = None" "cache' = invalidatePlatformConfig cache"
    using assms(2-4)
    by (auto simp: handleAdminUpdateSettings_def onCluster_def adminMessage_def failWith_def respond_def split: option.splits sum.splits prod.splits)
  from PatchPlatformConfig_stores [OF assms(1) p(1)] show ?thesis using p(2,3)
    by (auto simp: platformConfig_def invalidatePlatformConfig_def settingsOf_def Let_def)
qed

section \<open>Witnesses\<close>

definition demo_saved :: imageregistry where
  "demo_saved = \<lparr>ir_meta = meta0 '''' ''ecr'', ir_spec = \<lparr>ir_provider = ''aws-ecr'', ir_aws = Some \<lparr>aws_region = ''eu-west-1'', aws_registryID = '''', aws_roleARN = ''''\<rparr>,
     ir_sync = \<lparr>sy_intervalSeconds = 300, sy_include = [''team/*'', ''lab/*''], sy_exclude = [], sy_tags = \<lparr>ts_mode = ''newest'', ts_patterns = [''v*''], ts_limit = 3\<rparr>, sy_prune = True\<rparr>,
     ir_pullSecretRef = None\<rparr>, ir_status = \<lparr>irs_conditions = [], irs_observedGeneration = 0, irs_lastSyncTime = None, irs_images = 0\<rparr>\<rparr>"

text \<open>What a browser submits for a rendered form.\<close>

definition submitted :: "registryrow \<Rightarrow> string \<Rightarrow> string" where
  "submitted row n =
     (if n = ''intervalSeconds'' then FormatInt (rr_intervalSeconds row) else if n = ''tagLimit'' then FormatInt (rr_tagLimit row) else if n = ''tagMode'' then rr_tagMode row
      else if n = ''include'' then browserText (rr_include row) else if n = ''exclude'' then browserText (rr_exclude row)
      else if n = ''tagPatterns'' then browserText (rr_tagPatterns row) else if n = ''prune'' \<and> rr_prune row then ''on'' else '''')"

theorem registry_form_roundtrip_witness:
  "sy_include (syncFromForm (submitted (imageRegistryRow demo_saved))) = [''team/*'', ''lab/*''] \<and>
   syncFromForm (submitted (imageRegistryRow (demo_saved\<lparr>ir_spec := (ir_spec demo_saved)\<lparr>ir_sync := (ir_sync (ir_spec demo_saved))\<lparr>sy_include := ['' team/*'']\<rparr>\<rparr>\<rparr>)))
     \<noteq> (ir_sync (ir_spec demo_saved))\<lparr>sy_include := ['' team/*'']\<rparr>"
proof -
  let ?odd = "demo_saved\<lparr>ir_spec := (ir_spec demo_saved)\<lparr>ir_sync := (ir_sync (ir_spec demo_saved))\<lparr>sy_include := ['' team/*'']\<rparr>\<rparr>\<rparr>"
  have t: "TrimSpace ''team/*'' = ''team/*''" "TrimSpace ''lab/*'' = ''lab/*''" "TrimSpace ''v*'' = ''v*''" "TrimSpace ''newest'' = ''newest''"
    "TrimSpace '' team/*'' = ''team/*''" by code_simp+
  have "syncFromForm (submitted (imageRegistryRow reg)) = ir_sync (ir_spec reg) \<longleftrightarrow> formSync (ir_sync (ir_spec reg))" if "reg \<in> {demo_saved, ?odd}" for reg
    by (rule registry_form_roundtrip [OF refl refl, of _ "submitted (imageRegistryRow reg)"]) (use that in \<open>auto simp: submitted_def demo_saved_def\<close>)
  from this [of demo_saved] this [of ?odd] t show ?thesis
    by (simp add: formSync_def cleanLines_def) (simp add: demo_saved_def)
qed

definition demo_rename :: registryrequest where
  "demo_rename = \<lparr>gq_name = ''ecr'', gq_region = Some ''us-east-1'', gq_registryID = None, gq_roleARN = None, gq_intervalSeconds = None, gq_include = None,
     gq_exclude = None, gq_tagMode = None, gq_tagPatterns = None, gq_tagLimit = Some 9, gq_prune = None, gq_imagePullSecret = None\<rparr>"

theorem registry_patch_keeps_omitted_witness:
  "sy_include (ir_sync (imageRegistryMergePatch (registryEditFrom demo_saved demo_rename ''ecr'') (ir_spec demo_saved))) = [''team/*'', ''lab/*'']"
proof -
  have "ir_aws (ir_spec demo_saved) = Some \<lparr>aws_region = ''eu-west-1'', aws_registryID = '''', aws_roleARN = ''''\<rparr>" by (simp add: demo_saved_def)
  moreover have "TrimSpace '''' = ''''" by code_simp
  then have "pullSecretRefOrNil (pullSecretName (ir_pullSecretRef (ir_spec demo_saved))) = ir_pullSecretRef (ir_spec demo_saved)"
    by (simp add: demo_saved_def pullSecretRefOrNil_def pullSecretName_def)
  ultimately show ?thesis using registry_patch_keeps_omitted [OF _ refl, of demo_saved _ demo_rename "''ecr''"] by (simp add: demo_rename_def) (simp add: demo_saved_def)
qed

type_synonym cat_mem = "(string \<rightharpoonup> workspaceimage) \<times> platformconfig option"

text \<open>A store of images and settings whose lists show the entries called go and lab.\<close>

definition mem_cat :: "cat_mem catapi" where
  "mem_cat =
     \<lparr>ca_images = (\<lambda>_ s. Inr (List.map_filter (fst s) [''go'', ''lab''])),
      ca_image = (\<lambda>_ n s. case fst s n of None \<Rightarrow> Inl NotFound | Some i \<Rightarrow> Inr i),
      ca_createImage = (\<lambda>_ i s. if fst s (img_name i) \<noteq> None then (Some AlreadyExists, s) else (None, ((fst s)(img_name i \<mapsto> i), snd s))),
      ca_patchImage = (\<lambda>_ n p s. case fst s n of None \<Rightarrow> (Some NotFound, s) | Some i \<Rightarrow> (None, ((fst s)(n \<mapsto> i\<lparr>img_spec := p (img_spec i)\<rparr>), snd s))),
      ca_deleteImage = (\<lambda>_ n s. if fst s n = None then (Some NotFound, s) else (None, ((fst s)(n := None), snd s))),
      ca_registries = (\<lambda>_ _. Inr []), ca_registry = (\<lambda>_ _ _. Inl NotFound), ca_createRegistry = (\<lambda>_ _ s. (Some (ApiErr ''forbidden''), s)),
      ca_patchRegistry = (\<lambda>_ _ _ s. (Some NotFound, s)), ca_deleteRegistry = (\<lambda>_ _ s. (Some NotFound, s)), ca_annotateRegistry = (\<lambda>_ _ _ _ s. (Some NotFound, s))\<rparr>"

definition mem_settings :: "cat_mem settingsapi" where
  "mem_settings =
     \<lparr>sa_get = (\<lambda>s. case snd s of None \<Rightarrow> Inl NotFound | Some c \<Rightarrow> Inr c),
      sa_patch = (\<lambda>_ p s. case snd s of None \<Rightarrow> (Some NotFound, s) | Some c \<Rightarrow> (None, (fst s, Some (p c)))),
      sa_create = (\<lambda>_ c s. if snd s \<noteq> None then (Some AlreadyExists, s) else (None, (fst s, Some c)))\<rparr>"

lemma mem_cat_laws: "patch_laws mem_cat fst" "settings_laws mem_settings"
  by (auto simp: patch_laws_def settings_laws_def mem_cat_def mem_settings_def split: option.splits if_splits)

text \<open>Everybody may use the image called go, and nobody another.\<close>

definition demo_cat_server :: "(int, string, cat_mem) uiserver" where
  "demo_cat_server = \<lparr>sv_login = (\<lambda>_. demo_env), sv_providers = [], sv_basePath = '''', sv_sessionTTL = 100, sv_cookieSecure = True,
     sv_support = '''', sv_apiTokens = None, sv_tokenMinter = None, sv_localUsers = None,
     sv_passwordResets = None, sv_lib = demo_authlib, sv_uc = demo_uc, sv_code = (\<lambda>_. 403), sv_forToken = (\<lambda>_. None),
     sv_listUserSpaces = (\<lambda>_ _. Inr [demo_us]), sv_canI = (\<lambda>_ verb _ name _. Inr (verb \<noteq> ''use'' \<or> name = ''go'')), sv_profileReads = (\<lambda>_ _. None),
     sv_patchMembership = (\<lambda>_ _ s. (None, s))\<rparr>"

definition demo_go :: workspaceimage where
  "demo_go = \<lparr>img_meta = meta0 '''' ''go'', img_spec = emptyImageSpec\<lparr>img_image := ''go:1'', img_icon := ''https://i'', img_deprecateAt := Some 50, img_allowRoot := True\<rparr>\<rparr>"

definition demo_cat_state :: "cat_mem svstate" where
  "demo_cat_state = \<lparr>st_ui = demo_signed, st_cluster = ([''go'' \<mapsto> demo_go, ''lab'' \<mapsto> demo_go\<lparr>img_meta := meta0 '''' ''lab''\<rparr>], None)\<rparr>"

definition demo_get :: httpreq where
  "demo_get = demo_req ''GET'' Map.empty (\<lambda>_. '''') (\<lambda>_. '''')\<lparr>rq_path := (\<lambda>_. ''go'')\<rparr>"

theorem image_patch_blanks_omitted_witness:
  "\<exists>img. fst (st_cluster (snd (handleAPIPatchWorkspaceImage demo_cat_server mem_cat demo_get
       (Inr \<lparr>wq_name = '''', wq_image = '''', wq_displayName = ''Go 1'', wq_description = '''', wq_icon = '''', wq_tags = [], wq_deprecated = False\<rparr>) demo_owner demo_cat_state))) ''go'' = Some img \<and>
     \<not> img_allowRoot (img_spec img) \<and> img_deprecateAt (img_spec img) = None"
proof -
  let ?q = "\<lparr>wq_name = '''', wq_image = '''', wq_displayName = ''Go 1'', wq_description = '''', wq_icon = '''', wq_tags = [], wq_deprecated = False\<rparr>"
  obtain resp st' where run: "handleAPIPatchWorkspaceImage demo_cat_server mem_cat demo_get (Inr ?q) demo_owner demo_cat_state = (resp, st')" by fastforce
  have f: "sv_forToken demo_cat_server (rs_token demo_owner) = None" by (simp add: demo_cat_server_def)
  have n: "rq_path demo_get ''name'' = ''go''" by (simp add: demo_get_def)
  have "rs_page resp = NoPage"
    using run by (auto simp: handleAPIPatchWorkspaceImage_def PatchWorkspaceImage_def onCluster_def f n mem_cat_def demo_cat_state_def respond_def)
  from image_patch_blanks_omitted [OF mem_cat_laws(1) f run this] show ?thesis by (auto simp: run n)
qed

definition demo_web :: web where
  "demo_web = \<lparr>web_split = (\<lambda>u. if u = ''https://i'' then Some (''https'', ''i'') else Some (''http'', ''10.0.0.1'')), web_resolve = (\<lambda>_ location. location),
     web_get = (\<lambda>u. if u = ''https://i'' then Inr \<lparr>wb_status = 302, wb_statusText = ''Found'', wb_location = ''http://10.0.0.1'', wb_contentType = '''', wb_body = ''''\<rparr>
       else Inr \<lparr>wb_status = 200, wb_statusText = ''OK'', wb_location = '''', wb_contentType = ''image/png'', wb_body = ''secret''\<rparr>)\<rparr>"

lemma demo_cat_reads: "sv_forToken demo_cat_server tok = None" "sv_canI demo_cat_server tok ''use'' ''workspaceimages'' ''go'' s = Inr True"
  "ca_image mem_cat tok ''go'' (st_cluster demo_cat_state) = Inr demo_go" "TrimSpace (img_icon (img_spec demo_go)) = ''https://i''"
proof -
  have "TrimSpace ''https://i'' = ''https://i''" by code_simp
  then show "TrimSpace (img_icon (img_spec demo_go)) = ''https://i''" by (simp add: demo_go_def)
qed (simp_all add: demo_cat_server_def mem_cat_def demo_cat_state_def)

theorem icon_redirect_forgery_witness:
  "handleWorkspaceImageIcon demo_cat_server mem_cat demo_web ''go'' demo_owner (st_cluster demo_cat_state) = Relayed ''image/png'' ''secret''"
proof -
  let ?redirect = "\<lparr>wb_status = 302, wb_statusText = ''Found'', wb_location = ''http://10.0.0.1'', wb_contentType = '''', wb_body = ''''\<rparr>"
  let ?secret = "\<lparr>wb_status = 200, wb_statusText = ''OK'', wb_location = '''', wb_contentType = ''image/png'', wb_body = ''secret''\<rparr>"
  have "web_split demo_web ''https://i'' = Some (''https'', ''i'')" "web_get demo_web ''https://i'' = Inr ?redirect"
    "''http://10.0.0.1'' = web_resolve demo_web ''https://i'' (wb_location ?redirect)" "web_get demo_web ''http://10.0.0.1'' = Inr ?secret"
    by (simp_all add: demo_web_def)
  from icon_redirect_forgery [OF demo_cat_reads(1,2,3) demo_cat_reads(4) [symmetric] _ this(1) _ this(2) _ _ this(3,4)]
  show ?thesis by (simp add: HasPrefix_def maxIconBytes_def)
qed

theorem icon_proxy_safe_witness: "sv_canI demo_cat_server (rs_token demo_owner) ''use'' ''workspaceimages'' ''go'' (st_cluster demo_cat_state) = Inr True"
proof -
  let ?icon = "\<lparr>wb_status = 200, wb_statusText = ''OK'', wb_location = '''', wb_contentType = ''image/png'', wb_body = ''icon''\<rparr>"
  let ?web = "demo_web\<lparr>web_get := (\<lambda>_. Inr ?icon)\<rparr>"
  have "web_split ?web ''https://i'' = Some (''https'', ''i'')" "clientDo ?web 9 ''https://i'' = Inr ?icon"
    by (simp_all add: demo_web_def clientDo.simps)
  then have "handleWorkspaceImageIcon demo_cat_server mem_cat ?web ''go'' demo_owner (st_cluster demo_cat_state) = Relayed ''image/png'' (take maxIconBytes ''icon'')"
    by (simp add: handleWorkspaceImageIcon_def demo_cat_reads checkIconURL_def HasPrefix_def Let_def)
  from icon_proxy_safe [OF this] show ?thesis by simp
qed

theorem catalog_shows_usable_witness:
  "\<exists>page. handleCatalog demo_cat_server mem_cat 10 demo_get demo_owner (st_cluster demo_cat_state) = Inr page \<and> img_name ` set (pg_items page) \<subseteq> {''go''}"
proof -
  let ?lab = "demo_go\<lparr>img_meta := meta0 '''' ''lab''\<rparr>"
  have l: "ca_images mem_cat (rs_token demo_owner) (st_cluster demo_cat_state) = Inr [demo_go, ?lab]"
    by (simp add: mem_cat_def demo_cat_state_def List.map_filter_def)
  obtain page where page: "handleCatalog demo_cat_server mem_cat 10 demo_get demo_owner (st_cluster demo_cat_state) = Inr page"
    by (simp add: handleCatalog_def l demo_cat_reads usableImageNames_def) (simp add: demo_cat_server_def)
  have "img_name img = ''go''" if "img \<in> set (pg_items page)" for img
    using catalog_shows_usable [OF l page _ that] by (auto simp: demo_cat_server_def)
  with page show ?thesis by blast
qed

text \<open>A content sniffer that finds WebP, and decoders for PNG and JPEG, which do not read it.\<close>

definition demo_images :: imagelib where
  "demo_images = \<lparr>il_sniff = (\<lambda>_. ''image/webp''), il_decoders = [(''jpeg'', \<lambda>_. None), (''png'', \<lambda>_. None)]\<rparr>"

theorem webp_logo_refused_witness: "\<exists>message. readLogo demo_images (Inr ''RIFF'') = Inl (ApiError 400 message)"
  using webp_logo_refused [OF refl, of demo_images "''RIFF''"] by (auto simp: demo_images_def HasPrefix_def)

definition demo_settings_form :: httpreq where
  "demo_settings_form = demo_get\<lparr>rq_multipart := Inr (\<lambda>n. if n = ''displayName'' then ''Lab'' else '''')\<rparr>"

theorem settings_visible_at_once_witness:
  "\<exists>st' cache' resp. handleAdminUpdateSettings demo_cat_server mem_settings demo_images demo_settings_form None demo_owner
      (demo_cat_state, \<lparr>ch_config = None, ch_fetched = Some 9\<rparr>) = (resp, st', cache') \<and>
     (\<exists>c. fst (platformConfig mem_settings 10 (st_cluster st') cache') = Some c \<and> pc_displayName c = ''Lab'')"
proof -
  let ?f = "\<lambda>n. if n = ''displayName'' then ''Lab'' else ''''"
  obtain resp st' cache' where run: "handleAdminUpdateSettings demo_cat_server mem_settings demo_images demo_settings_form None demo_owner
      (demo_cat_state, \<lparr>ch_config = None, ch_fetched = Some 9\<rparr>) = (resp, st', cache')" by (cases rule: prod_cases3)
  have f: "rq_multipart demo_settings_form = Inr ?f" by (simp add: demo_settings_form_def)
  have t: "TrimSpace ''Lab'' = ''Lab''" by code_simp
  have "requireUserSpaceAdmin demo_cat_server demo_owner (st_cluster demo_cat_state) = None"
    by (simp add: requireUserSpaceAdmin_def demo_cat_server_def)
  then have "rs_page resp = NoPage"
    using run by (auto simp: handleAdminUpdateSettings_def f onCluster_def PatchPlatformConfig_def mem_settings_def demo_cat_state_def redirectTo_def)
  from settings_visible_at_once [OF mem_cat_laws(2) run this f] run show ?thesis by (auto simp: t)
qed

end
