(* ===== verification/UiPeople.thy ===== *)
theory UiPeople
  imports UiAccounts UiForms "HOL-Library.Product_Lexorder"
begin

text \<open>
  The handlers that act on people: creating and removing a UserSpace and the local logins of its owner, and its quota
  (\<^verbatim>\<open>src/internal/ui/admin_userspaces.go\<close>, the UserSpace routes of \<^verbatim>\<open>api_resources.go\<close>), the screens that join the two
  (\<^verbatim>\<open>admin_people.go\<close>, \<^verbatim>\<open>admin_overview.go\<close>), one's own public keys (\<^verbatim>\<open>profile_keys.go\<close>) and the end of the walkthrough
  (\<^verbatim>\<open>onboarding.go\<close>), with the client methods of \<^verbatim>\<open>k8s.go\<close> they use.
\<close>

section \<open>The client (k8s.go)\<close>

text \<open>The client under a token; a merge patch is given as the function on the stored spec that it stands for.\<close>

record ('q, 's) usapi =
  ua_get :: "string \<Rightarrow> string \<Rightarrow> 's \<Rightarrow> apierr + 'q userspace"
  ua_create :: "string \<Rightarrow> 'q userspace \<Rightarrow> 's \<Rightarrow> apierr option \<times> 's"
  ua_delete :: "string \<Rightarrow> string \<Rightarrow> 's \<Rightarrow> apierr option \<times> 's"
  ua_patch :: "string \<Rightarrow> string \<Rightarrow> ('q userspace_spec \<Rightarrow> 'q userspace_spec) \<Rightarrow> 's \<Rightarrow> apierr option \<times> 's"

text \<open>The body of the quota patch is the quota as JSON: a GPU count of zero is left out of it, so the merge keeps the stored one.\<close>

definition quotaMerge :: "'q userspace_quota \<Rightarrow> 'q userspace_spec \<Rightarrow> 'q userspace_spec" where
  "quotaMerge quota spec = spec\<lparr>us_quota := (if q_gpu quota = 0 then quota\<lparr>q_gpu := q_gpu (us_quota spec)\<rparr> else quota)\<rparr>"

definition PatchUserSpaceQuota :: "('q, 's) usapi \<Rightarrow> string \<Rightarrow> string \<Rightarrow> 'q userspace_quota \<Rightarrow> 's \<Rightarrow> apierr option \<times> 's" where
  "PatchUserSpaceQuota api tok name quota = ua_patch api tok name (quotaMerge quota)"

definition PatchUserSpaceKeys :: "('q, 's) usapi \<Rightarrow> string \<Rightarrow> string \<Rightarrow> string list \<Rightarrow> 's \<Rightarrow> apierr option \<times> 's" where
  "PatchUserSpaceKeys api tok name keys = ua_patch api tok name (us_keys_update (\<lambda>_. keys))"

definition PatchUserSpaceOnboardingCompleted :: "('q, 's) usapi \<Rightarrow> string \<Rightarrow> gotime \<Rightarrow> string \<Rightarrow> 's \<Rightarrow> apierr option \<times> 's" where
  "PatchUserSpaceOnboardingCompleted api tok now name = ua_patch api tok name (us_onboarding_update (\<lambda>_. Some now))"

section \<open>Creating and removing people (admin_userspaces.go)\<close>

definition emptyUserSpaceStatus :: userspace_status where
  "emptyUserSpaceStatus = \<lparr>ust_namespace = '''', ust_state = '''', ust_observedGeneration = 0, ust_conditions = []\<rparr>"

definition userSpaceFromForm :: "'q quantlib \<Rightarrow> (string \<Rightarrow> string) \<Rightarrow> uierr + 'q userspace" where
  "userSpaceFromForm ql f =
     (let name = TrimSpace (f ''name''); owner = TrimSpace (f ''owner''); networkPolicy = TrimSpace (f ''networkPolicy'') in
      if name = '''' \<or> owner = '''' then Inl (ApiError 400 ''name and owner are both required'')
      else case quotaFromForm ql f of
        Inl err \<Rightarrow> Inl err
      | Inr quota \<Rightarrow> Inr \<lparr>us_meta = meta0 '''' name,
          us_spec = \<lparr>us_owner = owner, us_username = TrimSpace (f ''username''), us_email = TrimSpace (f ''email''),
            us_namespace = TrimSpace (f ''namespace''), us_keys = [], us_quota = quota,
            us_networkPolicy = (if networkPolicy \<noteq> ''ClusterEgress'' then ''Isolated'' else networkPolicy),
            us_role = roleOrDefault (TrimSpace (f ''role'')), us_disabled = False, us_onboarding = None\<rparr>,
          us_status = emptyUserSpaceStatus\<rparr>)"


fun deleteLogins :: "'s sec_client \<Rightarrow> localuser list \<Rightarrow> 's \<Rightarrow> lusererr option \<times> 's" where
  "deleteLogins cl [] s = (None, s)"
| "deleteLogins cl (login # logins) s =
     (case lu_Delete cl (lu_secretName login) s of
        (Some err, s') \<Rightarrow> (Some err, s')
      | (None, s') \<Rightarrow> deleteLogins cl logins s')"

definition deleteLoginsFor :: "('q, 'tok, 's) uiserver \<Rightarrow> string \<Rightarrow> 's \<Rightarrow> lusererr option \<times> 's" where
  "deleteLoginsFor sv owner s =
     (case sv_localUsers sv of
        None \<Rightarrow> (None, s)
      | Some cl \<Rightarrow>
          if owner = '''' then (None, s)
          else case FindByOwner cl owner s of
            Inl err \<Rightarrow> (Some err, s)
          | Inr logins \<Rightarrow> deleteLogins cl logins s)"

definition handleAdminDeleteUserSpace ::
    "('q, 'tok, 's) uiserver \<Rightarrow> ('q, 's) usapi \<Rightarrow> httpreq \<Rightarrow> reqsession \<Rightarrow> 's svstate \<Rightarrow> response \<times> 's svstate" where
  "handleAdminDeleteUserSpace sv api r session st =
     (case sv_forToken sv (rs_token session) of
        Some err \<Rightarrow> (failWith sv (OtherErr err), st)
      | None \<Rightarrow>
          (let name = rq_path r ''name'';
               owner = (case ua_get api (rs_token session) name (st_cluster st) of Inl _ \<Rightarrow> '''' | Inr us \<Rightarrow> us_owner (us_spec us)) in
           case onCluster (ua_delete api (rs_token session) name) st of
             (Some err, st1) \<Rightarrow> (failWith sv (KubeErr err), st1)
           | (None, st1) \<Rightarrow>
               (case onCluster (deleteLoginsFor sv owner) st1 of
                  (Some err, st2) \<Rightarrow> (renderPeople sv session (NoteErr (UserErr err)) (st_cluster st2), st2)
                | (None, st2) \<Rightarrow> (redirectTo 302 (sv_path sv ''/admin/users''), st2))))"

definition handleAdminUpdateQuota ::
    "('q, 'tok, 's) uiserver \<Rightarrow> 'q quantlib \<Rightarrow> ('q, 's) usapi \<Rightarrow> httpreq \<Rightarrow> reqsession \<Rightarrow> 's svstate \<Rightarrow> response \<times> 's svstate" where
  "handleAdminUpdateQuota sv ql api r session st =
     (case sv_forToken sv (rs_token session) of
        Some err \<Rightarrow> (failWith sv (OtherErr err), st)
      | None \<Rightarrow>
          (case rq_form r of
             Inl _ \<Rightarrow> (failWith sv (ApiError 400 ''invalid form''), st)
           | Inr f \<Rightarrow>
               (case quotaFromForm ql f of
                  Inl err \<Rightarrow> (failWith sv err, st)
                | Inr quota \<Rightarrow>
                    (case onCluster (PatchUserSpaceQuota api (rs_token session) (rq_path r ''name'') quota) st of
                       (Some err, st1) \<Rightarrow> (failWith sv (KubeErr err), st1)
                     | (None, st1) \<Rightarrow> (redirectTo 302 (sv_path sv (''/admin/quota?done='' @ QueryEscape ''quota'')), st1)))))"

section \<open>The same by the API (api_resources.go)\<close>

record userspacerequest =
  uq_name :: string
  uq_owner :: string
  uq_role :: string

text \<open>The zero \<^verbatim>\<open>Quantity\<close> is zero.\<close>

definition zeroQuota :: "('q :: zero) userspace_quota" where
  "zeroQuota = \<lparr>q_cpu = 0, q_memory = 0, q_storage = 0, q_gpu = 0, q_workspaces = 0\<rparr>"

definition handleAPICreateUserSpace ::
    "('q :: zero, 'tok, 's) uiserver \<Rightarrow> ('q, 's) usapi \<Rightarrow> string + userspacerequest \<Rightarrow> reqsession \<Rightarrow> 's svstate \<Rightarrow> response \<times> 's svstate" where
  "handleAPICreateUserSpace sv api body session st =
     (case sv_forToken sv (rs_token session) of
        Some err \<Rightarrow> (failWith sv (OtherErr err), st)
      | None \<Rightarrow>
          (case body of
             Inl err \<Rightarrow> (failWith sv (ApiError 400 err), st)
           | Inr q \<Rightarrow>
               if TrimSpace (uq_name q) = '''' \<or> TrimSpace (uq_owner q) = '''' then (failWith sv (ApiError 400 ''name and owner are required''), st)
               else
                 (case onCluster (ua_create api (rs_token session) \<lparr>us_meta = meta0 '''' (TrimSpace (uq_name q)),
                        us_spec = \<lparr>us_owner = TrimSpace (uq_owner q), us_username = '''', us_email = '''', us_namespace = '''', us_keys = [], us_quota = zeroQuota,
                          us_networkPolicy = '''', us_role = TrimSpace (uq_role q), us_disabled = False, us_onboarding = None\<rparr>,
                        us_status = emptyUserSpaceStatus\<rparr>) st of
                    (Some err, st1) \<Rightarrow> (failWith sv (KubeErr err), st1)
                  | (None, st1) \<Rightarrow> (respond 201 NoPage, st1))))"

definition handleAPIDeleteUserSpace ::
    "('q, 'tok, 's) uiserver \<Rightarrow> ('q, 's) usapi \<Rightarrow> httpreq \<Rightarrow> reqsession \<Rightarrow> 's svstate \<Rightarrow> response \<times> 's svstate" where
  "handleAPIDeleteUserSpace sv api r session st =
     (case sv_forToken sv (rs_token session) of
        Some err \<Rightarrow> (failWith sv (OtherErr err), st)
      | None \<Rightarrow>
          (case onCluster (ua_delete api (rs_token session) (rq_path r ''name'')) st of
             (Some err, st1) \<Rightarrow> (failWith sv (KubeErr err), st1)
           | (None, st1) \<Rightarrow> (respond 204 NoPage, st1)))"

record quotarequest =
  qq_workspaces :: "int option"
  qq_cpu :: "string option"
  qq_memory :: "string option"
  qq_storage :: "string option"
  qq_gpu :: "int option"

definition applyQuantity :: "'q quantlib \<Rightarrow> string option \<Rightarrow> 'q \<Rightarrow> string \<Rightarrow> uierr + 'q" where
  "applyQuantity ql raw target field =
     (case raw of
        None \<Rightarrow> Inr target
      | Some text0 \<Rightarrow> (case ql_parse ql (TrimSpace text0) of Inl err \<Rightarrow> Inl (ApiError 400 (field @ '': '' @ err)) | Inr q \<Rightarrow> Inr q))"

definition quotaFromRequest :: "'q quantlib \<Rightarrow> quotarequest \<Rightarrow> 'q userspace_quota \<Rightarrow> uierr + 'q userspace_quota" where
  "quotaFromRequest ql q quota =
     (case applyQuantity ql (qq_cpu q) (q_cpu quota) ''cpu'' of
        Inl err \<Rightarrow> Inl err
      | Inr cpu \<Rightarrow>
          (case applyQuantity ql (qq_memory q) (q_memory quota) ''memory'' of
             Inl err \<Rightarrow> Inl err
           | Inr memory \<Rightarrow>
               (case applyQuantity ql (qq_storage q) (q_storage quota) ''storage'' of
                  Inl err \<Rightarrow> Inl err
                | Inr storage \<Rightarrow> Inr \<lparr>q_cpu = cpu, q_memory = memory, q_storage = storage,
                    q_gpu = (case qq_gpu q of None \<Rightarrow> q_gpu quota | Some n \<Rightarrow> n),
                    q_workspaces = (case qq_workspaces q of None \<Rightarrow> q_workspaces quota | Some n \<Rightarrow> n)\<rparr>)))"

definition handleAPIPatchQuota ::
    "('q, 'tok, 's) uiserver \<Rightarrow> 'q quantlib \<Rightarrow> ('q, 's) usapi \<Rightarrow> httpreq \<Rightarrow> string + quotarequest \<Rightarrow> reqsession \<Rightarrow> 's svstate \<Rightarrow> response \<times> 's svstate" where
  "handleAPIPatchQuota sv ql api r body session st =
     (case sv_forToken sv (rs_token session) of
        Some err \<Rightarrow> (failWith sv (OtherErr err), st)
      | None \<Rightarrow>
          (case body of
             Inl err \<Rightarrow> (failWith sv (ApiError 400 err), st)
           | Inr q \<Rightarrow>
               (case ua_get api (rs_token session) (rq_path r ''name'') (st_cluster st) of
                  Inl err \<Rightarrow> (failWith sv (KubeErr err), st)
                | Inr us \<Rightarrow>
                    (case quotaFromRequest ql q (us_quota (us_spec us)) of
                       Inl err \<Rightarrow> (failWith sv err, st)
                     | Inr quota \<Rightarrow>
                         (case onCluster (PatchUserSpaceQuota api (rs_token session) (rq_path r ''name'') quota) st of
                            (Some err, st1) \<Rightarrow> (failWith sv (KubeErr err), st1)
                          | (None, st1) \<Rightarrow> (respond 200 NoPage, st1))))))"

section \<open>The people screen (admin_people.go, admin_overview.go)\<close>

text \<open>\<^verbatim>\<open>metadata.uid\<close>, which the API server assigns, is left out of the row.\<close>

record 'q personrow =
  pr_userSpace :: string
  pr_owner :: string
  pr_username :: string
  pr_email :: string
  pr_namespace :: string
  pr_state :: string
  pr_role :: string
  pr_disabled :: bool
  pr_quota :: "'q userspace_quota"
  pr_logins :: "localuser list"
  pr_hasUserSpace :: bool

definition personRow :: "'q userspace \<Rightarrow> localuser list \<Rightarrow> 'q personrow" where
  "personRow us logins =
     \<lparr>pr_userSpace = us_name us, pr_owner = us_owner (us_spec us), pr_username = LoginName us, pr_email = ContactEmail us,
      pr_namespace = ust_namespace (us_status us), pr_state = ust_state (us_status us), pr_role = EffectiveRole (us_spec us),
      pr_disabled = us_disabled (us_spec us), pr_quota = us_quota (us_spec us), pr_logins = logins, pr_hasUserSpace = True\<rparr>"

definition orphanRow :: "string \<Rightarrow> localuser list \<Rightarrow> ('q :: zero) personrow" where
  "orphanRow owner logins =
     \<lparr>pr_userSpace = '''', pr_owner = owner, pr_username = '''', pr_email = '''', pr_namespace = '''', pr_state = '''', pr_role = '''',
      pr_disabled = False, pr_quota = zeroQuota, pr_logins = logins, pr_hasUserSpace = False\<rparr>"

text \<open>The loop over the UserSpaces takes the logins of each owner out of the map, of which \<open>left\<close> has the rest.\<close>

fun joinRows :: "'q userspace list \<Rightarrow> localuser list \<Rightarrow> 'q personrow list \<times> localuser list" where
  "joinRows [] left = ([], left)"
| "joinRows (us # uss) left =
     (let owner = us_owner (us_spec us); (rows, left') = joinRows uss (filter (\<lambda>u. lu_owner u \<noteq> owner) left)
      in (personRow us (filter (\<lambda>u. lu_owner u = owner) left) # rows, left'))"

text \<open>The owners that are left come in the order of the map, which is unspecified; sorting removes it.\<close>

definition peopleRows :: "('q :: zero) userspace list \<Rightarrow> localuser list \<Rightarrow> 'q personrow list" where
  "peopleRows userSpaces localUsers =
     (let (rows, left) = joinRows userSpaces localUsers
      in sort_key (\<lambda>row. (pr_owner row, pr_userSpace row))
           (rows @ map (\<lambda>owner. orphanRow owner (filter (\<lambda>u. lu_owner u = owner) left)) (remdups (map lu_owner left))))"

record usersummary =
  ou_name :: string
  ou_owner :: string
  ou_role :: string
  ou_namespace :: string
  ou_workspaces :: nat
  ou_disabled :: bool

record overview =
  ov_users :: nat
  ov_workspaces :: nat
  ov_running :: nat
  ov_userList :: "usersummary list"

definition overviewData :: "'q userspace list \<Rightarrow> 'q workspace list \<Rightarrow> overview" where
  "overviewData userSpaces wss =
     \<lparr>ov_users = length userSpaces, ov_workspaces = length wss, ov_running = length (filter (\<lambda>w. ws_running (ws_spec w)) wss),
      ov_userList = map (\<lambda>us. \<lparr>ou_name = us_name us, ou_owner = us_owner (us_spec us), ou_role = us_role (us_spec us),
        ou_namespace = ust_namespace (us_status us), ou_workspaces = length (filter (\<lambda>w. ws_ns w = ust_namespace (us_status us)) wss),
        ou_disabled = us_disabled (us_spec us)\<rparr>) userSpaces\<rparr>"

section \<open>One's own keys (profile_keys.go)\<close>

text \<open>\<^verbatim>\<open>ssh.ParseAuthorizedKey\<close> cut to type, comment and fingerprint.\<close>

type_synonym keyparser = "string \<Rightarrow> (string \<times> string \<times> string) option"

record keyrow =
  kr_type :: string
  kr_comment :: string
  kr_fingerprint :: string
  kr_value :: string

definition keyRows :: "keyparser \<Rightarrow> string list \<Rightarrow> keyrow list" where
  "keyRows parse keys = map (\<lambda>key. case parse key of
     None \<Rightarrow> \<lparr>kr_type = ''unrecognised'', kr_comment = '''', kr_fingerprint = '''', kr_value = key\<rparr>
   | Some (t, comment, fp) \<Rightarrow> \<lparr>kr_type = t, kr_comment = comment, kr_fingerprint = fp, kr_value = key\<rparr>) keys"

text \<open>A notice, unlike an error, does not make the status 400.\<close>

definition renderNotice :: "('q, 'tok, 's) uiserver \<Rightarrow> reqsession \<Rightarrow> string \<Rightarrow> 's \<Rightarrow> response" where
  "renderNotice sv session notice s =
     (case sv_profileReads sv session s of
        Some err \<Rightarrow> failWith sv err
      | None \<Rightarrow> respond 200 (ProfilePage (NoteText notice) ''''))"

definition handleProfileAddKey ::
    "('q, 'tok, 's) uiserver \<Rightarrow> ('q, 's) usapi \<Rightarrow> keyparser \<Rightarrow> httpreq \<Rightarrow> reqsession \<Rightarrow> 's svstate \<Rightarrow> response \<times> 's svstate" where
  "handleProfileAddKey sv api parse r session st =
     (case sv_forToken sv (rs_token session) of
        Some err \<Rightarrow> (failWith sv (OtherErr err), st)
      | None \<Rightarrow>
          (case rq_form r of
             Inl _ \<Rightarrow> (failWith sv (ApiError 400 ''invalid form''), st)
           | Inr f \<Rightarrow>
               (let key = TrimSpace (f ''key'') in
                if key = '''' then (renderProfileWith sv session (NoteText ''Paste a public key first.'') '''' (st_cluster st), st)
                else if parse key = None
                then (renderProfileWith sv session (NoteText ''That does not look like an OpenSSH public key. Paste the contents of a .pub file.'') '''' (st_cluster st), st)
                else case ua_get api (rs_token session) (si_userSpaceName (rs_identity session)) (st_cluster st) of
                  Inl err \<Rightarrow> (failWith sv (KubeErr err), st)
                | Inr us \<Rightarrow>
                    if key \<in> set (us_keys (us_spec us)) then (renderNotice sv session ''That key is already on your profile.'' (st_cluster st), st)
                    else
                      (case onCluster (PatchUserSpaceKeys api (rs_token session) (us_name us) (us_keys (us_spec us) @ [key])) st of
                         (Some err, st1) \<Rightarrow> (renderProfileWith sv session (NoteErr (KubeErr err)) '''' (st_cluster st1), st1)
                       | (None, st1) \<Rightarrow> (redirectToProfileTab sv ''keys'' ''key-added'', st1)))))"

definition handleProfileRemoveKey ::
    "('q, 'tok, 's) uiserver \<Rightarrow> ('q, 's) usapi \<Rightarrow> httpreq \<Rightarrow> reqsession \<Rightarrow> 's svstate \<Rightarrow> response \<times> 's svstate" where
  "handleProfileRemoveKey sv api r session st =
     (case sv_forToken sv (rs_token session) of
        Some err \<Rightarrow> (failWith sv (OtherErr err), st)
      | None \<Rightarrow>
          (case rq_form r of
             Inl _ \<Rightarrow> (failWith sv (ApiError 400 ''invalid form''), st)
           | Inr f \<Rightarrow>
               (let target = TrimSpace (f ''key'') in
                case ua_get api (rs_token session) (si_userSpaceName (rs_identity session)) (st_cluster st) of
                  Inl err \<Rightarrow> (failWith sv (KubeErr err), st)
                | Inr us \<Rightarrow>
                    (let keys = filter (\<lambda>key. TrimSpace key \<noteq> target) (us_keys (us_spec us)) in
                     if length keys = length (us_keys (us_spec us)) then (redirectToProfileTab sv ''keys'' ''key-removed'', st)
                     else case onCluster (PatchUserSpaceKeys api (rs_token session) (us_name us) keys) st of
                       (Some err, st1) \<Rightarrow> (renderProfileWith sv session (NoteErr (KubeErr err)) '''' (st_cluster st1), st1)
                     | (None, st1) \<Rightarrow> (redirectToProfileTab sv ''keys'' ''key-removed'', st1)))))"

section \<open>The end of the walkthrough (onboarding.go)\<close>

definition handleOnboardingComplete ::
    "('q, 'tok, 's) uiserver \<Rightarrow> ('q, 's) usapi \<Rightarrow> reqrandom \<Rightarrow> reqsession \<Rightarrow> 's svstate \<Rightarrow> response \<times> 's svstate" where
  "handleOnboardingComplete sv api rn session st =
     (case sv_forToken sv (rs_token session) of
        Some err \<Rightarrow> (failWith sv (OtherErr err), st)
      | None \<Rightarrow>
          (case onCluster (PatchUserSpaceOnboardingCompleted api (rs_token session) (rn_now rn) (si_userSpaceName (rs_identity session))) st of
             (Some err, st1) \<Rightarrow> (failWith sv (KubeErr err), st1)
           | (None, st1) \<Rightarrow> (redirectTo 303 (sv_path sv ''/''), st1\<lparr>st_ui := MarkOnboardingCompleted (rs_sessionID session) (st_ui st1)\<rparr>)))"

section \<open>Lemmas: the people screen\<close>

lemma mset_concat_cong: "mset xss = mset yss \<Longrightarrow> mset (concat xss) = mset (concat yss)"
  by (metis mset_concat mset_map sum_mset_sum_list)

lemma joinRows_left: "snd (joinRows uss left) = filter (\<lambda>u. lu_owner u \<notin> (us_owner \<circ> us_spec) ` set uss) left"
  by (induction uss left rule: joinRows.induct) (auto simp: Let_def split_def intro!: filter_cong)

lemma mset_filter_split: "mset (filter P xs) + mset (filter (\<lambda>x. \<not> P x) xs) = mset xs"
  by (induction xs) auto

lemma joinRows_mset: "mset (concat (map pr_logins (fst (joinRows uss left)))) + mset (snd (joinRows uss left)) = mset left"
proof (induction uss left rule: joinRows.induct)
  case (2 us uss left)
  let ?o = "us_owner (us_spec us)"
  from 2 have "mset (concat (map pr_logins (fst (joinRows uss (filter (\<lambda>u. lu_owner u \<noteq> ?o) left))))) +
      mset (snd (joinRows uss (filter (\<lambda>u. lu_owner u \<noteq> ?o) left))) = mset (filter (\<lambda>u. lu_owner u \<noteq> ?o) left)" by simp
  then show ?case using mset_filter_split [of "\<lambda>u. lu_owner u = ?o" left]
    by (simp add: Let_def split_def personRow_def ac_simps)
qed simp

lemma joinRows_names: "map pr_userSpace (fst (joinRows uss left)) = map us_name uss"
  by (induction uss left rule: joinRows.induct) (simp_all add: Let_def split_def personRow_def)

lemma joinRows_row:
  "row \<in> set (fst (joinRows uss left)) \<Longrightarrow> pr_hasUserSpace row \<and> (\<forall>u\<in>set (pr_logins row). lu_owner u = pr_owner row)"
proof (induction uss arbitrary: left)
  case (Cons us uss)
  have "set (fst (joinRows (us # uss) left)) = insert (personRow us (filter (\<lambda>u. lu_owner u = us_owner (us_spec us)) left))
      (set (fst (joinRows uss (filter (\<lambda>u. lu_owner u \<noteq> us_owner (us_spec us)) left))))" by (simp add: Let_def split_def)
  with Cons.prems consider "row = personRow us (filter (\<lambda>u. lu_owner u = us_owner (us_spec us)) left)"
    | "row \<in> set (fst (joinRows uss (filter (\<lambda>u. lu_owner u \<noteq> us_owner (us_spec us)) left)))" by blast
  then show ?case
  proof cases
    case 1
    then show ?thesis by (simp add: personRow_def)
  next
    case 2
    then show ?thesis by (rule Cons.IH)
  qed
qed simp

lemma joinRows_all_logins:
  "distinct (map (us_owner \<circ> us_spec) uss) \<Longrightarrow> us \<in> set uss \<Longrightarrow>
   personRow us (filter (\<lambda>u. lu_owner u = us_owner (us_spec us)) left) \<in> set (fst (joinRows uss left))"
proof (induction uss left rule: joinRows.induct)
  case (2 x uss left)
  show ?case
  proof (cases "us = x")
    case False
    with 2 have "us_owner (us_spec us) \<noteq> us_owner (us_spec x)" by (auto simp: image_iff)
    then have "filter (\<lambda>u. lu_owner u = us_owner (us_spec us)) (filter (\<lambda>u. lu_owner u \<noteq> us_owner (us_spec x)) left) =
        filter (\<lambda>u. lu_owner u = us_owner (us_spec us)) left" by (auto intro: filter_cong)
    with 2 False show ?thesis by (auto simp: Let_def split_def)
  qed (simp add: Let_def split_def)
qed simp

lemma orphans_mset:
  "mset (concat (map (\<lambda>owner. filter (\<lambda>u. lu_owner u = owner) left) (remdups (map lu_owner left)))) = mset left"
proof -
  have "mset (concat (map (\<lambda>owner. filter (\<lambda>u. lu_owner u = owner) left) owners)) = mset (filter (\<lambda>u. lu_owner u \<in> set owners) left)"
    if "distinct owners" for owners using that
  proof (induction owners)
    case (Cons a as)
    have "mset (filter (\<lambda>u. lu_owner u \<in> set (a # as)) left) = mset (filter (\<lambda>u. lu_owner u = a) left) + mset (filter (\<lambda>u. lu_owner u \<in> set as) left)"
      using Cons.prems by (induction left) auto
    with Cons show ?case by simp
  qed simp
  from this [of "remdups (map lu_owner left)"] show ?thesis by (simp add: filter_True)
qed

section \<open>Theorems\<close>

text \<open>
  The people screen joins exactly: every local login is on one row and only one, that of its owner; every UserSpace has one row, which
  has all logins of its owner when no other UserSpace has that owner; a row without a UserSpace has logins and an owner
  that no UserSpace has. Rows are in the order of owner and name.
\<close>

theorem people_rows_join:
  fixes uss :: "('q :: zero) userspace list"
  assumes "rows = peopleRows uss logins"
  shows "mset (concat (map pr_logins rows)) = mset logins \<and>
    mset (map pr_userSpace (filter pr_hasUserSpace rows)) = mset (map us_name uss) \<and>
    (\<forall>row\<in>set rows. (\<forall>u\<in>set (pr_logins row). lu_owner u = pr_owner row) \<and>
       (\<not> pr_hasUserSpace row \<longrightarrow> pr_logins row \<noteq> [] \<and> pr_owner row \<notin> (us_owner \<circ> us_spec) ` set uss)) \<and>
    (distinct (map (us_owner \<circ> us_spec) uss) \<longrightarrow> (\<forall>us\<in>set uss. personRow us (filter (\<lambda>u. lu_owner u = us_owner (us_spec us)) logins) \<in> set rows)) \<and>
    sorted (map (\<lambda>row. (pr_owner row, pr_userSpace row)) rows)"
proof -
  obtain joined left where j: "joinRows uss logins = (joined, left)" by fastforce
  let ?orphan = "\<lambda>owner. orphanRow owner (filter (\<lambda>u. lu_owner u = owner) left) :: 'q personrow"
  let ?os = "map ?orphan (remdups (map lu_owner left))"
  have rows: "rows = sort_key (\<lambda>row. (pr_owner row, pr_userSpace row)) (joined @ ?os)" using assms j by (simp add: peopleRows_def)
  have l: "left = filter (\<lambda>u. lu_owner u \<notin> (us_owner \<circ> us_spec) ` set uss) logins" using joinRows_left [of uss logins] j by simp
  have r: "map pr_userSpace joined = map us_name uss" using joinRows_names [of uss logins] j by simp
  have r2: "pr_hasUserSpace row \<and> (\<forall>u\<in>set (pr_logins row). lu_owner u = pr_owner row)" if "row \<in> set joined" for row
    using joinRows_row [of row uss logins] j that by simp
  have m: "mset rows = mset (joined @ ?os)" "set rows = set joined \<union> set ?os" by (simp_all add: rows)
  have "mset (map pr_logins rows) = mset (map pr_logins (joined @ ?os))" by (simp only: mset_map m(1))
  then have lg: "mset (concat (map pr_logins rows)) = mset (concat (map pr_logins joined)) + mset (concat (map pr_logins ?os))"
    using mset_concat_cong by fastforce
  have "map pr_logins ?os = map (\<lambda>owner. filter (\<lambda>u. lu_owner u = owner) left) (remdups (map lu_owner left))" by (simp add: orphanRow_def)
  with lg have 1: "mset (concat (map pr_logins rows)) = mset logins" using orphans_mset [of left] joinRows_mset [of uss logins] unfolding j by (simp only: fst_conv snd_conv)
  have "filter pr_hasUserSpace (joined @ ?os) = joined" using r2 by (auto simp: filter_empty_conv orphanRow_def)
  then have "filter_mset pr_hasUserSpace (mset (joined @ ?os)) = mset joined" by (simp only: mset_filter [symmetric])
  then have "mset (filter pr_hasUserSpace rows) = mset joined" by (simp only: mset_filter m(1))
  then have 2: "mset (map pr_userSpace (filter pr_hasUserSpace rows)) = mset (map us_name uss)" by (simp only: mset_map r [symmetric])
  have 3: "(\<forall>u\<in>set (pr_logins row). lu_owner u = pr_owner row) \<and>
      (\<not> pr_hasUserSpace row \<longrightarrow> pr_logins row \<noteq> [] \<and> pr_owner row \<notin> (us_owner \<circ> us_spec) ` set uss)" if "row \<in> set rows" for row
    using that r2 unfolding m(2) by (auto simp: orphanRow_def l filter_empty_conv)
  have 4: "personRow us (filter (\<lambda>u. lu_owner u = us_owner (us_spec us)) logins) \<in> set rows"
    if "distinct (map (us_owner \<circ> us_spec) uss)" "us \<in> set uss" for us
    using joinRows_all_logins [OF that, of logins] j m(2) by simp
  have 5: "sorted (map (\<lambda>row. (pr_owner row, pr_userSpace row)) rows)" unfolding rows by (rule sorted_sort_key)
  show ?thesis using 1 2 3 4 5 by blast
qed

section \<open>What is relied on of the client\<close>

text \<open>
  \<open>uss\<close> observes the UserSpaces by name and \<open>sec\<close> the Secrets: writes change exactly their object, failed ones nothing, and neither
  client touches the other's objects. (The Secrets of a person's own namespace, which go with the UserSpace, are not among those observed.)
\<close>

locale people_laws = sec_laws cl sec
  for cl :: "'s sec_client" and sec :: "'s \<Rightarrow> string \<rightharpoonup> ksecret" +
  fixes api :: "('q, 's) usapi" and uss :: "'s \<Rightarrow> string \<rightharpoonup> 'q userspace"
  assumes us_got: "ua_get api tok n s = Inr us \<Longrightarrow> uss s n = Some us \<and> us_name us = n"
    and us_created: "ua_create api tok us s = (None, s') \<Longrightarrow> uss s' = (uss s)(us_name us \<mapsto> us)"
    and us_create_refused: "ua_create api tok us s = (Some err, s') \<Longrightarrow> uss s' = uss s"
    and us_create_frame: "ua_create api tok us s = (e, s') \<Longrightarrow> sec s' = sec s"
    and us_deleted: "ua_delete api tok n s = (None, s') \<Longrightarrow> uss s' = (uss s)(n := None)"
    and us_delete_refused: "ua_delete api tok n s = (Some err, s') \<Longrightarrow> uss s' = uss s"
    and us_delete_frame: "ua_delete api tok n s = (e, s') \<Longrightarrow> sec s' = sec s"
    and us_patched: "ua_patch api tok n p s = (None, s') \<Longrightarrow> \<exists>us. uss s n = Some us \<and> uss s' = (uss s)(n \<mapsto> us\<lparr>us_spec := p (us_spec us)\<rparr>)"
    and us_patch_refused: "ua_patch api tok n p s = (Some err, s') \<Longrightarrow> uss s' = uss s"
    and us_patch_frame: "ua_patch api tok n p s = (e, s') \<Longrightarrow> sec s' = sec s"
    and sec_create_frame: "sc_create cl x s = (r, s') \<Longrightarrow> uss s' = uss s"
    and sec_delete_frame: "sc_delete cl m s = (e, s') \<Longrightarrow> uss s' = uss s"
begin

lemma deleteLogins_frame: "deleteLogins cl logins s = (e, s') \<Longrightarrow> uss s' = uss s"
proof (induction logins arbitrary: s)
  case (Cons l ls)
  obtain r t where d: "lu_Delete cl (lu_secretName l) s = (r, t)" by fastforce
  then have "uss t = uss s" by (auto simp: lu_Delete_def dest: sec_delete_frame split: prod.splits option.splits if_splits)
  with Cons d show ?case by (auto split: option.splits)
qed simp

lemma deleteLogins_done:
  "deleteLogins cl logins s = (None, s') \<Longrightarrow> sec s' n = (if n \<in> lu_secretName ` set logins then None else sec s n)"
proof (induction logins arbitrary: s)
  case (Cons l ls)
  obtain r t where d: "lu_Delete cl (lu_secretName l) s = (r, t)" by fastforce
  with Cons.prems have r: "r = None" and s': "deleteLogins cl ls t = (None, s')" by (auto split: option.splits)
  from d r have "sec t = (sec s)(lu_secretName l := None)"
    by (auto simp: lu_Delete_def split: prod.splits option.splits if_splits elim: IsNotFound.elims intro: delete_gone)
  with Cons.IH [OF s'] show ?case by simp
qed simp

lemma deleteLoginsFor_done:
  assumes "sv_localUsers sv = Some cl" and "owner \<noteq> ''''" and "deleteLoginsFor sv owner s = (None, s')"
  shows "sec s' n = (case sec s n of None \<Rightarrow> None | Some x \<Rightarrow> if isUser x \<and> dataGet x ''owner'' = owner then None else Some x)"
proof -
  from assms obtain items where items: "sc_list cl userSelector s = Inr items"
    and d: "deleteLogins cl (filter (\<lambda>u. lu_owner u = owner) (map localUserFromSecret items)) s = (None, s')"
    by (auto simp: deleteLoginsFor_def FindByOwner_def lu_List_def split: sum.splits)
  have "n \<in> lu_secretName ` set (filter (\<lambda>u. lu_owner u = owner) (map localUserFromSecret items)) \<longleftrightarrow>
      (\<exists>x. sec s n = Some x \<and> isUser x \<and> dataGet x ''owner'' = owner)"
    using listed [OF items] sec_name by (force simp: localUserFromSecret_def labelOf_def isUser_def image_iff)
  with deleteLogins_done [OF d, of n] show ?thesis by (auto split: option.splits)
qed

lemma deleteLogins_only:
  "deleteLogins cl logins s = (e, s') \<Longrightarrow> sec s' n = sec s n \<or> n \<in> lu_secretName ` set logins \<and> sec s' n = None"
proof (induction logins arbitrary: s)
  case (Cons l ls)
  obtain r t where d: "lu_Delete cl (lu_secretName l) s = (r, t)" by fastforce
  have t: "sec t = sec s \<or> sec t = (sec s)(lu_secretName l := None)"
    using d by (auto simp: lu_Delete_def split: prod.splits option.splits if_splits dest: deleted delete_refused)
  show ?case
  proof (cases r)
    case None
    with Cons.prems d have "deleteLogins cl ls t = (e, s')" by simp
    from Cons.IH [OF this] t show ?thesis by (auto simp: fun_upd_apply split: if_splits)
  next
    case (Some err)
    with Cons.prems d have "s' = t" by simp
    with t show ?thesis by auto
  qed
qed simp

lemma deleteLoginsFor_gone:
  assumes "sv_localUsers sv \<in> {None, Some cl}" and "deleteLoginsFor sv owner s = (e, s')"
  defines "gone \<equiv> \<lambda>x. sv_localUsers sv \<noteq> None \<and> owner \<noteq> '''' \<and> isUser x \<and> dataGet x ''owner'' = owner"
  shows "uss s' = uss s"
    and "\<forall>n. sec s' n = sec s n \<or> sec s' n = None \<and> (\<exists>x. sec s n = Some x \<and> gone x)"
    and "e = None \<longrightarrow> (\<forall>n. sec s' n = (case sec s n of None \<Rightarrow> None | Some x \<Rightarrow> if gone x then None else Some x))"
    and "sv_localUsers sv = None \<or> owner = [] \<longrightarrow> e = None"
proof -
  show "uss s' = uss s" using assms by (auto simp: deleteLoginsFor_def dest: deleteLogins_frame split: if_splits sum.splits)
  show "e = None \<longrightarrow> (\<forall>n. sec s' n = (case sec s n of None \<Rightarrow> None | Some x \<Rightarrow> if gone x then None else Some x))"
  proof (cases "sv_localUsers sv = None \<or> owner = ''''")
    case True
    then have "s' = s" using assms(2) by (auto simp: deleteLoginsFor_def split: option.splits)
    with True show ?thesis by (auto simp: gone_def split: option.splits)
  next
    case False
    with assms(1) have cl: "sv_localUsers sv = Some cl" "owner \<noteq> []" by auto
    have g: "gone = (\<lambda>x. isUser x \<and> dataGet x ''owner'' = owner)" using cl by (simp add: gone_def)
    show ?thesis using deleteLoginsFor_done [OF cl] assms(2) unfolding g by blast
  qed
  show "\<forall>n. sec s' n = sec s n \<or> sec s' n = None \<and> (\<exists>x. sec s n = Some x \<and> gone x)"
  proof
    fix n
    show "sec s' n = sec s n \<or> sec s' n = None \<and> (\<exists>x. sec s n = Some x \<and> gone x)"
    proof (cases "s' = s")
      case False
      with assms(1,2) obtain items where items: "sv_localUsers sv = Some cl" "owner \<noteq> ''''" "sc_list cl userSelector s = Inr items"
        and d: "deleteLogins cl (filter (\<lambda>u. lu_owner u = owner) (map localUserFromSecret items)) s = (e, s')"
        by (auto simp: deleteLoginsFor_def FindByOwner_def lu_List_def split: sum.splits if_splits)
      have "n \<in> lu_secretName ` set (filter (\<lambda>u. lu_owner u = owner) (map localUserFromSecret items)) \<Longrightarrow>
          \<exists>x. sec s n = Some x \<and> isUser x \<and> dataGet x ''owner'' = owner"
        using listed [OF items(3)] by (force simp: localUserFromSecret_def labelOf_def isUser_def image_iff)
      with deleteLogins_only [OF d, of n] items(1,2) show ?thesis by (auto simp: gone_def)
    qed simp
  qed
  show "sv_localUsers sv = None \<or> owner = [] \<longrightarrow> e = None"
    using assms(2) by (auto simp: deleteLoginsFor_def split: option.splits)
qed

lemma lu_Create_frame: "lu_Create cl uc lib salt u p own s = (r, s') \<Longrightarrow> uss s' = uss s"
  by (auto simp: lu_Create_def Let_def dest: sec_create_frame split: if_splits sum.splits option.splits prod.splits)

end

text \<open>
  (C27) Removing a person, in every case. When the API server refuses the caller, nothing changes. When it removes the UserSpace, that
  UserSpace and nothing else but local logins is gone, and only logins whose owner is the one that was read before; when the
  answer is the redirect, all of those are gone. Where no owner could be read, or local users are not configured, every login is
  kept, and the answer is the redirect all the same.
\<close>

theorem delete_person_exact:
  assumes "people_laws cl sec api uss" and "sv_localUsers sv \<in> {None, Some cl}"
    and "handleAdminDeleteUserSpace sv api r session st = (resp, st')"
    and "owner = (case ua_get api (rs_token session) (rq_path r ''name'') (st_cluster st) of Inl _ \<Rightarrow> '''' | Inr us \<Rightarrow> us_owner (us_spec us))"
    and "gone = (\<lambda>x. sv_localUsers sv \<noteq> None \<and> owner \<noteq> '''' \<and> isUser x \<and> dataGet x ''owner'' = owner)"
  shows "if sv_forToken sv (rs_token session) \<noteq> None \<or> fst (ua_delete api (rs_token session) (rq_path r ''name'') (st_cluster st)) \<noteq> None
    then rs_page resp \<noteq> NoPage \<and> sec (st_cluster st') = sec (st_cluster st) \<and> uss (st_cluster st') = uss (st_cluster st)
    else uss (st_cluster st') = (uss (st_cluster st))(rq_path r ''name'' := None) \<and>
      (\<forall>n. sec (st_cluster st') n = sec (st_cluster st) n \<or>
         sec (st_cluster st') n = None \<and> (\<exists>x. sec (st_cluster st) n = Some x \<and> gone x)) \<and>
      (rs_page resp = NoPage \<longrightarrow>
         (\<forall>n. sec (st_cluster st') n = (case sec (st_cluster st) n of None \<Rightarrow> None | Some x \<Rightarrow> if gone x then None else Some x))) \<and>
      (sv_localUsers sv = None \<or> owner = [] \<longrightarrow> rs_page resp = NoPage)"
proof (cases "sv_forToken sv (rs_token session)")
  case (Some err)
  with assms(3) show ?thesis by (auto simp: handleAdminDeleteUserSpace_def failWith_def respond_def)
next
  case None
  obtain e s1 where e: "ua_delete api (rs_token session) (rq_path r ''name'') (st_cluster st) = (e, s1)" by fastforce
  show ?thesis
  proof (cases e)
    case e': None
    obtain d s2 where d: "deleteLoginsFor sv owner s1 = (d, s2)" by fastforce
    have st: "st_cluster st' = s2" "rs_page resp = NoPage \<longleftrightarrow> d = None"
      using assms(3,4) d e e' None
      by (auto simp: handleAdminDeleteUserSpace_def onCluster_def Let_def renderPeople_def failWith_def redirectTo_def respond_def split: option.splits sum.splits)
    have uss: "uss s2 = (uss (st_cluster st))(rq_path r ''name'' := None)" and sec: "sec s1 = sec (st_cluster st)"
      using people_laws.us_deleted [OF assms(1)] people_laws.us_delete_frame [OF assms(1)] people_laws.deleteLoginsFor_gone(1) [OF assms(1,2) d] e e' by metis+
    note g = people_laws.deleteLoginsFor_gone [OF assms(1,2) d]
    show ?thesis using g(2,3,4) None e e' uss st unfolding sec assms(5) by simp
  next
    case (Some err)
    then have "st_cluster st' = s1" "rs_page resp \<noteq> NoPage"
      using assms(3) e None by (auto simp: handleAdminDeleteUserSpace_def onCluster_def Let_def failWith_def respond_def)
    then show ?thesis
      using Some e people_laws.us_delete_refused [OF assms(1)] people_laws.us_delete_frame [OF assms(1)] by simp
  qed
qed


lemma quotaFromRequest_gpu: "quotaFromRequest ql q quota = Inr quota' \<Longrightarrow> qq_gpu q = Some 0 \<Longrightarrow> q_gpu quota' = 0"
  by (auto simp: quotaFromRequest_def split: sum.splits)

text \<open>
  (C37) A GPU budget cannot be taken back: setting it to zero, by leaving the field of the form blank, by typing 0 or by a request that says 0, is
  answered like a success and leaves the stored budget as it was.
\<close>

theorem gpu_quota_never_withdrawn:
  assumes "people_laws cl sec api uss" and "uss (st_cluster st) (rq_path r ''name'') = Some us"
    and "handleAdminUpdateQuota sv ql api r session st = (resp, st') \<and> rq_form r = Inr f \<and> quotaFromForm ql f = Inr quota \<and> q_gpu quota = 0 \<or>
      handleAPIPatchQuota sv ql api r (Inr q) session st = (resp, st') \<and> qq_gpu q = Some 0"
    and "rs_page resp = NoPage"
  shows "\<exists>us'. uss (st_cluster st') (rq_path r ''name'') = Some us' \<and> q_gpu (us_quota (us_spec us')) = q_gpu (us_quota (us_spec us))"
proof -
  obtain quota' where q: "q_gpu quota' = 0" "ua_patch api (rs_token session) (rq_path r ''name'') (quotaMerge quota') (st_cluster st) = (None, st_cluster st')"
    using assms(3)
  proof
    assume "handleAdminUpdateQuota sv ql api r session st = (resp, st') \<and> rq_form r = Inr f \<and> quotaFromForm ql f = Inr quota \<and> q_gpu quota = 0"
    then show thesis using that assms(4)
      by (auto simp: handleAdminUpdateQuota_def PatchUserSpaceQuota_def onCluster_def failWith_def respond_def split: option.splits prod.splits)
  next
    assume "handleAPIPatchQuota sv ql api r (Inr q) session st = (resp, st') \<and> qq_gpu q = Some 0"
    then show thesis using that assms(4) quotaFromRequest_gpu
      by (fastforce simp: handleAPIPatchQuota_def PatchUserSpaceQuota_def onCluster_def failWith_def respond_def split: option.splits prod.splits sum.splits)
  qed
  from people_laws.us_patched [OF assms(1) q(2)] assms(2) q(1) show ?thesis by (auto simp: quotaMerge_def)
qed

text \<open>
  Nobody can be created by the API: its objects name no network policy, which the schema of the resource refuses, while an object of the
  form always names one that it allows.
\<close>

theorem api_create_always_refused:
  fixes api :: "('q :: zero, 's) usapi"
  assumes "people_laws cl sec api uss"
    and "\<And>tok us s. us_networkPolicy (us_spec us) \<notin> {''Isolated'', ''ClusterEgress''} \<Longrightarrow> fst (ua_create api tok us s) \<noteq> None"
    and "handleAPICreateUserSpace sv api body session st = (resp, st')"
  shows "rs_page resp \<noteq> NoPage \<and> uss (st_cluster st') = uss (st_cluster st) \<and>
    (\<forall>us :: 'q userspace. userSpaceFromForm ql f = Inr us \<longrightarrow> us_networkPolicy (us_spec us) \<in> {''Isolated'', ''ClusterEgress''})"
proof (intro conjI)
  have e: False if "ua_create api tok us s = (None, s')" "us_networkPolicy (us_spec us) = ''''" for tok us s s' using assms(2) [of us tok s] that by simp
  show "rs_page resp \<noteq> NoPage"
    using assms(3) by (auto simp: handleAPICreateUserSpace_def onCluster_def failWith_def respond_def split: option.splits sum.splits prod.splits if_splits dest: e)
  show "uss (st_cluster st') = uss (st_cluster st)"
    using assms(3) by (auto simp: handleAPICreateUserSpace_def onCluster_def split: option.splits sum.splits prod.splits if_splits
        dest: e people_laws.us_create_refused [OF assms(1)])
qed (auto simp: userSpaceFromForm_def Let_def split: if_splits sum.splits)

text \<open>
  One's own keys: adding a key appends exactly it, once, when it parses, and removing it takes away exactly the keys that read like it;
  everything else of the UserSpace, and every other one, stays.
\<close>

theorem profile_keys_exact:
  assumes "people_laws cl sec api uss" and "rq_form r = Inr f" and "key = TrimSpace (f ''key'')" and "name = si_userSpaceName (rs_identity session)"
    and "uss (st_cluster st) name = Some us" and "keys = us_keys (us_spec us)"
    and "handleProfileAddKey sv api parse r session st = (resp1, st1)" and "rs_page resp1 = NoPage"
    and "handleProfileRemoveKey sv api r session st1 = (resp2, st2)" and "rs_page resp2 = NoPage"
  shows "parse key \<noteq> None \<and> key \<notin> set keys \<and>
    uss (st_cluster st1) = (uss (st_cluster st))(name \<mapsto> us\<lparr>us_spec := (us_spec us)\<lparr>us_keys := keys @ [key]\<rparr>\<rparr>) \<and>
    uss (st_cluster st2) = (uss (st_cluster st))(name \<mapsto> us\<lparr>us_spec := (us_spec us)\<lparr>us_keys := filter (\<lambda>k. TrimSpace k \<noteq> key) keys\<rparr>\<rparr>)"
proof -
  obtain us0 where a: "ua_get api (rs_token session) name (st_cluster st) = Inr us0" "parse key \<noteq> None" "key \<notin> set (us_keys (us_spec us0))"
    "ua_patch api (rs_token session) (us_name us0) (us_keys_update (\<lambda>_. us_keys (us_spec us0) @ [key])) (st_cluster st) = (None, st_cluster st1)"
    using assms(2,3,4,7,8)
    by (auto simp: handleProfileAddKey_def PatchUserSpaceKeys_def onCluster_def failWith_def respond_def renderProfileWith_def renderNotice_def Let_def
        split: option.splits prod.splits sum.splits if_splits)
  have us0: "us0 = us" "us_name us = name" using people_laws.us_got [OF assms(1) a(1)] assms(5) by auto
  have 1: "uss (st_cluster st1) = (uss (st_cluster st))(name \<mapsto> us\<lparr>us_spec := (us_spec us)\<lparr>us_keys := keys @ [key]\<rparr>\<rparr>)"
    using people_laws.us_patched [OF assms(1) a(4)] assms(5,6) us0 by auto
  let ?us1 = "us\<lparr>us_spec := (us_spec us)\<lparr>us_keys := keys @ [key]\<rparr>\<rparr>"
  have t: "TrimSpace key = key" using assms(3) by (simp add: TrimSpace_idem)
  obtain us1 where b: "ua_get api (rs_token session) name (st_cluster st1) = Inr us1"
    "length (filter (\<lambda>k. TrimSpace k \<noteq> key) (us_keys (us_spec us1))) \<noteq> length (us_keys (us_spec us1)) \<Longrightarrow>
      ua_patch api (rs_token session) (us_name us1) (us_keys_update (\<lambda>_. filter (\<lambda>k. TrimSpace k \<noteq> key) (us_keys (us_spec us1)))) (st_cluster st1) = (None, st_cluster st2)"
    using assms(2,3,4,9,10)
    by (auto simp: handleProfileRemoveKey_def PatchUserSpaceKeys_def onCluster_def failWith_def respond_def renderProfileWith_def Let_def
        split: option.splits prod.splits sum.splits if_splits)
  have us1: "us1 = ?us1" using people_laws.us_got [OF assms(1) b(1)] 1 by simp
  have "length (filter (\<lambda>k. TrimSpace k \<noteq> key) keys) \<noteq> Suc (length keys)"
    using length_filter_le [of "\<lambda>k. TrimSpace k \<noteq> key" keys] by linarith
  then have "ua_patch api (rs_token session) name (us_keys_update (\<lambda>_. filter (\<lambda>k. TrimSpace k \<noteq> key) keys)) (st_cluster st1) = (None, st_cluster st2)"
    using b(2) t us0(2) unfolding us1 by simp
  from people_laws.us_patched [OF assms(1) this] 1 a us0 assms(6) show ?thesis by auto
qed

text \<open>
  Finishing the walkthrough ends it: the caller's UserSpace is stamped, so later sign-ins are not sent to it, and the session that
  finished it is sent home from then on, whatever its cached identity said.
\<close>

theorem onboarding_ends:
  assumes "people_laws cl sec api uss" and "handleOnboardingComplete sv api rn session st = (resp, st')" and "rs_page resp = NoPage"
  shows "(\<exists>us. uss (st_cluster st') (si_userSpaceName (rs_identity session)) = Some us \<and>
      (\<forall>cs role i. sessionIdentityFrom us cs role = Inr i \<longrightarrow> \<not> si_onboardingPending i)) \<and>
    fst (landingPath rn' (rs_sessionID session) st') = ''/''"
proof -
  have p: "ua_patch api (rs_token session) (si_userSpaceName (rs_identity session)) (us_onboarding_update (\<lambda>_. Some (rn_now rn))) (st_cluster st) = (None, st_cluster st')"
    and u: "st_ui st' = MarkOnboardingCompleted (rs_sessionID session) (st_ui st)"
    using assms(2,3)
    by (auto simp: handleOnboardingComplete_def PatchUserSpaceOnboardingCompleted_def onCluster_def failWith_def respond_def split: option.splits prod.splits)
  from people_laws.us_patched [OF assms(1) p]
  have "\<exists>us. uss (st_cluster st') (si_userSpaceName (rs_identity session)) = Some us \<and>
      (\<forall>cs role i. sessionIdentityFrom us cs role = Inr i \<longrightarrow> \<not> si_onboardingPending i)" by (auto simp: sessionIdentityFrom_def split: if_splits)
  moreover have "fst (landingPath rn' (rs_sessionID session) st') = ''/''"
    by (auto simp: landingPath_def onUi_def sessionIdentity_def u MarkOnboardingCompleted_def storeIdentity_def split: option.splits prod.splits sum.splits)
  ultimately show ?thesis by blast
qed

section \<open>Witnesses\<close>

text \<open>UserSpaces in memory beside the Secrets of the earlier witnesses; a write is refused unless the schema allows its network policy.\<close>

type_synonym pe_mem = "(string \<rightharpoonup> int userspace) \<times> ksecret list"

definition pairSec :: "pe_mem sec_client" where
  "pairSec =
     \<lparr>sc_list = (\<lambda>sel s. sc_list mem_sec sel (snd s)),
      sc_create = (\<lambda>x s. case sc_create mem_sec x (snd s) of (e, t) \<Rightarrow> (e, (fst s, t))),
      sc_delete = (\<lambda>n s. case sc_delete mem_sec n (snd s) of (e, t) \<Rightarrow> (e, (fst s, t))),
      sc_patch = (\<lambda>x s. case sc_patch mem_sec x (snd s) of (e, t) \<Rightarrow> (e, (fst s, t))),
      sc_get = (\<lambda>n s. sc_get mem_sec n (snd s))\<rparr>"

abbreviation pairFind :: "pe_mem \<Rightarrow> string \<rightharpoonup> ksecret" where
  "pairFind s \<equiv> memFind (snd s)"

definition policyAllowed :: "int userspace \<Rightarrow> bool" where
  "policyAllowed us \<longleftrightarrow> us_networkPolicy (us_spec us) \<in> {''Isolated'', ''ClusterEgress''}"

definition mem_us :: "(int, pe_mem) usapi" where
  "mem_us =
     \<lparr>ua_get = (\<lambda>_ n s. case fst s n of None \<Rightarrow> Inl NotFound | Some us \<Rightarrow> if us_name us = n then Inr us else Inl NotFound),
      ua_create = (\<lambda>_ us s. if fst s (us_name us) \<noteq> None then (Some AlreadyExists, s) else if \<not> policyAllowed us then (Some (ApiErr ''invalid''), s)
        else (None, ((fst s)(us_name us \<mapsto> us), snd s))),
      ua_delete = (\<lambda>_ n s. if fst s n = None then (Some NotFound, s) else (None, ((fst s)(n := None), snd s))),
      ua_patch = (\<lambda>_ n p s. case fst s n of None \<Rightarrow> (Some NotFound, s) | Some us \<Rightarrow> (None, ((fst s)(n \<mapsto> us\<lparr>us_spec := p (us_spec us)\<rparr>), snd s)))\<rparr>"

lemma pairSec_laws: "sec_laws pairSec pairFind"
proof
  fix sel s xs assume "sc_list pairSec sel s = Inr xs"
  then show "distinct (map ks_name xs) \<and> (\<forall>x. x \<in> set xs \<longleftrightarrow> pairFind s (ks_name x) = Some x \<and> labelOf sel x)"
    using mem_secrets.list_all_once by (simp add: pairSec_def)
next
  fix x s n s' assume "sc_create pairSec x s = (Inr n, s')"
  then show "pairFind s n = None \<and> (ks_name x \<noteq> [] \<longrightarrow> n = ks_name x) \<and> pairFind s' = (pairFind s)(n \<mapsto> x\<lparr>ks_name := n\<rparr>)"
    using mem_secrets.created by (auto simp: pairSec_def split: prod.splits)
next
  fix x s n s' assume "sc_create pairSec x s = (Inr n, s')" "ks_name x = []"
  then show "\<exists>r. n = ks_generateName x @ r" using mem_secrets.generated by (auto simp: pairSec_def split: prod.splits)
next
  fix n s e s' assume "sc_delete pairSec n s = (Some e, s')"
  then show "pairFind s' = pairFind s \<and> (e = NotFound \<longrightarrow> pairFind s n = None)"
    using mem_secrets.delete_refused by (auto simp: pairSec_def split: prod.splits)
qed (use mem_secrets.sec_name mem_secrets.create_refused mem_secrets.deleted mem_secrets.patched mem_secrets.patch_refused mem_secrets.got mem_secrets.got_none
     in \<open>auto simp: pairSec_def split: prod.splits\<close>)

interpretation mem_people: people_laws pairSec pairFind mem_us fst
proof (intro people_laws.intro people_laws_axioms.intro)
  show "sec_laws pairSec pairFind" by (rule pairSec_laws)
qed (auto simp: mem_us_def pairSec_def split: option.splits if_splits prod.splits)

lemma mem_people_laws: "people_laws pairSec pairFind mem_us fst"
  by (rule mem_people.people_laws_axioms)

definition demo_people_server :: "(int, string, pe_mem) uiserver" where
  "demo_people_server = \<lparr>sv_login = (\<lambda>_. demo_env), sv_providers = [], sv_basePath = '''', sv_sessionTTL = 100, sv_cookieSecure = True,
     sv_support = '''', sv_apiTokens = None, sv_tokenMinter = None, sv_localUsers = Some pairSec,
     sv_passwordResets = None, sv_lib = demo_authlib, sv_uc = demo_uc, sv_code = (\<lambda>_. 403), sv_forToken = (\<lambda>_. None),
     sv_listUserSpaces = (\<lambda>_ _. Inr [demo_us]), sv_canI = (\<lambda>_ _ _ _ _. Inr True), sv_profileReads = (\<lambda>_ _. None), sv_patchMembership = (\<lambda>_ _ s. (None, s))\<rparr>"

definition demo_people :: "pe_mem svstate" where
  "demo_people = \<lparr>st_ui = demo_signed, st_cluster = ([''ana'' \<mapsto> demo_us],
     [demo_account ''a'' ''ana'' ''pw1'' ''ana@x.io'', demo_account ''b'' ''bob'' ''pw2'' ''bob@x.io''])\<rparr>"

definition demo_them :: httpreq where
  "demo_them = demo_req ''POST'' Map.empty (\<lambda>_. '''') (\<lambda>_. ''ssh-ed25519 BBB'')\<lparr>rq_path := (\<lambda>_. ''ana'')\<rparr>"

abbreviation demo_me :: reqsession where
  "demo_me \<equiv> demo_as ''tok'' demo_identity"

lemma demo_people_reads: "sv_localUsers demo_people_server = Some pairSec" "sv_forToken demo_people_server tok = None" "sv_lib demo_people_server = demo_authlib"
  "sv_uc demo_people_server = demo_uc" "rq_path demo_them n = ''ana''" "us_name demo_us = ''ana''" "us_owner (us_spec demo_us) = ''ana@x.io''"
  "si_userSpaceName (rs_identity demo_me) = ''ana''" "rq_form demo_them = Inr (\<lambda>_. ''ssh-ed25519 BBB'')"
  "us_keys (us_spec demo_us) = [''ssh-ed25519 AAA ana'']"
  by (simp_all add: demo_people_server_def demo_them_def demo_req_def demo_us_def meta0_def demo_as_def demo_identity_def)

theorem people_rows_join_witness:
  "personRow demo_us [\<lparr>lu_secretName = ''a'', lu_username = ''ana'', lu_owner = ''ana@x.io''\<rparr>] \<in> set (peopleRows [demo_us]
     [\<lparr>lu_secretName = ''a'', lu_username = ''ana'', lu_owner = ''ana@x.io''\<rparr>, \<lparr>lu_secretName = ''z'', lu_username = ''zoe'', lu_owner = ''zoe@x.io''\<rparr>])"
  using people_rows_join [OF refl, of "[demo_us]" "[\<lparr>lu_secretName = ''a'', lu_username = ''ana'', lu_owner = ''ana@x.io''\<rparr>,
    \<lparr>lu_secretName = ''z'', lu_username = ''zoe'', lu_owner = ''zoe@x.io''\<rparr>]"] by (simp add: demo_people_reads)

theorem delete_person_exact_witness:
  "pairFind (st_cluster (snd (handleAdminDeleteUserSpace demo_people_server mem_us demo_them demo_me demo_people))) ''a'' = None \<and>
   pairFind (st_cluster (snd (handleAdminDeleteUserSpace demo_people_server mem_us demo_them demo_me demo_people))) ''b'' \<noteq> None"
proof -
  let ?tok = "rs_token demo_me" let ?s1 = "((fst (st_cluster demo_people))(''ana'' := None), snd (st_cluster demo_people))"
  obtain resp st' where run: "handleAdminDeleteUserSpace demo_people_server mem_us demo_them demo_me demo_people = (resp, st')" by fastforce
  have g: "ua_get mem_us ?tok (rq_path demo_them ''name'') (st_cluster demo_people) = Inr demo_us" (is ?g)
    and d: "ua_delete mem_us ?tok (rq_path demo_them ''name'') (st_cluster demo_people) = (None, ?s1)" (is ?d)
  proof -
    show ?g ?d by (simp_all add: mem_us_def demo_people_def demo_people_reads)
  qed
  obtain s2 where l: "deleteLoginsFor demo_people_server ''ana@x.io'' ?s1 = (None, s2)"
    by (simp add: deleteLoginsFor_def demo_people_reads FindByOwner_def lu_List_def pairSec_def mem_sec_def demo_people_def lu_Delete_def)
  have page: "rs_page resp = NoPage"
    using run g d l by (auto simp: handleAdminDeleteUserSpace_def demo_people_reads onCluster_def redirectTo_def Let_def)
  have o: "''ana@x.io'' = (case ua_get mem_us ?tok (rq_path demo_them ''name'') (st_cluster demo_people) of Inl _ \<Rightarrow> '''' | Inr us \<Rightarrow> us_owner (us_spec us))"
    unfolding g by (simp add: demo_people_reads)
  have "sv_localUsers demo_people_server \<in> {None, Some pairSec}" by (simp add: demo_people_reads)
  from delete_person_exact [OF mem_people_laws this run o refl] page d
  show ?thesis unfolding run by (simp add: demo_people_reads) (simp add: demo_people_def demo_people_reads memFind_def demo_account_def isUser_def dataGet_def userSecret_def)
qed

theorem gpu_quota_never_withdrawn_witness:
  "\<exists>us. fst (st_cluster (snd (handleAPIPatchQuota demo_people_server demo_ql mem_us demo_them
       (Inr \<lparr>qq_workspaces = None, qq_cpu = None, qq_memory = None, qq_storage = None, qq_gpu = Some 0\<rparr>) demo_me demo_people))) ''ana'' = Some us \<and>
     q_gpu (us_quota (us_spec us)) = q_gpu (us_quota (us_spec demo_us))"
proof -
  let ?q = "\<lparr>qq_workspaces = None, qq_cpu = None, qq_memory = None, qq_storage = None, qq_gpu = Some 0\<rparr>"
  obtain resp st' where run: "handleAPIPatchQuota demo_people_server demo_ql mem_us demo_them (Inr ?q) demo_me demo_people = (resp, st')" by fastforce
  have u: "fst (st_cluster demo_people) (rq_path demo_them ''name'') = Some demo_us" by (simp add: demo_people_def demo_people_reads)
  have "rs_page resp = NoPage"
    using run by (auto simp: handleAPIPatchQuota_def demo_people_reads mem_us_def quotaFromRequest_def applyQuantity_def PatchUserSpaceQuota_def onCluster_def
        demo_people_def respond_def)
  from gpu_quota_never_withdrawn [OF mem_people_laws u _ this, where q = ?q and sv = demo_people_server and ql = demo_ql and session = demo_me and st' = st'] run
  show ?thesis by (simp add: demo_people_reads)
qed

theorem api_create_always_refused_witness:
  "rs_page (fst (handleAPICreateUserSpace demo_people_server mem_us (Inr \<lparr>uq_name = ''eve'', uq_owner = ''eve@x.io'', uq_role = ''''\<rparr>) demo_me demo_people)) \<noteq> NoPage"
proof -
  obtain resp st' where run: "handleAPICreateUserSpace demo_people_server mem_us (Inr \<lparr>uq_name = ''eve'', uq_owner = ''eve@x.io'', uq_role = ''''\<rparr>) demo_me demo_people = (resp, st')"
    by fastforce
  have "fst (ua_create mem_us tok us s) \<noteq> None" if "us_networkPolicy (us_spec us) \<notin> {''Isolated'', ''ClusterEgress''}" for tok us s
    using that by (simp add: mem_us_def policyAllowed_def)
  from api_create_always_refused [OF mem_people_laws this run] show ?thesis by (simp add: run)
qed

theorem profile_keys_exact_witness:
  "fst (st_cluster (snd (handleProfileRemoveKey demo_people_server mem_us demo_them demo_me
     (snd (handleProfileAddKey demo_people_server mem_us (\<lambda>_. Some (''ssh-ed25519'', '''', ''SHA256:x'')) demo_them demo_me demo_people))))) ''ana'' = Some demo_us"
proof -
  let ?p = "\<lambda>_. Some (''ssh-ed25519'', '''', ''SHA256:x'')"
  have t: "TrimSpace ''ssh-ed25519 BBB'' = ''ssh-ed25519 BBB''" "TrimSpace ''ssh-ed25519 AAA ana'' = ''ssh-ed25519 AAA ana''" by code_simp+
  obtain resp1 st1 where add: "handleProfileAddKey demo_people_server mem_us ?p demo_them demo_me demo_people = (resp1, st1)" by fastforce
  have u: "fst (st_cluster demo_people) ''ana'' = Some demo_us" by (simp add: demo_people_def)
  have 1: "rs_page resp1 = NoPage \<and> st_cluster st1 = ((fst (st_cluster demo_people))(''ana'' \<mapsto> demo_us\<lparr>us_spec := (us_spec demo_us)\<lparr>us_keys := [''ssh-ed25519 AAA ana'', ''ssh-ed25519 BBB'']\<rparr>\<rparr>),
      snd (st_cluster demo_people))"
    using add u by (auto simp: handleProfileAddKey_def demo_people_reads mem_us_def t PatchUserSpaceKeys_def onCluster_def redirectToProfileTab_def redirectTo_def Let_def)
  obtain resp2 st2 where rem: "handleProfileRemoveKey demo_people_server mem_us demo_them demo_me st1 = (resp2, st2)" by fastforce
  have "rs_page resp2 = NoPage"
    using rem 1 by (auto simp: handleProfileRemoveKey_def demo_people_reads mem_us_def t PatchUserSpaceKeys_def onCluster_def redirectToProfileTab_def redirectTo_def Let_def)
  from profile_keys_exact [OF mem_people_laws demo_people_reads(9) refl demo_people_reads(8) [symmetric] u refl add _ rem this] 1
  have "fst (st_cluster st2) ''ana'' = Some (demo_us\<lparr>us_spec := (us_spec demo_us)\<lparr>us_keys := [''ssh-ed25519 AAA ana'']\<rparr>\<rparr>)"
    by (simp add: demo_people_reads t)
  then show ?thesis unfolding add snd_conv rem by (simp add: demo_us_def)
qed

theorem onboarding_ends_witness:
  "fst (landingPath (demo_random 20) '''' (snd (handleOnboardingComplete demo_people_server mem_us (demo_random 10) demo_me demo_people))) = ''/''"
proof -
  obtain resp st' where run: "handleOnboardingComplete demo_people_server mem_us (demo_random 10) demo_me demo_people = (resp, st')" by fastforce
  then have "rs_page resp = NoPage"
    by (auto simp: handleOnboardingComplete_def demo_people_reads mem_us_def PatchUserSpaceOnboardingCompleted_def onCluster_def demo_people_def redirectTo_def)
  from onboarding_ends [OF mem_people_laws run this, of "demo_random 20"] show ?thesis unfolding run by (simp add: demo_as_def)
qed







end
