(* ===== verification/UiGitKeys.thy ===== *)
theory UiGitKeys
  imports UiPeople WorkspaceController
begin

text \<open>
  The private keys a person stores for Git over SSH: the form (\<^verbatim>\<open>src/internal/ui/profile_git_ssh.go\<close>) and the client methods that
  keep the Secret (\<^verbatim>\<open>GetGitSSHKeys\<close>, \<^verbatim>\<open>PutGitSSHKey\<close>, \<^verbatim>\<open>DeleteGitSSHKey\<close> of \<^verbatim>\<open>k8s.go\<close>). The Secret is encrypted here with the functions of
  \<open>WorkspaceObjects\<close> and read by \<open>WorkspaceController\<close>, which mounts what it decrypts.
\<close>

section \<open>The form (profile_git_ssh.go)\<close>

text \<open>\<^verbatim>\<open>ssh.ParsePrivateKey\<close> cut to the type and the fingerprint of the public half.\<close>

datatype privatekey = NotAKey string | NeedsPassphrase | PrivateKey string string

text \<open>The class \<^verbatim>\<open>[a-zA-Z0-9]\<close> of the regular expression, as its ranges.\<close>

definition alnum :: "char \<Rightarrow> bool" where
  "alnum c \<longleftrightarrow> list_ex (\<lambda>(first, final). first \<le> c \<and> c \<le> final) [(CHR ''a'', CHR ''z''), (CHR ''A'', CHR ''Z''), (CHR ''0'', CHR ''9'')]"

text \<open>\<^verbatim>\<open>validGitSSHHost\<close>: labels joined by single dots, each of letters, digits and inner hyphens.\<close>

definition hostLabel :: "string \<Rightarrow> bool" where
  "hostLabel l \<longleftrightarrow> l \<noteq> '''' \<and> alnum (hd l) \<and> alnum (last l) \<and> list_all (\<lambda>c. alnum c \<or> c = CHR ''-'') l"

definition validGitSSHHost :: "string \<Rightarrow> bool" where
  "validGitSSHHost host \<longleftrightarrow> list_all hostLabel (splitFrom (CHR ''.'') [] host)"

fun crlf :: "string \<Rightarrow> string" where
  "crlf (a # b # s) = (if a = CHR 0x0D \<and> b = CHR 0x0A then CHR 0x0A # crlf s else a # crlf (b # s))"
| "crlf s = s"

definition normalizeLineEndings :: "string \<Rightarrow> string" where
  "normalizeLineEndings s = map (\<lambda>c. if c = CHR 0x0D then CHR 0x0A else c) (crlf s) @ [CHR 0x0A]"

section \<open>The Secret (k8s.go)\<close>

text \<open>
  The client under a token, for the one Secret of these keys in a namespace. \<open>ga_patch\<close> is \<^verbatim>\<open>Patch\<close> with \<^verbatim>\<open>MergeFrom\<close>: it is given the data
  before and after and sends their difference.
\<close>

record 's gitapi =
  ga_get :: "string \<Rightarrow> string \<Rightarrow> 's \<Rightarrow> apierr + string gomap"
  ga_create :: "string \<Rightarrow> string \<Rightarrow> string gomap \<Rightarrow> 's \<Rightarrow> apierr option \<times> 's"
  ga_patch :: "string \<Rightarrow> string \<Rightarrow> string gomap \<Rightarrow> string gomap \<Rightarrow> 's \<Rightarrow> apierr option \<times> 's"
  ga_delete :: "string \<Rightarrow> string \<Rightarrow> 's \<Rightarrow> apierr option \<times> 's"

datatype giterr =
    EncryptionNotConfigured | ParseKeyErr string | EncryptKeyErr string crypterr | GetKeysErr apierr | GitSSHKeyExists
  | CreateKeysErr apierr | PatchKeysErr apierr | DeleteKeysErr apierr

definition GitSSHKeyMetaDataPrefix :: string where
  "GitSSHKeyMetaDataPrefix = ''meta-''"

record gitkeyinfo =
  gi_host :: string
  gi_fingerprint :: string
  gi_keyType :: string

text \<open>\<^verbatim>\<open>strings.Cut\<close> at the first space.\<close>

definition cutSpace :: "string \<Rightarrow> (string \<times> string) option" where
  "cutSpace s = (if CHR 0x20 \<in> set s then Some (takeWhile (\<lambda>c. c \<noteq> CHR 0x20) s, drop 1 (dropWhile (\<lambda>c. c \<noteq> CHR 0x20) s)) else None)"

definition gitKeyInfos :: "string gomap \<Rightarrow> gitkeyinfo list" where
  "gitKeyInfos data = concat (map (\<lambda>(key, meta). case CutPrefix key GitSSHKeyMetaDataPrefix of
       None \<Rightarrow> []
     | Some host \<Rightarrow> [case cutSpace meta of
           Some (keyType, fingerprint) \<Rightarrow> \<lparr>gi_host = host, gi_fingerprint = fingerprint, gi_keyType = keyType\<rparr>
         | None \<Rightarrow> \<lparr>gi_host = host, gi_fingerprint = '''', gi_keyType = ''unrecognised''\<rparr>]) data)"

definition GetGitSSHKeys :: "'s gitapi \<Rightarrow> string \<Rightarrow> string \<Rightarrow> 's \<Rightarrow> giterr + gitkeyinfo list" where
  "GetGitSSHKeys api tok namespace s =
     (case ga_get api tok namespace s of
        Inl err \<Rightarrow> if IsNotFound err then Inr [] else Inl (GetKeysErr err)
      | Inr data \<Rightarrow> Inr (gitKeyInfos data))"

text \<open>The data with a key more: its ciphertext, its public facts and the configuration for all hosts there are then.\<close>

definition addKeyData :: "string \<Rightarrow> string \<Rightarrow> string \<Rightarrow> string gomap \<Rightarrow> string gomap" where
  "addKeyData host ciphertext facts data =
     (let data = AList.update (GitSSHKeyDataPrefix @ host) ciphertext data;
          data = AList.update (GitSSHKeyMetaDataPrefix @ host) facts data
      in AList.update ''config'' (GitSSHConfig (GitSSHHostsFromData data)) data)"

definition PutGitSSHKey ::
    "'b crypto \<Rightarrow> string \<Rightarrow> (string \<Rightarrow> privatekey) \<Rightarrow> 's gitapi \<Rightarrow> string \<Rightarrow> string \<Rightarrow> string \<Rightarrow> string \<Rightarrow> 's \<Rightarrow> giterr option \<times> 's" where
  "PutGitSSHKey cr encryptionKey parse api tok namespace host privateKeyPEM s =
     (if encryptionKey = '''' then (Some EncryptionNotConfigured, s)
      else case parse privateKeyPEM of
        NotAKey err \<Rightarrow> (Some (ParseKeyErr err), s)
      | NeedsPassphrase \<Rightarrow> (Some (ParseKeyErr ''passphrase protected''), s)
      | PrivateKey keyType fingerprint \<Rightarrow>
          (case EncryptGitSSHKey cr encryptionKey privateKeyPEM of
             Inl err \<Rightarrow> (Some (EncryptKeyErr host err), s)
           | Inr ciphertext \<Rightarrow>
               (let facts = keyType @ '' '' @ fingerprint in
                case ga_get api tok namespace s of
                  Inl err \<Rightarrow>
                    if IsNotFound err then
                      (case ga_create api tok namespace (addKeyData host ciphertext facts []) s of
                         (Some err, s') \<Rightarrow> (Some (CreateKeysErr err), s')
                       | (None, s') \<Rightarrow> (None, s'))
                    else (Some (GetKeysErr err), s)
                | Inr data \<Rightarrow>
                    if map_of data (GitSSHKeyDataPrefix @ host) \<noteq> None then (Some GitSSHKeyExists, s)
                    else
                      (case ga_patch api tok namespace data (addKeyData host ciphertext facts data) s of
                         (Some err, s') \<Rightarrow> (Some (PatchKeysErr err), s')
                       | (None, s') \<Rightarrow> (None, s')))))"

definition dropKeyData :: "string \<Rightarrow> string gomap \<Rightarrow> string gomap" where
  "dropKeyData host data =
     AList.update ''config'' (GitSSHConfig (filter (\<lambda>h. h \<noteq> host) (GitSSHHostsFromData data)))
       (AList.delete (GitSSHKeyMetaDataPrefix @ host) (AList.delete (GitSSHKeyDataPrefix @ host) data))"

definition DeleteGitSSHKey :: "'s gitapi \<Rightarrow> string \<Rightarrow> string \<Rightarrow> string \<Rightarrow> 's \<Rightarrow> giterr option \<times> 's" where
  "DeleteGitSSHKey api tok namespace host s =
     (case ga_get api tok namespace s of
        Inl err \<Rightarrow> (if IsNotFound err then None else Some (GetKeysErr err), s)
      | Inr data \<Rightarrow>
          if map_of data (GitSSHKeyDataPrefix @ host) = None then (None, s)
          else if filter (\<lambda>h. h \<noteq> host) (GitSSHHostsFromData data) = [] then
            (case ga_delete api tok namespace s of
               (Some err, s') \<Rightarrow> (if IsNotFound err then None else Some (DeleteKeysErr err), s')
             | (None, s') \<Rightarrow> (None, s'))
          else
            (case ga_patch api tok namespace data (dropKeyData host data) s of
               (Some err, s') \<Rightarrow> (Some (PatchKeysErr err), s')
             | (None, s') \<Rightarrow> (None, s')))"

section \<open>Handlers (profile_git_ssh.go)\<close>

text \<open>The error a page shows; the text around a cause is left out.\<close>

definition gitError :: "giterr \<Rightarrow> uierr" where
  "gitError e = (case e of
     GetKeysErr err \<Rightarrow> KubeErr err | CreateKeysErr err \<Rightarrow> KubeErr err | PatchKeysErr err \<Rightarrow> KubeErr err | DeleteKeysErr err \<Rightarrow> KubeErr err
   | EncryptionNotConfigured \<Rightarrow> OtherErr ''git-ssh key storage is not configured on this platform - ask an administrator''
   | ParseKeyErr err \<Rightarrow> OtherErr err | EncryptKeyErr host err \<Rightarrow> OtherErr (''encrypt git-ssh key for '' @ host)
   | GitSSHKeyExists \<Rightarrow> OtherErr ''a key for that host already exists'')"

definition handleProfileAddGitSSHKey ::
    "('q, 'tok, 's) uiserver \<Rightarrow> 'b crypto \<Rightarrow> string \<Rightarrow> (string \<Rightarrow> privatekey) \<Rightarrow> 's gitapi \<Rightarrow> httpreq \<Rightarrow> reqsession \<Rightarrow> 's svstate \<Rightarrow> response \<times> 's svstate" where
  "handleProfileAddGitSSHKey sv cr encryptionKey parse api r session st =
     (case sv_forToken sv (rs_token session) of
        Some err \<Rightarrow> (failWith sv (OtherErr err), st)
      | None \<Rightarrow>
          (case rq_form r of
             Inl _ \<Rightarrow> (failWith sv (ApiError 400 ''invalid form''), st)
           | Inr f \<Rightarrow>
               (let host = TrimSpace (f ''host''); key = normalizeLineEndings (TrimSpace (f ''key''));
                    profile = (\<lambda>msg. (renderProfileWith sv session (NoteText msg) '''' (st_cluster st), st)) in
                if host = '''' then profile ''Enter the host this key is for, e.g. github.com.''
                else if \<not> validGitSSHHost host \<or> length host > 253
                then profile ''That doesn't look like a hostname - letters, digits, dots and hyphens only.''
                else if key = '''' then profile ''Paste a private key first.''
                else case parse key of
                  NeedsPassphrase \<Rightarrow> profile ''That key has a passphrase; remove it before uploading - a workspace has nowhere to prompt for one.''
                | NotAKey _ \<Rightarrow> profile ''That does not look like an OpenSSH private key.''
                | PrivateKey _ _ \<Rightarrow>
                    (case onCluster (PutGitSSHKey cr encryptionKey parse api (rs_token session) (si_userSpaceNamespace (rs_identity session)) host key) st of
                       (Some GitSSHKeyExists, st1) \<Rightarrow>
                         (renderNotice sv session (''You already have a key for '' @ host @ ''; remove it first to replace it.'') (st_cluster st1), st1)
                     | (Some err, st1) \<Rightarrow> (renderProfileWith sv session (NoteErr (gitError err)) '''' (st_cluster st1), st1)
                     | (None, st1) \<Rightarrow> (redirectToProfileTab sv ''keys'' ''git-key-added'', st1)))))"

definition handleProfileRemoveGitSSHKey ::
    "('q, 'tok, 's) uiserver \<Rightarrow> 's gitapi \<Rightarrow> httpreq \<Rightarrow> reqsession \<Rightarrow> 's svstate \<Rightarrow> response \<times> 's svstate" where
  "handleProfileRemoveGitSSHKey sv api r session st =
     (case sv_forToken sv (rs_token session) of
        Some err \<Rightarrow> (failWith sv (OtherErr err), st)
      | None \<Rightarrow>
          (case rq_form r of
             Inl _ \<Rightarrow> (failWith sv (ApiError 400 ''invalid form''), st)
           | Inr f \<Rightarrow>
               (case onCluster (DeleteGitSSHKey api (rs_token session) (si_userSpaceNamespace (rs_identity session)) (TrimSpace (f ''host''))) st of
                  (Some err, st1) \<Rightarrow> (renderProfileWith sv session (NoteErr (gitError err)) '''' (st_cluster st1), st1)
                | (None, st1) \<Rightarrow> (redirectToProfileTab sv ''keys'' ''git-key-removed'', st1))))"

section \<open>Lemmas: hosts and data\<close>

lemma hosts_mem: "h \<in> set (GitSSHHostsFromData d) \<longleftrightarrow> map_of d (GitSSHKeyDataPrefix @ h) \<noteq> None"
  by (force simp: GitSSHHosts_alt keyHosts_iff map_of_eq_None_iff image_iff)

lemma hosts_sorted: "sorted (GitSSHHostsFromData d)" "distinct (map fst d) \<Longrightarrow> distinct (GitSSHHostsFromData d)"
  by (simp_all add: GitSSHHosts_alt keyHosts_distinct)

text \<open>The hosts depend on which keys there are and not on their order.\<close>

lemma hosts_unique:
  assumes "distinct (map fst d)" "distinct (map fst d')" "\<And>h. map_of d (GitSSHKeyDataPrefix @ h) = None \<longleftrightarrow> map_of d' (GitSSHKeyDataPrefix @ h) = None"
  shows "GitSSHHostsFromData d = GitSSHHostsFromData d'"
proof (rule sorted_distinct_set_unique)
  show "set (GitSSHHostsFromData d) = set (GitSSHHostsFromData d')" using assms(3) by (auto simp: hosts_mem simp del: set_sort)
qed (simp_all add: hosts_sorted assms(1,2))

lemma prefixes_apart: "GitSSHKeyDataPrefix @ h \<noteq> ''config''" "GitSSHKeyMetaDataPrefix @ h \<noteq> ''config''" "GitSSHKeyDataPrefix @ h \<noteq> GitSSHKeyMetaDataPrefix @ h'"
  "GitSSHKeyDataPrefix \<noteq> GitSSHKeyMetaDataPrefix"
  by (simp_all add: GitSSHKeyDataPrefix_def GitSSHKeyMetaDataPrefix_def)

lemmas apart [simp] = prefixes_apart prefixes_apart [symmetric]

lemma addKeyData_map:
  "map_of (addKeyData host ct facts d) = (map_of d)(GitSSHKeyDataPrefix @ host \<mapsto> ct, GitSSHKeyMetaDataPrefix @ host \<mapsto> facts,
     ''config'' \<mapsto> GitSSHConfig (GitSSHHostsFromData (AList.update (GitSSHKeyMetaDataPrefix @ host) facts (AList.update (GitSSHKeyDataPrefix @ host) ct d))))"
  by (simp add: addKeyData_def Let_def update_conv')

lemma addKeyData_distinct: "distinct (map fst d) \<Longrightarrow> distinct (map fst (addKeyData host ct facts d))"
  by (simp add: addKeyData_def Let_def distinct_update)

lemma dropKeyData_map:
  "map_of (dropKeyData host d) = (map_of d)(GitSSHKeyDataPrefix @ host := None, GitSSHKeyMetaDataPrefix @ host := None,
     ''config'' \<mapsto> GitSSHConfig (filter (\<lambda>h. h \<noteq> host) (GitSSHHostsFromData d)))"
  by (simp add: dropKeyData_def update_conv' delete_conv')

text \<open>
  A Secret of keys is as it should be: at least one host, a valid one each; the public facts are there exactly where a key is; and the
  configuration is that of the hosts there are.
\<close>

definition wfKeys :: "string gomap \<Rightarrow> bool" where
  "wfKeys d \<longleftrightarrow> GitSSHHostsFromData d \<noteq> [] \<and> (\<forall>h\<in>set (GitSSHHostsFromData d). validGitSSHHost h) \<and>
     (\<forall>h. map_of d (GitSSHKeyMetaDataPrefix @ h) = None \<longleftrightarrow> map_of d (GitSSHKeyDataPrefix @ h) = None) \<and>
     map_of d ''config'' = Some (GitSSHConfig (GitSSHHostsFromData d))"

lemma wfKeys_add:
  assumes "distinct (map fst d)" "d = [] \<or> wfKeys d" "validGitSSHHost host" "distinct (map fst d')" "map_of d' = map_of (addKeyData host ct facts d)"
  shows "wfKeys d'"
proof -
  let ?e = "AList.update (GitSSHKeyMetaDataPrefix @ host) facts (AList.update (GitSSHKeyDataPrefix @ host) ct d)"
  have "GitSSHHostsFromData d' = GitSSHHostsFromData ?e"
    by (rule hosts_unique) (simp_all add: assms(1,4,5) distinct_update addKeyData_map update_conv')
  then have "map_of d' ''config'' = Some (GitSSHConfig (GitSSHHostsFromData d'))" by (simp add: assms(5) addKeyData_map)
  moreover have "host \<in> set (GitSSHHostsFromData d')" by (simp add: hosts_mem assms(5) addKeyData_map)
  moreover have "validGitSSHHost h" if "h \<in> set (GitSSHHostsFromData d')" for h
    using that assms(2,3) by (cases "h = host") (auto simp: hosts_mem wfKeys_def assms(5) addKeyData_map)
  moreover have "map_of d' (GitSSHKeyMetaDataPrefix @ h) = None \<longleftrightarrow> map_of d' (GitSSHKeyDataPrefix @ h) = None" for h
    using assms(2) by (auto simp: wfKeys_def assms(5) addKeyData_map)
  ultimately show ?thesis unfolding wfKeys_def by force
qed

lemma wfKeys_drop:
  assumes "distinct (map fst d)" "wfKeys d" "filter (\<lambda>h. h \<noteq> host) (GitSSHHostsFromData d) \<noteq> []" "distinct (map fst d')" "map_of d' = map_of (dropKeyData host d)"
  shows "wfKeys d'"
proof -
  have "GitSSHHostsFromData d' = filter (\<lambda>h. h \<noteq> host) (GitSSHHostsFromData d)"
  proof (rule sorted_distinct_set_unique)
    show "set (GitSSHHostsFromData d') = set (filter (\<lambda>h. h \<noteq> host) (GitSSHHostsFromData d))"
      by (auto simp: hosts_mem assms(5) dropKeyData_map split: if_splits)
  qed (simp_all add: hosts_sorted assms(1,4) sorted_filter [of id, simplified])
  then show ?thesis using assms(2,3) by (auto simp: wfKeys_def assms(5) dropKeyData_map)
qed

section \<open>What is relied on of the client\<close>

text \<open>
  \<open>gs\<close> observes the data of the Secret of each namespace. A patch sets or removes the entries in which the data after differs from the
  data before, and leaves the other entries as they are then.
\<close>

definition merged :: "string gomap \<Rightarrow> string gomap \<Rightarrow> string gomap \<Rightarrow> string \<rightharpoonup> string" where
  "merged before desired current k = (if map_of desired k = map_of before k then map_of current k else map_of desired k)"

lemma merged_self: "merged d d' d = map_of d'"
  by (auto simp: merged_def fun_eq_iff)

locale git_laws =
  fixes api :: "'s gitapi" and gs :: "'s \<Rightarrow> string \<rightharpoonup> string gomap"
  assumes git_got: "ga_get api tok ns s = Inr d \<Longrightarrow> gs s ns = Some d \<and> distinct (map fst d)"
    and git_missing: "ga_get api tok ns s = Inl NotFound \<Longrightarrow> gs s ns = None"
    and git_created: "ga_create api tok ns d s = (None, s') \<Longrightarrow> gs s' = (gs s)(ns \<mapsto> d)"
    and git_create_refused: "ga_create api tok ns d s = (Some e, s') \<Longrightarrow> gs s' = gs s"
    and git_patched: "ga_patch api tok ns d d' s = (None, s') \<Longrightarrow> \<exists>cur new. gs s ns = Some cur \<and> gs s' = (gs s)(ns \<mapsto> new) \<and>
        distinct (map fst new) \<and> map_of new = merged d d' cur"
    and git_patch_refused: "ga_patch api tok ns d d' s = (Some e, s') \<Longrightarrow> gs s' = gs s"
    and git_deleted: "ga_delete api tok ns s = (None, s') \<Longrightarrow> gs s' = (gs s)(ns := None)"
    and git_delete_refused: "ga_delete api tok ns s = (Some e, s') \<Longrightarrow> gs s' = gs s \<and> (e = NotFound \<longrightarrow> gs s ns = None)"
begin

lemma PutGitSSHKey_ok:
  assumes "PutGitSSHKey cr k parse api tok ns host pem s = (None, s')"
  shows "\<exists>ct facts d d'. EncryptGitSSHKey cr k pem = Inr ct \<and> (gs s ns = Some d \<or> gs s ns = None \<and> d = []) \<and> distinct (map fst d) \<and>
    map_of d (GitSSHKeyDataPrefix @ host) = None \<and> gs s' = (gs s)(ns \<mapsto> d') \<and> distinct (map fst d') \<and> map_of d' = map_of (addKeyData host ct facts d)"
proof -
  from assms obtain kt fp ct where k: "parse pem = PrivateKey kt fp" "EncryptGitSSHKey cr k pem = Inr ct"
    by (auto simp: PutGitSSHKey_def split: if_splits privatekey.splits sum.splits)
  let ?f = "kt @ '' '' @ fp"
  show ?thesis
  proof (cases "ga_get api tok ns s")
    case (Inl e)
    with assms k have "e = NotFound" "ga_create api tok ns (addKeyData host ct ?f []) s = (None, s')"
      by (auto simp: PutGitSSHKey_def split: if_splits prod.splits option.splits elim: IsNotFound.elims)
    then show ?thesis using k(2) git_missing [of tok ns s] git_created Inl addKeyData_distinct [of "[]" host ct ?f] by fastforce
  next
    case (Inr d)
    with assms k have p: "map_of d (GitSSHKeyDataPrefix @ host) = None" "ga_patch api tok ns d (addKeyData host ct ?f d) s = (None, s')"
      by (auto simp: PutGitSSHKey_def split: if_splits prod.splits option.splits)
    from git_patched [OF p(2)] git_got [OF Inr] obtain new where "gs s' = (gs s)(ns \<mapsto> new)" "distinct (map fst new)"
      "map_of new = map_of (addKeyData host ct ?f d)" by (auto simp: merged_self)
    with k(2) p(1) git_got [OF Inr] show ?thesis by blast
  qed
qed

lemma PutGitSSHKey_refused: "PutGitSSHKey cr k parse api tok ns host pem s = (Some e, s') \<Longrightarrow> gs s' = gs s"
  by (auto simp: PutGitSSHKey_def Let_def dest: git_create_refused git_patch_refused split: if_splits privatekey.splits sum.splits prod.splits option.splits)

lemma DeleteGitSSHKey_cases:
  assumes "DeleteGitSSHKey api tok ns host s = (e, s')"
  shows "gs s' = gs s \<or> gs s' = (gs s)(ns := None) \<or>
    (\<exists>d d'. gs s ns = Some d \<and> distinct (map fst d) \<and> filter (\<lambda>h. h \<noteq> host) (GitSSHHostsFromData d) \<noteq> [] \<and>
       gs s' = (gs s)(ns \<mapsto> d') \<and> distinct (map fst d') \<and> map_of d' = map_of (dropKeyData host d))"
proof (cases "ga_get api tok ns s")
  case (Inr d)
  show ?thesis
  proof (cases "ga_patch api tok ns d (dropKeyData host d) s")
    case (Pair r t)
    obtain r2 t2 where del: "ga_delete api tok ns s = (r2, t2)" by fastforce
    have "gs t = gs s \<or> (\<exists>d'. gs t = (gs s)(ns \<mapsto> d') \<and> distinct (map fst d') \<and> map_of d' = map_of (dropKeyData host d))"
    proof (cases r)
      case None
      then show ?thesis using git_patched Pair git_got [OF Inr] by (fastforce simp: merged_self)
    next
      case (Some err)
      then show ?thesis using git_patch_refused Pair by blast
    qed
    moreover have "gs t2 = gs s \<or> gs t2 = (gs s)(ns := None)" using git_deleted git_delete_refused del by (cases r2) blast+
    ultimately show ?thesis using assms Inr Pair del git_got [OF Inr]
      by (auto simp: DeleteGitSSHKey_def split: if_splits option.splits)
  qed
qed (use assms in \<open>auto simp: DeleteGitSSHKey_def split: if_splits\<close>)

end

section \<open>Lemmas: what is opened is what was sealed\<close>

lemma decrypt_encrypted:
  assumes "crypto_laws cr" "EncryptGitSSHKey cr key plaintext = Inr ct"
  shows "DecryptGitSSHKey cr key ct = Inr plaintext"
proof -
  from assms(2) obtain g nonce where g: "newGCM cr key = Inr g" and n: "cr_randRead cr (ae_NonceSize g) = Inr nonce"
    and ct: "ct = nonce @ ae_Seal g nonce plaintext" by (auto simp: EncryptGitSSHKey_def split: sum.splits)
  have "length nonce = ae_NonceSize g" using assms(1) n by (auto simp: crypto_laws_def)
  with newGCM_laws [OF assms(1) g this] show ?thesis by (simp add: DecryptGitSSHKey_def g ct)
qed

section \<open>Theorems\<close>

lemma splitFrom_chars: "c \<in> set h \<Longrightarrow> c \<noteq> sep \<Longrightarrow> \<exists>p\<in>set (splitFrom sep cur h). c \<in> set p"
proof (induction sep cur h rule: splitFrom.induct)
  case (2 sep cur x xs)
  have pre: "set cur \<subseteq> \<Union> (set ` set (splitFrom sep cur xs))" for cur xs
  proof (induction sep cur xs rule: splitFrom.induct)
    case (2 sep cur x xs)
    then show ?case by auto
  qed simp
  show ?case
  proof (cases "c = x")
    case True
    then have "c \<in> set (cur @ [x])" by simp
    then have "\<exists>p\<in>set (splitFrom sep (cur @ [x]) xs). c \<in> set p" using pre [of "cur @ [x]" xs] by blast
    then show ?thesis using True 2(4) by simp
  qed (use 2 in auto)
qed simp

text \<open>A host that the form accepts has no character that means anything to the client's configuration file.\<close>

lemma valid_host_chars: "validGitSSHHost h \<Longrightarrow> c \<in> set h \<Longrightarrow> alnum c \<or> c = CHR ''-'' \<or> c = CHR ''.''"
  using splitFrom_chars [of c h "CHR ''.''" "[]"] by (auto simp: validGitSSHHost_def hostLabel_def list_all_iff)

lemma valid_host_line: "validGitSSHHost h \<Longrightarrow> CHR 10 \<notin> set h"
  using valid_host_chars [of h "CHR 10"] by (auto simp: alnum_def)

lemma config_read: "\<forall>h\<in>set hosts. validGitSSHHost h \<Longrightarrow> configHosts (GitSSHConfig hosts) = hosts"
  using configHosts_blocks [of hosts] valid_host_line by (simp add: GitSSHConfig_alt)

lemma crlf_set: "set (crlf s) \<subseteq> set s"
  by (induction s rule: crlf.induct) (auto split: if_splits)

lemma normalized: "CHR 0x0D \<notin> set (normalizeLineEndings s)" "last (normalizeLineEndings s) = CHR 0x0A"
  by (auto simp: normalizeLineEndings_def)

lemma add_handler_puts:
  assumes "handleProfileAddGitSSHKey sv cr k parse api r session st = (resp, st')"
  shows "st_cluster st' = st_cluster st \<or> (\<exists>host key e. validGitSSHHost host \<and>
    PutGitSSHKey cr k parse api (rs_token session) (si_userSpaceNamespace (rs_identity session)) host key (st_cluster st) = (e, st_cluster st'))"
  using assms
  by (auto simp: handleProfileAddGitSSHKey_def Let_def onCluster_def split: option.splits sum.splits if_splits privatekey.splits prod.splits giterr.splits)

lemma remove_handler_deletes:
  assumes "handleProfileRemoveGitSSHKey sv api r session st = (resp, st')"
  shows "st_cluster st' = st_cluster st \<or> (\<exists>host e.
    DeleteGitSSHKey api (rs_token session) (si_userSpaceNamespace (rs_identity session)) host (st_cluster st) = (e, st_cluster st'))"
  using assms by (auto simp: handleProfileRemoveGitSSHKey_def onCluster_def split: option.splits sum.splits prod.splits)

text \<open>Anybody's requests to the two routes, whatever they are answered, and writes of others to other objects.\<close>

inductive git_step :: "('q, 'tok, 's) uiserver \<Rightarrow> 'b crypto \<Rightarrow> 's gitapi \<Rightarrow> ('s \<Rightarrow> string \<rightharpoonup> string gomap) \<Rightarrow> 's \<Rightarrow> 's \<Rightarrow> bool"
  for sv cr api gs where
  git_add: "handleProfileAddGitSSHKey sv cr k parse api r session st = (resp, st') \<Longrightarrow> git_step sv cr api gs (st_cluster st) (st_cluster st')"
| git_remove: "handleProfileRemoveGitSSHKey sv api r session st = (resp, st') \<Longrightarrow> git_step sv cr api gs (st_cluster st) (st_cluster st')"
| git_other: "gs s' = gs s \<Longrightarrow> git_step sv cr api gs s s'"

definition keysFine :: "('s \<Rightarrow> string \<rightharpoonup> string gomap) \<Rightarrow> 's \<Rightarrow> bool" where
  "keysFine gs s \<longleftrightarrow> (\<forall>ns d. gs s ns = Some d \<longrightarrow> wfKeys d)"

lemma keysFine_upd: "keysFine gs s \<Longrightarrow> gs s' = (gs s)(ns \<mapsto> d) \<Longrightarrow> wfKeys d \<Longrightarrow> keysFine gs s'"
  by (simp add: keysFine_def)

lemma keysFine_same: "gs s' = gs s \<Longrightarrow> keysFine gs s \<Longrightarrow> keysFine gs s'"
  by (simp add: keysFine_def)

lemma keysFine_drop: "keysFine gs s \<Longrightarrow> gs s' = (gs s)(ns := None) \<Longrightarrow> keysFine gs s'"
  by (simp add: keysFine_def)

lemma keysFine_Put:
  assumes "git_laws api gs" "keysFine gs s" "validGitSSHHost host" "PutGitSSHKey cr k parse api tok ns host key s = (e, s')"
  shows "keysFine gs s'"
proof (cases e)
  case None
  from git_laws.PutGitSSHKey_ok [OF assms(1) assms(4) [unfolded None]] obtain ct facts d d' where
    d: "gs s ns = Some d \<or> gs s ns = None \<and> d = []" "distinct (map fst d)" "gs s' = (gs s)(ns \<mapsto> d')" "distinct (map fst d')"
      "map_of d' = map_of (addKeyData host ct facts d)" by blast
  have "d = [] \<or> wfKeys d" using d(1) assms(2) by (auto simp: keysFine_def)
  then show ?thesis using keysFine_upd [OF assms(2) d(3)] wfKeys_add [OF d(2) _ assms(3) d(4,5)] by blast
next
  case (Some err)
  from git_laws.PutGitSSHKey_refused [OF assms(1) assms(4) [unfolded Some]] assms(2) show ?thesis by (rule keysFine_same)
qed

lemma keysFine_Delete:
  assumes "git_laws api gs" "keysFine gs s" "DeleteGitSSHKey api tok ns host s = (e, s')"
  shows "keysFine gs s'"
proof -
  consider "gs s' = gs s" | "gs s' = (gs s)(ns := None)" | d d' where "gs s ns = Some d" "distinct (map fst d)" "filter (\<lambda>h. h \<noteq> host) (GitSSHHostsFromData d) \<noteq> []"
    "gs s' = (gs s)(ns \<mapsto> d')" "distinct (map fst d')" "map_of d' = map_of (dropKeyData host d)"
    using git_laws.DeleteGitSSHKey_cases [OF assms(1,3)] by blast
  then show ?thesis
  proof cases
    case 3
    have "wfKeys d" using assms(2) 3(1) unfolding keysFine_def by blast
    from wfKeys_drop [OF 3(2) this 3(3,5,6)] show ?thesis by (rule keysFine_upd [OF assms(2) 3(4)])
  next
    case 1
    then show ?thesis using assms(2) by (rule keysFine_same)
  next
    case 2
    with assms(2) show ?thesis by (rule keysFine_drop)
  qed
qed

lemma git_preserved: "git_laws api gs \<Longrightarrow> preserved (\<lambda>s. gs s = Map.empty) (git_step sv cr api gs) (keysFine gs)"
proof
  fix s assume "gs s = Map.empty"
  then show "keysFine gs s" by (simp add: keysFine_def)
next
  fix s t assume l: "git_laws api gs" and i: "keysFine gs s" and "git_step sv cr api gs s t"
  from this(3) show "keysFine gs t"
  proof cases
    case (git_add k parse r session st resp st')
    then show ?thesis using add_handler_puts [OF git_add(3)] keysFine_Put [OF l] i by metis
  next
    case (git_remove r session st resp st')
    then show ?thesis using remove_handler_deletes [OF git_remove(3)] keysFine_Delete [OF l] i by metis
  next
    case git_other
    then show ?thesis using i by (simp add: keysFine_def)
  qed
qed

text \<open>
  (C26) The stored keys are always in order: after any requests to add and remove keys, by anybody and whatever they were answered, each
  namespace has no Secret of keys or one that has a valid host or more, the public facts of exactly the keys there are, and a
  client configuration that names exactly their hosts.
\<close>

theorem git_keys_consistent:
  assumes "git_laws api gs" and "reach (\<lambda>s. gs s = Map.empty) (git_step sv cr api gs) s" and "gs s ns = Some d"
  shows "GitSSHHostsFromData d \<noteq> [] \<and> (\<forall>h\<in>set (GitSSHHostsFromData d). validGitSSHHost h) \<and>
    (\<forall>h. map_of d (GitSSHKeyMetaDataPrefix @ h) = None \<longleftrightarrow> map_of d (GitSSHKeyDataPrefix @ h) = None) \<and>
    (\<exists>cfg. map_of d ''config'' = Some cfg \<and> configHosts cfg = GitSSHHostsFromData d)"
proof -
  have "wfKeys d" using preserved.inv_reach [OF git_preserved [OF assms(1)] assms(2)] assms(3) by (simp add: keysFine_def)
  then show ?thesis using config_read by (auto simp: wfKeys_def)
qed

text \<open>
  (C25) A key that was stored reaches the workspaces: when the form answered with a redirect, the next reconcile of a workspace in that
  namespace that gets through mounts a Secret with that very key, with line feeds only and one at its end, under the host it was entered
  for, and a client configuration that names the host.
\<close>

theorem git_key_reaches_workspaces:
  assumes "git_laws api gs" and "secret_laws cl v" and "crypto_laws (we_crypto env)"
    and "\<And>s ns. gs s ns = wv_secrets v s (ns, GitSSHKeysSecretName)" and "keysFine gs (st_cluster st)"
    and "handleProfileAddGitSSHKey sv (we_crypto env) encryptionKey parse api r session st = (resp, st')" and "rs_page resp = NoPage"
    and "rq_form r = Inr f" and "ns = si_userSpaceNamespace (rs_identity session)" and "pem = normalizeLineEndings (TrimSpace (f ''key''))"
    and "wc_getSecret cl (we_GitSSHEncryptionKeyNamespace env) GitSSHEncryptionKeySecretName (st_cluster st') = Inr mk"
    and "map_of mk GitSSHEncryptionKeySecretDataKey = Some encryptionKey"
    and "ensureGitSSHRuntimeSecret cl env ns (st_cluster st') = (Inr ref, s')"
  shows "ref = Some GitSSHKeysRuntimeSecretName \<and> CHR 0x0D \<notin> set pem \<and> last pem = CHR 0x0A \<and>
    (\<exists>d cfg. wv_secrets v s' (ns, GitSSHKeysRuntimeSecretName) = Some d \<and> map_of d (GitSSHKeyDataPrefix @ TrimSpace (f ''host'')) = Some pem \<and>
       map_of d ''config'' = Some cfg \<and> TrimSpace (f ''host'') \<in> set (configHosts cfg))"
proof -
  let ?host = "TrimSpace (f ''host'')"
  have put: "PutGitSSHKey (we_crypto env) encryptionKey parse api (rs_token session) ns ?host pem (st_cluster st) = (None, st_cluster st')"
    and valid: "validGitSSHHost ?host"
    using assms(6,7)
    by (auto simp: handleProfileAddGitSSHKey_def assms(8-10) Let_def onCluster_def failWith_def respond_def renderProfileWith_def renderNotice_def
        split: option.splits if_splits privatekey.splits prod.splits giterr.splits)
  obtain ct facts d d' where enc: "EncryptGitSSHKey (we_crypto env) encryptionKey pem = Inr ct"
    and d': "gs (st_cluster st') = (gs (st_cluster st))(ns \<mapsto> d')" "map_of d' = map_of (addKeyData ?host ct facts d)"
    using git_laws.PutGitSSHKey_ok [OF assms(1) put] by blast
  have "wv_secrets v (st_cluster st') (ns, GitSSHKeysSecretName) = Some d'" using assms(4) [of "st_cluster st'" ns] d'(1) by simp
  from ensure_on [OF assms(2) this assms(13)] assms(11,12) obtain rt where
    rt: "ref = Some GitSSHKeysRuntimeSecretName" "wv_secrets v s' (ns, GitSSHKeysRuntimeSecretName) = Some rt"
      "map_of rt = (decrypted (we_crypto env) encryptionKey d')(''config'' \<mapsto> GitSSHConfig (GitSSHHostsFromData d'))" by auto
  have "gs (st_cluster st') ns = Some d'" using d'(1) by simp
  then have "wfKeys d'" using keysFine_Put [OF assms(1,5) valid put] unfolding keysFine_def by blast
  then have "configHosts (GitSSHConfig (GitSSHHostsFromData d')) = GitSSHHostsFromData d'" using config_read unfolding wfKeys_def by blast
  moreover have "?host \<in> set (GitSSHHostsFromData d')" by (simp add: hosts_mem d'(2) addKeyData_map)
  moreover have "decrypted (we_crypto env) encryptionKey d' (GitSSHKeyDataPrefix @ ?host) = Some pem"
    using decrypt_encrypted [OF assms(3) enc] by (simp add: decrypted_def d'(2) addKeyData_map HasPrefix_iff)
  ultimately show ?thesis using rt normalized by (simp add: assms(10))
qed

text \<open>
  Two keys that are added at the same time are both served, although the stored configuration is then wrong: when the second request read
  the Secret before the first had written it, both keys are kept, the configuration in the Secret names the second host only, and the
  one that workspaces are given, made from the keys there are, names both.
\<close>

theorem concurrent_keys_both_served:
  assumes "git_laws api gs" and "ga_get api tok ns s = Inr d" and "wfKeys d" and "validGitSSHHost h1" and "validGitSSHHost h2" and "h1 \<noteq> h2"
    and "PutGitSSHKey cr k parse api tok ns h1 pem1 s = (None, s1)"
    and "PutGitSSHKey cr k parse (api\<lparr>ga_get := (\<lambda>_ _ _. Inr d)\<rparr>) tok ns h2 pem2 s1 = (None, s2)"
  shows "\<exists>d' cfg. gs s2 ns = Some d' \<and> set (GitSSHHostsFromData d') = insert h1 (insert h2 (set (GitSSHHostsFromData d))) \<and>
    map_of d' ''config'' = Some cfg \<and> h1 \<notin> set (configHosts cfg) \<and> h2 \<in> set (configHosts cfg) \<and>
    {h1, h2} \<subseteq> set (configHosts (GitSSHConfig (GitSSHHostsFromData d')))"
proof -
  have dd: "gs s ns = Some d" "distinct (map fst d)" using git_laws.git_got [OF assms(1,2)] by simp_all
  from git_laws.PutGitSSHKey_ok [OF assms(1,7)] dd(1) obtain ct1 f1 d1 where
    d1: "map_of d (GitSSHKeyDataPrefix @ h1) = None" "gs s1 = (gs s)(ns \<mapsto> d1)" "map_of d1 = map_of (addKeyData h1 ct1 f1 d)" by auto
  from assms(8) obtain ct2 f2 where
    p2: "map_of d (GitSSHKeyDataPrefix @ h2) = None" "ga_patch api tok ns d (addKeyData h2 ct2 f2 d) s1 = (None, s2)"
    by (auto simp: PutGitSSHKey_def Let_def split: if_splits privatekey.splits sum.splits prod.splits option.splits)
  from git_laws.git_patched [OF assms(1) p2(2)] d1(2) obtain d' where
    d': "gs s2 ns = Some d'" "map_of d' = merged d (addKeyData h2 ct2 f2 d) d1" by auto
  let ?e = "AList.update (GitSSHKeyMetaDataPrefix @ h2) f2 (AList.update (GitSSHKeyDataPrefix @ h2) ct2 d)"
  have e: "set (GitSSHHostsFromData ?e) = insert h2 (set (GitSSHHostsFromData d))" by (auto simp: hosts_mem update_conv' split: if_splits)
  then have r: "configHosts (GitSSHConfig (GitSSHHostsFromData ?e)) = GitSSHHostsFromData ?e"
    using assms(3,5) by (intro config_read) (auto simp: wfKeys_def)
  have "h2 \<notin> set (GitSSHHostsFromData d)" using p2(1) by (simp add: hosts_mem)
  then have "GitSSHConfig (GitSSHHostsFromData ?e) \<noteq> GitSSHConfig (GitSSHHostsFromData d)"
    using r e config_read [of "GitSSHHostsFromData d"] assms(3) unfolding wfKeys_def by (metis insertI1)
  then have cfg: "map_of d' ''config'' = Some (GitSSHConfig (GitSSHHostsFromData ?e))"
    using assms(3) by (simp add: d'(2) merged_def addKeyData_map wfKeys_def)
  have none: "map_of d' (GitSSHKeyDataPrefix @ h) = None \<longleftrightarrow> h \<noteq> h1 \<and> h \<noteq> h2 \<and> map_of d (GitSSHKeyDataPrefix @ h) = None" for h
    using assms(6) by (auto simp: d'(2) d1(3) merged_def addKeyData_map p2(1))
  have hosts: "set (GitSSHHostsFromData d') = insert h1 (insert h2 (set (GitSSHHostsFromData d)))"
  proof (rule set_eqI)
    fix h show "h \<in> set (GitSSHHostsFromData d') \<longleftrightarrow> h \<in> insert h1 (insert h2 (set (GitSSHHostsFromData d)))"
      unfolding insert_iff hosts_mem none by (simp only: de_Morgan_conj not_not)
  qed
  then have "configHosts (GitSSHConfig (GitSSHHostsFromData d')) = GitSSHHostsFromData d'"
    using assms(3-5) by (intro config_read) (auto simp: wfKeys_def)
  moreover have "h1 \<notin> set (GitSSHHostsFromData ?e)" using e assms(6) d1(1) by (simp add: hosts_mem)
  ultimately show ?thesis using d'(1) hosts cfg r e by auto
qed

lemma Delete_done:
  assumes "git_laws api gs" "DeleteGitSSHKey api tok ns host s = (None, s')" "gs s ns = Some d" "map_of d (GitSSHKeyDataPrefix @ host) \<noteq> None"
  shows "if filter (\<lambda>h. h \<noteq> host) (GitSSHHostsFromData d) = [] then gs s' = (gs s)(ns := None)
    else \<exists>d'. gs s' = (gs s)(ns \<mapsto> d') \<and> distinct (map fst d') \<and> map_of d' = map_of (dropKeyData host d)"
proof -
  have "ga_get api tok ns s \<noteq> Inl NotFound" using git_laws.git_missing [OF assms(1)] assms(3) by force
  then have g: "ga_get api tok ns s = Inr d"
    using git_laws.git_got [OF assms(1)] assms(2,3) by (auto simp: DeleteGitSSHKey_def split: sum.splits if_splits elim: IsNotFound.elims)
  show ?thesis
  proof (cases "filter (\<lambda>h. h \<noteq> host) (GitSSHHostsFromData d) = []")
    case True
    obtain e t where del: "ga_delete api tok ns s = (e, t)" by fastforce
    have "e \<noteq> Some NotFound" using git_laws.git_delete_refused [OF assms(1)] del assms(3) by fastforce
    then have "ga_delete api tok ns s = (None, s')"
      using assms(2,4) g True del by (auto simp: DeleteGitSSHKey_def split: option.splits if_splits elim: IsNotFound.elims)
    then show ?thesis using True git_laws.git_deleted [OF assms(1)] by simp
  next
    case False
    then have "ga_patch api tok ns d (dropKeyData host d) s = (None, s')"
      using assms(2,4) g by (auto simp: DeleteGitSSHKey_def split: prod.splits option.splits)
    from git_laws.git_patched [OF assms(1) this] assms(3) False show ?thesis by (auto simp: merged_self)
  qed
qed

text \<open>
  Adding a key and taking it away again leaves nothing behind: the Secret is what it was, in every entry, or gone when there was none; and
  no other namespace is touched.
\<close>

theorem git_key_add_remove:
  assumes "git_laws api gs" and "keysFine gs s"
    and "PutGitSSHKey cr k parse api tok ns host pem s = (None, s1)" and "DeleteGitSSHKey api tok ns host s1 = (None, s2)"
  shows "(case gs s ns of None \<Rightarrow> gs s2 ns = None | Some d \<Rightarrow> \<exists>d2. gs s2 ns = Some d2 \<and> map_of d2 = map_of d) \<and>
    (\<forall>other. other \<noteq> ns \<longrightarrow> gs s2 other = gs s other)"
proof -
  from git_laws.PutGitSSHKey_ok [OF assms(1,3)] obtain ct facts d d1 where
    d: "gs s ns = Some d \<or> gs s ns = None \<and> d = []" "distinct (map fst d)" "map_of d (GitSSHKeyDataPrefix @ host) = None"
    and d1: "gs s1 = (gs s)(ns \<mapsto> d1)" "distinct (map fst d1)" "map_of d1 = map_of (addKeyData host ct facts d)" by blast
  have hosts: "filter (\<lambda>h. h \<noteq> host) (GitSSHHostsFromData d1) = GitSSHHostsFromData d"
  proof (rule sorted_distinct_set_unique)
    show "set (filter (\<lambda>h. h \<noteq> host) (GitSSHHostsFromData d1)) = set (GitSSHHostsFromData d)"
      using d(3) by (auto simp: hosts_mem d1(3) addKeyData_map split: if_splits)
  qed (simp_all add: hosts_sorted d(2) d1(2) sorted_filter [of id, simplified])
  have s1: "gs s1 ns = Some d1" "map_of d1 (GitSSHKeyDataPrefix @ host) \<noteq> None" by (simp_all add: d1 addKeyData_map)
  from Delete_done [OF assms(1,4) s1] have del: "if GitSSHHostsFromData d = [] then gs s2 = (gs s1)(ns := None)
    else \<exists>d'. gs s2 = (gs s1)(ns \<mapsto> d') \<and> distinct (map fst d') \<and> map_of d' = map_of (dropKeyData host d1)" by (simp only: hosts)
  show ?thesis
  proof (cases "gs s ns")
    case None
    then have "GitSSHHostsFromData d = []" using d(1) by (simp add: GitSSHHosts_alt)
    then show ?thesis using del None by (simp add: d1(1))
  next
    case (Some dd)
    then have wf: "wfKeys d" "gs s ns = Some d" using assms(2) d(1) by (auto simp: keysFine_def)
    then obtain d' where d': "gs s2 = (gs s1)(ns \<mapsto> d')" "map_of d' = map_of (dropKeyData host d1)" using del by (auto simp: wfKeys_def)
    have "map_of d' = map_of d"
    proof
      fix k
      have "map_of d (GitSSHKeyMetaDataPrefix @ host) = None" "map_of d ''config'' = Some (GitSSHConfig (GitSSHHostsFromData d))"
        using wf(1) d(3) unfolding wfKeys_def by blast+
      then show "map_of d' k = map_of d k" using d(3) by (simp add: d'(2) dropKeyData_map hosts d1(3) addKeyData_map)
    qed
    then show ?thesis using d'(1) wf(2) by (simp add: d1(1))
  qed
qed

section \<open>Witnesses\<close>

text \<open>The keys' Secrets among those of the cluster in memory of the controller's witnesses.\<close>

definition mergeList :: "string gomap \<Rightarrow> string gomap \<Rightarrow> string gomap \<Rightarrow> string gomap" where
  "mergeList before desired current =
     concat (map (\<lambda>k. case merged before desired current k of None \<Rightarrow> [] | Some v \<Rightarrow> [(k, v)]) (remdups (map fst current @ map fst desired)))"

lemma map_of_select: "map_of (concat (map (\<lambda>k. case f k of None \<Rightarrow> [] | Some v \<Rightarrow> [(k, v)]) ks)) x = (if x \<in> set ks then f x else None)"
  by (induction ks) (auto split: option.splits)

lemma keys_select: "distinct ks \<Longrightarrow> distinct (map fst (concat (map (\<lambda>k. case f k of None \<Rightarrow> [] | Some v \<Rightarrow> [(k, v)]) ks)))"
proof (induction ks)
  case (Cons k ks)
  have "k \<notin> set (map fst (concat (map (\<lambda>k. case f k of None \<Rightarrow> [] | Some v \<Rightarrow> [(k, v)]) ks)))"
    using Cons.prems by (auto split: option.splits)
  with Cons show ?case by (auto split: option.split)
qed simp

lemma mergeList_merges: "map_of (mergeList b d c) = merged b d c" "distinct (map fst (mergeList b d c))"
proof -
  have "map_of (mergeList b d c) k = merged b d c k" for k
  proof (cases "k \<in> fst ` set c \<union> fst ` set d")
    case False
    then have "map_of c k = None" "map_of d k = None" by (auto simp: map_of_eq_None_iff)
    with False show ?thesis by (simp add: mergeList_def map_of_select merged_def)
  qed (auto simp: mergeList_def map_of_select)
  then show "map_of (mergeList b d c) = merged b d c" by blast
  show "distinct (map fst (mergeList b d c))" unfolding mergeList_def by (rule keys_select) simp
qed

abbreviation memKeys :: "int ws_mem \<Rightarrow> string \<rightharpoonup> string gomap" where
  "memKeys s ns \<equiv> wm_secrets s (ns, GitSSHKeysSecretName)"

definition mem_git :: "int ws_mem gitapi" where
  "mem_git =
     \<lparr>ga_get = (\<lambda>_ ns s. case memKeys s ns of None \<Rightarrow> Inl NotFound | Some d \<Rightarrow> if distinct (map fst d) then Inr d else Inl (ApiErr ''malformed'')),
      ga_create = (\<lambda>_ ns d s. if memKeys s ns \<noteq> None then (Some AlreadyExists, s)
        else (None, s\<lparr>wm_secrets := (wm_secrets s)((ns, GitSSHKeysSecretName) \<mapsto> d)\<rparr>)),
      ga_patch = (\<lambda>_ ns d d' s. case memKeys s ns of None \<Rightarrow> (Some NotFound, s)
        | Some cur \<Rightarrow> (None, s\<lparr>wm_secrets := (wm_secrets s)((ns, GitSSHKeysSecretName) \<mapsto> mergeList d d' cur)\<rparr>)),
      ga_delete = (\<lambda>_ ns s. if memKeys s ns = None then (Some NotFound, s)
        else (None, s\<lparr>wm_secrets := (wm_secrets s)((ns, GitSSHKeysSecretName) := None)\<rparr>))\<rparr>"

interpretation mem_git_keys: git_laws mem_git memKeys
proof
  fix tok ns d d' s s' assume "ga_patch mem_git tok ns d d' s = (None, s')"
  then show "\<exists>cur new. memKeys s ns = Some cur \<and> memKeys s' = (memKeys s)(ns \<mapsto> new) \<and> distinct (map fst new) \<and> map_of new = merged d d' cur"
    using mergeList_merges by (fastforce simp: mem_git_def split: option.splits)
qed (auto simp: mem_git_def fun_eq_iff split: option.splits if_splits)

lemma mem_git_laws: "git_laws mem_git memKeys"
  by (rule mem_git_keys.git_laws_axioms)

definition demo_keyparse :: "string \<Rightarrow> privatekey" where
  "demo_keyparse pem = PrivateKey ''ssh-ed25519'' ''SHA256:x''"

definition demo_git0 :: "int ws_mem" where
  "demo_git0 = \<lparr>wm_secrets = [(''dwpk-system'', ''dwpk-git-ssh-encryption-key'') \<mapsto> [(''key'', ''abc'')]], wm_status = Map.empty, wm_children = Map.empty\<rparr>"

definition demo_git_server :: "(int, string, int ws_mem) uiserver" where
  "demo_git_server = \<lparr>sv_login = (\<lambda>_. demo_env), sv_providers = [], sv_basePath = '''', sv_sessionTTL = 100, sv_cookieSecure = True,
     sv_support = '''', sv_apiTokens = None, sv_tokenMinter = None, sv_localUsers = None,
     sv_passwordResets = None, sv_lib = demo_authlib, sv_uc = demo_uc, sv_code = (\<lambda>_. 403), sv_forToken = (\<lambda>_. None),
     sv_listUserSpaces = (\<lambda>_ _. Inr [demo_us]), sv_canI = (\<lambda>_ _ _ _ _. Inr True), sv_profileReads = (\<lambda>_ _. None), sv_patchMembership = (\<lambda>_ _ s. (None, s))\<rparr>"

abbreviation demo_git_form :: "string \<Rightarrow> string" where
  "demo_git_form \<equiv> \<lambda>n. if n = ''host'' then ''github.com'' else ''secret''"

abbreviation demo_git_req :: httpreq where
  "demo_git_req \<equiv> demo_them\<lparr>rq_form := Inr demo_git_form\<rparr>"

abbreviation demo_git_start :: "int ws_mem svstate" where
  "demo_git_start \<equiv> \<lparr>st_ui = demo_signed, st_cluster = demo_git0\<rparr>"

definition demo_pem :: string where
  "demo_pem = ''secret'' @ [CHR 0x0A]"

lemma demo_git_words: "demo_pem \<noteq> []" "TrimSpace ''github.com'' = ''github.com''" "TrimSpace ''secret'' = ''secret''" "normalizeLineEndings ''secret'' = demo_pem"
  "validGitSSHHost ''github.com''" "validGitSSHHost ''gitlab.com''" "validGitSSHHost ''example.com''"
  by code_simp+

lemma demo_encrypts: "EncryptGitSSHKey demo_crypto ''abc'' pem = Inr (''rr'' @ rev pem)"
  by (simp add: EncryptGitSSHKey_def newGCM_def demo_crypto_def demo_aead_def numeral_2_eq_2)

definition demo_stored :: "string gomap" where
  "demo_stored = addKeyData ''github.com'' (''rr'' @ rev demo_pem) ''ssh-ed25519 SHA256:x'' []"

definition demo_git1 :: "int ws_mem" where
  "demo_git1 = demo_git0\<lparr>wm_secrets := (wm_secrets demo_git0)((''dwpk-ana'', GitSSHKeysSecretName) \<mapsto> demo_stored)\<rparr>"

lemma demo_put_new:
  "memKeys s ns = None \<Longrightarrow> PutGitSSHKey demo_crypto ''abc'' demo_keyparse mem_git tok ns host pem s =
    (None, s\<lparr>wm_secrets := (wm_secrets s)((ns, GitSSHKeysSecretName) \<mapsto> addKeyData host (''rr'' @ rev pem) ''ssh-ed25519 SHA256:x'' [])\<rparr>)"
  by (simp add: PutGitSSHKey_def demo_keyparse_def demo_encrypts mem_git_def)

lemma demo_git0_empty: "memKeys demo_git0 = Map.empty"
  by (simp add: demo_git0_def GitSSHKeysSecretName_def fun_eq_iff)

lemma demo_put_first:
  "PutGitSSHKey demo_crypto ''abc'' demo_keyparse mem_git tok ''dwpk-ana'' ''github.com'' demo_pem demo_git0 = (None, demo_git1)"
  using demo_put_new [of demo_git0 "''dwpk-ana''"] demo_git0_empty by (simp add: demo_git1_def demo_stored_def fun_eq_iff)

lemma demo_git_add: "\<exists>resp st'. handleProfileAddGitSSHKey demo_git_server demo_crypto ''abc'' demo_keyparse mem_git demo_git_req demo_me demo_git_start = (resp, st') \<and>
    rs_page resp = NoPage \<and> st_cluster st' = demo_git1"
proof -
  have f: "sv_forToken demo_git_server tok = None" for tok by (simp add: demo_git_server_def)
  have i: "si_userSpaceNamespace (rs_identity demo_me) = ''dwpk-ana''" by (simp add: demo_as_def demo_identity_def)
  show ?thesis
    by (simp add: handleProfileAddGitSSHKey_def f i demo_keyparse_def demo_git_words demo_put_first onCluster_def redirectToProfileTab_def redirectTo_def Let_def)

qed

lemma demo_keys1: "memKeys demo_git1 ''dwpk-ana'' = Some demo_stored"
  by (simp add: demo_git1_def)

theorem git_keys_consistent_witness:
  "\<exists>cfg. memKeys demo_git1 ''dwpk-ana'' = Some demo_stored \<and> map_of demo_stored ''config'' = Some cfg \<and> configHosts cfg = GitSSHHostsFromData demo_stored"
proof -
  obtain resp st' where add: "handleProfileAddGitSSHKey demo_git_server demo_crypto ''abc'' demo_keyparse mem_git demo_git_req demo_me demo_git_start = (resp, st')"
    and st': "st_cluster st' = demo_git1" using demo_git_add by blast
  let ?step = "git_step demo_git_server demo_crypto mem_git memKeys"
  have "reach (\<lambda>s. memKeys s = Map.empty) ?step demo_git0" by (rule reach_start) (rule demo_git0_empty)
  moreover have "?step demo_git0 demo_git1" using git_add [OF add] by (simp add: st')
  ultimately have r: "reach (\<lambda>s. memKeys s = Map.empty) ?step demo_git1" by (rule reach_next)
  show ?thesis using git_keys_consistent [OF mem_git_laws, OF r, OF demo_keys1] demo_keys1 by blast
qed

lemma demo_stored_list: "demo_stored =
  [(''key-github.com'', ''rr'' @ rev demo_pem), (''meta-github.com'', ''ssh-ed25519 SHA256:x''), (''config'', GitSSHConfig [''github.com''])]"
proof -
  have "GitSSHHostsFromData [(''key-github.com'', c), (''meta-github.com'', f)] = [''github.com'']" for c f
    by (simp add: GitSSHHosts_alt keyHosts_def CutPrefix_def HasPrefix_def GitSSHKeyDataPrefix_def)
  then show ?thesis by (simp add: demo_stored_def addKeyData_def GitSSHKeyDataPrefix_def GitSSHKeyMetaDataPrefix_def)
qed

lemma demo_decrypts: "DecryptGitSSHKey demo_crypto ''abc'' (''rr'' @ rev pem) = Inr pem"
  by (simp add: DecryptGitSSHKey_def newGCM_def demo_crypto_def demo_aead_def numeral_2_eq_2)

lemma demo_decryptKeys: "decryptKeys demo_crypto ''abc'' demo_stored [] = Inr [(''key-github.com'', demo_pem)]"
  unfolding demo_stored_list using demo_decrypts [of demo_pem]
  by (simp add: CutPrefix_def HasPrefix_def GitSSHKeyDataPrefix_def)

lemma demo_stored_distinct: "distinct (map fst demo_stored)"
  by (simp add: demo_stored_list)

lemma demo_reads:
  "wc_getSecret (demo_cl 1 False) ''dwpk-ana'' GitSSHKeysSecretName demo_git1 = Inr demo_stored"
  "wc_getSecret (demo_cl 1 False) ''dwpk-ana'' GitSSHKeysRuntimeSecretName demo_git1 = Inl NotFound"
  "wc_getSecret (demo_cl 1 False) ''dwpk-system'' GitSSHEncryptionKeySecretName demo_git1 = Inr [(''key'', ''abc'')]"
  by (simp_all add: mem_ws_client_def demo_git1_def demo_stored_distinct demo_git0_def GitSSHKeysSecretName_def GitSSHKeysRuntimeSecretName_def GitSSHEncryptionKeySecretName_def)

lemma demo_ensure: "\<exists>s'. ensureGitSSHRuntimeSecret (demo_cl 1 False) demo_ws_env ''dwpk-ana'' demo_git1 = (Inr (Some GitSSHKeysRuntimeSecretName), s')"
proof -
  have e: "we_GitSSHEncryptionKeyNamespace demo_ws_env = ''dwpk-system''" "we_crypto demo_ws_env = demo_crypto" by (simp_all add: demo_ws_env_def)
  obtain s' where "wc_createSecret (demo_cl 1 False) ''dwpk-ana'' GitSSHKeysRuntimeSecretName
      (AList.update ''config'' (GitSSHConfig (GitSSHHostsFromData demo_stored)) [(''key-github.com'', demo_pem)]) demo_git1 = (None, s')"
    by (simp add: mem_ws_client_def demo_git1_def demo_git0_def GitSSHKeysSecretName_def GitSSHKeysRuntimeSecretName_def)
  then show ?thesis
    unfolding ensureGitSSHRuntimeSecret_def e demo_reads by (simp add: GitSSHEncryptionKeySecretDataKey_def demo_decryptKeys)
qed

theorem git_key_reaches_workspaces_witness:
  "\<exists>s' d. ensureGitSSHRuntimeSecret (demo_cl 1 False) demo_ws_env ''dwpk-ana'' demo_git1 = (Inr (Some GitSSHKeysRuntimeSecretName), s') \<and>
     wm_secrets s' (''dwpk-ana'', GitSSHKeysRuntimeSecretName) = Some d \<and> map_of d ''key-github.com'' = Some (''secret'' @ [CHR 0x0A])"
proof -
  obtain resp st' where add: "handleProfileAddGitSSHKey demo_git_server (we_crypto demo_ws_env) ''abc'' demo_keyparse mem_git demo_git_req demo_me demo_git_start = (resp, st')"
    and p: "rs_page resp = NoPage" and st': "st_cluster st' = demo_git1"
    using demo_git_add by (auto simp: demo_ws_env_def)
  obtain s' where run: "ensureGitSSHRuntimeSecret (demo_cl 1 False) demo_ws_env ''dwpk-ana'' (st_cluster st') = (Inr (Some GitSSHKeysRuntimeSecretName), s')"
    using demo_ensure st' by metis
  have l: "crypto_laws (we_crypto demo_ws_env)" by (auto simp: demo_ws_env_def crypto_laws_def demo_crypto_def demo_aead_def)
  have v: "memKeys s ns = wv_secrets mem_ws_view s (ns, GitSSHKeysSecretName)" for s ns by (simp add: mem_ws_view_def)
  have fine: "keysFine memKeys (st_cluster demo_git_start)" using demo_git0_empty by (simp add: keysFine_def fun_eq_iff)
  have mk: "wc_getSecret (demo_cl 1 False) (we_GitSSHEncryptionKeyNamespace demo_ws_env) GitSSHEncryptionKeySecretName (st_cluster st') = Inr [(''key'', ''abc'')]"
    by (simp add: st' mem_ws_client_def demo_ws_env_def demo_git1_def demo_git0_def GitSSHEncryptionKeySecretName_def)
  have k: "map_of [(''key'', ''abc'')] GitSSHEncryptionKeySecretDataKey = Some ''abc''" by (simp add: GitSSHEncryptionKeySecretDataKey_def)
  have ns: "''dwpk-ana'' = si_userSpaceNamespace (rs_identity demo_me)" by (simp add: demo_as_def demo_identity_def)
  have f: "rq_form demo_git_req = Inr demo_git_form" by simp
  have pem: "demo_pem = normalizeLineEndings (TrimSpace (demo_git_form ''key''))" by (simp add: demo_git_words)
  note R = git_key_reaches_workspaces [OF mem_git_laws, OF mem_secret_laws, OF l, OF v, OF fine, OF add, OF p, OF f, OF ns, OF pem, OF mk, OF k, OF run]
  then show ?thesis using run by (auto simp: demo_git_words st' mem_ws_view_def GitSSHKeyDataPrefix_def demo_pem_def)
qed

lemma demo_put:
  assumes "case memKeys s ns of None \<Rightarrow> True | Some d \<Rightarrow> distinct (map fst d) \<and> map_of d (GitSSHKeyDataPrefix @ host) = None"
  shows "\<exists>s'. PutGitSSHKey demo_crypto ''abc'' demo_keyparse mem_git tok ns host pem s = (None, s')"
  using assms by (auto simp: PutGitSSHKey_def demo_keyparse_def demo_encrypts mem_git_def Let_def split: option.splits)

lemma demo_git_delete: "DeleteGitSSHKey mem_git tok ''dwpk-ana'' ''github.com'' demo_git1 = (None, demo_git1\<lparr>wm_secrets := (wm_secrets demo_git1)((''dwpk-ana'', GitSSHKeysSecretName) := None)\<rparr>)"
  by (simp add: DeleteGitSSHKey_def mem_git_def demo_keys1) (simp add: demo_stored_list GitSSHHosts_alt keyHosts_def CutPrefix_def HasPrefix_def GitSSHKeyDataPrefix_def)

theorem git_key_add_remove_witness:
  "PutGitSSHKey demo_crypto ''abc'' demo_keyparse mem_git '''' ''dwpk-ana'' ''github.com'' demo_pem demo_git0 = (None, demo_git1) \<and>
   memKeys (snd (DeleteGitSSHKey mem_git '''' ''dwpk-ana'' ''github.com'' demo_git1)) ''dwpk-ana'' = None"
proof -
  have fine: "keysFine memKeys demo_git0" using demo_git0_empty by (simp add: keysFine_def fun_eq_iff)
  have none: "memKeys demo_git0 ''dwpk-ana'' = None" using demo_git0_empty by (simp add: fun_eq_iff)
  show ?thesis using git_key_add_remove [OF mem_git_laws, OF fine, OF demo_put_first, OF demo_git_delete] none by (simp add: demo_put_first demo_git_delete)
qed

theorem concurrent_keys_both_served_witness:
  "\<exists>s1 s2 d' cfg. PutGitSSHKey demo_crypto ''abc'' demo_keyparse mem_git '''' ''dwpk-ana'' ''gitlab.com'' ''k1'' demo_git1 = (None, s1) \<and>
     PutGitSSHKey demo_crypto ''abc'' demo_keyparse (mem_git\<lparr>ga_get := (\<lambda>_ _ _. Inr demo_stored)\<rparr>) '''' ''dwpk-ana'' ''example.com'' ''k2'' s1 = (None, s2) \<and>
     memKeys s2 ''dwpk-ana'' = Some d' \<and> map_of d' ''config'' = Some cfg \<and> ''gitlab.com'' \<notin> set (configHosts cfg)"
proof -
  have w: "wfKeys demo_stored" unfolding demo_stored_def
    by (rule wfKeys_add [where d = "[]"]) (simp_all add: demo_git_words addKeyData_def distinct_update)
  have d: "distinct (map fst demo_stored)" "map_of demo_stored (GitSSHKeyDataPrefix @ ''gitlab.com'') = None" "map_of demo_stored (GitSSHKeyDataPrefix @ ''example.com'') = None"
    by (simp_all add: demo_stored_list GitSSHKeyDataPrefix_def)
  have g: "ga_get mem_git '''' ''dwpk-ana'' demo_git1 = Inr demo_stored" by (simp add: mem_git_def demo_keys1 d)
  obtain s1 where 1: "PutGitSSHKey demo_crypto ''abc'' demo_keyparse mem_git '''' ''dwpk-ana'' ''gitlab.com'' ''k1'' demo_git1 = (None, s1)"
    using demo_put [where s = demo_git1 and ns = "''dwpk-ana''" and host = "''gitlab.com''"] demo_keys1 d by fastforce
  obtain d1 where "memKeys s1 = (memKeys demo_git1)(''dwpk-ana'' \<mapsto> d1)" using git_laws.PutGitSSHKey_ok [OF mem_git_laws 1] by blast
  then have "memKeys s1 ''dwpk-ana'' \<noteq> None" by (metis fun_upd_same option.distinct(1))
  then obtain s2 where 2: "PutGitSSHKey demo_crypto ''abc'' demo_keyparse (mem_git\<lparr>ga_get := (\<lambda>_ _ _. Inr demo_stored)\<rparr>) '''' ''dwpk-ana'' ''example.com'' ''k2'' s1 = (None, s2)"
    using d(3) by (auto simp: PutGitSSHKey_def demo_keyparse_def demo_encrypts mem_git_def split: option.splits)
  have h: "validGitSSHHost ''gitlab.com''" "validGitSSHHost ''example.com''" "''gitlab.com'' \<noteq> ''example.com''" by (simp_all add: demo_git_words)
  from concurrent_keys_both_served [OF mem_git_laws, OF g, OF w, OF h, OF 1, OF 2] obtain d' cfg where
    "memKeys s2 ''dwpk-ana'' = Some d'" "map_of d' ''config'' = Some cfg" "''gitlab.com'' \<notin> set (configHosts cfg)" by (elim exE conjE)
  with 1 2 show ?thesis by (intro exI conjI)
qed

end
