(* ===== verification/Spec2Isabelle.thy ===== *)
theory Spec2Isabelle
  imports WebhookUserSpace ImageRegistryController WorkspaceController UserSpaceController Gateway Bootstrap UiCatalog UiGitKeys
begin

text \<open>
  A verification development for dwpk, a platform that gives people development workspaces on a Kubernetes cluster. This is the
  root theory; it imports all others and holds no definitions of its own.

  \<^bold>\<open>The program.\<close> Four custom resources describe a platform: a UserSpace is a person with a namespace, a quota and a role; a
  Workspace is a machine of that person with a home volume; a WorkspaceImage is an entry of the catalog of images, and an
  ImageRegistry a source of such entries. A fifth, PlatformConfig, holds the settings of the installation. Three processes work
  on them and meet only in the API server:

  \<^item> the manager: admission webhooks, which decide what may be stored, and three reconcilers, which turn what is stored into
    namespaces, role bindings, StatefulSets, Services, Secrets and catalog entries;
  \<^item> the gateway: an SSH server that authenticates a connection by the keys of the Workspaces and runs the session in the pod;
  \<^item> the web interface: sign-in with a provider or a password, screens, and a REST interface with API tokens. It acts on the
    cluster under a token minted for the caller's own service account, so that the API server decides what a caller may do.

  A bootstrap hook creates the first administrator.

  \<^bold>\<open>Theories and the code they model\<close> (paths below \<^verbatim>\<open>src/\<close>), in the order in which they build on one another.

  \<^item> \<open>Prelude\<close>: Go strings as byte strings and the \<^verbatim>\<open>strings\<close> functions used, Go maps as association lists in iteration order,
    formatting of integers, signed 32-bit counters; the locales \<open>meter\<close> (adding up a measure over a list), \<open>preserved\<close> (an
    invariant of a step relation, with the predicate \<open>reach\<close>) and \<open>implements\<close> (forward simulation).
  \<^item> \<open>Runes\<close>: UTF-8 decoding as Go does it, case tables of \<^verbatim>\<open>unicode\<close> beyond ASCII being a parameter.
  \<^item> \<open>ApiTypes\<close>: \<^verbatim>\<open>api/v1alpha1\<close>, the resources as records and their methods.
  \<^item> \<open>WebhookWorkspace\<close>, \<open>WebhookUserSpace\<close>: \<^verbatim>\<open>internal/webhook\<close>. Mutation, validation, the quota meter, keys, role grants, and
    the stores they guard as step relations \<open>ws_step\<close> and \<open>us_step\<close>.
  \<^item> \<open>Registry\<close>: \<^verbatim>\<open>internal/registry\<close>, listing a registry page by page and selecting repositories and tags.
  \<^item> \<open>KubeClient\<close>: \<^verbatim>\<open>internal/controller/apply.go\<close>, and the locale \<open>applier_laws\<close>.
  \<^item> \<open>ImageRegistryController\<close>, \<open>WorkspaceController\<close>, \<open>UserSpaceController\<close>: the reconcilers of \<^verbatim>\<open>internal/controller\<close>, each a
    function from the state of the cluster to a result and a new state, with every call that changes something.
  \<^item> \<open>WorkspaceObjects\<close>, \<open>UserSpaceObjects\<close>: \<^verbatim>\<open>internal/workspace\<close> and \<^verbatim>\<open>userspace_objects.go\<close>, \<^verbatim>\<open>role_objects.go\<close>: the objects the
    reconcilers build, the encryption of Git keys, and an evaluation of RBAC rules that says what the built roles permit.
  \<^item> \<open>Gateway\<close>: \<^verbatim>\<open>internal/gateway\<close>. Connections and sessions are step relations (\<open>conn_step\<close>, \<open>session_step\<close>).
  \<^item> \<open>SecretStore\<close>, \<open>Tokens\<close>, \<open>LocalUsers\<close>, \<open>Sessions\<close>: the stores of \<^verbatim>\<open>internal/auth\<close> over the Secrets of one namespace.
  \<^item> \<open>Bootstrap\<close>: \<^verbatim>\<open>internal/bootstrap\<close>.
  \<^item> \<open>LoginFlow\<close>: \<^verbatim>\<open>internal/ui/auth_handlers.go\<close>, \<^verbatim>\<open>challenges.go\<close>, \<^verbatim>\<open>csrf.go\<close> and the providers of \<^verbatim>\<open>internal/auth\<close>.
  \<^item> \<open>UiServer\<close>: middlewares, cookies, redirects, sign-in pages and error pages of \<^verbatim>\<open>internal/ui\<close>.
  \<^item> \<open>UiAccounts\<close>: tokens, reset links, local accounts, passwords and memberships.
  \<^item> \<open>UiForms\<close>: the pure functions behind the screens: forms, the quota screen, pages, names made of titles, events.
  \<^item> \<open>UiWorkspaces\<close>: the routes that create, start, stop, resize and delete workspaces.
  \<^item> \<open>UiCatalog\<close>: catalog entries, registries, the icon proxy, settings and their cache.
  \<^item> \<open>UiPeople\<close>: creating and removing people, quotas, own SSH keys, onboarding.
  \<^item> \<open>UiGitKeys\<close>: the Git SSH keys of a person, from the form to the Secret that a workspace mounts.

  \<^bold>\<open>State.\<close> The cluster is an abstract type \<open>'s\<close>. Each client that the code holds is a record of its calls over \<open>'s\<close>
  (\<open>ws_client\<close>, \<open>usapi\<close>, \<open>gitapi\<close>, \<open>sec_client\<close> and others), and a view, a function from \<open>'s\<close> to a map, reads the objects.
  A handler of the web interface takes and returns \<open>svstate\<close>: the tables in memory of the process (\<open>uistate\<close>: sessions, cached
  identities, challenges, CSRF tokens) and the cluster. Errors are values: \<open>apierr\<close> for the API server, one datatype for each
  component on top; a handler answers with a \<open>response\<close>, whose page is \<open>NoPage\<close> for a redirect or an empty answer.

  \<^bold>\<open>Parameters and their laws.\<close> Code that is not in the repository is an argument: the API server, bcrypt, SHA-256, AES-GCM, the
  SSH key parsers, the OAuth and OIDC libraries, the image decoders, quantity parsing, the web as the icon proxy sees it, the
  clock and the random source. What a theorem relies on is a named hypothesis: a locale (\<open>sec_laws\<close>, \<open>applier_laws\<close>,
  \<open>secret_laws\<close>, \<open>status_laws\<close>, \<open>child_laws\<close>, \<open>us_laws\<close>, \<open>ws_client_laws\<close>, \<open>people_laws\<close>, \<open>git_laws\<close>) or a definition such as
  \<open>bcrypt_law\<close> and \<open>crypto_laws\<close>. They say that an accepted write is what later reads return, that a refused one changes nothing,
  and that other objects keep. No law says that a call succeeds. Every locale is interpreted, the client laws on stores in
  memory, on which the witnesses run the handlers. The API server's own validation against the CRD schema enters as a parameter
  \<open>schema\<close> or as a hypothesis that names the field.

  \<^bold>\<open>What the groups of lemmas show.\<close>

  \<^item> Admission: the running workspaces of a namespace never add up to more than its quota, however creates, updates and deletes
    follow each other; nobody makes themselves an administrator; sign-in names stay unique; a stored Workspace has no key, volume
    or variable that the operator reserves.
  \<^item> Reconcilers: a run without an error has made the cluster what the spec says (catalog entries, workload, role grants), has
    reported it, and has touched nothing that belongs to others; a failed run reports the failure and does not panic.
  \<^item> Sign-in: the process refines an abstract table of who is signed in as whom; every identity was proved, for an enabled
    and unique UserSpace; a login callback is bound to a browser and used once; pages and API calls are served under the caller's
    own credential and, when they change something, with the CSRF token.
  \<^item> Stores: tokens, reset links and accounts live and end as their functions promise, on every branch.
  \<^item> Gateway: a connection reaches exactly the one workspace whose user name and key it presented; at most one command runs.
  \<^item> Screens: the quota screen equals the webhook's arithmetic; a preview is what is submitted; deletions are confirmed, ordered
    and confined; forms and patches round trip; a Git key that was accepted arrives in the workspace.
  \<^item> Deviations: where the code does something its comments or its purpose exclude, a theorem states the behaviour of the code,
    for example a read-only token that issues a full one, a GPU quota that cannot be withdrawn, a redirect that leads the icon
    proxy inside the cluster, and a resize after the end of a command that crashes the gateway.

  \<^bold>\<open>Bounds and termination.\<close> All functions are total. The pages of a registry and the loops over lists of objects are
  recursions on the list; \<open>clientDo\<close> follows nine redirects, after which the Go client refuses the tenth with the error the model
  returns, so the counter never cuts off what the code would do; \<open>slugTry\<close> counts to the ten attempts of the code. Integers keep
  their width where the code narrows or may wrap: 32-bit counters and limits go through \<open>wrap32\<close>, terminal sizes and exit codes
  are words.

  \<^bold>\<open>Interleaving.\<close> Handlers and reconcilers are single steps in most theorems; where the code can interleave, the steps are
  explicit: the session loop with its command, the stores under any sequence of operations, and pairs of calls that act on one
  stale read (double redemption of a reset link, concurrent Git keys). The mutexes of the in-memory tables make each of their
  operations atomic, as they are here.

  \<^bold>\<open>Not modelled.\<close> HTML templates, the static pages and the theme cookie, the route table, log lines and events, the WebSocket
  and SSH wire protocols and the exec stream, DeepCopy methods, the watches and client construction of the three \<^verbatim>\<open>main\<close>
  packages, and the deployment manifests. The list pages that only render are left out where they decide nothing.
\<close>

end
